(* ===== verification/Prelude.thy ===== *)
theory Prelude
  imports Main "HOL-Library.Word" "HOL-Library.Multiset"
begin

text \<open>
  What every component of the development shares: the machine-integer types, the decimal
  rendering the C++ library's std::to_string gives, the results of operations that may throw,
  and generic facts about lists, strings and filtered traces.

  An operation that may throw is a function that returns a pair: \<open>None\<close> or \<open>Some\<close> exception,
  and the state it leaves. The state is there on both outcomes, because in C++ an exception does
  not undo what was done before it.
\<close>

section \<open>Types and collections of facts\<close>

type_synonym u16 = "16 word"
type_synonym u32 = "32 word"

named_theorems fabric_facts
named_theorems journal_facts
named_theorems runner_facts

section \<open>Decimal rendering\<close>

definition digit_char :: "nat \<Rightarrow> char" where
  "digit_char d = char_of (48 + d)"

definition is_digit :: "char \<Rightarrow> bool" where
  "is_digit c \<longleftrightarrow> 48 \<le> (of_char c :: nat) \<and> (of_char c :: nat) \<le> 57"

definition digit_val :: "char \<Rightarrow> nat" where
  "digit_val c = of_char c - 48"

fun show_nat :: "nat \<Rightarrow> string" where
  "show_nat n = (if n < 10 then [digit_char n] else show_nat (n div 10) @ [digit_char (n mod 10)])"

declare show_nat.simps [simp del]

definition show_int :: "int \<Rightarrow> string" where
  "show_int i = (if i < 0 then CHR ''-'' # show_nat (nat (- i)) else show_nat (nat i))"

definition read_nat :: "string \<Rightarrow> nat" where
  "read_nat s = foldl (\<lambda>a c. a * 10 + digit_val c) 0 s"

lemma of_char_digit_char [simp]: "d < 10 \<Longrightarrow> (of_char (digit_char d) :: nat) = 48 + d"
  by (simp add: digit_char_def)

lemma is_digit_digit_char [simp]: "d < 10 \<Longrightarrow> is_digit (digit_char d)"
  by (simp add: is_digit_def)

lemma digit_val_digit_char [simp]: "d < 10 \<Longrightarrow> digit_val (digit_char d) = d"
  by (simp add: digit_val_def)

lemma digit_char_simps:
  "digit_char 0 = CHR ''0''" "digit_char 1 = CHR ''1''" "digit_char 2 = CHR ''2''" "digit_char 3 = CHR ''3''"
  "digit_char 4 = CHR ''4''" "digit_char 5 = CHR ''5''" "digit_char 6 = CHR ''6''" "digit_char 7 = CHR ''7''"
  "digit_char 8 = CHR ''8''" "digit_char 9 = CHR ''9''"
  by code_simp+

lemma show_nat_nonempty [simp]: "show_nat n \<noteq> []"
  by (subst show_nat.simps) simp

lemma show_nat_digits: "c \<in> set (show_nat n) \<Longrightarrow> is_digit c"
proof (induction n rule: show_nat.induct)
  case (1 n)
  then show ?case
    by (cases "n < 10") (auto simp: show_nat.simps [of n])
qed

lemma read_nat_snoc [simp]: "read_nat (s @ [c]) = read_nat s * 10 + digit_val c"
  by (simp add: read_nat_def)

lemma read_show_nat [simp]: "read_nat (show_nat n) = n"
proof (induction n rule: show_nat.induct)
  case (1 n)
  show ?case
  proof (cases "n < 10")
    case True
    then show ?thesis
      by (simp add: show_nat.simps [of n] read_nat_def)
  next
    case False
    with 1 show ?thesis
      by (simp add: show_nat.simps [of n])
  qed
qed

lemma show_nat_inj: "show_nat m = show_nat n \<longleftrightarrow> m = n"
  by (metis read_show_nat)

section \<open>Lists\<close>

lemma list_all_append_iff: "list_all P (xs @ ys) \<longleftrightarrow> list_all P xs \<and> list_all P ys"
  by simp

lemma find_SomeD: "find P xs = Some x \<Longrightarrow> x \<in> set xs \<and> P x"
  by (induction xs) (auto split: if_splits)

text \<open>The position of the first element equal to x: std::ranges::find minus begin.\<close>

fun index_of :: "'a \<Rightarrow> 'a list \<Rightarrow> nat option" where
  "index_of x [] = None"
| "index_of x (y # ys) = (if y = x then Some 0 else map_option Suc (index_of x ys))"

lemma index_of_None: "index_of x xs = None \<longleftrightarrow> x \<notin> set xs"
  by (induction xs) auto

lemma index_of_Some: "index_of x xs = Some i \<Longrightarrow> i < length xs \<and> xs ! i = x \<and> x \<notin> set (take i xs)"
  by (induction xs arbitrary: i) (auto split: if_splits)

lemma index_of_nth: "distinct xs \<Longrightarrow> i < length xs \<Longrightarrow> index_of (xs ! i) xs = Some i"
proof (induction xs arbitrary: i)
  case Nil
  then show ?case by simp
next
  case (Cons y ys)
  then show ?case by (cases i) auto
qed

text \<open>
  The idiom of the tables that list each name once, in the order it first occurs:
  a name is pushed when std::ranges::find does not see it yet.
\<close>

fun push_new :: "'a list \<Rightarrow> 'a list \<Rightarrow> 'a list" where
  "push_new names [] = names"
| "push_new names (x # xs) = push_new (if x \<in> set names then names else names @ [x]) xs"

lemma set_push_new [simp]: "set (push_new names xs) = set names \<union> set xs"
  by (induction xs arbitrary: names) auto

lemma distinct_push_new: "distinct names \<Longrightarrow> distinct (push_new names xs)"
  by (induction xs arbitrary: names) auto

section \<open>Splitting a string at its first separator\<close>

text \<open>
  std::string_view::find with substr on both sides: None when the separator does not occur,
  otherwise what stands before its first occurrence and what stands after.
\<close>

fun split_first :: "char \<Rightarrow> string \<Rightarrow> (string \<times> string) option" where
  "split_first c [] = None"
| "split_first c (x # xs) =
     (if x = c then Some ([], xs)
      else map_option (\<lambda>(a, b). (x # a, b)) (split_first c xs))"

lemma split_first_None: "split_first c s = None \<longleftrightarrow> c \<notin> set s"
  by (induction s) (auto split: option.splits)

lemma split_first_Some: "split_first c s = Some (a, b) \<longleftrightarrow> s = a @ c # b \<and> c \<notin> set a"
proof (induction s arbitrary: a)
  case Nil
  then show ?case by simp
next
  case (Cons x xs)
  then show ?case by (cases a) auto
qed

lemma split_first_append [simp]: "c \<notin> set a \<Longrightarrow> split_first c (a @ c # b) = Some (a, b)"
  by (simp add: split_first_Some)

section \<open>Splitting at every separator, trimming\<close>

text \<open>
  The loop \<open>for (start = 0; start <= size; start = comma + 1)\<close> over find and substr: one field
  more than there are separators, empty fields kept.
\<close>

fun split_on :: "char \<Rightarrow> string \<Rightarrow> string list" where
  "split_on c [] = [[]]"
| "split_on c (x # xs) =
     (if x = c then [] # split_on c xs
      else (case split_on c xs of f # fs \<Rightarrow> (x # f) # fs | [] \<Rightarrow> [[x]]))"

lemma split_on_nonempty [simp]: "split_on c s \<noteq> []"
  by (induction s) (auto split: list.splits)

lemma split_on_plain: "c \<notin> set s \<Longrightarrow> split_on c s = [s]"
  by (induction s) auto

lemma split_on_append: "c \<notin> set a \<Longrightarrow> split_on c (a @ c # b) = a # split_on c b"
  by (induction a) auto

lemma length_split_on: "length (split_on c s) = Suc (count_list s c)"
  by (induction s) (auto split: list.splits)

definition trim_with :: "char set \<Rightarrow> string \<Rightarrow> string" where
  "trim_with ws s = rev (dropWhile (\<lambda>c. c \<in> ws) (rev (dropWhile (\<lambda>c. c \<in> ws) s)))"

lemma trim_with_id: "s = [] \<or> (hd s \<notin> ws \<and> last s \<notin> ws) \<Longrightarrow> trim_with ws s = s"
proof (cases s)
  case Nil
  then show ?thesis by (simp add: trim_with_def)
next
  case (Cons x xs)
  assume "s = [] \<or> (hd s \<notin> ws \<and> last s \<notin> ws)"
  with Cons have h: "hd s \<notin> ws" and l: "last s \<notin> ws" by auto
  from h Cons have "dropWhile (\<lambda>c. c \<in> ws) s = s" by simp
  moreover have "dropWhile (\<lambda>c. c \<in> ws) (rev s) = rev s"
    using l Cons by (cases "rev s") (auto simp: last_rev hd_rev [symmetric])
  ultimately show ?thesis by (simp add: trim_with_def)
qed

section \<open>Reading an int, whole text\<close>

text \<open>
  std::from_chars for int, together with the callers' check that the whole text was read: an
  optional minus sign, at least one digit, and a value that fits 32 bits.
\<close>

definition from_chars_int :: "string \<Rightarrow> int option" where
  "from_chars_int s =
     (let (neg, ds) = (case s of [] \<Rightarrow> (False, [])
                        | c # cs \<Rightarrow> if c = CHR ''-'' then (True, cs) else (False, s))
      in if ds \<noteq> [] \<and> list_all is_digit ds
         then (let v = (if neg then - int (read_nat ds) else int (read_nat ds))
               in if - 2147483648 \<le> v \<and> v \<le> 2147483647 then Some v else None)
         else None)"

lemma minus_not_digit [simp]: "\<not> is_digit (CHR ''-'')"
  by (simp add: is_digit_def)

lemma comma_not_digit [simp]: "\<not> is_digit (CHR '','')"
  by (simp add: is_digit_def)

lemma colon_not_digit [simp]: "\<not> is_digit (CHR '':'')"
  by (simp add: is_digit_def)

lemma list_all_show_nat [simp]: "list_all is_digit (show_nat n)"
  by (auto simp: list_all_iff dest: show_nat_digits)

lemma show_nat_hd: "is_digit (hd (show_nat n))"
  using show_nat_digits hd_in_set show_nat_nonempty by blast

lemma notin_show_nat: "\<not> is_digit c \<Longrightarrow> c \<notin> set (show_nat n)"
  using show_nat_digits by blast

lemma notin_show_int: "\<not> is_digit c \<Longrightarrow> c \<noteq> CHR ''-'' \<Longrightarrow> c \<notin> set (show_int n)"
  by (auto simp: show_int_def dest: show_nat_digits)

lemma from_chars_show_nat:
  "n \<le> 2147483647 \<Longrightarrow> from_chars_int (show_nat n) = Some (int n)"
proof -
  assume n: "n \<le> 2147483647"
  obtain c cs where s: "show_nat n = c # cs" by (cases "show_nat n") auto
  have "is_digit c" using show_nat_digits [of c n] s by simp
  then have "c \<noteq> CHR ''-''" by auto
  with s n show ?thesis
    using list_all_show_nat [of n] read_show_nat [of n]
    by (simp add: from_chars_int_def Let_def)
qed

lemma from_chars_show_int [simp]:
  "- 2147483648 \<le> i \<Longrightarrow> i \<le> 2147483647 \<Longrightarrow> from_chars_int (show_int i) = Some i"
proof (cases "i < 0")
  case True
  assume "- 2147483648 \<le> i"
  with True show ?thesis
    by (simp add: show_int_def from_chars_int_def Let_def)
next
  case False
  assume "i \<le> 2147483647"
  with False show ?thesis
    by (simp add: show_int_def from_chars_show_nat)
qed

lemma from_chars_int_range:
  "from_chars_int s = Some v \<Longrightarrow> - 2147483648 \<le> v \<and> v \<le> 2147483647"
  by (auto simp: from_chars_int_def Let_def split: if_splits prod.splits)

text \<open>std::from_chars for the 64 bit types, whole text.\<close>

definition from_chars_u64 :: "string \<Rightarrow> 64 word option" where
  "from_chars_u64 s =
     (if s \<noteq> [] \<and> list_all is_digit s \<and> read_nat s < 2 ^ 64 then Some (word_of_nat (read_nat s)) else None)"

definition in_int64 :: "int \<Rightarrow> bool" where
  "in_int64 v \<longleftrightarrow> - (2 ^ 63) \<le> v \<and> v < 2 ^ 63"

definition from_chars_i64 :: "string \<Rightarrow> int option" where
  "from_chars_i64 s =
     (let (neg, ds) = (case s of [] \<Rightarrow> (False, [])
                        | c # cs \<Rightarrow> if c = CHR ''-'' then (True, cs) else (False, s));
          v = (if neg then - int (read_nat ds) else int (read_nat ds))
      in if ds \<noteq> [] \<and> list_all is_digit ds \<and> in_int64 v then Some v else None)"

lemma from_chars_u64_show [simp]: "from_chars_u64 (show_nat (unat (w :: 64 word))) = Some w"
proof -
  have "unat w < 2 ^ LENGTH(64)" by (rule unsigned_less)
  then show ?thesis by (simp add: from_chars_u64_def)
qed

lemma from_chars_i64_show [simp]: "in_int64 v \<Longrightarrow> from_chars_i64 (show_int v) = Some v"
proof (cases "v < 0")
  case True
  assume "in_int64 v"
  with True show ?thesis by (simp add: show_int_def from_chars_i64_def)
next
  case False
  assume v: "in_int64 v"
  obtain c cs where s: "show_nat (nat v) = c # cs" by (cases "show_nat (nat v)") auto
  then have "c \<noteq> CHR ''-''" using show_nat_hd [of "nat v"] by auto
  with False v s show ?thesis
    using list_all_show_nat [of "nat v"] read_show_nat [of "nat v"]
    by (simp add: show_int_def from_chars_i64_def)
qed

section \<open>Lines and fields of a stream\<close>

text \<open>std::getline until it fails: a last line that is empty is not one.\<close>

definition lines_of :: "string \<Rightarrow> string list" where
  "lines_of s =
     (let ls = split_on (CHR 0x0A) s in if last ls = [] then butlast ls else ls)"

text \<open>
  std::getline of one field out of a line: None when there is nothing left, otherwise the field and
  what is left after its separator.
\<close>

definition next_field :: "char \<Rightarrow> string \<Rightarrow> (string \<times> string) option" where
  "next_field sep rest =
     (if rest = [] then None
      else (case split_first sep rest of Some (a, b) \<Rightarrow> Some (a, b) | None \<Rightarrow> Some (rest, [])))"

lemma next_field_append [simp]: "sep \<notin> set a \<Longrightarrow> next_field sep (a @ sep # b) = Some (a, b)"
  by (simp add: next_field_def)

lemma lines_of_Nil [simp]: "lines_of [] = []"
  by (simp add: lines_of_def)

lemma lines_of_line [simp]:
  "CHR 0x0A \<notin> set l \<Longrightarrow> lines_of (l @ CHR 0x0A # rest) = l # lines_of rest"
  by (simp add: lines_of_def split_on_append Let_def)

lemma lines_of_lines:
  "list_all (\<lambda>l. CHR 0x0A \<notin> set l) ls \<Longrightarrow>
     lines_of (concat (map (\<lambda>l. l @ [CHR 0x0A]) ls) @ rest) = ls @ lines_of rest"
  by (induction ls) simp_all

text \<open>A name between single quotes, as the messages write it.\<close>

definition sq :: "string \<Rightarrow> string" where
  "sq s = [CHR 0x27] @ s @ [CHR 0x27]"

end
