(* ===== verification/SwitchDevice.thy ===== *)
theory SwitchDevice
  imports Prelude
begin

text \<open>
  The switching cards of a rig: hal/fabric/switch_device.hpp and the address variant of
  hal/driver/address.hpp. A card model fixes the kind of hardware, the channel numbers the card
  has and the composite spellings of a channel (group/row/column, bank/channel, row/column,
  analog bus) its manual uses. A rig's device table is a list of rows; a device is the index of
  its row, as the enumerator of the generated enum is.

  Channels are 16 bit words and the parts they are packed from are 32 bit words (unsigned), so
  the arithmetic and the narrowing cast wrap as the code's do.
\<close>

section \<open>Addresses\<close>

record gpib =
  board :: int
  primary :: int
  secondary :: "int option"

record lan =
  host :: string
  port :: int

datatype address =
    Gpib gpib
  | Lan lan
  | Serial string
  | Usb string
  | Simulated

text \<open>The port a Lan address has when nothing says otherwise.\<close>

definition lan_of_host :: "string \<Rightarrow> lan" where
  "lan_of_host h = \<lparr>host = h, port = 5025\<rparr>"

definition detailOf_gpib :: "gpib \<Rightarrow> string" where
  "detailOf_gpib a =
     show_int (board a) @ ''::'' @ show_int (primary a)
       @ (case secondary a of Some s \<Rightarrow> ''::'' @ show_int s | None \<Rightarrow> [])"

definition detailOf_lan :: "lan \<Rightarrow> string" where
  "detailOf_lan a = host a @ '':'' @ show_int (port a)"

fun detailOf :: "address \<Rightarrow> string" where
  "detailOf (Gpib a) = detailOf_gpib a"
| "detailOf (Lan a) = detailOf_lan a"
| "detailOf (Serial d) = d"
| "detailOf (Usb s) = s"
| "detailOf Simulated = []"

fun kindOf_address :: "address \<Rightarrow> string" where
  "kindOf_address (Gpib a) = ''Gpib''"
| "kindOf_address (Lan a) = ''Lan''"
| "kindOf_address (Serial d) = ''Serial''"
| "kindOf_address (Usb s) = ''Usb''"
| "kindOf_address Simulated = ''Simulated''"

definition to_string_address :: "address \<Rightarrow> string" where
  "to_string_address a =
     (let name = kindOf_address a; detail = detailOf a
      in if detail = [] then name else name @ '' '' @ detail)"

section \<open>Card kinds, models and their specs\<close>

datatype SwitchDeviceKind = Matrix | Mux | RfMux | Spdt | Spst

datatype SwitchDeviceModel =
    Racal1260_45 | Racal1260_35 | Racal1260_17 | Racal1260_18 | AgilentE1472A
  | Keysight34932A | Keysight34941A

definition racal1260_45HasChannel :: "u16 \<Rightarrow> bool" where
  "racal1260_45HasChannel channel \<longleftrightarrow>
     unat channel \<le> 3315 \<and> unat channel div 1000 \<le> 3
       \<and> (unat channel div 100) mod 10 \<le> 3 \<and> unat channel mod 100 \<le> 15"

definition racal1260_45Crosspoint :: "u32 \<Rightarrow> u32 \<Rightarrow> u32 \<Rightarrow> u16" where
  "racal1260_45Crosspoint grp row column = ucast (grp * 1000 + row * 100 + column)"

definition racal1260_35HasChannel :: "u16 \<Rightarrow> bool" where
  "racal1260_35HasChannel channel \<longleftrightarrow> unat channel \<le> 96"

definition racal1260_17HasChannel :: "u16 \<Rightarrow> bool" where
  "racal1260_17HasChannel channel \<longleftrightarrow> unat channel \<le> 79"

definition racal1260_18HasChannel :: "u16 \<Rightarrow> bool" where
  "racal1260_18HasChannel channel \<longleftrightarrow> unat channel \<le> 151"

definition agilentE1472AHasChannel :: "u16 \<Rightarrow> bool" where
  "agilentE1472AHasChannel channel \<longleftrightarrow> unat channel div 10 \<le> 5 \<and> unat channel mod 10 \<le> 3"

definition agilentE1472ABankChannel :: "u32 \<Rightarrow> u32 \<Rightarrow> u16" where
  "agilentE1472ABankChannel bnk channel = ucast (bnk * 10 + channel)"

definition keysight34932AHasChannel :: "u16 \<Rightarrow> bool" where
  "keysight34932AHasChannel channel \<longleftrightarrow>
     (let row = unat channel div 100; column = unat channel mod 100
      in if 1 \<le> row \<and> row \<le> 8 \<and> 1 \<le> column \<and> column \<le> 16 then True
         else 921 \<le> unat channel \<and> unat channel \<le> 924)"

definition keysight34932ARowColumn :: "u32 \<Rightarrow> u32 \<Rightarrow> u16" where
  "keysight34932ARowColumn row column = ucast (row * 100 + column)"

definition keysight34932AAnalogBus :: "u32 \<Rightarrow> u16" where
  "keysight34932AAnalogBus bus = ucast (920 + bus)"

definition keysight34941AHasChannel :: "u16 \<Rightarrow> bool" where
  "keysight34941AHasChannel channel \<longleftrightarrow>
     (let bnk = unat channel div 100; inTheBank = unat channel mod 100
      in 1 \<le> bnk \<and> bnk \<le> 4 \<and> 1 \<le> inTheBank \<and> inTheBank \<le> 4)"

definition keysight34941ABankChannel :: "u32 \<Rightarrow> u32 \<Rightarrow> u16" where
  "keysight34941ABankChannel bnk channel = ucast (bnk * 100 + channel)"

text \<open>A null function pointer of the spec table is \<open>None\<close>.\<close>

record SwitchCardSpec =
  Part :: string
  Kind :: SwitchDeviceKind
  Channels :: string
  HasChannel :: "u16 \<Rightarrow> bool"
  Crosspoint :: "(u32 \<Rightarrow> u32 \<Rightarrow> u32 \<Rightarrow> u16) option"
  BankChannel :: "(u32 \<Rightarrow> u32 \<Rightarrow> u16) option"
  RowColumn :: "(u32 \<Rightarrow> u32 \<Rightarrow> u16) option"
  Reports :: string
  AnalogBus :: "(u32 \<Rightarrow> u16) option"

definition cardSpecs :: "SwitchCardSpec list" where
  "cardSpecs =
    [\<lparr>Part = ''Racal Instruments 1260-45A'', Kind = Matrix,
      Channels = ''0000-3315, written <group><row><column> (group 0-3, row 0-3, column 00-15)'',
      HasChannel = racal1260_45HasChannel, Crosspoint = Some racal1260_45Crosspoint,
      BankChannel = None, RowColumn = None, Reports = [], AnalogBus = None\<rparr>,
     \<lparr>Part = ''Racal Instruments 1260-35'', Kind = Mux,
      Channels = ''0-95 two-wire (0-96 one-wire, 0-47 four-wire)'',
      HasChannel = racal1260_35HasChannel, Crosspoint = None,
      BankChannel = None, RowColumn = None, Reports = [], AnalogBus = None\<rparr>,
     \<lparr>Part = ''Racal Instruments 1260-17'', Kind = Spdt, Channels = ''0-79'',
      HasChannel = racal1260_17HasChannel, Crosspoint = None,
      BankChannel = None, RowColumn = None, Reports = [], AnalogBus = None\<rparr>,
     \<lparr>Part = ''Racal Instruments 1260-18'', Kind = Spst, Channels = ''0-151'',
      HasChannel = racal1260_18HasChannel, Crosspoint = None,
      BankChannel = None, RowColumn = None, Reports = [], AnalogBus = None\<rparr>,
     \<lparr>Part = ''Agilent E1472A'', Kind = RfMux,
      Channels = ''00-03, 10-13, 20-23, 30-33, 40-43, 50-53, written <bank><channel>'',
      HasChannel = agilentE1472AHasChannel, Crosspoint = None,
      BankChannel = Some agilentE1472ABankChannel, RowColumn = None, Reports = [],
      AnalogBus = None\<rparr>,
     \<lparr>Part = ''Keysight 34932A'', Kind = Matrix,
      Channels = ''101-816, written <row><column> (row 1-8, column 01-16; rows 5-8 are Matrix 2), ''
        @ ''plus Matrix 2'' @ [char_of (39 :: nat)]
        @ ''s Analog Bus relays 921-924 (ABus1-4 onto rows 5-8)'',
      HasChannel = keysight34932AHasChannel, Crosspoint = None, BankChannel = None,
      RowColumn = Some keysight34932ARowColumn, Reports = ''34932A'',
      AnalogBus = Some keysight34932AAnalogBus\<rparr>,
     \<lparr>Part = ''Keysight 34941A'', Kind = RfMux,
      Channels = ''101-104, 201-204, 301-304, 401-404, written <bank><channel> ''
        @ ''(bank 1-4, channel 01-04); no Analog Bus relays'',
      HasChannel = keysight34941AHasChannel, Crosspoint = None,
      BankChannel = Some keysight34941ABankChannel, RowColumn = None, Reports = ''34941A'',
      AnalogBus = None\<rparr>]"

text \<open>The enumerator's value, which indexes the table.\<close>

fun model_index :: "SwitchDeviceModel \<Rightarrow> nat" where
  "model_index Racal1260_45 = 0"
| "model_index Racal1260_35 = 1"
| "model_index Racal1260_17 = 2"
| "model_index Racal1260_18 = 3"
| "model_index AgilentE1472A = 4"
| "model_index Keysight34932A = 5"
| "model_index Keysight34941A = 6"

definition specOf :: "SwitchDeviceModel \<Rightarrow> SwitchCardSpec" where
  "specOf model = cardSpecs ! model_index model"

section \<open>Device tables\<close>

type_synonym SwitchDeviceId = nat

text \<open>
  One row of a rig's devices.inc: the box it is in, the enumerator it declares, and the three
  facts of SwitchDeviceInfo.
\<close>

record SwitchDeviceInfo =
  Box :: string
  DeviceName :: string
  Model :: SwitchDeviceModel
  Where :: address
  Card :: "int option"

type_synonym device_table = "SwitchDeviceInfo list"

definition modelOf :: "device_table \<Rightarrow> SwitchDeviceId \<Rightarrow> SwitchDeviceModel" where
  "modelOf switchDevices device = Model (switchDevices ! device)"

definition kindOf :: "device_table \<Rightarrow> SwitchDeviceId \<Rightarrow> SwitchDeviceKind" where
  "kindOf switchDevices device = Kind (specOf (modelOf switchDevices device))"

definition addressOf :: "device_table \<Rightarrow> SwitchDeviceId \<Rightarrow> address" where
  "addressOf switchDevices device = Where (switchDevices ! device)"

definition cardOf :: "device_table \<Rightarrow> SwitchDeviceId \<Rightarrow> int option" where
  "cardOf switchDevices device = Card (switchDevices ! device)"

definition partOf :: "device_table \<Rightarrow> SwitchDeviceId \<Rightarrow> string" where
  "partOf switchDevices device = Part (specOf (modelOf switchDevices device))"

definition channelsOf :: "device_table \<Rightarrow> SwitchDeviceId \<Rightarrow> string" where
  "channelsOf switchDevices device = Channels (specOf (modelOf switchDevices device))"

definition hasChannel :: "device_table \<Rightarrow> SwitchDeviceId \<Rightarrow> u16 \<Rightarrow> bool" where
  "hasChannel switchDevices device channel =
     HasChannel (specOf (modelOf switchDevices device)) channel"

text \<open>The two rigs of the repository.\<close>

definition racal_row :: "string \<Rightarrow> SwitchDeviceModel \<Rightarrow> int \<Rightarrow> SwitchDeviceInfo" where
  "racal_row name model crd =
     \<lparr>Box = ''RacalRack'', DeviceName = name, Model = model,
      Where = Gpib \<lparr>board = 0, primary = 7, secondary = None\<rparr>, Card = Some crd\<rparr>"

definition ref_devices :: device_table where
  "ref_devices =
    [racal_row ''Matrix1'' Racal1260_45 1,
     racal_row ''Mux1'' Racal1260_35 2,
     racal_row ''Spst1'' Racal1260_18 3,
     racal_row ''Spdt1'' Racal1260_17 4,
     \<lparr>Box = ''VxiRfSwitch'', DeviceName = ''RfMux1'', Model = AgilentE1472A,
      Where = Gpib \<lparr>board = 0, primary = 9, secondary = Some 3\<rparr>, Card = None\<rparr>]"

definition swu_row :: "string \<Rightarrow> SwitchDeviceModel \<Rightarrow> int \<Rightarrow> SwitchDeviceInfo" where
  "swu_row name model crd =
     \<lparr>Box = ''Swu1'', DeviceName = name, Model = model, Where = Usb ''MY53154781'',
      Card = Some crd\<rparr>"

definition dev_devices :: device_table where
  "dev_devices =
    [swu_row ''Slot1'' Keysight34932A 1,
     swu_row ''Slot2'' Keysight34932A 2,
     swu_row ''Slot3'' Keysight34932A 3,
     swu_row ''Slot4'' Keysight34932A 4,
     swu_row ''Slot5'' Keysight34941A 5]"

section \<open>Checked spellings of a channel\<close>

text \<open>
  A channel on a device. The templates hop, crosspoint, rowColumn, bank and analogBus of
  hal/fabric/switch_fabric.hpp are evaluated by the compiler and refuse with a static_assert;
  a refusal is \<open>None\<close> here.
\<close>

record SwitchElementId =
  device :: SwitchDeviceId
  channel :: u16

definition hop :: "device_table \<Rightarrow> SwitchDeviceId \<Rightarrow> u16 \<Rightarrow> SwitchElementId option" where
  "hop switchDevices dev ch =
     (if hasChannel switchDevices dev ch then Some \<lparr>device = dev, channel = ch\<rparr> else None)"

definition crosspoint ::
    "device_table \<Rightarrow> SwitchDeviceId \<Rightarrow> u32 \<Rightarrow> u32 \<Rightarrow> u32 \<Rightarrow> SwitchElementId option" where
  "crosspoint switchDevices dev grp row column =
     (case Crosspoint (specOf (modelOf switchDevices dev)) of
        Some f \<Rightarrow> hop switchDevices dev (f grp row column)
      | None \<Rightarrow> None)"

definition rowColumn ::
    "device_table \<Rightarrow> SwitchDeviceId \<Rightarrow> u32 \<Rightarrow> u32 \<Rightarrow> SwitchElementId option" where
  "rowColumn switchDevices dev row column =
     (case RowColumn (specOf (modelOf switchDevices dev)) of
        Some f \<Rightarrow> hop switchDevices dev (f row column)
      | None \<Rightarrow> None)"

definition bank ::
    "device_table \<Rightarrow> SwitchDeviceId \<Rightarrow> u32 \<Rightarrow> u32 \<Rightarrow> SwitchElementId option" where
  "bank switchDevices dev bnk ch =
     (case BankChannel (specOf (modelOf switchDevices dev)) of
        Some f \<Rightarrow> hop switchDevices dev (f bnk ch)
      | None \<Rightarrow> None)"

definition analogBus ::
    "device_table \<Rightarrow> SwitchDeviceId \<Rightarrow> u32 \<Rightarrow> SwitchElementId option" where
  "analogBus switchDevices dev bus =
     (case AnalogBus (specOf (modelOf switchDevices dev)) of
        Some f \<Rightarrow> hop switchDevices dev (f bus)
      | None \<Rightarrow> None)"

section \<open>What the packings compute\<close>

lemma unat_narrow: "unat (ucast (w :: u32) :: u16) = unat w mod 65536"
  by (simp add: unsigned_ucast_eq take_bit_eq_mod)

lemma mod_narrow: "(n :: nat) mod 4294967296 mod 65536 = n mod 65536"
  by (rule mod_mod_cancel) simp

lemma unat_add32: "unat (a + b :: u32) mod 65536 = (unat a + unat b) mod 65536"
  by (simp add: unat_word_ariths mod_narrow)

lemma unat_mult32: "unat (a * b :: u32) mod 65536 = (unat a * unat b) mod 65536"
  by (simp add: unat_word_ariths mod_narrow)

lemma mod_add_cong_left:
  "(x :: nat) mod m = x' mod m \<Longrightarrow> (x + y) mod m = (x' + y) mod m"
  by (rule mod_add_cong) simp_all

lemma unat_mult_add32:
  "unat (a * b + c :: u32) mod 65536 = (unat a * unat b + unat c) mod 65536"
  using mod_add_cong_left [OF unat_mult32] by (simp add: unat_add32)

lemma unat_crosspoint:
  "unat (racal1260_45Crosspoint g r c) = (unat g * 1000 + unat r * 100 + unat c) mod 65536"
proof -
  have "(unat (g * 1000) + unat (r * 100)) mod 65536 = (unat g * 1000 + unat r * 100) mod 65536"
    using unat_mult32 [of g 1000] unat_mult32 [of r 100] by (intro mod_add_cong) simp_all
  then have "unat (g * 1000 + r * 100) mod 65536 = (unat g * 1000 + unat r * 100) mod 65536"
    by (simp add: unat_add32)
  then have "(unat (g * 1000 + r * 100) + unat c) mod 65536
               = (unat g * 1000 + unat r * 100 + unat c) mod 65536"
    by (rule mod_add_cong_left)
  then show ?thesis
    by (simp only: racal1260_45Crosspoint_def unat_narrow unat_add32)
qed

lemma unat_rowColumn: "unat (keysight34932ARowColumn r c) = (unat r * 100 + unat c) mod 65536"
  using unat_mult_add32 [of r 100 c] by (simp add: keysight34932ARowColumn_def unat_narrow)

lemma unat_bank34941A: "unat (keysight34941ABankChannel b c) = (unat b * 100 + unat c) mod 65536"
  using unat_mult_add32 [of b 100 c] by (simp add: keysight34941ABankChannel_def unat_narrow)

lemma unat_bankE1472A: "unat (agilentE1472ABankChannel b c) = (unat b * 10 + unat c) mod 65536"
  using unat_mult_add32 [of b 10 c] by (simp add: agilentE1472ABankChannel_def unat_narrow)

lemma unat_analogBus: "unat (keysight34932AAnalogBus b) = (920 + unat b) mod 65536"
  by (simp add: keysight34932AAnalogBus_def unat_narrow unat_add32)


section \<open>The composite schemes name exactly the channels of their cards\<close>

lemma word_eq_iff_unat_mod: "(w :: u16) = v \<longleftrightarrow> unat w = unat v"
  by (simp add: word_unat_eq_iff)

lemma packed_parts:
  fixes g r c :: nat
  assumes "r < 10" "c < 100"
  shows "(g * 1000 + r * 100 + c) div 1000 = g"
    and "((g * 1000 + r * 100 + c) div 100) mod 10 = r"
    and "(g * 1000 + r * 100 + c) mod 100 = c"
proof -
  have "(g * 1000 + (r * 100 + c)) div 1000 = g"
    using assms by simp
  then show "(g * 1000 + r * 100 + c) div 1000 = g"
    by (simp add: add.assoc)
  have split: "g * 1000 + r * 100 + c = c + (g * 10 + r) * 100"
    by simp
  have "(c + (g * 10 + r) * 100) div 100 = g * 10 + r"
    using assms by simp
  then show "((g * 1000 + r * 100 + c) div 100) mod 10 = r"
    using assms by (simp add: split)
  show "(g * 1000 + r * 100 + c) mod 100 = c"
    using assms by (simp only: split mod_mult_self1) simp
qed

lemma parts_packed:
  "(n :: nat) div 1000 * 1000 + (n div 100) mod 10 * 100 + n mod 100 = n"
proof -
  have "n div 1000 * 10 + (n div 100) mod 10 = n div 100"
    using div_mult_mod_eq [of "n div 100" 10] by (simp add: div_mult2_eq [symmetric])
  then have "n div 1000 * 1000 + (n div 100) mod 10 * 100 = n div 100 * 100"
    by simp
  then show ?thesis
    by simp
qed

lemma crosspoint_in_range:
  assumes "unat g \<le> 3" "unat r \<le> 3" "unat c \<le> 15"
  shows "unat (racal1260_45Crosspoint g r c) = unat g * 1000 + unat r * 100 + unat c"
  using assms by (simp add: unat_crosspoint)

lemma crosspoint_hasChannel:
  assumes "unat g \<le> 3" "unat r \<le> 3" "unat c \<le> 15"
  shows "racal1260_45HasChannel (racal1260_45Crosspoint g r c)"
proof -
  let ?n = "unat g * 1000 + unat r * 100 + unat c"
  have "?n div 1000 = unat g" "(?n div 100) mod 10 = unat r" "?n mod 100 = unat c"
    using assms by (simp_all only: packed_parts)
  moreover have "?n \<le> 3315"
    using assms by simp
  ultimately show ?thesis
    using assms
    by (simp add: racal1260_45HasChannel_def crosspoint_in_range [OF assms])
qed

lemma unat_of_nat32: "n < 4294967296 \<Longrightarrow> unat (word_of_nat n :: u32) = n"
  by (simp add: unsigned_of_nat take_bit_nat_eq_self)

lemma hasChannel_crosspoint:
  assumes "racal1260_45HasChannel ch"
  obtains g r c where "unat g \<le> 3" "unat r \<le> 3" "unat c \<le> 15"
    "racal1260_45Crosspoint g r c = ch"
proof
  let ?n = "unat ch"
  let ?g = "word_of_nat (?n div 1000) :: u32"
  let ?r = "word_of_nat ((?n div 100) mod 10) :: u32"
  let ?c = "word_of_nat (?n mod 100) :: u32"
  have n: "?n \<le> 3315" "?n div 1000 \<le> 3" "(?n div 100) mod 10 \<le> 3" "?n mod 100 \<le> 15"
    using assms by (simp_all add: racal1260_45HasChannel_def)
  have u: "unat ?g = ?n div 1000" "unat ?r = (?n div 100) mod 10" "unat ?c = ?n mod 100"
    using n by (simp_all add: unat_of_nat32)
  show g: "unat ?g \<le> 3" and r: "unat ?r \<le> 3" and c: "unat ?c \<le> 15"
    using n u by simp_all
  show "racal1260_45Crosspoint ?g ?r ?c = ch"
    by (simp only: word_eq_iff_unat_mod crosspoint_in_range [OF g r c] u parts_packed)
qed

lemma rowColumn_in_range:
  assumes "unat r \<le> 8" "unat c \<le> 16"
  shows "unat (keysight34932ARowColumn r c) = unat r * 100 + unat c"
  using assms by (simp add: unat_rowColumn)

lemma hasChannel_34932A:
  "keysight34932AHasChannel ch \<longleftrightarrow>
     (\<exists>r c. 1 \<le> unat r \<and> unat r \<le> 8 \<and> 1 \<le> unat c \<and> unat c \<le> 16
        \<and> keysight34932ARowColumn r c = ch)
     \<or> (\<exists>b. 1 \<le> unat b \<and> unat b \<le> 4 \<and> keysight34932AAnalogBus b = ch)"
  (is "_ \<longleftrightarrow> ?rc \<or> ?bus")
proof
  let ?n = "unat ch"
  assume has: "keysight34932AHasChannel ch"
  show "?rc \<or> ?bus"
  proof (cases "1 \<le> ?n div 100 \<and> ?n div 100 \<le> 8 \<and> 1 \<le> ?n mod 100 \<and> ?n mod 100 \<le> 16")
    case True
    let ?r = "word_of_nat (?n div 100) :: u32" and ?c = "word_of_nat (?n mod 100) :: u32"
    have u: "unat ?r = ?n div 100" "unat ?c = ?n mod 100"
      using True by (simp_all add: unat_of_nat32)
    then have "keysight34932ARowColumn ?r ?c = ch"
      using True by (simp add: word_eq_iff_unat_mod rowColumn_in_range)
    with True u have ?rc by metis
    then show ?thesis ..
  next
    case False
    with has have n: "921 \<le> ?n" "?n \<le> 924"
      by (auto simp: keysight34932AHasChannel_def Let_def)
    let ?b = "word_of_nat (?n - 920) :: u32"
    have u: "unat ?b = ?n - 920"
      using n by (intro unat_of_nat32) simp
    then have "keysight34932AAnalogBus ?b = ch"
      using n by (simp add: word_eq_iff_unat_mod unat_analogBus)
    moreover have "1 \<le> unat ?b" "unat ?b \<le> 4"
      using n u by simp_all
    ultimately have ?bus by metis
    then show ?thesis ..
  qed
next
  assume "?rc \<or> ?bus"
  then show "keysight34932AHasChannel ch"
  proof
    assume ?rc
    then obtain r c where rc: "1 \<le> unat r" "unat r \<le> 8" "1 \<le> unat c" "unat c \<le> 16"
      and ch: "keysight34932ARowColumn r c = ch" by blast
    let ?m = "unat r * 100 + unat c"
    have "?m div 100 = unat r" "?m mod 100 = unat c"
      using rc by simp_all
    moreover have "unat ch = ?m"
      using ch rc rowColumn_in_range by blast
    ultimately show ?thesis
      using rc by (simp add: keysight34932AHasChannel_def Let_def)
  next
    assume ?bus
    then obtain b where b: "1 \<le> unat b" "unat b \<le> 4" and ch: "keysight34932AAnalogBus b = ch"
      by blast
    have "unat ch = 920 + unat b"
      using b ch by (auto simp: unat_analogBus)
    with b show ?thesis
      by (simp add: keysight34932AHasChannel_def Let_def)
  qed
qed

text \<open>
  The two one-of-four selectors: bank and channel packed in base 10 on the E1472A and in base
  100 on the 34941A.
\<close>

lemma hasChannel_E1472A:
  "agilentE1472AHasChannel ch \<longleftrightarrow>
     (\<exists>b c. unat b \<le> 5 \<and> unat c \<le> 3 \<and> agilentE1472ABankChannel b c = ch)" (is "_ \<longleftrightarrow> ?ex")
proof
  let ?n = "unat ch"
  assume "agilentE1472AHasChannel ch"
  then have n: "?n div 10 \<le> 5" "?n mod 10 \<le> 3"
    by (simp_all add: agilentE1472AHasChannel_def)
  let ?b = "word_of_nat (?n div 10) :: u32" and ?c = "word_of_nat (?n mod 10) :: u32"
  have u: "unat ?b = ?n div 10" "unat ?c = ?n mod 10"
    using n by (simp_all add: unat_of_nat32)
  then have "agilentE1472ABankChannel ?b ?c = ch"
    using n by (simp add: word_eq_iff_unat_mod unat_bankE1472A)
  with n u show ?ex by metis
next
  assume ?ex
  then obtain b c where bc: "unat b \<le> 5" "unat c \<le> 3" and ch: "agilentE1472ABankChannel b c = ch"
    by blast
  have "unat ch = unat b * 10 + unat c"
    using bc ch by (auto simp: unat_bankE1472A)
  moreover have "(unat b * 10 + unat c) div 10 = unat b" "(unat b * 10 + unat c) mod 10 = unat c"
    using bc by simp_all
  ultimately show "agilentE1472AHasChannel ch"
    using bc by (simp add: agilentE1472AHasChannel_def)
qed

lemma hasChannel_34941A:
  "keysight34941AHasChannel ch \<longleftrightarrow>
     (\<exists>b c. 1 \<le> unat b \<and> unat b \<le> 4 \<and> 1 \<le> unat c \<and> unat c \<le> 4
        \<and> keysight34941ABankChannel b c = ch)" (is "_ \<longleftrightarrow> ?ex")
proof
  let ?n = "unat ch"
  assume "keysight34941AHasChannel ch"
  then have n: "1 \<le> ?n div 100" "?n div 100 \<le> 4" "1 \<le> ?n mod 100" "?n mod 100 \<le> 4"
    by (simp_all add: keysight34941AHasChannel_def Let_def)
  let ?b = "word_of_nat (?n div 100) :: u32" and ?c = "word_of_nat (?n mod 100) :: u32"
  have u: "unat ?b = ?n div 100" "unat ?c = ?n mod 100"
    using n by (simp_all add: unat_of_nat32)
  then have "keysight34941ABankChannel ?b ?c = ch"
    using n by (simp add: word_eq_iff_unat_mod unat_bank34941A)
  with n u show ?ex by metis
next
  assume ?ex
  then obtain b c where bc: "1 \<le> unat b" "unat b \<le> 4" "1 \<le> unat c" "unat c \<le> 4"
    and ch: "keysight34941ABankChannel b c = ch" by blast
  have "unat ch = unat b * 100 + unat c"
    using bc ch by (auto simp: unat_bank34941A)
  moreover have "(unat b * 100 + unat c) div 100 = unat b" "(unat b * 100 + unat c) mod 100 = unat c"
    using bc by simp_all
  ultimately show "keysight34941AHasChannel ch"
    using bc by (simp add: keysight34941AHasChannel_def Let_def)
qed

lemma hasChannel_1260_45:
  "racal1260_45HasChannel ch \<longleftrightarrow>
     (\<exists>g r c. unat g \<le> 3 \<and> unat r \<le> 3 \<and> unat c \<le> 15 \<and> racal1260_45Crosspoint g r c = ch)"
  by (metis crosspoint_hasChannel hasChannel_crosspoint)

text \<open>
  The composite numberings are complete: a channel number is one of its card's exactly when
  it is what some in-range group, row, column, bank or bus of that card packs to.
\<close>

theorem composite_schemes_exact:
  "(racal1260_45HasChannel ch \<longleftrightarrow>
      (\<exists>g r c. unat g \<le> 3 \<and> unat r \<le> 3 \<and> unat c \<le> 15 \<and> racal1260_45Crosspoint g r c = ch))
   \<and> (keysight34932AHasChannel ch \<longleftrightarrow>
      (\<exists>r c. 1 \<le> unat r \<and> unat r \<le> 8 \<and> 1 \<le> unat c \<and> unat c \<le> 16
         \<and> keysight34932ARowColumn r c = ch)
      \<or> (\<exists>b. 1 \<le> unat b \<and> unat b \<le> 4 \<and> keysight34932AAnalogBus b = ch))
   \<and> (agilentE1472AHasChannel ch \<longleftrightarrow>
      (\<exists>b c. unat b \<le> 5 \<and> unat c \<le> 3 \<and> agilentE1472ABankChannel b c = ch))
   \<and> (keysight34941AHasChannel ch \<longleftrightarrow>
      (\<exists>b c. 1 \<le> unat b \<and> unat b \<le> 4 \<and> 1 \<le> unat c \<and> unat c \<le> 4
         \<and> keysight34941ABankChannel b c = ch))"
  by (intro conjI hasChannel_1260_45 hasChannel_34932A hasChannel_E1472A hasChannel_34941A)

text \<open>
  The checked spellings are unambiguous for coordinates the card has: two in-range
  crosspoints of one matrix card that name the same element are the same crosspoint, and each is
  an element of the device. Out of range they are not: the group, row and column of a channel are
  packed before they are checked, so a column of 100 is accepted as the next row and an Analog Bus
  of 64717 wraps round to a matrix crosspoint.
\<close>

theorem crosspoint_exact_in_range:
  assumes "modelOf devices dev = Racal1260_45"
    and "unat g \<le> 3" "unat r \<le> 3" "unat c \<le> 15" and "unat g' \<le> 3" "unat r' \<le> 3" "unat c' \<le> 15"
    and "crosspoint devices dev g r c = crosspoint devices dev g' r' c'"
  shows "crosspoint devices dev g r c = Some \<lparr>device = dev, channel = racal1260_45Crosspoint g r c\<rparr>
    \<and> g = g' \<and> r = r' \<and> c = c'"
proof -
  have spec: "Crosspoint (specOf Racal1260_45) = Some racal1260_45Crosspoint"
    "HasChannel (specOf Racal1260_45) = racal1260_45HasChannel"
    by (simp_all add: specOf_def cardSpecs_def)
  have el: "crosspoint devices dev x y z = Some \<lparr>device = dev, channel = racal1260_45Crosspoint x y z\<rparr>"
    if "unat x \<le> 3" "unat y \<le> 3" "unat z \<le> 15" for x y z
    using assms(1) crosspoint_hasChannel [OF that]
    by (simp add: crosspoint_def hop_def hasChannel_def spec)
  have "racal1260_45Crosspoint g r c = racal1260_45Crosspoint g' r' c'"
    using assms(8) el [OF assms(2-4)] el [OF assms(5-7)] by simp
  then have n: "unat g * 1000 + unat r * 100 + unat c = unat g' * 1000 + unat r' * 100 + unat c'"
    using crosspoint_in_range [OF assms(2-4)] crosspoint_in_range [OF assms(5-7)] by simp
  have "unat r < 10" "unat c < 100" "unat r' < 10" "unat c' < 100" using assms by simp_all
  note p = packed_parts [OF this(1,2), of "unat g"] packed_parts [OF this(3,4), of "unat g'"]
  have "unat g = unat g' \<and> unat r = unat r' \<and> unat c = unat c'"
    using p n by metis
  then show ?thesis using el [OF assms(2-4)] by (simp add: word_unat_eq_iff)
qed

theorem crosspoint_exact_in_range_witness:
  "crosspoint ref_devices 0 2 3 12 = Some \<lparr>device = 0, channel = 2312\<rparr>"
proof -
  have "modelOf ref_devices 0 = Racal1260_45"
    by (simp add: modelOf_def ref_devices_def racal_row_def)
  from crosspoint_exact_in_range [OF this, of 2 3 12 2 3 12] show ?thesis
    by (simp add: racal1260_45Crosspoint_def)
qed

text \<open>
  What the spellings do with coordinates the card does not have: a crosspoint written with a
  column of 100 is the one of the next row, and an Analog Bus of 64717, which the packing wraps at
  16 bits, is accepted as the crosspoint of row 1, column 1.
\<close>

theorem spellings_out_of_range:
  "crosspoint ref_devices 0 0 0 100 = crosspoint ref_devices 0 0 1 0
   \<and> crosspoint ref_devices 0 0 0 100 \<noteq> None
   \<and> analogBus dev_devices 0 64717 = rowColumn dev_devices 0 1 1
   \<and> analogBus dev_devices 0 64717 \<noteq> None"
  by (simp add: crosspoint_def analogBus_def rowColumn_def hop_def hasChannel_def modelOf_def
      specOf_def cardSpecs_def ref_devices_def dev_devices_def racal_row_def swu_row_def
      racal1260_45Crosspoint_def racal1260_45HasChannel_def keysight34932AAnalogBus_def
      keysight34932AHasChannel_def keysight34932ARowColumn_def)

end
