(* ===== verification/SwitchFabric.thy ===== *)
theory SwitchFabric
  imports SwitchDevice
begin

text \<open>
  The switching fabric: hal/fabric/switch_fabric.hpp. Each element has a use count; the first use
  tells the driver to close the relay, the last release tells it to open it. A driver may throw,
  and may have changed the hardware before it did, so each of its operations returns the exception
  (if any) and the hardware state.

  The fabric's state is its use counts and the hardware behind its driver. Counts are unbounded
  here, the code's are int: the difference is two thousand million simultaneous uses of one relay.
\<close>

section \<open>The driver and the state\<close>

record ('h, 'e) SwitchDriver =
  driver_close :: "SwitchElementId \<Rightarrow> 'h \<Rightarrow> 'e option \<times> 'h"
  driver_open :: "SwitchElementId \<Rightarrow> 'h \<Rightarrow> 'e option \<times> 'h"

record 'h SwitchFabric =
  mUseCount :: "SwitchElementId \<rightharpoonup> int"
  hardware :: 'h

type_synonym Path = "SwitchElementId list"

definition fabric_close ::
    "('h, 'e) SwitchDriver option \<Rightarrow> SwitchElementId \<Rightarrow> 'h SwitchFabric
       \<Rightarrow> 'e option \<times> 'h SwitchFabric" where
  "fabric_close mDriver el f =
     (case mUseCount f el of
        Some n \<Rightarrow> (None, f\<lparr>mUseCount := (mUseCount f)(el \<mapsto> n + 1)\<rparr>)
      | None \<Rightarrow>
          (case mDriver of
             None \<Rightarrow> (None, f\<lparr>mUseCount := (mUseCount f)(el \<mapsto> 1)\<rparr>)
           | Some d \<Rightarrow>
               (case driver_close d el (hardware f) of
                  (Some e, h) \<Rightarrow> (Some e, f\<lparr>hardware := h\<rparr>)
                | (None, h) \<Rightarrow>
                    (None, f\<lparr>mUseCount := (mUseCount f)(el \<mapsto> 1), hardware := h\<rparr>))))"

definition fabric_open ::
    "('h, 'e) SwitchDriver option \<Rightarrow> SwitchElementId \<Rightarrow> 'h SwitchFabric
       \<Rightarrow> 'e option \<times> 'h SwitchFabric" where
  "fabric_open mDriver el f =
     (case mUseCount f el of
        None \<Rightarrow> (None, f)
      | Some n \<Rightarrow>
          (if n - 1 > 0 then (None, f\<lparr>mUseCount := (mUseCount f)(el \<mapsto> n - 1)\<rparr>)
           else
             (let f' = f\<lparr>mUseCount := (mUseCount f)(el := None)\<rparr>
              in case mDriver of
                   None \<Rightarrow> (None, f')
                 | Some d \<Rightarrow>
                     (case driver_open d el (hardware f') of (e, h) \<Rightarrow> (e, f'\<lparr>hardware := h\<rparr>)))))"

definition fabric_openAll :: "'h SwitchFabric \<Rightarrow> 'h SwitchFabric" where
  "fabric_openAll f = f\<lparr>mUseCount := (\<lambda>_. None)\<rparr>"

definition fabric_isClosed :: "SwitchElementId \<Rightarrow> 'h SwitchFabric \<Rightarrow> bool" where
  "fabric_isClosed el f \<longleftrightarrow> mUseCount f el \<noteq> None"

text \<open>
  connect: the elements closed so far are kept newest first, which is the order the catch block
  releases them in, swallowing what a release throws.
\<close>

fun fabric_unwind ::
    "('h, 'e) SwitchDriver option \<Rightarrow> Path \<Rightarrow> 'h SwitchFabric \<Rightarrow> 'h SwitchFabric" where
  "fabric_unwind mDriver [] f = f"
| "fabric_unwind mDriver (el # closed) f =
     fabric_unwind mDriver closed (snd (fabric_open mDriver el f))"

fun fabric_connect_from ::
    "('h, 'e) SwitchDriver option \<Rightarrow> Path \<Rightarrow> Path \<Rightarrow> 'h SwitchFabric
       \<Rightarrow> 'e option \<times> 'h SwitchFabric" where
  "fabric_connect_from mDriver closed [] f = (None, f)"
| "fabric_connect_from mDriver closed (el # path) f =
     (case fabric_close mDriver el f of
        (None, f') \<Rightarrow> fabric_connect_from mDriver (el # closed) path f'
      | (Some e, f') \<Rightarrow> (Some e, fabric_unwind mDriver closed f'))"

definition fabric_connect ::
    "('h, 'e) SwitchDriver option \<Rightarrow> Path \<Rightarrow> 'h SwitchFabric \<Rightarrow> 'e option \<times> 'h SwitchFabric" where
  "fabric_connect mDriver path f = fabric_connect_from mDriver [] path f"

text \<open>disconnect: every element is released and the first failure is what is rethrown.\<close>

fun fabric_disconnect_from ::
    "('h, 'e) SwitchDriver option \<Rightarrow> 'e option \<Rightarrow> Path \<Rightarrow> 'h SwitchFabric
       \<Rightarrow> 'e option \<times> 'h SwitchFabric" where
  "fabric_disconnect_from mDriver fst_fault [] f = (fst_fault, f)"
| "fabric_disconnect_from mDriver fst_fault (el # path) f =
     (case fabric_open mDriver el f of
        (e, f') \<Rightarrow>
          fabric_disconnect_from mDriver (if fst_fault = None then e else fst_fault) path f')"

definition fabric_disconnect ::
    "('h, 'e) SwitchDriver option \<Rightarrow> Path \<Rightarrow> 'h SwitchFabric \<Rightarrow> 'e option \<times> 'h SwitchFabric" where
  "fabric_disconnect mDriver path f = fabric_disconnect_from mDriver None path f"

section \<open>The count of uses as a number, and the invariant\<close>

definition uses :: "'h SwitchFabric \<Rightarrow> SwitchElementId \<Rightarrow> int" where
  "uses f el = (case mUseCount f el of None \<Rightarrow> 0 | Some n \<Rightarrow> n)"

definition fabric_ok :: "'h SwitchFabric \<Rightarrow> bool" where
  "fabric_ok f \<longleftrightarrow> (\<forall>el n. mUseCount f el = Some n \<longrightarrow> 0 < n)"

text \<open>The abstract fabric: a bag of uses, with no driver and no failures.\<close>

abbreviation adds :: "Path \<Rightarrow> SwitchElementId \<Rightarrow> int" where
  "adds path el \<equiv> int (count_list path el)"

lemma uses_nonneg [fabric_facts]: "fabric_ok f \<Longrightarrow> 0 \<le> uses f el"
  by (auto simp: fabric_ok_def uses_def intro: less_imp_le split: option.splits)

lemma isClosed_iff_uses [fabric_facts]: "fabric_ok f \<Longrightarrow> fabric_isClosed el f \<longleftrightarrow> 0 < uses f el"
  by (auto simp: fabric_isClosed_def fabric_ok_def uses_def split: option.splits)

lemma counts_from_uses:
  assumes "fabric_ok f" and "fabric_ok g" and "uses f = uses g"
  shows "mUseCount f = mUseCount g"
proof
  fix el
  have "uses f el = uses g el" using assms(3) by simp
  with assms(1,2) show "mUseCount f el = mUseCount g el"
    by (auto simp: uses_def fabric_ok_def split: option.splits)
qed

subsection \<open>One element\<close>

lemma close_cases:
  assumes "fabric_close d el f = (r, f')"
  obtains (counted) "r = None" "uses f' = (uses f)(el := uses f el + 1)"
    | (refused) e where "r = Some e" "mUseCount f el = None" "mUseCount f' = mUseCount f"
  using assms
  by (cases "mUseCount f el")
     (auto simp: fabric_close_def uses_def fun_eq_iff split: option.splits prod.splits)

text \<open>The same two operations seen from the driver: when it is called, and what the books say then.\<close>

lemma close_driven_cases:
  assumes "fabric_close (Some d) el f = (r, f')"
  obtains (counted) "hardware f' = hardware f" "\<And>x. fabric_isClosed x f' = fabric_isClosed x f"
    | (closed) "r = None" "driver_close d el (hardware f) = (None, hardware f')"
        "\<And>x. fabric_isClosed x f' = (x = el \<or> fabric_isClosed x f)"
    | (refused) e where "driver_close d el (hardware f) = (Some e, hardware f')"
        "\<And>x. fabric_isClosed x f' = fabric_isClosed x f" "r = Some e"
proof (cases "mUseCount f el")
  case (Some n)
  show thesis by (rule counted) (use Some assms in \<open>auto simp: fabric_close_def fabric_isClosed_def split: if_splits\<close>)
next
  case None
  obtain s h where d: "driver_close d el (hardware f) = (s, h)" by force
  show thesis
  proof (cases s)
    case None
    show thesis
      by (rule closed)
         (use None \<open>mUseCount f el = None\<close> d assms in \<open>auto simp: fabric_close_def fabric_isClosed_def split: if_splits\<close>)
  next
    case (Some e)
    show thesis
      by (rule refused)
         (use Some \<open>mUseCount f el = None\<close> d assms in \<open>auto simp: fabric_close_def fabric_isClosed_def split: if_splits\<close>)
  qed
qed

lemma open_driven_cases:
  assumes "fabric_open (Some d) el f = (r, f')"
  obtains (counted) "hardware f' = hardware f" "\<And>x. fabric_isClosed x f' = fabric_isClosed x f" "r = None"
    | (opened) "driver_open d el (hardware f) = (r, hardware f')"
        "\<And>x. fabric_isClosed x f' = (x \<noteq> el \<and> fabric_isClosed x f)"
proof (cases "\<exists>n. mUseCount f el = Some n \<and> n - 1 \<le> 0")
  case True
  then obtain n where n: "mUseCount f el = Some n" "\<not> n - 1 > 0" by auto
  obtain s h where d: "driver_open d el (hardware f) = (s, h)" by force
  show thesis
    by (rule opened) (use n d assms in \<open>auto simp: fabric_open_def fabric_isClosed_def Let_def split: if_splits\<close>)
next
  case False
  then show thesis
    using assms
    by (intro counted) (auto simp: fabric_open_def fabric_isClosed_def split: option.splits if_splits)
qed

lemma close_ok [fabric_facts]:
  assumes "fabric_ok f" and "fabric_close d el f = (r, f')"
  shows "fabric_ok f'"
  using assms
  by (auto simp: fabric_close_def fabric_ok_def split: option.splits prod.splits if_splits)
     (metis less_imp_le)

lemma open_uses [fabric_facts]:
  assumes "fabric_ok f" and "fabric_open d el f = (r, f')"
  shows "uses f' = (uses f)(el := max 0 (uses f el - 1))"
  using assms
  by (auto simp: fabric_open_def fabric_ok_def uses_def fun_eq_iff Let_def
           split: option.splits prod.splits if_splits)
     (metis antisym_conv2 diff_gt_0_iff_gt int_one_le_iff_zero_less)+

lemma open_ok [fabric_facts]:
  assumes "fabric_ok f" and "fabric_open d el f = (r, f')"
  shows "fabric_ok f'"
  using assms
  by (auto simp: fabric_open_def fabric_ok_def Let_def split: option.splits prod.splits if_splits)

lemmas fabric_element_facts = close_ok open_ok open_uses

subsection \<open>Paths\<close>

lemma unwind_uses:
  "fabric_ok f \<Longrightarrow> fabric_ok (fabric_unwind d closed f) \<and>
     uses (fabric_unwind d closed f) = (\<lambda>el. max 0 (uses f el - adds closed el))"
proof (induction closed arbitrary: f)
  case Nil
  then show ?case
    by (auto simp: fun_eq_iff max_def uses_nonneg dest: uses_nonneg intro: antisym)
next
  case (Cons el closed)
  obtain r f' where step: "fabric_open d el f = (r, f')" by force
  with Cons.prems have "fabric_ok f'" and u: "uses f' = (uses f)(el := max 0 (uses f el - 1))"
    by (auto intro: fabric_element_facts)
  with Cons.IH [of f'] step show ?case
    by (auto simp: fun_eq_iff u)
qed

lemma disconnect_from_uses:
  "fabric_ok f \<Longrightarrow> fabric_disconnect_from d e path f = (r, f') \<Longrightarrow>
     fabric_ok f' \<and> uses f' = (\<lambda>el. max 0 (uses f el - adds path el))"
proof (induction path arbitrary: f e)
  case Nil
  then show ?case
    by (auto simp: fun_eq_iff max_def dest: uses_nonneg intro: antisym)
next
  case (Cons el path)
  obtain r1 f1 where step: "fabric_open d el f = (r1, f1)" by force
  with Cons.prems have ok: "fabric_ok f1" and u: "uses f1 = (uses f)(el := max 0 (uses f el - 1))"
    by (auto intro: fabric_element_facts)
  from Cons.prems step have "fabric_disconnect_from d (if e = None then r1 else e) path f1 = (r, f')"
    by simp
  from Cons.IH [OF ok this] show ?case
    by (auto simp: fun_eq_iff u)
qed

lemma connect_from_uses:
  "fabric_ok f \<Longrightarrow> (\<forall>el. adds closed el \<le> uses f el) \<Longrightarrow>
   fabric_connect_from d closed path f = (r, f') \<Longrightarrow>
     fabric_ok f' \<and>
     uses f' = (\<lambda>el. if r = None then uses f el + adds path el else uses f el - adds closed el)"
proof (induction path arbitrary: f closed)
  case Nil
  then show ?case by (auto simp: fun_eq_iff)
next
  case (Cons x path)
  obtain r1 f1 where step: "fabric_close d x f = (r1, f1)" by force
  then have ok1: "fabric_ok f1" using Cons.prems(1) by (rule close_ok [rotated])
  from step show ?case
  proof (cases rule: close_cases)
    case counted
    have "\<forall>el. adds (x # closed) el \<le> uses f1 el"
      using Cons.prems(2) by (simp add: counted)
    moreover have "fabric_connect_from d (x # closed) path f1 = (r, f')"
      using Cons.prems(3) step counted by simp
    ultimately have "fabric_ok f' \<and> uses f' =
        (\<lambda>el. if r = None then uses f1 el + adds path el else uses f1 el - adds (x # closed) el)"
      using Cons.IH [OF ok1] by blast
    then show ?thesis
      by (auto simp: fun_eq_iff counted)
  next
    case (refused e)
    then have same: "uses f1 = uses f" by (simp add: uses_def fun_eq_iff)
    have "r = Some e" "f' = fabric_unwind d closed f1"
      using Cons.prems(3) step refused by simp_all
    with unwind_uses [OF ok1, of d closed] Cons.prems(2) show ?thesis
      by (auto simp: fun_eq_iff same)
  qed
qed

lemma connect_uses:
  assumes "fabric_ok f" and "fabric_connect d path f = (r, f')"
  shows "fabric_ok f'"
    and "uses f' = (\<lambda>el. if r = None then uses f el + adds path el else uses f el)"
  using connect_from_uses [of f "[]" d path r f'] assms uses_nonneg [OF assms(1)]
  by (auto simp: fabric_connect_def)

lemma disconnect_uses:
  assumes "fabric_ok f" and "fabric_disconnect d path f = (r, f')"
  shows "fabric_ok f'" and "uses f' = (\<lambda>el. max 0 (uses f el - adds path el))"
  using disconnect_from_uses [of f d None path r f'] assms by (auto simp: fabric_disconnect_def)

lemma openAll_uses [simp]: "fabric_ok (fabric_openAll f)" "uses (fabric_openAll f) el = 0"
  by (simp_all add: fabric_openAll_def fabric_ok_def uses_def)

section \<open>Callers sharing the fabric\<close>

text \<open>
  The routing verbs, in any interleaving: a caller connects a path and, if that succeeded, holds
  it until it disconnects the same path. The ghost component is the list of paths held. Safing's
  openAll forgets every use, so from then on nobody holds anything.
\<close>

inductive fabric_step ::
    "('h, 'e) SwitchDriver option \<Rightarrow> 'h SwitchFabric \<times> Path list
       \<Rightarrow> 'h SwitchFabric \<times> Path list \<Rightarrow> bool" for d where
  connect: "fabric_connect d path f = (None, f') \<Longrightarrow> fabric_step d (f, held) (f', path # held)"
| connect_refused:
    "fabric_connect d path f = (Some e, f') \<Longrightarrow> fabric_step d (f, held) (f', held)"
| disconnect:
    "path \<in> set held \<Longrightarrow> fabric_disconnect d path f = (r, f') \<Longrightarrow>
     fabric_step d (f, held) (f', remove1 path held)"
| open_all: "fabric_step d (f, held) (fabric_openAll f, [])"

inductive_cases fabric_stepE: "fabric_step d s t"

inductive fabric_reachable ::
    "('h, 'e) SwitchDriver option \<Rightarrow> 'h SwitchFabric \<times> Path list \<Rightarrow> bool" for d where
  start: "mUseCount f = (\<lambda>_. None) \<Longrightarrow> fabric_reachable d (f, [])"
| step: "fabric_reachable d s \<Longrightarrow> fabric_step d s t \<Longrightarrow> fabric_reachable d t"

fun total_uses :: "Path list \<Rightarrow> SwitchElementId \<Rightarrow> int" where
  "total_uses [] el = 0"
| "total_uses (p # ps) el = adds p el + total_uses ps el"

lemma total_uses_nonneg [simp]: "0 \<le> total_uses ps el"
  by (induction ps) auto

lemma total_uses_remove1:
  "p \<in> set ps \<Longrightarrow> total_uses (remove1 p ps) el = total_uses ps el - adds p el"
  by (induction ps) auto

lemma total_uses_pos: "0 < total_uses ps el \<longleftrightarrow> (\<exists>p\<in>set ps. el \<in> set p)"
proof (induction ps)
  case Nil
  then show ?case by simp
next
  case (Cons p ps)
  have "0 < adds p el \<longleftrightarrow> el \<in> set p"
    by (metis count_list_0_iff gr0I less_numeral_extra(3) of_nat_0_less_iff)
  with Cons show ?case
    using total_uses_nonneg [of ps el]
    by (metis add_nonneg_pos add_pos_nonneg add_eq_0_iff less_le list.set_intros(1)
        list.set_intros(2) of_nat_0_le_iff set_ConsD total_uses.simps(2) add_nonneg_eq_0_iff)
qed

definition fabric_agrees :: "'h SwitchFabric \<times> Path list \<Rightarrow> bool" where
  "fabric_agrees s \<longleftrightarrow> fabric_ok (fst s) \<and> uses (fst s) = total_uses (snd s)"

lemma fabric_step_agrees:
  assumes "fabric_step d s t" and "fabric_agrees s"
  shows "fabric_agrees t"
  using assms
proof (cases rule: fabric_step.cases)
  case (connect path f f' held)
  with assms(2) connect_uses [of f d path None f'] show ?thesis
    by (auto simp: fabric_agrees_def fun_eq_iff)
next
  case (connect_refused path f e f' held)
  with assms(2) connect_uses [of f d path "Some e" f'] show ?thesis
    by (auto simp: fabric_agrees_def fun_eq_iff)
next
  case (disconnect path held f r f')
  have "0 \<le> total_uses held el - adds path el" for el
    using total_uses_remove1 [OF disconnect(3), of el] total_uses_nonneg by metis
  with disconnect assms(2) disconnect_uses [of f d path r f'] show ?thesis
    by (auto simp: fabric_agrees_def fun_eq_iff total_uses_remove1 max_def)
next
  case (open_all f held)
  then show ?thesis by (auto simp: fabric_agrees_def)
qed

lemma fabric_reachable_agrees: "fabric_reachable d s \<Longrightarrow> fabric_agrees s"
proof (induction rule: fabric_reachable.induct)
  case (start f)
  then show ?case by (auto simp: fabric_agrees_def fabric_ok_def uses_def fun_eq_iff)
next
  case (step s t)
  then show ?case by (blast intro: fabric_step_agrees)
qed

section \<open>Properties\<close>

text \<open>
  C5: A path is all or nothing. When connect returns, every element has as many uses more as the path
  names it, and no other has; when it throws, whatever element refused and whatever releasing the others
  did on the bench, every use count is what it was before the call.
\<close>

theorem connect_all_or_nothing:
  assumes "fabric_ok f" and "fabric_connect d path f = (r, f')"
  shows "case r of
      None \<Rightarrow> mUseCount f' = (\<lambda>el. if el \<in> set path
          then Some ((case mUseCount f el of None \<Rightarrow> 0 | Some n \<Rightarrow> n) + int (count_list path el)) else mUseCount f el)
    | Some e \<Rightarrow> mUseCount f' = mUseCount f"
proof (cases r)
  case None
  note u = connect_uses [OF assms]
  have pos: "0 < n" if "mUseCount f el = Some n \<or> mUseCount f' el = Some n" for el n
    using that u(1) assms(1) by (auto simp: fabric_ok_def)
  have "mUseCount f' el = (if el \<in> set path
      then Some ((case mUseCount f el of None \<Rightarrow> 0 | Some n \<Rightarrow> n) + int (count_list path el)) else mUseCount f el)" for el
    using fun_cong [OF u(2), of el] pos [of el] count_list_0_iff [of path el]
    by (cases "mUseCount f el"; cases "mUseCount f' el")
      (fastforce simp: None uses_def split: if_splits)+
  then show ?thesis by (simp add: None fun_eq_iff)
next
  case (Some e)
  have "mUseCount f' = mUseCount f"
    by (rule counts_from_uses) (use assms connect_uses [OF assms] Some in simp_all)
  with Some show ?thesis by simp
qed

text \<open>A driver that refuses one element and logs what it was told.\<close>

definition refusing_driver ::
    "SwitchElementId \<Rightarrow> ((SwitchElementId \<times> bool) list, string) SwitchDriver" where
  "refusing_driver bad =
     \<lparr>driver_close = (\<lambda>el h. if el = bad then (Some ''refused'', h) else (None, h @ [(el, True)])),
      driver_open = (\<lambda>el h. (None, h @ [(el, False)]))\<rparr>"

theorem connect_all_or_nothing_witness:
  "let a = \<lparr>device = 0, channel = 1\<rparr>; b = \<lparr>device = 0, channel = 2\<rparr>;
       f = \<lparr>mUseCount = [b \<mapsto> 1], hardware = []\<rparr>
   in mUseCount (snd (fabric_connect (Some (refusing_driver a)) [b, a] f)) = [b \<mapsto> 1] \<and>
      fst (fabric_connect (Some (refusing_driver a)) [b, a] f) = Some ''refused'' \<and>
      mUseCount (snd (fabric_connect (Some (refusing_driver a)) [b, b] f)) b = Some 3"
proof -
  let ?a = "\<lparr>device = 0, channel = 1\<rparr>" and ?b = "\<lparr>device = 0, channel = 2\<rparr>"
  let ?f = "\<lparr>mUseCount = [?b \<mapsto> 1], hardware = []\<rparr>"
  have ok: "fabric_ok ?f" by (auto simp: fabric_ok_def)
  have "fst (fabric_connect (Some (refusing_driver ?a)) [?b, ?a] ?f) = Some ''refused''"
    by (simp add: fabric_connect_def fabric_close_def refusing_driver_def)
  moreover from this obtain f' where
    "fabric_connect (Some (refusing_driver ?a)) [?b, ?a] ?f = (Some ''refused'', f')"
    by (metis prod.collapse)
  moreover have "fst (fabric_connect (Some (refusing_driver ?a)) [?b, ?b] ?f) = None"
    by (simp add: fabric_connect_def fabric_close_def refusing_driver_def)
  then obtain f2 where "fabric_connect (Some (refusing_driver ?a)) [?b, ?b] ?f = (None, f2)"
    by (metis prod.collapse)
  ultimately show ?thesis
    using connect_all_or_nothing [OF ok] by (fastforce simp: Let_def)
qed

text \<open>
  Whatever the callers do, in whatever interleaving and whatever the driver refuses, an
  element is counted as closed exactly when some path a caller still holds runs through it.
\<close>

theorem closed_iff_held:
  assumes "fabric_reachable d (f, held)"
  shows "fabric_isClosed el f \<longleftrightarrow> (\<exists>path \<in> set held. el \<in> set path)"
  using fabric_reachable_agrees [OF assms]
  by (simp add: fabric_agrees_def isClosed_iff_uses total_uses_pos)

theorem closed_iff_held_witness:
  "let a = \<lparr>device = 0, channel = 1\<rparr>; b = \<lparr>device = 0, channel = 2\<rparr>
   in fabric_isClosed a (snd (fabric_connect (None :: (unit, unit) SwitchDriver option) [a, b]
        \<lparr>mUseCount = (\<lambda>_. None), hardware = ()\<rparr>)) \<longleftrightarrow> (\<exists>path \<in> set [[a, b]]. a \<in> set path)"
proof -
  let ?a = "\<lparr>device = 0, channel = 1\<rparr>" and ?b = "\<lparr>device = 0, channel = 2\<rparr>"
  let ?d = "None :: (unit, unit) SwitchDriver option"
  let ?f = "\<lparr>mUseCount = (\<lambda>_. None), hardware = ()\<rparr>"
  have c: "fabric_connect ?d [?a, ?b] ?f = (None, snd (fabric_connect ?d [?a, ?b] ?f))"
    by (simp add: fabric_connect_def fabric_close_def)
  have "fabric_reachable ?d (?f, [])" by (rule fabric_reachable.start) simp
  from fabric_reachable.step [OF this fabric_step.connect [OF c]]
  have "fabric_reachable ?d (snd (fabric_connect ?d [?a, ?b] ?f), [[?a, ?b]])" .
  from closed_iff_held [OF this, of ?a] show ?thesis by (simp add: Let_def)
qed

text \<open>
  Disconnecting a path that was connected leaves every use count as it was before, even when
  the driver refuses to open some of it.
\<close>

theorem disconnect_undoes_connect:
  assumes "fabric_ok f" and "fabric_connect d path f = (None, f1)"
    and "fabric_disconnect d path f1 = (r, f2)"
  shows "mUseCount f2 = mUseCount f"
proof (rule counts_from_uses)
  note c = connect_uses [OF assms(1,2)]
  note dc = disconnect_uses [OF c(1) assms(3)]
  show "fabric_ok f2" by (rule dc(1))
  show "fabric_ok f" by (rule assms(1))
  show "uses f2 = uses f"
    using uses_nonneg [OF assms(1)] by (simp add: dc(2) c(2))
qed

definition stuck_driver :: "(unit, string) SwitchDriver" where
  "stuck_driver = \<lparr>driver_close = (\<lambda>el h. (None, h)), driver_open = (\<lambda>el h. (Some ''stuck'', h))\<rparr>"

theorem disconnect_undoes_connect_witness:
  "let a = \<lparr>device = 0, channel = 1\<rparr>; f = \<lparr>mUseCount = (\<lambda>_. None), hardware = ()\<rparr>;
       f1 = snd (fabric_connect (Some stuck_driver) [a, a] f)
   in mUseCount (snd (fabric_disconnect (Some stuck_driver) [a, a] f1)) = (\<lambda>_. None)"
proof -
  let ?a = "\<lparr>device = 0, channel = 1\<rparr>" and ?f = "\<lparr>mUseCount = (\<lambda>_. None), hardware = ()\<rparr>"
  have ok: "fabric_ok ?f" by (simp add: fabric_ok_def)
  have "fabric_connect (Some stuck_driver) [?a, ?a] ?f =
      (None, snd (fabric_connect (Some stuck_driver) [?a, ?a] ?f))"
    by (simp add: fabric_connect_def fabric_close_def stuck_driver_def)
  from disconnect_undoes_connect [OF ok this] show ?thesis
    by (metis prod.collapse SwitchFabric.select_convs(1))
qed

fun release_faults ::
    "('h, 'e) SwitchDriver option \<Rightarrow> Path \<Rightarrow> 'h SwitchFabric \<Rightarrow> 'e list" where
  "release_faults d [] f = []"
| "release_faults d (el # path) f =
     (case fabric_open d el f of
        (None, f') \<Rightarrow> release_faults d path f'
      | (Some e, f') \<Rightarrow> e # release_faults d path f')"

lemma disconnect_from_reports:
  "fst (fabric_disconnect_from d e path f) =
     (if e = None then (case release_faults d path f of [] \<Rightarrow> None | x # _ \<Rightarrow> Some x) else e)"
  by (induction path arbitrary: e f) (auto split: prod.splits option.splits list.splits)

text \<open>
  disconnect reports the first failure and still releases the whole path: its exception is
  the first one its releases threw, in the order of the path, and every element ends one use lower
  per occurrence.
\<close>

theorem disconnect_releases_all_reports_first:
  assumes "fabric_ok f"
  shows "fst (fabric_disconnect d path f) = (case release_faults d path f of [] \<Rightarrow> None | x # _ \<Rightarrow> Some x)
    \<and> uses (snd (fabric_disconnect d path f)) el = max 0 (uses f el - int (count_list path el))"
  using disconnect_uses(2) [OF assms prod.collapse [symmetric], of d path]
  by (simp add: fabric_disconnect_def disconnect_from_reports del: prod.collapse)

theorem disconnect_releases_all_reports_first_witness:
  "let a = \<lparr>device = 0, channel = 1\<rparr>; b = \<lparr>device = 0, channel = 2\<rparr>;
       f = \<lparr>mUseCount = [a \<mapsto> 1, b \<mapsto> 2], hardware = ()\<rparr>
   in fst (fabric_disconnect (Some stuck_driver) [b, a, b] f) = Some ''stuck'' \<and>
      uses (snd (fabric_disconnect (Some stuck_driver) [b, a, b] f)) b = 0"
proof -
  let ?a = "\<lparr>device = 0, channel = 1\<rparr>" and ?b = "\<lparr>device = 0, channel = 2\<rparr>"
  let ?f = "\<lparr>mUseCount = [?a \<mapsto> 1, ?b \<mapsto> 2], hardware = ()\<rparr>"
  have ok: "fabric_ok ?f" by (auto simp: fabric_ok_def)
  have faults: "release_faults (Some stuck_driver) [?b, ?a, ?b] ?f = [''stuck'', ''stuck'']"
    by (simp add: fabric_open_def stuck_driver_def Let_def)
  show ?thesis
    using disconnect_releases_all_reports_first [OF ok, of "Some stuck_driver" "[?b, ?a, ?b]" ?b]
    unfolding faults by (simp add: Let_def uses_def)
qed

end
