(* ===== verification/Double.thy ===== *)
theory Double
  imports Prelude Complex_Main
begin

text \<open>
  The double values the program reads, compares and prints. A finite double is the rational it
  stands for; the infinities and the not-a-number are values of their own, and comparisons are
  those of IEEE 754 (every comparison with a NaN but \<open>!=\<close> is false). A decimal text
  stands for its exact value; the rounding of sums and differences is in the theory Rounding.

  The readers are std::from_chars and std::strtod restricted to the decimal grammar.
\<close>

datatype double = Fin rat | PosInf | NegInf | NaN

fun d_lt :: "double \<Rightarrow> double \<Rightarrow> bool" where
  "d_lt NaN y = False"
| "d_lt x NaN = False"
| "d_lt (Fin a) (Fin b) = (a < b)"
| "d_lt NegInf y = (y \<noteq> NegInf)"
| "d_lt x NegInf = False"
| "d_lt x PosInf = (x \<noteq> PosInf)"
| "d_lt PosInf y = False"

fun d_eq :: "double \<Rightarrow> double \<Rightarrow> bool" where
  "d_eq NaN y = False"
| "d_eq x NaN = False"
| "d_eq x y = (x = y)"

definition d_le :: "double \<Rightarrow> double \<Rightarrow> bool" where
  "d_le x y \<longleftrightarrow> d_lt x y \<or> d_eq x y"

fun d_abs :: "double \<Rightarrow> double" where
  "d_abs (Fin a) = Fin \<bar>a\<bar>"
| "d_abs PosInf = PosInf"
| "d_abs NegInf = PosInf"
| "d_abs NaN = NaN"

lemma d_lt_Fin [simp]: "d_lt (Fin a) (Fin b) \<longleftrightarrow> a < b"
  by simp

lemma d_le_Fin [simp]: "d_le (Fin a) (Fin b) \<longleftrightarrow> a \<le> b"
  by (auto simp: d_le_def)

lemma d_lt_NaN [simp]: "\<not> d_lt NaN y" "\<not> d_lt x NaN"
  by (cases x; simp)+

lemma d_eq_NaN [simp]: "\<not> d_eq NaN y" "\<not> d_eq x NaN"
  by (cases x; simp)+

lemma d_le_NaN [simp]: "\<not> d_le NaN y" "\<not> d_le x NaN"
  by (simp_all add: d_le_def)

lemma d_eq_iff: "d_eq x y \<longleftrightarrow> x = y \<and> x \<noteq> NaN"
  by (cases x; cases y) auto

lemma d_lt_irrefl [simp]: "\<not> d_lt x x"
  by (cases x) auto

lemma d_lt_trans: "d_lt x y \<Longrightarrow> d_lt y z \<Longrightarrow> d_lt x z"
  by (cases x; cases y; cases z) auto

lemma d_le_trans: "d_le x y \<Longrightarrow> d_le y z \<Longrightarrow> d_le x z"
  by (cases x; cases y; cases z) (auto simp: d_le_def)

lemma d_total: "x \<noteq> NaN \<Longrightarrow> y \<noteq> NaN \<Longrightarrow> d_lt x y \<or> d_eq x y \<or> d_lt y x"
  by (cases x; cases y) auto

section \<open>Reading a decimal\<close>

text \<open>Digits, an optional point and digits, an optional exponent: the value and the rest.\<close>

definition pow10 :: "int \<Rightarrow> rat" where
  "pow10 e = (if 0 \<le> e then 10 ^ nat e else inverse (10 ^ nat (- e)))"

definition read_exponent :: "string \<Rightarrow> (int \<times> string) option" where
  "read_exponent s =
     (case s of
        [] \<Rightarrow> None
      | c # t \<Rightarrow>
          (if c = CHR ''e'' \<or> c = CHR ''E'' then
             (let (neg, u) = (case t of [] \<Rightarrow> (False, [])
                               | g # v \<Rightarrow> if g = CHR ''-'' then (True, v)
                                         else if g = CHR ''+'' then (False, v) else (False, t));
                  ds = takeWhile is_digit u
              in if ds = [] then None
                 else Some (if neg then - int (read_nat ds) else int (read_nat ds),
                            dropWhile is_digit u))
           else None))"

definition read_decimal :: "string \<Rightarrow> (rat \<times> string) option" where
  "read_decimal s =
     (let ip = takeWhile is_digit s; r1 = dropWhile is_digit s;
          (fp, r2) = (case r1 of [] \<Rightarrow> ([], [])
                       | c # t \<Rightarrow> if c = CHR ''.'' then (takeWhile is_digit t, dropWhile is_digit t)
                                 else ([], r1))
      in if ip = [] \<and> fp = [] then None
         else (let m = of_nat (read_nat (ip @ fp)) * pow10 (- int (length fp))
               in case read_exponent r2 of
                    None \<Rightarrow> Some (m, r2)
                  | Some (e, r3) \<Rightarrow> Some (m * pow10 e, r3)))"

text \<open>What from_chars refuses as out of range: overflow, and a nonzero value that underflows.\<close>

definition fits_double :: "rat \<Rightarrow> bool" where
  "fits_double v \<longleftrightarrow> \<bar>v\<bar> < 2 ^ 1024 - 2 ^ 970 \<and> (v = 0 \<or> inverse (2 ^ 1075) < \<bar>v\<bar>)"

definition lower :: "char \<Rightarrow> char" where
  "lower c = (if 65 \<le> (of_char c :: nat) \<and> (of_char c :: nat) \<le> 90
              then char_of ((of_char c :: nat) + 32) else c)"

definition from_chars_unsigned_double :: "string \<Rightarrow> double option" where
  "from_chars_unsigned_double s =
     (if map lower s \<in> {''inf'', ''infinity''} then Some PosInf
      else if map lower s = ''nan'' then Some NaN
      else (case read_decimal s of
              Some (v, []) \<Rightarrow> if fits_double v then Some (Fin v) else None
            | _ \<Rightarrow> None))"

fun d_neg :: "double \<Rightarrow> double" where
  "d_neg (Fin v) = Fin (- v)"
| "d_neg PosInf = NegInf"
| "d_neg NegInf = PosInf"
| "d_neg NaN = NaN"

text \<open>Whole text, as the callers check; a leading plus is refused, as from_chars does.\<close>

definition from_chars_double :: "string \<Rightarrow> double option" where
  "from_chars_double s =
     (case s of
        [] \<Rightarrow> None
      | c # t \<Rightarrow> if c = CHR ''-'' then map_option d_neg (from_chars_unsigned_double t)
                else from_chars_unsigned_double s)"

text \<open>
  strtod on text made of digits, signs, points and exponent letters: the value of the longest
  prefix that is a number, 0 when there is none, and an infinity when it overflows.
\<close>

definition strtod :: "string \<Rightarrow> double" where
  "strtod s =
     (let (neg, t) = (case s of [] \<Rightarrow> (False, [])
                       | c # u \<Rightarrow> if c = CHR ''-'' then (True, u)
                                 else if c = CHR ''+'' then (False, u) else (False, s))
      in case read_decimal t of
           None \<Rightarrow> Fin 0
         | Some (v, r) \<Rightarrow>
             (let d = (if v < 2 ^ 1024 - 2 ^ 970 then Fin v else PosInf)
              in if neg then d_neg d else d))"

end
