(* ===== verification/Scpi.thy ===== *)
theory Scpi
  imports Double
begin

text \<open>
  The SCPI session over a line transport: hal/io/scpi.hpp and scpi.cpp. The transport (a socket or
  a VISA resource, and the instrument at its end) is a parameter: what sending a command and
  receiving a line do to its state, either of which may throw. A session operation returns the
  exception or the value, and the transport's state on both outcomes.
\<close>

section \<open>Types\<close>

datatype transport_error = TransportError string | TransportTimeout string

record 't ITransport =
  send :: "string \<Rightarrow> 't \<Rightarrow> transport_error option \<times> 't"
  receive :: "'t \<Rightarrow> (transport_error + string) \<times> 't"
  description :: "'t \<Rightarrow> string"

record ScpiError =
  Code :: int
  Message :: string

datatype io_error =
    Transport transport_error
  | ScpiFault string string ScpiError

text \<open>The sentence a fault carries.\<close>

definition scpi_fault_text :: "string \<Rightarrow> string \<Rightarrow> ScpiError \<Rightarrow> string" where
  "scpi_fault_text instrument command e =
     instrument @ '' rejected \"'' @ command @ ''\": '' @ show_int (Code e) @ '',\"'' @ Message e @ ''\"''"

section \<open>Parsing replies\<close>

definition scpi_whitespace :: "char set" where
  "scpi_whitespace = {CHR '' '', CHR 0x09, CHR 0x0D, CHR 0x0A}"

definition scpi_trimmed :: "string \<Rightarrow> string" where
  "scpi_trimmed text = trim_with scpi_whitespace text"

definition scpi_strip_plus :: "string \<Rightarrow> string" where
  "scpi_strip_plus s = (case s of [] \<Rightarrow> [] | c # t \<Rightarrow> if c = CHR ''+'' then t else s)"

definition parseNumber_int :: "string \<Rightarrow> int option" where
  "parseNumber_int text = from_chars_int (scpi_strip_plus (scpi_trimmed text))"

definition parseNumber_double :: "string \<Rightarrow> double option" where
  "parseNumber_double text = from_chars_double (scpi_strip_plus (scpi_trimmed text))"

definition unquoted :: "string \<Rightarrow> string" where
  "unquoted message =
     (if 2 \<le> length message \<and> hd message = CHR 0x22 \<and> last message = CHR 0x22
      then butlast (tl message) else message)"

definition parseQueueEntry :: "string \<Rightarrow> ScpiError option" where
  "parseQueueEntry reply =
     (case split_first (CHR '','') reply of
        None \<Rightarrow> None
      | Some (code_text, rest) \<Rightarrow>
          (case parseNumber_int code_text of
             None \<Rightarrow> None
           | Some code \<Rightarrow> Some \<lparr>Code = code, Message = unquoted (scpi_trimmed rest)\<rparr>))"

section \<open>Operations\<close>

definition scpi_write ::
    "'t ITransport \<Rightarrow> string \<Rightarrow> 't \<Rightarrow> (io_error + unit) \<times> 't" where
  "scpi_write tr command t =
     (case send tr command t of
        (Some e, t') \<Rightarrow> (Inl (Transport e), t')
      | (None, t') \<Rightarrow> (Inr (), t'))"

definition scpi_query ::
    "'t ITransport \<Rightarrow> string \<Rightarrow> 't \<Rightarrow> (io_error + string) \<times> 't" where
  "scpi_query tr question t =
     (case send tr question t of
        (Some e, t') \<Rightarrow> (Inl (Transport e), t')
      | (None, t') \<Rightarrow>
          (case receive tr t' of
             (Inl e, t'') \<Rightarrow> (Inl (Transport e), t'')
           | (Inr line, t'') \<Rightarrow> (Inr (scpi_trimmed line), t'')))"

definition scpi_nextError ::
    "'t ITransport \<Rightarrow> 't \<Rightarrow> (io_error + ScpiError option) \<times> 't" where
  "scpi_nextError tr t =
     (case scpi_query tr ''SYST:ERR?'' t of
        (Inl e, t') \<Rightarrow> (Inl e, t')
      | (Inr reply, t') \<Rightarrow>
          (case parseQueueEntry reply of
             None \<Rightarrow> (Inr None, t')
           | Some entry \<Rightarrow> (Inr (if Code entry = 0 then None else Some entry), t')))"

fun scpi_drain :: "nat \<Rightarrow> 't ITransport \<Rightarrow> 't \<Rightarrow> (io_error + unit) \<times> 't" where
  "scpi_drain 0 tr t = (Inr (), t)"
| "scpi_drain (Suc n) tr t =
     (case scpi_nextError tr t of
        (Inl e, t') \<Rightarrow> (Inl e, t')
      | (Inr None, t') \<Rightarrow> (Inr (), t')
      | (Inr (Some _), t') \<Rightarrow> scpi_drain n tr t')"

definition kMaximumQueueDepth :: nat where
  "kMaximumQueueDepth = 21"

definition scpi_clearErrors :: "'t ITransport \<Rightarrow> 't \<Rightarrow> (io_error + unit) \<times> 't" where
  "scpi_clearErrors tr t = scpi_drain kMaximumQueueDepth tr t"

definition scpi_checked ::
    "'t ITransport \<Rightarrow> string \<Rightarrow> 't \<Rightarrow> (io_error + unit) \<times> 't" where
  "scpi_checked tr command t =
     (case send tr command t of
        (Some e, t1) \<Rightarrow> (Inl (Transport e), t1)
      | (None, t1) \<Rightarrow>
          (case scpi_nextError tr t1 of
             (Inl e, t2) \<Rightarrow> (Inl e, t2)
           | (Inr None, t2) \<Rightarrow> (Inr (), t2)
           | (Inr (Some fst_error), t2) \<Rightarrow>
               (case scpi_clearErrors tr t2 of
                  (Inl e, t3) \<Rightarrow> (Inl e, t3)
                | (Inr _, t3) \<Rightarrow> (Inl (ScpiFault (description tr t3) command fst_error), t3))))"

text \<open>
  A timeout is explained by the error queue when the queue can be read; a transport error while
  asking is swallowed and the timeout goes on.
\<close>

definition scpi_queryChecked ::
    "'t ITransport \<Rightarrow> string \<Rightarrow> 't \<Rightarrow> (io_error + string) \<times> 't" where
  "scpi_queryChecked tr question t =
     (case scpi_query tr question t of
        (Inl (Transport (TransportTimeout w)), t1) \<Rightarrow>
          (case scpi_nextError tr t1 of
             (Inl _, t2) \<Rightarrow> (Inl (Transport (TransportTimeout w)), t2)
           | (Inr None, t2) \<Rightarrow> (Inl (Transport (TransportTimeout w)), t2)
           | (Inr (Some e), t2) \<Rightarrow>
               (case scpi_clearErrors tr t2 of
                  (Inl _, t3) \<Rightarrow> (Inl (Transport (TransportTimeout w)), t3)
                | (Inr _, t3) \<Rightarrow> (Inl (ScpiFault (description tr t3) question e), t3)))
      | r \<Rightarrow> r)"

definition scpi_queryNumber ::
    "'t ITransport \<Rightarrow> string \<Rightarrow> 't \<Rightarrow> (io_error + double) \<times> 't" where
  "scpi_queryNumber tr question t =
     (case scpi_queryChecked tr question t of
        (Inl e, t') \<Rightarrow> (Inl e, t')
      | (Inr reply, t') \<Rightarrow>
          (case parseNumber_double reply of
             Some v \<Rightarrow> (Inr v, t')
           | None \<Rightarrow>
               (Inl (Transport (TransportError
                  (description tr t' @ '' answered \"'' @ reply @ ''\" to \"'' @ question
                   @ ''\", which is not a number -- the session is out of step with its replies''))), t')))"

fun scpi_fields_to_numbers :: "string list \<Rightarrow> string + double list" where
  "scpi_fields_to_numbers [] = Inr []"
| "scpi_fields_to_numbers (fld # flds) =
     (case parseNumber_double fld of
        None \<Rightarrow> Inl fld
      | Some v \<Rightarrow>
          (case scpi_fields_to_numbers flds of
             Inl bad \<Rightarrow> Inl bad
           | Inr vs \<Rightarrow> Inr (v # vs)))"

definition scpi_queryNumbers ::
    "'t ITransport \<Rightarrow> string \<Rightarrow> 't \<Rightarrow> (io_error + double list) \<times> 't" where
  "scpi_queryNumbers tr question t =
     (case scpi_queryChecked tr question t of
        (Inl e, t') \<Rightarrow> (Inl e, t')
      | (Inr reply, t') \<Rightarrow>
          (if reply = [] then
             (Inl (Transport (TransportError
                (description tr t' @ '' answered nothing to \"'' @ question @ ''\"''))), t')
           else
             (case scpi_fields_to_numbers (split_on (CHR '','') reply) of
                Inr vs \<Rightarrow> (Inr vs, t')
              | Inl field \<Rightarrow>
                  (Inl (Transport (TransportError
                     (description tr t' @ '' answered \"'' @ reply @ ''\" to \"'' @ question
                      @ ''\", whose field \"'' @ field @ ''\" is not a number''
                      @ '' -- the session is out of step with its replies''))), t'))))"

definition scpi_identify :: "'t ITransport \<Rightarrow> 't \<Rightarrow> (io_error + string) \<times> 't" where
  "scpi_identify tr t = scpi_queryChecked tr ''*IDN?'' t"

definition scpi_reset :: "'t ITransport \<Rightarrow> 't \<Rightarrow> (io_error + unit) \<times> 't" where
  "scpi_reset tr t =
     (case scpi_write tr ''*RST'' t of
        (Inl e, t') \<Rightarrow> (Inl e, t')
      | (Inr _, t') \<Rightarrow> scpi_write tr ''*CLS'' t')"

definition scpi_waitForComplete :: "'t ITransport \<Rightarrow> 't \<Rightarrow> (io_error + unit) \<times> 't" where
  "scpi_waitForComplete tr t =
     (case scpi_queryChecked tr ''*OPC?'' t of
        (Inl e, t') \<Rightarrow> (Inl e, t')
      | (Inr _, t') \<Rightarrow> (Inr (), t'))"

definition isOverload :: "double \<Rightarrow> bool" where
  "isOverload reading \<longleftrightarrow> d_le (Fin 90000000000000000000000000000000000000) (d_abs reading)"

section \<open>An instrument with an error queue\<close>

text \<open>
  What the SCPI standard promises of \<open>SYST:ERR?\<close>: it answers the oldest entry and removes it, and
  answers code 0 when there is none. \<open>errq\<close> is the queue as a function of the transport's state.
\<close>

definition queue_line :: "ScpiError \<Rightarrow> string" where
  "queue_line e = show_int (Code e) @ '',\"'' @ Message e @ ''\"''"

definition no_error :: ScpiError where
  "no_error = \<lparr>Code = 0, Message = ''No error''\<rparr>"

definition int32 :: "int \<Rightarrow> bool" where
  "int32 i \<longleftrightarrow> - 2147483648 \<le> i \<and> i \<le> 2147483647"

definition queued_error :: "ScpiError \<Rightarrow> bool" where
  "queued_error e \<longleftrightarrow> int32 (Code e) \<and> Code e \<noteq> 0"

definition error_queue_instrument :: "'t ITransport \<Rightarrow> ('t \<Rightarrow> ScpiError list) \<Rightarrow> bool" where
  "error_queue_instrument tr errq \<longleftrightarrow>
     (\<forall>t. \<exists>t1 t2. send tr ''SYST:ERR?'' t = (None, t1) \<and>
        receive tr t1 = (Inr (queue_line (case errq t of [] \<Rightarrow> no_error | e # _ \<Rightarrow> e)), t2) \<and>
        errq t2 = tl (errq t))"

subsection \<open>The queue's lines parse back\<close>

lemma hd_show_int: "hd (show_int i) = CHR ''-'' \<or> is_digit (hd (show_int i))"
  by (simp add: show_int_def show_nat_hd)

lemma show_int_nonempty [simp]: "show_int i \<noteq> []"
  by (simp add: show_int_def)

lemma whitespace_not_numeric:
  "c = CHR ''-'' \<or> is_digit c \<Longrightarrow> c \<notin> scpi_whitespace \<and> c \<noteq> CHR ''+''"
  by (auto simp: scpi_whitespace_def is_digit_def)

lemma scpi_trimmed_queue_line: "scpi_trimmed (queue_line e) = queue_line e"
proof -
  have "hd (queue_line e) \<notin> scpi_whitespace"
    using whitespace_not_numeric [OF hd_show_int] by (simp add: queue_line_def hd_append)
  moreover have "last (queue_line e) \<notin> scpi_whitespace"
    by (simp add: queue_line_def scpi_whitespace_def)
  ultimately show ?thesis
    by (simp add: scpi_trimmed_def trim_with_id)
qed

lemma parseNumber_show_int: "int32 i \<Longrightarrow> parseNumber_int (show_int i) = Some i"
proof -
  assume i: "int32 i"
  have "last (show_int i) = CHR ''-'' \<or> is_digit (last (show_int i))"
    using show_nat_digits [OF last_in_set [OF show_nat_nonempty]] by (simp add: show_int_def)
  then have "scpi_trimmed (show_int i) = show_int i"
    unfolding scpi_trimmed_def
    using whitespace_not_numeric [OF hd_show_int] whitespace_not_numeric
    by (intro trim_with_id) simp
  moreover have "scpi_strip_plus (show_int i) = show_int i"
    using whitespace_not_numeric [OF hd_show_int [of i]]
    by (cases "show_int i") (auto simp: scpi_strip_plus_def)
  ultimately show ?thesis
    using i by (simp add: parseNumber_int_def int32_def)
qed

lemma parseQueueEntry_queue_line:
  assumes "int32 (Code e)"
  shows "parseQueueEntry (queue_line e) = Some e"
proof -
  have "CHR '','' \<notin> set (show_int (Code e))"
    by (rule notin_show_int) simp_all
  then have "split_first (CHR '','') (queue_line e) = Some (show_int (Code e), ''\"'' @ Message e @ ''\"'')"
    by (simp add: queue_line_def split_first_Some)
  moreover have "scpi_trimmed (''\"'' @ Message e @ ''\"'') = ''\"'' @ Message e @ ''\"''"
    unfolding scpi_trimmed_def by (rule trim_with_id) (simp add: scpi_whitespace_def)
  moreover have "unquoted (''\"'' @ Message e @ ''\"'') = Message e"
    by (simp add: unquoted_def)
  ultimately show ?thesis
    by (simp add: parseQueueEntry_def parseNumber_show_int [OF assms])
qed

subsection \<open>Asking and draining\<close>

lemma nextError_device:
  assumes "error_queue_instrument tr errq" and "\<forall>e \<in> set (errq t). queued_error e"
  obtains t' where "scpi_nextError tr t = (Inr (case errq t of [] \<Rightarrow> None | e # _ \<Rightarrow> Some e), t')"
    and "errq t' = tl (errq t)"
proof -
  let ?e = "case errq t of [] \<Rightarrow> no_error | e # _ \<Rightarrow> e"
  obtain t1 t2 where "send tr ''SYST:ERR?'' t = (None, t1)"
    and "receive tr t1 = (Inr (queue_line ?e), t2)" and q: "errq t2 = tl (errq t)"
    using assms(1) unfolding error_queue_instrument_def by blast
  moreover have "int32 (Code ?e)"
    using assms(2) by (auto simp: queued_error_def no_error_def int32_def split: list.splits)
  ultimately have "scpi_nextError tr t = (Inr (if Code ?e = 0 then None else Some ?e), t2)"
    by (simp add: scpi_nextError_def scpi_query_def scpi_trimmed_queue_line parseQueueEntry_queue_line)
  also have "(if Code ?e = 0 then None else Some ?e) = (case errq t of [] \<Rightarrow> None | e # _ \<Rightarrow> Some e)"
    using assms(2) by (auto simp: queued_error_def no_error_def split: list.splits)
  finally show thesis using q that by blast
qed

lemma drain_device:
  assumes "error_queue_instrument tr errq"
  shows "length (errq t) \<le> n \<Longrightarrow> \<forall>e \<in> set (errq t). queued_error e \<Longrightarrow>
    \<exists>t'. scpi_drain n tr t = (Inr (), t') \<and> errq t' = []"
proof (induction n arbitrary: t)
  case 0
  then show ?case by simp
next
  case (Suc n)
  from nextError_device [OF assms Suc.prems(2)] obtain t1 where
    ask: "scpi_nextError tr t = (Inr (case errq t of [] \<Rightarrow> None | e # _ \<Rightarrow> Some e), t1)"
    and q: "errq t1 = tl (errq t)" .
  show ?case
  proof (cases "errq t")
    case Nil
    with ask q show ?thesis by simp
  next
    case (Cons e es)
    with q Suc.prems have "length (errq t1) \<le> n" "\<forall>e \<in> set (errq t1). queued_error e" by simp_all
    with Suc.IH ask Cons show ?thesis by auto
  qed
qed


text \<open>A bench instrument that refuses every ROUT command it is sent and answers the rest.\<close>

definition refusing_instrument :: "(ScpiError list \<times> string) ITransport" where
  "refusing_instrument = \<lparr>
     send = (\<lambda>command (q, line).
       if command = ''SYST:ERR?''
       then (None, (tl q, queue_line (case q of [] \<Rightarrow> no_error | e # _ \<Rightarrow> e)))
       else (None, (q @ [\<lparr>Code = - 222, Message = ''Data out of range''\<rparr>], line))),
     receive = (\<lambda>(q, line). (Inr line, (q, []))),
     description = (\<lambda>_. ''Swu1'')\<rparr>"

lemma refusing_instrument_queue: "error_queue_instrument refusing_instrument fst"
  by (auto simp: error_queue_instrument_def refusing_instrument_def)


text \<open>
  The reader of error-queue entries inverts the instrument's format: every code that fits an
  int and every message, quotes and commas included, comes back as it was sent.
\<close>

theorem parseQueueEntry_roundtrip:
  assumes "int32 (Code e)"
  shows "parseQueueEntry (scpi_trimmed (queue_line e)) = Some e"
  using assms by (simp add: scpi_trimmed_queue_line parseQueueEntry_queue_line)

theorem parseQueueEntry_roundtrip_witness:
  "parseQueueEntry (scpi_trimmed (queue_line \<lparr>Code = - 113, Message = ''Undefined header, \"CLSE\"''\<rparr>))
     = Some \<lparr>Code = - 113, Message = ''Undefined header, \"CLSE\"''\<rparr>"
  using parseQueueEntry_roundtrip [of "\<lparr>Code = - 113, Message = ''Undefined header, \"CLSE\"''\<rparr>"]
  by (simp add: int32_def)

end
