(* ===== verification/BoxConnection.thy ===== *)
theory BoxConnection
  imports Scpi SwitchDevice
begin

text \<open>
  One link per box: hal/driver/box_connection.hpp and .cpp, over the box table of
  hal/topology/boxes.hpp. Several instruments (faces) of one box at one address share one BoxLink,
  found through a registry of weak pointers, and a family of faces prepares the shared session
  once. A connection is the index of the face that owns it; the links a shared_ptr could own are a
  store indexed by number, and a registry entry is expired when no connection holds its link. What
  opening a transport does is a parameter. The mutex and typeid are not modelled: the registry
  operations run one at a time and a native type is its name.
\<close>

section \<open>The rows of a rig\<close>

record BoxRow =
  RowBox :: string
  Row :: string
  RowAddress :: address
  Device :: bool

definition boxOf :: "BoxRow list \<Rightarrow> nat \<Rightarrow> string" where
  "boxOf instrumentBoxRows instrument = RowBox (instrumentBoxRows ! instrument)"

definition hasInstrumentsIn :: "BoxRow list \<Rightarrow> string \<Rightarrow> bool" where
  "hasInstrumentsIn instrumentBoxRows box = list_ex (\<lambda>row. RowBox row = box) instrumentBoxRows"

definition instrumentsIn :: "BoxRow list \<Rightarrow> string \<Rightarrow> nat list" where
  "instrumentsIn instrumentBoxRows box =
     filter (\<lambda>i. boxOf instrumentBoxRows i = box) [0..<length instrumentBoxRows]"

definition instrumentBoxNames :: "BoxRow list \<Rightarrow> string list" where
  "instrumentBoxNames instrumentBoxRows = push_new [] (map RowBox instrumentBoxRows)"

definition simulatedFace :: "BoxRow \<Rightarrow> bool" where
  "simulatedFace row \<longleftrightarrow> \<not> Device row \<and> RowAddress row = Simulated"

text \<open>The two configure-time refusals of boxConflict, and its walk over the pairs of rows.\<close>

datatype box_conflict = DifferentAddresses string string string | SameAddress string string string string

definition pair_conflict :: "BoxRow \<Rightarrow> BoxRow \<Rightarrow> box_conflict option" where
  "pair_conflict a b =
     (if RowBox a = RowBox b \<and> RowAddress a \<noteq> RowAddress b \<and> \<not> simulatedFace a \<and> \<not> simulatedFace b
      then Some (DifferentAddresses (Row a) (Row b) (RowBox a))
      else if RowBox a \<noteq> RowBox b \<and> RowAddress a = RowAddress b \<and> RowAddress a \<noteq> Simulated
      then Some (SameAddress (Row a) (RowBox a) (Row b) (RowBox b))
      else None)"

fun first_conflict_with :: "BoxRow \<Rightarrow> BoxRow list \<Rightarrow> box_conflict option" where
  "first_conflict_with a [] = None"
| "first_conflict_with a (b # bs) =
     (case pair_conflict a b of Some c \<Rightarrow> Some c | None \<Rightarrow> first_conflict_with a bs)"

fun boxConflict :: "BoxRow list \<Rightarrow> box_conflict option" where
  "boxConflict [] = None"
| "boxConflict (a # rows) =
     (case first_conflict_with a rows of Some c \<Rightarrow> Some c | None \<Rightarrow> boxConflict rows)"

lemma first_conflict_with_None:
  "first_conflict_with a rows = None \<longleftrightarrow> (\<forall>b \<in> set rows. pair_conflict a b = None)"
  by (induction rows) (auto split: option.splits)

lemma pair_conflict_None:
  "pair_conflict a b = None \<longleftrightarrow>
     (RowBox a = RowBox b \<and> \<not> simulatedFace a \<and> \<not> simulatedFace b \<longrightarrow> RowAddress a = RowAddress b) \<and>
     (RowAddress a = RowAddress b \<and> RowAddress a \<noteq> Simulated \<longrightarrow> RowBox a = RowBox b)"
  by (auto simp: pair_conflict_def)

lemma pair_conflict_sym: "pair_conflict a b = None \<longleftrightarrow> pair_conflict b a = None"
  by (auto simp: pair_conflict_def)

lemma pair_conflict_self [simp]: "pair_conflict a a = None"
  by (simp add: pair_conflict_def)

lemma boxConflict_None:
  "boxConflict rows = None \<longleftrightarrow> (\<forall>a \<in> set rows. \<forall>b \<in> set rows. pair_conflict a b = None)"
proof (induction rows)
  case Nil
  then show ?case by simp
next
  case (Cons a rows)
  then show ?case
    using first_conflict_with_None [of a rows] pair_conflict_sym [of _ a]
    by (cases "first_conflict_with a rows") auto
qed

text \<open>
  A rig whose table builds. The build accepts a box table (boxConflict finds nothing) exactly
  when one box has one address and one address belongs to one box, over all rows that are not a
  simulated face: any two rows name the same box if and only if they say the same address.
\<close>

theorem boxConflict_exact:
  "boxConflict rows = None \<longleftrightarrow>
     (\<forall>a \<in> set rows. \<forall>b \<in> set rows.
        (RowBox a = RowBox b \<and> \<not> simulatedFace a \<and> \<not> simulatedFace b \<longrightarrow> RowAddress a = RowAddress b) \<and>
        (RowAddress a = RowAddress b \<and> RowAddress a \<noteq> Simulated \<longrightarrow> RowBox a = RowBox b))"
  by (simp add: boxConflict_None pair_conflict_None)

theorem boxConflict_exact_witness:
  "boxConflict
     [\<lparr>RowBox = ''Swu1'', Row = ''Swu1'', RowAddress = Usb ''MY53154781'', Device = False\<rparr>,
      \<lparr>RowBox = ''Swu1'', Row = ''Slot1'', RowAddress = Usb ''MY53154781'', Device = True\<rparr>,
      \<lparr>RowBox = ''Dmm1'', Row = ''Dmm1'', RowAddress = Simulated, Device = False\<rparr>] = None"
  unfolding boxConflict_exact by (simp add: simulatedFace_def)

section \<open>Links, connections and the registry\<close>

record 't BoxLink =
  Session :: "'t option"
  PreparedBy :: "string list"
  Native :: "string option"

definition empty_link :: "'t BoxLink" where
  "empty_link = \<lparr>Session = None, PreparedBy = [], Native = None\<rparr>"

record connection =
  mAddress :: address
  mLink :: "nat option"

record 't boxes =
  connections :: "connection list"
  links :: "'t BoxLink list"
  Links :: "(string \<times> string \<times> nat) list"

definition link_held :: "'t boxes \<Rightarrow> nat \<Rightarrow> bool" where
  "link_held w l = list_ex (\<lambda>c. mLink c = Some l) (connections w)"

text \<open>find: expired entries are erased first, then the first match answers.\<close>

definition registry_find ::
    "'t boxes \<Rightarrow> string \<Rightarrow> string \<Rightarrow> nat option \<times> 't boxes" where
  "registry_find w box addr =
     (let live = filter (\<lambda>(_, _, l). link_held w l) (Links w)
      in (map_option (\<lambda>(_, _, l). l) (find (\<lambda>(b, a, _). b = box \<and> a = addr) live),
          w\<lparr>Links := live\<rparr>))"

definition boxLinkAt :: "'t boxes \<Rightarrow> string \<Rightarrow> address \<Rightarrow> nat \<times> 't boxes" where
  "boxLinkAt w box address =
     (case registry_find w box (to_string_address address) of
        (Some l, w') \<Rightarrow> (l, w')
      | (None, w') \<Rightarrow>
          (length (links w'),
           w'\<lparr>links := links w' @ [empty_link],
              Links := Links w' @ [(box, to_string_address address, length (links w'))]\<rparr>))"

definition existingBoxLinkAt :: "'t boxes \<Rightarrow> string \<Rightarrow> address \<Rightarrow> nat option \<times> 't boxes" where
  "existingBoxLinkAt w box address = registry_find w box (to_string_address address)"

definition set_link :: "nat \<Rightarrow> nat option \<Rightarrow> 't boxes \<Rightarrow> 't boxes" where
  "set_link i l w = w\<lparr>connections := (connections w)[i := (connections w ! i)\<lparr>mLink := l\<rparr>]\<rparr>"

definition connection_link :: "BoxRow list \<Rightarrow> nat \<Rightarrow> 't boxes \<Rightarrow> nat \<times> 't boxes" where
  "connection_link rows i w =
     (let c = connections w ! i
      in case mLink c of
           Some l \<Rightarrow> (l, w)
         | None \<Rightarrow>
             (if mAddress c = Simulated
              then (length (links w),
                    set_link i (Some (length (links w))) (w\<lparr>links := links w @ [empty_link]\<rparr>))
              else (case boxLinkAt w (boxOf rows i) (mAddress c) of
                      (l, w') \<Rightarrow> (l, set_link i (Some l) w'))))"

definition connection_heldLink :: "BoxRow list \<Rightarrow> nat \<Rightarrow> 't boxes \<Rightarrow> nat option \<times> 't boxes" where
  "connection_heldLink rows i w =
     (let c = connections w ! i
      in if mLink c = None \<and> mAddress c \<noteq> Simulated
         then (case existingBoxLinkAt w (boxOf rows i) (mAddress c) of
                 (l, w') \<Rightarrow> (l, set_link i l w'))
         else (mLink c, w))"

definition put_link :: "nat \<Rightarrow> 't BoxLink \<Rightarrow> 't boxes \<Rightarrow> 't boxes" where
  "put_link l held w = w\<lparr>links := (links w)[l := held]\<rparr>"

section \<open>Operations of a connection\<close>

datatype box_error = LogicError string | Io io_error

definition connection_useTransport :: "BoxRow list \<Rightarrow> nat \<Rightarrow> 't \<Rightarrow> 't boxes \<Rightarrow> 't boxes" where
  "connection_useTransport rows i t w =
     (case connection_link rows i w of
        (l, w') \<Rightarrow> put_link l \<lparr>Session = Some t, PreparedBy = [], Native = None\<rparr> w')"

definition connection_useAddress :: "nat \<Rightarrow> address \<Rightarrow> 't boxes \<Rightarrow> 't boxes" where
  "connection_useAddress i address w =
     w\<lparr>connections := (connections w)[i := \<lparr>mAddress = address, mLink = None\<rparr>]\<rparr>"

definition connection_hasSession :: "BoxRow list \<Rightarrow> nat \<Rightarrow> 't boxes \<Rightarrow> bool \<times> 't boxes" where
  "connection_hasSession rows i w =
     (case connection_heldLink rows i w of
        (None, w') \<Rightarrow> (False, w')
      | (Some l, w') \<Rightarrow> (Session (links w' ! l) \<noteq> None \<or> Native (links w' ! l) \<noteq> None, w'))"

definition connection_isSimulated :: "BoxRow list \<Rightarrow> nat \<Rightarrow> 't boxes \<Rightarrow> bool \<times> 't boxes" where
  "connection_isSimulated rows i w =
     (case connection_hasSession rows i w of
        (has, w') \<Rightarrow> (\<not> has \<and> mAddress (connections w' ! i) = Simulated, w'))"

text \<open>
  session: open the transport when the link has none, let the family prepare it when it has not
  yet, and remember that it did only when the preparation did not throw.
\<close>

definition connection_session ::
    "BoxRow list \<Rightarrow> (address \<Rightarrow> transport_error + 't) \<Rightarrow> string
       \<Rightarrow> ('t \<Rightarrow> (io_error + unit) \<times> 't) \<Rightarrow> nat \<Rightarrow> 't boxes \<Rightarrow> (box_error + nat) \<times> 't boxes" where
  "connection_session rows openTransport family prepare i w =
     (case connection_link rows i w of
        (l, w1) \<Rightarrow>
          (let held = links w1 ! l
           in if Native held \<noteq> None
              then (Inl (LogicError (''BoxConnection: box '' @ boxOf rows i
                      @ '' holds a native object, not an SCPI session'')), w1)
              else
                (case (case Session held of
                         Some t \<Rightarrow> Inr t
                       | None \<Rightarrow> openTransport (mAddress (connections w1 ! i))) of
                   Inl e \<Rightarrow> (Inl (Io (Transport e)), w1)
                 | Inr t \<Rightarrow>
                     (let opened = held\<lparr>Session := Some t\<rparr>
                      in if family \<in> set (PreparedBy opened) then (Inr l, put_link l opened w1)
                         else
                           (case prepare t of
                              (Inl e, t') \<Rightarrow>
                                (Inl (Io e), put_link l (opened\<lparr>Session := Some t'\<rparr>) w1)
                            | (Inr _, t') \<Rightarrow>
                                (Inr l, put_link l (opened\<lparr>Session := Some t',
                                          PreparedBy := PreparedBy opened @ [family]\<rparr>) w1))))))"

text \<open>
  native: the object is made when the link has none. \<open>made\<close> is what the maker ends with: the exception it
  throws, and the link is left without an object, or none.
\<close>

definition connection_native ::
    "BoxRow list \<Rightarrow> string \<Rightarrow> box_error option \<Rightarrow> nat \<Rightarrow> 't boxes \<Rightarrow> (box_error + nat) \<times> 't boxes" where
  "connection_native rows nativeType made i w =
     (case connection_link rows i w of
        (l, w1) \<Rightarrow>
          (let held = links w1 ! l
           in if Session held \<noteq> None
              then (Inl (LogicError (''BoxConnection: box '' @ boxOf rows i
                      @ '' holds an SCPI session, not a native object'')), w1)
              else (case Native held of
                      None \<Rightarrow>
                        (case made of
                           Some e \<Rightarrow> (Inl e, w1)
                         | None \<Rightarrow> (Inr l, put_link l (held\<lparr>Native := Some nativeType\<rparr>) w1))
                    | Some ty \<Rightarrow>
                        (if ty \<noteq> nativeType
                         then (Inl (LogicError (''BoxConnection: box '' @ boxOf rows i
                                 @ '' holds a different native type'')), w1)
                         else (Inr l, w1)))))"

definition connection_installNative :: "BoxRow list \<Rightarrow> string \<Rightarrow> nat \<Rightarrow> 't boxes \<Rightarrow> 't boxes" where
  "connection_installNative rows nativeType i w =
     (case connection_link rows i w of
        (l, w') \<Rightarrow> put_link l \<lparr>Session = None, PreparedBy = [], Native = Some nativeType\<rparr> w')"

definition connection_openSession :: "BoxRow list \<Rightarrow> nat \<Rightarrow> 't boxes \<Rightarrow> nat option \<times> 't boxes" where
  "connection_openSession rows i w =
     (case connection_heldLink rows i w of
        (None, w') \<Rightarrow> (None, w')
      | (Some l, w') \<Rightarrow> (if Session (links w' ! l) \<noteq> None then Some l else None, w'))"

definition connection_close :: "BoxRow list \<Rightarrow> nat \<Rightarrow> 't boxes \<Rightarrow> 't boxes" where
  "connection_close rows i w =
     (case connection_heldLink rows i w of
        (None, w') \<Rightarrow> w'
      | (Some l, w') \<Rightarrow> put_link l empty_link w')"

section \<open>Faces of one box share one link\<close>

text \<open>
  What the registry keeps: a connection that holds a link at a bus address has its entry, no two
  entries have the same box and address, and every link named is in the store.
\<close>

definition entry_key :: "string \<times> string \<times> nat \<Rightarrow> string \<times> string" where
  "entry_key e = (fst e, fst (snd e))"

definition boxes_ok :: "BoxRow list \<Rightarrow> 't boxes \<Rightarrow> bool" where
  "boxes_ok rows w \<longleftrightarrow>
     (\<forall>i l. i < length (connections w) \<and> mLink (connections w ! i) = Some l \<and>
        mAddress (connections w ! i) \<noteq> Simulated \<longrightarrow>
        (boxOf rows i, to_string_address (mAddress (connections w ! i)), l) \<in> set (Links w)) \<and>
     distinct (map entry_key (Links w)) \<and>
     (\<forall>(b, a, l) \<in> set (Links w). l < length (links w))"

lemma boxes_okI:
  assumes "\<And>i l. i < length (connections w) \<Longrightarrow> mLink (connections w ! i) = Some l \<Longrightarrow>
      mAddress (connections w ! i) \<noteq> Simulated \<Longrightarrow>
      (boxOf rows i, to_string_address (mAddress (connections w ! i)), l) \<in> set (Links w)"
    and "distinct (map entry_key (Links w))"
    and "\<And>b a l. (b, a, l) \<in> set (Links w) \<Longrightarrow> l < length (links w)"
  shows "boxes_ok rows w"
  using assms by (auto simp: boxes_ok_def)

lemma boxes_ok_entry:
  "boxes_ok rows w \<Longrightarrow> i < length (connections w) \<Longrightarrow> mLink (connections w ! i) = Some l \<Longrightarrow>
   mAddress (connections w ! i) \<noteq> Simulated \<Longrightarrow>
   (boxOf rows i, to_string_address (mAddress (connections w ! i)), l) \<in> set (Links w)"
  by (auto simp: boxes_ok_def)

lemma distinct_keys_unique:
  "distinct (map entry_key es) \<Longrightarrow> (b, a, l) \<in> set es \<Longrightarrow> (b, a, l') \<in> set es \<Longrightarrow> l = l'"
  by (induction es) (force simp: entry_key_def)+

lemma put_link_ok [simp]: "boxes_ok rows (put_link l held w) \<longleftrightarrow> boxes_ok rows w"
  by (simp add: boxes_ok_def put_link_def)

lemma put_link_connections [simp]: "connections (put_link l held w) = connections w"
  by (simp add: put_link_def)

lemma link_heldI:
  "i < length (connections w) \<Longrightarrow> mLink (connections w ! i) = Some l \<Longrightarrow> link_held w l"
  by (auto simp: link_held_def list_ex_iff intro!: bexI [of _ "connections w ! i"])

lemma registry_find_ok:
  assumes "boxes_ok rows w" and "registry_find w box addr = (r, w')"
  shows "boxes_ok rows w'" and "connections w' = connections w" and "links w' = links w"
    and "r = Some l \<Longrightarrow> (box, addr, l) \<in> set (Links w')"
    and "r = None \<Longrightarrow> (box, addr) \<notin> set (map entry_key (Links w'))"
proof -
  let ?live = "filter (\<lambda>(_, _, l). link_held w l) (Links w)"
  have w': "w' = w\<lparr>Links := ?live\<rparr>"
    and r: "r = map_option (\<lambda>(_, _, l). l) (find (\<lambda>(b, a, _). b = box \<and> a = addr) ?live)"
    using assms(2) by (auto simp: registry_find_def Let_def)
  show "connections w' = connections w" "links w' = links w" by (simp_all add: w')
  show "boxes_ok rows w'"
  proof (rule boxes_okI)
    fix i l assume i: "i < length (connections w')" "mLink (connections w' ! i) = Some l"
      "mAddress (connections w' ! i) \<noteq> Simulated"
    then show "(boxOf rows i, to_string_address (mAddress (connections w' ! i)), l) \<in> set (Links w')"
      using boxes_ok_entry [OF assms(1), of i l] link_heldI [of i w l] by (simp add: w')
  next
    show "distinct (map entry_key (Links w'))"
      using assms(1) by (simp add: w' boxes_ok_def distinct_map_filter)
  next
    fix b a l assume "(b, a, l) \<in> set (Links w')"
    then show "l < length (links w')"
      using assms(1) by (auto simp: w' boxes_ok_def)
  qed
  show "r = Some l \<Longrightarrow> (box, addr, l) \<in> set (Links w')"
    using find_SomeD [of _ ?live] by (fastforce simp: r w')
  show "r = None \<Longrightarrow> (box, addr) \<notin> set (map entry_key (Links w'))"
    by (auto simp: r w' find_None_iff entry_key_def)
qed

lemma set_link_connections [simp]:
  "length (connections (set_link i l w)) = length (connections w)"
  "Links (set_link i l w) = Links w" "links (set_link i l w) = links w"
  by (simp_all add: set_link_def)

lemma set_link_nth:
  "j < length (connections w) \<Longrightarrow>
   connections (set_link i l w) ! j =
     (if j = i then (connections w ! i)\<lparr>mLink := l\<rparr> else connections w ! j)"
  by (auto simp: set_link_def nth_list_update)

lemma set_link_ok:
  assumes "boxes_ok rows w"
    and "\<And>l'. l = Some l' \<Longrightarrow> mAddress (connections w ! i) \<noteq> Simulated \<Longrightarrow>
      (boxOf rows i, to_string_address (mAddress (connections w ! i)), l') \<in> set (Links w)"
  shows "boxes_ok rows (set_link i l w)"
proof (rule boxes_okI)
  fix j l' assume "j < length (connections (set_link i l w))"
    "mLink (connections (set_link i l w) ! j) = Some l'"
    "mAddress (connections (set_link i l w) ! j) \<noteq> Simulated"
  then show "(boxOf rows j, to_string_address (mAddress (connections (set_link i l w) ! j)), l')
      \<in> set (Links (set_link i l w))"
    using assms boxes_ok_entry [OF assms(1), of j l'] by (auto simp: set_link_nth split: if_splits)
qed (use assms(1) in \<open>auto simp: boxes_ok_def\<close>)

lemma new_link_ok:
  "boxes_ok rows w \<Longrightarrow> boxes_ok rows (w\<lparr>links := links w @ [held]\<rparr>)"
  by (fastforce simp: boxes_ok_def)

lemma boxLinkAt_ok:
  assumes "boxes_ok rows w" and "boxLinkAt w box addr = (l, w')"
  shows "boxes_ok rows w'" and "connections w' = connections w"
    and "(box, to_string_address addr, l) \<in> set (Links w')"
proof -
  obtain r w1 where find: "registry_find w box (to_string_address addr) = (r, w1)" by force
  note f = registry_find_ok [OF assms(1) find]
  have "boxes_ok rows w' \<and> connections w' = connections w \<and>
      (box, to_string_address addr, l) \<in> set (Links w')"
  proof (cases r)
    case (Some l1)
    with assms(2) find f show ?thesis by (auto simp: boxLinkAt_def)
  next
    case None
    let ?e = "(box, to_string_address addr, length (links w1))"
    have w': "w' = w1\<lparr>links := links w1 @ [empty_link], Links := Links w1 @ [?e]\<rparr>"
      and l: "l = length (links w1)"
      using assms(2) find None by (auto simp: boxLinkAt_def)
    have "boxes_ok rows w'"
    proof (rule boxes_okI)
      fix i l' assume "i < length (connections w')" "mLink (connections w' ! i) = Some l'"
        "mAddress (connections w' ! i) \<noteq> Simulated"
      then show "(boxOf rows i, to_string_address (mAddress (connections w' ! i)), l') \<in> set (Links w')"
        using boxes_ok_entry [OF f(1), of i l'] by (simp add: w')
    next
      show "distinct (map entry_key (Links w'))"
        using f(1) f(5) [OF None] by (auto simp: w' boxes_ok_def entry_key_def)
    next
      fix b a l' assume "(b, a, l') \<in> set (Links w')"
      then show "l' < length (links w')"
        using f(1) by (auto simp: w' boxes_ok_def)
    qed
    with f w' l show ?thesis by simp
  qed
  then show "boxes_ok rows w'" "connections w' = connections w"
    "(box, to_string_address addr, l) \<in> set (Links w')" by auto
qed

lemma connection_link_ok:
  assumes "boxes_ok rows w" and "connection_link rows i w = (l, w')"
  shows "boxes_ok rows w'" and "length (connections w') = length (connections w)"
proof -
  have "boxes_ok rows w' \<and> length (connections w') = length (connections w)"
  proof (cases "mLink (connections w ! i)")
    case (Some l')
    with assms show ?thesis by (simp add: connection_link_def Let_def)
  next
    case None
    show ?thesis
    proof (cases "mAddress (connections w ! i) = Simulated")
      case True
      with None assms show ?thesis
        by (auto simp: connection_link_def Let_def intro!: set_link_ok new_link_ok)
    next
      case False
      obtain l1 w1 where at: "boxLinkAt w (boxOf rows i) (mAddress (connections w ! i)) = (l1, w1)"
        by force
      note f = boxLinkAt_ok [OF assms(1) at]
      have "w' = set_link i (Some l1) w1"
        using None False at assms(2) by (auto simp: connection_link_def Let_def)
      with f show ?thesis by (auto intro!: set_link_ok)
    qed
  qed
  then show "boxes_ok rows w'" "length (connections w') = length (connections w)" by auto
qed

lemma connection_heldLink_ok:
  assumes "boxes_ok rows w" and "connection_heldLink rows i w = (l, w')"
  shows "boxes_ok rows w'" and "length (connections w') = length (connections w)"
proof -
  have "boxes_ok rows w' \<and> length (connections w') = length (connections w)"
  proof (cases "mLink (connections w ! i) = None \<and> mAddress (connections w ! i) \<noteq> Simulated")
    case True
    obtain l1 w1 where at: "registry_find w (boxOf rows i)
        (to_string_address (mAddress (connections w ! i))) = (l1, w1)" by force
    note f = registry_find_ok [OF assms(1) at]
    have "w' = set_link i l1 w1"
      using True at assms(2) by (auto simp: connection_heldLink_def existingBoxLinkAt_def Let_def)
    with f show ?thesis by (auto intro!: set_link_ok)
  next
    case False
    with assms show ?thesis by (auto simp: connection_heldLink_def Let_def)
  qed
  then show "boxes_ok rows w'" "length (connections w') = length (connections w)" by auto
qed

subsection \<open>Every operation keeps it\<close>

inductive boxes_step ::
    "BoxRow list \<Rightarrow> (address \<Rightarrow> transport_error + 't) \<Rightarrow> 't boxes \<Rightarrow> 't boxes \<Rightarrow> bool"
  for rows openTransport where
  useTransport: "boxes_step rows openTransport w (connection_useTransport rows i t w)"
| useAddress: "boxes_step rows openTransport w (connection_useAddress i address w)"
| hasSession: "boxes_step rows openTransport w (snd (connection_hasSession rows i w))"
| session: "boxes_step rows openTransport w
     (snd (connection_session rows openTransport family prepare i w))"
| native: "boxes_step rows openTransport w (snd (connection_native rows ty made i w))"
| installNative: "boxes_step rows openTransport w (connection_installNative rows ty i w)"
| openSession: "boxes_step rows openTransport w (snd (connection_openSession rows i w))"
| close_link: "boxes_step rows openTransport w (connection_close rows i w)"
| use_session: "boxes_step rows openTransport w (put_link l held w)"

lemma useAddress_ok:
  assumes "boxes_ok rows w" shows "boxes_ok rows (connection_useAddress i address w)"
proof (rule boxes_okI)
  fix j l assume "j < length (connections (connection_useAddress i address w))"
    "mLink (connections (connection_useAddress i address w) ! j) = Some l"
    "mAddress (connections (connection_useAddress i address w) ! j) \<noteq> Simulated"
  then show "(boxOf rows j, to_string_address (mAddress
      (connections (connection_useAddress i address w) ! j)), l)
      \<in> set (Links (connection_useAddress i address w))"
    using boxes_ok_entry [OF assms, of j l]
    by (cases "j = i") (auto simp: connection_useAddress_def)
qed (use assms in \<open>auto simp: boxes_ok_def connection_useAddress_def\<close>)

lemma boxes_step_ok: "boxes_step rows openTransport w w' \<Longrightarrow> boxes_ok rows w \<Longrightarrow> boxes_ok rows w'"
proof (induction rule: boxes_step.induct)
  case (session w family prepare i)
  then show ?case
    by (auto simp: connection_session_def Let_def split: prod.splits sum.splits option.splits
        dest: connection_link_ok)
next
  case (native w ty made i)
  then show ?case
    by (auto simp: connection_native_def Let_def split: prod.splits option.splits dest: connection_link_ok)
qed (auto simp: connection_useTransport_def connection_hasSession_def connection_installNative_def
       connection_openSession_def connection_close_def useAddress_ok
     split: prod.splits option.splits dest: connection_link_ok connection_heldLink_ok)

text \<open>The world as it starts: every connection unlinked, no link made yet.\<close>

inductive boxes_reachable ::
    "BoxRow list \<Rightarrow> (address \<Rightarrow> transport_error + 't) \<Rightarrow> 't boxes \<Rightarrow> bool" for rows openTransport where
  start: "boxes_reachable rows openTransport
     \<lparr>connections = map (\<lambda>a. \<lparr>mAddress = a, mLink = None\<rparr>) addresses, links = [], Links = []\<rparr>"
| step: "boxes_reachable rows openTransport w \<Longrightarrow> boxes_step rows openTransport w w' \<Longrightarrow>
     boxes_reachable rows openTransport w'"

lemma boxes_reachable_ok: "boxes_reachable rows openTransport w \<Longrightarrow> boxes_ok rows w"
proof (induction rule: boxes_reachable.induct)
  case (start addresses)
  show ?case by (rule boxes_okI) auto
next
  case (step w w')
  then show ?case by (blast intro: boxes_step_ok)
qed

text \<open>
  C27: One session per box. In every state that any sequence of connection operations reaches, two
  faces of the same box at the same bus address that hold a link hold the same link, so a command
  of one and a query of the other go down the same session in order.
\<close>

theorem faces_share_link:
  assumes "boxes_reachable rows openTransport w"
    and "i < length (connections w)" and "j < length (connections w)"
    and "mLink (connections w ! i) = Some l" and "mLink (connections w ! j) = Some l'"
    and "boxOf rows i = boxOf rows j"
    and "mAddress (connections w ! i) = mAddress (connections w ! j)"
    and "mAddress (connections w ! i) \<noteq> Simulated"
  shows "l = l'"
proof -
  have ok: "boxes_ok rows w" using assms(1) by (rule boxes_reachable_ok)
  have "(boxOf rows j, to_string_address (mAddress (connections w ! j)), l) \<in> set (Links w)"
    using boxes_ok_entry [OF ok assms(2,4,8)] by (simp only: assms(6,7))
  moreover have "mAddress (connections w ! j) \<noteq> Simulated"
    using assms(7,8) by simp
  then have "(boxOf rows j, to_string_address (mAddress (connections w ! j)), l') \<in> set (Links w)"
    by (rule boxes_ok_entry [OF ok assms(3,5)])
  moreover have "distinct (map entry_key (Links w))"
    using ok by (simp add: boxes_ok_def)
  ultimately show ?thesis
    by (blast intro: distinct_keys_unique)
qed

definition two_faces :: "BoxRow list" where
  "two_faces = [\<lparr>RowBox = ''Swu1'', Row = ''Swu1'', RowAddress = Usb ''MY53154781'', Device = False\<rparr>,
     \<lparr>RowBox = ''Swu1'', Row = ''SwuDmm'', RowAddress = Usb ''MY53154781'', Device = False\<rparr>]"

definition two_faces_start :: "nat boxes" where
  "two_faces_start = \<lparr>connections = map (\<lambda>a. \<lparr>mAddress = a, mLink = None\<rparr>)
     [Usb ''MY53154781'', Usb ''MY53154781''], links = [], Links = []\<rparr>"

definition two_faces_linked :: "nat boxes" where
  "two_faces_linked =
     connection_useTransport two_faces 1 7 (connection_useTransport two_faces 0 5 two_faces_start)"

theorem faces_share_link_witness:
  "\<exists>l. mLink (connections two_faces_linked ! 0) = Some l \<and>
       mLink (connections two_faces_linked ! 1) = Some l"
proof -
  have reach: "boxes_reachable two_faces (\<lambda>_. Inr 0) two_faces_linked"
    unfolding two_faces_linked_def two_faces_start_def
    by (rule boxes_reachable.step [OF boxes_reachable.step [OF boxes_reachable.start]])
      (rule boxes_step.useTransport)+
  have "length (connections two_faces_linked) = 2"
    and a: "mAddress (connections two_faces_linked ! 0) = Usb ''MY53154781''"
      "mAddress (connections two_faces_linked ! 1) = Usb ''MY53154781''"
    and l: "mLink (connections two_faces_linked ! 0) \<noteq> None"
      "mLink (connections two_faces_linked ! 1) \<noteq> None"
    by (simp_all add: two_faces_linked_def two_faces_start_def connection_useTransport_def
        connection_link_def boxLinkAt_def registry_find_def set_link_def put_link_def Let_def
        link_held_def two_faces_def boxOf_def)
  then obtain l l' where
    "mLink (connections two_faces_linked ! 0) = Some l"
    "mLink (connections two_faces_linked ! 1) = Some l'" by blast
  with faces_share_link [OF reach, of 0 1 l l'] a \<open>length _ = 2\<close> show ?thesis
    by (simp add: two_faces_def boxOf_def)
qed

end
