(* ===== verification/SwitchUnit.thy ===== *)
theory SwitchUnit
  imports BoxConnection
begin

text \<open>
  The switching mainframe driver: instruments/keysight_34980a/src/switch_unit.cpp and the chan
  vocabulary beside it. Each operation validates its slots, then either works on the simulated relay
  state or sends one command down the box's session (BoxConnection, Scpi). The session's transport
  and what opening one does are parameters.
\<close>

section \<open>Channels and chan lists\<close>

datatype ChannelAddress = ChannelAddress (Slot: int) (Number: int)

text \<open>The defaulted three-way comparison: by slot, then by number.\<close>

definition channel_le :: "ChannelAddress \<Rightarrow> ChannelAddress \<Rightarrow> bool" where
  "channel_le a b \<longleftrightarrow> Slot a < Slot b \<or> (Slot a = Slot b \<and> Number a \<le> Number b)"

definition channel_less :: "ChannelAddress \<Rightarrow> ChannelAddress \<Rightarrow> bool" where
  "channel_less a b \<longleftrightarrow> Slot a < Slot b \<or> (Slot a = Slot b \<and> Number a < Number b)"

instantiation ChannelAddress :: linorder
begin

definition less_eq_ChannelAddress :: "ChannelAddress \<Rightarrow> ChannelAddress \<Rightarrow> bool" where
  "less_eq_ChannelAddress = channel_le"

definition less_ChannelAddress :: "ChannelAddress \<Rightarrow> ChannelAddress \<Rightarrow> bool" where
  "less_ChannelAddress = channel_less"

instance
  by standard (auto simp: less_eq_ChannelAddress_def less_ChannelAddress_def channel_le_def channel_less_def
      intro: ChannelAddress.expand)

end

definition kSlots :: int where
  "kSlots = 8"

definition isSlot :: "int \<Rightarrow> bool" where
  "isSlot slot \<longleftrightarrow> 1 \<le> slot \<and> slot \<le> kSlots"

definition isAddressableChannel :: "int \<Rightarrow> bool" where
  "isAddressableChannel chan \<longleftrightarrow> 0 \<le> chan \<and> chan \<le> 999"

text \<open>\<open>while (number.size() < 3) number.insert( begin, '0')\<close>\<close>

function pad_to_three :: "string \<Rightarrow> string" where
  "pad_to_three number =
     (if length number < 3 then pad_to_three (CHR ''0'' # number) else number)"
  by pat_completeness auto
termination
  by (relation "measure (\<lambda>number. 3 - length number)") auto

declare pad_to_three.simps [simp del]

definition digitsOf :: "ChannelAddress \<Rightarrow> string" where
  "digitsOf chan = show_int (Slot chan) @ pad_to_three (show_int (Number chan))"

definition channelList_one :: "ChannelAddress \<Rightarrow> string" where
  "channelList_one chan = ''(@'' @ digitsOf chan @ '')''"

fun joined :: "string \<Rightarrow> string list \<Rightarrow> string" where
  "joined sep [] = []"
| "joined sep [s] = s"
| "joined sep (s # t # ss) = s @ sep @ joined sep (t # ss)"

definition channelList :: "ChannelAddress list \<Rightarrow> string" where
  "channelList channels = ''(@'' @ joined '','' (map digitsOf channels) @ '')''"

definition fieldsOf :: "string \<Rightarrow> string list" where
  "fieldsOf reply = split_on (CHR '','') (unquoted reply)"

definition field_trimmed :: "string \<Rightarrow> string" where
  "field_trimmed field = trim_with {CHR '' '', CHR 0x09} field"

section \<open>The unit and its environment\<close>

record 't bench_env =
  env_rows :: "BoxRow list"
  openTransport :: "address \<Rightarrow> transport_error + 't"
  transport :: "'t ITransport"

record ModuleIdentity =
  Vendor :: string
  ModuleModel :: string
  SerialNumber :: string
  Firmware :: string
  Empty :: bool

record 't SwitchUnit =
  mBoxes :: "'t boxes"
  attached :: bool
  mSimClosed :: "ChannelAddress list"
  mSimModules :: "int \<rightharpoonup> ModuleIdentity"
  mSimCycles :: "ChannelAddress \<rightharpoonup> int"
  mSimDmmInstalled :: bool
  mSimDmmEnabled :: bool

datatype unit_error = NoSuchSlot int | BoxFault box_error

definition validate_slot :: "int \<Rightarrow> unit_error option" where
  "validate_slot slot = (if isSlot slot then None else Some (NoSuchSlot slot))"

fun validate_channels :: "ChannelAddress list \<Rightarrow> unit_error option" where
  "validate_channels [] = None"
| "validate_channels (chan # channels) =
     (case validate_slot (Slot chan) of Some e \<Rightarrow> Some e | None \<Rightarrow> validate_channels channels)"

definition verifyMainframe :: "'t ITransport \<Rightarrow> 't \<Rightarrow> (io_error + string) \<times> 't" where
  "verifyMainframe tr t =
     (case scpi_identify tr t of
        (Inl e, t') \<Rightarrow> (Inl e, t')
      | (Inr identity, t') \<Rightarrow>
          (let flds = fieldsOf identity;
               model' = (if 2 \<le> length flds then field_trimmed (flds ! 1) else [])
           in if model' \<noteq> ''34980A''
              then (Inl (ScpiFault (description tr t') ''*IDN?''
                     \<lparr>Code = 0, Message = ''expected a 34980A and found \"'' @ identity
                       @ ''\" -- check this chassis'' @ [CHR 0x27] @ ''s address against the rack''\<rparr>), t')
              else (Inr identity, t')))"

definition prepare_switch_unit :: "'t ITransport \<Rightarrow> 't \<Rightarrow> (io_error + unit) \<times> 't" where
  "prepare_switch_unit tr t =
     (case scpi_clearErrors tr t of
        (Inl e, t') \<Rightarrow> (Inl e, t')
      | (Inr _, t') \<Rightarrow>
          (case verifyMainframe tr t' of
             (Inl e, t'') \<Rightarrow> (Inl e, t'')
           | (Inr _, t'') \<Rightarrow> (Inr (), t'')))"

text \<open>session(): the box's session, prepared by this family; and an operation run on it.\<close>

definition unit_session ::
    "'t bench_env \<Rightarrow> nat \<Rightarrow> 't SwitchUnit \<Rightarrow> (box_error + nat) \<times> 't SwitchUnit" where
  "unit_session env mId u =
     (case connection_session (env_rows env) (openTransport env) ''keysight_34980a''
             (prepare_switch_unit (transport env)) mId (mBoxes u) of
        (r, w) \<Rightarrow> (r, u\<lparr>mBoxes := w\<rparr>))"

definition on_session ::
    "'t bench_env \<Rightarrow> nat \<Rightarrow> ('t \<Rightarrow> (io_error + 'a) \<times> 't) \<Rightarrow> 't SwitchUnit
       \<Rightarrow> (unit_error + 'a) \<times> 't SwitchUnit" where
  "on_session env mId act u =
     (case unit_session env mId u of
        (Inl e, u') \<Rightarrow> (Inl (BoxFault e), u')
      | (Inr l, u') \<Rightarrow>
          (case Session (links (mBoxes u') ! l) of
             None \<Rightarrow> (Inl (BoxFault (LogicError [])), u')
           | Some t \<Rightarrow>
               (case act t of
                  (r, t') \<Rightarrow>
                    (map_sum (\<lambda>e. BoxFault (Io e)) (\<lambda>x. x) r,
                     u'\<lparr>mBoxes := put_link l ((links (mBoxes u') ! l)\<lparr>Session := Some t'\<rparr>)
                                     (mBoxes u')\<rparr>))))"

definition unit_isSimulated :: "'t bench_env \<Rightarrow> nat \<Rightarrow> 't SwitchUnit \<Rightarrow> bool \<times> 't SwitchUnit" where
  "unit_isSimulated env mId u =
     (case connection_isSimulated (env_rows env) mId (mBoxes u) of (b, w) \<Rightarrow> (b, u\<lparr>mBoxes := w\<rparr>))"

definition simulating :: "'t bench_env \<Rightarrow> nat \<Rightarrow> 't SwitchUnit \<Rightarrow> bool \<times> 't SwitchUnit" where
  "simulating env mId u =
     (case unit_isSimulated env mId u of (b, u') \<Rightarrow> (b \<or> \<not> attached u', u'))"

section \<open>Simulated relays\<close>

definition cycle :: "ChannelAddress \<Rightarrow> 't SwitchUnit \<Rightarrow> 't SwitchUnit" where
  "cycle chan u = u\<lparr>mSimCycles := (mSimCycles u)(chan \<mapsto>
     (case mSimCycles u chan of None \<Rightarrow> 0 | Some n \<Rightarrow> n) + 1)\<rparr>"

fun simulated_close_loop :: "ChannelAddress list \<Rightarrow> 't SwitchUnit \<Rightarrow> 't SwitchUnit" where
  "simulated_close_loop [] u = u"
| "simulated_close_loop (chan # channels) u =
     simulated_close_loop channels
       (if chan \<in> set (mSimClosed u) then u
        else cycle chan (u\<lparr>mSimClosed := mSimClosed u @ [chan]\<rparr>))"

definition simulatedClose :: "ChannelAddress list \<Rightarrow> 't SwitchUnit \<Rightarrow> 't SwitchUnit" where
  "simulatedClose channels u =
     (let u' = simulated_close_loop channels u in u'\<lparr>mSimClosed := sort (mSimClosed u')\<rparr>)"

fun simulatedOpen :: "ChannelAddress list \<Rightarrow> 't SwitchUnit \<Rightarrow> 't SwitchUnit" where
  "simulatedOpen [] u = u"
| "simulatedOpen (chan # channels) u =
     simulatedOpen channels (u\<lparr>mSimClosed := removeAll chan (mSimClosed u)\<rparr>)"

section \<open>Operations\<close>

definition unit_close ::
    "'t bench_env \<Rightarrow> nat \<Rightarrow> ChannelAddress list \<Rightarrow> 't SwitchUnit
       \<Rightarrow> (unit_error + unit) \<times> 't SwitchUnit" where
  "unit_close env mId channels u =
     (case validate_channels channels of
        Some e \<Rightarrow> (Inl e, u)
      | None \<Rightarrow>
          (if channels = [] then (Inr (), u)
           else
             (case simulating env mId u of
                (True, u') \<Rightarrow> (Inr (), simulatedClose channels u')
              | (False, u') \<Rightarrow>
                  on_session env mId
                    (scpi_checked (transport env) (''ROUT:CLOS '' @ channelList channels)) u')))"

definition unit_open ::
    "'t bench_env \<Rightarrow> nat \<Rightarrow> ChannelAddress list \<Rightarrow> 't SwitchUnit
       \<Rightarrow> (unit_error + unit) \<times> 't SwitchUnit" where
  "unit_open env mId channels u =
     (case validate_channels channels of
        Some e \<Rightarrow> (Inl e, u)
      | None \<Rightarrow>
          (if channels = [] then (Inr (), u)
           else
             (case simulating env mId u of
                (True, u') \<Rightarrow> (Inr (), simulatedOpen channels u')
              | (False, u') \<Rightarrow>
                  on_session env mId
                    (scpi_checked (transport env) (''ROUT:OPEN '' @ channelList channels)) u')))"

definition unit_closeExclusively ::
    "'t bench_env \<Rightarrow> nat \<Rightarrow> ChannelAddress list \<Rightarrow> 't SwitchUnit
       \<Rightarrow> (unit_error + unit) \<times> 't SwitchUnit" where
  "unit_closeExclusively env mId channels u =
     (case validate_channels channels of
        Some e \<Rightarrow> (Inl e, u)
      | None \<Rightarrow>
          (if channels = [] then (Inr (), u)
           else
             (case simulating env mId u of
                (True, u') \<Rightarrow>
                  (Inr (), simulatedClose channels (u'\<lparr>mSimClosed :=
                     filter (\<lambda>closed. \<not> list_ex (\<lambda>wanted. Slot wanted = Slot closed) channels)
                       (mSimClosed u')\<rparr>))
              | (False, u') \<Rightarrow>
                  on_session env mId
                    (scpi_checked (transport env) (''ROUT:CLOS:EXCL '' @ channelList channels)) u')))"

definition unit_isClosed ::
    "'t bench_env \<Rightarrow> nat \<Rightarrow> ChannelAddress \<Rightarrow> 't SwitchUnit
       \<Rightarrow> (unit_error + bool) \<times> 't SwitchUnit" where
  "unit_isClosed env mId chan u =
     (case validate_slot (Slot chan) of
        Some e \<Rightarrow> (Inl e, u)
      | None \<Rightarrow>
          (case simulating env mId u of
             (True, u') \<Rightarrow> (Inr (chan \<in> set (mSimClosed u')), u')
           | (False, u') \<Rightarrow>
               (case on_session env mId
                       (scpi_queryNumber (transport env) (''ROUT:CLOS? '' @ channelList_one chan)) u' of
                  (Inl e, u'') \<Rightarrow> (Inl e, u'')
                | (Inr v, u'') \<Rightarrow> (Inr (\<not> d_eq v (Fin 0)), u''))))"

definition unit_openAll ::
    "'t bench_env \<Rightarrow> nat \<Rightarrow> 't SwitchUnit \<Rightarrow> (unit_error + unit) \<times> 't SwitchUnit" where
  "unit_openAll env mId u =
     (case simulating env mId u of
        (True, u') \<Rightarrow> (Inr (), u'\<lparr>mSimClosed := []\<rparr>)
      | (False, u') \<Rightarrow> on_session env mId (scpi_checked (transport env) ''ROUT:OPEN:ALL ALL'') u')"

definition unit_openSlot ::
    "'t bench_env \<Rightarrow> nat \<Rightarrow> int \<Rightarrow> 't SwitchUnit \<Rightarrow> (unit_error + unit) \<times> 't SwitchUnit" where
  "unit_openSlot env mId slot u =
     (case validate_slot slot of
        Some e \<Rightarrow> (Inl e, u)
      | None \<Rightarrow>
          (case simulating env mId u of
             (True, u') \<Rightarrow>
               (Inr (), u'\<lparr>mSimClosed := filter (\<lambda>closed. Slot closed \<noteq> slot) (mSimClosed u')\<rparr>)
           | (False, u') \<Rightarrow>
               on_session env mId
                 (scpi_checked (transport env) (''ROUT:OPEN:ALL '' @ show_int slot)) u'))"

definition no_module :: ModuleIdentity where
  "no_module = \<lparr>Vendor = [], ModuleModel = [], SerialNumber = [], Firmware = [], Empty = True\<rparr>"

definition module_of_fields :: "string list \<Rightarrow> ModuleIdentity" where
  "module_of_fields flds =
     (let fld = (\<lambda>n. if n < length flds then field_trimmed (flds ! n) else []);
          model' = fld 1; empty' = (model' = [] \<or> model' = ''0'')
      in \<lparr>Vendor = fld 0, ModuleModel = (if empty' then [] else model'),
          SerialNumber = (if empty' then [] else fld 2),
          Firmware = (if empty' then [] else fld 3), Empty = empty'\<rparr>)"

definition unit_moduleIn ::
    "'t bench_env \<Rightarrow> nat \<Rightarrow> int \<Rightarrow> 't SwitchUnit
       \<Rightarrow> (unit_error + ModuleIdentity) \<times> 't SwitchUnit" where
  "unit_moduleIn env mId slot u =
     (case validate_slot slot of
        Some e \<Rightarrow> (Inl e, u)
      | None \<Rightarrow>
          (case simulating env mId u of
             (True, u') \<Rightarrow>
               (Inr (case mSimModules u' slot of Some m \<Rightarrow> m | None \<Rightarrow> no_module), u')
           | (False, u') \<Rightarrow>
               (case on_session env mId
                       (scpi_queryChecked (transport env) (''SYST:CTYP? '' @ show_int slot)) u' of
                  (Inl e, u'') \<Rightarrow> (Inl e, u'')
                | (Inr reply, u'') \<Rightarrow> (Inr (module_of_fields (fieldsOf reply)), u''))))"

definition unit_setInternalDmm ::
    "'t bench_env \<Rightarrow> nat \<Rightarrow> bool \<Rightarrow> 't SwitchUnit \<Rightarrow> (unit_error + unit) \<times> 't SwitchUnit" where
  "unit_setInternalDmm env mId enabled u =
     (case simulating env mId u of
        (True, u') \<Rightarrow> (Inr (), u'\<lparr>mSimDmmEnabled := (enabled \<and> mSimDmmInstalled u')\<rparr>)
      | (False, u') \<Rightarrow>
          on_session env mId
            (scpi_checked (transport env) (''INST:DMM '' @ (if enabled then ''ON'' else ''OFF''))) u')"

text \<open>
  The cast of a counter reply to long: towards zero. A reply that is not finite has no value in
  C++; it is 0 here.
\<close>

fun d_to_long :: "double \<Rightarrow> int" where
  "d_to_long (Fin v) = (if v < 0 then \<lceil>v\<rceil> else \<lfloor>v\<rfloor>)"
| "d_to_long _ = 0"

definition unit_relayCycles ::
    "'t bench_env \<Rightarrow> nat \<Rightarrow> ChannelAddress \<Rightarrow> 't SwitchUnit
       \<Rightarrow> (unit_error + int) \<times> 't SwitchUnit" where
  "unit_relayCycles env mId chan u =
     (case validate_slot (Slot chan) of
        Some e \<Rightarrow> (Inl e, u)
      | None \<Rightarrow>
          (case simulating env mId u of
             (True, u') \<Rightarrow>
               (Inr (case mSimCycles u' chan of None \<Rightarrow> 0 | Some n \<Rightarrow> n), u')
           | (False, u') \<Rightarrow>
               (case on_session env mId
                       (scpi_queryNumber (transport env) (''DIAG:REL:CYCL? '' @ channelList_one chan)) u' of
                  (Inl e, u'') \<Rightarrow> (Inl e, u'')
                | (Inr v, u'') \<Rightarrow> (Inr (d_to_long v), u''))))"

definition unit_identity ::
    "'t bench_env \<Rightarrow> nat \<Rightarrow> 't SwitchUnit \<Rightarrow> (unit_error + string) \<times> 't SwitchUnit" where
  "unit_identity env mId u = on_session env mId (scpi_identify (transport env)) u"

definition discard_value :: "(unit_error + 'a) \<times> 't SwitchUnit \<Rightarrow> (unit_error + unit) \<times> 't SwitchUnit" where
  "discard_value r = (map_sum (\<lambda>e. e) (\<lambda>_. ()) (fst r), snd r)"

definition unit_waitForSwitching ::
    "'t bench_env \<Rightarrow> nat \<Rightarrow> 't SwitchUnit \<Rightarrow> (unit_error + unit) \<times> 't SwitchUnit" where
  "unit_waitForSwitching env mId u =
     (case simulating env mId u of
        (True, u') \<Rightarrow> (Inr (), u')
      | (False, u') \<Rightarrow>
          discard_value (on_session env mId (scpi_queryNumber (transport env) ''ROUT:MOD:WAIT? ALL'') u'))"

definition unit_waitForSwitchingIn ::
    "'t bench_env \<Rightarrow> nat \<Rightarrow> int \<Rightarrow> 't SwitchUnit \<Rightarrow> (unit_error + unit) \<times> 't SwitchUnit" where
  "unit_waitForSwitchingIn env mId slot u =
     (case validate_slot slot of
        Some e \<Rightarrow> (Inl e, u)
      | None \<Rightarrow>
          (case simulating env mId u of
             (True, u') \<Rightarrow> (Inr (), u')
           | (False, u') \<Rightarrow>
               discard_value (on_session env mId
                 (scpi_queryNumber (transport env) (''ROUT:MOD:WAIT? '' @ show_int slot)) u')))"

fun modules_from ::
    "'t bench_env \<Rightarrow> nat \<Rightarrow> int list \<Rightarrow> 't SwitchUnit
       \<Rightarrow> (unit_error + ModuleIdentity list) \<times> 't SwitchUnit" where
  "modules_from env mId [] u = (Inr [], u)"
| "modules_from env mId (slot # slots) u =
     (case unit_moduleIn env mId slot u of
        (Inl e, u') \<Rightarrow> (Inl e, u')
      | (Inr m, u') \<Rightarrow>
          (case modules_from env mId slots u' of
             (Inl e, u'') \<Rightarrow> (Inl e, u'')
           | (Inr ms, u'') \<Rightarrow> (Inr (m # ms), u'')))"

definition unit_modules ::
    "'t bench_env \<Rightarrow> nat \<Rightarrow> 't SwitchUnit \<Rightarrow> (unit_error + ModuleIdentity list) \<times> 't SwitchUnit" where
  "unit_modules env mId u = modules_from env mId [1..kSlots] u"

definition setSimulatedModule ::
    "int \<Rightarrow> ModuleIdentity \<Rightarrow> 't SwitchUnit \<Rightarrow> (unit_error + unit) \<times> 't SwitchUnit" where
  "setSimulatedModule slot m u =
     (case validate_slot slot of
        Some e \<Rightarrow> (Inl e, u)
      | None \<Rightarrow> (Inr (), u\<lparr>mSimModules := (mSimModules u)(slot \<mapsto> m)\<rparr>))"

definition unit_flag_query ::
    "string \<Rightarrow> ('t SwitchUnit \<Rightarrow> bool) \<Rightarrow> 't bench_env \<Rightarrow> nat \<Rightarrow> 't SwitchUnit
       \<Rightarrow> (unit_error + bool) \<times> 't SwitchUnit" where
  "unit_flag_query question simulated env mId u =
     (case simulating env mId u of
        (True, u') \<Rightarrow> (Inr (simulated u'), u')
      | (False, u') \<Rightarrow>
          (case on_session env mId (scpi_queryNumber (transport env) question) u' of
             (Inl e, u'') \<Rightarrow> (Inl e, u'')
           | (Inr v, u'') \<Rightarrow> (Inr (\<not> d_eq v (Fin 0)), u'')))"

definition unit_internalDmmInstalled ::
    "'t bench_env \<Rightarrow> nat \<Rightarrow> 't SwitchUnit \<Rightarrow> (unit_error + bool) \<times> 't SwitchUnit" where
  "unit_internalDmmInstalled = unit_flag_query ''INST:DMM:INST?'' mSimDmmInstalled"

definition unit_internalDmmEnabled ::
    "'t bench_env \<Rightarrow> nat \<Rightarrow> 't SwitchUnit \<Rightarrow> (unit_error + bool) \<times> 't SwitchUnit" where
  "unit_internalDmmEnabled = unit_flag_query ''INST:DMM?'' mSimDmmEnabled"

text \<open>safeRelays: talks only over a session that is already open, and swallows transport errors.\<close>

definition unit_safeRelays :: "'t bench_env \<Rightarrow> nat \<Rightarrow> 't SwitchUnit \<Rightarrow> 't SwitchUnit" where
  "unit_safeRelays env mId u =
     (case unit_isSimulated env mId u of
        (True, u') \<Rightarrow> u'\<lparr>mSimClosed := []\<rparr>
      | (False, u') \<Rightarrow>
          (case connection_openSession (env_rows env) mId (mBoxes u') of
             (None, w) \<Rightarrow> u'\<lparr>mBoxes := w\<rparr>
           | (Some l, w) \<Rightarrow>
               (case Session (links w ! l) of
                  None \<Rightarrow> u'\<lparr>mBoxes := w\<rparr>
                | Some t \<Rightarrow>
                    u'\<lparr>mBoxes := put_link l ((links w ! l)\<lparr>Session :=
                         Some (snd (scpi_write (transport env) ''ROUT:OPEN:ALL ALL'' t))\<rparr>) w\<rparr>)))"

definition closeOnCard ::
    "'t bench_env \<Rightarrow> nat \<Rightarrow> int \<Rightarrow> u16 \<Rightarrow> 't SwitchUnit
       \<Rightarrow> (unit_error + unit) \<times> 't SwitchUnit" where
  "closeOnCard env mId crd chan u =
     unit_close env mId [ChannelAddress crd (int (unat chan))] u"

definition openOnCard ::
    "'t bench_env \<Rightarrow> nat \<Rightarrow> int \<Rightarrow> u16 \<Rightarrow> 't SwitchUnit
       \<Rightarrow> (unit_error + unit) \<times> 't SwitchUnit" where
  "openOnCard env mId crd chan u =
     unit_open env mId [ChannelAddress crd (int (unat chan))] u"

section \<open>The simulated relays\<close>

definition sim_cycles :: "'t SwitchUnit \<Rightarrow> ChannelAddress \<Rightarrow> int" where
  "sim_cycles u chan = (case mSimCycles u chan of None \<Rightarrow> 0 | Some n \<Rightarrow> n)"

definition relays_ok :: "'t SwitchUnit \<Rightarrow> bool" where
  "relays_ok u \<longleftrightarrow> sorted (mSimClosed u) \<and> distinct (mSimClosed u)"

lemma close_loop_set [simp]:
  "set (mSimClosed (simulated_close_loop chans u)) = set (mSimClosed u) \<union> set chans"
  by (induction chans arbitrary: u) (auto simp: cycle_def)

lemma close_loop_distinct:
  "distinct (mSimClosed u) \<Longrightarrow> distinct (mSimClosed (simulated_close_loop chans u))"
  by (induction chans arbitrary: u) (auto simp: cycle_def)

lemma close_loop_cycles:
  "sim_cycles (simulated_close_loop chans u) chan =
     sim_cycles u chan + (if chan \<in> set chans \<and> chan \<notin> set (mSimClosed u) then 1 else 0)"
  by (induction chans arbitrary: u) (auto simp: cycle_def sim_cycles_def split: option.splits)

lemma close_loop_frame:
  "mBoxes (simulated_close_loop chans u) = mBoxes u"
  "attached (simulated_close_loop chans u) = attached u"
  by (induction chans arbitrary: u) (auto simp: cycle_def)

lemma simulatedClose_facts:
  "set (mSimClosed (simulatedClose chans u)) = set (mSimClosed u) \<union> set chans"
  "sim_cycles (simulatedClose chans u) chan =
     sim_cycles u chan + (if chan \<in> set chans \<and> chan \<notin> set (mSimClosed u) then 1 else 0)"
  "relays_ok u \<Longrightarrow> relays_ok (simulatedClose chans u)"
  "mBoxes (simulatedClose chans u) = mBoxes u" "attached (simulatedClose chans u) = attached u"
  using close_loop_cycles [of chans u chan]
  by (auto simp: simulatedClose_def Let_def relays_ok_def close_loop_distinct close_loop_frame
      sim_cycles_def)

lemma simulatedOpen_facts:
  "set (mSimClosed (simulatedOpen chans u)) = set (mSimClosed u) - set chans"
  "sim_cycles (simulatedOpen chans u) chan = sim_cycles u chan"
  "relays_ok u \<Longrightarrow> relays_ok (simulatedOpen chans u)"
  "mBoxes (simulatedOpen chans u) = mBoxes u" "attached (simulatedOpen chans u) = attached u"
proof -
  show "relays_ok u \<Longrightarrow> relays_ok (simulatedOpen chans u)"
    by (induction chans arbitrary: u)
       (auto simp: relays_ok_def removeAll_filter_not_eq sorted_wrt_filter)
  show "set (mSimClosed (simulatedOpen chans u)) = set (mSimClosed u) - set chans"
    by (induction chans arbitrary: u) auto
  show "sim_cycles (simulatedOpen chans u) chan = sim_cycles u chan"
    by (induction chans arbitrary: u) (auto simp: sim_cycles_def)
  show "mBoxes (simulatedOpen chans u) = mBoxes u" "attached (simulatedOpen chans u) = attached u"
    by (induction chans arbitrary: u) auto
qed

section \<open>Channel lists are unambiguous\<close>

definition channel_ok :: "ChannelAddress \<Rightarrow> bool" where
  "channel_ok chan \<longleftrightarrow> isSlot (Slot chan) \<and> isAddressableChannel (Number chan)"

lemma show_nat_short: "n < 10 \<Longrightarrow> show_nat n = [digit_char n]"
  by (simp add: show_nat.simps)

lemma length_show_nat_le3: "n \<le> 999 \<Longrightarrow> length (show_nat n) \<le> 3"
proof -
  assume "n \<le> 999"
  then have "n div 10 div 10 < 10" by simp
  then have "length (show_nat (n div 10 div 10)) = 1" by (simp add: show_nat_short)
  then show ?thesis
    by (subst show_nat.simps, subst show_nat.simps) simp
qed

lemma zero_is_digit [simp]: "is_digit (CHR ''0'')"
  by (simp add: is_digit_def)

lemma read_nat_single: "n < 10 \<Longrightarrow> read_nat [digit_char n] = n"
  by (simp add: read_nat_def)

lemma read_nat_leading_zero [simp]: "read_nat (CHR ''0'' # s) = read_nat s"
  by (simp add: read_nat_def digit_val_def)

lemma pad_to_three_facts:
  "length s \<le> 3 \<Longrightarrow> length (pad_to_three s) = 3"
  "read_nat (pad_to_three s) = read_nat s"
  "list_all is_digit s \<Longrightarrow> list_all is_digit (pad_to_three s)"
proof (induction s rule: pad_to_three.induct)
  case (1 s)
  { case 1 with "1.IH" show ?case by (subst pad_to_three.simps) auto }
  { case 2 with "1.IH" show ?case by (subst pad_to_three.simps) auto }
  { case 3 with "1.IH" show ?case by (subst pad_to_three.simps) auto }
qed

lemma digitsOf_shape:
  assumes "channel_ok chan"
  obtains d ds where "digitsOf chan = d # ds" and "length ds = 3"
    and "read_nat [d] = nat (Slot chan)" and "read_nat ds = nat (Number chan)"
    and "list_all is_digit (d # ds)"
proof -
  have slot: "0 \<le> Slot chan" "nat (Slot chan) < 10"
    using assms by (auto simp: channel_ok_def isSlot_def kSlots_def)
  have num: "0 \<le> Number chan" "nat (Number chan) \<le> 999"
    using assms by (auto simp: channel_ok_def isAddressableChannel_def)
  have "show_int (Slot chan) = [digit_char (nat (Slot chan))]"
    using slot by (simp add: show_int_def show_nat_short)
  moreover have "show_int (Number chan) = show_nat (nat (Number chan))"
    using num by (simp add: show_int_def)
  ultimately have "digitsOf chan = digit_char (nat (Slot chan)) # pad_to_three (show_nat (nat (Number chan)))"
    by (simp add: digitsOf_def)
  then show thesis
    using that slot length_show_nat_le3 [OF num(2)] pad_to_three_facts [of "show_nat (nat (Number chan))"]
    by (simp add: read_nat_single)
qed

lemma digitsOf_inj: "channel_ok a \<Longrightarrow> channel_ok b \<Longrightarrow> digitsOf a = digitsOf b \<Longrightarrow> a = b"
proof -
  assume a: "channel_ok a" and b: "channel_ok b" and eq: "digitsOf a = digitsOf b"
  then have "nat (Slot a) = nat (Slot b) \<and> nat (Number a) = nat (Number b)"
    by (metis digitsOf_shape list.inject)
  then show "a = b"
    using a b
    by (cases a; cases b) (auto simp: channel_ok_def isSlot_def isAddressableChannel_def)
qed

lemma digitsOf_no_comma: "channel_ok a \<Longrightarrow> CHR '','' \<notin> set (digitsOf a)"
  by (metis comma_not_digit digitsOf_shape list_all_iff)

lemma split_on_joined:
  "ss \<noteq> [] \<Longrightarrow> \<forall>s \<in> set ss. CHR '','' \<notin> set s \<Longrightarrow> split_on (CHR '','') (joined '','' ss) = ss"
  by (induction "'',''" ss rule: joined.induct) (auto simp: split_on_plain split_on_append)

text \<open>
  A channel list names exactly the channels it was written from, in their order: two lists of
  channels the mainframe can address that are written alike are the same list.
\<close>

theorem channelList_injective:
  assumes "\<forall>c \<in> set cs. channel_ok c" and "\<forall>d \<in> set ds. channel_ok d"
    and "cs \<noteq> []" and "ds \<noteq> []" and "channelList cs = channelList ds"
  shows "cs = ds"
proof -
  have "joined '','' (map digitsOf cs) = joined '','' (map digitsOf ds)"
    using assms(5) by (simp add: channelList_def)
  moreover have "split_on (CHR '','') (joined '','' (map digitsOf cs)) = map digitsOf cs"
    using assms(1,3) by (intro split_on_joined) (auto simp: digitsOf_no_comma)
  moreover have "split_on (CHR '','') (joined '','' (map digitsOf ds)) = map digitsOf ds"
    using assms(2,4) by (intro split_on_joined) (auto simp: digitsOf_no_comma)
  ultimately have "map digitsOf cs = map digitsOf ds"
    by argo
  moreover have "inj_on digitsOf (set cs \<union> set ds)"
    using assms(1,2) by (intro inj_onI digitsOf_inj) auto
  ultimately show ?thesis
    using map_inj_on [of digitsOf cs ds] by (simp add: Un_commute)
qed

theorem channelList_injective_witness:
  "channelList [ChannelAddress 1 5, ChannelAddress 2 15] \<noteq> channelList [ChannelAddress 2 15, ChannelAddress 1 5]"
proof
  assume "channelList [ChannelAddress 1 5, ChannelAddress 2 15] = channelList [ChannelAddress 2 15, ChannelAddress 1 5]"
  then have "[ChannelAddress 1 5, ChannelAddress 2 15] = [ChannelAddress 2 15, ChannelAddress 1 5]"
    by (rule channelList_injective [rotated 4])
       (simp_all add: channel_ok_def isSlot_def kSlots_def isAddressableChannel_def)
  then show False by simp
qed

section \<open>A simulated chassis\<close>

text \<open>
  What a simulated chassis answers is what was done to it: the reference is a set of closed channels
  and a count per channel.
\<close>

datatype relay_op = CloseRelays "ChannelAddress list" | OpenRelays "ChannelAddress list"

fun simulate_op :: "relay_op \<Rightarrow> 't SwitchUnit \<Rightarrow> 't SwitchUnit" where
  "simulate_op (CloseRelays chans) u = simulatedClose chans u"
| "simulate_op (OpenRelays chans) u = simulatedOpen chans u"

fun reference_op ::
    "relay_op \<Rightarrow> ChannelAddress set \<times> (ChannelAddress \<Rightarrow> int) \<Rightarrow> ChannelAddress set \<times> (ChannelAddress \<Rightarrow> int)" where
  "reference_op (CloseRelays chans) (A, n) =
     (A \<union> set chans, \<lambda>c. n c + (if c \<in> set chans - A then 1 else 0))"
| "reference_op (OpenRelays chans) (A, n) = (A - set chans, n)"

text \<open>
  The simulated relays implement the reference: after any closes and opens the closed channels
  are the reference's, in order and each once, and every channel has counted one cycle for each
  close that found it open.
\<close>

theorem simulated_relays_refine_set:
  assumes "relays_ok u"
  shows "relays_ok (fold simulate_op ops u)
    \<and> (set (mSimClosed (fold simulate_op ops u)), sim_cycles (fold simulate_op ops u))
      = fold reference_op ops (set (mSimClosed u), sim_cycles u)"
  using assms
proof (induction ops arbitrary: u)
  case Nil
  then show ?case by simp
next
  case (Cons op ops)
  have "relays_ok (simulate_op op u) \<and>
      (set (mSimClosed (simulate_op op u)), sim_cycles (simulate_op op u))
        = reference_op op (set (mSimClosed u), sim_cycles u)"
    using Cons.prems
    by (cases op) (auto simp: simulatedClose_facts simulatedOpen_facts fun_eq_iff)
  with Cons.IH [of "simulate_op op u"] show ?case by simp
qed

definition empty_chassis :: "unit SwitchUnit" where
  "empty_chassis =
     \<lparr>mBoxes = \<lparr>connections = [], links = [], Links = []\<rparr>, attached = True, mSimClosed = [],
      mSimModules = (\<lambda>_. None), mSimCycles = (\<lambda>_. None), mSimDmmInstalled = False, mSimDmmEnabled = False\<rparr>"

lemma empty_chassis_relays [simp]:
  "mSimClosed empty_chassis = []" "sim_cycles empty_chassis = (\<lambda>_. 0)"
  by (simp_all add: empty_chassis_def sim_cycles_def fun_eq_iff)

theorem simulated_relays_refine_set_witness:
  "let c = ChannelAddress 1 5; d = ChannelAddress 2 15;
       u = fold simulate_op [CloseRelays [d, c], OpenRelays [c], CloseRelays [c, d]] empty_chassis
   in sim_cycles u c = 2 \<and> sim_cycles u d = 1 \<and> set (mSimClosed u) = {c, d}"
proof -
  have "relays_ok empty_chassis" by (simp add: relays_ok_def)
  from simulated_relays_refine_set [OF this, THEN conjunct2,
      of "[CloseRelays [ChannelAddress 2 15, ChannelAddress 1 5], OpenRelays [ChannelAddress 1 5],
           CloseRelays [ChannelAddress 1 5, ChannelAddress 2 15]]"]
  show ?thesis unfolding Let_def by (simp del: simulate_op.simps) (simp add: insert_commute)
qed

end
