(* ===== verification/RigSwitching.thy ===== *)
theory RigSwitching
  imports SwitchFabric SwitchUnit
begin

text \<open>
  The rig's switch driver, hal/src/fabric/rig_switching.cpp: the instrument on the device's box that
  switches cards is told the device's card and the channel. An instrument of the rig is what
  the concepts of hal/driver/instrument.hpp ask of its type: its box, its two card operations
  when it is a CardSwitchingInstrument, its safe(), and its safeRelays() when it is a
  RelayHoldingInstrument. The walk over the members of the global namespace is a list.

  The locale states what the fabric needs of a driver for its books to agree with the bench, and
  is interpreted on the repository's bench rig with its switching mainframe simulated.
\<close>

section \<open>The driver\<close>

record ('h, 'e) RigInstrument =
  InstrumentBox :: string
  CloseOnCard :: "(int \<Rightarrow> u16 \<Rightarrow> 'h \<Rightarrow> 'e option \<times> 'h) option"
  OpenOnCard :: "(int \<Rightarrow> u16 \<Rightarrow> 'h \<Rightarrow> 'e option \<times> 'h) option"
  SafeOp :: "'h \<Rightarrow> 'e option \<times> 'h"
  SafeRelaysOp :: "('h \<Rightarrow> 'e option \<times> 'h) option"

definition CardSwitchingInstrument :: "('h, 'e) RigInstrument \<Rightarrow> bool" where
  "CardSwitchingInstrument i \<longleftrightarrow> CloseOnCard i \<noteq> None \<and> OpenOnCard i \<noteq> None"

text \<open>The loop over the members, with its flag: only the first match is told.\<close>

fun drive_members ::
    "string \<Rightarrow> int \<Rightarrow> u16 \<Rightarrow> bool \<Rightarrow> bool \<Rightarrow> ('h, 'e) RigInstrument list \<Rightarrow> 'h \<Rightarrow> 'e option \<times> 'h" where
  "drive_members box crd chan closing driven [] h = (None, h)"
| "drive_members box crd chan closing driven (i # members) h =
     (if CardSwitchingInstrument i \<and> \<not> driven \<and> InstrumentBox i = box
      then (case (if closing then the (CloseOnCard i) else the (OpenOnCard i)) crd chan h of
              (Some e, h') \<Rightarrow> (Some e, h')
            | (None, h') \<Rightarrow> drive_members box crd chan closing True members h')
      else drive_members box crd chan closing driven members h)"

definition drive ::
    "device_table \<Rightarrow> ('h, 'e) RigInstrument list \<Rightarrow> SwitchElementId \<Rightarrow> bool \<Rightarrow> 'h \<Rightarrow> 'e option \<times> 'h" where
  "drive switchDevices members el closing h =
     (case cardOf switchDevices (device el) of
        None \<Rightarrow> (None, h)
      | Some crd \<Rightarrow>
          drive_members (Box (switchDevices ! device el)) crd (channel el) closing False members h)"

definition rigSwitchDriver ::
    "device_table \<Rightarrow> ('h, 'e) RigInstrument list \<Rightarrow> ('h, 'e) SwitchDriver" where
  "rigSwitchDriver switchDevices members =
     \<lparr>driver_close = (\<lambda>el. drive switchDevices members el True),
      driver_open = (\<lambda>el h. if kindOf switchDevices (device el) = RfMux then (None, h)
                           else drive switchDevices members el False h)\<rparr>"

lemma drive_members_driven [simp]:
  "drive_members box crd chan closing True members h = (None, h)"
  by (induction members) auto

lemma drive_members_undriven:
  "\<forall>i \<in> set members. CardSwitchingInstrument i \<longrightarrow> InstrumentBox i \<noteq> box \<Longrightarrow>
   drive_members box crd chan closing driven members h = (None, h)"
  by (induction members) auto

lemma drive_members_first:
  assumes "find (\<lambda>i. CardSwitchingInstrument i \<and> InstrumentBox i = box) members = Some i"
  shows "drive_members box crd chan closing False members h =
      (if closing then the (CloseOnCard i) else the (OpenOnCard i)) crd chan h"
  using assms by (induction members) (auto split: if_splits prod.splits option.splits)

section \<open>What the fabric relies on\<close>

text \<open>
  relay el h: the relay of el is closed on the bench h. driven: the elements that have an
  instrument behind them. latching: the elements that have no open state.
\<close>

locale relay_driver =
  fixes drv :: "('h, 'e) SwitchDriver"
    and known :: "SwitchElementId \<Rightarrow> bool"
    and bench_ok :: "'h \<Rightarrow> bool"
    and relay :: "SwitchElementId \<Rightarrow> 'h \<Rightarrow> bool"
    and driven :: "SwitchElementId \<Rightarrow> bool"
    and latching :: "SwitchElementId \<Rightarrow> bool"
  assumes close_bench_ok: "known el \<Longrightarrow> bench_ok h \<Longrightarrow> driver_close drv el h = (r, h') \<Longrightarrow> bench_ok h'"
    and open_bench_ok: "known el \<Longrightarrow> bench_ok h \<Longrightarrow> driver_open drv el h = (r, h') \<Longrightarrow> bench_ok h'"
    and close_closes: "known el \<Longrightarrow> bench_ok h \<Longrightarrow> driver_close drv el h = (None, h') \<Longrightarrow> driven el \<Longrightarrow>
      relay el h'"
    and close_refused: "known el \<Longrightarrow> bench_ok h \<Longrightarrow> driver_close drv el h = (Some e, h') \<Longrightarrow> h' = h"
    and close_frame: "known el \<Longrightarrow> bench_ok h \<Longrightarrow> driver_close drv el h = (r, h') \<Longrightarrow> driven el' \<Longrightarrow>
      el' \<noteq> el \<Longrightarrow> relay el' h' = relay el' h"
    and open_opens: "known el \<Longrightarrow> bench_ok h \<Longrightarrow> driver_open drv el h = (r, h') \<Longrightarrow> driven el \<Longrightarrow>
      \<not> latching el \<Longrightarrow> \<not> relay el h'"
    and open_frame: "known el \<Longrightarrow> bench_ok h \<Longrightarrow> driver_open drv el h = (r, h') \<Longrightarrow> driven el' \<Longrightarrow>
      el' \<noteq> el \<or> latching el \<Longrightarrow> relay el' h' = relay el' h"

text \<open>A caller's request to the fabric; what it throws goes to the caller, not to the fabric.\<close>

datatype fabric_op = ConnectPath Path | DisconnectPath Path

fun op_path :: "fabric_op \<Rightarrow> Path" where
  "op_path (ConnectPath path) = path"
| "op_path (DisconnectPath path) = path"

fun run_fabric_op :: "('h, 'e) SwitchDriver option \<Rightarrow> fabric_op \<Rightarrow> 'h SwitchFabric \<Rightarrow> 'h SwitchFabric" where
  "run_fabric_op d (ConnectPath path) f = snd (fabric_connect d path f)"
| "run_fabric_op d (DisconnectPath path) f = snd (fabric_disconnect d path f)"

definition run_fabric :: "('h, 'e) SwitchDriver option \<Rightarrow> fabric_op list \<Rightarrow> 'h SwitchFabric \<Rightarrow> 'h SwitchFabric" where
  "run_fabric d ops f = fold (run_fabric_op d) ops f"

context relay_driver
begin

definition books_match :: "'h SwitchFabric \<Rightarrow> bool" where
  "books_match f \<longleftrightarrow> bench_ok (hardware f) \<and>
     (\<forall>el. driven el \<longrightarrow>
        (fabric_isClosed el f \<longrightarrow> relay el (hardware f)) \<and>
        (relay el (hardware f) \<and> \<not> latching el \<longrightarrow> fabric_isClosed el f))"

lemma close_match:
  assumes "books_match f" and kn: "known el" and "fabric_close (Some drv) el f = (r, f')"
  shows "books_match f'"
  using assms(3)
proof (cases rule: close_driven_cases)
  case counted
  with assms(1) show ?thesis by (simp add: books_match_def)
next
  case closed
  have b: "bench_ok (hardware f)" and pre: "\<And>x. driven x \<Longrightarrow>
      (fabric_isClosed x f \<longrightarrow> relay x (hardware f)) \<and>
      (relay x (hardware f) \<and> \<not> latching x \<longrightarrow> fabric_isClosed x f)"
    using assms(1) by (auto simp: books_match_def)
  have "(fabric_isClosed x f' \<longrightarrow> relay x (hardware f')) \<and>
      (relay x (hardware f') \<and> \<not> latching x \<longrightarrow> fabric_isClosed x f')" if "driven x" for x
  proof (cases "x = el")
    case True
    with close_closes [OF kn b closed(2)] closed(3) that show ?thesis by simp
  next
    case False
    with close_frame [OF kn b closed(2) that] closed(3) pre [OF that] show ?thesis by simp
  qed
  then show ?thesis
    using close_bench_ok [OF kn b closed(2)] by (simp add: books_match_def)
next
  case (refused e)
  with assms(1) close_refused [OF kn _ refused(1)] show ?thesis by (simp add: books_match_def)
qed

lemma open_match:
  assumes "books_match f" and kn: "known el" and "fabric_open (Some drv) el f = (r, f')"
  shows "books_match f'"
  using assms(3)
proof (cases rule: open_driven_cases)
  case counted
  with assms(1) show ?thesis by (simp add: books_match_def)
next
  case opened
  have b: "bench_ok (hardware f)" and pre: "\<And>x. driven x \<Longrightarrow>
      (fabric_isClosed x f \<longrightarrow> relay x (hardware f)) \<and>
      (relay x (hardware f) \<and> \<not> latching x \<longrightarrow> fabric_isClosed x f)"
    using assms(1) by (auto simp: books_match_def)
  have "(fabric_isClosed x f' \<longrightarrow> relay x (hardware f')) \<and>
      (relay x (hardware f') \<and> \<not> latching x \<longrightarrow> fabric_isClosed x f')" if "driven x" for x
  proof (cases "x = el \<and> \<not> latching el")
    case True
    with open_opens [OF kn b opened(1)] opened(2) that show ?thesis by simp
  next
    case False
    then have "relay x (hardware f') = relay x (hardware f)"
      using open_frame [OF kn b opened(1) that] by blast
    with False opened(2) pre [OF that] show ?thesis by auto
  qed
  then show ?thesis
    using open_bench_ok [OF kn b opened(1)] by (simp add: books_match_def)
qed

lemma unwind_match:
  "list_all known done_path \<Longrightarrow> books_match f \<Longrightarrow> books_match (fabric_unwind (Some drv) done_path f)"
  by (induction done_path arbitrary: f) (auto intro: open_match [OF _ _ prod.collapse [symmetric]])

lemma connect_from_match:
  "list_all known path \<Longrightarrow> list_all known done_path \<Longrightarrow> books_match f \<Longrightarrow>
   books_match (snd (fabric_connect_from (Some drv) done_path path f))"
  by (induction path arbitrary: done_path f)
     (auto intro!: unwind_match dest: close_match split: prod.splits option.splits)

lemma disconnect_from_match:
  "list_all known path \<Longrightarrow> books_match f \<Longrightarrow>
   books_match (snd (fabric_disconnect_from (Some drv) e path f))"
  by (induction path arbitrary: e f) (auto dest: open_match split: prod.splits option.splits)

lemma run_match:
  "list_all (\<lambda>op. list_all known (op_path op)) ops \<Longrightarrow> books_match f \<Longrightarrow>
   books_match (run_fabric (Some drv) ops f)"
proof (induction ops arbitrary: f)
  case Nil
  then show ?case by (simp add: run_fabric_def)
next
  case (Cons op ops)
  have "books_match (run_fabric_op (Some drv) op f)"
    using Cons.prems
    by (cases op) (simp_all add: fabric_connect_def fabric_disconnect_def
        connect_from_match disconnect_from_match)
  then show ?case using Cons by (simp add: run_fabric_def)
qed

end

section \<open>The bench rig's mainframe, simulated\<close>

text \<open>The switching mainframe as an instrument of the rig; its safe() is empty.\<close>

definition thrown :: "('e + unit) \<times> 'h \<Rightarrow> 'e option \<times> 'h" where
  "thrown r = (case r of (Inl e, h) \<Rightarrow> (Some e, h) | (Inr _, h) \<Rightarrow> (None, h))"

definition switch_unit_instrument ::
    "'t bench_env \<Rightarrow> nat \<Rightarrow> ('t SwitchUnit, unit_error) RigInstrument" where
  "switch_unit_instrument env mId =
     \<lparr>InstrumentBox = boxOf (env_rows env) mId,
      CloseOnCard = Some (\<lambda>crd chan u. thrown (closeOnCard env mId crd chan u)),
      OpenOnCard = Some (\<lambda>crd chan u. thrown (openOnCard env mId crd chan u)),
      SafeOp = (\<lambda>u. (None, u)),
      SafeRelaysOp = Some (\<lambda>u. (None, unit_safeRelays env mId u))\<rparr>"

definition unit_simulated :: "nat \<Rightarrow> 't SwitchUnit \<Rightarrow> bool" where
  "unit_simulated mId u \<longleftrightarrow>
     mAddress (connections (mBoxes u) ! mId) = Simulated \<and> mLink (connections (mBoxes u) ! mId) = None"

lemma simulating_simulated:
  "unit_simulated mId u \<Longrightarrow> unit_isSimulated env mId u = (True, u) \<and> simulating env mId u = (True, u)"
  by (simp add: simulating_def unit_isSimulated_def connection_isSimulated_def
      connection_hasSession_def connection_heldLink_def unit_simulated_def Let_def)

definition relay_of :: "device_table \<Rightarrow> SwitchElementId \<Rightarrow> 't SwitchUnit \<Rightarrow> bool" where
  "relay_of devices el u =
     (case cardOf devices (device el) of
        None \<Rightarrow> False
      | Some crd \<Rightarrow> ChannelAddress crd (int (unat (channel el))) \<in> set (mSimClosed u))"

lemma closeOnCard_simulated:
  assumes "unit_simulated mId u"
  shows "thrown (closeOnCard env mId crd chan u) =
    (if isSlot crd then (None, simulatedClose [ChannelAddress crd (int (unat chan))] u)
     else (Some (NoSuchSlot crd), u))"
  using simulating_simulated [OF assms, of env]
  by (simp add: closeOnCard_def unit_close_def validate_slot_def thrown_def)

lemma openOnCard_simulated:
  assumes "unit_simulated mId u"
  shows "thrown (openOnCard env mId crd chan u) =
    (if isSlot crd then (None, simulatedOpen [ChannelAddress crd (int (unat chan))] u)
     else (Some (NoSuchSlot crd), u))"
  using simulating_simulated [OF assms, of env]
  by (simp add: openOnCard_def unit_open_def validate_slot_def thrown_def)

text \<open>
  A rig whose one card-switching instrument is the mainframe and whose device rows give each slot of
  the mainframe to one card.
\<close>

locale card_rig =
  fixes devices :: device_table
    and env :: "'t bench_env"
    and mId :: nat
    and members :: "('t SwitchUnit, unit_error) RigInstrument list"
  assumes slots_distinct: "i < length devices \<Longrightarrow> j < length devices \<Longrightarrow>
      Box (devices ! i) = boxOf (env_rows env) mId \<Longrightarrow> Box (devices ! j) = boxOf (env_rows env) mId \<Longrightarrow>
      Card (devices ! i) = Some c \<Longrightarrow> Card (devices ! j) = Some c \<Longrightarrow> i = j"
    and mainframe_member: "find (\<lambda>m. CardSwitchingInstrument m \<and> InstrumentBox m = boxOf (env_rows env) mId)
      members = Some (switch_unit_instrument env mId)"
    and only_mainframe: "m \<in> set members \<Longrightarrow> CardSwitchingInstrument m \<Longrightarrow>
      InstrumentBox m = boxOf (env_rows env) mId"
begin

definition unit_drives :: "SwitchElementId \<Rightarrow> bool" where
  "unit_drives el \<longleftrightarrow> device el < length devices \<and>
     Box (devices ! device el) = boxOf (env_rows env) mId \<and>
     (\<exists>crd. cardOf devices (device el) = Some crd \<and> isSlot crd)"

definition latches :: "SwitchElementId \<Rightarrow> bool" where
  "latches el \<longleftrightarrow> kindOf devices (device el) = RfMux"

lemma drive_box:
  assumes "Box (devices ! device el) = boxOf (env_rows env) mId" and "cardOf devices (device el) = Some crd"
  shows "drive devices members el closing u =
    (if closing then thrown (closeOnCard env mId crd (channel el) u)
     else thrown (openOnCard env mId crd (channel el) u))"
  using assms drive_members_first [OF mainframe_member]
  by (simp add: drive_def switch_unit_instrument_def)

lemma drive_elsewhere:
  assumes "Box (devices ! device el) \<noteq> boxOf (env_rows env) mId \<or> cardOf devices (device el) = None"
  shows "drive devices members el closing u = (None, u)"
  using assms only_mainframe
  by (auto simp: drive_def split: option.splits intro!: drive_members_undriven)

lemma drive_simulated:
  assumes "device el < length devices" and "unit_simulated mId u"
    and "drive devices members el closing u = (r, u')"
  shows "(u' = u \<and> (unit_drives el \<longrightarrow> False)) \<or>
    (unit_drives el \<and> r = None \<and> mBoxes u' = mBoxes u \<and>
       set (mSimClosed u') = (if closing then insert else (\<lambda>x A. A - {x}))
         (ChannelAddress (the (cardOf devices (device el))) (int (unat (channel el)))) (set (mSimClosed u)))"
proof (cases "Box (devices ! device el) \<noteq> boxOf (env_rows env) mId \<or> cardOf devices (device el) = None")
  case True
  with drive_elsewhere [OF True] assms(3) show ?thesis by (auto simp: unit_drives_def)
next
  case False
  then obtain crd where crd: "cardOf devices (device el) = Some crd" by auto
  show ?thesis
    using drive_box [OF _ crd, of closing u] False crd assms
    by (auto simp: closeOnCard_simulated openOnCard_simulated unit_drives_def simulatedClose_facts
        simulatedOpen_facts split: if_splits)
qed

lemma relay_drives:
  "unit_drives el \<Longrightarrow> relay_of devices el u \<longleftrightarrow>
     ChannelAddress (the (cardOf devices (device el))) (int (unat (channel el))) \<in> set (mSimClosed u)"
  by (auto simp: relay_of_def unit_drives_def)

lemma drives_apart:
  assumes "unit_drives a" and "unit_drives b" and "a \<noteq> b"
  shows "ChannelAddress (the (cardOf devices (device a))) (int (unat (channel a))) \<noteq>
         ChannelAddress (the (cardOf devices (device b))) (int (unat (channel b)))"
proof
  assume "ChannelAddress (the (cardOf devices (device a))) (int (unat (channel a))) =
         ChannelAddress (the (cardOf devices (device b))) (int (unat (channel b)))"
  then have "the (cardOf devices (device a)) = the (cardOf devices (device b))"
    and ch: "channel a = channel b"
    by (auto simp: word_uint_eq_iff)
  then have "device a = device b"
    using assms(1,2) slots_distinct by (auto simp: unit_drives_def cardOf_def)
  with ch assms(3) show False by (cases a; cases b) simp
qed

lemma simulated_frame: "unit_simulated mId u \<Longrightarrow> mBoxes u' = mBoxes u \<Longrightarrow> unit_simulated mId u'"
  by (simp add: unit_simulated_def)

lemma drive_laws:
  assumes "device el < length devices" and "unit_simulated mId u"
    and "drive devices members el closing u = (r, u')"
  shows "unit_simulated mId u'" and "r = Some e \<Longrightarrow> u' = u"
    and "unit_drives el \<Longrightarrow> relay_of devices el u' \<longleftrightarrow> closing"
    and "unit_drives el' \<Longrightarrow> el' \<noteq> el \<Longrightarrow> relay_of devices el' u' = relay_of devices el' u"
proof -
  note step = drive_simulated [OF assms]
  show "unit_simulated mId u'" using step assms(2) simulated_frame by auto
  show "r = Some e \<Longrightarrow> u' = u" using step by auto
  show "unit_drives el \<Longrightarrow> relay_of devices el u' \<longleftrightarrow> closing"
    using step by (auto simp: relay_drives)
  show "unit_drives el' \<Longrightarrow> el' \<noteq> el \<Longrightarrow> relay_of devices el' u' = relay_of devices el' u"
    using step drives_apart [of el' el] by (auto simp: relay_drives split: if_splits)
qed

lemma rig_close: "driver_close (rigSwitchDriver devices members) el u = drive devices members el True u"
  by (simp add: rigSwitchDriver_def)

lemma rig_open: "driver_open (rigSwitchDriver devices members) el u =
    (if latches el then (None, u) else drive devices members el False u)"
  by (simp add: rigSwitchDriver_def latches_def)

lemma rig_is_relay_driver:
  "relay_driver (rigSwitchDriver devices members) (\<lambda>el. device el < length devices)
     (unit_simulated mId) (relay_of devices) unit_drives latches"
proof (unfold_locales, unfold rig_close rig_open, goal_cases)
  case 1
  then show ?case by (rule drive_laws(1))
next
  case 2
  then show ?case by (auto split: if_splits dest: drive_laws(1))
next
  case 3
  then show ?case using drive_laws(3) by blast
next
  case 4
  then show ?case using drive_laws(2) by blast
next
  case 5
  then show ?case using drive_laws(4) by blast
next
  case (6 el h r h')
  then have "drive devices members el False h = (r, h')" by simp
  with 6 drive_laws(3) show ?case by blast
next
  case (7 el h r h' el')
  then show ?case
    by (cases "latches el") (use drive_laws(4) in \<open>auto\<close>)
qed

end

sublocale card_rig \<subseteq> relay_driver "rigSwitchDriver devices members" "\<lambda>el. device el < length devices"
    "unit_simulated mId" "relay_of devices" unit_drives latches
  by (rule rig_is_relay_driver)

text \<open>The bench rig: dev/rig/instrument.inc, in its order, over the cards of dev/rig/devices.inc.\<close>

definition dev_rows :: "BoxRow list" where
  "dev_rows = map (\<lambda>(box, name, serial).
       \<lparr>RowBox = box, Row = name, RowAddress = Usb serial, Device = False\<rparr>)
    [(''DeskDmm'', ''Dmm1'', ''CN65510018''), (''Psu1'', ''DcP5'', ''CN65100272''),
     (''Psu1'', ''DcP6'', ''CN65100272''), (''Psu1'', ''DcP7'', ''CN65100272''),
     (''Scope1'', ''Osc1'', ''CN64504143''), (''Wfg1'', ''Wfg1'', ''MY52803613''),
     (''Swu1'', ''Swu1'', ''MY53154781''), (''Swu1'', ''Dmm2'', ''MY53154781''),
     (''Scope1'', ''Wfg2'', ''CN64504143''), (''Pico1'', ''Osc2'', ''JZ246/0077''),
     (''Pico1'', ''Wfg3'', ''JZ246/0077'')]"

definition dev_env :: "(address \<Rightarrow> transport_error + 't) \<Rightarrow> 't ITransport \<Rightarrow> 't bench_env" where
  "dev_env ot tr = \<lparr>env_rows = dev_rows, openTransport = ot, transport = tr\<rparr>"

definition dev_members ::
    "'t bench_env \<Rightarrow> (nat \<Rightarrow> 't SwitchUnit \<Rightarrow> unit_error option \<times> 't SwitchUnit)
       \<Rightarrow> ('t SwitchUnit, unit_error) RigInstrument list" where
  "dev_members env safeOf = map (\<lambda>i. if i = 6 then switch_unit_instrument env i
     else \<lparr>InstrumentBox = boxOf (env_rows env) i, CloseOnCard = None, OpenOnCard = None,
           SafeOp = safeOf i, SafeRelaysOp = None\<rparr>) [0..<11]"

lemma upt_11: "[0..<11] = [0, 1, 2, 3, 4, 5, 6, 7, 8, 9, 10 :: nat]"
  by (simp add: upt_rec)

lemma dev_cards:
  assumes "i < 5"
  shows "Card (dev_devices ! i) = Some (int i + 1) \<and> Box (dev_devices ! i) = ''Swu1''"
proof -
  from assms consider "i = 0" | "i = 1" | "i = 2" | "i = 3" | "i = 4" by linarith
  then show ?thesis by cases (simp_all add: dev_devices_def swu_row_def)
qed

lemma length_dev_devices [simp]: "length dev_devices = 5"
  by (simp add: dev_devices_def)

lemma dev_rows_boxes: "boxOf dev_rows 6 = ''Swu1''"
  by (simp add: boxOf_def dev_rows_def)

interpretation dev_rig: card_rig dev_devices "dev_env ot tr" 6 "dev_members (dev_env ot tr) safeOf"
  for ot tr safeOf
proof
  fix i j c
  assume "i < length dev_devices" "j < length dev_devices"
    "Card (dev_devices ! i) = Some c" "Card (dev_devices ! j) = Some c"
  then show "i = j"
    by (simp add: dev_cards)
next
  show "find (\<lambda>m. CardSwitchingInstrument m \<and> InstrumentBox m = boxOf (env_rows (dev_env ot tr)) 6)
      (dev_members (dev_env ot tr) safeOf) = Some (switch_unit_instrument (dev_env ot tr) 6)"
    by (simp add: dev_members_def upt_11 CardSwitchingInstrument_def switch_unit_instrument_def)
next
  fix m
  assume "m \<in> set (dev_members (dev_env ot tr) safeOf)" "CardSwitchingInstrument m"
  then show "InstrumentBox m = boxOf (env_rows (dev_env ot tr)) 6"
    by (auto simp: dev_members_def CardSwitchingInstrument_def switch_unit_instrument_def split: if_splits)
qed

lemma env_rows_dev_env [simp]: "env_rows (dev_env ot tr) = dev_rows"
  by (simp add: dev_env_def)

lemma dev_drives: "card_rig.unit_drives dev_devices (dev_env ot tr) 6 el \<longleftrightarrow> device el < 5"
  using dev_cards [of "device el"]
  by (auto simp: dev_rig.unit_drives_def cardOf_def dev_rows_boxes isSlot_def kSlots_def)

text \<open>
  C4: On the bench rig with its mainframe simulated, whatever paths are connected and
  disconnected, in whatever order and however many refuse: a relay the fabric counts as closed is
  closed on the mainframe, and a matrix relay that is closed on the mainframe is one the fabric
  counts. An RF bank keeps its last channel, which is the one exception and the reason the second
  half leaves RF multiplexers out.
\<close>

theorem fabric_books_match_mainframe:
  assumes "unit_simulated 6 u" and "mSimClosed u = []"
    and "list_all (\<lambda>op. list_all (\<lambda>el. device el < 5) (op_path op)) ops"
    and "device el < 5"
    and "f = run_fabric (Some (rigSwitchDriver dev_devices (dev_members (dev_env ot tr) safeOf))) ops
           \<lparr>mUseCount = (\<lambda>_. None), hardware = u\<rparr>"
  shows "(fabric_isClosed el f \<longrightarrow> relay_of dev_devices el (hardware f)) \<and>
    (relay_of dev_devices el (hardware f) \<and> kindOf dev_devices (device el) \<noteq> RfMux
      \<longrightarrow> fabric_isClosed el f)"
proof -
  have "dev_rig.books_match ot tr \<lparr>mUseCount = (\<lambda>_. None), hardware = u\<rparr>"
    using assms(1,2)
    by (simp add: dev_rig.books_match_def fabric_isClosed_def relay_of_def split: option.splits)
  from dev_rig.run_match [OF _ this, of ops safeOf] assms(3,5)
  have "dev_rig.books_match ot tr f" by simp
  then show ?thesis
    using assms(4) by (simp add: dev_rig.books_match_def dev_drives dev_rig.latches_def)
qed

definition idle_mainframe :: "unit SwitchUnit" where
  "idle_mainframe =
     \<lparr>mBoxes = \<lparr>connections = replicate 11 \<lparr>mAddress = Simulated, mLink = None\<rparr>, links = [], Links = []\<rparr>,
      attached = True, mSimClosed = [], mSimModules = (\<lambda>_. None), mSimCycles = (\<lambda>_. None),
      mSimDmmInstalled = False, mSimDmmEnabled = False\<rparr>"

definition silent_transport :: "unit ITransport" where
  "silent_transport = \<lparr>send = (\<lambda>_ t. (None, t)), receive = (\<lambda>t. (Inr [], t)), description = (\<lambda>_. [])\<rparr>"

theorem fabric_books_match_mainframe_witness:
  "let row = \<lparr>device = 0, channel = 101\<rparr>; rf = \<lparr>device = 4, channel = 12\<rparr>;
       f = run_fabric (Some (rigSwitchDriver dev_devices
             (dev_members (dev_env (\<lambda>_. Inr ()) silent_transport) (\<lambda>_ u. (None, u)))))
             [ConnectPath [row, rf], ConnectPath [row], DisconnectPath [row, rf]]
             \<lparr>mUseCount = (\<lambda>_. None), hardware = idle_mainframe\<rparr>
   in (fabric_isClosed row f \<longrightarrow> relay_of dev_devices row (hardware f)) \<and>
      (relay_of dev_devices row (hardware f) \<and> kindOf dev_devices (device row) \<noteq> RfMux
        \<longrightarrow> fabric_isClosed row f)"
  unfolding Let_def
  by (rule fabric_books_match_mainframe)
     (simp_all add: idle_mainframe_def unit_simulated_def)

end
