(* ===== verification/CoreState.thy ===== *)
theory CoreState
  imports Prelude
begin

text \<open>
  The process-wide switches of the core: the criteria variant a run applies
  (core/src/criteria/criteria_variants.cpp), the stop request (core/control/stop_request.hpp) and
  whether a bench is attached (core/session/bench.hpp). The names a build was given are a
  parameter; each function-local static and each atomic is a field of a state record.
\<close>

section \<open>Criteria variants\<close>

record criteria_build =
  Names :: "string list"
  DefaultVariant :: string
  MasterVariant :: string

record Selection =
  Index :: nat
  Locked :: bool

definition defaultIndex :: "criteria_build \<Rightarrow> nat" where
  "defaultIndex b = (case index_of (DefaultVariant b) (Names b) of None \<Rightarrow> 0 | Some i \<Rightarrow> i)"

definition initial_selection :: "criteria_build \<Rightarrow> Selection" where
  "initial_selection b = \<lparr>Index = defaultIndex b, Locked = False\<rparr>"

definition defaultCriteriaVariantName :: "criteria_build \<Rightarrow> string" where
  "defaultCriteriaVariantName b = Names b ! defaultIndex b"

definition masterCriteriaVariantName :: "criteria_build \<Rightarrow> string" where
  "masterCriteriaVariantName b = MasterVariant b"

definition activeCriteriaVariant :: "Selection \<Rightarrow> nat" where
  "activeCriteriaVariant s = Index s"

definition activeCriteriaVariantName :: "criteria_build \<Rightarrow> Selection \<Rightarrow> string" where
  "activeCriteriaVariantName b s = Names b ! Index s"

definition criteria_locked_message :: string where
  "criteria_locked_message =
     ''the criteria variant was changed after the run began; it must be selected before core::journal().begin() -- see core/criteria/criteria_variants.hpp''"

text \<open>\<open>Inl\<close> is the logic_error thrown, \<open>Inr\<close> the bool returned.\<close>

definition selectCriteriaVariant ::
    "criteria_build \<Rightarrow> string \<Rightarrow> Selection \<Rightarrow> (string + bool) \<times> Selection" where
  "selectCriteriaVariant b name s =
     (if Locked s then (Inl criteria_locked_message, s)
      else (case index_of name (Names b) of
              None \<Rightarrow> (Inr False, s)
            | Some i \<Rightarrow> (Inr True, s\<lparr>Index := i\<rparr>)))"

definition lockCriteriaVariant :: "Selection \<Rightarrow> Selection" where
  "lockCriteriaVariant s = s\<lparr>Locked := True\<rparr>"

definition resetCriteriaVariantForTesting :: "criteria_build \<Rightarrow> Selection \<Rightarrow> Selection" where
  "resetCriteriaVariantForTesting b s = initial_selection b"

definition selection_ok :: "criteria_build \<Rightarrow> Selection \<Rightarrow> bool" where
  "selection_ok b s \<longleftrightarrow> Index s < length (Names b)"

lemma selection_ok_initial: "Names b \<noteq> [] \<Longrightarrow> selection_ok b (initial_selection b)"
  by (auto simp: selection_ok_def initial_selection_def defaultIndex_def split: option.splits
      dest: index_of_Some)

lemma selectCriteriaVariant_ok:
  "selection_ok b s \<Longrightarrow> selectCriteriaVariant b name s = (r, s') \<Longrightarrow> selection_ok b s'"
  by (auto simp: selection_ok_def selectCriteriaVariant_def split: if_splits option.splits
      dest: index_of_Some)

lemma selectCriteriaVariant_locked:
  "Locked s \<Longrightarrow> snd (selectCriteriaVariant b name s) = s"
  by (simp add: selectCriteriaVariant_def)

text \<open>
  What selecting a variant does. On a selection that is not locked it answers whether the
  build knows the name, and if it does that name is the active one afterwards; a name it does not
  know, or a selection that is locked, changes nothing.
\<close>

theorem selectCriteriaVariant_functional:
  "(case selectCriteriaVariant b name s of
      (Inr True, s') \<Rightarrow> \<not> Locked s \<and> name \<in> set (Names b) \<and> activeCriteriaVariantName b s' = name
                         \<and> selection_ok b s' \<and> \<not> Locked s'
    | (Inr False, s') \<Rightarrow> \<not> Locked s \<and> name \<notin> set (Names b) \<and> s' = s
    | (Inl what, s') \<Rightarrow> Locked s \<and> s' = s \<and> what = criteria_locked_message)"
  by (auto simp: selectCriteriaVariant_def activeCriteriaVariantName_def selection_ok_def
      index_of_None split: option.splits dest: index_of_Some)

section \<open>The stop request\<close>

datatype StopReason = NoStop | Operator | ConsoleGone

record StopState =
  gStopRequested :: bool
  gStopReason :: StopReason
  gStopHonoured :: bool
  gStopArmed :: int

definition requestStop :: "StopReason \<Rightarrow> StopState \<Rightarrow> StopState" where
  "requestStop reason s =
     (if gStopReason s = NoStop then s\<lparr>gStopReason := reason\<rparr> else s)\<lparr>gStopRequested := True\<rparr>"

definition stopNow :: "StopState \<Rightarrow> bool \<times> StopState" where
  "stopNow s = (if \<not> gStopRequested s then (False, s) else (True, s\<lparr>gStopHonoured := True\<rparr>))"

definition stop_arm :: "StopState \<Rightarrow> StopState" where
  "stop_arm s = s\<lparr>gStopArmed := gStopArmed s + 1\<rparr>"

definition stop_disarm :: "StopState \<Rightarrow> StopState" where
  "stop_disarm s = s\<lparr>gStopArmed := gStopArmed s - 1\<rparr>"

definition stopArmed :: "StopState \<Rightarrow> bool" where
  "stopArmed s \<longleftrightarrow> gStopArmed s > 0"

definition clearStopRequest :: "StopState \<Rightarrow> StopState" where
  "clearStopRequest s = s\<lparr>gStopRequested := False, gStopReason := NoStop, gStopHonoured := False\<rparr>"

lemma stop_facts [simp]:
  "gStopHonoured (requestStop r s) = gStopHonoured s" "gStopRequested (requestStop r s)"
  "gStopArmed (requestStop r s) = gStopArmed s"
  "gStopArmed (stop_arm s) = gStopArmed s + 1" "gStopArmed (stop_disarm s) = gStopArmed s - 1"
  "gStopHonoured (stop_arm s) = gStopHonoured s" "gStopHonoured (stop_disarm s) = gStopHonoured s"
  "gStopRequested (stop_arm s) = gStopRequested s" "gStopRequested (stop_disarm s) = gStopRequested s"
  "gStopReason (stop_arm s) = gStopReason s" "gStopReason (stop_disarm s) = gStopReason s"
  by (simp_all add: requestStop_def stop_arm_def stop_disarm_def)

lemma requestStop_first_reason:
  "gStopReason (fold requestStop reasons s) =
     (if gStopReason s = NoStop
      then (case filter (\<lambda>r. r \<noteq> NoStop) reasons of [] \<Rightarrow> NoStop | r # _ \<Rightarrow> r)
      else gStopReason s)"
  by (induction reasons arbitrary: s) (auto simp: requestStop_def split: list.splits)

section \<open>The bench\<close>

record Bench =
  mAttached :: bool

definition bench_attach :: "Bench \<Rightarrow> Bench" where
  "bench_attach b = b\<lparr>mAttached := True\<rparr>"

definition bench_detach :: "Bench \<Rightarrow> Bench" where
  "bench_detach b = b\<lparr>mAttached := False\<rparr>"

definition kDetachedDetail :: string where
  "kDetachedDetail = ''not performed -- no bench attached''"

end
