(* ===== verification/Journal.thy ===== *)
theory Journal
  imports CoreState Double
begin

text \<open>
  The journal, core/src/journal/journal.cpp: the one place every event of a run passes through. It
  numbers, stamps and attributes each event, keeps the running test's tally, and tells its sinks.
  A sink is a pointer, here its number; what the sinks are told is recorded in order, each call with
  the sinks that were told. Sinks do not throw and do not call back. The system clock is a
  function of how often it was read. The tallies are unbounded: the code's size_t would need 2^64
  checks in one test to wrap.
\<close>

section \<open>Records, events and run information\<close>

datatype Verb =
    Measure | Setup | Apply | Remove | Connect | Disconnect | Write | Read | Arm | Await | Fetch
  | Delay | Verify | Safe | Note

fun to_string_verb :: "Verb \<Rightarrow> string" where
  "to_string_verb Measure = ''Measure''"
| "to_string_verb Setup = ''Setup''"
| "to_string_verb Apply = ''Apply''"
| "to_string_verb Remove = ''Remove''"
| "to_string_verb Connect = ''Connect''"
| "to_string_verb Disconnect = ''Disconnect''"
| "to_string_verb Write = ''Write''"
| "to_string_verb Read = ''Read''"
| "to_string_verb Arm = ''Arm''"
| "to_string_verb Await = ''Await''"
| "to_string_verb Fetch = ''Fetch''"
| "to_string_verb Delay = ''Delay''"
| "to_string_verb Verify = ''Verify''"
| "to_string_verb Safe = ''Safe''"
| "to_string_verb Note = ''Note''"

record RunInfo =
  FrameworkName :: string
  FrameworkVersion :: string
  FrameworkRevision :: string
  CriteriaVariant :: string
  CriteriaMaster :: string
  DutName :: string
  DutSerial :: string
  RigName :: string
  RunOperator :: string
  HostName :: string
  CommandLine :: string
  SuiteVersion :: string
  DutVersion :: string
  RigVersion :: string
  StartedUtc :: string
  StartedLocal :: string
  BenchAttached :: bool
  Instruments :: "string list"

record JournalRecord =
  Method :: Verb
  Subject :: string
  SubjectGroup :: string
  Detail :: string
  Instrument :: string
  Value :: string
  Numeric :: "double option"
  Unit :: string
  CriterionText :: string
  Passed :: "bool option"

text \<open>The defaulted members of a JournalRecord, which designated initialisers leave out.\<close>

definition blank_record :: JournalRecord where
  "blank_record =
     \<lparr>Method = Note, Subject = [], SubjectGroup = [], Detail = [], Instrument = [], Value = [],
      Numeric = None, Unit = [], CriterionText = [], Passed = None\<rparr>"

record JournalEvent = JournalRecord +
  Sequence :: "64 word"
  WallClockUnixMillis :: int
  TimeUtc :: string
  Group :: string
  Test :: string
  Phase :: string

definition kUncheckedValue :: string where
  "kUncheckedValue = ''<unchecked>''"

definition kMaxJournalValueLength :: nat where
  "kMaxJournalValueLength = 120"

datatype SinkCall =
    OnRunStart RunInfo
  | OnGroupStart string string
  | OnGroupEnd string
  | OnTestStart string string
  | OnPhaseStart string string string
  | OnPhaseEnd string
  | OnEvent JournalEvent
  | OnTestEnd string string bool
  | OnRunEnd bool

section \<open>Timestamps\<close>

text \<open>
  The division of isoUtcFromUnixMillis: C++ divides towards zero, and the negative branch
  subtracts 999 first.
\<close>

definition unix_seconds :: "int \<Rightarrow> int" where
  "unix_seconds millis = (if millis \<ge> 0 then millis div 1000 else - ((999 - millis) div 1000))"

definition unix_milliseconds :: "int \<Rightarrow> int" where
  "unix_milliseconds millis = millis - unix_seconds millis * 1000"

text \<open>gmtime on the proleptic Gregorian calendar: year, month and day of a count of days.\<close>

definition civil_from_days :: "int \<Rightarrow> int \<times> int \<times> int" where
  "civil_from_days days =
     (let z = days + 719468; era = z div 146097; doe = z mod 146097;
          yoe = (doe - doe div 1460 + doe div 36524 - doe div 146096) div 365;
          doy = doe - (365 * yoe + yoe div 4 - yoe div 100);
          mp = (5 * doy + 2) div 153;
          d = doy - (153 * mp + 2) div 5 + 1;
          m = (if mp < 10 then mp + 3 else mp - 9)
      in (yoe + era * 400 + (if m \<le> 2 then 1 else 0), m, d))"

definition pad_zeros :: "nat \<Rightarrow> string \<Rightarrow> string" where
  "pad_zeros n s = replicate (n - length s) (CHR ''0'') @ s"

text \<open>gmtime answers null when the year, counted from 1900, is no int of 32 bits.\<close>

definition gmtime_fails :: "int \<Rightarrow> bool" where
  "gmtime_fails y \<longleftrightarrow> y - 1900 < - (2 ^ 31) \<or> 2 ^ 31 \<le> y - 1900"

definition isoUtcFromUnixMillis :: "int \<Rightarrow> string" where
  "isoUtcFromUnixMillis millis =
     (let seconds = unix_seconds millis; ms = unix_milliseconds millis;
          (y, m, d) = civil_from_days (seconds div 86400); sod = seconds mod 86400;
          two = (\<lambda>v. pad_zeros 2 (show_int v))
      in if gmtime_fails y then ''unknown''
         else pad_zeros 4 (show_int y) @ ''-'' @ two m @ ''-'' @ two d @ ''T'' @
         two (sod div 3600) @ '':'' @ two (sod mod 3600 div 60) @ '':'' @ two (sod mod 60) @ ''.'' @
         pad_zeros 3 (show_int ms) @ ''Z'')"

lemma unix_seconds_floor: "unix_seconds millis = millis div 1000"
proof -
  have "999 - millis = (999 - millis mod 1000) + (- (millis div 1000)) * 1000"
    using div_mult_mod_eq [of millis 1000] by linarith
  then have "(999 - millis) div 1000 = (999 - millis mod 1000) div 1000 - millis div 1000"
    by (metis div_mult_self1 add.commute zero_neq_numeral uminus_add_conv_diff)
  moreover have "(999 - millis mod 1000) div 1000 = 0"
    using pos_mod_bound [of 1000 millis] pos_mod_sign [of 1000 millis]
    by (intro div_pos_pos_trivial) linarith+
  ultimately show ?thesis by (simp add: unix_seconds_def)
qed

section \<open>The journal\<close>

record Journal =
  mSinks :: "nat list"
  mRunInfo :: RunInfo
  mGroup :: string
  mTest :: string
  mPhase :: string
  mNextSequence :: "64 word"
  mTestOpen :: bool
  mTestChecks :: nat
  mTestFailures :: nat
  told :: "(nat list \<times> SinkCall) list"
  clock :: "nat \<Rightarrow> int"
  clock_reads :: nat

definition tell :: "SinkCall \<Rightarrow> Journal \<Rightarrow> Journal" where
  "tell call j = j\<lparr>told := told j @ [(mSinks j, call)]\<rparr>"

definition unixMillisNow :: "Journal \<Rightarrow> int \<times> Journal" where
  "unixMillisNow j = (clock j (clock_reads j), j\<lparr>clock_reads := clock_reads j + 1\<rparr>)"

definition journal_add :: "nat \<Rightarrow> Journal \<Rightarrow> Journal" where
  "journal_add sink j = j\<lparr>mSinks := mSinks j @ [sink]\<rparr>"

definition journal_clearSinks :: "Journal \<Rightarrow> Journal" where
  "journal_clearSinks j = j\<lparr>mSinks := []\<rparr>"

definition journal_begin :: "RunInfo \<Rightarrow> Selection \<times> Journal \<Rightarrow> Selection \<times> Journal" where
  "journal_begin info w =
     (lockCriteriaVariant (fst w),
      tell (OnRunStart info)
        ((snd w)\<lparr>mRunInfo := info, mNextSequence := 0, mGroup := [], mTest := [], mPhase := []\<rparr>))"

definition journal_end :: "bool \<Rightarrow> Journal \<Rightarrow> Journal" where
  "journal_end allPassed j = tell (OnRunEnd allPassed) j"

definition beginGroup :: "string \<Rightarrow> string \<Rightarrow> Journal \<Rightarrow> Journal" where
  "beginGroup grp desc j = tell (OnGroupStart grp desc) (j\<lparr>mGroup := grp\<rparr>)"

definition endGroup :: "Journal \<Rightarrow> Journal" where
  "endGroup j = (tell (OnGroupEnd (mGroup j)) j)\<lparr>mGroup := []\<rparr>"

definition beginTest :: "string \<Rightarrow> string \<Rightarrow> Journal \<Rightarrow> Journal" where
  "beginTest test desc j =
     tell (OnTestStart test desc)
       (j\<lparr>mTest := test, mTestOpen := True, mTestChecks := 0, mTestFailures := 0\<rparr>)"

definition beginPhase :: "string \<Rightarrow> string \<Rightarrow> Journal \<Rightarrow> Journal" where
  "beginPhase phase title j = tell (OnPhaseStart (mGroup j) phase title) (j\<lparr>mPhase := phase\<rparr>)"

definition endPhase :: "Journal \<Rightarrow> Journal" where
  "endPhase j = (tell (OnPhaseEnd (mPhase j)) j)\<lparr>mPhase := []\<rparr>"

definition clipped_value :: "string \<Rightarrow> string" where
  "clipped_value v =
     (if length v > kMaxJournalValueLength then take (kMaxJournalValueLength - 3) v @ ''...'' else v)"

definition tallied :: "JournalRecord \<Rightarrow> Journal \<Rightarrow> Journal" where
  "tallied r j =
     (if mTestOpen j
      then (case Passed r of
              None \<Rightarrow> j
            | Some ok \<Rightarrow>
                (let j' = j\<lparr>mTestChecks := mTestChecks j + 1\<rparr>
                 in if \<not> ok then j'\<lparr>mTestFailures := mTestFailures j' + 1\<rparr> else j'))
      else j)"

definition event_of :: "JournalRecord \<Rightarrow> int \<Rightarrow> Journal \<Rightarrow> JournalEvent" where
  "event_of r millis j =
     JournalRecord.extend r
       (JournalEvent.fields (mNextSequence j) millis (isoUtcFromUnixMillis millis)
          (mGroup j) (mTest j) (mPhase j))"

definition post :: "JournalRecord \<Rightarrow> Journal \<Rightarrow> Journal" where
  "post r j =
     (let r' = r\<lparr>Value := clipped_value (Value r)\<rparr>;
          j1 = tallied r' j;
          (millis, j2) = unixMillisNow j1
      in tell (OnEvent (event_of r' millis j2)) (j2\<lparr>mNextSequence := mNextSequence j2 + 1\<rparr>))"

definition no_check_record :: JournalRecord where
  "no_check_record = blank_record\<lparr>Method := Verify,
     Detail := ''no check was recorded -- a test that verified nothing cannot pass'',
     Value := kUncheckedValue, Passed := Some False\<rparr>"

definition endTest :: "Journal \<Rightarrow> bool \<times> Journal" where
  "endTest j =
     (let j1 = (if mTestOpen j \<and> mTestChecks j = 0 then post no_check_record j else j);
          passed = (mTestChecks j1 > 0 \<and> mTestFailures j1 = 0);
          j2 = tell (OnTestEnd (mGroup j1) (mTest j1) passed) (j1\<lparr>mTestOpen := False\<rparr>)
      in (passed, j2\<lparr>mTest := []\<rparr>))"

lemma tell_simps [simp]:
  "mSinks (tell c j) = mSinks j" "mRunInfo (tell c j) = mRunInfo j" "mGroup (tell c j) = mGroup j"
  "mTest (tell c j) = mTest j" "mPhase (tell c j) = mPhase j"
  "mNextSequence (tell c j) = mNextSequence j" "mTestOpen (tell c j) = mTestOpen j"
  "mTestChecks (tell c j) = mTestChecks j" "mTestFailures (tell c j) = mTestFailures j"
  "told (tell c j) = told j @ [(mSinks j, c)]" "clock (tell c j) = clock j"
  "clock_reads (tell c j) = clock_reads j"
  by (simp_all add: tell_def)

section \<open>One post\<close>

lemma length_clipped_value: "length (clipped_value v) \<le> kMaxJournalValueLength"
  by (simp add: clipped_value_def kMaxJournalValueLength_def)

lemma tallied_simps [simp]:
  "mSinks (tallied r j) = mSinks j" "mRunInfo (tallied r j) = mRunInfo j"
  "mGroup (tallied r j) = mGroup j" "mTest (tallied r j) = mTest j" "mPhase (tallied r j) = mPhase j"
  "mNextSequence (tallied r j) = mNextSequence j" "mTestOpen (tallied r j) = mTestOpen j"
  "told (tallied r j) = told j" "clock (tallied r j) = clock j"
  "clock_reads (tallied r j) = clock_reads j"
  by (simp_all add: tallied_def Let_def split: option.splits)

lemma tallied_checks [simp]:
  "mTestChecks (tallied r j) = mTestChecks j + (if mTestOpen j \<and> Passed r \<noteq> None then 1 else 0)"
  "mTestFailures (tallied r j) = mTestFailures j + (if mTestOpen j \<and> Passed r = Some False then 1 else 0)"
  by (auto simp: tallied_def Let_def split: option.splits)

definition posted_event :: "JournalRecord \<Rightarrow> Journal \<Rightarrow> JournalEvent" where
  "posted_event r j = event_of (r\<lparr>Value := clipped_value (Value r)\<rparr>) (clock j (clock_reads j)) j"

lemma event_of_cong:
  "mNextSequence j = mNextSequence k \<Longrightarrow> mGroup j = mGroup k \<Longrightarrow> mTest j = mTest k \<Longrightarrow>
   mPhase j = mPhase k \<Longrightarrow> event_of r m j = event_of r m k"
  by (simp add: event_of_def)

lemma posted_event_simps [simp]:
  "Sequence (posted_event r j) = mNextSequence j" "Group (posted_event r j) = mGroup j"
  "Test (posted_event r j) = mTest j" "Phase (posted_event r j) = mPhase j"
  "Passed (posted_event r j) = Passed r" "Value (posted_event r j) = clipped_value (Value r)"
  "Detail (posted_event r j) = Detail r" "Method (posted_event r j) = Method r"
  "Subject (posted_event r j) = Subject r"
  by (simp_all add: posted_event_def event_of_def JournalRecord.extend_def JournalEvent.fields_def)

lemma post_simps [simp]:
  "mSinks (post r j) = mSinks j" "mRunInfo (post r j) = mRunInfo j" "mGroup (post r j) = mGroup j"
  "mTest (post r j) = mTest j" "mPhase (post r j) = mPhase j"
  "mNextSequence (post r j) = mNextSequence j + 1" "mTestOpen (post r j) = mTestOpen j"
  "mTestChecks (post r j) = mTestChecks j + (if mTestOpen j \<and> Passed r \<noteq> None then 1 else 0)"
  "mTestFailures (post r j) = mTestFailures j + (if mTestOpen j \<and> Passed r = Some False then 1 else 0)"
  "told (post r j) = told j @ [(mSinks j, OnEvent (posted_event r j))]"
  by (simp_all add: post_def Let_def unixMillisNow_def posted_event_def)
     (rule event_of_cong, simp_all)

lemma endTest_simps [simp]:
  "mSinks (snd (endTest j)) = mSinks j" "mRunInfo (snd (endTest j)) = mRunInfo j"
  "mGroup (snd (endTest j)) = mGroup j" "mTest (snd (endTest j)) = []"
  "mPhase (snd (endTest j)) = mPhase j" "mTestOpen (snd (endTest j)) = False"
  by (simp_all add: endTest_def Let_def)

lemma endTest_told:
  "told (snd (endTest j)) = told j
     @ (if mTestOpen j \<and> mTestChecks j = 0 then [(mSinks j, OnEvent (posted_event no_check_record j))] else [])
     @ [(mSinks j, OnTestEnd (mGroup j) (mTest j) (fst (endTest j)))]"
proof (cases "mTestOpen j \<and> mTestChecks j = 0")
  case True
  then show ?thesis by (simp add: endTest_def Let_def)
next
  case False
  then show ?thesis by (auto simp: endTest_def Let_def)
qed

section \<open>The log reads back\<close>

text \<open>
  Everything a run can do to the journal once its sinks are added.
\<close>

datatype journal_op =
    BeginRun RunInfo | EndRun bool | BeginGroup string string | EndGroup | BeginTest string string
  | EndTest | BeginPhase string string | EndPhase | PostRecord JournalRecord

fun run_op :: "journal_op \<Rightarrow> Journal \<Rightarrow> Journal" where
  "run_op (BeginRun info) j = snd (journal_begin info (\<lparr>Index = 0, Locked = False\<rparr>, j))"
| "run_op (EndRun ok) j = journal_end ok j"
| "run_op (BeginGroup g d) j = beginGroup g d j"
| "run_op EndGroup j = endGroup j"
| "run_op (BeginTest t d) j = beginTest t d j"
| "run_op EndTest j = snd (endTest j)"
| "run_op (BeginPhase p t) j = beginPhase p t j"
| "run_op EndPhase j = endPhase j"
| "run_op (PostRecord r) j = post r j"

definition heard :: "nat \<Rightarrow> Journal \<Rightarrow> SinkCall list" where
  "heard sink j = map snd (filter (\<lambda>(sinks, _). sink \<in> set sinks) (told j))"

text \<open>
  A reader of a log who knows nothing but the log: what is open, what the open test has checked,
  the next number, and whether everything read so far agreed with that.
\<close>

record LogReader =
  in_group :: string
  in_test :: string
  in_phase :: string
  open_test :: bool
  seen_checks :: nat
  seen_failures :: nat
  next_number :: "64 word"
  consistent :: bool

definition new_reader :: LogReader where
  "new_reader = \<lparr>in_group = [], in_test = [], in_phase = [], open_test = False, seen_checks = 0,
     seen_failures = 0, next_number = 0, consistent = True\<rparr>"

fun read_call :: "SinkCall \<Rightarrow> LogReader \<Rightarrow> LogReader" where
  "read_call (OnRunStart info) l = l\<lparr>in_group := [], in_test := [], in_phase := [], next_number := 0\<rparr>"
| "read_call (OnGroupStart g d) l = l\<lparr>in_group := g\<rparr>"
| "read_call (OnGroupEnd g) l = l\<lparr>in_group := [], consistent := (consistent l \<and> g = in_group l)\<rparr>"
| "read_call (OnTestStart t d) l =
     l\<lparr>in_test := t, open_test := True, seen_checks := 0, seen_failures := 0\<rparr>"
| "read_call (OnPhaseStart g p t) l =
     l\<lparr>in_phase := p, consistent := (consistent l \<and> g = in_group l)\<rparr>"
| "read_call (OnPhaseEnd p) l = l\<lparr>in_phase := [], consistent := (consistent l \<and> p = in_phase l)\<rparr>"
| "read_call (OnEvent e) l =
     l\<lparr>next_number := next_number l + 1,
       seen_checks := seen_checks l + (if open_test l \<and> Passed e \<noteq> None then 1 else 0),
       seen_failures := seen_failures l + (if open_test l \<and> Passed e = Some False then 1 else 0),
       consistent := (consistent l \<and> Sequence e = next_number l \<and> Group e = in_group l
         \<and> Test e = in_test l \<and> Phase e = in_phase l \<and> length (Value e) \<le> kMaxJournalValueLength)\<rparr>"
| "read_call (OnTestEnd g t passed) l =
     l\<lparr>in_test := [], open_test := False,
       consistent := (consistent l \<and> g = in_group l \<and> t = in_test l
         \<and> passed = (seen_checks l > 0 \<and> seen_failures l = 0) \<and> (open_test l \<longrightarrow> seen_checks l > 0))\<rparr>"
| "read_call (OnRunEnd ok) l = l"

definition read_log :: "SinkCall list \<Rightarrow> LogReader" where
  "read_log calls = fold read_call calls new_reader"

definition fresh_journal :: "nat list \<Rightarrow> RunInfo \<Rightarrow> (nat \<Rightarrow> int) \<Rightarrow> Journal" where
  "fresh_journal sinks info clk =
     \<lparr>mSinks = sinks, mRunInfo = info, mGroup = [], mTest = [], mPhase = [], mNextSequence = 0,
      mTestOpen = False, mTestChecks = 0, mTestFailures = 0, told = [], clock = clk, clock_reads = 0\<rparr>"

definition reader_agrees :: "nat \<Rightarrow> Journal \<Rightarrow> bool" where
  "reader_agrees sink j \<longleftrightarrow> sink \<in> set (mSinks j) \<and>
     read_log (heard sink j) =
       \<lparr>in_group = mGroup j, in_test = mTest j, in_phase = mPhase j, open_test = mTestOpen j,
        seen_checks = mTestChecks j, seen_failures = mTestFailures j,
        next_number = mNextSequence j, consistent = True\<rparr>"

lemma heard_snoc:
  "told j' = told j @ [(mSinks j, c)] \<Longrightarrow> sink \<in> set (mSinks j) \<Longrightarrow> heard sink j' = heard sink j @ [c]"
  by (simp add: heard_def)

lemma read_log_snoc: "read_log (calls @ [c]) = read_call c (read_log calls)"
  by (simp add: read_log_def)

lemma post_agrees: "reader_agrees sink j \<Longrightarrow> reader_agrees sink (post r j)"
  using length_clipped_value [of "Value r"]
  by (simp add: reader_agrees_def heard_snoc [of "post r j" j] read_log_snoc)

lemma close_test_agrees:
  assumes "reader_agrees sink j" and "mTestOpen j \<longrightarrow> 0 < mTestChecks j"
  shows "reader_agrees sink ((tell (OnTestEnd (mGroup j) (mTest j) (mTestChecks j > 0 \<and> mTestFailures j = 0))
           (j\<lparr>mTestOpen := False\<rparr>))\<lparr>mTest := []\<rparr>)" (is "reader_agrees sink ?j")
proof -
  have "heard sink ?j = heard sink j @ [OnTestEnd (mGroup j) (mTest j) (mTestChecks j > 0 \<and> mTestFailures j = 0)]"
    using assms(1) by (intro heard_snoc) (simp_all add: reader_agrees_def)
  with assms show ?thesis by (simp add: reader_agrees_def read_log_snoc)
qed

lemma endTest_agrees:
  assumes "reader_agrees sink j"
  shows "reader_agrees sink (snd (endTest j))"
proof (cases "mTestOpen j \<and> mTestChecks j = 0")
  case True
  have "0 < mTestChecks (post no_check_record j)"
    using True by (simp add: no_check_record_def)
  with close_test_agrees [OF post_agrees [OF assms, of no_check_record]] True show ?thesis
    by (simp add: endTest_def Let_def)
next
  case False
  with close_test_agrees [OF assms] show ?thesis
    by (auto simp: endTest_def Let_def)
qed

lemma run_op_agrees: "reader_agrees sink j \<Longrightarrow> reader_agrees sink (run_op op j)"
proof (cases op)
  case EndTest
  assume "reader_agrees sink j"
  with EndTest endTest_agrees show ?thesis by simp
next
  case (PostRecord r)
  assume "reader_agrees sink j"
  with PostRecord post_agrees show ?thesis by simp
qed (simp_all add: reader_agrees_def heard_def read_log_def journal_begin_def journal_end_def
      beginGroup_def endGroup_def beginTest_def beginPhase_def endPhase_def)

text \<open>
  C9: Every log is consistent with itself. Whatever a run does to the journal, a reader of what
  any one sink was told, who knows nothing else, finds: every event numbered one after the last,
  attributed to the group, test and phase the log itself has open, with a value that fits the
  column; every group, test and phase end naming the one that was opened; and every verdict the
  one its test's own events give, with no test ever closing over no check at all.
\<close>

theorem log_is_consistent:
  assumes "sink \<in> set sinks"
  shows "consistent (read_log (heard sink (fold run_op ops (fresh_journal sinks info clk))))"
proof -
  have start: "reader_agrees sink (fresh_journal sinks info clk)"
    using assms by (simp add: reader_agrees_def fresh_journal_def heard_def read_log_def new_reader_def)
  have "reader_agrees sink j \<Longrightarrow> reader_agrees sink (fold run_op ops j)" for j
    by (induction ops arbitrary: j) (auto intro: run_op_agrees)
  from this [OF start] show ?thesis by (simp add: reader_agrees_def)
qed

definition sample_check :: "bool \<Rightarrow> JournalRecord" where
  "sample_check ok = blank_record\<lparr>Method := Verify, Subject := ''FS_Supply_5V0'', Passed := Some ok\<rparr>"

definition blank_info :: RunInfo where
  "blank_info =
     \<lparr>FrameworkName = [], FrameworkVersion = [], FrameworkRevision = [], CriteriaVariant = [],
      CriteriaMaster = [], DutName = [], DutSerial = [], RigName = [], RunOperator = [], HostName = [],
      CommandLine = [], SuiteVersion = [], DutVersion = [], RigVersion = [], StartedUtc = [],
      StartedLocal = [], BenchAttached = True, Instruments = []\<rparr>"

theorem log_is_consistent_witness:
  "consistent (read_log (heard 1 (fold run_op
     [BeginRun blank_info, BeginGroup ''G'' [], BeginTest ''T'' [], PostRecord (sample_check True),
      EndTest, BeginTest ''Empty'' [], EndTest, EndGroup, EndRun False]
     (fresh_journal [0, 1] blank_info (\<lambda>_. 0)))))"
  by (rule log_is_consistent) simp

section \<open>The verdict of a test\<close>

fun inside_test :: "journal_op \<Rightarrow> bool" where
  "inside_test (PostRecord r) = True"
| "inside_test (BeginPhase p t) = True"
| "inside_test EndPhase = True"
| "inside_test (BeginGroup g d) = True"
| "inside_test EndGroup = True"
| "inside_test _ = False"

definition tally_of :: "(bool option \<Rightarrow> bool) \<Rightarrow> journal_op list \<Rightarrow> nat" where
  "tally_of P ops = length (filter (\<lambda>op. case op of PostRecord r \<Rightarrow> P (Passed r) | _ \<Rightarrow> False) ops)"

lemma inside_test_tallies:
  "\<forall>op \<in> set ops. inside_test op \<Longrightarrow> mTestOpen j \<Longrightarrow>
     mTestOpen (fold run_op ops j) \<and>
     mTestChecks (fold run_op ops j) = mTestChecks j + tally_of (\<lambda>p. p \<noteq> None) ops \<and>
     mTestFailures (fold run_op ops j) = mTestFailures j + tally_of (\<lambda>p. p = Some False) ops"
proof (induction ops arbitrary: j)
  case Nil
  then show ?case by (simp add: tally_of_def)
next
  case (Cons op ops)
  have step: "mTestOpen (run_op op j) \<and>
      mTestChecks (run_op op j) = mTestChecks j + tally_of (\<lambda>p. p \<noteq> None) [op] \<and>
      mTestFailures (run_op op j) = mTestFailures j + tally_of (\<lambda>p. p = Some False) [op]"
    using Cons.prems
    by (cases op) (auto simp: tally_of_def beginGroup_def endGroup_def beginPhase_def endPhase_def)
  have "tally_of P (op # ops) = tally_of P [op] + tally_of P ops" for P
    by (simp add: tally_of_def)
  with step Cons.IH [of "run_op op j"] Cons.prems show ?case by simp
qed

lemma tally_of_pos: "0 < tally_of P ops \<longleftrightarrow> (\<exists>r. PostRecord r \<in> set ops \<and> P (Passed r))"
proof -
  have "0 < tally_of P ops \<longleftrightarrow> (\<exists>op \<in> set ops. case op of PostRecord r \<Rightarrow> P (Passed r) | _ \<Rightarrow> False)"
    by (simp add: tally_of_def filter_empty_conv del: length_greater_0_conv)
       (simp add: filter_empty_conv)
  also have "\<dots> \<longleftrightarrow> (\<exists>r. PostRecord r \<in> set ops \<and> P (Passed r))"
  proof
    assume "\<exists>op \<in> set ops. case op of PostRecord r \<Rightarrow> P (Passed r) | _ \<Rightarrow> False"
    then obtain op where "op \<in> set ops" "case op of PostRecord r \<Rightarrow> P (Passed r) | _ \<Rightarrow> False" ..
    then show "\<exists>r. PostRecord r \<in> set ops \<and> P (Passed r)" by (cases op rule: journal_op.exhaust) auto
  next
    assume "\<exists>r. PostRecord r \<in> set ops \<and> P (Passed r)"
    then obtain r where "PostRecord r \<in> set ops" "P (Passed r)" by blast
    then show "\<exists>op \<in> set ops. case op of PostRecord r \<Rightarrow> P (Passed r) | _ \<Rightarrow> False"
      by (intro bexI [of _ "PostRecord r"]) simp_all
  qed
  finally show ?thesis .
qed

lemma endTest_verdict:
  "mTestOpen j \<Longrightarrow> fst (endTest j) \<longleftrightarrow> 0 < mTestChecks j \<and> mTestFailures j = 0"
  by (auto simp: endTest_def Let_def no_check_record_def)

text \<open>
  C8: A test passes exactly when it checked something and no check failed, whatever else was
  posted in between and whichever verb carried the verdict.
\<close>

theorem test_verdict:
  assumes "\<forall>op \<in> set ops. inside_test op"
  shows "fst (endTest (fold run_op ops (beginTest t d j))) \<longleftrightarrow>
     (\<exists>r. PostRecord r \<in> set ops \<and> Passed r \<noteq> None) \<and> \<not> (\<exists>r. PostRecord r \<in> set ops \<and> Passed r = Some False)"
proof -
  let ?j = "beginTest t d j"
  have start: "mTestOpen ?j" "mTestChecks ?j = 0" "mTestFailures ?j = 0"
    by (simp_all add: beginTest_def)
  note inside = inside_test_tallies [OF assms start(1)]
  have "fst (endTest (fold run_op ops ?j)) \<longleftrightarrow>
      0 < tally_of (\<lambda>p. p \<noteq> None) ops \<and> \<not> 0 < tally_of (\<lambda>p. p = Some False) ops"
    using inside start by (simp add: endTest_verdict)
  then show ?thesis by (simp only: tally_of_pos)
qed

theorem test_verdict_witness:
  "fst (endTest (fold run_op [PostRecord blank_record, PostRecord (sample_check True)]
     (beginTest ''T'' [] (fresh_journal [] blank_info (\<lambda>_. 0))))) \<and>
   \<not> fst (endTest (fold run_op [PostRecord blank_record]
     (beginTest ''T'' [] (fresh_journal [] blank_info (\<lambda>_. 0)))))"
proof -
  have "\<forall>op \<in> set [PostRecord blank_record, PostRecord (sample_check True)]. inside_test op"
    and "\<forall>op \<in> set [PostRecord blank_record]. inside_test op"
    by simp_all
  from this [THEN test_verdict, of "''T''" "[]" "fresh_journal [] blank_info (\<lambda>_. 0)"] show ?thesis
    by (simp add: sample_check_def blank_record_def ex_disj_distrib conj_disj_distribR) blast
qed

text \<open>
  A test that checked nothing says so in its own log before it closes, and fails: every sink
  is told the failing unchecked row, numbered and attributed to the test, and then the verdict.
\<close>

theorem unchecked_test_is_reported:
  assumes "mTestOpen j" and "mTestChecks j = 0"
  shows "\<exists>e. told (snd (endTest j)) = told j @
       [(mSinks j, OnEvent e), (mSinks j, OnTestEnd (mGroup j) (mTest j) False)]
     \<and> Value e = kUncheckedValue \<and> Passed e = Some False \<and> Method e = Verify
     \<and> Test e = mTest j \<and> Sequence e = mNextSequence j \<and> \<not> fst (endTest j)"
proof (intro exI conjI)
  let ?e = "posted_event no_check_record j"
  show "told (snd (endTest j)) = told j @
      [(mSinks j, OnEvent ?e), (mSinks j, OnTestEnd (mGroup j) (mTest j) False)]"
    using assms by (simp add: endTest_def Let_def no_check_record_def)
  show "Value ?e = kUncheckedValue"
    by (simp add: no_check_record_def clipped_value_def kUncheckedValue_def kMaxJournalValueLength_def)
  show "Passed ?e = Some False" "Method ?e = Verify" by (simp_all add: no_check_record_def)
  show "Test ?e = mTest j" "Sequence ?e = mNextSequence j" by simp_all
  show "\<not> fst (endTest j)" using assms by (simp add: endTest_verdict)
qed

theorem unchecked_test_is_reported_witness:
  "\<exists>e. told (snd (endTest (beginTest ''T'' [] (fresh_journal [7] blank_info (\<lambda>_. 0))))) =
       [([7], OnTestStart ''T'' []), ([7], OnEvent e), ([7], OnTestEnd [] ''T'' False)]"
proof -
  let ?j = "beginTest ''T'' [] (fresh_journal [7] blank_info (\<lambda>_. 0))"
  have "mTestOpen ?j" "mTestChecks ?j = 0" by (simp_all add: beginTest_def)
  from unchecked_test_is_reported [OF this] show ?thesis
    by (auto simp: beginTest_def fresh_journal_def)
qed

section \<open>The criteria variant of a run\<close>

text \<open>Assembling the header, with the build's constants, the environment and the clock as inputs.\<close>

record build_stamp =
  stamp_criteria :: criteria_build
  stamp_framework :: "string \<times> string"
  stamp_names :: "string \<times> string"
  stamp_versions :: "string \<times> string \<times> string"

fun firstEnv :: "(string \<Rightarrow> string option) \<Rightarrow> string list \<Rightarrow> string" where
  "firstEnv env [] = []"
| "firstEnv env (name # names) =
     (case env name of
        Some v \<Rightarrow> (if v \<noteq> [] then v else firstEnv env names)
      | None \<Rightarrow> firstEnv env names)"

definition defaultRunInfo ::
    "build_stamp \<Rightarrow> (string \<Rightarrow> string option) \<Rightarrow> (int \<Rightarrow> string) \<Rightarrow> int \<Rightarrow> Selection \<Rightarrow> Bench \<Rightarrow> RunInfo" where
  "defaultRunInfo b env localTime startedAt sel bench =
     \<lparr>FrameworkName = ''Thorium'', FrameworkVersion = fst (stamp_framework b),
      FrameworkRevision = snd (stamp_framework b),
      CriteriaVariant = activeCriteriaVariantName (stamp_criteria b) sel,
      CriteriaMaster = masterCriteriaVariantName (stamp_criteria b),
      DutName = fst (stamp_names b), DutSerial = [], RigName = snd (stamp_names b),
      RunOperator = firstEnv env [''THORIUM_OPERATOR'', ''USER'', ''LOGNAME'', ''USERNAME''],
      HostName = firstEnv env [''THORIUM_HOST'', ''HOSTNAME'', ''HOST'', ''COMPUTERNAME''],
      CommandLine = [], SuiteVersion = fst (stamp_versions b),
      DutVersion = fst (snd (stamp_versions b)), RigVersion = snd (snd (stamp_versions b)),
      StartedUtc = isoUtcFromUnixMillis startedAt, StartedLocal = localTime startedAt,
      BenchAttached = mAttached bench, Instruments = []\<rparr>"

text \<open>
  The header and the checks cannot come apart: once the run has begun, whatever is selected
  afterwards is refused and the variant the checks apply is the one the header told every sink.
\<close>

theorem header_names_applied_criteria:
  assumes "info = defaultRunInfo b env localTime startedAt sel bench"
    and "journal_begin info (sel, j) = (sel', j')"
  shows "activeCriteriaVariantName (stamp_criteria b)
           (fold (\<lambda>name s. snd (selectCriteriaVariant (stamp_criteria b) name s)) names sel')
         = CriteriaVariant (mRunInfo j')
    \<and> last (told j') = (mSinks j, OnRunStart (mRunInfo j'))"
proof -
  have locked: "Locked sel'" "Index sel' = Index sel" "mRunInfo j' = info"
      "told j' = told j @ [(mSinks j, OnRunStart info)]"
    using assms(2) by (auto simp: journal_begin_def lockCriteriaVariant_def)
  have "fold (\<lambda>name s. snd (selectCriteriaVariant (stamp_criteria b) name s)) names sel' = sel'"
    using locked(1) by (induction names) (auto simp: selectCriteriaVariant_locked)
  with locked assms(1) show ?thesis
    by (simp add: activeCriteriaVariantName_def defaultRunInfo_def)
qed

theorem header_names_applied_criteria_witness:
  "let b = \<lparr>stamp_criteria = \<lparr>Names = [''master'', ''customer''], DefaultVariant = ''master'', MasterVariant = ''master''\<rparr>,
            stamp_framework = ([], []), stamp_names = ([], []), stamp_versions = ([], [], [])\<rparr>;
       sel = \<lparr>Index = 1, Locked = False\<rparr>;
       info = defaultRunInfo b (\<lambda>_. None) (\<lambda>_. []) 0 sel \<lparr>mAttached = True\<rparr>;
       w = journal_begin info (sel, fresh_journal [0] blank_info (\<lambda>_. 0))
   in activeCriteriaVariantName (stamp_criteria b)
        (fold (\<lambda>name s. snd (selectCriteriaVariant (stamp_criteria b) name s)) [''master''] (fst w))
      = CriteriaVariant (mRunInfo (snd w))"
  unfolding Let_def
  by (rule header_names_applied_criteria [THEN conjunct1, OF refl prod.collapse [symmetric]])

text \<open>
  Timestamps of instants before 1970 round down like all others: the seconds shown are the
  whole seconds that had passed, and the fraction is the milliseconds since, from 0 to 999.
\<close>

theorem timestamp_split:
  "unix_seconds millis * 1000 + unix_milliseconds millis = millis
   \<and> 0 \<le> unix_milliseconds millis \<and> unix_milliseconds millis < 1000"
proof -
  have "unix_milliseconds millis = millis mod 1000"
    by (simp add: unix_milliseconds_def unix_seconds_floor minus_div_mult_eq_mod)
  then show ?thesis by (simp add: unix_seconds_floor)
qed

end
