(* ===== verification/Safing.thy ===== *)
theory Safing
  imports RigSwitching Journal
begin

text \<open>
  Safing, hal/src/verbs/safing.cpp: the record first, then every instrument's safe(), then every
  relay-holding instrument's safeRelays(), then the fabric forgets its uses. The walk over the
  instrument globals is a list; a call that throws ends the pass where it is.
\<close>

fun safe_pass :: "('h, 'e) RigInstrument list \<Rightarrow> 'h \<Rightarrow> 'e option \<times> 'h" where
  "safe_pass [] h = (None, h)"
| "safe_pass (i # members) h =
     (case SafeOp i h of
        (Some e, h') \<Rightarrow> (Some e, h')
      | (None, h') \<Rightarrow> safe_pass members h')"

fun relay_pass :: "('h, 'e) RigInstrument list \<Rightarrow> 'h \<Rightarrow> 'e option \<times> 'h" where
  "relay_pass [] h = (None, h)"
| "relay_pass (i # members) h =
     (case SafeRelaysOp i of
        None \<Rightarrow> relay_pass members h
      | Some safeRelays \<Rightarrow>
          (case safeRelays h of
             (Some e, h') \<Rightarrow> (Some e, h')
           | (None, h') \<Rightarrow> relay_pass members h'))"

definition safe_record :: "Bench \<Rightarrow> JournalRecord" where
  "safe_record b = blank_record\<lparr>Method := Safe, Subject := ''rig'',
     Detail := (if mAttached b then ''all instrument outputs off and zeroed, all relays opened''
                else kDetachedDetail)\<rparr>"

definition safeRig ::
    "('h, 'e) RigInstrument list \<Rightarrow> Bench \<Rightarrow> Journal \<times> 'h SwitchFabric
       \<Rightarrow> 'e option \<times> Journal \<times> 'h SwitchFabric" where
  "safeRig members b w =
     (let j = post (safe_record b) (fst w); f = snd w
      in if \<not> mAttached b then (None, j, f)
         else (case safe_pass members (hardware f) of
                 (Some e, h) \<Rightarrow> (Some e, j, f\<lparr>hardware := h\<rparr>)
               | (None, h) \<Rightarrow>
                   (case relay_pass members h of
                      (Some e, h') \<Rightarrow> (Some e, j, f\<lparr>hardware := h'\<rparr>)
                    | (None, h') \<Rightarrow> (None, j, fabric_openAll (f\<lparr>hardware := h'\<rparr>)))))"

text \<open>
  Calls made in turn: \<open>hs\<close> are the states of the bench before the first call, between each two and
  after the last, and no call threw.
\<close>

definition told_in_turn :: "('h \<Rightarrow> 'e option \<times> 'h) list \<Rightarrow> 'h list \<Rightarrow> bool" where
  "told_in_turn ops hs \<longleftrightarrow>
     length hs = Suc (length ops) \<and> (\<forall>i < length ops. (ops ! i) (hs ! i) = (None, hs ! Suc i))"

lemma told_in_turn_Nil: "told_in_turn [] [h]"
  by (simp add: told_in_turn_def)

lemma told_in_turn_Cons:
  "op h = (None, h1) \<Longrightarrow> told_in_turn ops hs \<Longrightarrow> hs ! 0 = h1 \<Longrightarrow> told_in_turn (op # ops) (h # hs)"
  by (auto simp: told_in_turn_def nth_Cons split: nat.splits)

lemma told_in_turn_append:
  assumes "told_in_turn ops hs" and "told_in_turn later ks" and "last hs = ks ! 0"
  shows "told_in_turn (ops @ later) (hs @ tl ks) \<and> (hs @ tl ks) ! 0 = hs ! 0 \<and> last (hs @ tl ks) = last ks"
  using assms
proof (induction ops arbitrary: hs)
  case Nil
  then obtain h where "hs = [h]" by (auto simp: told_in_turn_def length_Suc_conv)
  moreover obtain k ks' where "ks = k # ks'"
    using Nil.prems(2) by (auto simp: told_in_turn_def length_Suc_conv)
  ultimately show ?case using Nil.prems by (simp add: told_in_turn_def)
next
  case (Cons op ops)
  then obtain h h1 hs' where hs: "hs = h # h1 # hs'" by (auto simp: told_in_turn_def length_Suc_conv)
  have op: "op h = (None, h1)" using Cons.prems(1) hs by (auto simp: told_in_turn_def)
  have "told_in_turn ops (h1 # hs')" using Cons.prems(1) hs by (auto simp: told_in_turn_def)
  from Cons.IH [OF this Cons.prems(2)] Cons.prems(3) hs told_in_turn_Cons [of op h, OF op] show ?case by auto
qed

text \<open>The calls of the second pass: safeRelays() of the instruments that hold relays.\<close>

definition relay_ops :: "('h, 'e) RigInstrument list \<Rightarrow> ('h \<Rightarrow> 'e option \<times> 'h) list" where
  "relay_ops members = List.map_filter SafeRelaysOp members"

lemma safe_pass_in_turn:
  "safe_pass members h = (None, h') \<Longrightarrow>
     \<exists>hs. told_in_turn (map SafeOp members) hs \<and> hs ! 0 = h \<and> last hs = h'"
proof (induction members arbitrary: h)
  case Nil
  then show ?case by (intro exI [of _ "[h]"]) (simp add: told_in_turn_Nil)
next
  case (Cons i members)
  obtain h1 where s: "SafeOp i h = (None, h1)" and rest: "safe_pass members h1 = (None, h')"
    using Cons.prems by (auto split: prod.splits option.splits)
  obtain hs where hs: "told_in_turn (map SafeOp members) hs" "hs ! 0 = h1" "last hs = h'"
    using Cons.IH [OF rest] by blast
  have "hs \<noteq> []" using hs(1) by (auto simp: told_in_turn_def)
  with hs told_in_turn_Cons [of "SafeOp i" h, OF s hs(1,2)] show ?case by (intro exI [of _ "h # hs"]) simp
qed

lemma relay_pass_in_turn:
  "relay_pass members h = (None, h') \<Longrightarrow>
     \<exists>hs. told_in_turn (relay_ops members) hs \<and> hs ! 0 = h \<and> last hs = h'"
proof (induction members arbitrary: h)
  case Nil
  then show ?case by (intro exI [of _ "[h]"]) (simp add: told_in_turn_Nil relay_ops_def List.map_filter_def)
next
  case (Cons i members)
  show ?case
  proof (cases "SafeRelaysOp i")
    case None
    with Cons show ?thesis by (simp add: relay_ops_def List.map_filter_def)
  next
    case (Some rel)
    with Cons.prems obtain h1 where s: "rel h = (None, h1)" and rest: "relay_pass members h1 = (None, h')"
      by (auto split: prod.splits option.splits)
    obtain hs where hs: "told_in_turn (relay_ops members) hs" "hs ! 0 = h1" "last hs = h'"
      using Cons.IH [OF rest] by blast
    have "hs \<noteq> []" using hs(1) by (auto simp: told_in_turn_def)
    with hs told_in_turn_Cons [of rel h, OF s hs(1,2)] Some show ?thesis
      by (intro exI [of _ "h # hs"]) (simp add: relay_ops_def List.map_filter_def)
  qed
qed

text \<open>What safing of an attached bench did when nothing threw, and why it threw when something did.\<close>

lemma safeRig_in_turn:
  assumes "safeRig members b (j, f) = (None, j', f')" and "mAttached b"
  shows "\<exists>hs. told_in_turn (map SafeOp members @ relay_ops members) hs \<and> hs ! 0 = hardware f \<and> last hs = hardware f'"
proof -
  obtain h1 where s: "safe_pass members (hardware f) = (None, h1)"
    and r: "relay_pass members h1 = (None, hardware f')"
    using assms by (auto simp: safeRig_def Let_def fabric_openAll_def split: prod.splits option.splits)
  obtain hs where hs: "told_in_turn (map SafeOp members) hs" "hs ! 0 = hardware f" "last hs = h1"
    using safe_pass_in_turn [OF s] by blast
  obtain ks where ks: "told_in_turn (relay_ops members) ks" "ks ! 0 = h1" "last ks = hardware f'"
    using relay_pass_in_turn [OF r] by blast
  from told_in_turn_append [OF hs(1) ks(1)] hs ks show ?thesis by (intro exI [of _ "hs @ tl ks"]) simp
qed

definition safing_throws :: "('h, 'e) RigInstrument list \<Rightarrow> bool" where
  "safing_throws members \<longleftrightarrow>
     (\<exists>i \<in> set members. \<exists>h e h'. SafeOp i h = (Some e, h')
        \<or> (\<exists>rel. SafeRelaysOp i = Some rel \<and> rel h = (Some e, h')))"

lemma safe_pass_throws: "safe_pass members h = (Some e, h') \<Longrightarrow> safing_throws members"
  by (induction members arbitrary: h) (fastforce simp: safing_throws_def split: prod.splits option.splits)+

lemma relay_pass_throws: "relay_pass members h = (Some e, h') \<Longrightarrow> safing_throws members"
  by (induction members arbitrary: h) (fastforce simp: safing_throws_def split: prod.splits option.splits)+

lemma safeRig_throws: "safeRig members b w = (Some e, j', f') \<Longrightarrow> safing_throws members"
  by (auto simp: safeRig_def Let_def split: if_splits prod.splits option.splits
      dest: safe_pass_throws relay_pass_throws)

section \<open>The order of the calls\<close>

text \<open>
  Safing under observation: the same instruments, on a bench that also notes which of them is told
  what, and when. An instrument is known by its place in the rig.
\<close>

datatype safing_call = TellsSafe nat | TellsRelays nat

definition watched :: "nat \<Rightarrow> ('h, 'e) RigInstrument \<Rightarrow> ('h \<times> safing_call list, 'e) RigInstrument" where
  "watched k i =
     \<lparr>InstrumentBox = InstrumentBox i, CloseOnCard = None, OpenOnCard = None,
      SafeOp = (\<lambda>(h, cs). case SafeOp i h of (e, h') \<Rightarrow> (e, (h', cs @ [TellsSafe k]))),
      SafeRelaysOp =
        map_option (\<lambda>rel (h, cs). case rel h of (e, h') \<Rightarrow> (e, (h', cs @ [TellsRelays k]))) (SafeRelaysOp i)\<rparr>"

fun watched_from :: "nat \<Rightarrow> ('h, 'e) RigInstrument list \<Rightarrow> ('h \<times> safing_call list, 'e) RigInstrument list" where
  "watched_from k [] = []"
| "watched_from k (i # members) = watched k i # watched_from (Suc k) members"

text \<open>The places of the instruments that hold relays, counted from k.\<close>

fun relay_places :: "nat \<Rightarrow> ('h, 'e) RigInstrument list \<Rightarrow> nat list" where
  "relay_places k [] = []"
| "relay_places k (i # members) = (if SafeRelaysOp i = None then [] else [k]) @ relay_places (Suc k) members"

lemma safe_pass_watched:
  "\<exists>n. safe_pass (watched_from k members) (h, cs) =
     (case safe_pass members h of (e, h') \<Rightarrow> (e, (h', cs @ map TellsSafe [k..<k + n])))
   \<and> n \<le> length members \<and> (fst (safe_pass members h) = None \<longrightarrow> n = length members)"
proof (induction members arbitrary: k h cs)
  case Nil
  then show ?case by simp
next
  case (Cons i members)
  obtain e h1 where i: "SafeOp i h = (e, h1)" by force
  show ?case
  proof (cases e)
    case (Some x)
    with i show ?thesis by (intro exI [of _ 1]) (simp add: watched_def)
  next
    case None
    obtain n where n: "safe_pass (watched_from (Suc k) members) (h1, cs @ [TellsSafe k]) =
        (case safe_pass members h1 of (e, h') \<Rightarrow> (e, (h', (cs @ [TellsSafe k]) @ map TellsSafe [Suc k..<Suc k + n])))"
      "n \<le> length members" "fst (safe_pass members h1) = None \<longrightarrow> n = length members"
      using Cons.IH by blast
    have "[k..<Suc (k + n)] = k # [Suc k..<Suc k + n]" by (simp add: upt_rec [of k])
    with n None i show ?thesis
      by (intro exI [of _ "Suc n"]) (auto simp: watched_def split: prod.splits)
  qed
qed

lemma relay_pass_watched:
  "\<exists>m. relay_pass (watched_from k members) (h, cs) =
     (case relay_pass members h of (e, h') \<Rightarrow> (e, (h', cs @ map TellsRelays (take m (relay_places k members)))))
   \<and> (fst (relay_pass members h) = None \<longrightarrow> m = length (relay_places k members))"
proof (induction members arbitrary: k h cs)
  case Nil
  then show ?case by simp
next
  case (Cons i members)
  show ?case
  proof (cases "SafeRelaysOp i")
    case None
    with Cons.IH [of "Suc k" h cs] show ?thesis by (simp add: watched_def)
  next
    case (Some rel)
    obtain e h1 where i: "rel h = (e, h1)" by force
    show ?thesis
    proof (cases e)
      case (Some x)
      with i \<open>SafeRelaysOp i = Some rel\<close> show ?thesis by (intro exI [of _ 1]) (simp add: watched_def)
    next
      case None
      obtain m where m: "relay_pass (watched_from (Suc k) members) (h1, cs @ [TellsRelays k]) =
          (case relay_pass members h1 of (e, h') \<Rightarrow>
             (e, (h', (cs @ [TellsRelays k]) @ map TellsRelays (take m (relay_places (Suc k) members)))))"
        "fst (relay_pass members h1) = None \<longrightarrow> m = length (relay_places (Suc k) members)"
        using Cons.IH by blast
      with None i \<open>SafeRelaysOp i = Some rel\<close> show ?thesis
        by (intro exI [of _ "Suc m"]) (auto simp: watched_def split: prod.splits)
    qed
  qed
qed

definition watched_safing ::
    "('h, 'e) RigInstrument list \<Rightarrow> Bench \<Rightarrow> Journal \<times> 'h SwitchFabric
       \<Rightarrow> 'e option \<times> Journal \<times> ('h \<times> safing_call list) SwitchFabric" where
  "watched_safing members b w =
     safeRig (watched_from 0 members) b
       (fst w, \<lparr>mUseCount = mUseCount (snd w), hardware = (hardware (snd w), [])\<rparr>)"

definition safing_calls ::
    "('h, 'e) RigInstrument list \<Rightarrow> Bench \<Rightarrow> Journal \<times> 'h SwitchFabric \<Rightarrow> safing_call list" where
  "safing_calls members b w = snd (hardware (snd (snd (watched_safing members b w))))"

definition unwatched :: "('h \<times> 'l) SwitchFabric \<Rightarrow> 'h SwitchFabric" where
  "unwatched f = \<lparr>mUseCount = mUseCount f, hardware = fst (hardware f)\<rparr>"

text \<open>
  C10: Outputs before relays. What safing an attached bench tells its instruments is the beginning of one
  list: every instrument of the rig to be safe, in the order they are declared, and then every instrument
  that holds relays to open them, in that order. It is the whole list when nothing throws; no relay is told
  to open unless every instrument of the rig was told to be safe. A detached bench is told nothing. Noting
  the calls changes nothing of what safing does, its result included.
\<close>

theorem safing_outputs_before_relays:
  shows "(\<exists>n m. safing_calls members b (j, f)
            = map TellsSafe [0..<n] @ map TellsRelays (take m (relay_places 0 members))
        \<and> n \<le> (if mAttached b then length members else 0) \<and> (0 < m \<longrightarrow> n = length members)
        \<and> (fst (safeRig members b (j, f)) = None \<and> mAttached b \<longrightarrow>
             n = length members \<and> m = length (relay_places 0 members)))
    \<and> (case watched_safing members b (j, f) of (r, j', f') \<Rightarrow> (r, j', unwatched f')) = safeRig members b (j, f)"
proof -
  obtain h u where f: "f = \<lparr>mUseCount = u, hardware = h\<rparr>" by (cases f) auto
  obtain n where n: "safe_pass (watched_from 0 members) (h, []) =
      (case safe_pass members h of (e, h') \<Rightarrow> (e, (h', map TellsSafe [0..<n])))"
    "n \<le> length members" "fst (safe_pass members h) = None \<longrightarrow> n = length members"
    using safe_pass_watched [of 0 members h "[]"] by auto
  obtain e h1 where s: "safe_pass members h = (e, h1)" by force
  obtain m where m: "relay_pass (watched_from 0 members) (h1, map TellsSafe [0..<n]) =
      (case relay_pass members h1 of (e, h') \<Rightarrow>
         (e, (h', map TellsSafe [0..<n] @ map TellsRelays (take m (relay_places 0 members)))))"
    "fst (relay_pass members h1) = None \<longrightarrow> m = length (relay_places 0 members)"
    using relay_pass_watched [of 0 members h1 "map TellsSafe [0..<n]"] by (elim exE conjE) (rule that)
  obtain e2 h2 where r: "relay_pass members h1 = (e2, h2)" by force
  show ?thesis
  proof (cases "mAttached b")
    case False
    then show ?thesis
      by (simp add: safing_calls_def watched_safing_def safeRig_def Let_def unwatched_def f)
        (intro exI [of _ 0], simp)
  next
    case True
    show ?thesis
    proof (cases e)
      case (Some x)
      with True n s show ?thesis
        by (simp add: safing_calls_def watched_safing_def safeRig_def Let_def unwatched_def f)
          (intro exI [of _ n] exI [of _ 0], simp)
    next
      case None
      with n m s r have sp: "safe_pass (watched_from 0 members) (h, []) = (None, h1, map TellsSafe [0..<n])"
        and rp: "relay_pass (watched_from 0 members) (h1, map TellsSafe [0..<n]) =
          (e2, h2, map TellsSafe [0..<n] @ map TellsRelays (take m (relay_places 0 members)))"
        by simp_all
      have len: "n = length members" "e2 = None \<longrightarrow> m = length (relay_places 0 members)"
        using n(3) m(2) s r None by simp_all
      have same: "(case watched_safing members b (j, f) of (r, j', f') \<Rightarrow> (r, j', unwatched f')) =
          safeRig members b (j, f)"
        using True s r None
        by (cases e2) (simp_all add: watched_safing_def safeRig_def Let_def unwatched_def fabric_openAll_def f sp rp)
      have calls: "safing_calls members b (j, f) =
          map TellsSafe [0..<n] @ map TellsRelays (take m (relay_places 0 members))"
        using True by (cases e2)
          (simp_all add: safing_calls_def watched_safing_def safeRig_def Let_def fabric_openAll_def f sp rp)
      have ended: "fst (safeRig members b (j, f)) = e2"
        using True s r None by (cases e2) (simp_all add: safeRig_def Let_def f)
      show ?thesis
        by (rule conjI [OF exI [of _ n, OF exI [of _ m]] same]) (use calls ended len True in auto)
    qed
  qed
qed

text \<open>A rig of two: a mainframe declared first, and a supply declared after it.\<close>

definition two_instruments :: "(bool \<times> bool, unit) RigInstrument list" where
  "two_instruments =
     [\<lparr>InstrumentBox = ''Swu1'', CloseOnCard = None, OpenOnCard = None, SafeOp = (\<lambda>h. (None, h)),
       SafeRelaysOp = Some (\<lambda>h. (None, (fst h, False)))\<rparr>,
      \<lparr>InstrumentBox = ''Psu1'', CloseOnCard = None, OpenOnCard = None,
       SafeOp = (\<lambda>h. (None, (False, snd h))), SafeRelaysOp = None\<rparr>]"

theorem safing_outputs_before_relays_witness:
  "safing_calls two_instruments \<lparr>mAttached = True\<rparr>
     (fresh_journal [] blank_info (\<lambda>_. 0), \<lparr>mUseCount = (\<lambda>_. None), hardware = (True, True)\<rparr>)
   = [TellsSafe 0, TellsSafe 1, TellsRelays 0]"
proof -
  have "length two_instruments = 2" "relay_places 0 two_instruments = [0]"
    "fst (safeRig two_instruments \<lparr>mAttached = True\<rparr>
       (fresh_journal [] blank_info (\<lambda>_. 0), \<lparr>mUseCount = (\<lambda>_. None), hardware = (True, True)\<rparr>)) = None"
    by (simp_all add: two_instruments_def safeRig_def Let_def)
  moreover have "[0..<2] = [0, 1 :: nat]" by (simp add: upt_rec)
  ultimately show ?thesis
    using safing_outputs_before_relays [THEN conjunct1, of two_instruments "\<lparr>mAttached = True\<rparr>"
      "fresh_journal [] blank_info (\<lambda>_. 0)" "\<lparr>mUseCount = (\<lambda>_. None), hardware = (True, True)\<rparr>"] by auto
qed

text \<open>
  A run with no bench attached is safed without touching anything: the record says it was not
  performed, and neither the hardware nor a use count changes.
\<close>

theorem safing_detached_touches_nothing:
  assumes "\<not> mAttached b"
  shows "safeRig members b (j, f) = (None, post (safe_record b) j, f)
    \<and> Detail (safe_record b) = kDetachedDetail"
  using assms by (simp add: safeRig_def safe_record_def)

theorem safing_detached_touches_nothing_witness:
  "snd (snd (safeRig two_instruments \<lparr>mAttached = False\<rparr>
     (fresh_journal [] blank_info (\<lambda>_. 0), \<lparr>mUseCount = (\<lambda>_. None), hardware = (True, True)\<rparr>)))
   = \<lparr>mUseCount = (\<lambda>_. None), hardware = (True, True)\<rparr>"
  by (subst safing_detached_touches_nothing [THEN conjunct1]) simp_all

lemma dev_safe_pass:
  assumes "\<And>i h. safeOf i h = (None, h)"
  shows "safe_pass (map (\<lambda>i. if i = 6 then switch_unit_instrument env i
     else \<lparr>InstrumentBox = boxOf (env_rows env) i, CloseOnCard = None, OpenOnCard = None,
           SafeOp = safeOf i, SafeRelaysOp = None\<rparr>) xs) u = (None, u)"
  using assms by (induction xs) (auto simp: switch_unit_instrument_def)

text \<open>
  The bench rig's simulated mainframe is idle after safing: when the other instruments' safe()
  leaves the mainframe alone and does not throw, safing ends with no relay of the mainframe closed
  and no element counted as used, whatever was closed before.
\<close>

theorem safing_idles_mainframe:
  assumes "unit_simulated 6 (hardware f)" and "mAttached b" and "\<And>i h. safeOf i h = (None, h)"
    and "safeRig (dev_members env safeOf) b (j, f) = (r, j', f')"
  shows "r = None \<and> mSimClosed (hardware f') = [] \<and> (\<forall>el. \<not> fabric_isClosed el f')"
proof -
  have safe: "safe_pass (dev_members env safeOf) u = (None, u)" for u
    unfolding dev_members_def by (rule dev_safe_pass) (rule assms(3))
  have "unit_safeRelays env 6 (hardware f) = (hardware f)\<lparr>mSimClosed := []\<rparr>"
    using simulating_simulated [OF assms(1), of env] by (simp add: unit_safeRelays_def)
  then have "relay_pass (dev_members env safeOf) (hardware f) = (None, (hardware f)\<lparr>mSimClosed := []\<rparr>)"
    by (simp add: dev_members_def upt_11 switch_unit_instrument_def)
  with safe assms(2,4) show ?thesis
    by (auto simp: safeRig_def Let_def fabric_openAll_def fabric_isClosed_def)
qed

theorem safing_idles_mainframe_witness:
  "let f = \<lparr>mUseCount = [\<lparr>device = 0, channel = 101\<rparr> \<mapsto> 1],
            hardware = idle_mainframe\<lparr>mSimClosed := [ChannelAddress 1 101]\<rparr>\<rparr>
   in mSimClosed (hardware (snd (snd (safeRig (dev_members (dev_env (\<lambda>_. Inr ()) silent_transport)
        (\<lambda>_ u. (None, u))) \<lparr>mAttached = True\<rparr> (fresh_journal [] blank_info (\<lambda>_. 0), f))))) = []"
proof -
  let ?f = "\<lparr>mUseCount = [\<lparr>device = 0, channel = 101\<rparr> \<mapsto> 1],
            hardware = idle_mainframe\<lparr>mSimClosed := [ChannelAddress 1 101]\<rparr>\<rparr>"
  have u: "unit_simulated 6 (hardware ?f)" by (simp add: unit_simulated_def idle_mainframe_def)
  let ?s = "safeRig (dev_members (dev_env (\<lambda>_. Inr ()) silent_transport) (\<lambda>_ u. (None, u)))
      \<lparr>mAttached = True\<rparr> (fresh_journal [] blank_info (\<lambda>_. 0), ?f)"
  have "?s = (fst ?s, fst (snd ?s), snd (snd ?s))" by simp
  from safing_idles_mainframe [OF u _ _ this] show ?thesis by simp
qed

end

