(* ===== verification/Runner.thy ===== *)
theory Runner
  imports Safing
begin

text \<open>
  The suite runner, framework/runner/src/main.cpp, with core::Delay (core/src/verbs/delay.cpp).

  Test scripts and hooks are the suite's own code and not the runner's: a script is a parameter, a
  function from the state of the bench to what it does and how it ends. What it can do is post a
  record, act on the bench, wait (core::Delay), and be running when a stop request arrives. How it
  ends is a return, a std::exception or any other exception. Everything the runner does around the
  scripts is written out, exceptions included: each operation returns the exception that leaves it,
  if any, and the world as it is then, with destructors run on the way. The one exception to that is
  an exception that is no std::exception, \<open>UnknownException\<close>: main has no handler for it, so the
  process is terminated, and whether the stack is unwound first is left open by the language. In the
  model no destructor runs on its way; the guards that catch everything themselves, those of the
  teardown hooks, still do.
\<close>

section \<open>The world and the catalog\<close>

datatype exn = StopRequested | StdException string | UnknownException

fun what :: "exn \<Rightarrow> string" where
  "what StopRequested = ''a stop was requested''"
| "what (StdException s) = s"
| "what UnknownException = []"

record 'b World =
  w_journal :: Journal
  w_selection :: Selection
  w_stop :: StopState
  w_bench :: Bench
  w_rig :: 'b
  w_stderr :: "string list"

datatype 'b action =
    Posts JournalRecord
  | Acts "'b \<Rightarrow> 'b"
  | StopArrives StopReason
  | Waits string double string string "StopReason option"

type_synonym ('b, 'a) script = "'b \<Rightarrow> 'b action list \<times> (exn + 'a)"

record 'b TestCase =
  test_id :: string
  test_description :: string
  test_script :: "('b, unit) script"

record 'b Bracket =
  hook :: "('b, bool) script option"
  hook_description :: string

record 'b TestGroup =
  group_name :: string
  group_description :: string
  tests :: "'b TestCase list"
  group_setup :: "'b Bracket"
  group_teardown :: "'b Bracket"

record 'b Catalog =
  Catalog_groups :: "'b TestGroup list"
  Catalog_Setup :: "'b Bracket"
  Catalog_Teardown :: "'b Bracket"

text \<open>Everything the command line can set, in the order of the struct.\<close>

record Options =
  SelectedIds :: "string list"
  ListOnly :: bool
  SafeOnly :: bool
  ShowHelp :: bool
  DescribeOptions :: bool
  DescribeCriteria :: bool
  OptCriteria :: "string option"
  Repeat :: "64 word option"
  UntilFailure :: bool
  StopOnStdin :: bool
  RecordPath :: "string option"
  ReplayPath :: "string option"
  SkeletonPath :: "string option"
  InjectPath :: "string option"
  LogDir :: string
  SarifPath :: "string option"
  RtfPath :: "string option"
  WriteLogs :: bool
  EventsPath :: "string option"
  Colour :: bool
  Quiet :: bool
  OptDutSerial :: string
  OperatorName :: string
  Addresses :: "string list"
  OptSite :: string

definition default_options :: Options where
  "default_options =
     \<lparr>SelectedIds = [], ListOnly = False, SafeOnly = False, ShowHelp = False,
      DescribeOptions = False, DescribeCriteria = False, OptCriteria = None, Repeat = None,
      UntilFailure = False, StopOnStdin = False, RecordPath = None, ReplayPath = None,
      SkeletonPath = None, InjectPath = None, LogDir = ''logs'', SarifPath = None,
      RtfPath = None, WriteLogs = True, EventsPath = None, Colour = True,
      Quiet = False, OptDutSerial = [], OperatorName = [], Addresses = [],
      OptSite = []\<rparr>"

definition w_post :: "JournalRecord \<Rightarrow> 'b World \<Rightarrow> 'b World" where
  "w_post r w = w\<lparr>w_journal := post r (w_journal w)\<rparr>"

definition w_cerr :: "string \<Rightarrow> 'b World \<Rightarrow> 'b World" where
  "w_cerr s w = w\<lparr>w_stderr := w_stderr w @ [s]\<rparr>"

definition w_stopNow :: "'b World \<Rightarrow> bool \<times> 'b World" where
  "w_stopNow w = (case stopNow (w_stop w) of (b, s) \<Rightarrow> (b, w\<lparr>w_stop := s\<rparr>))"

definition run_note :: "string \<Rightarrow> string \<Rightarrow> JournalRecord" where
  "run_note subject detail = blank_record\<lparr>Method := Note, Subject := subject, Detail := detail\<rparr>"

section \<open>What a script does\<close>

definition delay_record :: "string \<Rightarrow> string \<Rightarrow> string \<Rightarrow> double \<Rightarrow> JournalRecord" where
  "delay_record reason detail described len =
     blank_record\<lparr>Method := Delay, Subject := (if reason = [] then ''delay'' else reason),
       Detail := detail, Value := described, Numeric := Some len, Unit := ''s''\<rparr>"

text \<open>
  core::Delay: the wait polls the stop flags until its deadline. It finds a request that was already
  there at once, and one that arrives while it waits at a later poll; \<open>described\<close> and
  \<open>elapsed\<close> are what describeDelay writes for the length and for the time waited.
\<close>

definition run_delay ::
    "string \<Rightarrow> double \<Rightarrow> string \<Rightarrow> string \<Rightarrow> StopReason option \<Rightarrow> 'b World \<Rightarrow> exn option \<times> 'b World" where
  "run_delay reason duration described elapsed arrives w =
     (let len = (if d_lt duration (Fin 0) then Fin 0 else duration)
      in if \<not> mAttached (w_bench w)
         then (None, w_post (delay_record reason ''skipped: no bench attached'' described len) w)
         else
           (let w1 = w_post (delay_record reason ''waiting'' described len) w;
                armed_and_requested = (\<lambda>w. stopArmed (w_stop w) \<and> gStopRequested (w_stop w));
                interrupted = (\<lambda>w. (Some StopRequested,
                  w_post (delay_record reason (''interrupted by a stop request after '' @ elapsed) described len) w));
                w2 = (case arrives of None \<Rightarrow> w1 | Some r \<Rightarrow> w1\<lparr>w_stop := requestStop r (w_stop w1)\<rparr>)
            in if armed_and_requested w1 then interrupted w1
               else if armed_and_requested w2 then interrupted w2
               else (None, w2)))"

fun perform :: "'b action list \<Rightarrow> 'b World \<Rightarrow> exn option \<times> 'b World" where
  "perform [] w = (None, w)"
| "perform (Posts r # acts) w = perform acts (w_post r w)"
| "perform (Acts f # acts) w = perform acts (w\<lparr>w_rig := f (w_rig w)\<rparr>)"
| "perform (StopArrives r # acts) w = perform acts (w\<lparr>w_stop := requestStop r (w_stop w)\<rparr>)"
| "perform (Waits reason duration described elapsed arrives # acts) w =
     (case run_delay reason duration described elapsed arrives w of
        (Some e, w') \<Rightarrow> (Some e, w')
      | (None, w') \<Rightarrow> perform acts w')"

definition run_script :: "('b, 'a) script \<Rightarrow> 'b World \<Rightarrow> (exn + 'a) \<times> 'b World" where
  "run_script script w =
     (case script (w_rig w) of
        (acts, ending) \<Rightarrow>
          (case perform acts w of
             (Some e, w') \<Rightarrow> (Inl e, w')
           | (None, w') \<Rightarrow> (ending, w')))"

section \<open>Selection\<close>

definition isSelected :: "string \<Rightarrow> string list \<Rightarrow> bool" where
  "isSelected el selection \<longleftrightarrow> selection = [] \<or> el \<in> set selection"

definition anySelected :: "'b TestGroup \<Rightarrow> string list \<Rightarrow> bool" where
  "anySelected grp selection \<longleftrightarrow> list_ex (\<lambda>test. isSelected (test_id test) selection) (tests grp)"

definition unmatchedSelection :: "'b Catalog \<Rightarrow> string list \<Rightarrow> string list" where
  "unmatchedSelection cat selection =
     filter (\<lambda>el. \<not> list_ex (\<lambda>grp. list_ex (\<lambda>test. test_id test = el) (tests grp)) (Catalog_groups cat))
       selection"

definition passCount :: "Options \<Rightarrow> 64 word" where
  "passCount options =
     (case Repeat options of
        Some n \<Rightarrow> n
      | None \<Rightarrow> (if UntilFailure options then - 1 else 1))"

definition fileStamp :: "string \<Rightarrow> string" where
  "fileStamp isoUtc =
     map (\<lambda>c. if c = CHR ''T'' then CHR ''-'' else c)
       (takeWhile (\<lambda>c. c \<noteq> CHR ''Z'')
         (filter (\<lambda>c. c \<noteq> CHR '':'' \<and> c \<noteq> CHR ''-'' \<and> c \<noteq> CHR ''.'') isoUtc))"

section \<open>Hooks\<close>

definition kSetupPhase :: string where
  "kSetupPhase = ''setup''"

definition kTeardownPhase :: string where
  "kTeardownPhase = ''teardown''"

definition phase_open :: "string \<Rightarrow> string \<Rightarrow> 'b World \<Rightarrow> 'b World" where
  "phase_open phase title w = w\<lparr>w_journal := beginPhase phase title (w_journal w)\<rparr>"

definition phase_close :: "'b World \<Rightarrow> 'b World" where
  "phase_close w = w\<lparr>w_journal := endPhase (w_journal w)\<rparr>"

definition runHook :: "'b Bracket \<Rightarrow> string \<Rightarrow> 'b World \<Rightarrow> (exn + bool) \<times> 'b World" where
  "runHook bracket phase w =
     (case hook bracket of
        None \<Rightarrow> (Inr True, w)
      | Some h \<Rightarrow>
          (case run_script h (phase_open phase (hook_description bracket) w) of
             (r, w') \<Rightarrow> (r, if r = Inl UnknownException then w' else phase_close w')))"

definition teardown_fail :: "string \<Rightarrow> string \<Rightarrow> 'b World \<Rightarrow> 'b World" where
  "teardown_fail subject text w = w_post (run_note subject text) (w_cerr text w)"

text \<open>~TeardownGuard: what the destructor does to allPassed and the world. Nothing leaves it.\<close>

definition teardownGuard ::
    "'b Bracket \<Rightarrow> string \<Rightarrow> string \<Rightarrow> bool \<times> 'b World \<Rightarrow> bool \<times> 'b World" where
  "teardownGuard bracket label subject s =
     (case hook bracket of
        None \<Rightarrow> s
      | Some h \<Rightarrow>
          (case run_script h (phase_open kTeardownPhase (hook_description bracket) (snd s)) of
             (Inr True, w) \<Rightarrow> (fst s, phase_close w)
           | (Inr False, w) \<Rightarrow>
               (False, phase_close (teardown_fail subject (label @ '' reported failure'') w))
           | (Inl UnknownException, w) \<Rightarrow>
               (False, phase_close (teardown_fail subject (label @ '' threw an unknown exception'') w))
           | (Inl e, w) \<Rightarrow>
               (False, phase_close (teardown_fail subject (label @ '' threw: '' @ what e) w))))"

section \<open>Tests, groups and passes\<close>

text \<open>core::Fail with a reason alone: a failing check whose value is the unchecked placeholder.\<close>

definition fail_record :: "string \<Rightarrow> JournalRecord" where
  "fail_record reason = blank_record\<lparr>Method := Verify, Detail := reason,
     Value := kUncheckedValue, Passed := Some False\<rparr>"

definition w_endTest :: "'b World \<Rightarrow> bool \<times> 'b World" where
  "w_endTest w = (case endTest (w_journal w) of (passed, j) \<Rightarrow> (passed, w\<lparr>w_journal := j\<rparr>))"

definition run_armed :: "('b, unit) script \<Rightarrow> 'b World \<Rightarrow> (exn + unit) \<times> 'b World" where
  "run_armed script w =
     (case run_script script (w\<lparr>w_stop := stop_arm (w_stop w)\<rparr>) of
        (r, w') \<Rightarrow> (r, if r = Inl UnknownException then w'
                       else w'\<lparr>w_stop := stop_disarm (w_stop w')\<rparr>))"

fun runSelectedTests ::
    "'b TestCase list \<Rightarrow> string list \<Rightarrow> bool \<times> 'b World \<Rightarrow> exn option \<times> bool \<times> 'b World" where
  "runSelectedTests [] selection s = (None, s)"
| "runSelectedTests (test # rest) selection (allPassed, w) =
     (if \<not> isSelected (test_id test) selection then runSelectedTests rest selection (allPassed, w)
      else
        (case w_stopNow w of
           (True, w1) \<Rightarrow> (None, allPassed, w1)
         | (False, w1) \<Rightarrow>
             (case run_armed (test_script test)
                     (w1\<lparr>w_journal := beginTest (test_id test) (test_description test) (w_journal w1)\<rparr>) of
                (Inl StopRequested, w2) \<Rightarrow>
                  (let w3 = w_post (fail_record ''stopped by operator before this test finished'') (snd (w_stopNow w2));
                       (passed, w4) = w_endTest w3
                   in (None, allPassed \<and> passed, w4))
              | (Inl e, w2) \<Rightarrow> (Some e, allPassed, w2)
              | (Inr _, w2) \<Rightarrow>
                  (case w_endTest w2 of
                     (passed, w3) \<Rightarrow> runSelectedTests rest selection (allPassed \<and> passed, w3)))))"

definition quoted_name :: "string \<Rightarrow> string" where
  "quoted_name name = [CHR 0x27] @ name @ [CHR 0x27]"

text \<open>The scope of a group's TeardownGuard: the group's setup, and its tests when that allows it.\<close>

definition group_body ::
    "Options \<Rightarrow> 'b TestGroup \<Rightarrow> bool \<times> 'b World \<Rightarrow> exn option \<times> bool \<times> 'b World" where
  "group_body options grp s =
     (case runHook (group_setup grp) kSetupPhase (snd s) of
        (Inl e, w) \<Rightarrow> (Some e, fst s, w)
      | (Inr setupPassed, w) \<Rightarrow>
          (if \<not> setupPassed \<and> SkeletonPath options = None
           then
             (let text = ''SETUP for group '' @ quoted_name (group_name grp)
                         @ '' reported failure; no test in it was run''
              in (None, False, w_post (run_note ''group'' text) (w_cerr (text @ ''.'') w)))
           else runSelectedTests (tests grp) (SelectedIds options) (fst s \<and> setupPassed, w)))"

fun run_groups ::
    "Options \<Rightarrow> 'b TestGroup list \<Rightarrow> bool \<times> 'b World \<Rightarrow> exn option \<times> bool \<times> 'b World" where
  "run_groups options [] s = (None, s)"
| "run_groups options (grp # rest) (allPassed, w) =
     (if \<not> anySelected grp (SelectedIds options) then run_groups options rest (allPassed, w)
      else
        (case w_stopNow w of
           (True, w1) \<Rightarrow> (None, allPassed, w1)
         | (False, w1) \<Rightarrow>
             (case group_body options grp (allPassed,
                     w1\<lparr>w_journal := beginGroup (group_name grp) (group_description grp) (w_journal w1)\<rparr>) of
                (e, s) \<Rightarrow>
                  if e = Some UnknownException then (e, s)
                  else
                  (let (ok, w2) = teardownGuard (group_teardown grp)
                         (''TEARDOWN for group '' @ quoted_name (group_name grp)) ''group'' s
                   in case e of
                        Some x \<Rightarrow> (Some x, ok, w2)
                      | None \<Rightarrow> run_groups options rest (ok, w2\<lparr>w_journal := endGroup (w_journal w2)\<rparr>)))))"

definition runOnePass :: "'b Catalog \<Rightarrow> Options \<Rightarrow> 'b World \<Rightarrow> (exn + bool) \<times> 'b World" where
  "runOnePass cat options w =
     (case run_groups options (Catalog_groups cat) (True, w) of
        (Some e, _, w') \<Rightarrow> (Inl e, w')
      | (None, allPassed, w') \<Rightarrow> (Inr allPassed, w'))"

text \<open>The loop of runPasses: how many passes are left, and the index of the next one.\<close>

fun passes_from ::
    "'b Catalog \<Rightarrow> Options \<Rightarrow> nat \<Rightarrow> nat \<Rightarrow> bool \<times> 'b World \<Rightarrow> exn option \<times> bool \<times> 'b World" where
  "passes_from cat options 0 pass s = (None, s)"
| "passes_from cat options (Suc left) pass (allPassed, w) =
     (case w_stopNow w of
        (True, w1) \<Rightarrow> (None, allPassed, w1)
      | (False, w1) \<Rightarrow>
          (let passes = passCount options;
               w2 = (if passes > 1
                     then w_post (run_note ''run'' (if Repeat options \<noteq> None
                            then ''pass '' @ show_nat (pass + 1) @ '' of '' @ show_nat (unat passes)
                            else ''pass '' @ show_nat (pass + 1))) w1
                     else w1)
           in case runOnePass cat options w2 of
                (Inl e, w3) \<Rightarrow> (Some e, allPassed, w3)
              | (Inr passed, w3) \<Rightarrow>
                  (if \<not> passed \<and> UntilFailure options
                   then (None, False,
                         w_post (run_note ''run'' (''stopped after failing pass '' @ show_nat (pass + 1) @ '' (--until-failure)''))
                           (w_cerr (''Stopping after failing pass '' @ show_nat (pass + 1) @ '' (--until-failure).'') w3))
                   else passes_from cat options left (pass + 1) (allPassed \<and> passed, w3))))"

definition stop_verdict :: "Options \<Rightarrow> bool \<times> 'b World \<Rightarrow> bool \<times> 'b World" where
  "stop_verdict options s =
     (if gStopHonoured (w_stop (snd s))
      then
        (let text = (if gStopReason (w_stop (snd s)) = ConsoleGone
                     then ''stopped: the console that started this run went away''
                     else ''stopped by operator'');
             w = (if \<not> StopOnStdin options then w_cerr (text @ ''.'') (snd s) else snd s)
         in (False, w_post (run_note ''run'' text) w))
      else s)"

definition runPasses ::
    "'b Catalog \<Rightarrow> Options \<Rightarrow> bool \<times> 'b World \<Rightarrow> exn option \<times> bool \<times> 'b World" where
  "runPasses cat options s =
     (case passes_from cat options (unat (passCount options)) 0 s of
        (Some e, s') \<Rightarrow> (Some e, s')
      | (None, s') \<Rightarrow> (None, stop_verdict options s'))"

definition run_body :: "'b Catalog \<Rightarrow> Options \<Rightarrow> bool \<times> 'b World \<Rightarrow> exn option \<times> bool \<times> 'b World" where
  "run_body cat options s =
     (case runHook (Catalog_Setup cat) kSetupPhase (snd s) of
        (Inl e, w) \<Rightarrow> (Some e, fst s, w)
      | (Inr setupPassed, w) \<Rightarrow>
          (if \<not> setupPassed \<and> SkeletonPath options = None
           then (None, False, w_post (run_note ''run'' ''RUN_SETUP reported failure; no test was run'')
                  (w_cerr ''RUN_SETUP reported failure; no test was run.'' w))
           else runPasses cat options (setupPassed \<and> fst s, w)))"

definition unmatched_message :: "string list \<Rightarrow> string" where
  "unmatched_message unmatched = ''No catalog test named'' @ concat (map (\<lambda>el. '' '' @ quoted_name el) unmatched)
     @ '' -- nothing ran. Use --list-tests for the ids this suite has.''"

definition runTests :: "'b Catalog \<Rightarrow> Options \<Rightarrow> 'b World \<Rightarrow> (exn + bool) \<times> 'b World" where
  "runTests cat options w =
     (let unmatched = unmatchedSelection cat (SelectedIds options)
      in if unmatched \<noteq> [] then (Inr False, w_cerr (unmatched_message unmatched) w)
         else
           (case run_body cat options (True, w) of
              (e, s) \<Rightarrow>
                if e = Some UnknownException then (Inl UnknownException, snd s)
                else
                (case teardownGuard (Catalog_Teardown cat) ''RUN_TEARDOWN'' ''run'' s of
                   (allPassed, w') \<Rightarrow> ((case e of Some x \<Rightarrow> Inl x | None \<Rightarrow> Inr allPassed), w'))))"

section \<open>The run inside main\<close>

text \<open>
  From journal().begin() to journal().end(): the run under its safing guard, the handler for what
  a script threw, the reading stream closed, and the verdict handed to the sinks. An exception that
  is not a std::exception is not caught, and one that leaves the guard's destructor cannot be; both end
  the process (\<open>None\<close>). \<open>stream_ok\<close> says whether everything
  written to the recording reached its file.
\<close>

definition run_guarded ::
    "('h, 'e) RigInstrument list \<Rightarrow> 'h SwitchFabric Catalog \<Rightarrow> Options \<Rightarrow> 'h SwitchFabric World
       \<Rightarrow> bool option \<times> 'h SwitchFabric World" where
  "run_guarded members cat options w =
     (let (r, w1) = runTests cat options w;
          (verdict, w2) =
            (case r of
               Inr passed \<Rightarrow> (Some passed, w1)
             | Inl UnknownException \<Rightarrow> (None, w1)
             | Inl e \<Rightarrow>
                 (Some False, w_post (run_note ''run'' (''uncaught exception during test run: '' @ what e))
                    (w_cerr (''Uncaught exception during test run: '' @ what e) w1)))
      in case verdict of
           None \<Rightarrow> (None, w2)
         | Some passed \<Rightarrow>
             (case safeRig members (w_bench w2) (w_journal w2, w_rig w2) of
                (e, j, f) \<Rightarrow>
                  (if e = None then Some passed else None, w2\<lparr>w_journal := j, w_rig := f\<rparr>)))"

definition closeReadingStream :: "bool \<Rightarrow> string \<Rightarrow> 'b World \<Rightarrow> bool \<times> 'b World" where
  "closeReadingStream stream_ok path w =
     (if stream_ok then (True, w)
      else (False, w_post (run_note ''run'' (''could not write the recording to '' @ path))
                     (w_cerr (''Could not write the recording to '' @ path) w)))"

definition streamPath :: "Options \<Rightarrow> string option" where
  "streamPath options = (if RecordPath options \<noteq> None then RecordPath options else SkeletonPath options)"

definition finish_stream :: "Options \<Rightarrow> bool \<Rightarrow> 'b World \<Rightarrow> bool \<times> 'b World" where
  "finish_stream options stream_ok w =
     (case streamPath options of None \<Rightarrow> (True, w) | Some path \<Rightarrow> closeReadingStream stream_ok path w)"

definition exit_code :: "Options \<Rightarrow> bool \<Rightarrow> bool \<Rightarrow> int" where
  "exit_code options stream_ok allPassed =
     (if SkeletonPath options \<noteq> None then if stream_ok then 0 else 1
      else if allPassed then 0 else 1)"

definition run_suite ::
    "('h, 'e) RigInstrument list \<Rightarrow> 'h SwitchFabric Catalog \<Rightarrow> Options \<Rightarrow> RunInfo \<Rightarrow> bool
       \<Rightarrow> 'h SwitchFabric World \<Rightarrow> int option \<times> 'h SwitchFabric World" where
  "run_suite members cat options runInfo stream_ok w =
     (let (sel, j) = journal_begin runInfo (w_selection w, w_journal w)
      in case run_guarded members cat options (w\<lparr>w_selection := sel, w_journal := j\<rparr>) of
           (None, w1) \<Rightarrow> (None, w1)
         | (Some passed, w1) \<Rightarrow>
             (let (closed, w2) = finish_stream options stream_ok w1;
                  allPassed = (passed \<and> closed)
              in (Some (exit_code options stream_ok allPassed),
                  w2\<lparr>w_journal := journal_end allPassed (w_journal w2)\<rparr>)))"

end
