(* ===== verification/RunnerFacts.thy ===== *)
theory RunnerFacts
  imports Runner
begin

text \<open>
  What holds of every run of the suite runner (theory Runner), whatever the catalog, the scripts and
  the hooks are. The locale collects what an invariant of the world has to survive; it is
  interpreted on the readability of the log, on the switches a run may not touch, and on the
  stop request never being forgotten.
\<close>

section \<open>Invariants of the world\<close>

locale world_invariant =
  fixes I :: "'b World \<Rightarrow> bool"
  assumes op: "I w \<Longrightarrow> I (w\<lparr>w_journal := run_op jop (w_journal w)\<rparr>)"
    and rig: "I w \<Longrightarrow> I (w\<lparr>w_rig := b\<rparr>)"
    and cerr: "I w \<Longrightarrow> I (w\<lparr>w_stderr := s\<rparr>)"
    and request: "I w \<Longrightarrow> I (w\<lparr>w_stop := requestStop r (w_stop w)\<rparr>)"
    and stop_now: "I w \<Longrightarrow> I (w\<lparr>w_stop := snd (stopNow (w_stop w))\<rparr>)"
    and arm: "I w \<Longrightarrow> I (w\<lparr>w_stop := stop_arm (w_stop w)\<rparr>)"
    and disarm: "I w \<Longrightarrow> I (w\<lparr>w_stop := stop_disarm (w_stop w)\<rparr>)"
begin

lemma post_inv: "I w \<Longrightarrow> I (w_post r w)"
  using op [of w "PostRecord r"] by (simp add: w_post_def)

lemma cerr_inv: "I w \<Longrightarrow> I (w_cerr s w)"
  by (simp add: w_cerr_def cerr)

lemma journal_inv:
  "I w \<Longrightarrow> I (w\<lparr>w_journal := beginTest t d (w_journal w)\<rparr>)"
  "I w \<Longrightarrow> I (w\<lparr>w_journal := beginGroup t d (w_journal w)\<rparr>)"
  "I w \<Longrightarrow> I (w\<lparr>w_journal := endGroup (w_journal w)\<rparr>)"
  "I w \<Longrightarrow> I (phase_open t d w)" "I w \<Longrightarrow> I (phase_close w)"
  using op [of w "BeginTest t d"] op [of w "BeginGroup t d"] op [of w EndGroup]
    op [of w "BeginPhase t d"] op [of w EndPhase]
  by (simp_all add: phase_open_def phase_close_def)

lemma endTest_inv: "I w \<Longrightarrow> w_endTest w = (p, w') \<Longrightarrow> I w'"
  using op [of w EndTest] by (auto simp: w_endTest_def split: prod.splits)

lemma stopNow_inv: "I w \<Longrightarrow> w_stopNow w = (b, w') \<Longrightarrow> I w'"
  using stop_now [of w] by (auto simp: w_stopNow_def split: prod.splits)

lemma delay_inv: "I w \<Longrightarrow> run_delay reason len t el arrives w = (e, w') \<Longrightarrow> I w'"
  by (auto simp: run_delay_def Let_def intro!: post_inv request split: if_splits option.splits)

lemma perform_inv: "I w \<Longrightarrow> perform acts w = (e, w') \<Longrightarrow> I w'"
proof (induction acts arbitrary: w)
  case Nil
  then show ?case by simp
next
  case (Cons a acts)
  then show ?case
    by (cases a) (auto intro: post_inv rig request delay_inv split: prod.splits option.splits)
qed

lemma script_inv: "I w \<Longrightarrow> run_script script w = (r, w') \<Longrightarrow> I w'"
  by (auto simp: run_script_def split: prod.splits option.splits dest: perform_inv)

lemma armed_inv: "I w \<Longrightarrow> run_armed script w = (r, w') \<Longrightarrow> I w'"
proof -
  assume w: "I w" and a: "run_armed script w = (r, w')"
  obtain x v where v: "run_script script (w\<lparr>w_stop := stop_arm (w_stop w)\<rparr>) = (x, v)" by force
  have "I v" by (rule script_inv [OF arm [OF w] v])
  with a v show ?thesis by (auto simp: run_armed_def disarm)
qed

lemma hook_inv: "I w \<Longrightarrow> runHook bracket phase w = (r, w') \<Longrightarrow> I w'"
proof (cases "hook bracket")
  case None
  then show "I w \<Longrightarrow> runHook bracket phase w = (r, w') \<Longrightarrow> I w'" by (simp add: runHook_def)
next
  case (Some h)
  assume w: "I w" and a: "runHook bracket phase w = (r, w')"
  obtain x v where v: "run_script h (phase_open phase (hook_description bracket) w) = (x, v)" by force
  have "I v" by (rule script_inv [OF journal_inv(4) [OF w] v])
  with Some a v show ?thesis by (auto simp: runHook_def journal_inv(5))
qed

lemma teardown_inv: "I (snd s) \<Longrightarrow> teardownGuard bracket label subject s = s' \<Longrightarrow> I (snd s')"
proof (cases "hook bracket")
  case None
  then show "I (snd s) \<Longrightarrow> teardownGuard bracket label subject s = s' \<Longrightarrow> I (snd s')"
    by (simp add: teardownGuard_def)
next
  case (Some h)
  assume s: "I (snd s)" and t: "teardownGuard bracket label subject s = s'"
  obtain r w where r: "run_script h (phase_open kTeardownPhase (hook_description bracket) (snd s)) = (r, w)"
    by force
  have w: "I w" by (rule script_inv [OF journal_inv(4) [OF s] r])
  have "snd s' = phase_close w \<or> (\<exists>text. snd s' = phase_close (teardown_fail subject text w))"
    using t r Some by (auto simp: teardownGuard_def split: sum.splits bool.splits exn.splits)
  then show ?thesis
    using w by (auto simp: teardown_fail_def intro!: journal_inv(5) post_inv cerr_inv)
qed

lemma tests_inv: "I w \<Longrightarrow> runSelectedTests ts sel (ap, w) = (e, ap', w') \<Longrightarrow> I w'"
proof (induction ts arbitrary: ap w)
  case Nil
  then show ?case by simp
next
  case (Cons test rest)
  show ?case
  proof (cases "isSelected (test_id test) sel")
    case False
    with Cons show ?thesis by auto
  next
    case True
    obtain b w1 where s: "w_stopNow w = (b, w1)" by force
    have I1: "I w1" by (rule stopNow_inv [OF Cons.prems(1) s])
    let ?w = "w1\<lparr>w_journal := beginTest (test_id test) (test_description test) (w_journal w1)\<rparr>"
    obtain r w2 where a: "run_armed (test_script test) ?w = (r, w2)" by force
    have I2: "I w2" by (rule armed_inv [OF journal_inv(1) [OF I1] a])
    obtain p3 w3 where e3: "w_endTest w2 = (p3, w3)" by force
    have I3: "I w3" by (rule endTest_inv [OF I2 e3])
    obtain c w4 where s4: "w_stopNow w2 = (c, w4)" by force
    have I4: "I w4" by (rule stopNow_inv [OF I2 s4])
    obtain p5 w5 where e5:
      "w_endTest (w_post (fail_record ''stopped by operator before this test finished'') w4) = (p5, w5)"
      by force
    have I5: "I w5" by (rule endTest_inv [OF post_inv [OF I4] e5])
    show ?thesis
    proof (cases b)
      case True
      with s I1 Cons.prems \<open>isSelected _ _\<close> show ?thesis by simp
    next
      case False
      show ?thesis
      proof (cases r)
        case (Inl x)
        with False s a I2 s4 e5 I5 Cons.prems \<open>isSelected _ _\<close> show ?thesis
          by (cases x) (simp_all add: Let_def)
      next
        case (Inr u)
        with False s a e3 I3 Cons \<open>isSelected _ _\<close> show ?thesis by simp
      qed
    qed
  qed
qed

lemma body_inv: "I (snd s) \<Longrightarrow> group_body options grp s = (e, ap', w') \<Longrightarrow> I w'"
  by (auto simp: group_body_def Let_def split: prod.splits sum.splits if_splits
      intro!: post_inv cerr_inv dest: hook_inv tests_inv)

lemma groups_inv: "I w \<Longrightarrow> run_groups options gs (ap, w) = (e, ap', w') \<Longrightarrow> I w'"
proof (induction gs arbitrary: ap w)
  case Nil
  then show ?case by simp
next
  case (Cons grp rest)
  show ?case
  proof (cases "anySelected grp (SelectedIds options)")
    case False
    with Cons show ?thesis by auto
  next
    case True
    obtain b w1 where s: "w_stopNow w = (b, w1)" by force
    have I1: "I w1" by (rule stopNow_inv [OF Cons.prems(1) s])
    let ?w = "w1\<lparr>w_journal := beginGroup (group_name grp) (group_description grp) (w_journal w1)\<rparr>"
    obtain x p v where g: "group_body options grp (ap, ?w) = (x, p, v)" by (metis prod_cases3)
    have "I v" by (rule body_inv [OF _ g]) (simp add: journal_inv I1)
    obtain ok w2 where t: "teardownGuard (group_teardown grp)
        (''TEARDOWN for group '' @ quoted_name (group_name grp)) ''group'' (p, v) = (ok, w2)" by force
    have It: "I w2" using teardown_inv [OF _ t] \<open>I v\<close> by simp
    show ?thesis
      using Cons True s I1 g t It journal_inv(3) [OF It] \<open>I v\<close>
      by (cases b; cases x) (auto split: if_splits)
  qed
qed

lemma pass_inv: "I w \<Longrightarrow> runOnePass cat options w = (r, w') \<Longrightarrow> I w'"
  by (auto simp: runOnePass_def split: prod.splits option.splits dest: groups_inv)

lemma passes_inv: "I w \<Longrightarrow> passes_from cat options left pass (ap, w) = (e, ap', w') \<Longrightarrow> I w'"
proof (induction left arbitrary: pass ap w)
  case 0
  then show ?case by simp
next
  case (Suc left)
  obtain b w1 where s: "w_stopNow w = (b, w1)" by force
  have I1: "I w1" by (rule stopNow_inv [OF Suc.prems(1) s])
  define w2 where "w2 = (if passCount options > 1
      then w_post (run_note ''run'' (if Repeat options \<noteq> None
             then ''pass '' @ show_nat (pass + 1) @ '' of '' @ show_nat (unat (passCount options))
             else ''pass '' @ show_nat (pass + 1))) w1
      else w1)"
  have I2: "I w2" using I1 by (simp add: w2_def post_inv)
  obtain r w3 where p: "runOnePass cat options w2 = (r, w3)" by force
  have I3: "I w3" by (rule pass_inv [OF I2 p])
  show ?case
    using Suc s I1 p [unfolded w2_def] I3 post_inv [OF cerr_inv [OF I3]]
    by (cases b; cases r) (auto simp: Let_def split: if_splits)
qed

lemma stop_verdict_inv: "I (snd s) \<Longrightarrow> I (snd (stop_verdict options s))"
  by (auto simp: stop_verdict_def Let_def intro!: post_inv cerr_inv)

lemma run_body_inv: "I w \<Longrightarrow> run_body cat options (ap, w) = (e, s') \<Longrightarrow> I (snd s')"
proof -
  assume "I w" and b: "run_body cat options (ap, w) = (e, s')"
  obtain r w1 where h: "runHook (Catalog_Setup cat) kSetupPhase w = (r, w1)" by force
  have I1: "I w1" by (rule hook_inv [OF \<open>I w\<close> h])
  have "I (snd (snd (runPasses cat options (p, w1))))" for p
  proof -
    obtain x q v where x: "passes_from cat options (unat (passCount options)) 0 (p, w1) = (x, q, v)"
      by (metis prod_cases3)
    have "I v" by (rule passes_inv [OF I1 x])
    with x show ?thesis
      using stop_verdict_inv [of "(q, v)"] by (cases x) (auto simp: runPasses_def)
  qed
  note inner = this
  show ?thesis
  proof (cases r)
    case (Inl x)
    with b h I1 show ?thesis by (auto simp: run_body_def)
  next
    case (Inr ok)
    with b h I1 inner [of "ok \<and> ap"] post_inv [OF cerr_inv [OF I1]] show ?thesis
      by (auto simp: run_body_def split: if_splits)
  qed
qed

lemma runTests_inv: "I w \<Longrightarrow> runTests cat options w = (r, w') \<Longrightarrow> I w'"
proof -
  assume w: "I w" and t: "runTests cat options w = (r, w')"
  obtain e s where b: "run_body cat options (True, w) = (e, s)"
    by (cases "run_body cat options (True, w)")
  have s: "I (snd s)" by (rule run_body_inv [OF w b])
  then have "I (snd (teardownGuard (Catalog_Teardown cat) ''RUN_TEARDOWN'' ''run'' s))"
    by (rule teardown_inv) simp
  with s t b cerr_inv [OF w] show ?thesis
    by (auto simp: runTests_def Let_def split: if_splits prod.splits)
qed

end

section \<open>What the sinks are told\<close>

definition calls :: "'b World \<Rightarrow> SinkCall list" where
  "calls w = map snd (told (w_journal w))"

definition trace_of :: "(SinkCall \<Rightarrow> 'x list) \<Rightarrow> 'b World \<Rightarrow> 'x list" where
  "trace_of f w = concat (map f (calls w))"

fun verdict_of :: "SinkCall \<Rightarrow> (string \<times> string \<times> bool) list" where
  "verdict_of (OnTestEnd g t passed) = [(g, t, passed)]"
| "verdict_of _ = []"

fun opening_of :: "SinkCall \<Rightarrow> string list" where
  "opening_of (OnGroupStart g d) = [g]"
| "opening_of _ = []"

fun teardown_of :: "SinkCall \<Rightarrow> string list" where
  "teardown_of (OnPhaseStart g p t) = (if p = kTeardownPhase then [g] else [])"
| "teardown_of _ = []"

text \<open>
  What a script may change: it adds events, and it moves the bench, the stop flags and nothing of what
  the runner keeps.
\<close>

definition script_step :: "'b World \<Rightarrow> 'b World \<Rightarrow> bool" where
  "script_step w w' \<longleftrightarrow>
     (\<exists>es. calls w' = calls w @ map OnEvent es) \<and>
     mGroup (w_journal w') = mGroup (w_journal w) \<and> mTest (w_journal w') = mTest (w_journal w) \<and>
     mPhase (w_journal w') = mPhase (w_journal w) \<and>
     mTestOpen (w_journal w') = mTestOpen (w_journal w) \<and>
     gStopHonoured (w_stop w') = gStopHonoured (w_stop w)"

lemma script_step_refl [simp, intro]: "script_step w w"
  by (auto simp: script_step_def intro: exI [of _ "[]"])

lemma script_step_trans: "script_step u v \<Longrightarrow> script_step v w \<Longrightarrow> script_step u w"
  unfolding script_step_def by (metis append.assoc map_append)

lemma script_step_same:
  "w_journal w' = w_journal w \<Longrightarrow> gStopHonoured (w_stop w') = gStopHonoured (w_stop w) \<Longrightarrow> script_step w w'"
  by (auto simp: script_step_def calls_def intro: exI [of _ "[]"])

lemma script_step_post: "script_step w (w_post r w)"
  by (auto simp: script_step_def calls_def w_post_def intro: exI [of _ "[posted_event r (w_journal w)]"])

lemma script_step_request: "script_step w (w\<lparr>w_stop := requestStop r (w_stop w)\<rparr>)"
  by (rule script_step_same) simp_all

lemma script_step_delay: "run_delay reason len t el arrives w = (e, w') \<Longrightarrow> script_step w w'"
  by (auto simp: run_delay_def Let_def split: if_splits option.splits
      intro: script_step_post script_step_trans [OF script_step_post]
        script_step_trans [OF script_step_post script_step_post]
        script_step_trans [OF script_step_post script_step_request]
        script_step_trans [OF script_step_post script_step_trans [OF script_step_request script_step_post]])

lemma script_step_perform: "perform acts w = (e, w') \<Longrightarrow> script_step w w'"
proof (induction acts arbitrary: w)
  case Nil
  then show ?case by simp
next
  case (Cons a acts)
  show ?case
  proof (cases a)
    case (Posts r)
    with Cons show ?thesis by (auto intro: script_step_trans [OF script_step_post])
  next
    case (Acts f)
    have "script_step w (w\<lparr>w_rig := f (w_rig w)\<rparr>)" by (rule script_step_same) simp_all
    with Cons Acts show ?thesis by (auto intro: script_step_trans)
  next
    case (StopArrives r)
    with Cons show ?thesis by (auto intro: script_step_trans [OF script_step_request])
  next
    case (Waits reason len t el arrives)
    obtain x v where v: "run_delay reason len t el arrives w = (x, v)" by force
    note d = script_step_delay [OF v]
    show ?thesis
      using Cons.prems Waits v d Cons.IH [of v] by (cases x) (auto intro: script_step_trans)
  qed
qed

lemma script_step_script: "run_script script w = (r, w') \<Longrightarrow> script_step w w'"
  by (auto simp: run_script_def split: prod.splits option.splits dest: script_step_perform)

lemma script_step_armed: "run_armed script w = (r, w') \<Longrightarrow> script_step w w'"
proof -
  assume a: "run_armed script w = (r, w')"
  let ?w = "w\<lparr>w_stop := stop_arm (w_stop w)\<rparr>"
  obtain x v where v: "run_script script ?w = (x, v)" by force
  have "w' = v \<or> w' = v\<lparr>w_stop := stop_disarm (w_stop v)\<rparr>" using a v by (auto simp: run_armed_def)
  moreover have "script_step w ?w" by (rule script_step_same) simp_all
  moreover have "script_step v (v\<lparr>w_stop := stop_disarm (w_stop v)\<rparr>)" by (rule script_step_same) simp_all
  ultimately show ?thesis using script_step_script [OF v] script_step_trans by metis
qed

lemma script_step_trace:
  "script_step w w' \<Longrightarrow> (\<And>e. f (OnEvent e) = []) \<Longrightarrow> trace_of f w' = trace_of f w"
  by (auto simp: script_step_def trace_of_def comp_def)

text \<open>A hook: its phase opens, its events follow, the phase closes.\<close>

definition hook_step :: "string \<Rightarrow> string \<Rightarrow> 'b World \<Rightarrow> 'b World \<Rightarrow> bool" where
  "hook_step phase title w w' \<longleftrightarrow>
     (\<exists>es. calls w' = calls w @ OnPhaseStart (mGroup (w_journal w)) phase title # map OnEvent es @ [OnPhaseEnd phase]) \<and>
     mGroup (w_journal w') = mGroup (w_journal w) \<and> mTest (w_journal w') = mTest (w_journal w) \<and>
     mTestOpen (w_journal w') = mTestOpen (w_journal w) \<and>
     gStopHonoured (w_stop w') = gStopHonoured (w_stop w)"

lemma hook_stepI:
  assumes "script_step (phase_open phase title w) v" and "script_step v v'"
  shows "hook_step phase title w (phase_close v')"
  using script_step_trans [OF assms]
  by (auto simp: script_step_def hook_step_def phase_open_def phase_close_def beginPhase_def endPhase_def
      calls_def)

lemma runHook_step:
  "runHook bracket phase w = (r, w') \<Longrightarrow>
     (hook bracket = None \<and> r = Inr True \<and> w' = w) \<or>
     (hook bracket \<noteq> None \<and> r \<noteq> Inl UnknownException \<and> hook_step phase (hook_description bracket) w w') \<or>
     (r = Inl UnknownException \<and> script_step (phase_open phase (hook_description bracket) w) w')"
proof (cases "hook bracket")
  case (Some h)
  assume a: "runHook bracket phase w = (r, w')"
  obtain x v where v: "run_script h (phase_open phase (hook_description bracket) w) = (x, v)" by force
  from hook_stepI [OF script_step_script [OF v] script_step_refl] script_step_script [OF v] Some a v
  show ?thesis by (auto simp: runHook_def split: if_splits)
qed (auto simp: runHook_def)

lemma teardown_fail_step: "script_step w (teardown_fail subject text w)"
proof -
  have "script_step w (w_cerr text w)" by (rule script_step_same) (simp_all add: w_cerr_def)
  then show ?thesis unfolding teardown_fail_def by (rule script_step_trans [OF _ script_step_post])
qed

lemma teardownGuard_step:
  "teardownGuard bracket label subject (ap, w) = (ap', w') \<Longrightarrow>
     (hook bracket = None \<and> ap' = ap \<and> w' = w) \<or>
     (hook bracket \<noteq> None \<and> (ap' \<longrightarrow> ap) \<and> hook_step kTeardownPhase (hook_description bracket) w w')"
proof (cases "hook bracket")
  case (Some h)
  assume a: "teardownGuard bracket label subject (ap, w) = (ap', w')"
  obtain x v where v: "run_script h (phase_open kTeardownPhase (hook_description bracket) w) = (x, v)" by force
  have "\<exists>v'. script_step v v' \<and> w' = phase_close v' \<and> (ap' \<longrightarrow> ap)"
    using a v Some
    by (auto simp: teardownGuard_def split: sum.splits bool.splits exn.splits
        intro: exI [of _ v] teardown_fail_step)
  with hook_stepI [OF script_step_script [OF v]] Some show ?thesis by blast
qed (auto simp: teardownGuard_def)

lemma hook_step_trace:
  "hook_step phase title w w' \<Longrightarrow> (\<And>e. f (OnEvent e) = []) \<Longrightarrow> f (OnPhaseEnd phase) = [] \<Longrightarrow>
   trace_of f w' = trace_of f w @ f (OnPhaseStart (mGroup (w_journal w)) phase title)"
  by (auto simp: hook_step_def trace_of_def comp_def)

lemma hook_step_frame:
  "hook_step phase title w w' \<Longrightarrow> mGroup (w_journal w') = mGroup (w_journal w) \<and>
     gStopHonoured (w_stop w') = gStopHonoured (w_stop w)"
  by (simp add: hook_step_def)

lemma w_stopNow_facts:
  assumes "w_stopNow w = (b, w')"
  shows "w_journal w' = w_journal w" and "calls w' = calls w" and "trace_of f w' = trace_of f w"
    and "gStopHonoured (w_stop w') \<longleftrightarrow> gStopHonoured (w_stop w) \<or> b"
  using assms by (auto simp: w_stopNow_def stopNow_def calls_def trace_of_def split: if_splits)

lemma endTest_calls:
  "w_endTest w = (passed, w') \<Longrightarrow>
     \<exists>es. calls w' = calls w @ map OnEvent es @ [OnTestEnd (mGroup (w_journal w)) (mTest (w_journal w)) passed]"
proof -
  assume "w_endTest w = (passed, w')"
  then have p: "passed = fst (endTest (w_journal w))" and w': "w_journal w' = snd (endTest (w_journal w))"
    by (auto simp: w_endTest_def split: prod.splits)
  show ?thesis
    using endTest_told [of "w_journal w"]
    by (cases "mTestOpen (w_journal w) \<and> mTestChecks (w_journal w) = 0")
       (auto simp: calls_def w' p intro: exI [of _ "[]"] exI [of _ "[posted_event no_check_record (w_journal w)]"])
qed

lemma endTest_frame:
  "w_endTest w = (passed, w') \<Longrightarrow> mGroup (w_journal w') = mGroup (w_journal w) \<and> w_stop w' = w_stop w"
  by (auto simp: w_endTest_def split: prod.splits) (metis endTest_simps(3) snd_conv)

lemma endTest_trace:
  "w_endTest w = (passed, w') \<Longrightarrow> (\<And>e. f (OnEvent e) = []) \<Longrightarrow>
   trace_of f w' = trace_of f w @ f (OnTestEnd (mGroup (w_journal w)) (mTest (w_journal w)) passed)"
  by (drule endTest_calls) (auto simp: trace_of_def comp_def)

section \<open>One group's tests\<close>

definition group_verdicts :: "string list \<Rightarrow> string \<Rightarrow> 'b TestCase list \<Rightarrow> (string \<times> string \<times> bool) list" where
  "group_verdicts selection g ts =
     map (\<lambda>t. (g, test_id t, True)) (filter (\<lambda>t. isSelected (test_id t) selection) ts)"

text \<open>
  The trace of a run over tests: f sees no events, and hooks are not part of it. \<open>complete\<close> says
  what a passing, unstopped walk over the tests has told the sinks.
\<close>

definition unfinished :: "exn option \<times> bool \<times> 'b World \<Rightarrow> bool" where
  "unfinished r \<longleftrightarrow> fst r \<noteq> None \<or> \<not> fst (snd r) \<or> gStopHonoured (w_stop (snd (snd r)))"

lemma armed_test_step:
  assumes "run_armed script (w\<lparr>w_journal := beginTest t d (w_journal w)\<rparr>) = (r, w')"
  shows "mGroup (w_journal w') = mGroup (w_journal w)" and "mTest (w_journal w') = t" and "mTestOpen (w_journal w')"
    and "gStopHonoured (w_stop w') = gStopHonoured (w_stop w)"
    and "trace_of opening_of w' = trace_of opening_of w" and "trace_of teardown_of w' = trace_of teardown_of w"
    and "trace_of verdict_of w' = trace_of verdict_of w"
proof -
  let ?w = "w\<lparr>w_journal := beginTest t d (w_journal w)\<rparr>"
  note s = script_step_armed [OF assms]
  show "mGroup (w_journal w') = mGroup (w_journal w)" "mTest (w_journal w') = t" "mTestOpen (w_journal w')"
    "gStopHonoured (w_stop w') = gStopHonoured (w_stop w)"
    using s by (simp_all add: script_step_def beginTest_def)
  have start: "trace_of f ?w = trace_of f w @ f (OnTestStart t d)" for f :: "SinkCall \<Rightarrow> 'x list"
    by (simp add: trace_of_def calls_def beginTest_def)
  show "trace_of opening_of w' = trace_of opening_of w" "trace_of teardown_of w' = trace_of teardown_of w"
    "trace_of verdict_of w' = trace_of verdict_of w"
    using script_step_trace [OF s, of opening_of] script_step_trace [OF s, of teardown_of]
      script_step_trace [OF s, of verdict_of] by (simp_all add: start)
qed

lemma endTest_traces:
  assumes "w_endTest w = (passed, w')"
  shows "trace_of opening_of w' = trace_of opening_of w" and "trace_of teardown_of w' = trace_of teardown_of w"
    and "trace_of verdict_of w' = trace_of verdict_of w @ [(mGroup (w_journal w), mTest (w_journal w), passed)]"
    and "mGroup (w_journal w') = mGroup (w_journal w)" and "w_stop w' = w_stop w"
  using endTest_trace [OF assms, of opening_of] endTest_trace [OF assms, of teardown_of]
    endTest_trace [OF assms, of verdict_of] endTest_frame [OF assms] by simp_all

text \<open>The test a stop request cut short: a failing check, a failing verdict.\<close>

lemma stopped_test_step:
  assumes "w_endTest (w_post (fail_record reason) (snd (w_stopNow w))) = (passed, w')" and "mTestOpen (w_journal w)"
  shows "\<not> passed" and "mGroup (w_journal w') = mGroup (w_journal w)"
    and "gStopHonoured (w_stop w) \<Longrightarrow> gStopHonoured (w_stop w')"
    and "trace_of opening_of w' = trace_of opening_of w" and "trace_of teardown_of w' = trace_of teardown_of w"
proof -
  obtain b v where v: "w_stopNow w = (b, v)" by force
  note f = w_stopNow_facts [OF v]
  let ?u = "w_post (fail_record reason) v"
  have e: "w_endTest ?u = (passed, w')" using assms(1) v by simp
  note t = endTest_traces [OF e]
  have o: "mTestOpen (w_journal ?u)" using assms(2) by (simp add: w_post_def f)
  have "passed = fst (endTest (w_journal ?u))" using e by (auto simp: w_endTest_def split: prod.splits)
  then show "\<not> passed" using endTest_verdict [OF o] assms(2) by (simp add: w_post_def fail_record_def f)
  show "mGroup (w_journal w') = mGroup (w_journal w)" by (simp add: t f w_post_def)
  show "gStopHonoured (w_stop w) \<Longrightarrow> gStopHonoured (w_stop w')" by (simp add: t f w_post_def)
  show "trace_of opening_of w' = trace_of opening_of w" "trace_of teardown_of w' = trace_of teardown_of w"
    using script_step_trace [OF script_step_post, of opening_of "fail_record reason" v]
      script_step_trace [OF script_step_post, of teardown_of "fail_record reason" v]
    by (simp_all add: t f)
qed

lemma tests_trace:
  assumes "runSelectedTests ts sel (ap, w) = (e, ap', w')"
  shows "mGroup (w_journal w') = mGroup (w_journal w)"
    and "gStopHonoured (w_stop w) \<Longrightarrow> gStopHonoured (w_stop w')"
    and "trace_of opening_of w' = trace_of opening_of w" and "trace_of teardown_of w' = trace_of teardown_of w"
    and "\<not> unfinished (e, ap', w') \<Longrightarrow>
      ap \<and> trace_of verdict_of w' = trace_of verdict_of w @ group_verdicts sel (mGroup (w_journal w)) ts"
proof -
  have "mGroup (w_journal w') = mGroup (w_journal w) \<and>
      (gStopHonoured (w_stop w) \<longrightarrow> gStopHonoured (w_stop w')) \<and>
      trace_of opening_of w' = trace_of opening_of w \<and> trace_of teardown_of w' = trace_of teardown_of w \<and>
      (\<not> unfinished (e, ap', w') \<longrightarrow>
        ap \<and> trace_of verdict_of w' = trace_of verdict_of w @ group_verdicts sel (mGroup (w_journal w)) ts)"
    using assms
  proof (induction ts arbitrary: ap w)
    case Nil
    then show ?case by (simp add: group_verdicts_def unfinished_def)
  next
    case (Cons test rest)
    show ?case
    proof (cases "isSelected (test_id test) sel")
      case False
      with Cons.prems Cons.IH [of ap w] show ?thesis by (simp add: group_verdicts_def)
    next
      case True
      obtain b w1 where s: "w_stopNow w = (b, w1)" by force
      note f1 = w_stopNow_facts [OF s]
      show ?thesis
      proof (cases b)
        case True
        with s Cons.prems \<open>isSelected _ _\<close> have "w' = w1" "e = None" by simp_all
        with True show ?thesis by (simp add: unfinished_def f1)
      next
        case False
        let ?w = "w1\<lparr>w_journal := beginTest (test_id test) (test_description test) (w_journal w1)\<rparr>"
        obtain r w2 where a: "run_armed (test_script test) ?w = (r, w2)" by force
        note f2 = armed_test_step [OF a]
        show ?thesis
        proof (cases r)
          case (Inr u)
          obtain p w3 where e3: "w_endTest w2 = (p, w3)" by force
          note f3 = endTest_traces [OF e3]
          have rest: "runSelectedTests rest sel (ap \<and> p, w3) = (e, ap', w')"
            using Cons.prems True False s a Inr e3 by simp
          note ih = Cons.IH [OF rest]
          have "group_verdicts sel (mGroup (w_journal w)) (test # rest) =
              (mGroup (w_journal w), test_id test, True) # group_verdicts sel (mGroup (w_journal w)) rest"
            using True by (simp add: group_verdicts_def)
          with ih f2 f3 show ?thesis by (auto simp: f1)
        next
          case (Inl x)
          show ?thesis
          proof (cases "x = StopRequested")
            case False
            with Cons.prems True \<open>\<not> b\<close> s a Inl have "e = Some x" "w' = w2"
              by (cases x; simp)+
            with f2 show ?thesis by (simp add: unfinished_def f1)
          next
            case True
            obtain p w6 where e6: "w_endTest (w_post (fail_record ''stopped by operator before this test finished'')
                (snd (w_stopNow w2))) = (p, w6)" by force
            note f6 = stopped_test_step [OF e6 f2(3)]
            have "e = None" "ap' = (ap \<and> p)" "w' = w6"
              using Cons.prems \<open>isSelected _ _\<close> \<open>\<not> b\<close> s a Inl True e6 by simp_all
            with f2 f6 show ?thesis by (simp add: unfinished_def f1)
          qed
        qed
      qed
    qed
  qed
  then show "mGroup (w_journal w') = mGroup (w_journal w)"
    and "gStopHonoured (w_stop w) \<Longrightarrow> gStopHonoured (w_stop w')"
    and "trace_of opening_of w' = trace_of opening_of w" and "trace_of teardown_of w' = trace_of teardown_of w"
    and "\<not> unfinished (e, ap', w') \<Longrightarrow>
      ap \<and> trace_of verdict_of w' = trace_of verdict_of w @ group_verdicts sel (mGroup (w_journal w)) ts"
    by blast+
qed

section \<open>Groups\<close>

lemma teardown_phases [simp]: "kSetupPhase \<noteq> kTeardownPhase"
  by (simp add: kSetupPhase_def kTeardownPhase_def)

lemma setup_trace:
  assumes "runHook bracket kSetupPhase w = (r, w')"
  shows "mGroup (w_journal w') = mGroup (w_journal w) \<and>
    gStopHonoured (w_stop w') = gStopHonoured (w_stop w) \<and>
    trace_of opening_of w' = trace_of opening_of w \<and> trace_of teardown_of w' = trace_of teardown_of w \<and>
    trace_of verdict_of w' = trace_of verdict_of w"
proof -
  let ?v = "phase_open kSetupPhase (hook_description bracket) w"
  have open_trace: "trace_of f ?v = trace_of f w @ f (OnPhaseStart (mGroup (w_journal w)) kSetupPhase (hook_description bracket))"
    for f :: "SinkCall \<Rightarrow> 'y list"
    by (simp add: trace_of_def calls_def phase_open_def beginPhase_def)
  have "script_step ?v w' \<Longrightarrow> ?thesis"
    using script_step_trace [of ?v w' opening_of] script_step_trace [of ?v w' teardown_of]
      script_step_trace [of ?v w' verdict_of]
    by (simp add: open_trace) (simp add: script_step_def phase_open_def beginPhase_def)
  then show ?thesis
    using runHook_step [OF assms]
    by (auto simp: hook_step_trace [where f = opening_of] hook_step_trace [where f = teardown_of]
        hook_step_trace [where f = verdict_of] dest: hook_step_frame)
qed

lemma teardown_trace:
  assumes "teardownGuard bracket label subject (ap, w) = (ap', w')"
  shows "mGroup (w_journal w') = mGroup (w_journal w)" and "(ap' \<longrightarrow> ap)"
    and "gStopHonoured (w_stop w') = gStopHonoured (w_stop w)"
    and "trace_of opening_of w' = trace_of opening_of w" and "trace_of verdict_of w' = trace_of verdict_of w"
    and "trace_of teardown_of w' = trace_of teardown_of w @ (if hook bracket = None then [] else [mGroup (w_journal w)])"
  using teardownGuard_step [OF assms]
  by (auto simp: hook_step_trace [where f = opening_of] hook_step_trace [where f = teardown_of]
      hook_step_trace [where f = verdict_of] dest: hook_step_frame)

lemma post_note_trace:
  assumes "\<And>e. f (OnEvent e) = []"
  shows "trace_of f (w_post r (w_cerr text w)) = trace_of f w"
proof -
  have "script_step w (w_cerr text w)" by (rule script_step_same) (simp_all add: w_cerr_def)
  then have "script_step w (w_post r (w_cerr text w))" by (rule script_step_trans [OF _ script_step_post])
  then show ?thesis by (rule script_step_trace) (rule assms)
qed

lemma post_note_frame [simp]:
  "mGroup (w_journal (w_post r w)) = mGroup (w_journal w)" "w_stop (w_post r w) = w_stop w"
  "w_journal (w_cerr text w) = w_journal w" "w_stop (w_cerr text w) = w_stop w"
  "w_bench (w_post r w) = w_bench w" "w_bench (w_cerr text w) = w_bench w"
  by (simp_all add: w_post_def w_cerr_def)

lemma group_body_trace:
  assumes "group_body options grp (ap, w) = (e, ap', w')"
  shows "mGroup (w_journal w') = mGroup (w_journal w)"
    and "gStopHonoured (w_stop w) \<Longrightarrow> gStopHonoured (w_stop w')"
    and "trace_of opening_of w' = trace_of opening_of w" and "trace_of teardown_of w' = trace_of teardown_of w"
    and "\<not> unfinished (e, ap', w') \<Longrightarrow> ap \<and> trace_of verdict_of w' =
      trace_of verdict_of w @ group_verdicts (SelectedIds options) (mGroup (w_journal w)) (tests grp)"
proof -
  obtain r v where h: "runHook (group_setup grp) kSetupPhase w = (r, v)" by force
  note v = setup_trace [OF h]
  consider (threw) x where "r = Inl x" "e = Some x" "w' = v"
    | (refused) msg line where "e = None" "\<not> ap'" "w' = w_post (run_note ''group'' msg) (w_cerr line v)"
    | (tested) ok where "runSelectedTests (tests grp) (SelectedIds options) (ap \<and> ok, v) = (e, ap', w')"
    using assms h by (cases r) (auto simp: group_body_def Let_def split: if_splits)
  then have "mGroup (w_journal w') = mGroup (w_journal w) \<and>
      (gStopHonoured (w_stop w) \<longrightarrow> gStopHonoured (w_stop w')) \<and>
      trace_of opening_of w' = trace_of opening_of w \<and> trace_of teardown_of w' = trace_of teardown_of w \<and>
      (\<not> unfinished (e, ap', w') \<longrightarrow> ap \<and> trace_of verdict_of w' =
        trace_of verdict_of w @ group_verdicts (SelectedIds options) (mGroup (w_journal w)) (tests grp))"
  proof cases
    case threw
    with v show ?thesis by (simp add: unfinished_def)
  next
    case refused
    with v show ?thesis by (simp add: unfinished_def post_note_trace)
  next
    case (tested ok)
    from tests_trace [OF tested] v show ?thesis by auto
  qed
  then show "mGroup (w_journal w') = mGroup (w_journal w)"
    and "gStopHonoured (w_stop w) \<Longrightarrow> gStopHonoured (w_stop w')"
    and "trace_of opening_of w' = trace_of opening_of w" and "trace_of teardown_of w' = trace_of teardown_of w"
    and "\<not> unfinished (e, ap', w') \<Longrightarrow> ap \<and> trace_of verdict_of w' =
      trace_of verdict_of w @ group_verdicts (SelectedIds options) (mGroup (w_journal w)) (tests grp)"
    by blast+
qed

text \<open>One group from its opening to the end of its teardown.\<close>

definition torn_down :: "'b TestGroup \<Rightarrow> string list" where
  "torn_down grp = (if hook (group_teardown grp) = None then [] else [group_name grp])"

lemma opened_group_trace:
  assumes "group_body options grp (ap, w\<lparr>w_journal := beginGroup (group_name grp) d (w_journal w)\<rparr>) = (e, s)"
    and "teardownGuard (group_teardown grp) label subject s = (ok, w')"
  shows "gStopHonoured (w_stop w) \<Longrightarrow> gStopHonoured (w_stop w')"
    and "trace_of opening_of w' = trace_of opening_of w @ [group_name grp]"
    and "trace_of teardown_of w' = trace_of teardown_of w @ torn_down grp"
    and "\<not> unfinished (e, ok, w') \<Longrightarrow> ap \<and> trace_of verdict_of w' =
      trace_of verdict_of w @ group_verdicts (SelectedIds options) (group_name grp) (tests grp)"
proof -
  let ?w = "w\<lparr>w_journal := beginGroup (group_name grp) d (w_journal w)\<rparr>"
  obtain p v where s: "s = (p, v)" by force
  have open_trace: "trace_of f ?w = trace_of f w @ f (OnGroupStart (group_name grp) d)" for f :: "SinkCall \<Rightarrow> 'y list"
    by (simp add: trace_of_def calls_def beginGroup_def)
  have g: "mGroup (w_journal ?w) = group_name grp" by (simp add: beginGroup_def)
  note b = group_body_trace [OF assms(1) [unfolded s]]
  note t = teardown_trace [OF assms(2) [unfolded s]]
  show "gStopHonoured (w_stop w) \<Longrightarrow> gStopHonoured (w_stop w')" using b(2) t(3) by simp
  show "trace_of opening_of w' = trace_of opening_of w @ [group_name grp]"
    using b(3) t(4) by (simp add: open_trace)
  show "trace_of teardown_of w' = trace_of teardown_of w @ torn_down grp"
    using b(1,4) t(6) g by (simp add: open_trace torn_down_def)
  show "\<not> unfinished (e, ok, w') \<Longrightarrow> ap \<and> trace_of verdict_of w' =
      trace_of verdict_of w @ group_verdicts (SelectedIds options) (group_name grp) (tests grp)"
    using b(5) t(2,3,5) g by (auto simp: open_trace unfinished_def)
qed

definition selected_groups :: "Options \<Rightarrow> 'b TestGroup list \<Rightarrow> 'b TestGroup list" where
  "selected_groups options gs = filter (\<lambda>g. anySelected g (SelectedIds options)) gs"

definition pass_verdicts :: "Options \<Rightarrow> 'b TestGroup list \<Rightarrow> (string \<times> string \<times> bool) list" where
  "pass_verdicts options gs =
     concat (map (\<lambda>g. group_verdicts (SelectedIds options) (group_name g) (tests g)) gs)"

lemma unselected_group_verdicts:
  "\<not> anySelected g sel \<Longrightarrow> group_verdicts sel n (tests g) = []"
  by (auto simp: anySelected_def group_verdicts_def list_ex_iff filter_empty_conv)

lemma groups_trace:
  assumes "run_groups options gs (ap, w) = (e, ap', w')"
  shows "(gStopHonoured (w_stop w) \<longrightarrow> gStopHonoured (w_stop w')) \<and>
    (\<exists>n. trace_of opening_of w' = trace_of opening_of w @ map group_name (take n (selected_groups options gs)) \<and>
      (e \<noteq> Some UnknownException \<longrightarrow>
        trace_of teardown_of w' = trace_of teardown_of w @ concat (map torn_down (take n (selected_groups options gs))))) \<and>
    (\<not> unfinished (e, ap', w') \<longrightarrow> ap \<and>
      trace_of verdict_of w' = trace_of verdict_of w @ pass_verdicts options gs)"
  using assms
proof (induction gs arbitrary: ap w)
  case Nil
  then show ?case by (simp add: pass_verdicts_def unfinished_def selected_groups_def)
next
  case (Cons grp rest)
  show ?case
  proof (cases "anySelected grp (SelectedIds options)")
    case False
    with Cons.prems Cons.IH [of ap w] show ?thesis
      by (simp add: pass_verdicts_def unselected_group_verdicts selected_groups_def)
  next
    case sel: True
    have sg: "selected_groups options (grp # rest) = grp # selected_groups options rest"
      using sel by (simp add: selected_groups_def)
    obtain b w1 where s: "w_stopNow w = (b, w1)" by force
    note f1 = w_stopNow_facts [OF s]
    show ?thesis
    proof (cases b)
      case True
      with sel s Cons.prems have "w' = w1" "e = None" by simp_all
      with True show ?thesis by (auto simp: unfinished_def f1 intro: exI [of _ 0])
    next
      case False
      let ?w = "w1\<lparr>w_journal := beginGroup (group_name grp) (group_description grp) (w_journal w1)\<rparr>"
      obtain x s2 where g: "group_body options grp (ap, ?w) = (x, s2)" by (metis prod.exhaust)
      obtain ok w2 where t: "teardownGuard (group_teardown grp)
          (''TEARDOWN for group '' @ quoted_name (group_name grp)) ''group'' s2 = (ok, w2)" by force
      note o = opened_group_trace [OF g t]
      show ?thesis
      proof (cases x)
        case (Some exc)
        show ?thesis
        proof (cases "exc = UnknownException")
          case True
          obtain p v where s2: "s2 = (p, v)" by force
          note b = group_body_trace [OF g [unfolded s2]]
          have opened: "trace_of opening_of ?w = trace_of opening_of w1 @ [group_name grp]"
            by (simp add: trace_of_def calls_def beginGroup_def)
          from True Some sel s False g s2 Cons.prems have "w' = v" "e = Some UnknownException" by simp_all
          with b(2,3) opened sg show ?thesis by (auto simp: unfinished_def f1 intro!: exI [of _ 1])
        next
          case other: False
          with Some sel s False g t Cons.prems have "w' = w2" "e = Some exc" by simp_all
          with o sg show ?thesis by (auto simp: unfinished_def f1 intro!: exI [of _ 1])
        qed
      next
        case None
        let ?w3 = "w2\<lparr>w_journal := endGroup (w_journal w2)\<rparr>"
        have r: "run_groups options rest (ok, ?w3) = (e, ap', w')"
          using None sel s False g t Cons.prems by simp
        have closed: "trace_of f ?w3 = trace_of f w2 @ f (OnGroupEnd (mGroup (w_journal w2)))" for f :: "SinkCall \<Rightarrow> 'y list"
          by (simp add: trace_of_def calls_def endGroup_def)
        note ih = Cons.IH [OF r]
        from ih obtain n where
          "trace_of opening_of w' = trace_of opening_of ?w3 @ map group_name (take n (selected_groups options rest))"
          "e \<noteq> Some UnknownException \<Longrightarrow>
             trace_of teardown_of w' = trace_of teardown_of ?w3 @ concat (map torn_down (take n (selected_groups options rest)))"
          by blast
        then have "\<exists>n. trace_of opening_of w' = trace_of opening_of w @ map group_name (take n (selected_groups options (grp # rest))) \<and>
            (e \<noteq> Some UnknownException \<longrightarrow>
              trace_of teardown_of w' = trace_of teardown_of w @ concat (map torn_down (take n (selected_groups options (grp # rest)))))"
          using o(2,3) by (intro exI [of _ "Suc n"]) (simp add: closed sg f1)
        moreover have "unfinished (e, ap', w') \<or> \<not> unfinished (x, ok, w2)"
          using ih None by (auto simp: unfinished_def)
        ultimately show ?thesis
          using ih o(1,4) closed [of verdict_of] by (auto simp: pass_verdicts_def f1)
      qed
    qed
  qed
qed

section \<open>A clean run\<close>

text \<open>
  Scripts nothing goes wrong in: no stop request arrives, no check fails, and a test checks
  something and returns; a hook returns true.
\<close>

fun calm_action :: "'b action \<Rightarrow> bool" where
  "calm_action (Posts r) = True"
| "calm_action (Acts f) = True"
| "calm_action (StopArrives r) = False"
| "calm_action (Waits reason len t el arrives) = (arrives = None)"

fun checks_of :: "'b action list \<Rightarrow> bool list" where
  "checks_of [] = []"
| "checks_of (Posts r # acts) = (case Passed r of None \<Rightarrow> [] | Some ok \<Rightarrow> [ok]) @ checks_of acts"
| "checks_of (_ # acts) = checks_of acts"

definition clean_test :: "'b TestCase \<Rightarrow> bool" where
  "clean_test t \<longleftrightarrow> (\<forall>b. snd (test_script t b) = Inr () \<and> list_all calm_action (fst (test_script t b)) \<and>
     checks_of (fst (test_script t b)) \<noteq> [] \<and> False \<notin> set (checks_of (fst (test_script t b))))"

definition clean_hook :: "'b Bracket \<Rightarrow> bool" where
  "clean_hook br \<longleftrightarrow> (\<forall>h b. hook br = Some h \<longrightarrow> snd (h b) = Inr True \<and> list_all calm_action (fst (h b)))"

definition clean_catalog :: "'b Catalog \<Rightarrow> bool" where
  "clean_catalog cat \<longleftrightarrow> clean_hook (Catalog_Setup cat) \<and> clean_hook (Catalog_Teardown cat) \<and>
     (\<forall>g \<in> set (Catalog_groups cat). clean_hook (group_setup g) \<and> clean_hook (group_teardown g) \<and>
        list_all clean_test (tests g))"

definition unstopped :: "'b World \<Rightarrow> bool" where
  "unstopped w \<longleftrightarrow> \<not> gStopRequested (w_stop w) \<and> \<not> gStopHonoured (w_stop w)"

lemma calm_delay:
  "unstopped w \<Longrightarrow> \<exists>w'. run_delay reason len t el None w = (None, w') \<and> w_stop w' = w_stop w \<and>
     mTestOpen (w_journal w') = mTestOpen (w_journal w) \<and> mTestChecks (w_journal w') = mTestChecks (w_journal w) \<and>
     mTestFailures (w_journal w') = mTestFailures (w_journal w)"
  by (simp add: run_delay_def Let_def unstopped_def w_post_def delay_record_def blank_record_def)

lemma perform_calm:
  "list_all calm_action acts \<Longrightarrow> unstopped w \<Longrightarrow>
   \<exists>w'. perform acts w = (None, w') \<and> unstopped w' \<and> mTestOpen (w_journal w') = mTestOpen (w_journal w) \<and>
     (mTestOpen (w_journal w) \<longrightarrow>
        mTestChecks (w_journal w') = mTestChecks (w_journal w) + length (checks_of acts) \<and>
        mTestFailures (w_journal w') = mTestFailures (w_journal w) + count_list (checks_of acts) False)"
proof (induction acts arbitrary: w)
  case Nil
  then show ?case by simp
next
  case (Cons a acts)
  show ?case
  proof (cases a)
    case (Posts r)
    have "unstopped (w_post r w)" using Cons.prems(2) by (simp add: unstopped_def w_post_def)
    from Cons.IH [OF _ this] Cons.prems(1) Posts show ?thesis
      by (auto simp: w_post_def split: option.splits)
  next
    case (Acts f)
    have "unstopped (w\<lparr>w_rig := f (w_rig w)\<rparr>)" using Cons.prems(2) by (simp add: unstopped_def)
    from Cons.IH [OF _ this] Cons.prems(1) Acts show ?thesis by simp
  next
    case (StopArrives r)
    with Cons.prems(1) show ?thesis by simp
  next
    case (Waits reason len t el arrives)
    with Cons.prems(1) have "arrives = None" by simp
    obtain v where v: "run_delay reason len t el None w = (None, v)" "w_stop v = w_stop w"
      "mTestOpen (w_journal v) = mTestOpen (w_journal w)" "mTestChecks (w_journal v) = mTestChecks (w_journal w)"
      "mTestFailures (w_journal v) = mTestFailures (w_journal w)"
      using calm_delay [OF Cons.prems(2)] by blast
    then have "unstopped v" using Cons.prems(2) by (simp add: unstopped_def)
    from Cons.IH [OF _ this] Cons.prems(1) Waits v \<open>arrives = None\<close> show ?thesis by simp
  qed
qed

lemma unstopped_same: "unstopped w \<Longrightarrow> w_stop w' = w_stop w \<Longrightarrow> unstopped w'"
  by (simp add: unstopped_def)

lemma calm_script:
  assumes "list_all calm_action (fst (script (w_rig w)))" and "unstopped w"
  obtains w' where "run_script script w = (snd (script (w_rig w)), w')" and "unstopped w'"
    and "mTestOpen (w_journal w') = mTestOpen (w_journal w)"
    and "mTestOpen (w_journal w) \<Longrightarrow>
        mTestChecks (w_journal w') = mTestChecks (w_journal w) + length (checks_of (fst (script (w_rig w)))) \<and>
        mTestFailures (w_journal w') = mTestFailures (w_journal w) + count_list (checks_of (fst (script (w_rig w)))) False"
proof -
  obtain acts ending where s: "script (w_rig w) = (acts, ending)" by force
  obtain w' where "perform acts w = (None, w')" and rest: "unstopped w'" "mTestOpen (w_journal w') = mTestOpen (w_journal w)"
    "mTestOpen (w_journal w) \<longrightarrow>
        mTestChecks (w_journal w') = mTestChecks (w_journal w) + length (checks_of acts) \<and>
        mTestFailures (w_journal w') = mTestFailures (w_journal w) + count_list (checks_of acts) False"
    using perform_calm [of acts w] assms s by auto
  then have "run_script script w = (ending, w')" by (simp add: run_script_def s)
  with rest s that show thesis by simp
qed

lemma clean_runHook:
  assumes "clean_hook br" and "unstopped w"
  obtains w' where "runHook br phase w = (Inr True, w')" and "unstopped w'"
proof (cases "hook br")
  case None
  with assms(2) that show thesis by (simp add: runHook_def)
next
  case (Some h)
  let ?w = "phase_open phase (hook_description br) w"
  have "list_all calm_action (fst (h (w_rig ?w)))" "snd (h (w_rig ?w)) = Inr True"
    using assms(1) Some by (auto simp: clean_hook_def)
  moreover have "unstopped ?w" using assms(2) by (simp add: unstopped_def phase_open_def)
  ultimately obtain v where "run_script h ?w = (Inr True, v)" "unstopped v" by (metis calm_script)
  with Some that [of "phase_close v"] show thesis by (simp add: runHook_def unstopped_def phase_close_def)
qed

lemma clean_teardown:
  assumes "clean_hook br" and "unstopped (snd s)"
  obtains w' where "teardownGuard br label subject s = (fst s, w')" and "unstopped w'"
proof (cases "hook br")
  case None
  with assms(2) that [of "snd s"] show thesis by (simp add: teardownGuard_def)
next
  case (Some h)
  let ?w = "phase_open kTeardownPhase (hook_description br) (snd s)"
  have "list_all calm_action (fst (h (w_rig ?w)))" "snd (h (w_rig ?w)) = Inr True"
    using assms(1) Some by (auto simp: clean_hook_def)
  moreover have "unstopped ?w" using assms(2) by (simp add: unstopped_def phase_open_def)
  ultimately obtain v where "run_script h ?w = (Inr True, v)" "unstopped v" by (metis calm_script)
  with Some that [of "phase_close v"] show thesis by (simp add: teardownGuard_def unstopped_def phase_close_def)
qed

lemma unstopped_stopNow: "unstopped w \<Longrightarrow> w_stopNow w = (False, w)"
  by (simp add: unstopped_def w_stopNow_def stopNow_def)

lemma clean_tests:
  "list_all clean_test ts \<Longrightarrow> unstopped w \<Longrightarrow>
   \<exists>w'. runSelectedTests ts sel (ap, w) = (None, ap, w') \<and> unstopped w'"
proof (induction ts arbitrary: w)
  case Nil
  then show ?case by simp
next
  case (Cons test rest)
  show ?case
  proof (cases "isSelected (test_id test) sel")
    case False
    with Cons show ?thesis by simp
  next
    case True
    let ?w = "w\<lparr>w_journal := beginTest (test_id test) (test_description test) (w_journal w)\<rparr>"
    let ?a = "?w\<lparr>w_stop := stop_arm (w_stop ?w)\<rparr>"
    let ?s = "test_script test (w_rig ?a)"
    have s: "snd ?s = Inr ()" "list_all calm_action (fst ?s)" "checks_of (fst ?s) \<noteq> []" "False \<notin> set (checks_of (fst ?s))"
      using Cons.prems(1) by (auto simp: clean_test_def)
    have "unstopped ?a" using Cons.prems(2) by (simp add: unstopped_def)
    have opened: "mTestOpen (w_journal ?a)" "mTestChecks (w_journal ?a) = 0" "mTestFailures (w_journal ?a) = 0"
      by (simp_all add: beginTest_def)
    obtain v where v: "run_script (test_script test) ?a = (snd ?s, v)" "unstopped v" "mTestOpen (w_journal v)"
      "mTestChecks (w_journal v) = length (checks_of (fst ?s))"
      "mTestFailures (w_journal v) = count_list (checks_of (fst ?s)) False"
      using calm_script [of "test_script test" ?a, OF s(2) \<open>unstopped ?a\<close>] opened by auto
    let ?v = "v\<lparr>w_stop := stop_disarm (w_stop v)\<rparr>"
    have a: "run_armed (test_script test) ?w = (Inr (), ?v)"
      using v(1) s(1) by (simp add: run_armed_def)
    obtain p u where e: "w_endTest ?v = (p, u)" by force
    have p: p
      using e v(3-5) s(3,4) endTest_verdict [of "w_journal v"]
      by (auto simp: w_endTest_def count_list_0_iff split: prod.splits)
    have "unstopped u"
      using v(2) endTest_frame [OF e] by (simp add: unstopped_def)
    from Cons.IH [OF _ this] Cons.prems(1) True unstopped_stopNow [OF Cons.prems(2)] a e p
    show ?thesis by simp
  qed
qed

lemma clean_groups:
  "\<forall>g \<in> set gs. clean_hook (group_setup g) \<and> clean_hook (group_teardown g) \<and> list_all clean_test (tests g) \<Longrightarrow>
   unstopped w \<Longrightarrow> \<exists>w'. run_groups options gs (ap, w) = (None, ap, w') \<and> unstopped w'"
proof (induction gs arbitrary: w)
  case Nil
  then show ?case by simp
next
  case (Cons grp rest)
  show ?case
  proof (cases "anySelected grp (SelectedIds options)")
    case False
    with Cons show ?thesis by simp
  next
    case True
    let ?w = "w\<lparr>w_journal := beginGroup (group_name grp) (group_description grp) (w_journal w)\<rparr>"
    have "unstopped ?w" using Cons.prems(2) by (simp add: unstopped_def)
    then obtain v where v: "runHook (group_setup grp) kSetupPhase ?w = (Inr True, v)" "unstopped v"
      using clean_runHook Cons.prems(1) by (metis list.set_intros(1))
    obtain v2 where v2: "runSelectedTests (tests grp) (SelectedIds options) (ap, v) = (None, ap, v2)" "unstopped v2"
      using clean_tests [OF _ v(2)] Cons.prems(1) by (metis list.set_intros(1))
    have b: "group_body options grp (ap, ?w) = (None, ap, v2)" using v v2 by (simp add: group_body_def)
    obtain v3 where v3: "teardownGuard (group_teardown grp) (''TEARDOWN for group '' @ quoted_name (group_name grp)) ''group'' (ap, v2) = (ap, v3)"
      "unstopped v3"
      using clean_teardown [of "group_teardown grp" "(ap, v2)"] v2(2) Cons.prems(1)
      by (metis fst_conv snd_conv list.set_intros(1))
    have "unstopped (v3\<lparr>w_journal := endGroup (w_journal v3)\<rparr>)" using v3(2) by (simp add: unstopped_def)
    from Cons.IH [OF _ this] Cons.prems(1) True unstopped_stopNow [OF Cons.prems(2)] b v3(1)
    show ?thesis by simp
  qed
qed

lemma clean_passes:
  "clean_catalog cat \<Longrightarrow> unstopped w \<Longrightarrow>
   \<exists>w'. passes_from cat options left pass (ap, w) = (None, ap, w') \<and> unstopped w'"
proof (induction left arbitrary: pass w)
  case 0
  then show ?case by simp
next
  case (Suc left)
  define w2 where "w2 = (if passCount options > 1
      then w_post (run_note ''run'' (if Repeat options \<noteq> None
             then ''pass '' @ show_nat (pass + 1) @ '' of '' @ show_nat (unat (passCount options))
             else ''pass '' @ show_nat (pass + 1))) w
      else w)"
  have "unstopped w2" using Suc.prems(2) by (simp add: unstopped_def w2_def)
  then obtain v where v: "run_groups options (Catalog_groups cat) (True, w2) = (None, True, v)" "unstopped v"
    using clean_groups [of "Catalog_groups cat" w2 options True] Suc.prems(1) by (auto simp: clean_catalog_def)
  have "runOnePass cat options w2 = (Inr True, v)" using v(1) by (simp add: runOnePass_def)
  with Suc.IH [OF Suc.prems(1) v(2)] unstopped_stopNow [OF Suc.prems(2)] show ?case
    by (simp add: Let_def w2_def)
qed

lemma clean_runTests:
  assumes "clean_catalog cat" and "unstopped w" and "unmatchedSelection cat (SelectedIds options) = []"
  shows "fst (runTests cat options w) = Inr True"
proof -
  obtain v where v: "runHook (Catalog_Setup cat) kSetupPhase w = (Inr True, v)" "unstopped v"
    using clean_runHook assms(1,2) by (metis clean_catalog_def)
  obtain u where u: "passes_from cat options (unat (passCount options)) 0 (True, v) = (None, True, u)" "unstopped u"
    using clean_passes [OF assms(1) v(2)] by blast
  have b: "run_body cat options (True, w) = (None, True, u)"
    using v u by (simp add: run_body_def runPasses_def stop_verdict_def unstopped_def)
  obtain t where t: "teardownGuard (Catalog_Teardown cat) ''RUN_TEARDOWN'' ''run'' (True, u) = (True, t)"
    using clean_teardown [of "Catalog_Teardown cat" "(True, u)"] u(2) assms(1)
    by (metis clean_catalog_def fst_conv snd_conv)
  with b assms(3) show ?thesis by (simp add: runTests_def Let_def)
qed

section \<open>The invariants every run keeps\<close>

text \<open>Every sink's log stays readable; the bench and the criteria selection are not touched.\<close>

interpretation log_kept: world_invariant "\<lambda>w. reader_agrees sink (w_journal w)" for sink
  by unfold_locales (auto intro: run_op_agrees)

interpretation bench_kept: world_invariant "\<lambda>w. w_bench w = b \<and> w_selection w = s" for b s
  by unfold_locales simp_all

interpretation honoured_kept: world_invariant "\<lambda>w. gStopHonoured (w_stop w)"
  by unfold_locales (simp_all add: stopNow_def)

end
