(* ===== verification/RunnerProperties.thy ===== *)
theory RunnerProperties
  imports RunnerFacts
begin

text \<open>
  The properties of the suite runner: what a passing run and an exit status of zero mean, that a
  clean run does pass, that hooks and teardowns run when they should, and that every run's log is
  consistent.
\<close>

section \<open>A passing run\<close>

lemma pass_trace:
  assumes "runOnePass cat options w = (r, w')"
  shows "gStopHonoured (w_stop w) \<Longrightarrow> gStopHonoured (w_stop w')"
    and "r = Inr True \<Longrightarrow> \<not> gStopHonoured (w_stop w') \<Longrightarrow>
      trace_of verdict_of w' = trace_of verdict_of w @ pass_verdicts options (Catalog_groups cat)"
proof -
  obtain e ap where g: "run_groups options (Catalog_groups cat) (True, w) = (e, ap, w')"
    and r: "r = (case e of Some x \<Rightarrow> Inl x | None \<Rightarrow> Inr ap)"
    using assms by (auto simp: runOnePass_def split: prod.splits option.splits)
  note t = groups_trace [OF g]
  show "gStopHonoured (w_stop w) \<Longrightarrow> gStopHonoured (w_stop w')" using t by blast
  show "r = Inr True \<Longrightarrow> \<not> gStopHonoured (w_stop w') \<Longrightarrow>
      trace_of verdict_of w' = trace_of verdict_of w @ pass_verdicts options (Catalog_groups cat)"
    using t r by (auto simp: unfinished_def split: option.splits)
qed

lemma post_note_stop: "gStopHonoured (w_stop (w_post r w)) = gStopHonoured (w_stop w)"
  by simp

lemma post_trace:
  "(\<And>e. f (OnEvent e) = []) \<Longrightarrow> trace_of f (w_post r w) = trace_of f w"
  by (rule script_step_trace [OF script_step_post])

lemma passes_trace:
  assumes "passes_from cat options left pass (ap, w) = (e, ap', w')"
  shows "(gStopHonoured (w_stop w) \<longrightarrow> gStopHonoured (w_stop w')) \<and>
    (\<not> unfinished (e, ap', w') \<longrightarrow> ap \<and> trace_of verdict_of w' =
       trace_of verdict_of w @ concat (replicate left (pass_verdicts options (Catalog_groups cat))))"
  using assms
proof (induction left arbitrary: pass ap w)
  case 0
  then show ?case by (simp add: unfinished_def)
next
  case (Suc left)
  obtain b w1 where s: "w_stopNow w = (b, w1)" by force
  note f1 = w_stopNow_facts [OF s]
  define w2 where "w2 = (if passCount options > 1
      then w_post (run_note ''run'' (if Repeat options \<noteq> None
             then ''pass '' @ show_nat (pass + 1) @ '' of '' @ show_nat (unat (passCount options))
             else ''pass '' @ show_nat (pass + 1))) w1
      else w1)"
  have f2: "gStopHonoured (w_stop w2) = gStopHonoured (w_stop w1)"
    "trace_of verdict_of w2 = trace_of verdict_of w1"
    by (simp_all add: w2_def post_trace)
  obtain r w3 where p: "runOnePass cat options w2 = (r, w3)" by force
  note f3 = pass_trace [OF p]
  show ?case
  proof (cases b)
    case True
    with Suc.prems s have "w' = w1" "e = None" by simp_all
    with True show ?thesis by (simp add: f1 unfinished_def)
  next
    case go: False
    show ?thesis
    proof (cases "r = Inr True \<or> (r = Inr False \<and> \<not> UntilFailure options)")
      case False
      with Suc.prems s go p [unfolded w2_def]
      have "(e \<noteq> None \<and> w' = w3) \<or> (\<not> ap' \<and> w_stop w' = w_stop w3)"
        by (cases r) (auto simp: Let_def)
      with f3(1) f2 show ?thesis by (auto simp: unfinished_def f1)
    next
      case True
      then obtain ok where ok: "r = Inr ok" by auto
      have rest: "passes_from cat options left (pass + 1) (ap \<and> ok, w3) = (e, ap', w')"
        using Suc.prems s go p [unfolded w2_def] ok True by (auto simp: Let_def split: if_splits)
      note ih = Suc.IH [OF rest]
      have "\<not> unfinished (e, ap', w') \<Longrightarrow> \<not> gStopHonoured (w_stop w3)"
        using ih by (auto simp: unfinished_def)
      then show ?thesis
        using ih f3 f2 ok by (auto simp: f1 go)
    qed
  qed
qed

lemma teardown_honoured:
  "teardownGuard bracket label subject s = (ok, w') \<Longrightarrow>
     gStopHonoured (w_stop w') = gStopHonoured (w_stop (snd s)) \<and> (ok \<longrightarrow> fst s) \<and>
     trace_of verdict_of w' = trace_of verdict_of (snd s)"
  using teardown_trace [of bracket label subject "fst s" "snd s"] by auto

lemma runTests_passed:
  assumes "runTests cat options w = (Inr True, w')"
  obtains v v2 where "unmatchedSelection cat (SelectedIds options) = []"
    and "runHook (Catalog_Setup cat) kSetupPhase w = (Inr True, v)"
    and "runPasses cat options (True, v) = (None, True, v2)"
    and "teardownGuard (Catalog_Teardown cat) ''RUN_TEARDOWN'' ''run'' (True, v2) = (True, w')"
proof -
  from assms have sel: "unmatchedSelection cat (SelectedIds options) = []"
    by (auto simp: runTests_def Let_def split: if_splits prod.splits)
  obtain e s where b: "run_body cat options (True, w) = (e, s)"
    by (cases "run_body cat options (True, w)")
  obtain ok v3 where t: "teardownGuard (Catalog_Teardown cat) ''RUN_TEARDOWN'' ''run'' s = (ok, v3)" by force
  from assms sel b t have e: "e = None" and td: "teardownGuard (Catalog_Teardown cat) ''RUN_TEARDOWN'' ''run'' s = (True, w')"
    by (auto simp: runTests_def Let_def split: option.splits if_splits)
  from teardown_honoured [OF td] have s: "fst s" by simp
  obtain r v where h: "runHook (Catalog_Setup cat) kSetupPhase w = (r, v)" by force
  from b e s h obtain p where r: "r = Inr p" and body: "runPasses cat options (p, v) = (None, s)"
    by (cases r) (auto simp: run_body_def split: if_splits)
  obtain x ap v1 where ps: "passes_from cat options (unat (passCount options)) 0 (p, v) = (x, ap, v1)"
    by (metis prod_cases3)
  have x: "x = None" and sv: "s = stop_verdict options (ap, v1)"
    using body ps by (auto simp: runPasses_def split: option.splits)
  have "\<not> gStopHonoured (w_stop v1)" "ap"
    using s sv by (auto simp: stop_verdict_def Let_def split: if_splits)
  with passes_trace [OF ps] x have p by (simp add: unfinished_def)
  show thesis
    by (rule that [OF sel, of v "snd s"]) (use h r body td s \<open>p\<close> in \<open>auto\<close>, (cases s; simp)+)
qed

lemma passing_run_verdicts:
  assumes "runTests cat options w = (Inr True, w')"
  shows "trace_of verdict_of w' = trace_of verdict_of w
       @ concat (replicate (unat (passCount options)) (pass_verdicts options (Catalog_groups cat)))
    \<and> unmatchedSelection cat (SelectedIds options) = []
    \<and> \<not> gStopHonoured (w_stop w')"
proof -
  obtain v v2 where sel: "unmatchedSelection cat (SelectedIds options) = []"
    and h: "runHook (Catalog_Setup cat) kSetupPhase w = (Inr True, v)"
    and p: "runPasses cat options (True, v) = (None, True, v2)"
    and t: "teardownGuard (Catalog_Teardown cat) ''RUN_TEARDOWN'' ''run'' (True, v2) = (True, w')"
    by (rule runTests_passed [OF assms])
  obtain x ap v1 where ps: "passes_from cat options (unat (passCount options)) 0 (True, v) = (x, ap, v1)"
    by (metis prod_cases3)
  have x: "x = None" and sv: "(True, v2) = stop_verdict options (ap, v1)"
    using p ps by (auto simp: runPasses_def split: option.splits)
  then have unstopped: "\<not> gStopHonoured (w_stop v1)" "ap" "v2 = v1"
    by (auto simp: stop_verdict_def Let_def split: if_splits)
  show ?thesis
    using sel setup_trace [OF h] passes_trace [OF ps] x unstopped teardown_honoured [OF t]
    by (simp add: unfinished_def)
qed

text \<open>
  What a passing run means. When runTests answers true, the tests the sinks saw closed since are
  exactly the selected tests of the catalog, in its order, each in its own group and each passed,
  the whole list once per pass asked for; every selected id is one the catalog has; and no stop was
  honoured.
\<close>

theorem passing_run_passed_everything:
  assumes "runTests cat options w = (Inr True, w')"
  shows "trace_of verdict_of w' = trace_of verdict_of w
       @ concat (replicate (unat (passCount options)) (pass_verdicts options (Catalog_groups cat)))
    \<and> unmatchedSelection cat (SelectedIds options) = []
    \<and> \<not> gStopHonoured (w_stop w')"
  using assms by (rule passing_run_verdicts)

text \<open>A catalog to run: one group of two tests with a teardown, over a bench without hardware.\<close>

definition no_hook :: "'b Bracket" where
  "no_hook = \<lparr>hook = None, hook_description = []\<rparr>"

definition checking_script :: "bool \<Rightarrow> ('b, unit) script" where
  "checking_script ok = (\<lambda>b. ([Waits ''settle'' (Fin 1) ''1 s'' [] None, Posts (sample_check ok)], Inr ()))"

definition sample_catalog :: "bool \<Rightarrow> 'b Catalog" where
  "sample_catalog ok =
     \<lparr>Catalog_groups =
        [\<lparr>group_name = ''Supply'', group_description = [],
          tests = [\<lparr>test_id = ''Rail'', test_description = [], test_script = checking_script True\<rparr>,
                   \<lparr>test_id = ''Ripple'', test_description = [], test_script = checking_script ok\<rparr>],
          group_setup = no_hook,
          group_teardown = \<lparr>hook = Some (\<lambda>b. ([], Inr True)), hook_description = ''off''\<rparr>\<rparr>],
      Catalog_Setup = no_hook,
      Catalog_Teardown = \<lparr>hook = Some (\<lambda>b. ([], Inr True)), hook_description = ''power down''\<rparr>\<rparr>"

abbreviation plain_options :: Options where
  "plain_options \<equiv> default_options"

definition sample_world :: "'b \<Rightarrow> 'b World" where
  "sample_world b =
     \<lparr>w_journal = fresh_journal [0] blank_info (\<lambda>_. 0), w_selection = \<lparr>Index = 0, Locked = False\<rparr>,
      w_stop = \<lparr>gStopRequested = False, gStopReason = NoStop, gStopHonoured = False, gStopArmed = 0\<rparr>,
      w_bench = \<lparr>mAttached = True\<rparr>, w_rig = b, w_stderr = []\<rparr>"

lemma sample_clean: "clean_catalog (sample_catalog True)"
  by (simp add: clean_catalog_def sample_catalog_def clean_hook_def no_hook_def clean_test_def
      checking_script_def sample_check_def blank_record_def)

lemma sample_unstopped: "unstopped (sample_world b)"
  by (simp add: unstopped_def sample_world_def)

lemma sample_selection: "unmatchedSelection cat (SelectedIds plain_options) = []"
  by (simp add: unmatchedSelection_def default_options_def)

lemma plain_skeleton: "SkeletonPath plain_options = None"
  by (simp add: default_options_def)

lemma sample_passes: "unat (passCount plain_options) = 1"
  by (simp add: passCount_def default_options_def)

lemma sample_trace [simp]: "trace_of f (sample_world b) = []"
  by (simp add: trace_of_def calls_def sample_world_def fresh_journal_def)

lemma sample_verdicts:
  "pass_verdicts plain_options (Catalog_groups (sample_catalog ok)) =
     [(''Supply'', ''Rail'', True), (''Supply'', ''Ripple'', True)]"
  by (simp add: pass_verdicts_def group_verdicts_def sample_catalog_def isSelected_def default_options_def)

theorem passing_run_passed_everything_witness:
  "trace_of verdict_of (snd (runTests (sample_catalog True) plain_options (sample_world ()))) =
     [(''Supply'', ''Rail'', True), (''Supply'', ''Ripple'', True)]"
proof -
  let ?r = "runTests (sample_catalog True) plain_options (sample_world ())"
  have "fst ?r = Inr True" by (rule clean_runTests [OF sample_clean sample_unstopped sample_selection])
  then have "?r = (Inr True, snd ?r)" by (metis prod.collapse)
  from passing_run_passed_everything [OF this] show ?thesis
    by (simp add: sample_passes sample_verdicts)
qed

text \<open>
  C11: A clean run passes. When every selected id exists, no stop request arrives, every hook
  returns true and every test's script returns having checked something with no check failing,
  runTests answers true, however many passes were asked for.
\<close>

theorem clean_run_passes:
  assumes "clean_catalog cat" and "\<not> gStopRequested (w_stop w)" and "\<not> gStopHonoured (w_stop w)"
    and "unmatchedSelection cat (SelectedIds options) = []"
  shows "fst (runTests cat options w) = Inr True"
  using clean_runTests [OF assms(1) _ assms(4)] assms(2,3) by (simp add: unstopped_def)

theorem clean_run_passes_witness:
  "fst (runTests (sample_catalog True) (plain_options\<lparr>Repeat := Some 50\<rparr>) (sample_world ())) = Inr True"
  by (rule clean_run_passes [OF sample_clean])
     (simp_all add: sample_world_def unmatchedSelection_def default_options_def)

section \<open>What does not run\<close>

text \<open>
  A selection with an id the catalog does not have runs nothing: no hook, no test, no event; the
  run answers false and names every unmatched id on stderr.
\<close>

theorem unmatched_selection_runs_nothing:
  assumes "el \<in> set (SelectedIds options)"
    and "\<forall>g \<in> set (Catalog_groups cat). \<forall>t \<in> set (tests g). test_id t \<noteq> el"
  shows "runTests cat options w =
      (Inr False, w_cerr (unmatched_message (unmatchedSelection cat (SelectedIds options))) w)
    \<and> el \<in> set (unmatchedSelection cat (SelectedIds options))"
proof -
  have "el \<in> set (unmatchedSelection cat (SelectedIds options))"
    using assms by (auto simp: unmatchedSelection_def list_ex_iff)
  then show ?thesis by (auto simp: runTests_def Let_def)
qed

theorem unmatched_selection_runs_nothing_witness:
  "w_journal (snd (runTests (sample_catalog True) (plain_options\<lparr>SelectedIds := [''Rail'', ''Typo'']\<rparr>)
     (sample_world ()))) = w_journal (sample_world ())"
  by (subst unmatched_selection_runs_nothing [of "''Typo''", THEN conjunct1])
     (simp_all add: sample_catalog_def w_cerr_def)

text \<open>
  A run whose RUN_SETUP does not return true opens no group and does not pass, unless it is
  a skeleton run; whether the setup answered false or threw, and whatever it threw.
\<close>

theorem failed_setup_runs_no_group:
  assumes "runHook (Catalog_Setup cat) kSetupPhase w = (r, v)" and "r \<noteq> Inr True"
    and "SkeletonPath options = None" and "runTests cat options w = (r', w')"
  shows "trace_of opening_of w' = trace_of opening_of w \<and> trace_of verdict_of w' = trace_of verdict_of w
    \<and> r' \<noteq> Inr True"
proof -
  have no: "r' \<noteq> Inr True"
  proof
    assume "r' = Inr True"
    with assms(4) obtain v' where "runHook (Catalog_Setup cat) kSetupPhase w = (Inr True, v')"
      by (auto elim: runTests_passed)
    with assms(1,2) show False by simp
  qed
  show ?thesis
  proof (cases "unmatchedSelection cat (SelectedIds options) = []")
    case False
    with assms(4) have "w' = w_cerr (unmatched_message (unmatchedSelection cat (SelectedIds options))) w"
      by (simp add: runTests_def Let_def)
    with no show ?thesis by (simp add: trace_of_def calls_def)
  next
    case True
    obtain e s where b: "run_body cat options (True, w) = (e, s)"
      by (cases "run_body cat options (True, w)")
    have s: "snd s = v \<or> snd s = w_post (run_note ''run'' ''RUN_SETUP reported failure; no test was run'')
        (w_cerr ''RUN_SETUP reported failure; no test was run.'' v)"
      using assms(1-3) b by (cases r) (auto simp: run_body_def split: if_splits)
    obtain ok u where t: "teardownGuard (Catalog_Teardown cat) ''RUN_TEARDOWN'' ''run'' (fst s, snd s) = (ok, u)" by force
    with b True assms(4) have "w' = u \<or> w' = snd s" by (auto simp: runTests_def Let_def split: if_splits)
    note tt = teardown_trace [OF t]
    show ?thesis
      using no s tt(4,5) setup_trace [OF assms(1)] \<open>w' = u \<or> w' = snd s\<close> by (auto simp: post_note_trace)
  qed
qed

theorem failed_setup_runs_no_group_witness:
  "let cat = (sample_catalog True)\<lparr>Catalog_Setup := \<lparr>hook = Some (\<lambda>b. ([], Inr False)), hook_description = []\<rparr>\<rparr>
   in trace_of opening_of (snd (runTests cat plain_options (sample_world ()))) = []
      \<and> fst (runTests cat plain_options (sample_world ())) \<noteq> Inr True"
proof -
  let ?cat = "(sample_catalog True)\<lparr>Catalog_Setup := \<lparr>hook = Some (\<lambda>b. ([], Inr False)), hook_description = []\<rparr>\<rparr>
    :: unit Catalog"
  obtain r v where h: "runHook (Catalog_Setup ?cat) kSetupPhase (sample_world ()) = (r, v)" by force
  then have "r = Inr False" by (auto simp: runHook_def run_script_def)
  from failed_setup_runs_no_group [OF h _ _ prod.collapse [symmetric], of plain_options] this show ?thesis
    by (simp add: Let_def plain_skeleton)
qed

section \<open>Teardowns\<close>

text \<open>
  C7: Groups are bracketed and only selected groups run. However a pass ends, the groups it opened are
  the first so many of the groups with a selected test, in catalog order. The groups whose teardown
  ran are exactly those of them that have one, in the same order, once each: after a stop and after a
  script or a hook threw too, unless what was thrown is no std::exception, which ends the process.
\<close>

theorem opened_groups_are_torn_down:
  assumes "runOnePass cat options w = (r, w')"
  shows "\<exists>n. trace_of opening_of w' = trace_of opening_of w
           @ map group_name (take n (selected_groups options (Catalog_groups cat)))
    \<and> (r \<noteq> Inl UnknownException \<longrightarrow> trace_of teardown_of w' = trace_of teardown_of w
           @ concat (map torn_down (take n (selected_groups options (Catalog_groups cat)))))"
proof -
  obtain e ap where "run_groups options (Catalog_groups cat) (True, w) = (e, ap, w')"
    and r: "r = (case e of Some x \<Rightarrow> Inl x | None \<Rightarrow> Inr ap)"
    using assms by (auto simp: runOnePass_def split: prod.splits option.splits)
  from groups_trace [OF this(1)] show ?thesis by (auto simp: r)
qed

text \<open>A pass over the same catalog whose second test throws: the group is torn down all the same.\<close>

definition throwing_catalog :: "'b Catalog" where
  "throwing_catalog =
     (sample_catalog True)\<lparr>Catalog_groups := map (\<lambda>g. g\<lparr>tests := map (\<lambda>t. t\<lparr>test_script :=
        (\<lambda>b. ([], Inl (StdException ''timeout'')))\<rparr>) (tests g)\<rparr>) (Catalog_groups (sample_catalog True))\<rparr>"

lemma throwing_pass:
  "unstopped w \<Longrightarrow> fst (runOnePass throwing_catalog plain_options w) = Inl (StdException ''timeout'')"
  by (simp add: runOnePass_def throwing_catalog_def sample_catalog_def anySelected_def isSelected_def
      default_options_def w_stopNow_def stopNow_def unstopped_def group_body_def runHook_def no_hook_def
      run_armed_def run_script_def Let_def split: prod.splits)

lemma throwing_run:
  assumes "unstopped w"
  shows "fst (runTests throwing_catalog plain_options w) = Inl (StdException ''timeout'')"
proof -
  obtain w3 where pass: "runOnePass throwing_catalog plain_options w = (Inl (StdException ''timeout''), w3)"
    using throwing_pass [OF assms] by (metis prod.collapse)
  have one: "passCount plain_options = 1" by (simp add: passCount_def default_options_def)
  have "passes_from throwing_catalog plain_options (Suc 0) 0 (True, w) = (Some (StdException ''timeout''), True, w3)"
    using pass by (simp add: unstopped_stopNow [OF assms] one)
  moreover have "runHook (Catalog_Setup throwing_catalog) kSetupPhase w = (Inr True, w)"
    by (simp add: runHook_def throwing_catalog_def sample_catalog_def no_hook_def)
  ultimately have "run_body throwing_catalog plain_options (True, w) = (Some (StdException ''timeout''), True, w3)"
    by (simp add: run_body_def runPasses_def one)
  then show ?thesis by (simp add: runTests_def sample_selection split: prod.splits)
qed

theorem opened_groups_are_torn_down_witness:
  "\<exists>n. trace_of teardown_of (snd (runOnePass throwing_catalog plain_options (sample_world ()))) =
     concat (map torn_down (take n (Catalog_groups (throwing_catalog :: unit Catalog))))"
proof -
  have "selected_groups plain_options (Catalog_groups (throwing_catalog :: unit Catalog)) =
      Catalog_groups throwing_catalog"
    by (simp add: selected_groups_def throwing_catalog_def sample_catalog_def anySelected_def isSelected_def
        default_options_def)
  with opened_groups_are_torn_down [OF prod.collapse [symmetric], of throwing_catalog plain_options "sample_world ()"]
    throwing_pass [OF sample_unstopped [of "()"]] show ?thesis by auto
qed

text \<open>
  C6: RUN_TEARDOWN always runs, last. Whenever the selection is one the catalog has, and however the
  run ended short of the process being terminated, by a return, a stop or a std::exception, the last thing
  the sinks are told is the teardown's phase: its heading, the events it posted, its end. And a run whose
  teardown did not return true does not pass.
\<close>

theorem run_teardown_always_runs:
  assumes "hook (Catalog_Teardown cat) = Some h" and "unmatchedSelection cat (SelectedIds options) = []"
    and "runTests cat options w = (r, w')" and "r \<noteq> Inl UnknownException"
  shows "(\<exists>before g es. calls w' = before
            @ OnPhaseStart g kTeardownPhase (hook_description (Catalog_Teardown cat)) # map OnEvent es
            @ [OnPhaseEnd kTeardownPhase])
    \<and> ((\<forall>b. snd (h b) \<noteq> Inr True) \<longrightarrow> r \<noteq> Inr True)"
proof
  obtain e s where b: "run_body cat options (True, w) = (e, s)"
    by (cases "run_body cat options (True, w)")
  obtain ok u where t: "teardownGuard (Catalog_Teardown cat) ''RUN_TEARDOWN'' ''run'' (fst s, snd s) = (ok, u)" by force
  with b assms(2-4) have u: "w' = u" and r: "r = Inr True \<longrightarrow> ok"
    by (auto simp: runTests_def Let_def split: option.splits if_splits)
  show "\<exists>before g es. calls w' = before
            @ OnPhaseStart g kTeardownPhase (hook_description (Catalog_Teardown cat)) # map OnEvent es
            @ [OnPhaseEnd kTeardownPhase]"
    using teardownGuard_step [OF t] assms(1) u by (auto simp: hook_step_def)
  show "(\<forall>b. snd (h b) \<noteq> Inr True) \<longrightarrow> r \<noteq> Inr True"
  proof (intro impI notI)
    assume bad: "\<forall>b. snd (h b) \<noteq> Inr True" and "r = Inr True"
    then have "ok" using r by simp
    obtain x v where v: "run_script h (phase_open kTeardownPhase (hook_description (Catalog_Teardown cat)) (snd s)) = (x, v)"
      by force
    have "x \<noteq> Inr True"
      using v bad by (auto simp: run_script_def split: prod.splits option.splits) (metis snd_conv)
    then show False
      using t v assms(1) \<open>ok\<close> by (auto simp: teardownGuard_def split: sum.splits bool.splits exn.splits)
  qed
qed

theorem run_teardown_always_runs_witness:
  "\<exists>before g es. calls (snd (runTests throwing_catalog plain_options (sample_world ()))) =
     before @ OnPhaseStart g kTeardownPhase ''power down'' # map OnEvent es @ [OnPhaseEnd kTeardownPhase]"
  using run_teardown_always_runs [OF _ sample_selection prod.collapse [symmetric],
      of throwing_catalog "\<lambda>b. ([], Inr True)" "sample_world ()"] throwing_run [OF sample_unstopped [of "()"]]
  by (simp add: throwing_catalog_def sample_catalog_def)

section \<open>The whole run\<close>

lemma journal_begin_op:
  "snd (journal_begin info (sel, j)) = run_op (BeginRun info) j"
  by (simp add: journal_begin_def)

lemma safeRig_journal:
  "safeRig members b (j, f) = (e, j', f') \<Longrightarrow> j' = post (safe_record b) j"
  by (auto simp: safeRig_def Let_def split: if_splits prod.splits option.splits)

lemma safeRig_opens:
  "safeRig members b (j, f) = (None, j', f') \<Longrightarrow> mAttached b \<Longrightarrow> mUseCount f' = (\<lambda>_. None)"
  by (auto simp: safeRig_def Let_def fabric_openAll_def split: if_splits prod.splits option.splits)

text \<open>The stages of a run that reaches its end.\<close>

lemma run_suite_stages:
  assumes "run_suite members cat options info stream_ok w = (Some code, w')"
  obtains r w1 w2 verdict j f w3 closed where
    "runTests cat options (w\<lparr>w_selection := lockCriteriaVariant (w_selection w),
        w_journal := run_op (BeginRun info) (w_journal w)\<rparr>) = (r, w1)"
    and "(r = Inr verdict \<and> w2 = w1) \<or> (\<exists>rec line. verdict = False \<and> w2 = w_post rec (w_cerr line w1))"
    and "safeRig members (w_bench w2) (w_journal w2, w_rig w2) = (None, j, f)"
    and "(closed \<and> w3 = w2\<lparr>w_journal := j, w_rig := f\<rparr>) \<or>
         (\<not> closed \<and> \<not> stream_ok \<and> (\<exists>rec line. w3 = w_post rec (w_cerr line (w2\<lparr>w_journal := j, w_rig := f\<rparr>))))"
    and "w' = w3\<lparr>w_journal := journal_end (verdict \<and> closed) (w_journal w3)\<rparr>"
    and "code = (if SkeletonPath options \<noteq> None then if stream_ok then 0 else 1 else if verdict \<and> closed then 0 else 1)"
    and "RecordPath options \<noteq> None \<and> closed \<longrightarrow> stream_ok"
proof -
  define w0 where "w0 = w\<lparr>w_selection := lockCriteriaVariant (w_selection w),
        w_journal := run_op (BeginRun info) (w_journal w)\<rparr>"
  have begin_eq: "journal_begin info (w_selection w, w_journal w) =
      (lockCriteriaVariant (w_selection w), run_op (BeginRun info) (w_journal w))"
    by (simp add: journal_begin_def)
  obtain q u where g0: "run_guarded members cat options w0 = (q, u)" by force
  obtain p where g: "run_guarded members cat options w0 = (Some p, u)"
    using assms g0
    by (cases q) (simp_all add: run_suite_def begin_eq w0_def [symmetric] Let_def del: run_op.simps)
  obtain r w1 where t: "runTests cat options w0 = (r, w1)" by force
  obtain w2 where w2: "(r = Inr p \<and> w2 = w1) \<or> (\<exists>rec line. p = False \<and> w2 = w_post rec (w_cerr line w1))"
    and s: "\<exists>j f. safeRig members (w_bench w2) (w_journal w2, w_rig w2) = (None, j, f) \<and> u = w2\<lparr>w_journal := j, w_rig := f\<rparr>"
  proof (cases r)
    case (Inr q)
    with g t that [of w1] show thesis
      by (auto simp: run_guarded_def split: prod.splits if_splits)
  next
    case (Inl x)
    with g t that [of "w_post (run_note ''run'' (''uncaught exception during test run: '' @ what x))
        (w_cerr (''Uncaught exception during test run: '' @ what x) w1)"] show thesis
      by (cases x) (auto simp: run_guarded_def split: prod.splits if_splits)
  qed
  from s obtain j f where s: "safeRig members (w_bench w2) (w_journal w2, w_rig w2) = (None, j, f)"
    and u: "u = w2\<lparr>w_journal := j, w_rig := f\<rparr>" by blast
  obtain closed w3 where c: "finish_stream options stream_ok u = (closed, w3)" by force
  have rest: "w' = w3\<lparr>w_journal := journal_end (p \<and> closed) (w_journal w3)\<rparr> \<and>
      code = (if SkeletonPath options \<noteq> None then if stream_ok then 0 else 1 else if p \<and> closed then 0 else 1)"
    using assms c
    by (simp add: run_suite_def begin_eq w0_def [symmetric] g Let_def exit_code_def del: run_op.simps
        split: if_splits)
  have w3: "(closed \<and> w3 = u) \<or> (\<not> closed \<and> \<not> stream_ok \<and> (\<exists>rec line. w3 = w_post rec (w_cerr line u)))"
    and written: "RecordPath options \<noteq> None \<and> closed \<longrightarrow> stream_ok"
    using c by (auto simp: finish_stream_def closeReadingStream_def streamPath_def split: option.splits if_splits)
  show thesis
    by (rule that [OF t [unfolded w0_def] w2 s w3 [unfolded u] rest [THEN conjunct1] rest [THEN conjunct2] written])
qed

text \<open>A rig with no instrument: its safing forgets the fabric's uses.\<close>

lemma bare_rig_safe: "\<exists>j' f'. safeRig [] b (j, f) = (None, j', f')"
  by (simp add: safeRig_def Let_def)

definition bare_fabric :: "unit SwitchFabric" where
  "bare_fabric = \<lparr>mUseCount = (\<lambda>_. Some 1), hardware = ()\<rparr>"

abbreviation sample_suite :: "int option \<times> unit SwitchFabric World" where
  "sample_suite \<equiv> run_suite ([] :: (unit, unit) RigInstrument list) (sample_catalog True) plain_options
     blank_info True (sample_world bare_fabric)"

lemma clean_suite_exit:
  assumes "clean_catalog cat" and "unstopped w" and "RecordPath options = None" and "SkeletonPath options = None" and "unmatchedSelection cat (SelectedIds options) = []"
  shows "fst (run_suite ([] :: ('h, unit) RigInstrument list) cat options info True w) = Some 0"
proof -
  obtain sel jn where jb: "journal_begin info (w_selection w, w_journal w) = (sel, jn)" by force
  let ?w = "w\<lparr>w_selection := sel, w_journal := jn\<rparr>"
  have "unstopped ?w" using assms(2) by (rule unstopped_same) simp
  then have "fst (runTests cat options ?w) = Inr True" by (intro clean_runTests assms)
  then obtain v where t: "runTests cat options ?w = (Inr True, v)" by (metis prod.collapse)
  obtain j f where "safeRig ([] :: ('h, unit) RigInstrument list) (w_bench v) (w_journal v, w_rig v) = (None, j, f)" using bare_rig_safe by blast
  with t have "run_guarded ([] :: ('h, unit) RigInstrument list) cat options ?w = (Some True, v\<lparr>w_journal := j, w_rig := f\<rparr>)"
    by (simp add: run_guarded_def)
  then show ?thesis by (simp add: run_suite_def jb finish_stream_def streamPath_def exit_code_def assms)
qed

lemma sample_suite_exit: "sample_suite = (Some 0, snd sample_suite)"
proof -
  have "fst sample_suite = Some 0"
    by (rule clean_suite_exit [OF sample_clean sample_unstopped _ _ sample_selection]) (simp_all add: default_options_def)
  then show ?thesis by (metis prod.collapse)
qed

text \<open>
  The log of every run that reaches its end is consistent with itself, for every sink: numbering,
  attribution, and every verdict in it the one its own rows give. Whatever the scripts did, stops,
  exceptions and the safing at the end included.
\<close>

theorem every_run_logs_consistently:
  assumes "run_suite members cat options info stream_ok w = (Some code, w')"
    and "w_journal w = fresh_journal sinks info0 clk" and "sink \<in> set sinks"
  shows "consistent (read_log (heard sink (w_journal w')))"
proof -
  obtain r w1 w2 verdict j f w3 closed where
    t: "runTests cat options (w\<lparr>w_selection := lockCriteriaVariant (w_selection w),
        w_journal := run_op (BeginRun info) (w_journal w)\<rparr>) = (r, w1)"
    and w2: "(r = Inr verdict \<and> w2 = w1) \<or> (\<exists>rec line. verdict = False \<and> w2 = w_post rec (w_cerr line w1))"
    and s: "safeRig members (w_bench w2) (w_journal w2, w_rig w2) = (None, j, f)"
    and w3: "(closed \<and> w3 = w2\<lparr>w_journal := j, w_rig := f\<rparr>) \<or>
         (\<not> closed \<and> \<not> stream_ok \<and> (\<exists>rec line. w3 = w_post rec (w_cerr line (w2\<lparr>w_journal := j, w_rig := f\<rparr>))))"
    and w': "w' = w3\<lparr>w_journal := journal_end (verdict \<and> closed) (w_journal w3)\<rparr>"
    by (rule run_suite_stages [OF assms(1)])
  have "reader_agrees sink (w_journal w)"
    using assms(2,3) by (simp add: reader_agrees_def fresh_journal_def heard_def read_log_def new_reader_def)
  then have "reader_agrees sink (run_op (BeginRun info) (w_journal w))" by (rule run_op_agrees)
  then have "reader_agrees sink (w_journal w1)" by (intro log_kept.runTests_inv [OF _ t]) simp
  then have "reader_agrees sink (w_journal w2)" using w2 by (auto simp: w_post_def intro: post_agrees)
  then have "reader_agrees sink j" using safeRig_journal [OF s] by (simp add: post_agrees)
  then have "reader_agrees sink (w_journal w3)" using w3 by (auto simp: w_post_def intro: post_agrees)
  then have "reader_agrees sink (w_journal w')"
    using run_op_agrees [of sink _ "EndRun (verdict \<and> closed)"] by (simp add: w')
  then show ?thesis by (simp add: reader_agrees_def)
qed

theorem every_run_logs_consistently_witness:
  "consistent (read_log (heard 0 (w_journal (snd sample_suite))))"
  by (rule every_run_logs_consistently [where sinks = "[0]", OF sample_suite_exit]) (simp_all add: sample_world_def)

text \<open>
  What an exit status of zero means, for a run that is not a skeleton (theory ProgramFacts has it of the whole program): every selected test was run
  and passed, as often as asked; the sinks were told the run passed, last of all; and a recording
  that was asked for was written.
\<close>

lemma suite_exit_zero:
  assumes "run_suite members cat options info stream_ok w = (Some 0, w')" and "SkeletonPath options = None"
  shows "trace_of verdict_of w' = trace_of verdict_of w
        @ concat (replicate (unat (passCount options)) (pass_verdicts options (Catalog_groups cat)))
    \<and> last (calls w') = OnRunEnd True
    \<and> (RecordPath options \<noteq> None \<longrightarrow> stream_ok)"
proof -
  let ?w0 = "w\<lparr>w_selection := lockCriteriaVariant (w_selection w),
        w_journal := run_op (BeginRun info) (w_journal w)\<rparr>"
  obtain r w1 w2 verdict j f w3 closed where
    t: "runTests cat options ?w0 = (r, w1)"
    and w2: "(r = Inr verdict \<and> w2 = w1) \<or> (\<exists>rec line. verdict = False \<and> w2 = w_post rec (w_cerr line w1))"
    and s: "safeRig members (w_bench w2) (w_journal w2, w_rig w2) = (None, j, f)"
    and w3: "(closed \<and> w3 = w2\<lparr>w_journal := j, w_rig := f\<rparr>) \<or>
         (\<not> closed \<and> \<not> stream_ok \<and> (\<exists>rec line. w3 = w_post rec (w_cerr line (w2\<lparr>w_journal := j, w_rig := f\<rparr>))))"
    and w': "w' = w3\<lparr>w_journal := journal_end (verdict \<and> closed) (w_journal w3)\<rparr>"
    and code: "0 = (if SkeletonPath options \<noteq> None then if stream_ok then 0 else (1 :: int) else if verdict \<and> closed then 0 else 1)"
    and rec: "RecordPath options \<noteq> None \<and> closed \<longrightarrow> stream_ok"
    by (rule run_suite_stages [OF assms(1)])
  have ok: "verdict" "closed" using code assms(2) by (auto split: if_splits)
  then have "runTests cat options ?w0 = (Inr True, w1)" "w2 = w1" using t w2 by auto
  with passing_run_verdicts
  have v1: "trace_of verdict_of w1 = trace_of verdict_of ?w0
      @ concat (replicate (unat (passCount options)) (pass_verdicts options (Catalog_groups cat)))"
    by blast
  have v0: "trace_of verdict_of ?w0 = trace_of verdict_of w"
    by (simp add: trace_of_def calls_def journal_begin_def)
  have vj: "concat (map verdict_of (map snd (told j))) = trace_of verdict_of w1"
    using safeRig_journal [OF s] \<open>w2 = w1\<close> by (simp add: trace_of_def calls_def)
  have "trace_of verdict_of w' = trace_of verdict_of w1"
    using w' w3 ok vj by (simp add: trace_of_def calls_def journal_end_def)
  moreover have "last (calls w') = OnRunEnd True" using w' ok by (simp add: calls_def journal_end_def)
  ultimately show ?thesis using v1 v0 rec ok by simp
qed

lemma suite_exit_zero_sample:
  "trace_of verdict_of (snd sample_suite) = [(''Supply'', ''Rail'', True), (''Supply'', ''Ripple'', True)]
   \<and> last (calls (snd sample_suite)) = OnRunEnd True"
  using suite_exit_zero [OF sample_suite_exit plain_skeleton]
  by (simp add: sample_passes sample_verdicts)

text \<open>The world a run's tests start in: main has begun the run in the journal.\<close>

definition begun_run :: "RunInfo \<Rightarrow> 'b World \<Rightarrow> 'b World" where
  "begun_run info w =
     (case journal_begin info (w_selection w, w_journal w) of
        (sel, j) \<Rightarrow> w\<lparr>w_selection := sel, w_journal := j\<rparr>)"

lemma begun_run_eq:
  "begun_run info w = w\<lparr>w_selection := lockCriteriaVariant (w_selection w),
     w_journal := run_op (BeginRun info) (w_journal w)\<rparr>"
  by (simp add: begun_run_def journal_begin_def)

lemma run_suite_dies:
  assumes "run_suite members cat options info stream_ok w = (None, w')"
    and "runTests cat options (begun_run info w) = (r, w1)"
  shows "r = Inl UnknownException \<or> safing_throws members"
proof (rule disjCI)
  assume calm: "\<not> safing_throws members"
  obtain q u where g: "run_guarded members cat options (begun_run info w) = (q, u)" by force
  have "q = None"
    using assms(1) g by (cases q) (auto simp: run_suite_def begun_run_def Let_def split: prod.splits)
  have safes: "fst (safeRig members b x) = None" for b x
    using calm safeRig_throws [of members b x]
    by (cases "safeRig members b x"; cases "fst (safeRig members b x)") auto
  show "r = Inl UnknownException"
  proof (cases r)
    case (Inr p)
    with g assms(2) \<open>q = None\<close> safes [of "w_bench w1" "(w_journal w1, w_rig w1)"] show ?thesis
      by (auto simp: run_guarded_def split: prod.splits if_splits)
  next
    case (Inl x)
    let ?w2 = "w_post (run_note ''run'' (''uncaught exception during test run: '' @ what x))
                    (w_cerr (''Uncaught exception during test run: '' @ what x) w1)"
    from Inl g assms(2) \<open>q = None\<close> safes [of "w_bench ?w2" "(w_journal ?w2, w_rig ?w2)"] show ?thesis
      by (cases x) (auto simp: run_guarded_def split: prod.splits if_splits)
  qed
qed

text \<open>
  C3: A run leaves the bench safed. The tests end with the bench in some state, by a return, a stop or
  a std::exception. From there every instrument of the rig is told to be safe, in the order of the rig,
  none of them throws, and then every instrument that holds relays is told to open them; what that
  leaves is how the run leaves the bench. No element of the fabric is counted as used any more, and the
  sinks are told of the safing after everything the tests did: only events and the end of the run
  follow it. The process ends without having got so far only when what a script threw is no
  std::exception, or when the safing of an instrument itself throws.
\<close>

theorem every_run_ends_safed:
  assumes "run_suite members cat options info stream_ok w = (code, w')" and "mAttached (w_bench w)"
    and "runTests cat options (begun_run info w) = (r, w1)"
  shows "(case code of
      None \<Rightarrow> r = Inl UnknownException \<or> safing_throws members
    | Some c \<Rightarrow>
        (\<exists>hs. told_in_turn (map SafeOp members @ relay_ops members) hs
            \<and> hs ! 0 = hardware (w_rig w1) \<and> last hs = hardware (w_rig w'))
        \<and> (\<forall>el. \<not> fabric_isClosed el (w_rig w'))
        \<and> (\<exists>before e es ok. calls w' = before @ OnEvent e # map OnEvent es @ [OnRunEnd ok]
              \<and> Method e = Safe \<and> Detail e = ''all instrument outputs off and zeroed, all relays opened''))"
proof (cases code)
  case None
  with run_suite_dies [OF assms(1) [unfolded None] assms(3)] show ?thesis by simp
next
  case (Some c)
  obtain q x w2 verdict j f w3 "end" where
    t: "runTests cat options (w\<lparr>w_selection := lockCriteriaVariant (w_selection w),
        w_journal := run_op (BeginRun info) (w_journal w)\<rparr>) = (q, x)"
    and w2: "(q = Inr verdict \<and> w2 = x) \<or> (\<exists>rec line. verdict = False \<and> w2 = w_post rec (w_cerr line x))"
    and s: "safeRig members (w_bench w2) (w_journal w2, w_rig w2) = (None, j, f)"
    and w3: "(end \<and> w3 = w2\<lparr>w_journal := j, w_rig := f\<rparr>) \<or>
         (\<not> end \<and> \<not> stream_ok \<and> (\<exists>rec line. w3 = w_post rec (w_cerr line (w2\<lparr>w_journal := j, w_rig := f\<rparr>))))"
    and w': "w' = w3\<lparr>w_journal := journal_end (verdict \<and> end) (w_journal w3)\<rparr>"
    by (rule run_suite_stages [OF assms(1) [unfolded Some]])
  have "x = w1" using t assms(3) by (simp add: begun_run_eq)
  have "w_bench w1 = w_bench w \<and> w_selection w1 = lockCriteriaVariant (w_selection w)"
    unfolding \<open>x = w1\<close> [symmetric] by (rule bench_kept.runTests_inv [OF _ t]) simp
  then have b2: "w_bench w2 = w_bench w" using w2 \<open>x = w1\<close> by auto
  have r2: "w_rig w2 = w_rig w1" using w2 \<open>x = w1\<close> by (auto simp: w_post_def w_cerr_def)
  have f: "w_rig w' = f" using w' w3 by (auto simp: w_post_def w_cerr_def)
  have attached: "mAttached (w_bench w2)" using b2 assms(2) by simp
  have "\<exists>hs. told_in_turn (map SafeOp members @ relay_ops members) hs
      \<and> hs ! 0 = hardware (w_rig w1) \<and> last hs = hardware (w_rig w')"
    using safeRig_in_turn [OF s attached] by (simp add: r2 f)
  moreover have "\<forall>el. \<not> fabric_isClosed el (w_rig w')"
    using safeRig_opens [OF s attached] by (simp add: f fabric_isClosed_def)
  moreover define e where "e = posted_event (safe_record (w_bench w2)) (w_journal w2)"
  have j: "map snd (told j) = calls w2 @ [OnEvent e]"
    using safeRig_journal [OF s] by (simp add: calls_def e_def)
  have "\<exists>es. calls w3 = calls w2 @ OnEvent e # map OnEvent es"
    using w3
  proof
    assume "end \<and> w3 = w2\<lparr>w_journal := j, w_rig := f\<rparr>"
    with j show ?thesis by (intro exI [of _ "[]"]) (simp add: calls_def)
  next
    assume "\<not> end \<and> \<not> stream_ok \<and> (\<exists>rec line. w3 = w_post rec (w_cerr line (w2\<lparr>w_journal := j, w_rig := f\<rparr>)))"
    then obtain rec line where "w3 = w_post rec (w_cerr line (w2\<lparr>w_journal := j, w_rig := f\<rparr>))" by blast
    with j show ?thesis
      by (intro exI [of _ "[posted_event rec j]"]) (simp add: calls_def w_post_def w_cerr_def)
  qed
  then have "\<exists>es. calls w' = calls w2 @ OnEvent e # map OnEvent es @ [OnRunEnd (verdict \<and> end)]"
    by (auto simp: w' calls_def journal_end_def)
  moreover have "Method e = Safe" "Detail e = ''all instrument outputs off and zeroed, all relays opened''"
    using attached by (simp_all add: e_def safe_record_def)
  ultimately show ?thesis unfolding Some option.case by blast
qed

text \<open>
  The sample run on the rig of a mainframe and a supply, both left on by it: the relays are open
  and the output is off.
\<close>

lemma begun_unstopped: "unstopped (begun_run info (sample_world b))"
  by (simp add: begun_run_eq unstopped_def sample_world_def)

lemma two_instruments_in_turn:
  assumes "told_in_turn (map SafeOp two_instruments @ relay_ops two_instruments) hs"
  shows "last hs = (False, False)"
proof -
  from assms have len: "length hs = 4" by (simp add: told_in_turn_def two_instruments_def relay_ops_def List.map_filter_def)
  then obtain a b c d where hs: "hs = [a, b, c, d]" by (auto simp: numeral_eq_Suc length_Suc_conv)
  from assms have "c = (False, snd b)" "d = (fst c, False)"
    by (auto simp: told_in_turn_def two_instruments_def relay_ops_def List.map_filter_def hs numeral_eq_Suc
        All_less_Suc)
  with hs show ?thesis by simp
qed

definition live_fabric :: "(bool \<times> bool) SwitchFabric" where
  "live_fabric = \<lparr>mUseCount = (\<lambda>_. Some 1), hardware = (True, True)\<rparr>"

abbreviation live_suite :: "int option \<times> (bool \<times> bool) SwitchFabric World" where
  "live_suite \<equiv> run_suite two_instruments throwing_catalog plain_options blank_info True (sample_world live_fabric)"

theorem every_run_ends_safed_witness:
  "hardware (w_rig (snd live_suite)) = (False, False)
   \<and> \<not> fabric_isClosed \<lparr>device = 0, channel = 1\<rparr> (w_rig (snd live_suite))"
proof -
  have calm: "\<not> safing_throws two_instruments"
    by (simp add: safing_throws_def two_instruments_def)
  note c3 = every_run_ends_safed [OF prod.collapse [symmetric] _ prod.collapse [symmetric],
      where w = "sample_world live_fabric" and members = two_instruments and cat = throwing_catalog
      and options = plain_options and info = blank_info and stream_ok = True]
  have "mAttached (w_bench (sample_world live_fabric))" by (simp add: sample_world_def)
  from c3 [OF this] calm throwing_run [OF begun_unstopped, of blank_info live_fabric] two_instruments_in_turn show ?thesis
    by (cases "fst live_suite") auto
qed

end
