(* ===== verification/Bytes.thy ===== *)
theory Bytes
  imports Prelude
begin

text \<open>
  Payloads: core/quantities/bytes.hpp and bytes.cpp. A payload is a list of octets; the text it is
  made from is a list of characters, one per octet. The operations that throw give the message of
  the exception (std::invalid_argument and std::out_of_range) or the payload.
\<close>

unbundle bit_operations_syntax

type_synonym octet = "8 word"
type_synonym Bytes = "octet list"

section \<open>Text\<close>

definition toByte :: "char \<Rightarrow> octet" where
  "toByte c = word_of_nat (of_char c)"

definition char_of_octet :: "octet \<Rightarrow> char" where
  "char_of_octet w = char_of (unat w)"

definition bytes_of_text :: "string \<Rightarrow> Bytes" where
  "bytes_of_text s = map toByte s"

definition bytes_text :: "Bytes \<Rightarrow> string" where
  "bytes_text b = map char_of_octet b"

lemma octet_less [simp]: "unat (w :: octet) < 256"
proof -
  have "unat w < 2 ^ LENGTH(8)" by (rule unsigned_less)
  then show ?thesis by simp
qed

lemma toByte_char_of_octet [simp]: "toByte (char_of_octet w) = w"
  by (simp add: toByte_def char_of_octet_def of_char_of take_bit_eq_mod)

lemma char_of_octet_toByte [simp]: "char_of_octet (toByte c) = c"
  by (simp add: toByte_def char_of_octet_def unat_of_nat take_bit_eq_mod)

lemma bytes_text_of_text [simp]: "bytes_text (bytes_of_text s) = s"
  by (simp add: bytes_text_def bytes_of_text_def comp_def)

lemma bytes_of_text_text [simp]: "bytes_of_text (bytes_text b) = b"
  by (simp add: bytes_text_def bytes_of_text_def comp_def)

section \<open>Hexadecimal\<close>

definition hexDigit :: "char \<Rightarrow> int" where
  "hexDigit c =
     (let n = of_char c :: int
      in if 48 \<le> n \<and> n \<le> 57 then n - 48
         else if 97 \<le> n \<and> n \<le> 102 then n - 97 + 10
         else if 65 \<le> n \<and> n \<le> 70 then n - 65 + 10
         else - 1)"

definition hex_skipped :: "char \<Rightarrow> bool" where
  "hex_skipped c \<longleftrightarrow> c \<in> {CHR '' '', CHR 0x09, CHR 0x0A, CHR 0x0D}"

definition bad_hex_digit :: "char \<Rightarrow> string" where
  "bad_hex_digit c = ''Bytes::fromHex: '' @ [CHR 0x27, c, CHR 0x27] @ '' is not a hex digit''"

definition odd_hex :: string where
  "odd_hex = ''Bytes::fromHex: odd number of hex digits -- every byte needs two''"

text \<open>The loop: the digit that waits for its other half, and the octets so far.\<close>

fun fromHex_loop :: "string \<Rightarrow> int option \<Rightarrow> Bytes \<Rightarrow> string + Bytes" where
  "fromHex_loop [] pending data = (case pending of None \<Rightarrow> Inr data | Some _ \<Rightarrow> Inl odd_hex)"
| "fromHex_loop (c # cs) pending data =
     (if hex_skipped c then fromHex_loop cs pending data
      else
        (let digit = hexDigit c
         in if digit < 0 then Inl (bad_hex_digit c)
            else (case pending of
                    None \<Rightarrow> fromHex_loop cs (Some digit) data
                  | Some high \<Rightarrow>
                      fromHex_loop cs None (data @ [word_of_int (push_bit 4 high OR digit)]))))"

definition fromHex :: "string \<Rightarrow> string + Bytes" where
  "fromHex hex = fromHex_loop hex None []"

definition hex_char :: "nat \<Rightarrow> char" where
  "hex_char d = (if d < 10 then char_of (48 + d) else char_of (55 + d))"

text \<open>snprintf of an octet with format 02X.\<close>

definition octet_hex :: "octet \<Rightarrow> string" where
  "octet_hex w = [hex_char (unat w div 16), hex_char (unat w mod 16)]"

fun bytes_hex_from :: "string \<Rightarrow> Bytes \<Rightarrow> string" where
  "bytes_hex_from result [] = result"
| "bytes_hex_from result (w # ws) =
     bytes_hex_from ((if result \<noteq> [] then result @ '' '' else result) @ octet_hex w) ws"

definition bytes_hex :: "Bytes \<Rightarrow> string" where
  "bytes_hex b = bytes_hex_from [] b"

definition unspacedHex :: "Bytes \<Rightarrow> string" where
  "unspacedHex payload = filter (\<lambda>c. c \<noteq> CHR '' '') (bytes_hex payload)"

lemma of_char_hex_char: "d < 16 \<Longrightarrow> (of_char (hex_char d) :: nat) = (if d < 10 then 48 + d else 55 + d)"
  by (simp add: hex_char_def)

lemma of_char_hex_char_int: "d < 16 \<Longrightarrow> (of_char (hex_char d) :: int) = (if d < 10 then 48 + int d else 55 + int d)"
proof -
  assume "d < 16"
  have "(of_char (hex_char d) :: int) = int (of_char (hex_char d))" by (rule of_nat_of_char [symmetric])
  with \<open>d < 16\<close> show ?thesis by (simp add: of_char_hex_char)
qed

lemma hexDigit_hex_char [simp]: "d < 16 \<Longrightarrow> hexDigit (hex_char d) = int d"
  by (auto simp: hexDigit_def of_char_hex_char_int Let_def)

lemma hex_char_not_skipped [simp]: "d < 16 \<Longrightarrow> \<not> hex_skipped (hex_char d)"
proof -
  assume "d < 16"
  then have "(of_char (hex_char d) :: nat) \<ge> 48" by (simp add: of_char_hex_char)
  then show ?thesis by (auto simp: hex_skipped_def)
qed

lemma hex_char_not_space [simp]: "d < 16 \<Longrightarrow> hex_char d \<noteq> CHR '' ''"
  using hex_char_not_skipped by (auto simp: hex_skipped_def)

lemma nibbles_or: "0 \<le> d \<Longrightarrow> d < 16 \<Longrightarrow> push_bit 4 h OR d = h * 16 + (d :: int)"
proof -
  assume d: "0 \<le> d" "d < 16"
  then have "take_bit 4 d = d" by (simp add: take_bit_eq_mod)
  then have "\<not> bit (push_bit 4 h) n \<or> \<not> bit d n" for n
    by (metis bit_push_bit_iff_int bit_take_bit_iff not_le)
  then have "push_bit 4 h + d = push_bit 4 h OR d" by (rule disjunctive_add)
  then show ?thesis by (simp add: push_bit_eq_mult)
qed

lemma octet_nibbles [simp]:
  "word_of_int (push_bit 4 (int (unat w div 16)) OR int (unat w mod 16)) = (w :: octet)"
proof -
  have "push_bit 4 (int (unat w div 16)) OR int (unat w mod 16)
      = int (unat w div 16) * 16 + int (unat w mod 16)"
    by (rule nibbles_or) simp_all
  also have "\<dots> = int (unat w)" by (metis div_mult_mod_eq of_nat_add of_nat_mult of_nat_numeral)
  finally show ?thesis by simp
qed

lemma fromHex_loop_octet:
  "fromHex_loop (octet_hex w @ s) None data = fromHex_loop s None (data @ [w])"
proof -
  have "unat w div 16 < 16" "unat w mod 16 < 16"
    using octet_less [of w] by (simp_all add: less_mult_imp_div_less)
  then show ?thesis by (simp add: octet_hex_def Let_def)
qed

lemma fromHex_loop_skips:
  "fromHex_loop (filter (\<lambda>c. \<not> hex_skipped c) s) pending data = fromHex_loop s pending data"
  by (induction s arbitrary: pending data) (auto simp: Let_def split: option.splits)

lemma bytes_hex_from_filter:
  "filter (\<lambda>c. \<not> hex_skipped c) (bytes_hex_from result b)
     = filter (\<lambda>c. \<not> hex_skipped c) result @ concat (map octet_hex b)"
proof (induction b arbitrary: result)
  case (Cons w ws)
  have "unat w div 16 < 16" "unat w mod 16 < 16"
    using octet_less [of w] by (simp_all add: less_mult_imp_div_less)
  then have "filter (\<lambda>c. \<not> hex_skipped c) (octet_hex w) = octet_hex w"
    by (simp add: octet_hex_def)
  with Cons.IH show ?case by (simp add: hex_skipped_def [of "CHR '' ''"])
qed simp

lemma fromHex_loop_octets:
  "fromHex_loop (concat (map octet_hex b)) None data = Inr (data @ b)"
  by (induction b arbitrary: data) (simp_all add: fromHex_loop_octet)

lemma fromHex_hex [simp]: "fromHex (bytes_hex b) = Inr b"
  by (metis fromHex_def bytes_hex_def fromHex_loop_skips bytes_hex_from_filter fromHex_loop_octets
      append_Nil filter.simps(1))

lemma fromHex_filter: "(\<And>c. P c \<or> hex_skipped c) \<Longrightarrow> fromHex (filter P s) = fromHex s"
proof -
  assume "\<And>c. P c \<or> hex_skipped c"
  then have "(\<lambda>c. P c \<and> \<not> hex_skipped c) = (\<lambda>c. \<not> hex_skipped c)" by blast
  then have "filter (\<lambda>c. \<not> hex_skipped c) (filter P s) = filter (\<lambda>c. \<not> hex_skipped c) s"
    by (simp add: conj_commute)
  then show ?thesis by (metis fromHex_def fromHex_loop_skips)
qed

lemma fromHex_unspacedHex [simp]: "fromHex (unspacedHex b) = Inr b"
  unfolding unspacedHex_def by (subst fromHex_filter) (auto simp: hex_skipped_def)

section \<open>Parts of a payload\<close>

definition bytes_at :: "Bytes \<Rightarrow> nat \<Rightarrow> string + octet" where
  "bytes_at b index =
     (if index \<ge> length b
      then Inl (''Bytes::at: index '' @ show_nat index @ '' is past the end of a '' @ show_nat (length b)
                @ ''-byte payload'')
      else Inr (b ! index))"

text \<open>
  The offset and the count are size_t: their sum, which only the message takes, wraps, and the guard
  is written so that it does not need the sum.
\<close>

definition bytes_slice :: "Bytes \<Rightarrow> 64 word \<Rightarrow> 64 word \<Rightarrow> string + Bytes" where
  "bytes_slice b offset n =
     (if offset > word_of_nat (length b) \<or> n > word_of_nat (length b) - offset
      then Inl (''Bytes::slice: ['' @ show_nat (unat offset) @ '', '' @ show_nat (unat (offset + n))
                @ '') is past the end of a '' @ show_nat (length b) @ ''-byte payload'')
      else Inr (take (unat n) (drop (unat offset) b)))"

fun before_from :: "Bytes \<Rightarrow> Bytes \<Rightarrow> Bytes" where
  "before_from delimiter [] = []"
| "before_from delimiter (w # ws) =
     (if take (length delimiter) (w # ws) = delimiter then [] else w # before_from delimiter ws)"

definition bytes_before :: "Bytes \<Rightarrow> Bytes \<Rightarrow> Bytes" where
  "bytes_before b delimiter = (if delimiter = [] then b else before_from delimiter b)"

definition bytes_startsWith :: "Bytes \<Rightarrow> Bytes \<Rightarrow> bool" where
  "bytes_startsWith b prefix \<longleftrightarrow> length prefix \<le> length b \<and> take (length prefix) b = prefix"

definition bytes_endsWith :: "Bytes \<Rightarrow> Bytes \<Rightarrow> bool" where
  "bytes_endsWith b suffix \<longleftrightarrow> length suffix \<le> length b \<and> drop (length b - length suffix) b = suffix"

section \<open>Bitwise operations\<close>

definition bytes_combine :: "(octet \<Rightarrow> octet \<Rightarrow> octet) \<Rightarrow> string \<Rightarrow> Bytes \<Rightarrow> Bytes \<Rightarrow> string + Bytes" where
  "bytes_combine op name lhs rhs =
     (if length lhs \<noteq> length rhs
      then Inl (''Bytes::'' @ name @ '': operands differ in length ('' @ show_nat (length lhs) @ '' vs ''
                @ show_nat (length rhs) @ '') -- a bitwise operation needs one octet on each side'')
      else Inr (map2 op lhs rhs))"

definition bytes_or :: "Bytes \<Rightarrow> Bytes \<Rightarrow> string + Bytes" where
  "bytes_or = bytes_combine (OR) ''operator|''"

definition bytes_and :: "Bytes \<Rightarrow> Bytes \<Rightarrow> string + Bytes" where
  "bytes_and = bytes_combine (AND) ''operator&''"

definition bytes_xor :: "Bytes \<Rightarrow> Bytes \<Rightarrow> string + Bytes" where
  "bytes_xor = bytes_combine (XOR) ''operator^''"

definition bytes_not :: "Bytes \<Rightarrow> Bytes" where
  "bytes_not = map (\<lambda>w. NOT w)"

section \<open>A payload in a log\<close>

definition kMaxDescribedBody :: nat where
  "kMaxDescribedBody = 48"

definition isRenderableAsText :: "octet \<Rightarrow> bool" where
  "isRenderableAsText w \<longleftrightarrow> (0x20 \<le> w \<and> w < 0x7F) \<or> w = 0x09 \<or> w = 0x0D \<or> w = 0x0A"

definition text_of_octet :: "octet \<Rightarrow> string" where
  "text_of_octet w =
     (if w = 0x09 then [CHR 0x5C, CHR ''t'']
      else if w = 0x0D then [CHR 0x5C, CHR ''r'']
      else if w = 0x0A then [CHR 0x5C, CHR ''n'']
      else if w = 0x5C then [CHR 0x5C, CHR 0x5C]
      else if w = 0x22 then [CHR 0x5C, CHR 0x22]
      else [char_of_octet w])"

definition append_octet :: "bool \<Rightarrow> string \<Rightarrow> octet \<Rightarrow> string" where
  "append_octet asText out w =
     (if asText then out @ text_of_octet w
      else (if out \<noteq> [] then out @ '' '' else out) @ octet_hex w)"

text \<open>The body, and whether it was cut short: nothing is added to a body that is full.\<close>

fun describe_body :: "bool \<Rightarrow> string \<Rightarrow> Bytes \<Rightarrow> string \<times> bool" where
  "describe_body asText body [] = (body, False)"
| "describe_body asText body (w # ws) =
     (if length body \<ge> kMaxDescribedBody then (body, True)
      else describe_body asText (append_octet asText body w) ws)"

definition describe_bytes :: "Bytes \<Rightarrow> string" where
  "describe_bytes v =
     (let asText = list_all isRenderableAsText v;
          (body, abridged) = describe_body asText [] v;
          opening = (if asText then [CHR 0x22] else ''<'');
          closing = (if asText then [CHR 0x22] else ''>'')
      in if \<not> abridged then opening @ body @ closing
         else opening @ body @ (if asText then ''...'' else '' ...'') @ closing
              @ '' ('' @ show_nat (length v) @ '' bytes)'')"

section \<open>What the parts are\<close>

lemma bytes_before_prefix: "\<exists>rest. b = bytes_before b d @ rest"
proof -
  have "\<exists>rest. b = before_from d b @ rest"
    by (induction b) auto
  then show ?thesis by (simp add: bytes_before_def)
qed

text \<open>
  before() on a payload that holds the delimiter gives exactly what stands before its first
  occurrence, and all of a payload that does not hold it.
\<close>

theorem bytes_before_first:
  assumes "d \<noteq> []"
  shows "((\<exists>u v. b = u @ d @ v) \<longrightarrow>
           (\<exists>v. b = bytes_before b d @ d @ v \<and> (\<forall>u' v'. b = u' @ d @ v' \<longrightarrow> length (bytes_before b d) \<le> length u')))
    \<and> ((\<forall>u v. b \<noteq> u @ d @ v) \<longrightarrow> bytes_before b d = b)"
  using assms
proof (induction b)
  case Nil
  then show ?case by (simp add: bytes_before_def)
next
  case (Cons w ws)
  show ?case
  proof (cases "take (length d) (w # ws) = d")
    case True
    then have "bytes_before (w # ws) d = []" using Cons.prems by (simp add: bytes_before_def)
    moreover have "w # ws = [] @ d @ drop (length d) (w # ws)"
      using True by (metis append_Nil append_take_drop_id)
    ultimately show ?thesis by (metis append_Nil length_0_conv zero_le)
  next
    case False
    then have b: "bytes_before (w # ws) d = w # bytes_before ws d"
      using Cons.prems by (simp add: bytes_before_def)
    have split: "w # ws = u @ d @ v \<longleftrightarrow> (\<exists>u'. u = w # u' \<and> ws = u' @ d @ v)" for u v
      using False by (cases u) auto
    show ?thesis
      using Cons.IH [OF Cons.prems] unfolding b split by (fastforce)
  qed
qed

theorem bytes_before_first_witness:
  "\<exists>v. bytes_of_text ''OK:1:2'' = bytes_before (bytes_of_text ''OK:1:2'') (bytes_of_text '':'') @ bytes_of_text '':'' @ v
     \<and> length (bytes_before (bytes_of_text ''OK:1:2'') (bytes_of_text '':'')) \<le> 2"
proof -
  have b: "bytes_of_text ''OK:1:2'' = bytes_of_text ''OK'' @ bytes_of_text '':'' @ bytes_of_text ''1:2''"
    by (simp add: bytes_of_text_def)
  have "bytes_of_text '':'' \<noteq> []" by (simp add: bytes_of_text_def)
  note first = bytes_before_first [OF this, of "bytes_of_text ''OK:1:2''", THEN conjunct1]
  from first b obtain v where
      "bytes_of_text ''OK:1:2'' = bytes_before (bytes_of_text ''OK:1:2'') (bytes_of_text '':'') @ bytes_of_text '':'' @ v"
      "length (bytes_before (bytes_of_text ''OK:1:2'') (bytes_of_text '':'')) \<le> length (bytes_of_text ''OK'')"
    by blast
  then show ?thesis by (auto simp: bytes_of_text_def)
qed

text \<open>
  slice() is exact for every offset and count a caller can pass, also those whose sum wraps: it
  succeeds exactly when the range lies in the payload, and then gives exactly that range.
\<close>

theorem bytes_slice_exact:
  assumes "length b < 2 ^ 64"
  shows "bytes_slice b offset n =
     (if unat offset + unat n \<le> length b then Inr (take (unat n) (drop (unat offset) b))
      else Inl (''Bytes::slice: ['' @ show_nat (unat offset) @ '', '' @ show_nat (unat (offset + n))
                @ '') is past the end of a '' @ show_nat (length b) @ ''-byte payload''))"
proof -
  have len: "unat (word_of_nat (length b) :: 64 word) = length b"
    using assms by (simp add: unat_of_nat take_bit_eq_mod)
  have "\<not> (offset > word_of_nat (length b) \<or> n > word_of_nat (length b) - offset)
      \<longleftrightarrow> unat offset + unat n \<le> length b"
    using len by (auto simp: word_less_nat_alt not_less unat_sub_if')
  then show ?thesis unfolding bytes_slice_def by (metis (full_types))
qed

theorem bytes_slice_exact_witness:
  "\<exists>message. bytes_slice (bytes_of_text ''ACK'') 2 0xFFFFFFFFFFFFFFFF = Inl message"
proof -
  have "length (bytes_of_text ''ACK'') < 2 ^ 64" by (simp add: bytes_of_text_def)
  from bytes_slice_exact [OF this, of 2 "0xFFFFFFFFFFFFFFFF"] show ?thesis
    by (simp add: bytes_of_text_def)
qed

end
