(* ===== verification/Quantity.thy ===== *)
theory Quantity
  imports Double Bytes
begin

text \<open>
  What an observation can be: core/quantities/quantity_kind.hpp and quantity_kind.cpp, the unit
  symbols of quantity.hpp, and core/quantities/waveform.hpp and waveform.cpp. A QuantityVariant is
  its kind, the index of the alternative, and a number. The samples of a trace are the bit patterns
  of its doubles, which is what a recording stores; arithmetic reads them as numbers.
\<close>

datatype QuantityKind =
    Voltage | Current | Power | ApparentPower | Resistance | Time | Decibel | Frequency | PowerFactor
  | ReactivePower | Temperature | TemperatureDelta | Capacitance | Percentage

definition kinds :: "QuantityKind list" where
  "kinds = [Voltage, Current, Power, ApparentPower, Resistance, Time, Decibel, Frequency, PowerFactor,
     ReactivePower, Temperature, TemperatureDelta, Capacitance, Percentage]"

lemma in_kinds [simp]: "k \<in> set kinds"
  by (cases k) (simp_all add: kinds_def)

fun to_string_kind :: "QuantityKind \<Rightarrow> string" where
  "to_string_kind Voltage = ''Voltage''"
| "to_string_kind Current = ''Current''"
| "to_string_kind Power = ''Power''"
| "to_string_kind ApparentPower = ''ApparentPower''"
| "to_string_kind Resistance = ''Resistance''"
| "to_string_kind Time = ''Time''"
| "to_string_kind Decibel = ''Decibel''"
| "to_string_kind Frequency = ''Frequency''"
| "to_string_kind PowerFactor = ''PowerFactor''"
| "to_string_kind ReactivePower = ''ReactivePower''"
| "to_string_kind Temperature = ''Temperature''"
| "to_string_kind TemperatureDelta = ''TemperatureDelta''"
| "to_string_kind Capacitance = ''Capacitance''"
| "to_string_kind Percentage = ''Percentage''"

definition quantityKindFromString :: "string \<Rightarrow> string + QuantityKind" where
  "quantityKindFromString text =
     (case find (\<lambda>k. to_string_kind k = text) kinds of
        Some k \<Rightarrow> Inr k
      | None \<Rightarrow> Inl (''quantityKindFromString: unknown kind '' @ [CHR 0x27] @ text @ [CHR 0x27]))"

fun unitSymbol :: "QuantityKind \<Rightarrow> string" where
  "unitSymbol Voltage = ''V''"
| "unitSymbol Current = ''A''"
| "unitSymbol Power = ''W''"
| "unitSymbol ApparentPower = ''VA''"
| "unitSymbol Resistance = ''Ohm''"
| "unitSymbol Time = ''s''"
| "unitSymbol Decibel = ''dB''"
| "unitSymbol Frequency = ''Hz''"
| "unitSymbol PowerFactor = ''''"
| "unitSymbol ReactivePower = ''var''"
| "unitSymbol Temperature = ''degC''"
| "unitSymbol TemperatureDelta = ''K''"
| "unitSymbol Capacitance = ''F''"
| "unitSymbol Percentage = ''%''"

definition quantityKindFromSymbol :: "string \<Rightarrow> QuantityKind option" where
  "quantityKindFromSymbol symbol = find (\<lambda>k. unitSymbol k = symbol) kinds"

lemma quantityKindFromString_name [simp]: "quantityKindFromString (to_string_kind k) = Inr k"
  by (cases k) (simp_all add: quantityKindFromString_def kinds_def)

lemma quantityKindFromString_SomeD: "quantityKindFromString s = Inr k \<Longrightarrow> s = to_string_kind k"
  by (auto simp: quantityKindFromString_def split: option.splits dest: find_SomeD)

lemma quantityKindFromSymbol_symbol [simp]: "quantityKindFromSymbol (unitSymbol k) = Some k"
  by (cases k) (simp_all add: quantityKindFromSymbol_def kinds_def)

lemma to_string_kind_plain:
  "to_string_kind k \<noteq> []" "CHR 0x09 \<notin> set (to_string_kind k)" "CHR 0x0A \<notin> set (to_string_kind k)"
  "hd (to_string_kind k) \<noteq> CHR 0x3C"
  by (cases k; simp)+

section \<open>Values\<close>

datatype QuantityVariant = Quantity (kind: QuantityKind) (rawValue: double)

definition quantityVariantFromKind :: "QuantityKind \<Rightarrow> double \<Rightarrow> QuantityVariant" where
  "quantityVariantFromKind k v = Quantity k v"

definition asQuantity :: "QuantityKind \<Rightarrow> QuantityVariant \<Rightarrow> string + double" where
  "asQuantity k v =
     (if kind v = k then Inr (rawValue v)
      else Inl (''QuantityVariant holds a different unit than requested ('' @ to_string_kind (kind v) @ '')''))"

section \<open>Traces\<close>

text \<open>The number an IEEE 754 bit pattern of 64 bits stands for.\<close>

definition double_of_bits :: "64 word \<Rightarrow> double" where
  "double_of_bits w =
     (let exponent = unat ((drop_bit 52 w) AND 0x7FF);
          mantissa = unat (w AND 0xFFFFFFFFFFFFF);
          magnitude =
            (if exponent = 0x7FF then (if mantissa = 0 then PosInf else NaN)
             else if exponent = 0 then Fin (of_nat mantissa / 2 ^ 1074)
             else if exponent \<ge> 1075 then Fin (of_nat (2 ^ 52 + mantissa) * 2 ^ (exponent - 1075))
             else Fin (of_nat (2 ^ 52 + mantissa) / 2 ^ (1075 - exponent)))
      in if bit w 63 then d_neg magnitude else magnitude)"

record Timing =
  Origin :: double
  Increment :: double

record Waveform =
  mKind :: QuantityKind
  mTiming :: Timing
  mSamples :: "64 word list"

definition waveform_at :: "Waveform \<Rightarrow> nat \<Rightarrow> string + double" where
  "waveform_at w index =
     (if index \<ge> length (mSamples w)
      then Inl (''Waveform::at: sample '' @ show_nat index @ '' is past the end of a ''
                @ show_nat (length (mSamples w)) @ ''-sample trace'')
      else Inr (double_of_bits (mSamples w ! index)))"

text \<open>
  std::ranges::min_element and max_element, which compare with \<open><\<close> only: the first of the
  elements that no later one beats.
\<close>

fun element_by :: "(double \<Rightarrow> double \<Rightarrow> bool) \<Rightarrow> double \<Rightarrow> double list \<Rightarrow> double" where
  "element_by beats best [] = best"
| "element_by beats best (x # xs) = element_by beats (if beats x best then x else best) xs"

definition waveform_values :: "Waveform \<Rightarrow> double list" where
  "waveform_values w = map double_of_bits (mSamples w)"

definition empty_trace_error :: "string \<Rightarrow> string" where
  "empty_trace_error reduction =
     ''Waveform::'' @ reduction @ '': the trace is empty -- there is nothing to reduce''"

definition minimumValue :: "Waveform \<Rightarrow> string + QuantityVariant" where
  "minimumValue w =
     (case waveform_values w of
        [] \<Rightarrow> Inl (empty_trace_error ''minimum'')
      | x # xs \<Rightarrow> Inr (quantityVariantFromKind (mKind w) (element_by d_lt x xs)))"

definition maximumValue :: "Waveform \<Rightarrow> string + QuantityVariant" where
  "maximumValue w =
     (case waveform_values w of
        [] \<Rightarrow> Inl (empty_trace_error ''maximum'')
      | x # xs \<Rightarrow> Inr (quantityVariantFromKind (mKind w) (element_by (\<lambda>a b. d_lt b a) x xs)))"

lemma element_by_best:
  assumes "\<And>a b c. le a b \<Longrightarrow> le b c \<Longrightarrow> le a c"
    and "\<And>a b. a \<in> S \<Longrightarrow> b \<in> S \<Longrightarrow> if beats a b then le a b else le b a"
    and "set (x # xs) \<subseteq> S"
  shows "element_by beats x xs \<in> set (x # xs) \<and> (\<forall>y \<in> set (x # xs). le (element_by beats x xs) y)"
  using assms(3)
proof (induction xs arbitrary: x)
  case Nil
  then show ?case using assms(2) [of x x] by (auto split: if_splits)
next
  case (Cons z zs)
  let ?b = "if beats z x then z else x"
  have IH: "element_by beats ?b zs \<in> set (?b # zs)" "\<forall>y \<in> set (?b # zs). le (element_by beats ?b zs) y"
    using Cons.IH [of ?b] Cons.prems by auto
  have "le ?b z" "le ?b x"
    using assms(2) [of z x] assms(2) [of z z] assms(2) [of x x] Cons.prems by (auto split: if_splits)
  moreover have "le (element_by beats ?b zs) ?b" using IH(2) by simp
  ultimately have "le (element_by beats ?b zs) z" "le (element_by beats ?b zs) x"
    using assms(1) by blast+
  with IH show ?case by (auto split: if_splits)
qed

lemma d_lt_else: "a \<noteq> NaN \<Longrightarrow> b \<noteq> NaN \<Longrightarrow> if d_lt a b then d_le a b else d_le b a"
  using d_total [of a b] by (auto simp: d_le_def d_eq_iff)

text \<open>
  The extremes of a trace that has no NaN in it are samples of it and bound every sample; an
  empty trace has none, and says so.
\<close>

theorem trace_extremes:
  assumes "NaN \<notin> set (waveform_values w)"
  shows "(case (minimumValue w, maximumValue w) of
       (Inr lo, Inr hi) \<Rightarrow>
         kind lo = mKind w \<and> kind hi = mKind w
         \<and> {rawValue lo, rawValue hi} \<subseteq> set (waveform_values w)
         \<and> list_all (\<lambda>y. d_le (rawValue lo) y \<and> d_le y (rawValue hi)) (waveform_values w)
     | (Inl e, Inl e') \<Rightarrow> mSamples w = [] \<and> e = empty_trace_error ''minimum'' \<and> e' = empty_trace_error ''maximum''
     | _ \<Rightarrow> False)"
proof (cases "waveform_values w")
  case Nil
  then show ?thesis by (simp add: minimumValue_def maximumValue_def) (simp add: waveform_values_def)
next
  case (Cons x xs)
  have S: "set (x # xs) \<subseteq> - {NaN}" using assms Cons by auto
  have "element_by d_lt x xs \<in> set (x # xs) \<and> (\<forall>y \<in> set (x # xs). d_le (element_by d_lt x xs) y)"
    by (rule element_by_best [OF d_le_trans _ S]) (auto dest: d_lt_else)
  moreover have "element_by (\<lambda>a b. d_lt b a) x xs \<in> set (x # xs)
      \<and> (\<forall>y \<in> set (x # xs). d_le y (element_by (\<lambda>a b. d_lt b a) x xs))"
    by (rule element_by_best [where le = "\<lambda>a b. d_le b a", OF d_le_trans _ S]) (auto dest: d_lt_else)
  ultimately show ?thesis using Cons
    by (simp add: minimumValue_def maximumValue_def quantityVariantFromKind_def list_all_iff)
qed

theorem trace_extremes_witness:
  "case maximumValue \<lparr>mKind = Voltage, mTiming = \<lparr>Origin = Fin 0, Increment = Fin 1\<rparr>,
        mSamples = [0x4000000000000000, 0x3FF0000000000000]\<rparr> of
     Inr hi \<Rightarrow> d_le (Fin 1) (rawValue hi) | Inl e \<Rightarrow> False"
proof -
  let ?w = "\<lparr>mKind = Voltage, mTiming = \<lparr>Origin = Fin 0, Increment = Fin 1\<rparr>,
        mSamples = [0x4000000000000000, 0x3FF0000000000000]\<rparr>"
  have v: "waveform_values ?w = [Fin 2, Fin 1]"
    by (simp add: waveform_values_def double_of_bits_def Let_def)
  then have "NaN \<notin> set (waveform_values ?w)" by simp
  from trace_extremes [OF this] v show ?thesis
    by (auto split: sum.splits)
qed

end
