(* ===== verification/Recording.thy ===== *)
theory Recording
  imports Quantity
begin

text \<open>
  Recordings: core/session/recording.hpp and recording.cpp. A recording is the text of its file and
  the sidecar files beside it, which hold the payloads too long for a row. The writer's state is the
  text so far and the disk; a write that throws leaves what it had put out already. How std::format
  spells a double is a parameter, \<open>fmt\<close>: the code relies on its reading back as the same number.

  A path is a string with slashes. What the operating system refuses is part of the disk: the exception
  that making a directory ends with, the files it does not write to their end, and what is in such a
  file then, when there is one.
\<close>

unbundle bit_operations_syntax

section \<open>Samples\<close>

datatype RecordedValue =
    Reading QuantityVariant
  | Payload Bytes
  | Flag bool
  | Trace Waveform

record RecordedSample =
  mSequence :: "64 word"
  mWallClockUnixMillis :: int
  mTestId :: string
  mPointName :: string
  mInstrumentId :: string
  mValue :: RecordedValue

definition kSeparator :: char where
  "kSeparator = CHR 0x09"

definition kRunScope :: string where
  "kRunScope = ''<run>''"

definition kPayloadKind :: string where
  "kPayloadKind = ''<bytes>''"

definition kFlagKind :: string where
  "kFlagKind = ''<flag>''"

definition kTraceKind :: string where
  "kTraceKind = ''<trace>''"

definition kSampleOctets :: nat where
  "kSampleOctets = 8"

definition kMaxInlinePayload :: nat where
  "kMaxInlinePayload = 128"

definition kSidecarMarker :: char where
  "kSidecarMarker = CHR ''@''"

definition kCommentMarker :: char where
  "kCommentMarker = CHR 0x23"

definition kBlobExtension :: string where
  "kBlobExtension = ''.bin''"

definition kTraceExtension :: string where
  "kTraceExtension = ''.wfm''"

definition kSelectionField :: string where
  "kSelectionField = ''select=''"

definition kEverySelection :: string where
  "kEverySelection = ''<all>''"

definition sidecarDirectoryFor :: "string \<Rightarrow> string" where
  "sidecarDirectoryFor recording = recording @ ''.d''"

section \<open>Samples as octets\<close>

definition word_octet :: "64 word \<Rightarrow> nat \<Rightarrow> octet" where
  "word_octet w i = ucast (drop_bit (8 * i) w AND 0xFF)"

definition packSamples :: "64 word list \<Rightarrow> Bytes" where
  "packSamples samples = concat (map (\<lambda>w. map (word_octet w) [0..<kSampleOctets]) samples)"

fun word_of_octets :: "nat \<Rightarrow> Bytes \<Rightarrow> 64 word" where
  "word_of_octets i [] = 0"
| "word_of_octets i (b # bs) = push_bit (8 * i) (ucast b) OR word_of_octets (Suc i) bs"

fun unpack_words :: "Bytes \<Rightarrow> 64 word list" where
  "unpack_words (a # b # c # d # e # f # g # h # rest) =
     word_of_octets 0 [a, b, c, d, e, f, g, h] # unpack_words rest"
| "unpack_words _ = []"

definition unpackSamples :: "Bytes \<Rightarrow> string \<Rightarrow> string + 64 word list" where
  "unpackSamples octets line =
     (if length octets mod kSampleOctets \<noteq> 0
      then Inl (''readRecording: '' @ show_nat (length octets)
                @ '' octets is not a whole number of samples, in row '' @ sq line)
      else Inr (unpack_words octets))"

lemma bit_word_octet: "bit (word_octet w i) n \<longleftrightarrow> n < 8 \<and> bit w (8 * i + n)"
proof -
  have m: "(0xFF :: 64 word) = mask 8" by (simp add: mask_eq_decr_exp)
  show ?thesis unfolding word_octet_def m by (auto simp: bit_simps)
qed

lemma bit_word_of_octets:
  "i \<le> 8 \<Longrightarrow> bit (word_of_octets i (map (word_octet w) [i..<8])) n \<longleftrightarrow> 8 * i \<le> n \<and> bit w n"
proof (induction i rule: inc_induct)
  case base
  have "\<not> bit w n" if "64 \<le> n" using that bit_imp_le_length [of w n] by auto
  then show ?case by auto
next
  case (step i)
  have "bit (push_bit (8 * i) (ucast (word_octet w i) :: 64 word)) n \<longleftrightarrow> 8 * i \<le> n \<and> n < 8 * Suc i \<and> bit w n"
    using step.hyps bit_imp_le_length [of w n] by (auto simp: bit_simps bit_word_octet)
  then show ?case
    using step by (auto simp: upt_conv_Cons bit_or_iff)
qed

lemma word_of_octets_octets [simp]: "word_of_octets 0 (map (word_octet w) [0..<8]) = w"
  using bit_word_of_octets [of 0 w] by (intro bit_eqI) simp

lemma upt_8: "[0..<8] = [0, 1, 2, 3, 4, 5, 6, 7 :: nat]"
  by (simp add: upt_rec)

lemma unpack_pack [simp]: "unpack_words (packSamples ws) = ws"
proof (induction ws)
  case (Cons w ws)
  have "word_of_octets 0 (map (word_octet w) [0, 1, 2, 3, 4, 5, 6, 7]) = w"
    using word_of_octets_octets [of w] by (simp only: upt_8)
  then have "unpack_words (map (word_octet w) [0, 1, 2, 3, 4, 5, 6, 7] @ packSamples ws)
      = w # unpack_words (packSamples ws)"
    by (simp del: word_of_octets.simps)
  with Cons.IH show ?case by (simp add: packSamples_def kSampleOctets_def upt_8)
qed (simp add: packSamples_def)

lemma length_packSamples [simp]: "length (packSamples ws) = 8 * length ws"
  by (induction ws) (simp_all add: packSamples_def kSampleOctets_def)

lemma unpackSamples_packSamples [simp]: "unpackSamples (packSamples ws) line = Inr ws"
  by (simp add: unpackSamples_def kSampleOctets_def)

section \<open>Sidecar files\<close>

definition contentHash :: "Bytes \<Rightarrow> 64 word" where
  "contentHash payload =
     fold (\<lambda>b hash. (hash XOR ucast b) * 0x00000100000001B3) payload 0xCBF29CE484222325"

text \<open>snprintf with format 016llX.\<close>

definition hex_of_u64 :: "64 word \<Rightarrow> string" where
  "hex_of_u64 w = map (\<lambda>i. hex_char (unat (drop_bit (4 * (15 - i)) w AND 0xF))) [0..<16]"

definition blobName :: "Bytes \<Rightarrow> string \<Rightarrow> string" where
  "blobName payload extension = hex_of_u64 (contentHash payload) @ extension"

record Disk =
  files :: "string \<rightharpoonup> Bytes"
  refuses :: "string \<Rightarrow> bool"
  cut_short :: "string \<Rightarrow> Bytes option"
  denies_directory :: "string \<Rightarrow> string option"

definition path_join :: "string \<Rightarrow> string \<Rightarrow> string" where
  "path_join dir name = dir @ ''/'' @ name"

definition readBlob :: "Disk \<Rightarrow> string \<Rightarrow> string + Bytes" where
  "readBlob d path =
     (case files d path of
        None \<Rightarrow> Inl (''could not open the sidecar payload '' @ sq path)
      | Some content \<Rightarrow> Inr content)"

definition checkBlobName :: "string \<Rightarrow> string \<Rightarrow> string option" where
  "checkBlobName name line =
     (if name = [] \<or> CHR ''/'' \<in> set name \<or> name = ''.'' \<or> name = ''..''
      then Some (''readRecording: '' @ sq name @ '' is not a sidecar payload name, in row '' @ sq line)
      else None)"

lemma hex_char_plain:
  "d < 16 \<Longrightarrow> hex_char d \<noteq> CHR ''/''" "d < 16 \<Longrightarrow> hex_char d \<noteq> CHR 0x09"
  "d < 16 \<Longrightarrow> hex_char d \<noteq> CHR 0x0A" "d < 16 \<Longrightarrow> hex_char d \<noteq> CHR ''@''"
  using of_char_hex_char [of d] by (auto split: if_splits)

lemma nibble_less: "unat (w AND 0xF :: 64 word) < 16"
proof -
  have "w AND 0xF \<le> (0xF :: 64 word)" by (rule word_and_le1)
  then show ?thesis by (simp add: word_le_nat_alt)
qed

lemma hex_of_u64_plain:
  "CHR ''/'' \<notin> set (hex_of_u64 w)" "CHR 0x09 \<notin> set (hex_of_u64 w)" "CHR 0x0A \<notin> set (hex_of_u64 w)"
  unfolding hex_of_u64_def set_map using hex_char_plain(1-3) [OF nibble_less] by (metis (no_types, lifting) imageE)+

lemma length_hex_of_u64 [simp]: "length (hex_of_u64 w) = 16"
  by (simp add: hex_of_u64_def)

lemma unspacedHex_octets: "unspacedHex b = concat (map octet_hex b)"
proof -
  have "filter (\<lambda>c. c \<noteq> CHR '' '') (bytes_hex_from r b)
      = filter (\<lambda>c. c \<noteq> CHR '' '') r @ concat (map octet_hex b)" for r
  proof (induction b arbitrary: r)
    case (Cons w ws)
    have "unat w div 16 < 16" "unat w mod 16 < 16"
      using octet_less [of w] by (simp_all add: less_mult_imp_div_less)
    then have "filter (\<lambda>c. c \<noteq> CHR '' '') (octet_hex w) = octet_hex w"
      by (simp add: octet_hex_def)
    with Cons.IH show ?case by simp
  qed simp
  from this [of "[]"] show ?thesis by (simp add: unspacedHex_def bytes_hex_def)
qed

lemma unspacedHex_chars: "c \<in> set (unspacedHex b) \<Longrightarrow> \<exists>d < 16. c = hex_char d"
proof -
  assume "c \<in> set (unspacedHex b)"
  then obtain w where "c \<in> set (octet_hex w)" by (auto simp: unspacedHex_octets)
  then have "c = hex_char (unat w div 16) \<or> c = hex_char (unat w mod 16)"
    by (simp add: octet_hex_def)
  moreover have "unat w div 16 < 16" "unat w mod 16 < 16"
    using octet_less [of w] by (simp_all add: less_mult_imp_div_less)
  ultimately show ?thesis by blast
qed

lemma unspacedHex_plain:
  "CHR 0x09 \<notin> set (unspacedHex b)" "CHR 0x0A \<notin> set (unspacedHex b)" "CHR ''@'' \<notin> set (unspacedHex b)"
  by (metis unspacedHex_chars hex_char_plain)+

section \<open>The writer\<close>

record RecordingWriter =
  mOut :: string
  mSidecarDirectory :: string
  mDirectoryReady :: bool
  disk :: Disk

definition collision_error :: "string \<Rightarrow> string" where
  "collision_error name =
     ''writeRecording: two different payloads hash to '' @ sq name @
     '' -- the recording would replay the wrong one, so nothing was overwritten''"

definition spill :: "Bytes \<Rightarrow> string \<Rightarrow> RecordingWriter \<Rightarrow> (string + string) \<times> RecordingWriter" where
  "spill payload extension w =
     (let name = blobName payload extension;
          path = path_join (mSidecarDirectory w) name;
          w' = w\<lparr>mDirectoryReady := True\<rparr>;
          holds = (\<lambda>content. w'\<lparr>disk := (disk w')\<lparr>files := (files (disk w'))(path := content)\<rparr>\<rparr>)
      in case (if mDirectoryReady w then None else denies_directory (disk w) (mSidecarDirectory w)) of
           Some e \<Rightarrow> (Inl e, w)
         | None \<Rightarrow>
             (case files (disk w') path of
                Some content \<Rightarrow>
                  (if content = payload then Inr (kSidecarMarker # name) else Inl (collision_error name), w')
              | None \<Rightarrow>
                  (if refuses (disk w') path
                   then (Inl (''writeRecording: could not write the sidecar payload '' @ sq path),
                         holds (cut_short (disk w') path))
                   else (Inr (kSidecarMarker # name), holds (Some payload)))))"

definition spills :: "Bytes \<Rightarrow> string \<Rightarrow> bool" where
  "spills payload dir \<longleftrightarrow> length payload > kMaxInlinePayload \<and> dir \<noteq> []"

definition valueColumn :: "Bytes \<Rightarrow> string \<Rightarrow> RecordingWriter \<Rightarrow> (string + string) \<times> RecordingWriter" where
  "valueColumn payload extension w =
     (if spills payload (mSidecarDirectory w) then spill payload extension w
      else (Inr (unspacedHex payload), w))"

definition put :: "string \<Rightarrow> RecordingWriter \<Rightarrow> RecordingWriter" where
  "put s w = w\<lparr>mOut := mOut w @ s\<rparr>"

definition row_head :: "RecordedSample \<Rightarrow> string" where
  "row_head sample =
     show_nat (unat (mSequence sample)) @ [kSeparator] @ show_int (mWallClockUnixMillis sample) @ [kSeparator] @
     mTestId sample @ [kSeparator] @ mPointName sample @ [kSeparator] @ mInstrumentId sample @ [kSeparator]"

text \<open>
  The part of a row before its value column, and what the column is made from: octets, or a text of
  its own. The stream has that part already when a payload is refused.
\<close>

definition trace_head :: "(double \<Rightarrow> string) \<Rightarrow> Waveform \<Rightarrow> string" where
  "trace_head fmt w =
     kTraceKind @ [kSeparator] @ to_string_kind (mKind w) @ [kSeparator] @ fmt (Origin (mTiming w)) @ [kSeparator] @
     fmt (Increment (mTiming w)) @ [kSeparator]"

definition put_payload :: "Bytes \<Rightarrow> string \<Rightarrow> RecordingWriter \<Rightarrow> string option \<times> RecordingWriter" where
  "put_payload payload extension w =
     (case valueColumn payload extension w of
        (Inl e, w') \<Rightarrow> (Some e, w')
      | (Inr column, w') \<Rightarrow> (None, put (column @ [CHR 0x0A]) w'))"

definition write_sample ::
    "(double \<Rightarrow> string) \<Rightarrow> RecordedSample \<Rightarrow> RecordingWriter \<Rightarrow> string option \<times> RecordingWriter" where
  "write_sample fmt sample w =
     (let w1 = put (row_head sample) w
      in case mValue sample of
           Payload payload \<Rightarrow> put_payload payload kBlobExtension (put (kPayloadKind @ [kSeparator]) w1)
         | Trace trace \<Rightarrow> put_payload (packSamples (mSamples trace)) kTraceExtension (put (trace_head fmt trace) w1)
         | Flag flag \<Rightarrow>
             (None, put (kFlagKind @ [kSeparator] @ (if flag then ''1'' else ''0'') @ [CHR 0x0A]) w1)
         | Reading v \<Rightarrow>
             (None, put (to_string_kind (kind v) @ [kSeparator] @ fmt (rawValue v) @ [CHR 0x0A]) w1))"

fun write_samples ::
    "(double \<Rightarrow> string) \<Rightarrow> RecordedSample list \<Rightarrow> RecordingWriter \<Rightarrow> string option \<times> RecordingWriter" where
  "write_samples fmt [] w = (None, w)"
| "write_samples fmt (sample # samples) w =
     (case write_sample fmt sample w of
        (Some e, w') \<Rightarrow> (Some e, w')
      | (None, w') \<Rightarrow> write_samples fmt samples w')"

definition writeRecording ::
    "(double \<Rightarrow> string) \<Rightarrow> RecordedSample list \<Rightarrow> string \<Rightarrow> Disk \<Rightarrow> string option \<times> string \<times> Disk" where
  "writeRecording fmt samples dir d =
     (case write_samples fmt samples
             \<lparr>mOut = [], mSidecarDirectory = dir, mDirectoryReady = False, disk = d\<rparr> of
        (e, w) \<Rightarrow> (e, mOut w, disk w))"

fun comma_separated :: "string list \<Rightarrow> string" where
  "comma_separated [] = []"
| "comma_separated [s] = s"
| "comma_separated (s # ss) = s @ '','' @ comma_separated ss"

definition selectionHeader :: "string list \<Rightarrow> string" where
  "selectionHeader selection =
     kCommentMarker # '' '' @ kSelectionField @
     (if selection = [] then kEverySelection else comma_separated selection) @ [CHR 0x0A]"

section \<open>The reader\<close>

definition malformed_row :: "string \<Rightarrow> string" where
  "malformed_row line = ''readRecording: malformed row '' @ sq line"

definition not_a :: "string \<Rightarrow> string \<Rightarrow> string \<Rightarrow> string" where
  "not_a text what line = ''readRecording: '' @ sq text @ '' is not a '' @ what @ '', in row '' @ sq line"

definition parsedNumber :: "string \<Rightarrow> string \<Rightarrow> string \<Rightarrow> string + double" where
  "parsedNumber text line what =
     (case from_chars_double text of None \<Rightarrow> Inl (not_a text what line) | Some v \<Rightarrow> Inr v)"

text \<open>The octets of a payload column: in the row, or in a file of the sidecar directory.\<close>

definition octetsOf :: "string \<Rightarrow> Disk \<Rightarrow> string \<Rightarrow> string \<Rightarrow> string + Bytes" where
  "octetsOf dir d line column =
     (case column of
        c # name \<Rightarrow>
          if c = kSidecarMarker
          then (case checkBlobName name line of
                  Some e \<Rightarrow> Inl e
                | None \<Rightarrow>
                    (if dir = []
                     then Inl (''readRecording: row '' @ sq line @
                               '' refers to a sidecar payload, but no sidecar directory was given'')
                     else readBlob d (path_join dir name)))
          else (case fromHex column of
                  Inl e \<Rightarrow> Inl (''readRecording: malformed payload in row '' @ sq line @ '' -- '' @ e)
                | Inr b \<Rightarrow> Inr b)
      | [] \<Rightarrow> Inr [])"

fun next_fields :: "nat \<Rightarrow> string \<Rightarrow> (string list \<times> string) option" where
  "next_fields 0 rest = Some ([], rest)"
| "next_fields (Suc n) rest =
     (case next_field kSeparator rest of
        None \<Rightarrow> None
      | Some (f, rest') \<Rightarrow> map_option (\<lambda>(fs, r). (f # fs, r)) (next_fields n rest'))"

definition read_trace :: "string \<Rightarrow> Disk \<Rightarrow> string \<Rightarrow> string list \<Rightarrow> string \<Rightarrow> string + RecordedValue" where
  "read_trace dir d line timebase valueText =
     (case quantityKindFromString (timebase ! 0) of
        Inl e \<Rightarrow> Inl e
      | Inr k \<Rightarrow>
          (case parsedNumber (timebase ! 1) line ''trace origin'' of
             Inl e \<Rightarrow> Inl e
           | Inr orig \<Rightarrow>
               (case parsedNumber (timebase ! 2) line ''trace increment'' of
                  Inl e \<Rightarrow> Inl e
                | Inr inc \<Rightarrow>
                    (case octetsOf dir d line valueText of
                       Inl e \<Rightarrow> Inl e
                     | Inr octets \<Rightarrow>
                         (case unpackSamples octets line of
                            Inl e \<Rightarrow> Inl e
                          | Inr samples \<Rightarrow>
                              Inr (Trace \<lparr>mKind = k, mTiming = \<lparr>Origin = orig, Increment = inc\<rparr>,
                                          mSamples = samples\<rparr>))))))"

definition read_value ::
    "string \<Rightarrow> Disk \<Rightarrow> string \<Rightarrow> string \<Rightarrow> string list \<Rightarrow> string \<Rightarrow> string + RecordedValue" where
  "read_value dir d line kindText timebase valueText =
     (if kindText = kTraceKind then read_trace dir d line timebase valueText
      else if kindText = kPayloadKind then map_sum id Payload (octetsOf dir d line valueText)
      else if kindText = kFlagKind
      then (if valueText \<noteq> ''0'' \<and> valueText \<noteq> ''1''
            then Inl (''readRecording: malformed flag in row '' @ sq line)
            else Inr (Flag (valueText = ''1'')))
      else (case quantityKindFromString kindText of
              Inl e \<Rightarrow> Inl e
            | Inr k \<Rightarrow> map_sum id (\<lambda>v. Reading (quantityVariantFromKind k v)) (parsedNumber valueText line ''value'')))"

definition finish_row :: "string \<Rightarrow> string list \<Rightarrow> RecordedValue \<Rightarrow> string + RecordedSample" where
  "finish_row line fs v =
     (case from_chars_u64 (fs ! 0) of
        None \<Rightarrow> Inl (not_a (fs ! 0) ''sequence number'' line)
      | Some n \<Rightarrow>
          (case from_chars_i64 (fs ! 1) of
             None \<Rightarrow> Inl (not_a (fs ! 1) ''wall-clock time'' line)
           | Some t \<Rightarrow>
               Inr \<lparr>mSequence = n, mWallClockUnixMillis = t, mTestId = fs ! 2, mPointName = fs ! 3,
                    mInstrumentId = fs ! 4, mValue = v\<rparr>))"

definition read_row :: "string \<Rightarrow> Disk \<Rightarrow> string \<Rightarrow> string + RecordedSample" where
  "read_row dir d line =
     (case next_fields 6 line of
        None \<Rightarrow> Inl (malformed_row line)
      | Some (fs, rest) \<Rightarrow>
          (if fs ! 2 = [] then Inl (''readRecording: row '' @ sq line @ '' has no test id'')
           else
             (case (if fs ! 5 = kTraceKind then next_fields 3 rest else Some ([], rest)) of
                None \<Rightarrow> Inl (''readRecording: malformed trace row '' @ sq line)
              | Some (timebase, valueText) \<Rightarrow>
                  (if valueText = [] \<and> fs ! 5 \<noteq> kPayloadKind \<and> fs ! 5 \<noteq> kTraceKind
                   then Inl (malformed_row line)
                   else (case read_value dir d line (fs ! 5) timebase valueText of
                           Inl e \<Rightarrow> Inl e
                         | Inr v \<Rightarrow> finish_row line fs v)))))"

definition skipped_line :: "string \<Rightarrow> bool" where
  "skipped_line line \<longleftrightarrow> line = [] \<or> hd line = kCommentMarker"

fun read_lines :: "string \<Rightarrow> Disk \<Rightarrow> string list \<Rightarrow> string + RecordedSample list" where
  "read_lines dir d [] = Inr []"
| "read_lines dir d (line # lines) =
     (if skipped_line line then read_lines dir d lines
      else (case read_row dir d line of
              Inl e \<Rightarrow> Inl e
            | Inr sample \<Rightarrow> map_sum id (\<lambda>samples. sample # samples) (read_lines dir d lines)))"

definition readRecording :: "string \<Rightarrow> string \<Rightarrow> Disk \<Rightarrow> string + RecordedSample list" where
  "readRecording text dir d = read_lines dir d (lines_of text)"

section \<open>What is written reads back\<close>

definition column_text :: "Bytes \<Rightarrow> string \<Rightarrow> string \<Rightarrow> string" where
  "column_text payload extension dir =
     (if spills payload dir then kSidecarMarker # blobName payload extension else unspacedHex payload)"

definition stored :: "string \<Rightarrow> Disk \<Rightarrow> Bytes \<Rightarrow> string \<Rightarrow> bool" where
  "stored dir d payload extension \<longleftrightarrow>
     (spills payload dir \<longrightarrow> files d (path_join dir (blobName payload extension)) = Some payload)"

definition value_text :: "(double \<Rightarrow> string) \<Rightarrow> string \<Rightarrow> RecordedValue \<Rightarrow> string" where
  "value_text fmt dir v =
     (case v of
        Payload payload \<Rightarrow> kPayloadKind @ [kSeparator] @ column_text payload kBlobExtension dir
      | Trace trace \<Rightarrow> trace_head fmt trace @ column_text (packSamples (mSamples trace)) kTraceExtension dir
      | Flag flag \<Rightarrow> kFlagKind @ [kSeparator] @ (if flag then ''1'' else ''0'')
      | Reading q \<Rightarrow> to_string_kind (kind q) @ [kSeparator] @ fmt (rawValue q))"

definition row_text :: "(double \<Rightarrow> string) \<Rightarrow> string \<Rightarrow> RecordedSample \<Rightarrow> string" where
  "row_text fmt dir sample = row_head sample @ value_text fmt dir (mValue sample)"

fun value_stored :: "string \<Rightarrow> Disk \<Rightarrow> RecordedValue \<Rightarrow> bool" where
  "value_stored dir d (Payload payload) = stored dir d payload kBlobExtension"
| "value_stored dir d (Trace trace) = stored dir d (packSamples (mSamples trace)) kTraceExtension"
| "value_stored dir d _ = True"

text \<open>
  What a run records: names with no tab and no newline in them, a test, a time that is an int64;
  and, for the numbers in it, a spelling that reads back.
\<close>

definition field_ok :: "string \<Rightarrow> bool" where
  "field_ok s \<longleftrightarrow> kSeparator \<notin> set s \<and> CHR 0x0A \<notin> set s"

definition sample_ok :: "RecordedSample \<Rightarrow> bool" where
  "sample_ok sample \<longleftrightarrow> in_int64 (mWallClockUnixMillis sample) \<and> mTestId sample \<noteq> []
     \<and> field_ok (mTestId sample) \<and> field_ok (mPointName sample) \<and> field_ok (mInstrumentId sample)"

fun value_numbers :: "RecordedValue \<Rightarrow> double list" where
  "value_numbers (Reading q) = [rawValue q]"
| "value_numbers (Trace w) = [Origin (mTiming w), Increment (mTiming w)]"
| "value_numbers _ = []"

definition reads_back :: "(double \<Rightarrow> string) \<Rightarrow> double \<Rightarrow> bool" where
  "reads_back fmt v \<longleftrightarrow> from_chars_double (fmt v) = Some v \<and> field_ok (fmt v)"

definition recordable :: "(double \<Rightarrow> string) \<Rightarrow> RecordedSample \<Rightarrow> bool" where
  "recordable fmt sample \<longleftrightarrow> sample_ok sample \<and> list_all (reads_back fmt) (value_numbers (mValue sample))"

lemma reads_back_nonempty: "reads_back fmt v \<Longrightarrow> fmt v \<noteq> []"
  by (auto simp: reads_back_def from_chars_double_def)

lemma kSeparator_simps [simp]: "kSeparator \<noteq> CHR 0x0A" "\<not> is_digit kSeparator" "kSeparator \<noteq> CHR ''-''"
  by (simp_all add: kSeparator_def is_digit_def)

lemma newline_not_digit [simp]: "\<not> is_digit (CHR 0x0A)"
  by (simp add: is_digit_def)

lemma field_ok_simps [simp]:
  "field_ok (show_nat n)" "field_ok (show_int i)" "field_ok (to_string_kind k)" "field_ok (unspacedHex b)"
  "field_ok (hex_of_u64 w)" "field_ok kPayloadKind" "field_ok kFlagKind" "field_ok kTraceKind"
  "field_ok kBlobExtension" "field_ok kTraceExtension" "field_ok ''0''" "field_ok ''1''"
  using unspacedHex_plain hex_of_u64_plain to_string_kind_plain
  by (auto simp: field_ok_def notin_show_int notin_show_nat)
     (auto simp: kSeparator_def kPayloadKind_def kFlagKind_def kTraceKind_def kBlobExtension_def
        kTraceExtension_def)

lemma field_ok_append [simp]: "field_ok (a @ b) \<longleftrightarrow> field_ok a \<and> field_ok b"
  by (auto simp: field_ok_def)

lemma field_ok_Cons: "field_ok (c # s) \<longleftrightarrow> c \<noteq> kSeparator \<and> c \<noteq> CHR 0x0A \<and> field_ok s"
  by (auto simp: field_ok_def)

lemma kSidecarMarker_simps [simp]: "kSidecarMarker \<noteq> kSeparator" "kSidecarMarker \<noteq> CHR 0x0A"
  by (simp_all add: kSidecarMarker_def kSeparator_def)

lemma field_ok_column [simp]: "extension \<in> {kBlobExtension, kTraceExtension} \<Longrightarrow> field_ok (column_text p extension dir)"
  by (auto simp: column_text_def blobName_def field_ok_Cons)

lemma next_fields_step [simp]:
  "field_ok a \<Longrightarrow>
     next_fields (Suc n) (a @ kSeparator # rest) = map_option (\<lambda>(fs, r). (a # fs, r)) (next_fields n rest)"
  by (simp add: field_ok_def next_fields.simps)

declare next_fields.simps(2) [simp del]

lemma valueColumn_ok:
  assumes "valueColumn payload extension w = (Inr column, w')"
  shows "column = column_text payload extension (mSidecarDirectory w)"
    and "mOut w' = mOut w" "mSidecarDirectory w' = mSidecarDirectory w"
    and "files (disk w) \<subseteq>\<^sub>m files (disk w')"
    and "stored (mSidecarDirectory w) (disk w') payload extension"
  using assms
  by (auto simp: valueColumn_def spill_def Let_def column_text_def stored_def map_le_def
      split: if_splits option.splits)

lemma put_simps [simp]:
  "mOut (put s w) = mOut w @ s" "mSidecarDirectory (put s w) = mSidecarDirectory w" "disk (put s w) = disk w"
  by (simp_all add: put_def)

lemma put_payload_ok:
  assumes "put_payload payload extension w = (None, w')"
  shows "mOut w' = mOut w @ column_text payload extension (mSidecarDirectory w) @ [CHR 0x0A]
    \<and> mSidecarDirectory w' = mSidecarDirectory w \<and> files (disk w) \<subseteq>\<^sub>m files (disk w')
    \<and> stored (mSidecarDirectory w) (disk w') payload extension"
proof -
  obtain r w1 where v: "valueColumn payload extension w = (r, w1)" by (cases "valueColumn payload extension w")
  with assms obtain column where r: "r = Inr column" by (cases r) (auto simp: put_payload_def)
  from v r assms valueColumn_ok [of payload extension w column w1] show ?thesis
    by (auto simp: put_payload_def)
qed

lemma write_sample_ok:
  assumes "write_sample fmt sample w = (None, w')"
  shows "mOut w' = mOut w @ row_text fmt (mSidecarDirectory w) sample @ [CHR 0x0A]
    \<and> mSidecarDirectory w' = mSidecarDirectory w \<and> files (disk w) \<subseteq>\<^sub>m files (disk w')
    \<and> value_stored (mSidecarDirectory w) (disk w') (mValue sample)"
  using assms
  by (cases "mValue sample")
     (auto simp: write_sample_def Let_def row_text_def value_text_def dest!: put_payload_ok)

lemma value_stored_mono:
  "value_stored dir d v \<Longrightarrow> files d \<subseteq>\<^sub>m files d' \<Longrightarrow> value_stored dir d' v"
  by (cases v) (auto simp: stored_def map_le_def dom_def)

lemma write_samples_ok:
  assumes "write_samples fmt samples w = (None, w')"
  shows "mOut w' = mOut w @ concat (map (\<lambda>l. l @ [CHR 0x0A]) (map (row_text fmt (mSidecarDirectory w)) samples))
    \<and> files (disk w) \<subseteq>\<^sub>m files (disk w')
    \<and> list_all (\<lambda>s. value_stored (mSidecarDirectory w) (disk w') (mValue s)) samples"
  using assms
proof (induction samples arbitrary: w)
  case Nil
  then show ?case by simp
next
  case (Cons s samples)
  obtain w1 where w1: "write_sample fmt s w = (None, w1)" "write_samples fmt samples w1 = (None, w')"
    using Cons.prems by (auto split: prod.splits option.splits)
  from write_sample_ok [OF w1(1)] Cons.IH [OF w1(2)] show ?case
    by (auto intro: value_stored_mono map_le_trans)
qed

lemma octetsOf_column:
  assumes "stored dir d payload extension" and "extension \<in> {kBlobExtension, kTraceExtension}"
  shows "octetsOf dir d line (column_text payload extension dir) = Inr payload"
proof (cases "spills payload dir")
  case True
  let ?name = "blobName payload extension"
  have "CHR ''/'' \<notin> set ?name" "length ?name > 2"
    using assms(2) hex_of_u64_plain(1) by (auto simp: blobName_def kBlobExtension_def kTraceExtension_def)
  then have "checkBlobName ?name line = None" by (auto simp: checkBlobName_def)
  moreover have "dir \<noteq> []" using True by (simp add: spills_def)
  ultimately show ?thesis using True assms(1)
    by (simp add: column_text_def octetsOf_def stored_def readBlob_def)
next
  case False
  then have "hd (unspacedHex payload) \<noteq> kSidecarMarker" if "unspacedHex payload \<noteq> []"
    using that unspacedHex_plain(3) hd_in_set by (fastforce simp: kSidecarMarker_def)
  moreover have "payload = []" if "unspacedHex payload = []"
    using that fromHex_unspacedHex [of payload] by (simp add: fromHex_def)
  ultimately show ?thesis using False fromHex_unspacedHex [of payload]
    by (cases "unspacedHex payload") (auto simp: column_text_def octetsOf_def)
qed

lemma kinds_of_value:
  "to_string_kind k \<noteq> kTraceKind" "to_string_kind k \<noteq> kPayloadKind" "to_string_kind k \<noteq> kFlagKind"
  "kPayloadKind \<noteq> kTraceKind" "kFlagKind \<noteq> kTraceKind" "kFlagKind \<noteq> kPayloadKind"
  by (cases k; simp add: kTraceKind_def kPayloadKind_def kFlagKind_def)+

definition head_fields :: "RecordedSample \<Rightarrow> string list" where
  "head_fields sample =
     [show_nat (unat (mSequence sample)), show_int (mWallClockUnixMillis sample), mTestId sample,
      mPointName sample, mInstrumentId sample]"

lemma next_fields_head:
  assumes "sample_ok sample" and "field_ok kindText"
  shows "next_fields 6 (row_head sample @ kindText @ kSeparator # rest) = Some (head_fields sample @ [kindText], rest)"
  using assms unfolding sample_ok_def row_head_def head_fields_def
  by (simp add: eval_nat_numeral)

lemma finish_row_head:
  assumes "sample_ok sample"
  shows "finish_row line (head_fields sample @ fs) (mValue sample) = Inr sample"
  using assms by (simp add: finish_row_def head_fields_def sample_ok_def)

lemma next_fields_trace:
  assumes "list_all (reads_back fmt) [Origin (mTiming w), Increment (mTiming w)]"
  shows "next_fields 3 (to_string_kind (mKind w) @ kSeparator # fmt (Origin (mTiming w)) @ kSeparator #
           fmt (Increment (mTiming w)) @ kSeparator # rest)
     = Some ([to_string_kind (mKind w), fmt (Origin (mTiming w)), fmt (Increment (mTiming w))], rest)"
  using assms by (simp add: eval_nat_numeral reads_back_def)

text \<open>The kind column of a value, and what stands after it.\<close>

fun kind_text :: "RecordedValue \<Rightarrow> string" where
  "kind_text (Payload _) = kPayloadKind"
| "kind_text (Trace _) = kTraceKind"
| "kind_text (Flag _) = kFlagKind"
| "kind_text (Reading q) = to_string_kind (kind q)"

lemma read_row_fields:
  assumes "sample_ok sample"
    and "(if kindText = kTraceKind then next_fields 3 rest else Some ([], rest)) = Some (timebase, valueText)"
    and "valueText \<noteq> [] \<or> kindText = kPayloadKind \<or> kindText = kTraceKind"
    and "read_value dir d line kindText timebase valueText = Inr (mValue sample)"
    and "field_ok kindText" and "line = row_head sample @ kindText @ kSeparator # rest"
  shows "read_row dir d line = Inr sample"
proof -
  have fs: "next_fields 6 line = Some (head_fields sample @ [kindText], rest)"
    using next_fields_head assms by simp
  have h: "(head_fields sample @ [kindText]) ! 2 = mTestId sample" "(head_fields sample @ [kindText]) ! 5 = kindText"
    by (simp_all add: head_fields_def)
  have "mTestId sample \<noteq> []" using assms(1) by (simp add: sample_ok_def)
  with fs h assms(2-4) show ?thesis
    by (simp add: read_row_def finish_row_head [OF assms(1)])
qed

lemma read_row_text:
  assumes "recordable fmt sample" and "value_stored dir d (mValue sample)"
  shows "read_row dir d (row_text fmt dir sample) = Inr sample"
proof (cases "mValue sample")
  case (Reading q)
  with assms have q: "reads_back fmt (rawValue q)" by (simp add: recordable_def)
  show ?thesis
  proof (rule read_row_fields [where kindText = "to_string_kind (kind q)" and timebase = "[]"])
    show "read_value dir d (row_text fmt dir sample) (to_string_kind (kind q)) [] (fmt (rawValue q)) = Inr (mValue sample)"
      using q Reading
      by (cases q) (simp add: read_value_def kinds_of_value parsedNumber_def reads_back_def quantityVariantFromKind_def)
  qed (use assms Reading q reads_back_nonempty in
      \<open>auto simp: recordable_def row_text_def value_text_def kinds_of_value\<close>)
next
  case (Payload p)
  show ?thesis
  proof (rule read_row_fields [where kindText = kPayloadKind and timebase = "[]"])
    show "read_value dir d (row_text fmt dir sample) kPayloadKind [] (column_text p kBlobExtension dir) = Inr (mValue sample)"
      using assms(2) Payload octetsOf_column by (simp add: read_value_def kinds_of_value)
  qed (use assms Payload in \<open>auto simp: recordable_def row_text_def value_text_def kinds_of_value\<close>)
next
  case (Flag b)
  show ?thesis
  proof (rule read_row_fields [where kindText = kFlagKind and timebase = "[]"])
    show "read_value dir d (row_text fmt dir sample) kFlagKind [] (if b then ''1'' else ''0'') = Inr (mValue sample)"
      using Flag by (simp add: read_value_def kinds_of_value)
  qed (use assms Flag in \<open>auto simp: recordable_def row_text_def value_text_def kinds_of_value\<close>)
next
  case (Trace w)
  with assms have n: "list_all (reads_back fmt) [Origin (mTiming w), Increment (mTiming w)]"
    by (simp add: recordable_def)
  show ?thesis
  proof (rule read_row_fields [where kindText = kTraceKind
        and timebase = "[to_string_kind (mKind w), fmt (Origin (mTiming w)), fmt (Increment (mTiming w))]"])
    show "read_value dir d (row_text fmt dir sample) kTraceKind
        [to_string_kind (mKind w), fmt (Origin (mTiming w)), fmt (Increment (mTiming w))]
        (column_text (packSamples (mSamples w)) kTraceExtension dir) = Inr (mValue sample)"
      using assms(2) Trace n octetsOf_column
      by (simp add: read_value_def read_trace_def parsedNumber_def reads_back_def)
  qed (use assms Trace n next_fields_trace [OF n] in
      \<open>auto simp: recordable_def row_text_def value_text_def trace_head_def\<close>)
qed

lemma row_text_line:
  assumes "recordable fmt sample"
  shows "CHR 0x0A \<notin> set (row_text fmt dir sample)" and "\<not> skipped_line (row_text fmt dir sample)"
proof -
  have "CHR 0x0A \<notin> set (value_text fmt dir (mValue sample))"
  proof -
    have "field_ok s \<Longrightarrow> CHR 0x0A \<notin> set s" for s by (simp add: field_ok_def)
    note plain = this [OF field_ok_simps(3)] this [OF field_ok_simps(6)] this [OF field_ok_simps(7)]
      this [OF field_ok_simps(8)] this [OF field_ok_column]
    show ?thesis using assms plain
      by (cases "mValue sample")
         (auto simp: value_text_def trace_head_def recordable_def reads_back_def field_ok_def
            kSeparator_simps(1) [symmetric])
  qed
  then show "CHR 0x0A \<notin> set (row_text fmt dir sample)"
    using assms by (auto simp: row_text_def row_head_def recordable_def sample_ok_def field_ok_def
        notin_show_int notin_show_nat kSeparator_simps(1) [symmetric])
  obtain c cs where "show_nat (unat (mSequence sample)) = c # cs"
    by (cases "show_nat (unat (mSequence sample))") auto
  moreover have "is_digit c" using calculation show_nat_hd [of "unat (mSequence sample)"] by simp
  ultimately show "\<not> skipped_line (row_text fmt dir sample)"
    by (auto simp: row_text_def row_head_def skipped_line_def kCommentMarker_def is_digit_def)
qed

lemma read_lines_rows:
  assumes "list_all (recordable fmt) samples" and "list_all (\<lambda>s. value_stored dir d (mValue s)) samples"
  shows "read_lines dir d (map (row_text fmt dir) samples) = Inr samples"
  using assms by (induction samples) (simp_all add: row_text_line read_row_text)

lemma written_rows:
  assumes "write_samples fmt samples \<lparr>mOut = prefix, mSidecarDirectory = dir, mDirectoryReady = False, disk = d\<rparr> = (None, w')"
    and "list_all (recordable fmt) samples"
  obtains rows where "mOut w' = prefix @ rows" "readRecording rows dir (disk w') = Inr samples"
proof
  note ok = write_samples_ok [OF assms(1), simplified]
  let ?lines = "map (row_text fmt dir) samples"
  show "mOut w' = prefix @ concat (map (\<lambda>l. l @ [CHR 0x0A]) ?lines)" using ok by (simp add: comp_def)
  have "list_all (\<lambda>l. CHR 0x0A \<notin> set l) ?lines"
    using assms(2) row_text_line(1) by (auto simp: list_all_iff)
  then have "lines_of (concat (map (\<lambda>l. l @ [CHR 0x0A]) ?lines)) = ?lines"
    using lines_of_lines [where rest = "[]"] by (simp del: map_map)
  with read_lines_rows [OF assms(2), of dir "disk w'"] ok
  show "readRecording (concat (map (\<lambda>l. l @ [CHR 0x0A]) ?lines)) dir (disk w') = Inr samples"
    by (simp add: readRecording_def del: map_map)
qed

text \<open>
  C29: A recording that was written replays what was observed: read back from its text and its
  sidecar directory it is the same samples, readings, payloads, flags and traces, in order.
\<close>

theorem recording_roundtrip:
  assumes "writeRecording fmt samples dir d = (None, text, d')" and "list_all (recordable fmt) samples"
  shows "readRecording text dir d' = Inr samples"
proof -
  let ?w = "\<lparr>mOut = [], mSidecarDirectory = dir, mDirectoryReady = False, disk = d\<rparr>"
  obtain w' where w': "write_samples fmt samples ?w = (None, w')" "text = mOut w'" "d' = disk w'"
    using assms(1) by (auto simp: writeRecording_def split: prod.splits)
  from written_rows [OF w'(1) assms(2)] w'(2,3) show ?thesis by auto
qed

definition empty_disk :: Disk where
  "empty_disk = \<lparr>files = (\<lambda>_. None), refuses = (\<lambda>_. False), cut_short = (\<lambda>_. None), denies_directory = (\<lambda>_. None)\<rparr>"

definition sample_of :: "64 word \<Rightarrow> RecordedValue \<Rightarrow> RecordedSample" where
  "sample_of n v = \<lparr>mSequence = n, mWallClockUnixMillis = 1000, mTestId = kRunScope,
     mPointName = ''P1'', mInstrumentId = ''Dmm1'', mValue = v\<rparr>"

definition small_integers :: "double \<Rightarrow> string" where
  "small_integers v = (if v = Fin 5 then ''5'' else ''0'')"

lemma small_integers_read_back: "reads_back small_integers (Fin 5)" "reads_back small_integers (Fin 0)"
  by (simp_all add: reads_back_def small_integers_def from_chars_double_def from_chars_unsigned_double_def
      read_decimal_def read_exponent_def fits_double_def lower_def is_digit_def digit_val_def read_nat_def
      pow10_def field_ok_def kSeparator_def)

theorem recording_roundtrip_witness:
  "let samples = [sample_of 0 (Reading (Quantity Voltage (Fin 5))), sample_of 1 (Payload (replicate 200 7)),
                  sample_of 2 (Flag True),
                  sample_of 3 (Trace \<lparr>mKind = Current, mTiming = \<lparr>Origin = Fin 0, Increment = Fin 5\<rparr>,
                                      mSamples = [1, 2, 3]\<rparr>)]
   in case writeRecording small_integers samples ''run.d'' empty_disk of
        (e, text, d') \<Rightarrow> e = None \<and> readRecording text ''run.d'' d' = Inr samples"
proof -
  let ?samples = "[sample_of 0 (Reading (Quantity Voltage (Fin 5))), sample_of 1 (Payload (replicate 200 7)),
                  sample_of 2 (Flag True),
                  sample_of 3 (Trace \<lparr>mKind = Current, mTiming = \<lparr>Origin = Fin 0, Increment = Fin 5\<rparr>,
                                      mSamples = [1, 2, 3]\<rparr>)]"
  obtain out d' where w: "writeRecording small_integers ?samples ''run.d'' empty_disk = (None, out, d')"
    by (simp add: writeRecording_def write_sample_def sample_of_def Let_def put_payload_def valueColumn_def
        spills_def kMaxInlinePayload_def spill_def empty_disk_def put_def)
  have "list_all (recordable small_integers) ?samples"
    by (simp add: recordable_def sample_ok_def sample_of_def small_integers_read_back in_int64_def kRunScope_def
        field_ok_def kSeparator_def)
  from recording_roundtrip [OF w this] w show ?thesis by (simp add: Let_def)
qed

text \<open>
  A row cannot make the reader leave the sidecar directory: what a recording reads as depends
  only on the files that stand directly in it.
\<close>

theorem reader_stays_in_sidecar:
  assumes "\<And>name. CHR ''/'' \<notin> set name \<Longrightarrow> name \<notin> {[], ''.'', ''..''} \<Longrightarrow>
      files d (path_join dir name) = files d' (path_join dir name)"
  shows "readRecording text dir d = readRecording text dir d'"
proof -
  have "octetsOf dir d line column = octetsOf dir d' line column" for line column
    using assms
    by (cases column) (auto simp: octetsOf_def readBlob_def checkBlobName_def split: option.splits if_splits)
  then have o: "octetsOf dir d = octetsOf dir d'" by blast
  have "read_value dir d = read_value dir d'"
    by (intro ext) (unfold read_value_def read_trace_def o, rule refl)
  then have "read_row dir d line = read_row dir d' line" for line
    unfolding read_row_def by (rule arg_cong)
  then have "read_lines dir d ls = read_lines dir d' ls" for ls
    by (induction ls) (simp_all split: sum.splits)
  then show ?thesis by (simp add: readRecording_def)
qed

theorem reader_stays_in_sidecar_witness:
  "\<forall>text. readRecording text ''run.d'' (empty_disk\<lparr>files := [''run.d/../passwd'' \<mapsto> [1, 2, 3]]\<rparr>)
     = readRecording text ''run.d'' empty_disk"
proof (intro allI reader_stays_in_sidecar)
  fix name :: string
  assume "CHR ''/'' \<notin> set name"
  then have "path_join ''run.d'' name \<noteq> ''run.d/../passwd''" by (auto simp: path_join_def)
  then show "files (empty_disk\<lparr>files := [''run.d/../passwd'' \<mapsto> [1, 2, 3]]\<rparr>) (path_join ''run.d'' name)
      = files empty_disk (path_join ''run.d'' name)"
    by (simp add: empty_disk_def)
qed

text \<open>
  A payload is spilled under the hash of its content and never over another one: the files that
  were there stay as they were, a reference is given only to a file that holds this payload, and
  where two payloads share a hash the second is refused, once the directory is there.
\<close>

theorem spill_never_overwrites:
  "let path = path_join (mSidecarDirectory w) (blobName payload extension); (r, w') = spill payload extension w
   in files (disk w) \<subseteq>\<^sub>m files (disk w')
      \<and> (case r of
           Inr column \<Rightarrow> column = kSidecarMarker # blobName payload extension \<and> files (disk w') path = Some payload
         | Inl e \<Rightarrow> refuses (disk w) path \<or> files (disk w') = files (disk w)
             \<and> (e = collision_error (blobName payload extension) \<or> denies_directory (disk w) (mSidecarDirectory w) = Some e))
      \<and> (case files (disk w) path of
            None \<Rightarrow> True
          | Some other \<Rightarrow> other = payload \<or> \<not> mDirectoryReady w \<or> r = Inl (collision_error (blobName payload extension)))"
  by (auto simp: spill_def Let_def map_le_def split: option.splits if_splits)

text \<open>
  A write that is cut short leaves its file, and the same payload is then refused as another one
  with its hash, though it is what was to be written.
\<close>

lemma cut_short_blocks_payload:
  assumes "mDirectoryReady w" and "spill payload extension w = (Inl e, w')"
    and "files (disk w') (path_join (mSidecarDirectory w) (blobName payload extension)) = Some part" and "part \<noteq> payload"
  shows "spill payload extension w' = (Inl (collision_error (blobName payload extension)), w')"
  using assms by (auto simp: spill_def Let_def split: option.splits if_splits)

text \<open>A row may leave its point and its instrument blank, whatever the comment on kRunScope says.\<close>

lemma blank_names_accepted:
  "readRecording (''0'' @ [CHR 0x09] @ ''0'' @ [CHR 0x09] @ ''T'' @ [CHR 0x09, CHR 0x09, CHR 0x09] @ ''<flag>''
       @ [CHR 0x09] @ ''1'' @ [CHR 0x0A]) [] d
     = Inr [\<lparr>mSequence = 0, mWallClockUnixMillis = 0, mTestId = ''T'', mPointName = [], mInstrumentId = [],
             mValue = Flag True\<rparr>]"
proof -
  let ?s = "\<lparr>mSequence = 0, mWallClockUnixMillis = 0, mTestId = ''T'', mPointName = [], mInstrumentId = [],
             mValue = Flag True\<rparr>"
  have "recordable small_integers ?s"
    by (simp add: recordable_def sample_ok_def in_int64_def field_ok_def kSeparator_def)
  from lines_of_line [OF row_text_line(1) [OF this], of "[]" "[]"] read_lines_rows [of small_integers "[?s]" "[]" d] this
  have "readRecording (row_text small_integers [] ?s @ [CHR 0x0A]) [] d = Inr [?s]"
    by (simp add: readRecording_def)
  then show ?thesis
    by (simp add: row_text_def row_head_def value_text_def kFlagKind_def kSeparator_def show_int_def
        show_nat.simps digit_char_simps)
qed

end
