(* ===== verification/Session.thy ===== *)
theory Session
  imports Recording CoreState "HOL-Library.List_Lexorder" "HOL-Library.Char_ord"
begin

text \<open>
  Where a run's observations come from: core/session/session.hpp and session.cpp. A session answers
  four kinds of question (a reading of a kind, a payload, a flag, a trace), each its own virtual
  method; here one function over the seam, the four typed ones below it. A live read is a function
  on the bench that may throw. A source is any sequence of answers and how often it was asked; a
  session never copies one. An exception is the message of its std::runtime_error.

  A slot map that does not exist for a kind and one with nothing in it behave alike, so the map from
  kinds to slot maps is total. The hash maps' order is never observed.
\<close>

section \<open>Sources\<close>

record 'v Source =
  answers :: "nat \<Rightarrow> 'v option"
  asked :: nat

definition ask_source :: "'v Source \<Rightarrow> 'v option \<times> 'v Source" where
  "ask_source src = (answers src (asked src), src\<lparr>asked := asked src + 1\<rparr>)"

definition sourceOf :: "'v list \<Rightarrow> 'v Source" where
  "sourceOf xs = \<lparr>answers = (\<lambda>k. if k < length xs then Some (xs ! k) else None), asked = 0\<rparr>"

definition constantSource :: "'v \<Rightarrow> 'v Source" where
  "constantSource v = \<lparr>answers = (\<lambda>_. Some v), asked = 0\<rparr>"

record SlotWords =
  Noun :: string
  Program :: string
  Action :: string

type_synonym 'v slots = "string \<rightharpoonup> 'v Source"

definition kReadingWords :: SlotWords where
  "kReadingWords = \<lparr>Noun = ''value'', Program = ''program()'', Action = ''measuring''\<rparr>"

definition kDataWords :: SlotWords where
  "kDataWords = \<lparr>Noun = ''payload'', Program = ''programData()'', Action = ''reading''\<rparr>"

definition kFlagWords :: SlotWords where
  "kFlagWords = \<lparr>Noun = ''flag'', Program = ''programFlag()'', Action = ''awaiting''\<rparr>"

definition kTraceWords :: SlotWords where
  "kTraceWords = \<lparr>Noun = ''trace'', Program = ''programTrace()'', Action = ''capturing''\<rparr>"

definition slots_program :: "string \<Rightarrow> 'v Source \<Rightarrow> 'v slots \<Rightarrow> 'v slots" where
  "slots_program name src slots = slots(name \<mapsto> src)"

definition slots_has :: "string \<Rightarrow> 'v slots \<Rightarrow> bool" where
  "slots_has name slots \<longleftrightarrow> slots name \<noteq> None"

definition slots_next ::
    "SlotWords \<Rightarrow> string \<Rightarrow> string \<Rightarrow> 'v slots \<Rightarrow> (string + 'v) \<times> 'v slots" where
  "slots_next words name qualification slots =
     (let subject = sq name @ qualification
      in case slots name of
           None \<Rightarrow>
             (Inl (''ScriptedSession: nothing programmed for '' @ subject @ '' -- '' @ Program words @
                   '' it, or load a recording that covers it''), slots)
         | Some src \<Rightarrow>
             (case ask_source src of
                (None, src') \<Rightarrow>
                  (Inl (''ScriptedSession: no programmed '' @ Noun words @ '' left for '' @ subject @
                        '' -- either '' @ Program words @
                        '' more, load a longer recording, or the script is '' @ Action words @
                        '' it more times than expected''), slots(name \<mapsto> src'))
              | (Some v, src') \<Rightarrow> (Inr v, slots(name \<mapsto> src'))))"

section \<open>The scripted session\<close>

record ScriptedSession =
  mSources :: "QuantityVariant slots"
  mKindSources :: "QuantityKind \<Rightarrow> QuantityVariant slots"
  mDataSources :: "Bytes slots"
  mFlagSources :: "bool slots"
  mTraceSources :: "Waveform slots"

definition new_scripted :: ScriptedSession where
  "new_scripted = \<lparr>mSources = (\<lambda>_. None), mKindSources = (\<lambda>_ _. None), mDataSources = (\<lambda>_. None),
     mFlagSources = (\<lambda>_. None), mTraceSources = (\<lambda>_. None)\<rparr>"

definition program_kind :: "string \<Rightarrow> QuantityKind \<Rightarrow> QuantityVariant Source \<Rightarrow> ScriptedSession \<Rightarrow> ScriptedSession" where
  "program_kind name k src s =
     s\<lparr>mKindSources := (mKindSources s)(k := slots_program name src (mKindSources s k))\<rparr>"

definition program_value :: "string \<Rightarrow> QuantityVariant \<Rightarrow> ScriptedSession \<Rightarrow> ScriptedSession" where
  "program_value name v s = program_kind name (kind v) (constantSource v) s"

definition program_source :: "string \<Rightarrow> QuantityVariant Source \<Rightarrow> ScriptedSession \<Rightarrow> ScriptedSession" where
  "program_source name src s = s\<lparr>mSources := slots_program name src (mSources s)\<rparr>"

definition programData :: "string \<Rightarrow> Bytes Source \<Rightarrow> ScriptedSession \<Rightarrow> ScriptedSession" where
  "programData name src s = s\<lparr>mDataSources := slots_program name src (mDataSources s)\<rparr>"

definition programFlag :: "string \<Rightarrow> bool Source \<Rightarrow> ScriptedSession \<Rightarrow> ScriptedSession" where
  "programFlag name src s = s\<lparr>mFlagSources := slots_program name src (mFlagSources s)\<rparr>"

definition programTrace :: "string \<Rightarrow> Waveform Source \<Rightarrow> ScriptedSession \<Rightarrow> ScriptedSession" where
  "programTrace name src s = s\<lparr>mTraceSources := slots_program name src (mTraceSources s)\<rparr>"

definition kindMismatch :: "string \<Rightarrow> QuantityKind \<Rightarrow> QuantityKind \<Rightarrow> string" where
  "kindMismatch name programmed expected =
     ''ScriptedSession: point '' @ sq name @ '' was programmed as '' @ to_string_kind programmed @
     '' but was fetched as '' @ to_string_kind expected"

definition checkKind :: "string \<Rightarrow> QuantityKind \<Rightarrow> string + QuantityVariant \<Rightarrow> string + QuantityVariant" where
  "checkKind name expected r =
     (case r of
        Inl e \<Rightarrow> Inl e
      | Inr v \<Rightarrow> if kind v \<noteq> expected then Inl (kindMismatch name (kind v) expected) else Inr v)"

definition qualificationOf :: "QuantityKind \<Rightarrow> string" where
  "qualificationOf k = '' as '' @ to_string_kind k"

definition scripted_fetch ::
    "string \<Rightarrow> QuantityKind \<Rightarrow> ScriptedSession \<Rightarrow> (string + QuantityVariant) \<times> ScriptedSession" where
  "scripted_fetch name k s =
     (if slots_has name (mKindSources s k)
      then (case slots_next kReadingWords name (qualificationOf k) (mKindSources s k) of
              (r, slots) \<Rightarrow> (checkKind name k r, s\<lparr>mKindSources := (mKindSources s)(k := slots)\<rparr>))
      else
        (case (if slots_has name (mSources s) then None
               else find (\<lambda>programmed. slots_has name (mKindSources s programmed)) kinds) of
           Some programmed \<Rightarrow> (Inl (kindMismatch name programmed k), s)
         | None \<Rightarrow>
             (case slots_next kReadingWords name (qualificationOf k) (mSources s) of
                (r, slots) \<Rightarrow> (checkKind name k r, s\<lparr>mSources := slots\<rparr>))))"

definition scripted_fetchData :: "string \<Rightarrow> ScriptedSession \<Rightarrow> (string + Bytes) \<times> ScriptedSession" where
  "scripted_fetchData name s =
     (case slots_next kDataWords name [] (mDataSources s) of (r, slots) \<Rightarrow> (r, s\<lparr>mDataSources := slots\<rparr>))"

definition scripted_fetchFlag :: "string \<Rightarrow> ScriptedSession \<Rightarrow> (string + bool) \<times> ScriptedSession" where
  "scripted_fetchFlag name s =
     (case slots_next kFlagWords name [] (mFlagSources s) of (r, slots) \<Rightarrow> (r, s\<lparr>mFlagSources := slots\<rparr>))"

definition scripted_fetchTrace :: "string \<Rightarrow> ScriptedSession \<Rightarrow> (string + Waveform) \<times> ScriptedSession" where
  "scripted_fetchTrace name s =
     (case slots_next kTraceWords name [] (mTraceSources s) of (r, slots) \<Rightarrow> (r, s\<lparr>mTraceSources := slots\<rparr>))"

datatype seam = ReadingSeam QuantityKind | DataSeam | FlagSeam | TraceSeam

text \<open>A slot is a question: which seam, and at which name.\<close>

type_synonym slot = "seam \<times> string"

fun seam_of :: "RecordedValue \<Rightarrow> seam" where
  "seam_of (Reading q) = ReadingSeam (kind q)"
| "seam_of (Payload _) = DataSeam"
| "seam_of (Flag _) = FlagSeam"
| "seam_of (Trace _) = TraceSeam"

fun scripted_answer :: "slot \<Rightarrow> ScriptedSession \<Rightarrow> (string + RecordedValue) \<times> ScriptedSession" where
  "scripted_answer (ReadingSeam k, name) s = map_prod (map_sum id Reading) id (scripted_fetch name k s)"
| "scripted_answer (DataSeam, name) s = map_prod (map_sum id Payload) id (scripted_fetchData name s)"
| "scripted_answer (FlagSeam, name) s = map_prod (map_sum id Flag) id (scripted_fetchFlag name s)"
| "scripted_answer (TraceSeam, name) s = map_prod (map_sum id Trace) id (scripted_fetchTrace name s)"

section \<open>Loading a recording\<close>

text \<open>What the loop over the rows collects, per point, and what it learns about the tests.\<close>

record Collected =
  samples_by :: "QuantityKind \<Rightarrow> string \<Rightarrow> QuantityVariant list"
  payloads_by :: "string \<Rightarrow> Bytes list"
  flags_by :: "string \<Rightarrow> bool list"
  traces_by :: "string \<Rightarrow> Waveform list"
  recordedTests :: "string list"
  matchedSelection :: bool

definition nothing_collected :: Collected where
  "nothing_collected = \<lparr>samples_by = (\<lambda>_ _. []), payloads_by = (\<lambda>_. []), flags_by = (\<lambda>_. []),
     traces_by = (\<lambda>_. []), recordedTests = [], matchedSelection = False\<rparr>"

definition push :: "string \<Rightarrow> 'v \<Rightarrow> (string \<Rightarrow> 'v list) \<Rightarrow> string \<Rightarrow> 'v list" where
  "push name v m = m(name := m name @ [v])"

definition collect_value :: "string \<Rightarrow> RecordedValue \<Rightarrow> Collected \<Rightarrow> Collected" where
  "collect_value point v c =
     (case v of
        Payload p \<Rightarrow> c\<lparr>payloads_by := push point p (payloads_by c)\<rparr>
      | Flag b \<Rightarrow> c\<lparr>flags_by := push point b (flags_by c)\<rparr>
      | Trace w \<Rightarrow> c\<lparr>traces_by := push point w (traces_by c)\<rparr>
      | Reading q \<Rightarrow> c\<lparr>samples_by := (samples_by c)(kind q := push point q (samples_by c (kind q)))\<rparr>)"

definition collect :: "string list \<Rightarrow> RecordedSample \<Rightarrow> Collected \<Rightarrow> Collected" where
  "collect selection sample c =
     (let scoped = (mTestId sample \<noteq> kRunScope);
          c1 = (if scoped then c\<lparr>recordedTests := List.insert (mTestId sample) (recordedTests c)\<rparr> else c)
      in if scoped \<and> selection \<noteq> [] \<and> mTestId sample \<notin> set selection then c1
         else collect_value (mPointName sample) (mValue sample)
                (if scoped \<and> selection \<noteq> [] then c1\<lparr>matchedSelection := True\<rparr> else c1))"

definition slots_of :: "(string \<Rightarrow> 'v list) \<Rightarrow> 'v slots" where
  "slots_of m = (\<lambda>name. if m name = [] then None else Some (sourceOf (m name)))"

definition session_of :: "Collected \<Rightarrow> ScriptedSession" where
  "session_of c = \<lparr>mSources = (\<lambda>_. None), mKindSources = (\<lambda>k. slots_of (samples_by c k)),
     mDataSources = slots_of (payloads_by c), mFlagSources = slots_of (flags_by c),
     mTraceSources = slots_of (traces_by c)\<rparr>"

definition no_readings_error :: "string \<Rightarrow> string list \<Rightarrow> string" where
  "no_readings_error path recorded =
     ''ScriptedSession::loadFromFile: '' @ sq path @ '' has no readings for the selected test(s). It recorded:'' @
     concat (map (\<lambda>test. '' '' @ test) (sort recorded)) @
     (if recorded = [] then '' nothing but hook readings'' else [])"

definition session_from :: "string \<Rightarrow> string list \<Rightarrow> RecordedSample list \<Rightarrow> string + ScriptedSession" where
  "session_from path selection samples =
     (let c = fold (collect selection) samples nothing_collected
      in if selection \<noteq> [] \<and> \<not> matchedSelection c then Inl (no_readings_error path (recordedTests c))
         else Inr (session_of c))"

text \<open>The text of the file at the path, when it can be opened, and the disk its sidecar is on.\<close>

definition loadFromFile :: "string \<Rightarrow> string option \<Rightarrow> Disk \<Rightarrow> string list \<Rightarrow> string + ScriptedSession" where
  "loadFromFile path content d selection =
     (case content of
        None \<Rightarrow> Inl (''ScriptedSession::loadFromFile: could not open '' @ sq path)
      | Some rows \<Rightarrow>
          (case readRecording rows (sidecarDirectoryFor path) d of
             Inl e \<Rightarrow> Inl e
           | Inr samples \<Rightarrow> session_from path selection samples))"

section \<open>The bank\<close>

text \<open>
  The five sessions of a run. The recorder decorates the switchable session, which forwards to the
  session it currently points at; a recording goes to a writer, when there is one, or to memory.
\<close>

datatype pointed_at = LiveSession | PlaceholderSession | Scripted

record SessionBank =
  mScripted :: ScriptedSession
  mCurrent :: pointed_at
  mNextObservation :: "64 word"
  mRecorded :: "RecordedSample list"
  mWriter :: "RecordingWriter option"
  mRecording :: bool

definition new_bank :: SessionBank where
  "new_bank = \<lparr>mScripted = new_scripted, mCurrent = LiveSession, mNextObservation = 0, mRecorded = [],
     mWriter = None, mRecording = False\<rparr>"

definition arm :: "(ScriptedSession \<Rightarrow> ScriptedSession) \<Rightarrow> SessionBank \<Rightarrow> SessionBank" where
  "arm f b = b\<lparr>mScripted := f (mScripted b), mCurrent := Scripted\<rparr>"

definition inject :: "string \<Rightarrow> QuantityVariant \<Rightarrow> SessionBank \<Rightarrow> SessionBank" where
  "inject point v = arm (program_value point v)"

definition inject_kind :: "string \<Rightarrow> QuantityKind \<Rightarrow> QuantityVariant Source \<Rightarrow> SessionBank \<Rightarrow> SessionBank" where
  "inject_kind point k src = arm (program_kind point k src)"

definition inject_source :: "string \<Rightarrow> QuantityVariant Source \<Rightarrow> SessionBank \<Rightarrow> SessionBank" where
  "inject_source point src = arm (program_source point src)"

definition injectData :: "string \<Rightarrow> Bytes Source \<Rightarrow> SessionBank \<Rightarrow> SessionBank" where
  "injectData name src = arm (programData name src)"

definition injectFlag :: "string \<Rightarrow> bool Source \<Rightarrow> SessionBank \<Rightarrow> SessionBank" where
  "injectFlag name src = arm (programFlag name src)"

definition injectTrace :: "string \<Rightarrow> Waveform Source \<Rightarrow> SessionBank \<Rightarrow> SessionBank" where
  "injectTrace name src = arm (programTrace name src)"

definition bank_load ::
    "string \<Rightarrow> string option \<Rightarrow> Disk \<Rightarrow> string list \<Rightarrow> SessionBank \<Rightarrow> string option \<times> SessionBank" where
  "bank_load path content d selection b =
     (case loadFromFile path content d selection of
        Inl e \<Rightarrow> (Some e, b)
      | Inr s \<Rightarrow> (None, b\<lparr>mScripted := s, mCurrent := Scripted\<rparr>))"

definition useLive :: "SessionBank \<Rightarrow> SessionBank" where
  "useLive b = b\<lparr>mCurrent := LiveSession, mScripted := new_scripted\<rparr>"

definition usePlaceholders :: "SessionBank \<Rightarrow> SessionBank" where
  "usePlaceholders b = b\<lparr>mScripted := new_scripted, mCurrent := PlaceholderSession\<rparr>"

definition startRecording :: "SessionBank \<Rightarrow> SessionBank" where
  "startRecording b = b\<lparr>mRecording := True\<rparr>"

definition startRecordingTo :: "RecordingWriter \<Rightarrow> SessionBank \<Rightarrow> SessionBank" where
  "startRecordingTo w b = b\<lparr>mWriter := Some w, mRecording := True\<rparr>"

definition stopRecording :: "SessionBank \<Rightarrow> SessionBank" where
  "stopRecording b = b\<lparr>mRecording := False\<rparr>"

definition bank_dump :: "(double \<Rightarrow> string) \<Rightarrow> Disk \<Rightarrow> SessionBank \<Rightarrow> string + string" where
  "bank_dump fmt d b =
     (if mWriter b \<noteq> None
      then Inl ''SessionBank::dump: this recording was streamed as it was taken and is already written''
      else (case writeRecording fmt (mRecorded b) [] d of
              (Some e, out, _) \<Rightarrow> Inl e
            | (None, out, _) \<Rightarrow> Inr out))"

definition recordedCount :: "SessionBank \<Rightarrow> 64 word" where
  "recordedCount b = mNextObservation b"

text \<open>A live read, and the answer a placeholder gives.\<close>

type_synonym 'b live_read = "'b \<Rightarrow> (string + RecordedValue) \<times> 'b"

fun placeholder :: "seam \<Rightarrow> RecordedValue" where
  "placeholder (ReadingSeam k) = Reading (quantityVariantFromKind k (Fin 0))"
| "placeholder DataSeam = Payload []"
| "placeholder FlagSeam = Flag True"
| "placeholder TraceSeam =
     Trace \<lparr>mKind = Voltage, mTiming = \<lparr>Origin = Fin 0, Increment = Fin 0\<rparr>, mSamples = []\<rparr>"

definition live_fetch :: "Bench \<Rightarrow> string \<Rightarrow> 'b live_read \<Rightarrow> 'b live_read" where
  "live_fetch bench name liveRead rig =
     (if \<not> mAttached bench
      then (Inl (''LiveSession: '' @ sq name @
                 '' would be read from an instrument, but no bench is attached -- inject or replay it,'' @
                 '' or attach a bench''), rig)
      else liveRead rig)"

definition switchable_fetch ::
    "Bench \<Rightarrow> slot \<Rightarrow> 'b live_read \<Rightarrow> SessionBank \<times> 'b \<Rightarrow> (string + RecordedValue) \<times> SessionBank \<times> 'b" where
  "switchable_fetch bench q liveRead st =
     (case mCurrent (fst st) of
        LiveSession \<Rightarrow> (case live_fetch bench (snd q) liveRead (snd st) of (r, rig) \<Rightarrow> (r, fst st, rig))
      | PlaceholderSession \<Rightarrow> (Inr (placeholder (fst q)), st)
      | Scripted \<Rightarrow>
          (case scripted_answer q (mScripted (fst st)) of
             (r, s) \<Rightarrow> (r, (fst st)\<lparr>mScripted := s\<rparr>, snd st)))"

text \<open>Where an observation is made: the journal's current test, the clock, the instrument.\<close>

record Moment =
  currentTest :: string
  wallClockMillis :: int
  instrumentId :: string

definition sample_at :: "Moment \<Rightarrow> string \<Rightarrow> RecordedValue \<Rightarrow> 64 word \<Rightarrow> RecordedSample" where
  "sample_at here name v n =
     \<lparr>mSequence = n, mWallClockUnixMillis = wallClockMillis here,
      mTestId = (if currentTest here = [] then kRunScope else currentTest here), mPointName = name,
      mInstrumentId = instrumentId here, mValue = v\<rparr>"

definition bank_record ::
    "(double \<Rightarrow> string) \<Rightarrow> Moment \<Rightarrow> string \<Rightarrow> RecordedValue \<Rightarrow> SessionBank \<Rightarrow> string option \<times> SessionBank" where
  "bank_record fmt here name v b =
     (let sample = sample_at here name v (mNextObservation b);
          b' = b\<lparr>mNextObservation := mNextObservation b + 1\<rparr>
      in case mWriter b' of
           Some w \<Rightarrow> (case write_sample fmt sample w of (e, w') \<Rightarrow> (e, b'\<lparr>mWriter := Some w'\<rparr>))
         | None \<Rightarrow> (None, b'\<lparr>mRecorded := mRecorded b' @ [sample]\<rparr>))"

definition recorder_fetch ::
    "(double \<Rightarrow> string) \<Rightarrow> Bench \<Rightarrow> Moment \<Rightarrow> slot \<Rightarrow> 'b live_read \<Rightarrow> SessionBank \<times> 'b
       \<Rightarrow> (string + RecordedValue) \<times> SessionBank \<times> 'b" where
  "recorder_fetch fmt bench here q liveRead st =
     (case switchable_fetch bench q liveRead st of
        (Inl e, st') \<Rightarrow> (Inl e, st')
      | (Inr v, b, rig) \<Rightarrow>
          (case bank_record fmt here (snd q) v b of
             (Some e, b') \<Rightarrow> (Inl e, b', rig)
           | (None, b') \<Rightarrow> (Inr v, b', rig)))"

definition bank_fetch ::
    "(double \<Rightarrow> string) \<Rightarrow> Bench \<Rightarrow> Moment \<Rightarrow> slot \<Rightarrow> 'b live_read \<Rightarrow> SessionBank \<times> 'b
       \<Rightarrow> (string + RecordedValue) \<times> SessionBank \<times> 'b" where
  "bank_fetch fmt bench here q liveRead st =
     (if mRecording (fst st) then recorder_fetch fmt bench here q liveRead st
      else switchable_fetch bench q liveRead st)"

section \<open>Nothing live is read by mistake\<close>

text \<open>
  Unless the bank points at the live session and a bench is attached, no fetch on any seam
  reaches the rig: a replayed, injected or placeholder run and a detached one leave it alone.
\<close>

theorem fetch_without_bench_reads_nothing:
  assumes "mCurrent b \<noteq> LiveSession \<or> \<not> mAttached bench"
  shows "snd (snd (bank_fetch fmt bench here q liveRead (b, rig))) = rig"
  using assms
  by (cases "mCurrent b")
     (auto simp: bank_fetch_def recorder_fetch_def switchable_fetch_def live_fetch_def
        split: prod.splits sum.splits option.splits)

theorem fetch_without_bench_reads_nothing_witness:
  "snd (snd (bank_fetch (\<lambda>_. []) \<lparr>mAttached = True\<rparr> \<lparr>currentTest = ''T'', wallClockMillis = 0, instrumentId = ''Dmm1''\<rparr>
      (FlagSeam, ''Osc1.Acquisition'') (\<lambda>n. (Inr (Flag True), n + 1)) (usePlaceholders new_bank, 0 :: nat))) = 0"
  by (rule fetch_without_bench_reads_nothing) (simp add: usePlaceholders_def)

datatype arming =
    Inject string QuantityVariant
  | InjectKind string QuantityKind "QuantityVariant Source"
  | InjectSource string "QuantityVariant Source"
  | InjectData string "Bytes Source"
  | InjectFlag string "bool Source"
  | InjectTrace string "Waveform Source"
  | LoadRecording string "string option" Disk "string list"
  | Placeholders

fun run_arming :: "arming \<Rightarrow> SessionBank \<Rightarrow> SessionBank" where
  "run_arming (Inject p v) b = inject p v b"
| "run_arming (InjectKind p k src) b = inject_kind p k src b"
| "run_arming (InjectSource p src) b = inject_source p src b"
| "run_arming (InjectData p src) b = injectData p src b"
| "run_arming (InjectFlag p src) b = injectFlag p src b"
| "run_arming (InjectTrace p src) b = injectTrace p src b"
| "run_arming (LoadRecording path content d sel) b = snd (bank_load path content d sel b)"
| "run_arming Placeholders b = usePlaceholders b"

text \<open>
  useLive() is the full inverse of arming a bank: whatever was injected or loaded, and in
  whatever order, the bank answers afterwards as it would have without it.
\<close>

theorem useLive_undoes_arming:
  "useLive (fold run_arming ops b) = useLive b"
proof -
  have step: "useLive (run_arming op b) = useLive b" for op b
    by (cases op)
       (auto simp: useLive_def inject_def inject_kind_def inject_source_def injectData_def injectFlag_def
          injectTrace_def arm_def bank_load_def usePlaceholders_def split: sum.splits)
  show ?thesis by (induction ops arbitrary: b) (simp_all add: step)
qed

end
