(* ===== verification/Replay.thy ===== *)
theory Replay
  imports Session
begin

text \<open>
  What a scripted session promises, and that a recording keeps it. The contract is a queue of values
  per slot: each ask of a slot takes the head of its own queue, in whatever order slots are asked,
  and a slot whose queue is empty refuses. The locale states it, the scripted session provides it,
  and the last theorem runs a recorded run through the writer, the reader and the bank.
\<close>

section \<open>Queues per slot\<close>

type_synonym queues = "slot \<Rightarrow> RecordedValue list"

fun serve :: "slot list \<Rightarrow> queues \<Rightarrow> RecordedValue option list" where
  "serve [] queue = []"
| "serve (q # qs) queue =
     (case queue q of
        [] \<Rightarrow> None # serve qs queue
      | v # vs \<Rightarrow> Some v # serve qs (queue(q := vs)))"

fun ask_all ::
    "(slot \<Rightarrow> 's \<Rightarrow> (string + RecordedValue) \<times> 's) \<Rightarrow> slot list \<Rightarrow> 's \<Rightarrow> (string + RecordedValue) list" where
  "ask_all answer [] s = []"
| "ask_all answer (q # qs) s = fst (answer q s) # ask_all answer qs (snd (answer q s))"

definition answered :: "string + 'v \<Rightarrow> 'v option" where
  "answered r = (case r of Inl e \<Rightarrow> None | Inr v \<Rightarrow> Some v)"

lemma answered_simps [simp]: "answered (Inl e) = None" "answered (Inr v) = Some v"
  by (simp_all add: answered_def)

lemma answered_Some: "answered r = Some v \<longleftrightarrow> r = Inr v"
  by (cases r) auto

lemma answered_all: "map answered rs = map Some vs \<Longrightarrow> rs = map Inr vs"
  by (induction rs arbitrary: vs) (auto simp: map_eq_Cons_conv answered_Some)

lemma serve_recorded:
  "serve (map fst asks) (\<lambda>q. map snd (filter (\<lambda>a. fst a = q) asks)) = map (\<lambda>a. Some (snd a)) asks"
proof (induction asks)
  case (Cons a asks)
  have "(\<lambda>q. map snd (filter (\<lambda>a. fst a = q) (a # asks)))(fst a := map snd (filter (\<lambda>b. fst b = fst a) asks))
      = (\<lambda>q. map snd (filter (\<lambda>a. fst a = q) asks))"
    by auto
  with Cons.IH show ?case by simp
qed simp

locale slot_queues =
  fixes answer :: "slot \<Rightarrow> 's \<Rightarrow> (string + RecordedValue) \<times> 's"
    and holds :: "'s \<Rightarrow> queues \<Rightarrow> bool"
  assumes served: "holds s queue \<Longrightarrow> queue q = v # vs \<Longrightarrow>
      fst (answer q s) = Inr v \<and> holds (snd (answer q s)) (queue(q := vs))"
    and dry: "holds s queue \<Longrightarrow> queue q = [] \<Longrightarrow>
      answered (fst (answer q s)) = None \<and> holds (snd (answer q s)) queue"
begin

lemma ask_all_serves: "holds s queue \<Longrightarrow> map answered (ask_all answer qs s) = serve qs queue"
proof (induction qs arbitrary: s queue)
  case (Cons q qs)
  show ?case
  proof (cases "queue q")
    case Nil
    with Cons.prems dry [of s queue q] Cons.IH [of "snd (answer q s)" queue] show ?thesis by simp
  next
    case queued: (Cons v vs)
    with Cons.prems served [of s queue q v vs] Cons.IH [of "snd (answer q s)" "queue(q := vs)"] show ?thesis
      by (simp add: fun_upd_def)
  qed
qed simp

lemma ask_all_recorded:
  assumes "holds s queue" and "\<And>q. queue q = map snd (filter (\<lambda>a. fst a = q) asks)"
  shows "ask_all answer (map fst asks) s = map (\<lambda>a. Inr (snd a)) asks"
proof -
  from assms(2) have "queue = (\<lambda>q. map snd (filter (\<lambda>a. fst a = q) asks))" by blast
  with ask_all_serves [OF assms(1), of "map fst asks"]
  have "map answered (ask_all answer (map fst asks) s) = map (\<lambda>a. Some (snd a)) asks"
    by (simp add: serve_recorded del: map_map)
  then have "map answered (ask_all answer (map fst asks) s) = map Some (map snd asks)" by simp
  from answered_all [OF this] show ?thesis by simp
qed

end

section \<open>The scripted session keeps it\<close>

definition source_holds :: "'v Source \<Rightarrow> 'v list \<Rightarrow> bool" where
  "source_holds src vs \<longleftrightarrow> (\<forall>k. answers src (asked src + k) = (if k < length vs then Some (vs ! k) else None))"

definition slots_hold :: "'v slots \<Rightarrow> string \<Rightarrow> 'v list \<Rightarrow> bool" where
  "slots_hold slots name vs \<longleftrightarrow> (case slots name of None \<Rightarrow> vs = [] | Some src \<Rightarrow> source_holds src vs)"

lemma source_holds_sourceOf [simp]: "source_holds (sourceOf vs) vs"
  by (simp add: source_holds_def sourceOf_def)

lemma source_holds_Cons:
  "source_holds src (v # vs) \<Longrightarrow> ask_source src = (Some v, src\<lparr>asked := asked src + 1\<rparr>)
     \<and> source_holds (src\<lparr>asked := asked src + 1\<rparr>) vs"
proof -
  assume h: "source_holds src (v # vs)"
  then have "answers src (asked src) = Some v"
    unfolding source_holds_def by (metis add.right_neutral length_Cons nth_Cons_0 zero_less_Suc)
  moreover have "answers src (Suc (asked src) + k) = (if k < length vs then Some (vs ! k) else None)" for k
    using h [unfolded source_holds_def, rule_format, of "Suc k"] by simp
  ultimately show ?thesis by (simp add: ask_source_def source_holds_def)
qed

lemma source_holds_Nil:
  "source_holds src [] \<Longrightarrow> ask_source src = (None, src\<lparr>asked := asked src + 1\<rparr>)
     \<and> source_holds (src\<lparr>asked := asked src + 1\<rparr>) []"
proof -
  assume "source_holds src []"
  then have n: "answers src (asked src + k) = None" for k by (simp add: source_holds_def)
  from n [of 0] n [of "Suc k" for k] show ?thesis by (simp add: source_holds_def ask_source_def)
qed

lemma slots_next_served:
  assumes "slots_hold slots name (v # vs)"
  shows "fst (slots_next words name qualification slots) = Inr v"
    and "slots_hold (snd (slots_next words name qualification slots)) name vs"
    and "name' \<noteq> name \<Longrightarrow> snd (slots_next words name qualification slots) name' = slots name'"
  using assms source_holds_Cons
  by (force simp: slots_hold_def slots_next_def split: option.splits)+

lemma slots_hold_has: "slots_hold slots name (v # vs) \<Longrightarrow> slots_has name slots"
  by (auto simp: slots_hold_def slots_has_def split: option.splits)

lemma slots_next_dry:
  assumes "slots_hold slots name []"
  shows "answered (fst (slots_next words name qualification slots)) = None"
    and "slots_hold (snd (slots_next words name qualification slots)) name []"
    and "name' \<noteq> name \<Longrightarrow> snd (slots_next words name qualification slots) name' = slots name'"
  using assms source_holds_Nil
  by (force simp: slots_hold_def slots_next_def split: option.splits)+

text \<open>
  The session and the queues agree: the map of a slot's seam holds what is queued for the slot, and
  no source is programmed to fit any kind.
\<close>

fun cell_holds :: "ScriptedSession \<Rightarrow> slot \<Rightarrow> RecordedValue list \<Rightarrow> bool" where
  "cell_holds s (ReadingSeam k, name) vs \<longleftrightarrow>
     (\<exists>xs. vs = map Reading xs \<and> list_all (\<lambda>x. kind x = k) xs \<and> slots_hold (mKindSources s k) name xs)"
| "cell_holds s (DataSeam, name) vs \<longleftrightarrow> (\<exists>xs. vs = map Payload xs \<and> slots_hold (mDataSources s) name xs)"
| "cell_holds s (FlagSeam, name) vs \<longleftrightarrow> (\<exists>xs. vs = map Flag xs \<and> slots_hold (mFlagSources s) name xs)"
| "cell_holds s (TraceSeam, name) vs \<longleftrightarrow> (\<exists>xs. vs = map Trace xs \<and> slots_hold (mTraceSources s) name xs)"

definition session_holds :: "ScriptedSession \<Rightarrow> queues \<Rightarrow> bool" where
  "session_holds s queue \<longleftrightarrow> mSources s = (\<lambda>_. None) \<and> (\<forall>q. cell_holds s q (queue q))"

lemma cell_holds_other:
  assumes "q \<noteq> (sm, name)"
  shows "sm = ReadingSeam k \<Longrightarrow> (\<And>other. other \<noteq> name \<Longrightarrow> sl other = mKindSources s k other) \<Longrightarrow>
      cell_holds (s\<lparr>mKindSources := (mKindSources s)(k := sl)\<rparr>) q vs = cell_holds s q vs"
    and "sm = DataSeam \<Longrightarrow> (\<And>other. other \<noteq> name \<Longrightarrow> sd other = mDataSources s other) \<Longrightarrow>
      cell_holds (s\<lparr>mDataSources := sd\<rparr>) q vs = cell_holds s q vs"
    and "sm = FlagSeam \<Longrightarrow> (\<And>other. other \<noteq> name \<Longrightarrow> sf other = mFlagSources s other) \<Longrightarrow>
      cell_holds (s\<lparr>mFlagSources := sf\<rparr>) q vs = cell_holds s q vs"
    and "sm = TraceSeam \<Longrightarrow> (\<And>other. other \<noteq> name \<Longrightarrow> st other = mTraceSources s other) \<Longrightarrow>
      cell_holds (s\<lparr>mTraceSources := st\<rparr>) q vs = cell_holds s q vs"
  using assms
  by (cases q rule: prod.exhaust; cases "fst q"; auto simp: slots_hold_def)+

lemma scripted_served:
  assumes "mSources s = (\<lambda>_. None)" and "cell_holds s q (v # vs)"
  shows "fst (scripted_answer q s) = Inr v" and "cell_holds (snd (scripted_answer q s)) q vs"
    and "q' \<noteq> q \<Longrightarrow> cell_holds (snd (scripted_answer q s)) q' ws = cell_holds s q' ws"
    and "mSources (snd (scripted_answer q s)) = (\<lambda>_. None)"
proof -
  obtain sm name where q: "q = (sm, name)" by (cases q)
  have "fst (scripted_answer q s) = Inr v \<and> cell_holds (snd (scripted_answer q s)) q vs
    \<and> (q' \<noteq> q \<longrightarrow> cell_holds (snd (scripted_answer q s)) q' ws = cell_holds s q' ws)
    \<and> mSources (snd (scripted_answer q s)) = (\<lambda>_. None)"
  proof (cases sm)
    case (ReadingSeam k)
    with assms q obtain x xs where x: "v = Reading x" "vs = map Reading xs" "kind x = k" "list_all (\<lambda>x. kind x = k) xs"
        "slots_hold (mKindSources s k) name (x # xs)"
      by (auto simp: Cons_eq_map_conv)
    with q ReadingSeam assms(1) slots_next_served [OF x(5), where words = kReadingWords and qualification = "qualificationOf k"]
      slots_hold_has [OF x(5)] show ?thesis
      by (auto simp: scripted_fetch_def checkKind_def cell_holds_other split: prod.split)
  next
    case DataSeam
    with assms q obtain x xs where x: "v = Payload x" "vs = map Payload xs" "slots_hold (mDataSources s) name (x # xs)"
      by (auto simp: Cons_eq_map_conv)
    with q DataSeam assms(1) slots_next_served [OF x(3), where words = kDataWords and qualification = "[]"] show ?thesis
      by (auto simp: scripted_fetchData_def cell_holds_other split: prod.split)
  next
    case FlagSeam
    with assms q obtain x xs where x: "v = Flag x" "vs = map Flag xs" "slots_hold (mFlagSources s) name (x # xs)"
      by (auto simp: Cons_eq_map_conv)
    with q FlagSeam assms(1) slots_next_served [OF x(3), where words = kFlagWords and qualification = "[]"] show ?thesis
      by (auto simp: scripted_fetchFlag_def cell_holds_other split: prod.split)
  next
    case TraceSeam
    with assms q obtain x xs where x: "v = Trace x" "vs = map Trace xs" "slots_hold (mTraceSources s) name (x # xs)"
      by (auto simp: Cons_eq_map_conv)
    with q TraceSeam assms(1) slots_next_served [OF x(3), where words = kTraceWords and qualification = "[]"] show ?thesis
      by (auto simp: scripted_fetchTrace_def cell_holds_other split: prod.split)
  qed
  then show "fst (scripted_answer q s) = Inr v" and "cell_holds (snd (scripted_answer q s)) q vs"
    and "q' \<noteq> q \<Longrightarrow> cell_holds (snd (scripted_answer q s)) q' ws = cell_holds s q' ws"
    and "mSources (snd (scripted_answer q s)) = (\<lambda>_. None)"
    by blast+
qed

lemma slots_next_empty:
  "slots_next words name qualification (\<lambda>_. None) = (r, slots) \<Longrightarrow> answered r = None \<and> slots = (\<lambda>_. None)"
  by (auto simp: slots_next_def Let_def)

lemma scripted_dry:
  assumes "mSources s = (\<lambda>_. None)" and "cell_holds s q []"
  shows "answered (fst (scripted_answer q s)) = None" and "cell_holds (snd (scripted_answer q s)) q []"
    and "q' \<noteq> q \<Longrightarrow> cell_holds (snd (scripted_answer q s)) q' ws = cell_holds s q' ws"
    and "mSources (snd (scripted_answer q s)) = (\<lambda>_. None)"
proof -
  obtain sm name where q: "q = (sm, name)" by (cases q)
  have unanswered: "answered (map_sum id f r) = None \<longleftrightarrow> answered r = None" for f :: "'v \<Rightarrow> RecordedValue" and r :: "string + 'v"
    by (cases r) simp_all
  have "answered (fst (scripted_answer q s)) = None \<and> cell_holds (snd (scripted_answer q s)) q []
    \<and> (q' \<noteq> q \<longrightarrow> cell_holds (snd (scripted_answer q s)) q' ws = cell_holds s q' ws)
    \<and> mSources (snd (scripted_answer q s)) = (\<lambda>_. None)"
  proof (cases sm)
    case (ReadingSeam k)
    show ?thesis
    proof (cases "slots_has name (mKindSources s k)")
      case True
      from q ReadingSeam assms have h: "slots_hold (mKindSources s k) name []" by simp
      obtain r slots where n: "slots_next kReadingWords name (qualificationOf k) (mKindSources s k) = (r, slots)"
        by (cases "slots_next kReadingWords name (qualificationOf k) (mKindSources s k)")
      obtain e where "r = Inl e"
        using slots_next_dry(1) [OF h, where words = kReadingWords and qualification = "qualificationOf k"] n
        by (cases r) auto
      with True q ReadingSeam assms(1) n
        slots_next_dry(2,3) [OF h, where words = kReadingWords and qualification = "qualificationOf k"]
      show ?thesis by (auto simp: scripted_fetch_def checkKind_def cell_holds_other)
    next
      case False
      obtain r slots where n: "slots_next kReadingWords name (qualificationOf k) (mSources s) = (r, slots)"
        by (cases "slots_next kReadingWords name (qualificationOf k) (mSources s)")
      then obtain e where "r = Inl e" "slots = (\<lambda>_. None)"
        using assms(1) slots_next_empty [of kReadingWords name "qualificationOf k" r slots] by (cases r) auto
      moreover have same: "s\<lparr>mSources := \<lambda>_. None\<rparr> = s" using assms(1) by (cases s) simp
      ultimately show ?thesis using False q ReadingSeam assms n
        by (auto simp: scripted_fetch_def checkKind_def same split: option.split)
    qed
  next
    case DataSeam
    with q assms have h: "slots_hold (mDataSources s) name []" by simp
    show ?thesis using q DataSeam assms(1) slots_next_dry [OF h, where words = kDataWords and qualification = "[]"]
      by (auto simp: scripted_fetchData_def cell_holds_other unanswered split: prod.split)
  next
    case FlagSeam
    with q assms have h: "slots_hold (mFlagSources s) name []" by simp
    show ?thesis using q FlagSeam assms(1) slots_next_dry [OF h, where words = kFlagWords and qualification = "[]"]
      by (auto simp: scripted_fetchFlag_def cell_holds_other unanswered split: prod.split)
  next
    case TraceSeam
    with q assms have h: "slots_hold (mTraceSources s) name []" by simp
    show ?thesis using q TraceSeam assms(1) slots_next_dry [OF h, where words = kTraceWords and qualification = "[]"]
      by (auto simp: scripted_fetchTrace_def cell_holds_other unanswered split: prod.split)
  qed
  then show "answered (fst (scripted_answer q s)) = None" and "cell_holds (snd (scripted_answer q s)) q []"
    and "q' \<noteq> q \<Longrightarrow> cell_holds (snd (scripted_answer q s)) q' ws = cell_holds s q' ws"
    and "mSources (snd (scripted_answer q s)) = (\<lambda>_. None)"
    by blast+
qed

lemma session_holdsD: "session_holds s queue \<Longrightarrow> mSources s = (\<lambda>_. None) \<and> cell_holds s q (queue q)"
  unfolding session_holds_def by blast

lemma session_holdsI: "mSources s = (\<lambda>_. None) \<Longrightarrow> (\<And>q. cell_holds s q (queue q)) \<Longrightarrow> session_holds s queue"
  unfolding session_holds_def by blast

interpretation scripted: slot_queues scripted_answer session_holds
proof
  fix s queue q v vs
  assume h: "session_holds s queue" "queue q = v # vs"
  then have c: "mSources s = (\<lambda>_. None)" "cell_holds s q (v # vs)" using session_holdsD [OF h(1), of q] by auto
  have "cell_holds (snd (scripted_answer q s)) q' ((queue(q := vs)) q')" for q'
    using scripted_served(2,3) [OF c] session_holdsD [OF h(1), of q'] by (cases "q' = q") simp_all
  with scripted_served(1,4) [OF c]
  show "fst (scripted_answer q s) = Inr v \<and> session_holds (snd (scripted_answer q s)) (queue(q := vs))"
    by (blast intro: session_holdsI)
next
  fix s queue q
  assume h: "session_holds s queue" "queue q = []"
  then have c: "mSources s = (\<lambda>_. None)" "cell_holds s q []" using session_holdsD [OF h(1), of q] by auto
  have "cell_holds (snd (scripted_answer q s)) q' (queue q')" for q'
    using scripted_dry(2,3) [OF c] h(2) session_holdsD [OF h(1), of q'] by (cases "q' = q") simp_all
  with scripted_dry(1,4) [OF c]
  show "answered (fst (scripted_answer q s)) = None \<and> session_holds (snd (scripted_answer q s)) queue"
    by (blast intro: session_holdsI)
qed

section \<open>A loaded session holds what was recorded\<close>

definition slot_of :: "RecordedSample \<Rightarrow> slot" where
  "slot_of sample = (seam_of (mValue sample), mPointName sample)"

definition kept_by :: "string list \<Rightarrow> string \<Rightarrow> bool" where
  "kept_by selection test \<longleftrightarrow> test = kRunScope \<or> selection = [] \<or> test \<in> set selection"

fun collected :: "Collected \<Rightarrow> queues" where
  "collected c (ReadingSeam k, name) = map Reading (samples_by c k name)"
| "collected c (DataSeam, name) = map Payload (payloads_by c name)"
| "collected c (FlagSeam, name) = map Flag (flags_by c name)"
| "collected c (TraceSeam, name) = map Trace (traces_by c name)"

lemma collect_queue:
  "collected (collect selection sample c) q
     = collected c q @ (if kept_by selection (mTestId sample) \<and> slot_of sample = q then [mValue sample] else [])"
  by (cases q rule: prod.exhaust; cases "fst q"; cases "mValue sample")
     (auto simp: collect_def collect_value_def kept_by_def slot_of_def push_def Let_def)

lemma fold_collect_queue:
  "collected (fold (collect selection) samples c) q
     = collected c q @ map mValue (filter (\<lambda>s. kept_by selection (mTestId s) \<and> slot_of s = q) samples)"
  by (induction samples arbitrary: c) (simp_all add: collect_queue)

lemma fold_collect_matched:
  "selection \<noteq> [] \<Longrightarrow> matchedSelection (fold (collect selection) samples c) \<longleftrightarrow>
     matchedSelection c \<or> (\<exists>s\<in>set samples. mTestId s \<noteq> kRunScope \<and> mTestId s \<in> set selection)"
  by (induction samples arbitrary: c)
     (auto simp: collect_def collect_value_def Let_def split: RecordedValue.splits)

definition kinds_right :: "Collected \<Rightarrow> bool" where
  "kinds_right c \<longleftrightarrow> (\<forall>k name. list_all (\<lambda>x. kind x = k) (samples_by c k name))"

lemma fold_collect_kinds: "kinds_right c \<Longrightarrow> kinds_right (fold (collect selection) samples c)"
  by (induction samples arbitrary: c)
     (simp_all add: kinds_right_def collect_def collect_value_def push_def Let_def split: RecordedValue.splits)

lemma session_of_holds: "kinds_right c \<Longrightarrow> session_holds (session_of c) (collected c)"
proof -
  have slots: "slots_hold (slots_of m) name (m name)" for m :: "string \<Rightarrow> 'v list" and name
    by (simp add: slots_hold_def slots_of_def)
  assume "kinds_right c"
  then have "cell_holds (session_of c) (sm, name) (collected c (sm, name))" for sm name
    by (cases sm) (auto simp: session_of_def slots kinds_right_def)
  then show ?thesis by (simp add: session_holds_def session_of_def)
qed

section \<open>A run through the bank\<close>

text \<open>An ask: when and where it is made, its slot, and the live read it would come down to.\<close>

type_synonym 'b ask = "Moment \<times> slot \<times> 'b live_read"

fun bank_run ::
    "(double \<Rightarrow> string) \<Rightarrow> Bench \<Rightarrow> 'b ask list \<Rightarrow> SessionBank \<times> 'b
       \<Rightarrow> (string + RecordedValue) list \<times> SessionBank \<times> 'b" where
  "bank_run fmt bench [] st = ([], st)"
| "bank_run fmt bench ((here, q, liveRead) # asks) st =
     (case bank_fetch fmt bench here q liveRead st of
        (r, st') \<Rightarrow> (case bank_run fmt bench asks st' of (rs, st'') \<Rightarrow> (r # rs, st'')))"

fun observed :: "'b ask list \<Rightarrow> RecordedValue list \<Rightarrow> 64 word \<Rightarrow> RecordedSample list" where
  "observed ((here, q, liveRead) # asks) (v # vs) n = sample_at here (snd q) v n # observed asks vs (n + 1)"
| "observed _ _ n = []"

definition scope_of :: "'b ask \<Rightarrow> string" where
  "scope_of a = (if currentTest (fst a) = [] then kRunScope else currentTest (fst a))"

definition ask_slot :: "'b ask \<Rightarrow> slot" where
  "ask_slot a = fst (snd a)"

lemma recorder_fetch_ok:
  assumes "recorder_fetch fmt bench here q liveRead (b, rig) = (Inr v, b', rig')" and "mWriter b = Some w"
  obtains w' where "write_sample fmt (sample_at here (snd q) v (mNextObservation b)) w = (None, w')"
    "mWriter b' = Some w'" "mNextObservation b' = mNextObservation b + 1" "mRecording b' = mRecording b"
  using assms
  by (cases "mCurrent b")
     (auto simp: recorder_fetch_def switchable_fetch_def bank_record_def Let_def
        split: prod.splits sum.splits option.splits)

lemma bank_run_recorded:
  assumes "bank_run fmt bench asks (b, rig) = (map Inr vs, b', rig')" and "mRecording b" and "mWriter b = Some w"
  shows "length vs = length asks
    \<and> (\<exists>w'. mWriter b' = Some w' \<and> write_samples fmt (observed asks vs (mNextObservation b)) w = (None, w'))"
  using assms
proof (induction asks arbitrary: b rig vs w)
  case (Cons a asks)
  obtain here q liveRead where a: "a = (here, q, liveRead)" by (cases a)
  obtain r b1 rig1 where f: "bank_fetch fmt bench here q liveRead (b, rig) = (r, b1, rig1)"
    by (cases "bank_fetch fmt bench here q liveRead (b, rig)")
  with Cons.prems(1) a obtain v vs' where v: "r = Inr v" "vs = v # vs'"
    "bank_run fmt bench asks (b1, rig1) = (map Inr vs', b', rig')"
    by (auto split: prod.splits simp: Cons_eq_map_conv)
  from f v(1) Cons.prems(2) have "recorder_fetch fmt bench here q liveRead (b, rig) = (Inr v, b1, rig1)"
    by (simp add: bank_fetch_def)
  then obtain w1 where "write_sample fmt (sample_at here (snd q) v (mNextObservation b)) w = (None, w1)"
    "mWriter b1 = Some w1" "mNextObservation b1 = mNextObservation b + 1" "mRecording b1 = mRecording b"
    by (rule recorder_fetch_ok [OF _ Cons.prems(3)])
  with Cons.IH [OF v(3)] Cons.prems(2) a v(2) show ?case by simp
qed simp

lemma bank_run_scripted:
  assumes "mCurrent b = Scripted" and "\<not> mRecording b"
  shows "fst (bank_run fmt bench asks (b, rig)) = ask_all scripted_answer (map ask_slot asks) (mScripted b)"
  using assms
proof (induction asks arbitrary: b)
  case (Cons a asks)
  obtain here q liveRead where a: "a = (here, q, liveRead)" by (cases a)
  obtain r s where r: "scripted_answer q (mScripted b) = (r, s)" by (cases "scripted_answer q (mScripted b)")
  with Cons.prems have "bank_fetch fmt bench here q liveRead (b, rig) = (r, b\<lparr>mScripted := s\<rparr>, rig)"
    by (simp add: bank_fetch_def switchable_fetch_def)
  with Cons.IH [of "b\<lparr>mScripted := s\<rparr>"] Cons.prems a r show ?case
    by (cases "bank_run fmt bench asks (b\<lparr>mScripted := s\<rparr>, rig)") (simp add: ask_slot_def)
qed simp

lemma observed_kept:
  assumes "list_all2 (\<lambda>a v. seam_of v = fst (ask_slot a)) asks vs"
  shows "map mValue (filter (\<lambda>s. kept_by selection (mTestId s) \<and> slot_of s = q) (observed asks vs n))
    = map snd (filter (\<lambda>p. fst p = q)
        (map (\<lambda>p. (ask_slot (fst p), snd p)) (filter (\<lambda>p. kept_by selection (scope_of (fst p))) (zip asks vs))))"
  using assms
proof (induction arbitrary: n rule: list_all2_induct)
  case (Cons a asks v vs)
  obtain here sl liveRead where a: "a = (here, sl, liveRead)" by (cases a)
  have "slot_of (sample_at here (snd sl) v n) = sl" "mTestId (sample_at here (snd sl) v n) = scope_of a"
    "mValue (sample_at here (snd sl) v n) = v"
    using Cons.hyps(1) a by (simp_all add: slot_of_def sample_at_def scope_of_def ask_slot_def)
  with Cons.IH a show ?case by (auto simp: ask_slot_def)
qed simp

lemma observed_scope:
  "list_ex (\<lambda>a. scope_of a \<noteq> kRunScope \<and> scope_of a \<in> set selection) asks \<Longrightarrow> length vs = length asks \<Longrightarrow>
     \<exists>s\<in>set (observed asks vs n). mTestId s \<noteq> kRunScope \<and> mTestId s \<in> set selection"
proof (induction asks arbitrary: vs n)
  case (Cons a asks)
  obtain here q liveRead v vs' where a: "a = (here, q, liveRead)" and vs: "vs = v # vs'"
    using Cons.prems(2) by (cases a; cases vs) auto
  have "mTestId (sample_at here (snd q) v n) = scope_of a" using a by (simp add: sample_at_def scope_of_def)
  with Cons.IH [of vs' "n + 1"] Cons.prems a vs show ?case by auto
qed simp

lemma comma_separated_plain: "list_all (\<lambda>t. c \<notin> set t) ts \<Longrightarrow> c \<noteq> CHR '','' \<Longrightarrow> c \<notin> set (comma_separated ts)"
  by (induction ts rule: comma_separated.induct) auto

lemma header_skipped:
  assumes "list_all (\<lambda>t. CHR 0x0A \<notin> set t) selected"
  shows "readRecording (selectionHeader selected @ rows) dir d = readRecording rows dir d"
proof -
  define line where "line = kCommentMarker # '' '' @ kSelectionField @ (if selected = [] then kEverySelection else comma_separated selected)"
  have "CHR 0x0A \<notin> set line"
    using comma_separated_plain [OF assms]
    by (auto simp: line_def kCommentMarker_def kSelectionField_def kEverySelection_def)
  moreover have "selectionHeader selected @ rows = line @ CHR 0x0A # rows"
    by (simp add: selectionHeader_def line_def)
  moreover have "skipped_line line" by (simp add: line_def skipped_line_def)
  ultimately show ?thesis by (simp add: readRecording_def lines_of_line)
qed

text \<open>
  C28: A recorded run replays: load the file a run was recorded to, for all of its tests or for a
  selection of them, and the same asks, made at any time and with or without a bench, are answered
  with the values the recorded run got, each slot in its own order, hooks' readings included.
\<close>

theorem replay_repeats_run:
  assumes run: "bank_run fmt bench asks
        (startRecordingTo \<lparr>mOut = selectionHeader selected, mSidecarDirectory = sidecarDirectoryFor path,
             mDirectoryReady = False, disk = d\<rparr> b, rig) = (map Inr vs, b', rig')"
    and writer: "mWriter b' = Some w'"
    and typed: "list_all2 (\<lambda>a v. seam_of v = fst (ask_slot a)) asks vs"
    and readable: "list_all (recordable fmt) (observed asks vs (mNextObservation b))"
    and names: "list_all (\<lambda>t. CHR 0x0A \<notin> set t) selected"
    and matched: "selection = [] \<or> list_ex (\<lambda>a. scope_of a \<noteq> kRunScope \<and> scope_of a \<in> set selection) asks"
    and again: "map ask_slot asks' = map (\<lambda>p. ask_slot (fst p)) (filter (\<lambda>p. kept_by selection (scope_of (fst p))) (zip asks vs))"
    and plain: "\<not> mRecording b2"
  shows "\<exists>b3. bank_load path (Some (mOut w')) (disk w') selection b2 = (None, b3)
    \<and> fst (bank_run fmt bench' asks' (b3, rig2))
        = map (\<lambda>p. Inr (snd p)) (filter (\<lambda>p. kept_by selection (scope_of (fst p))) (zip asks vs))"
proof -
  let ?samples = "observed asks vs (mNextObservation b)"
  let ?c = "fold (collect selection) ?samples nothing_collected"
  let ?kept = "map (\<lambda>p. (ask_slot (fst p), snd p)) (filter (\<lambda>p. kept_by selection (scope_of (fst p))) (zip asks vs))"
  let ?w = "\<lparr>mOut = selectionHeader selected, mSidecarDirectory = sidecarDirectoryFor path, mDirectoryReady = False, disk = d\<rparr>"
  have started: "mRecording (startRecordingTo ?w b)" "mWriter (startRecordingTo ?w b) = Some ?w"
    "mNextObservation (startRecordingTo ?w b) = mNextObservation b"
    by (simp_all add: startRecordingTo_def)
  from bank_run_recorded [OF run started(1,2)] writer
  have len: "length vs = length asks" and w: "write_samples fmt ?samples ?w = (None, w')"
    unfolding started(3) by auto
  obtain rows where rows: "mOut w' = selectionHeader selected @ rows"
    "readRecording rows (sidecarDirectoryFor path) (disk w') = Inr ?samples"
    by (rule written_rows [OF w readable])
  have "selection = [] \<or> matchedSelection ?c"
  proof (cases "selection = []")
    case False
    with matched have "list_ex (\<lambda>a. scope_of a \<noteq> kRunScope \<and> scope_of a \<in> set selection) asks" by blast
    from observed_scope [OF this len] show ?thesis by (simp only: fold_collect_matched [OF False] simp_thms)
  qed simp
  with rows(2) have load: "loadFromFile path (Some (mOut w')) (disk w') selection = Inr (session_of ?c)"
    unfolding loadFromFile_def rows(1) session_from_def Let_def
    by (auto simp: header_skipped [OF names])
  have "kinds_right nothing_collected" by (simp add: kinds_right_def nothing_collected_def)
  from session_of_holds [OF fold_collect_kinds [OF this]] have holds: "session_holds (session_of ?c) (collected ?c)" .
  have "collected nothing_collected q = []" for q
    by (cases q rule: prod.exhaust; cases "fst q") (simp_all add: nothing_collected_def)
  then have queue: "collected ?c q = map snd (filter (\<lambda>a. fst a = q) ?kept)" for q
    using fold_collect_queue observed_kept [OF typed] by simp
  have "map fst ?kept = map ask_slot asks'" using again by (simp add: comp_def)
  with scripted.ask_all_recorded [OF holds queue]
  have "ask_all scripted_answer (map ask_slot asks') (session_of ?c) = map (\<lambda>a. Inr (snd a)) ?kept" by metis
  then have asked: "ask_all scripted_answer (map ask_slot asks') (session_of ?c)
      = map (\<lambda>p. Inr (snd p)) (filter (\<lambda>p. kept_by selection (scope_of (fst p))) (zip asks vs))"
    by (simp add: comp_def)
  let ?b3 = "b2\<lparr>mScripted := session_of ?c, mCurrent := Scripted\<rparr>"
  have "bank_load path (Some (mOut w')) (disk w') selection b2 = (None, ?b3)"
    unfolding bank_load_def load by simp
  moreover have "fst (bank_run fmt bench' asks' (?b3, rig2)) = ask_all scripted_answer (map ask_slot asks') (session_of ?c)"
    using bank_run_scripted [of ?b3 fmt bench' asks' rig2] plain by (simp del: bank_run.simps)
  ultimately show ?thesis unfolding asked by blast
qed

text \<open>A test that measures, waits and measures again, after a reading in a hook; then only the test is replayed.\<close>

definition moment_in :: "string \<Rightarrow> Moment" where
  "moment_in test = \<lparr>currentTest = test, wallClockMillis = 1000, instrumentId = ''Dmm1''\<rparr>"

definition counting :: "RecordedValue \<Rightarrow> nat live_read" where
  "counting v = (\<lambda>n. (Inr v, n + 1))"

definition two_readings :: "nat ask list" where
  "two_readings =
     [(moment_in [], (FlagSeam, ''P1''), counting (Flag True)),
      (moment_in ''T1'', (ReadingSeam Voltage, ''P1''), counting (Reading (Quantity Voltage (Fin 5)))),
      (moment_in ''T2'', (ReadingSeam Voltage, ''P1''), counting (Reading (Quantity Voltage (Fin 0))))]"

theorem replay_repeats_run_witness:
  "case bank_run small_integers \<lparr>mAttached = True\<rparr> two_readings
        (startRecordingTo \<lparr>mOut = selectionHeader [], mSidecarDirectory = sidecarDirectoryFor ''r.txt'',
             mDirectoryReady = False, disk = empty_disk\<rparr> new_bank, 0) of
     (rs, b', n) \<Rightarrow>
       (case mWriter b' of
          None \<Rightarrow> False
        | Some w' \<Rightarrow>
            (\<exists>b3. bank_load ''r.txt'' (Some (mOut w')) (disk w') [''T2''] new_bank = (None, b3)
               \<and> fst (bank_run small_integers \<lparr>mAttached = False\<rparr> [hd two_readings, two_readings ! 2] (b3, 0))
                   = [Inr (Flag True), Inr (Reading (Quantity Voltage (Fin 0)))]))"
proof -
  let ?w = "\<lparr>mOut = selectionHeader [], mSidecarDirectory = sidecarDirectoryFor ''r.txt'',
             mDirectoryReady = False, disk = empty_disk\<rparr>"
  let ?vs = "[Flag True, Reading (Quantity Voltage (Fin 5)), Reading (Quantity Voltage (Fin 0))]"
  obtain b' w' where run: "bank_run small_integers \<lparr>mAttached = True\<rparr> two_readings (startRecordingTo ?w new_bank, 0)
      = (map Inr ?vs, b', 3)" and w': "mWriter b' = Some w'"
    by (simp add: two_readings_def bank_fetch_def recorder_fetch_def switchable_fetch_def startRecordingTo_def
        new_bank_def live_fetch_def counting_def bank_record_def Let_def write_sample_def sample_at_def)
  have scopes: "scope_of (hd two_readings) = kRunScope" "scope_of (two_readings ! 1) = ''T1''" "scope_of (two_readings ! 2) = ''T2''"
    by (simp_all add: two_readings_def scope_of_def moment_in_def)
  have kept: "filter (\<lambda>p. kept_by [''T2''] (scope_of (fst p))) (zip two_readings ?vs)
      = [(hd two_readings, Flag True), (two_readings ! 2, Reading (Quantity Voltage (Fin 0)))]"
    using scopes by (simp add: two_readings_def kept_by_def kRunScope_def scope_of_def moment_in_def)
  have "list_all2 (\<lambda>a v. seam_of v = fst (ask_slot a)) two_readings ?vs"
    by (simp add: two_readings_def ask_slot_def)
  moreover have "list_all (recordable small_integers) (observed two_readings ?vs (mNextObservation new_bank))"
    by (simp add: two_readings_def recordable_def sample_ok_def sample_at_def moment_in_def small_integers_read_back
        in_int64_def kRunScope_def field_ok_def kSeparator_def)
  moreover have "list_ex (\<lambda>a. scope_of a \<noteq> kRunScope \<and> scope_of a \<in> set [''T2'']) two_readings"
    by (simp add: two_readings_def scope_of_def moment_in_def kRunScope_def)
  moreover have "map ask_slot [hd two_readings, two_readings ! 2] = map (\<lambda>p. ask_slot (fst p))
      (filter (\<lambda>p. kept_by [''T2''] (scope_of (fst p))) (zip two_readings ?vs))"
    by (simp only: kept list.map fst_conv)
  moreover have "\<not> mRecording new_bank" by (simp add: new_bank_def)
  ultimately have "\<exists>b3. bank_load ''r.txt'' (Some (mOut w')) (disk w') [''T2''] new_bank = (None, b3)
       \<and> fst (bank_run small_integers \<lparr>mAttached = False\<rparr> [hd two_readings, two_readings ! 2] (b3, 0))
           = map (\<lambda>p. Inr (snd p)) (filter (\<lambda>p. kept_by [''T2''] (scope_of (fst p))) (zip two_readings ?vs))"
    by (intro replay_repeats_run [OF run w']) auto
  with run w' show ?thesis unfolding kept by simp
qed

end
