(* ===== verification/Rounding.thy ===== *)
theory Rounding
  imports Double "HOL-Library.Log_Nat"
begin

text \<open>
  Addition and subtraction of doubles: the exact result, rounded to the nearest number with 53
  significant bits, ties to the even one, as IEEE 754 has it and the compiler is asked for.
\<close>

section \<open>The exponent of a number\<close>

definition ilog2 :: "rat \<Rightarrow> int" where
  "ilog2 x =
     (case quotient_of x of
        (n, d) \<Rightarrow>
          (let k = int (floorlog 2 (nat n)) - int (floorlog 2 (nat d))
           in if 2 powi k \<le> x then k else k - 1))"

lemma pow_strict: "(2 :: rat) powi m < 2 powi n \<longleftrightarrow> m < n"
proof -
  have "(2 :: rat) powi a < 2 powi b" if "a < b" for a b :: int
  proof -
    have "(2 :: rat) powi b = 2 powi a * 2 powi (b - a)" by (simp flip: power_int_add)
    moreover have "(1 :: rat) < 2 powi (b - a)" using that by (simp add: power_int_def)
    ultimately show ?thesis by simp
  qed
  from this [of m n] this [of n m] show ?thesis by (cases "m = n") force+
qed

lemma pow_weak: "(2 :: rat) powi m \<le> 2 powi n \<longleftrightarrow> m \<le> n"
  using pow_strict [of n m] by (metis linorder_not_less)

lemma ilog2_bounds:
  assumes "0 < x"
  shows "2 powi ilog2 x \<le> x" and "x < 2 powi (ilog2 x + 1)"
proof -
  obtain n d where q: "quotient_of x = (n, d)" by (cases "quotient_of x")
  then have d: "0 < d" and x: "x = of_int n / of_int d"
    using quotient_of_denom_pos quotient_of_div by blast+
  with assms have n: "0 < n" by (simp add: zero_less_divide_iff)
  define a where "a = floorlog 2 (nat n)"
  define b where "b = floorlog 2 (nat d)"
  have ab: "0 < a" "0 < b" using n d by (auto simp: a_def b_def floorlog_eq_zero_iff intro!: gr0I)
  have nd: "2 ^ (a - 1) \<le> nat n" "nat n < 2 ^ a" "2 ^ (b - 1) \<le> nat d" "nat d < 2 ^ b"
    using floorlog_bounds [of "nat n" 2] floorlog_bounds [of "nat d" 2] n d by (auto simp: a_def b_def)
  have up: "(of_int n :: rat) < 2 ^ a" "(2 :: rat) ^ (b - 1) \<le> of_int d"
    and low: "(2 :: rat) ^ (a - 1) \<le> of_int n" "(of_int d :: rat) < 2 ^ b"
  proof -
    have "n < 2 ^ a" "2 ^ (b - 1) \<le> d" "2 ^ (a - 1) \<le> n" "d < 2 ^ b"
      using nd n d by (simp_all add: nat_less_iff le_nat_iff)
    then show "(of_int n :: rat) < 2 ^ a" "(2 :: rat) ^ (b - 1) \<le> of_int d"
      "(2 :: rat) ^ (a - 1) \<le> of_int n" "(of_int d :: rat) < 2 ^ b"
      by (metis of_int_less_iff of_int_le_iff of_int_numeral of_int_power)+
  qed
  let ?k = "int a - int b"
  have "x < 2 ^ a / 2 ^ (b - 1)"
    unfolding x using up d n by (intro frac_less) auto
  also have "\<dots> = 2 powi (?k + 1)"
    using ab by (simp add: power_int_diff power_int_add Suc_le_eq power_diff)
  finally have hi: "x < 2 powi (?k + 1)" .
  have "2 ^ (a - 1) / 2 ^ b \<le> x"
    unfolding x using low d n by (intro frac_le) auto
  moreover have "(2 :: rat) ^ (a - 1) / 2 ^ b = 2 powi (?k - 1)"
    using ab by (simp add: power_int_diff power_diff)
  ultimately have lo: "2 powi (?k - 1) \<le> x" by simp
  have i: "ilog2 x = (if 2 powi ?k \<le> x then ?k else ?k - 1)"
    by (simp add: ilog2_def q a_def b_def Let_def)
  show "2 powi ilog2 x \<le> x" and "x < 2 powi (ilog2 x + 1)"
    using hi lo by (auto simp: i)
qed

section \<open>Rounding\<close>

definition half_even :: "rat \<Rightarrow> int" where
  "half_even x =
     (let f = \<lfloor>x\<rfloor>; r = x - of_int f
      in if r < 1 / 2 then f else if r > 1 / 2 then f + 1 else if even f then f else f + 1)"

lemma half_even_of_int [simp]: "half_even (of_int k) = k"
  by (simp add: half_even_def)

lemma half_even_ge: "of_int k \<le> x \<Longrightarrow> k \<le> half_even x"
proof -
  assume "of_int k \<le> x"
  then have "k \<le> \<lfloor>x\<rfloor>" by (simp add: le_floor_iff)
  then show ?thesis by (simp add: half_even_def Let_def)
qed

definition double_limit :: rat where
  "double_limit = 2 ^ 1024"

definition round_double :: "rat \<Rightarrow> double" where
  "round_double x =
     (if x = 0 then Fin 0
      else
        (let q = 2 powi (max (ilog2 \<bar>x\<bar>) (- 1022) - 52);
             v = of_int (half_even (\<bar>x\<bar> / q)) * q
         in if v \<ge> double_limit then (if x < 0 then NegInf else PosInf)
            else Fin (if x < 0 then - v else v)))"

fun d_add :: "double \<Rightarrow> double \<Rightarrow> double" where
  "d_add NaN y = NaN"
| "d_add x NaN = NaN"
| "d_add PosInf y = (if y = NegInf then NaN else PosInf)"
| "d_add NegInf y = (if y = PosInf then NaN else NegInf)"
| "d_add x PosInf = PosInf"
| "d_add x NegInf = NegInf"
| "d_add (Fin a) (Fin b) = round_double (a + b)"

definition d_sub :: "double \<Rightarrow> double \<Rightarrow> double" where
  "d_sub x y = d_add x (d_neg y)"

lemma round_double_not_NaN [simp]: "round_double x \<noteq> NaN"
  by (simp add: round_double_def Let_def)

lemma round_double_0 [simp]: "round_double 0 = Fin 0"
  by (simp add: round_double_def)

lemma round_double_minus: "round_double (- x) = d_neg (round_double x)"
  by (simp add: round_double_def Let_def)

lemma d_neg_neg [simp]: "d_neg (d_neg x) = x"
  by (cases x) simp_all

lemma d_abs_neg [simp]: "d_abs (d_neg x) = d_abs x"
  by (cases x) simp_all

lemma d_add_NaN [simp]: "d_add x NaN = NaN" "d_add NaN x = NaN"
  by (cases x; simp)+

lemma d_sub_NaN [simp]: "d_sub x NaN = NaN" "d_sub NaN x = NaN"
  by (simp_all add: d_sub_def)

lemma d_sub_swap: "d_sub y x = d_neg (d_sub x y)"
proof (cases "\<exists>a b. x = Fin a \<and> y = Fin b")
  case True
  then obtain a b where "x = Fin a" "y = Fin b" by blast
  moreover have "b - a = - (a - b)" by simp
  ultimately show ?thesis using round_double_minus [of "a - b"] by (simp add: d_sub_def)
next
  case False
  then show ?thesis by (cases x; cases y) (simp_all add: d_sub_def)
qed

lemma d_sub_Fin_not_NaN [simp]: "d_sub (Fin a) (Fin b) \<noteq> NaN"
  by (simp add: d_sub_def)

text \<open>A number that is at least a power of two does not round below it.\<close>

lemma round_double_far:
  assumes "2 powi k \<le> \<bar>x\<bar>" and "- 1022 \<le> k"
  shows "d_le (Fin (2 powi k)) (d_abs (round_double x))"
proof -
  have x: "0 < \<bar>x\<bar>" using assms(1) zero_less_power_int [of "2 :: rat" k] by linarith
  define e where "e = ilog2 \<bar>x\<bar>"
  have "(2 :: rat) powi k < 2 powi (e + 1)"
    using ilog2_bounds(2) [OF x] assms(1) by (simp add: e_def)
  then have "k \<le> e" by (simp add: pow_strict)
  then have e: "max e (- 1022) = e" using assms(2) by simp
  let ?q = "2 powi (e - 52) :: rat"
  have "of_int (2 ^ 52) * ?q = 2 powi e" by (simp add: power_int_diff)
  then have "of_int (2 ^ 52) = 2 powi e / ?q" by (simp add: field_simps)
  also have "\<dots> \<le> \<bar>x\<bar> / ?q" using ilog2_bounds(1) [OF x] by (simp add: e_def divide_right_mono)
  finally have "2 ^ 52 \<le> half_even (\<bar>x\<bar> / ?q)" by (rule half_even_ge)
  then have "of_int (2 ^ 52) * ?q \<le> of_int (half_even (\<bar>x\<bar> / ?q)) * ?q"
    by (intro mult_right_mono) (simp_all only: of_int_le_iff, simp)
  with \<open>of_int (2 ^ 52) * ?q = 2 powi e\<close> have v: "2 powi e \<le> of_int (half_even (\<bar>x\<bar> / ?q)) * ?q" by simp
  have ke: "(2 :: rat) powi k \<le> 2 powi e" using \<open>k \<le> e\<close> by (simp add: pow_weak)
  have "0 < (2 :: rat) powi e" by simp
  with v ke e x show ?thesis
    by (auto simp: round_double_def e_def [symmetric] Let_def d_le_def)
qed

text \<open>What a double can be: a number that rounding leaves alone.\<close>

definition representable :: "rat \<Rightarrow> bool" where
  "representable x \<longleftrightarrow> round_double x = Fin x"

lemma representable_grid:
  assumes "representable x" and "2 powi k \<le> \<bar>x\<bar>" and "- 1022 \<le> k"
  obtains i :: int where "x = of_int i * 2 powi (k - 52)"
proof -
  have x: "0 < \<bar>x\<bar>" using assms(2) zero_less_power_int [of "2 :: rat" k] by linarith
  define e where "e = max (ilog2 \<bar>x\<bar>) (- 1022)"
  define h where "h = half_even (\<bar>x\<bar> / 2 powi (e - 52))"
  have "(2 :: rat) powi k < 2 powi (ilog2 \<bar>x\<bar> + 1)"
    using ilog2_bounds(2) [OF x] assms(2) by simp
  then have "k \<le> e" by (simp add: pow_strict e_def)
  have "x = of_int (if x < 0 then - h else h) * 2 powi (e - 52)"
  proof -
    have "round_double x = (let v = of_int h * 2 powi (e - 52) in
        if v \<ge> double_limit then (if x < 0 then NegInf else PosInf) else Fin (if x < 0 then - v else v))"
      using x by (simp add: round_double_def Let_def e_def h_def)
    with assms(1) show ?thesis by (auto simp: representable_def Let_def split: if_splits)
  qed
  also have "2 powi (e - 52) = (of_int (2 ^ nat (e - k)) :: rat) * 2 powi (k - 52)"
  proof -
    have "(of_int (2 ^ nat (e - k)) :: rat) = 2 powi (e - k)" using \<open>k \<le> e\<close> by (simp add: power_int_def)
    moreover have "(2 :: rat) powi (e - k) * 2 powi (k - 52) = 2 powi (e - 52)"
      using power_int_add [of "2 :: rat" "e - k" "k - 52"] by simp
    ultimately show ?thesis by simp
  qed
  finally have "x = of_int ((if x < 0 then - h else h) * 2 ^ nat (e - k)) * 2 powi (k - 52)" by simp
  then show ?thesis by (rule that)
qed

lemma ilog2_unique:
  assumes "2 powi e \<le> x" and "x < 2 powi (e + 1)"
  shows "ilog2 x = e"
proof -
  have "0 < x" using assms(1) zero_less_power_int [of "2 :: rat" e] by linarith
  from ilog2_bounds [OF this] assms have "(2 :: rat) powi ilog2 x < 2 powi (e + 1)" "(2 :: rat) powi e < 2 powi (ilog2 x + 1)"
    by linarith+
  then show ?thesis by (simp add: pow_strict)
qed

text \<open>A number with at most 53 significant bits is left alone.\<close>

lemma representableI:
  assumes "\<bar>x\<bar> = of_int i * 2 powi (e - 52)" and "2 powi e \<le> \<bar>x\<bar>" and "\<bar>x\<bar> < 2 powi (e + 1)"
    and "- 1022 \<le> e" and "e < 1024"
  shows "representable x"
proof -
  have e: "ilog2 \<bar>x\<bar> = e" using assms(2,3) by (rule ilog2_unique)
  have "\<bar>x\<bar> / 2 powi (e - 52) = of_int i" using assms(1) by simp
  then have h: "half_even (\<bar>x\<bar> / 2 powi (e - 52)) = i" by simp
  have "\<bar>x\<bar> < 2 powi 1024" using assms(3,5) pow_weak [of "e + 1" 1024] by linarith
  moreover have "double_limit = 2 powi 1024"
    by (simp only: double_limit_def power_int_numeral)
  ultimately have "\<not> double_limit \<le> of_int i * 2 powi (e - 52)" using assms(1) by linarith
  with e h assms(1,4) show ?thesis
    by (auto simp: representable_def round_double_def Let_def max_def)
qed

end
