(* ===== verification/Criteria.thy ===== *)
theory Criteria
  imports Rounding Quantity Bytes
begin

text \<open>
  What a script checks a value against: core/criteria/predicates.hpp and predicate_text.hpp. The
  predicates are class templates; here one datatype over the values they hold, and their call is a
  function that gives None where the template does not compile. What does compile is a predicate of
  its own, \<open>callable\<close>, after the concepts of the header.
\<close>

section \<open>Values\<close>

text \<open>An integral value has a width and a sign; a register mask has the name of its register. A byte
  pattern of a criteria table, a compile-time literal, is the payload it is compared with.\<close>

datatype checked =
    Measured QuantityVariant
  | Plain double
  | Integral nat bool int
  | Octet octet
  | Masked string nat "64 word"
  | Octets Bytes
  | Truth bool

datatype ctype =
    QuantityType QuantityKind
  | FloatType
  | IntegralType nat bool
  | ByteType
  | MaskType string nat
  | BytesType
  | BoolType

fun type_of :: "checked \<Rightarrow> ctype" where
  "type_of (Measured q) = QuantityType (kind q)"
| "type_of (Plain d) = FloatType"
| "type_of (Integral width is_signed v) = IntegralType width is_signed"
| "type_of (Octet w) = ByteType"
| "type_of (Masked tag width w) = MaskType tag width"
| "type_of (Octets b) = BytesType"
| "type_of (Truth b) = BoolType"

fun Toleranced :: "ctype \<Rightarrow> bool" where
  "Toleranced (QuantityType k) = True"
| "Toleranced FloatType = True"
| "Toleranced _ = False"

fun asDouble :: "checked \<Rightarrow> double" where
  "asDouble (Measured q) = rawValue q"
| "asDouble (Plain d) = d"
| "asDouble _ = NaN"

definition machine_epsilon :: double where
  "machine_epsilon = Fin (2 powi - 52)"

text \<open>numeric_limits of an integral type has the epsilon 0, and a value-initialised class is empty.\<close>

fun defaultEpsilon :: "checked \<Rightarrow> checked" where
  "defaultEpsilon (Measured q) = Measured (Quantity (kind q) machine_epsilon)"
| "defaultEpsilon (Plain d) = Plain machine_epsilon"
| "defaultEpsilon (Integral width is_signed v) = Integral width is_signed 0"
| "defaultEpsilon (Octet w) = Octet 0"
| "defaultEpsilon (Masked tag width w) = Masked tag width 0"
| "defaultEpsilon (Octets b) = Octets []"
| "defaultEpsilon (Truth b) = Truth False"

text \<open>
  The three-way comparison of a type, as the sign of its result; payloads compare as their octets
  do, in order, and register masks have none.
\<close>

fun compare_octets :: "Bytes \<Rightarrow> Bytes \<Rightarrow> int" where
  "compare_octets [] [] = 0"
| "compare_octets [] (v # vs) = - 1"
| "compare_octets (w # ws) [] = 1"
| "compare_octets (w # ws) (v # vs) = (if w = v then compare_octets ws vs else if w < v then - 1 else 1)"

definition compare_ints :: "int \<Rightarrow> int \<Rightarrow> int" where
  "compare_ints a b = (if a < b then - 1 else if a = b then 0 else 1)"

fun three_way :: "checked \<Rightarrow> checked \<Rightarrow> int option" where
  "three_way (Integral width is_signed a) (Integral width' is_signed' b) = Some (compare_ints a b)"
| "three_way (Octet a) (Octet b) = Some (compare_ints (uint a) (uint b))"
| "three_way (Truth a) (Truth b) = Some (compare_ints (of_bool a) (of_bool b))"
| "three_way (Octets a) (Octets b) = Some (compare_octets a b)"
| "three_way _ _ = None"

fun toBits :: "checked \<Rightarrow> (64 word) option" where
  "toBits (Integral width is_signed v) = Some (word_of_int (v mod 2 ^ width))"
| "toBits (Octet w) = Some (ucast w)"
| "toBits (Masked tag width w) = Some w"
| "toBits _ = None"

fun bitWidth :: "ctype \<Rightarrow> nat option" where
  "bitWidth (IntegralType width is_signed) = Some width"
| "bitWidth ByteType = Some 8"
| "bitWidth (MaskType tag width) = Some width"
| "bitWidth _ = None"

definition BitPattern :: "ctype \<Rightarrow> bool" where
  "BitPattern t \<longleftrightarrow> bitWidth t \<noteq> None"

fun isMask :: "ctype \<Rightarrow> bool" where
  "isMask (MaskType tag width) = True"
| "isMask _ = False"

definition BitCompatible :: "ctype \<Rightarrow> ctype \<Rightarrow> bool" where
  "BitCompatible pattern actual \<longleftrightarrow> \<not> isMask pattern \<and> \<not> isMask actual \<or> pattern = actual"

section \<open>Predicates\<close>

datatype Relation = Lt | Le | Gt | Ge

datatype BitSense = SetBits | ClearBits

datatype predicate =
    EqPredicate checked checked
  | RangePredicate checked checked checked
  | RelationalPredicate Relation checked checked
  | AnyPredicate "checked list" checked
  | MaskPredicate checked checked
  | BitsPredicate BitSense checked
  | BitPredicate nat BitSense
  | NotPredicate predicate
  | AnyOfPredicate "predicate list"

definition EQ :: "checked \<Rightarrow> predicate" where
  "EQ v = EqPredicate v (defaultEpsilon v)"

definition NE :: "checked \<Rightarrow> predicate" where
  "NE v = NotPredicate (EQ v)"

definition IN :: "checked \<Rightarrow> checked \<Rightarrow> predicate" where
  "IN low high = RangePredicate low high (defaultEpsilon low)"

definition LT :: "checked \<Rightarrow> predicate" where
  "LT v = RelationalPredicate Lt v (defaultEpsilon v)"

definition LE :: "checked \<Rightarrow> predicate" where
  "LE v = RelationalPredicate Le v (defaultEpsilon v)"

definition GT :: "checked \<Rightarrow> predicate" where
  "GT v = RelationalPredicate Gt v (defaultEpsilon v)"

definition GE :: "checked \<Rightarrow> predicate" where
  "GE v = RelationalPredicate Ge v (defaultEpsilon v)"

definition ANY :: "checked \<Rightarrow> checked list \<Rightarrow> predicate" where
  "ANY first rest = AnyPredicate (first # rest) (defaultEpsilon first)"

definition NONE :: "checked \<Rightarrow> checked list \<Rightarrow> predicate" where
  "NONE first rest = NotPredicate (ANY first rest)"

text \<open>epsilon(): a copy with another tolerance, through a negation as well; None where there is no such member.\<close>

fun epsilon :: "checked \<Rightarrow> predicate \<Rightarrow> predicate option" where
  "epsilon eps (EqPredicate v t) = (if Toleranced (type_of v) then Some (EqPredicate v eps) else None)"
| "epsilon eps (RangePredicate low high t) = (if Toleranced (type_of low) then Some (RangePredicate low high eps) else None)"
| "epsilon eps (RelationalPredicate r v t) = (if Toleranced (type_of v) then Some (RelationalPredicate r v eps) else None)"
| "epsilon eps (AnyPredicate vs t) = (if Toleranced (type_of t) then Some (AnyPredicate vs eps) else None)"
| "epsilon eps (NotPredicate p) = map_option NotPredicate (epsilon eps p)"
| "epsilon eps _ = None"

section \<open>The calls\<close>

definition eq_holds :: "checked \<Rightarrow> checked \<Rightarrow> checked \<Rightarrow> bool option" where
  "eq_holds expected tolerance actual =
     (if type_of actual \<noteq> type_of expected then None
      else if Toleranced (type_of expected)
      then Some (d_le (d_abs (d_sub (asDouble actual) (asDouble expected))) (asDouble tolerance))
      else Some (actual = expected))"

definition range_holds :: "checked \<Rightarrow> checked \<Rightarrow> checked \<Rightarrow> checked \<Rightarrow> bool option" where
  "range_holds low high tolerance actual =
     (if type_of actual \<noteq> type_of low \<or> type_of high \<noteq> type_of low then None
      else if Toleranced (type_of low)
      then Some (d_le (d_sub (asDouble low) (asDouble tolerance)) (asDouble actual)
               \<and> d_le (asDouble actual) (d_add (asDouble high) (asDouble tolerance)))
      else (case (three_way actual low, three_way actual high) of
              (Some l, Some h) \<Rightarrow> Some (l \<ge> 0 \<and> h \<le> 0)
            | _ \<Rightarrow> None))"

fun diff_relation :: "Relation \<Rightarrow> double \<Rightarrow> double \<Rightarrow> bool" where
  "diff_relation Lt diff slack = d_lt diff (d_neg slack)"
| "diff_relation Le diff slack = d_le diff slack"
| "diff_relation Gt diff slack = d_lt slack diff"
| "diff_relation Ge diff slack = d_le (d_neg slack) diff"

fun sign_relation :: "Relation \<Rightarrow> int \<Rightarrow> bool" where
  "sign_relation Lt cmp = (cmp < 0)"
| "sign_relation Le cmp = (cmp \<le> 0)"
| "sign_relation Gt cmp = (cmp > 0)"
| "sign_relation Ge cmp = (cmp \<ge> 0)"

definition relation_holds :: "Relation \<Rightarrow> checked \<Rightarrow> checked \<Rightarrow> checked \<Rightarrow> bool option" where
  "relation_holds r expected tolerance actual =
     (if type_of actual \<noteq> type_of expected then None
      else if Toleranced (type_of expected)
      then Some (diff_relation r (d_sub (asDouble actual) (asDouble expected)) (asDouble tolerance))
      else map_option (sign_relation r) (three_way actual expected))"

fun any_holds :: "checked list \<Rightarrow> checked \<Rightarrow> checked \<Rightarrow> bool option" where
  "any_holds [] tolerance actual = Some False"
| "any_holds (v # vs) tolerance actual =
     (case eq_holds v tolerance actual of
        None \<Rightarrow> None
      | Some True \<Rightarrow> Some True
      | Some False \<Rightarrow> any_holds vs tolerance actual)"

definition mask_holds :: "checked \<Rightarrow> checked \<Rightarrow> checked \<Rightarrow> bool option" where
  "mask_holds m expected actual =
     (if \<not> BitCompatible (type_of m) (type_of actual) then None
      else (case (toBits actual, toBits m, toBits expected) of
              (Some v, Some b, Some e) \<Rightarrow> Some (v AND b = e)
            | _ \<Rightarrow> None))"

definition bits_hold :: "BitSense \<Rightarrow> checked \<Rightarrow> checked \<Rightarrow> bool option" where
  "bits_hold sense m actual =
     (if \<not> BitCompatible (type_of m) (type_of actual) then None
      else (case (toBits actual, toBits m) of
              (Some v, Some b) \<Rightarrow> Some (if sense = SetBits then v AND b = b else v AND b = 0)
            | _ \<Rightarrow> None))"

definition bit_holds :: "nat \<Rightarrow> BitSense \<Rightarrow> checked \<Rightarrow> bool option" where
  "bit_holds n sense actual =
     (case (bitWidth (type_of actual), toBits actual) of
        (Some width, Some v) \<Rightarrow>
          if n < width
          then (let isSet = (v AND push_bit n 1 \<noteq> 0) in Some (if sense = SetBits then isSet else \<not> isSet))
          else None
      | _ \<Rightarrow> None)"

fun holds :: "predicate \<Rightarrow> checked \<Rightarrow> bool option"
and any_of :: "predicate list \<Rightarrow> checked \<Rightarrow> bool option" where
  "holds (EqPredicate v t) actual = eq_holds v t actual"
| "holds (RangePredicate low high t) actual = range_holds low high t actual"
| "holds (RelationalPredicate r v t) actual = relation_holds r v t actual"
| "holds (AnyPredicate vs t) actual = any_holds vs t actual"
| "holds (MaskPredicate m e) actual = mask_holds m e actual"
| "holds (BitsPredicate sense m) actual = bits_hold sense m actual"
| "holds (BitPredicate n sense) actual = bit_holds n sense actual"
| "holds (NotPredicate p) actual = map_option Not (holds p actual)"
| "holds (AnyOfPredicate ps) actual = any_of ps actual"
| "any_of [] actual = Some False"
| "any_of (p # ps) actual =
     (case holds p actual of
        None \<Rightarrow> None
      | Some True \<Rightarrow> Some True
      | Some False \<Rightarrow> any_of ps actual)"

section \<open>What compiles\<close>

definition Ordered :: "ctype \<Rightarrow> bool" where
  "Ordered t \<longleftrightarrow> \<not> isMask t"

definition Pattern :: "checked \<Rightarrow> bool" where
  "Pattern v \<longleftrightarrow> toBits v \<noteq> None"

fun callable :: "predicate \<Rightarrow> ctype \<Rightarrow> bool"
and all_callable :: "predicate list \<Rightarrow> ctype \<Rightarrow> bool" where
  "callable (EqPredicate v t) T \<longleftrightarrow> type_of v = T"
| "callable (RangePredicate low high t) T \<longleftrightarrow> type_of low = T \<and> type_of high = T \<and> Ordered T"
| "callable (RelationalPredicate r v t) T \<longleftrightarrow> type_of v = T \<and> Ordered T"
| "callable (AnyPredicate vs t) T \<longleftrightarrow> list_all (\<lambda>v. type_of v = T) vs"
| "callable (MaskPredicate m e) T \<longleftrightarrow> Pattern m \<and> Pattern e \<and> BitPattern T \<and> BitCompatible (type_of m) T"
| "callable (BitsPredicate sense m) T \<longleftrightarrow> Pattern m \<and> BitPattern T \<and> BitCompatible (type_of m) T"
| "callable (BitPredicate n sense) T \<longleftrightarrow> (case bitWidth T of None \<Rightarrow> False | Some width \<Rightarrow> n < width)"
| "callable (NotPredicate p) T \<longleftrightarrow> callable p T"
| "callable (AnyOfPredicate ps) T \<longleftrightarrow> all_callable ps T"
| "all_callable [] T \<longleftrightarrow> True"
| "all_callable (p # ps) T \<longleftrightarrow> callable p T \<and> all_callable ps T"

lemma toBits_type: "BitPattern (type_of v) \<Longrightarrow> \<exists>w. toBits v = Some w"
  by (cases v) (auto simp: BitPattern_def)

lemma three_way_type: "type_of v = type_of w \<Longrightarrow> \<not> Toleranced (type_of w) \<Longrightarrow> \<not> isMask (type_of w) \<Longrightarrow> \<exists>c. three_way v w = Some c"
  by (induction v w rule: three_way.induct) (auto dest: sym)

lemma eq_holds_type: "type_of v = type_of actual \<Longrightarrow> \<exists>b. eq_holds v t actual = Some b"
  by (simp add: eq_holds_def)

lemma any_holds_type: "list_all (\<lambda>v. type_of v = type_of actual) vs \<Longrightarrow> \<exists>b. any_holds vs t actual = Some b"
proof (induction vs)
  case (Cons v vs)
  then obtain b where "eq_holds v t actual = Some b" using eq_holds_type [of v actual t] by auto
  with Cons show ?case by (cases b) auto
qed auto

lemma callable_holds:
  "callable p (type_of v) \<Longrightarrow> \<exists>b. holds p v = Some b"
  "all_callable ps (type_of v) \<Longrightarrow> \<exists>b. any_of ps v = Some b"
proof (induction p v and ps v rule: holds_any_of.induct)
  case (2 low high t actual)
  show ?case
    using 2 three_way_type [of actual low] three_way_type [of actual high]
    by (auto simp: range_holds_def Ordered_def)
next
  case (3 r v t actual)
  show ?case
    using 3 three_way_type [of actual v] by (auto simp: relation_holds_def Ordered_def)
next
  case (4 vs t actual)
  show ?case using 4 any_holds_type by auto
next
  case (5 m e actual)
  show ?case using 5 toBits_type [of actual] by (auto simp: mask_holds_def Pattern_def)
next
  case (6 sense m actual)
  show ?case using 6 toBits_type [of actual] by (auto simp: bits_hold_def Pattern_def)
next
  case (7 n sense actual)
  show ?case
    using 7 toBits_type [of actual] by (auto simp: bit_holds_def BitPattern_def Let_def split: option.splits)
next
  case (11 p ps actual)
  then obtain b where b: "holds p actual = Some b" by auto
  show ?case
  proof (cases b)
    case False
    with 11(2) [OF b] 11(3) b show ?thesis by auto
  qed (auto simp: b)
qed (auto simp: eq_holds_def)

text \<open>
  A criterion that compiles for the type of a value gives a verdict on every value of that
  type: no predicate and no combination of them gets stuck.
\<close>

theorem callable_gives_verdict:
  assumes "callable p (type_of v)"
  shows "holds p v = Some True \<or> holds p v = Some False"
  using callable_holds(1) [OF assms] by auto

theorem callable_gives_verdict_witness:
  "holds (AnyOfPredicate [EQ (Plain (Fin 5)), LT (Plain (Fin 2))]) (Plain NaN) = Some True
    \<or> holds (AnyOfPredicate [EQ (Plain (Fin 5)), LT (Plain (Fin 2))]) (Plain NaN) = Some False"
  by (rule callable_gives_verdict) (simp add: EQ_def LT_def Ordered_def)

section \<open>Readings that are not numbers\<close>

text \<open>A predicate without a negation in it.\<close>

fun positive :: "predicate \<Rightarrow> bool"
and all_positive :: "predicate list \<Rightarrow> bool" where
  "positive (NotPredicate p) \<longleftrightarrow> False"
| "positive (AnyOfPredicate ps) \<longleftrightarrow> all_positive ps"
| "positive _ \<longleftrightarrow> True"
| "all_positive [] \<longleftrightarrow> True"
| "all_positive (p # ps) \<longleftrightarrow> positive p \<and> all_positive ps"

definition not_a_number :: "checked \<Rightarrow> bool" where
  "not_a_number v \<longleftrightarrow> Toleranced (type_of v) \<and> asDouble v = NaN"

lemma any_holds_NaN: "not_a_number v \<Longrightarrow> any_holds vs t v \<noteq> Some True"
  by (induction vs) (auto simp: not_a_number_def eq_holds_def)

lemma toleranced_bits:
  "Toleranced (type_of v) \<Longrightarrow> toBits v = None" "Toleranced (type_of v) \<Longrightarrow> bitWidth (type_of v) = None"
  by (cases v; simp)+

lemma positive_NaN:
  "positive p \<Longrightarrow> not_a_number v \<Longrightarrow> holds p v \<noteq> Some True"
  "all_positive ps \<Longrightarrow> not_a_number v \<Longrightarrow> any_of ps v \<noteq> Some True"
proof (induction p v and ps v rule: holds_any_of.induct)
  case (3 r e t v)
  then show ?case by (cases r) (auto simp: not_a_number_def relation_holds_def)
next
  case (11 p ps v)
  then show ?case by (cases "holds p v") (auto split: if_splits)
qed (use any_holds_NaN in
    \<open>auto simp: not_a_number_def eq_holds_def range_holds_def mask_holds_def bits_hold_def bit_holds_def
       toleranced_bits\<close>)

text \<open>
  C40: A reading that is not a number passes no predicate built without a negation, whatever its limits
  and tolerances and however its alternatives are nested; NE and NONE, of a value of its type, it passes.
\<close>

theorem not_a_number_fails:
  assumes "not_a_number v" and "positive p" and "type_of w = type_of v"
  shows "holds p v \<noteq> Some True \<and> holds (NE w) v = Some True \<and> holds (NONE w []) v = Some True"
  using positive_NaN(1) [OF assms(2,1)] assms(1,3)
  by (auto simp: NE_def EQ_def NONE_def ANY_def not_a_number_def eq_holds_def)

theorem not_a_number_fails_witness:
  "let v = Measured (Quantity Voltage NaN); five = Measured (Quantity Voltage (Fin 5))
   in holds (AnyOfPredicate [IN five five, GE five]) v \<noteq> Some True
    \<and> holds (NE five) v = Some True \<and> holds (NONE five []) v = Some True"
  unfolding Let_def
  by (rule not_a_number_fails) (simp_all add: not_a_number_def IN_def GE_def)

section \<open>The four relations\<close>

text \<open>The differences the relations are decided on are numbers.\<close>

definition comparable :: "checked \<Rightarrow> checked \<Rightarrow> checked \<Rightarrow> bool" where
  "comparable expected tolerance actual \<longleftrightarrow>
     type_of actual = type_of expected \<and> Toleranced (type_of expected)
     \<and> d_sub (asDouble actual) (asDouble expected) \<noteq> NaN \<and> asDouble tolerance \<noteq> NaN"

lemma d_neg_not_NaN [simp]: "d_neg x = NaN \<longleftrightarrow> x = NaN"
  by (cases x) simp_all

lemma d_le_lt: "x \<noteq> NaN \<Longrightarrow> y \<noteq> NaN \<Longrightarrow> d_le x y \<longleftrightarrow> \<not> d_lt y x"
  by (cases x; cases y) (auto simp: d_le_def)

lemma d_le_neg: "d_le (d_neg x) (d_neg y) \<longleftrightarrow> d_le y x"
  by (cases x; cases y) (auto simp: d_le_def)

lemma d_lt_neg: "d_lt (d_neg x) (d_neg y) \<longleftrightarrow> d_lt y x"
  by (cases x; cases y) auto

text \<open>
  On values that can be compared LT is exactly the negation of GE and LE of GT, with the same
  limit and tolerance, and the value is LE its limit exactly when the limit, checked the other way
  round, is GE the value: a limit can be written either way.
\<close>

theorem relations_are_complementary:
  assumes "comparable e t v"
  shows "holds (RelationalPredicate Ge e t) v = holds (NotPredicate (RelationalPredicate Lt e t)) v
    \<and> holds (RelationalPredicate Gt e t) v = holds (NotPredicate (RelationalPredicate Le e t)) v
    \<and> holds (RelationalPredicate Ge v t) e = holds (RelationalPredicate Le e t) v
    \<and> holds (RelationalPredicate Gt v t) e = holds (RelationalPredicate Lt e t) v"
proof -
  let ?d = "d_sub (asDouble v) (asDouble e)"
  let ?t = "asDouble t"
  have t: "type_of v = type_of e" "Toleranced (type_of e)" "?d \<noteq> NaN" "?t \<noteq> NaN"
    using assms by (simp_all add: comparable_def)
  have swap: "d_sub (asDouble e) (asDouble v) = d_neg ?d" by (rule d_sub_swap)
  have "d_le (d_neg ?t) (d_neg ?d) = d_le ?d ?t" "d_lt ?t (d_neg ?d) = d_lt ?d (d_neg ?t)"
    using d_le_neg [of ?t ?d] d_lt_neg [of "d_neg ?t" ?d] by simp_all
  with t swap show ?thesis
    by (simp add: relation_holds_def d_le_lt)
qed

theorem relations_are_complementary_witness:
  "let five = Plain (Fin 5); t = Plain (Fin (1/2)); v = Plain (Fin 7)
   in holds (RelationalPredicate Ge five t) v = holds (NotPredicate (RelationalPredicate Lt five t)) v
    \<and> holds (RelationalPredicate Gt five t) v = holds (NotPredicate (RelationalPredicate Le five t)) v
    \<and> holds (RelationalPredicate Ge v t) five = holds (RelationalPredicate Le five t) v
    \<and> holds (RelationalPredicate Gt v t) five = holds (RelationalPredicate Lt five t) v"
  unfolding Let_def
  by (rule relations_are_complementary) (simp add: comparable_def)

section \<open>The default tolerance\<close>

lemma grid_far:
  assumes "(x :: rat) = of_int i * 2 powi k" and "y = of_int j * 2 powi k" and "x \<noteq> y"
  shows "2 powi k \<le> \<bar>x - y\<bar>"
proof -
  have "x - y = of_int (i - j) * 2 powi k" by (simp add: assms left_diff_distrib)
  moreover have "1 \<le> \<bar>of_int (i - j) :: rat\<bar>"
  proof -
    have "1 \<le> \<bar>i - j\<bar>" using assms by auto
    then have "(of_int 1 :: rat) \<le> of_int \<bar>i - j\<bar>" by (simp only: of_int_le_iff)
    then show ?thesis by simp
  qed
  ultimately show ?thesis by (simp add: abs_mult)
qed

text \<open>
  On values of magnitude two and more the default tolerance of EQ is less than the distance of two
  neighbouring doubles: a value passes exactly when it is the expected number, and not the next one to it.
\<close>

theorem default_epsilon_is_exact:
  assumes "representable x" and "representable y" and "2 \<le> \<bar>x\<bar>" and "2 \<le> \<bar>y\<bar>"
  shows "holds (EQ (Plain (Fin x))) (Plain (Fin y)) = Some (x = y)"
proof (cases "x = y")
  case False
  from representable_grid [OF assms(1), of 1] assms(3) obtain i :: int where i: "x = of_int i * 2 powi - 51" by auto
  from representable_grid [OF assms(2), of 1] assms(4) obtain j :: int where j: "y = of_int j * 2 powi - 51" by auto
  from round_double_far [OF grid_far [OF j i]] False
  have far: "d_le (Fin (2 powi - 51)) (d_abs (round_double (y - x)))" by simp
  have "\<not> d_le (d_abs (round_double (y - x))) (Fin (2 powi - 52))"
  proof
    assume "d_le (d_abs (round_double (y - x))) (Fin (2 powi - 52))"
    from d_le_trans [OF far this] have "(2 :: rat) powi - 51 \<le> 2 powi - 52" by (simp only: d_le_Fin)
    then show False by (simp only: pow_weak)
  qed
  with False show ?thesis
    by (simp add: EQ_def eq_holds_def machine_epsilon_def d_sub_def)
qed (simp add: EQ_def eq_holds_def machine_epsilon_def d_sub_def)

theorem default_epsilon_is_exact_witness:
  "holds (EQ (Plain (Fin 5))) (Plain (Fin (5 + 2 powi - 50))) = Some (5 = (5 + 2 powi - 50 :: rat))"
proof (rule default_epsilon_is_exact)
  show "representable 5"
    by (rule representableI [where i = "5 * 2 ^ 50" and e = 2]) (simp_all add: power_int_def power_divide)
  show "representable (5 + 2 powi - 50)"
    by (rule representableI [where i = "5 * 2 ^ 50 + 1" and e = 2]) (simp_all add: power_int_def power_divide)
qed (simp_all add: power_int_def power_divide)

end
