(* ===== verification/Format.thy ===== *)
theory Format
  imports Criteria
begin

text \<open>
  How a log line spells a value and a criterion: core/quantities/format.hpp and format.cpp, and
  core/criteria/predicate_text.hpp. The C library prints a number in so many significant digits
  (snprintf with \<open>%.*g\<close>), which is a parameter; std::log10 and std::pow are exact and rounded.
\<close>

type_synonym digits = "nat \<Rightarrow> double \<Rightarrow> string"

section \<open>Numbers\<close>

record SiPrefixRange =
  Smallest :: int
  Largest :: int

fun Prefixes :: "QuantityKind \<Rightarrow> SiPrefixRange option" where
  "Prefixes Voltage = Some \<lparr>Smallest = - 6, Largest = 3\<rparr>"
| "Prefixes Current = Some \<lparr>Smallest = - 6, Largest = 3\<rparr>"
| "Prefixes ApparentPower = Some \<lparr>Smallest = - 3, Largest = 3\<rparr>"
| "Prefixes Power = Some \<lparr>Smallest = - 6, Largest = 3\<rparr>"
| "Prefixes Resistance = Some \<lparr>Smallest = - 3, Largest = 6\<rparr>"
| "Prefixes Frequency = Some \<lparr>Smallest = 0, Largest = 9\<rparr>"
| "Prefixes Time = Some \<lparr>Smallest = - 12, Largest = 0\<rparr>"
| "Prefixes ReactivePower = Some \<lparr>Smallest = - 3, Largest = 3\<rparr>"
| "Prefixes Capacitance = Some \<lparr>Smallest = - 12, Largest = 0\<rparr>"
| "Prefixes _ = None"

definition kPrefixLetters :: "(int \<times> string) list" where
  "kPrefixLetters = [(- 12, ''p''), (- 9, ''n''), (- 6, ''u''), (- 3, ''m''), (0, []), (3, ''k''), (6, ''M''), (9, ''G'')]"

definition prefixLetter :: "int \<Rightarrow> string option" where
  "prefixLetter exponent = map_of kPrefixLetters exponent"

definition kPrefixedDigits :: nat where "kPrefixedDigits = 4"
definition kMantissaFloor :: rat where "kMantissaFloor = 1 / 1000"
definition kMantissaCeiling :: rat where "kMantissaCeiling = 1000"

definition formatNumber :: "digits \<Rightarrow> double \<Rightarrow> string" where
  "formatNumber fd value = fd 6 value"

text \<open>The decimal exponent of a positive number, the floor of its logarithm.\<close>

definition ilog10 :: "rat \<Rightarrow> int" where
  "ilog10 x =
     (case quotient_of x of
        (n, d) \<Rightarrow>
          (let k = int (floorlog 10 (nat n)) - int (floorlog 10 (nat d))
           in if 10 powi k \<le> x then k else k - 1))"

text \<open>A finite number over a power of ten that is itself a double.\<close>

definition scaled :: "rat \<Rightarrow> int \<Rightarrow> double" where
  "scaled v scale =
     (case round_double (10 powi scale) of
        Fin p \<Rightarrow> round_double (v / p)
      | other \<Rightarrow> NaN)"

definition clamp :: "int \<Rightarrow> int \<Rightarrow> int \<Rightarrow> int" where
  "clamp v low high = (if v < low then low else if high < v then high else v)"

definition prefixNumber :: "digits \<Rightarrow> double \<Rightarrow> SiPrefixRange \<Rightarrow> string \<times> string" where
  "prefixNumber fd value limits =
     (case value of
        Fin v \<Rightarrow>
          (if v = 0 then (formatNumber fd value, [])
           else
             (let first = clamp (ilog10 \<bar>v\<bar> div 3 * 3) (Smallest limits) (Largest limits);
                  text0 = fd kPrefixedDigits (scaled v first);
                  scale = (if (text0 = ''1000'' \<or> text0 = ''-1000'') \<and> first + 3 \<le> Largest limits
                           then first + 3 else first);
                  mantissa = scaled v scale;
                  magnitude = d_abs mantissa
              in case prefixLetter scale of
                   None \<Rightarrow> (formatNumber fd value, [])
                 | Some letter \<Rightarrow>
                     if d_lt magnitude (Fin kMantissaFloor) \<or> d_le (Fin kMantissaCeiling) magnitude
                     then (formatNumber fd value, [])
                     else (fd kPrefixedDigits mantissa, letter)))
      | _ \<Rightarrow> (formatNumber fd value, []))"

fun hex_digits :: "nat \<Rightarrow> string" where
  "hex_digits n = (if n < 16 then [hex_char n] else hex_digits (n div 16) @ [hex_char (n mod 16)])"

definition formatHex :: "64 word \<Rightarrow> string" where
  "formatHex w = ''0x'' @ hex_digits (unat w)"

definition formatByte :: "octet \<Rightarrow> string" where
  "formatByte w = ''0x'' @ octet_hex w"

section \<open>Values\<close>

fun unitOf :: "ctype \<Rightarrow> string" where
  "unitOf (QuantityType k) = unitSymbol k"
| "unitOf _ = []"

text \<open>The number of a value, for a report that wants one; an integer is converted to a double.\<close>

fun numericOf :: "checked \<Rightarrow> double option" where
  "numericOf (Measured q) = Some (rawValue q)"
| "numericOf (Plain d) = Some d"
| "numericOf (Integral width is_signed v) = Some (round_double (of_int v))"
| "numericOf (Octet w) = Some (Fin (of_int (uint w)))"
| "numericOf _ = None"

definition describe_quantity :: "digits \<Rightarrow> QuantityVariant \<Rightarrow> string" where
  "describe_quantity fd q =
     (let unit = unitSymbol (kind q)
      in case Prefixes (kind q) of
           Some limits \<Rightarrow>
             (case prefixNumber fd (rawValue q) limits of
                (mantissa, letter) \<Rightarrow> mantissa @ '' '' @ letter @ unit)
         | None \<Rightarrow>
             if unit = [] then formatNumber fd (rawValue q)
             else formatNumber fd (rawValue q) @ '' '' @ unit)"

fun describeValue :: "digits \<Rightarrow> checked \<Rightarrow> string" where
  "describeValue fd (Measured q) = describe_quantity fd q"
| "describeValue fd (Truth b) = (if b then ''true'' else ''false'')"
| "describeValue fd (Integral width is_signed v) =
     show_int v @ '' ('' @ formatHex (word_of_int (v mod 2 ^ width)) @ '')''"
| "describeValue fd (Plain d) = formatNumber fd d"
| "describeValue fd (Octet w) = formatByte w"
| "describeValue fd (Octets b) = describe_bytes b"
| "describeValue fd (Masked tag width w) = []"

section \<open>Criteria\<close>

definition toleranceText :: "digits \<Rightarrow> checked \<Rightarrow> string" where
  "toleranceText fd tolerance =
     (if Toleranced (type_of tolerance)
      then (if d_eq (asDouble tolerance) machine_epsilon then [] else '' +/-'' @ describeValue fd tolerance)
      else [])"

definition patternText :: "checked \<Rightarrow> string" where
  "patternText v = (case toBits v of None \<Rightarrow> [] | Some w \<Rightarrow> formatHex w)"

fun listed :: "string list \<Rightarrow> string" where
  "listed [] = []"
| "listed [s] = s"
| "listed (s # ss) = s @ '', '' @ listed ss"

definition optionListText :: "digits \<Rightarrow> checked list \<Rightarrow> string" where
  "optionListText fd options = ''['' @ listed (map (describeValue fd) options) @ '']''"

fun symbolOf :: "Relation \<Rightarrow> string" where
  "symbolOf Lt = ''<''"
| "symbolOf Le = ''<=''"
| "symbolOf Gt = ''>''"
| "symbolOf Ge = ''>=''"

definition senseText :: "BitSense \<Rightarrow> string" where
  "senseText sense = (if sense = SetBits then ''set'' else ''clear'')"

fun describePredicate :: "digits \<Rightarrow> predicate \<Rightarrow> string"
and describePredicates :: "digits \<Rightarrow> predicate list \<Rightarrow> string list" where
  "describePredicate fd (EqPredicate v t) = ''= '' @ describeValue fd v @ toleranceText fd t"
| "describePredicate fd (RangePredicate low high t) =
     ''in ['' @ describeValue fd low @ '' .. '' @ describeValue fd high @ '']'' @ toleranceText fd t"
| "describePredicate fd (RelationalPredicate r v t) =
     symbolOf r @ '' '' @ describeValue fd v @ toleranceText fd t"
| "describePredicate fd (MaskPredicate m e) = ''(value & '' @ patternText m @ '') == '' @ patternText e"
| "describePredicate fd (BitsPredicate sense m) = ''bits '' @ patternText m @ '' '' @ senseText sense"
| "describePredicate fd (BitPredicate n sense) = ''bit '' @ show_nat n @ '' '' @ senseText sense"
| "describePredicate fd (AnyPredicate vs t) = ''one of '' @ optionListText fd vs @ toleranceText fd t"
| "describePredicate fd (NotPredicate (EqPredicate v t)) = ''!= '' @ describeValue fd v @ toleranceText fd t"
| "describePredicate fd (NotPredicate (AnyPredicate vs t)) =
     ''none of '' @ optionListText fd vs @ toleranceText fd t"
| "describePredicate fd (NotPredicate p) = ''not ('' @ describePredicate fd p @ '')''"
| "describePredicate fd (AnyOfPredicate ps) = ''any of ['' @ listed (describePredicates fd ps) @ '']''"
| "describePredicates fd [] = []"
| "describePredicates fd (p # ps) = describePredicate fd p # describePredicates fd ps"

definition describeCriterion :: "digits \<Rightarrow> predicate \<Rightarrow> string" where
  "describeCriterion fd p = describePredicate fd p"

end
