(* ===== verification/Stimulus.thy ===== *)
theory Stimulus
  imports Session Double
begin

text \<open>
  Stimulus files: core/session/stimulus.hpp and stimulus.cpp. A line programs one key of a bank with
  one value, which is sticky, or a list, which is a sequence. The text of the files a trace may name
  is a map from paths. A std::runtime_error is its message.
\<close>

section \<open>Tokens\<close>

abbreviation dquote :: char where "dquote \<equiv> CHR 0x22"
abbreviation backslash :: char where "backslash \<equiv> CHR 0x5C"

definition isSpace :: "char set" where
  "isSpace = {CHR '' '', CHR 0x09, CHR 0x0A, CHR 0x0B, CHR 0x0C, CHR 0x0D}"

definition trimmed :: "string \<Rightarrow> string" where
  "trimmed s = trim_with isSpace s"

text \<open>The scans look one character back; before the first one there is none.\<close>

fun comment_scan :: "char option \<Rightarrow> bool \<Rightarrow> string \<Rightarrow> string" where
  "comment_scan before quoted [] = []"
| "comment_scan before quoted (c # cs) =
     (if c = dquote \<and> before \<noteq> Some backslash then c # comment_scan (Some c) (\<not> quoted) cs
      else if c = CHR 0x23 \<and> \<not> quoted then []
      else c # comment_scan (Some c) quoted cs)"

definition withoutComment :: "string \<Rightarrow> string" where
  "withoutComment line = comment_scan None False line"

fun split_scan :: "char option \<Rightarrow> int \<Rightarrow> bool \<Rightarrow> string \<Rightarrow> string \<Rightarrow> string list" where
  "split_scan before depth quoted current [] = [trimmed current]"
| "split_scan before depth quoted current (c # cs) =
     (if c = dquote \<and> before \<noteq> Some backslash
      then split_scan (Some c) depth (\<not> quoted) (current @ [c]) cs
      else if \<not> quoted \<and> c \<in> {CHR ''('', CHR ''['', CHR ''<''}
      then split_scan (Some c) (depth + 1) quoted (current @ [c]) cs
      else if \<not> quoted \<and> c \<in> {CHR '')'', CHR '']'', CHR ''>''}
      then split_scan (Some c) (depth - 1) quoted (current @ [c]) cs
      else if c = CHR '','' \<and> \<not> quoted \<and> depth = 0
      then trimmed current # split_scan (Some c) depth quoted [] cs
      else split_scan (Some c) depth quoted (current @ [c]) cs)"

definition splitValues :: "string \<Rightarrow> string list" where
  "splitValues s = split_scan None 0 False [] s"

text \<open>Extraction of words from a stream: what stands between white space.\<close>

fun words_from :: "string \<Rightarrow> string \<Rightarrow> string list" where
  "words_from word [] = (if word = [] then [] else [word])"
| "words_from word (c # cs) =
     (if c \<in> isSpace then (if word = [] then words_from [] cs else word # words_from [] cs)
      else words_from (word @ [c]) cs)"

definition words_of :: "string \<Rightarrow> string list" where
  "words_of s = words_from [] s"

section \<open>Values\<close>

definition parseNumber :: "string \<Rightarrow> string \<Rightarrow> string + double" where
  "parseNumber token what =
     (case from_chars_double token of
        None \<Rightarrow> Inl (sq token @ '' is not a number ('' @ what @ '')'')
      | Some v \<Rightarrow> Inr v)"

fun parseNumbers :: "string list \<Rightarrow> string \<Rightarrow> string + double list" where
  "parseNumbers [] what = Inr []"
| "parseNumbers (token # tokens) what =
     (case parseNumber token what of
        Inl e \<Rightarrow> Inl e
      | Inr v \<Rightarrow> map_sum id ((#) v) (parseNumbers tokens what))"

definition blank :: "char \<Rightarrow> bool" where
  "blank c \<longleftrightarrow> c = CHR '' '' \<or> c = CHR 0x09"

definition not_a_symbol :: "string \<Rightarrow> string" where
  "not_a_symbol symbol = sq symbol @ '' is not a unit symbol''"

definition parseQuantity :: "string \<Rightarrow> string + QuantityVariant" where
  "parseQuantity s =
     (let number = trimmed (takeWhile (\<lambda>c. \<not> blank c) s);
          symbol = trimmed (dropWhile (\<lambda>c. \<not> blank c) s)
      in case quantityKindFromSymbol symbol of
           None \<Rightarrow> Inl (not_a_symbol symbol)
         | Some k \<Rightarrow> map_sum id (quantityVariantFromKind k) (parseNumber number ''a reading''))"

definition escaped :: "char \<Rightarrow> char option" where
  "escaped c =
     (if c = CHR ''r'' then Some (CHR 0x0D)
      else if c = CHR ''n'' then Some (CHR 0x0A)
      else if c = CHR ''t'' then Some (CHR 0x09)
      else if c = backslash then Some backslash
      else if c = dquote then Some dquote
      else None)"

definition half_written :: "string \<Rightarrow> string" where
  "half_written s = sq s @ '' ends in a half-written escape''"

definition bad_escape :: "char \<Rightarrow> string" where
  "bad_escape c =
     [backslash, c] @ '' is not one of the escapes a payload is written with (''
     @ [backslash] @ ''r '' @ [backslash] @ ''n '' @ [backslash] @ ''t '' @ [backslash, backslash] @ '' ''
     @ [backslash, dquote] @ '')''"

function payload_from :: "string \<Rightarrow> nat \<Rightarrow> string \<Rightarrow> string + string" where
  "payload_from s i body =
     (if i + 1 < length s
      then (if s ! i \<noteq> backslash then payload_from s (i + 1) (body @ [s ! i])
            else if i + 1 + 1 > length s then Inl (half_written s)
            else (case escaped (s ! (i + 1)) of
                    None \<Rightarrow> Inl (bad_escape (s ! (i + 1)))
                  | Some c \<Rightarrow> payload_from s (i + 1 + 1) (body @ [c])))
      else Inr body)"
  by pat_completeness auto
termination by (relation "measure (\<lambda>(s, i, body). length s - i)") auto

declare payload_from.simps [simp del]

definition parseTextPayload :: "string \<Rightarrow> string + Bytes" where
  "parseTextPayload s = map_sum id bytes_of_text (payload_from s 1 [])"

definition missing_closing :: "string \<Rightarrow> string \<Rightarrow> string" where
  "missing_closing s what = sq s @ '' is missing its closing '' @ what"

text \<open>std::filesystem::path: joining, and the directory a path is in.\<close>

definition path_append :: "string \<Rightarrow> string \<Rightarrow> string" where
  "path_append base s =
     (if s \<noteq> [] \<and> hd s = CHR ''/'' then s
      else if base = [] \<or> last base = CHR ''/'' then base @ s
      else base @ ''/'' @ s)"

definition parent_path :: "string \<Rightarrow> string" where
  "parent_path s =
     (let dir = rev (dropWhile (\<lambda>c. c \<noteq> CHR ''/'') (rev s));
          cut = rev (dropWhile (\<lambda>c. c = CHR ''/'') (rev dir))
      in if cut = [] then dir else cut)"

type_synonym texts = "string \<rightharpoonup> string"

definition readSamples :: "texts \<Rightarrow> string \<Rightarrow> string + double list" where
  "readSamples fs path =
     (case fs path of
        None \<Rightarrow> Inl (''could not open the sample file '' @ sq path)
      | Some content \<Rightarrow>
          (case parseNumbers (words_of content) (''a sample in '' @ sq path) of
             Inl e \<Rightarrow> Inl e
           | Inr samples \<Rightarrow>
               if samples = [] then Inl (''the sample file '' @ sq path @ '' holds no numbers'')
               else Inr samples))"

text \<open>The bits a sample is stored in are the conversion of the compiler, and a parameter.\<close>

type_synonym stored_as = "double \<Rightarrow> 64 word"

definition traceFromFile :: "stored_as \<Rightarrow> texts \<Rightarrow> QuantityKind \<Rightarrow> Timing \<Rightarrow> string \<Rightarrow> string + Waveform" where
  "traceFromFile bits fs k timing path =
     map_sum id (\<lambda>samples. \<lparr>mKind = k, mTiming = timing, mSamples = map bits samples\<rparr>) (readSamples fs path)"

text \<open>The samples of a trace: a file beside the stimulus file, or a list in the line.\<close>

definition parseSamples :: "texts \<Rightarrow> string \<Rightarrow> string \<Rightarrow> string + double list" where
  "parseSamples fs base s =
     (if s \<noteq> [] \<and> hd s = dquote
      then (if length s < 2 \<or> last s \<noteq> dquote then Inl (missing_closing s ''quote'')
            else readSamples fs (path_append base (butlast (tl s))))
      else if s \<noteq> [] \<and> hd s = CHR ''[''
      then (if last s \<noteq> CHR '']'' then Inl (missing_closing s (sq '']''))
            else parseNumbers (words_of (butlast (tl s))) ''a sample'')
      else Inl (''a trace's samples are either [ 5.0 4.6 ] or '' @ [dquote] @ ''a-file'' @ [dquote]
                @ '', and '' @ sq s @ '' is neither''))"

definition parseTrace :: "stored_as \<Rightarrow> texts \<Rightarrow> string \<Rightarrow> string \<Rightarrow> string + Waveform" where
  "parseTrace bits fs base s =
     (if last s \<noteq> CHR '')'' then Inl (missing_closing s (sq '')''))
      else
        (case splitValues (butlast (drop (length ''trace('') s)) of
           [unit, originText, incrementText, samplesText] \<Rightarrow>
             (case quantityKindFromSymbol unit of
                None \<Rightarrow> Inl (not_a_symbol unit)
              | Some k \<Rightarrow>
                  (case parseQuantity originText of
                     Inl e \<Rightarrow> Inl e
                   | Inr start \<Rightarrow>
                       (case parseQuantity incrementText of
                          Inl e \<Rightarrow> Inl e
                        | Inr increment \<Rightarrow>
                            if kind start \<noteq> Time \<or> kind increment \<noteq> Time
                            then Inl (''a trace's origin and increment are times, written with '' @ sq ''s'')
                            else map_sum id
                                   (\<lambda>samples. \<lparr>mKind = k,
                                      mTiming = \<lparr>Origin = rawValue start, Increment = rawValue increment\<rparr>,
                                      mSamples = map bits samples\<rparr>)
                                   (parseSamples fs base samplesText))))
         | arguments \<Rightarrow>
             Inl (''a trace takes four arguments -- trace( unit, origin, increment, samples) -- and ''
                  @ sq s @ '' has '' @ show_nat (length arguments))))"

definition parseValue :: "stored_as \<Rightarrow> texts \<Rightarrow> string \<Rightarrow> string \<Rightarrow> string + RecordedValue" where
  "parseValue bits fs base s =
     (if s = [] then Inl ''a value is missing''
      else if s = ''true'' then Inr (Flag True)
      else if s = ''false'' then Inr (Flag False)
      else if take (length ''trace('') s = ''trace('' then map_sum id Trace (parseTrace bits fs base s)
      else if hd s = dquote
      then (if length s < 2 \<or> last s \<noteq> dquote then Inl (missing_closing s ''quote'')
            else map_sum id Payload (parseTextPayload s))
      else if hd s = CHR ''<''
      then (if last s \<noteq> CHR ''>'' then Inl (missing_closing s (sq ''>''))
            else map_sum (\<lambda>e. sq s @ '' is not hex -- '' @ e) Payload (fromHex (butlast (tl s))))
      else map_sum id Reading (parseQuantity s))"

fun parseValues :: "stored_as \<Rightarrow> texts \<Rightarrow> string \<Rightarrow> string list \<Rightarrow> string + RecordedValue list" where
  "parseValues bits fs base [] = Inr []"
| "parseValues bits fs base (s # ss) =
     (case parseValue bits fs base s of
        Inl e \<Rightarrow> Inl e
      | Inr v \<Rightarrow> map_sum id ((#) v) (parseValues bits fs base ss))"

section \<open>Programming a bank\<close>

text \<open>The kinds of a line's readings in the order they are first met.\<close>

fun kind_order :: "QuantityKind list \<Rightarrow> QuantityVariant list \<Rightarrow> QuantityKind list" where
  "kind_order seen [] = []"
| "kind_order seen (v # vs) =
     (if kind v \<in> set seen then kind_order seen vs else kind v # kind_order (kind v # seen) vs)"

definition inject_of_kind :: "string \<Rightarrow> QuantityVariant list \<Rightarrow> QuantityKind \<Rightarrow> SessionBank \<Rightarrow> SessionBank" where
  "inject_of_kind key values k b =
     (case filter (\<lambda>v. kind v = k) values of
        [v] \<Rightarrow> inject key v b
      | readings \<Rightarrow> inject_kind key k (sourceOf readings) b)"

definition programReadings :: "string \<Rightarrow> QuantityVariant list \<Rightarrow> SessionBank \<Rightarrow> SessionBank" where
  "programReadings key values b = fold (inject_of_kind key values) (kind_order [] values) b"

definition programAs :: "('v Source \<Rightarrow> SessionBank \<Rightarrow> SessionBank) \<Rightarrow> 'v list \<Rightarrow> SessionBank \<Rightarrow> SessionBank" where
  "programAs injectSource values b =
     (case values of [v] \<Rightarrow> injectSource (constantSource v) b | _ \<Rightarrow> injectSource (sourceOf values) b)"

text \<open>The alternative of a variant.\<close>

fun shape :: "RecordedValue \<Rightarrow> nat" where
  "shape (Reading _) = 0"
| "shape (Payload _) = 1"
| "shape (Flag _) = 2"
| "shape (Trace _) = 3"

definition mixes :: "string \<Rightarrow> string" where
  "mixes key = sq key @ '' mixes readings, flags, payloads or traces in one list''"

definition readings_in :: "RecordedValue list \<Rightarrow> QuantityVariant list" where
  "readings_in values = List.map_filter (\<lambda>v. case v of Reading q \<Rightarrow> Some q | _ \<Rightarrow> None) values"

definition payloads_in :: "RecordedValue list \<Rightarrow> Bytes list" where
  "payloads_in values = List.map_filter (\<lambda>v. case v of Payload p \<Rightarrow> Some p | _ \<Rightarrow> None) values"

definition flags_in :: "RecordedValue list \<Rightarrow> bool list" where
  "flags_in values = List.map_filter (\<lambda>v. case v of Flag b \<Rightarrow> Some b | _ \<Rightarrow> None) values"

definition traces_in :: "RecordedValue list \<Rightarrow> Waveform list" where
  "traces_in values = List.map_filter (\<lambda>v. case v of Trace w \<Rightarrow> Some w | _ \<Rightarrow> None) values"

definition program_key :: "string \<Rightarrow> RecordedValue list \<Rightarrow> SessionBank \<Rightarrow> string option \<times> SessionBank" where
  "program_key key values b =
     (if list_ex (\<lambda>v. shape v \<noteq> shape (hd values)) values then (Some (mixes key), b)
      else
        (None,
         if shape (hd values) = 0 then programReadings key (readings_in values) b
         else if shape (hd values) = 1 then programAs (injectData key) (payloads_in values) b
         else if shape (hd values) = 2 then programAs (injectFlag key) (flags_in values) b
         else programAs (injectTrace key) (traces_in values) b))"

fun program_keys :: "(string \<times> RecordedValue list) list \<Rightarrow> SessionBank \<Rightarrow> string option \<times> SessionBank" where
  "program_keys [] b = (None, b)"
| "program_keys ((key, values) # parsed) b =
     (case program_key key values b of
        (Some e, b') \<Rightarrow> (Some e, b')
      | (None, b') \<Rightarrow> program_keys parsed b')"

section \<open>Lines\<close>

definition parse_content ::
    "stored_as \<Rightarrow> texts \<Rightarrow> string \<Rightarrow> string \<Rightarrow> string + string \<times> RecordedValue list" where
  "parse_content bits fs base content =
     (case split_first (CHR ''='') content of
        None \<Rightarrow> Inl (''a stimulus line is '' @ sq ''key = value'')
      | Some (before, after) \<Rightarrow>
          (let key = trimmed before
           in if key = [] then Inl ''the key is missing''
              else if list_ex blank key
              then Inl (sq key @ '' is not a session key -- keys have no spaces in them'')
              else map_sum id (Pair key) (parseValues bits fs base (splitValues after))))"

definition line_error :: "nat \<Rightarrow> string \<Rightarrow> string \<Rightarrow> string" where
  "line_error number line e =
     ''stimulus line '' @ show_nat number @ '': '' @ e @ '' -- in '' @ sq (trimmed line)"

fun parse_lines ::
    "stored_as \<Rightarrow> texts \<Rightarrow> string \<Rightarrow> nat \<Rightarrow> string list \<Rightarrow> string + (string \<times> RecordedValue list) list" where
  "parse_lines bits fs base number [] = Inr []"
| "parse_lines bits fs base number (line # ls) =
     (let content = trimmed (withoutComment line)
      in if content = [] then parse_lines bits fs base (number + 1) ls
         else (case parse_content bits fs base content of
                 Inl e \<Rightarrow> Inl (line_error number line e)
               | Inr entry \<Rightarrow> map_sum id ((#) entry) (parse_lines bits fs base (number + 1) ls)))"

definition injectStimulus ::
    "stored_as \<Rightarrow> texts \<Rightarrow> string \<Rightarrow> string \<Rightarrow> SessionBank \<Rightarrow> string option \<times> SessionBank" where
  "injectStimulus bits fs base content b =
     (case parse_lines bits fs base 1 (lines_of content) of
        Inl e \<Rightarrow> (Some e, b)
      | Inr parsed \<Rightarrow> program_keys parsed b)"

definition injectStimulusFromFile ::
    "stored_as \<Rightarrow> texts \<Rightarrow> string \<Rightarrow> SessionBank \<Rightarrow> string option \<times> SessionBank" where
  "injectStimulusFromFile bits fs path b =
     (case fs path of
        None \<Rightarrow> (Some (''could not open the stimulus file '' @ sq path), b)
      | Some content \<Rightarrow> injectStimulus bits fs (parent_path path) content b)"

section \<open>Escapes\<close>

text \<open>The scan of a payload over a list: what is left of the text, and the body so far.\<close>

fun unescape :: "string \<Rightarrow> string \<Rightarrow> string + string" where
  "unescape body (c # d # cs) =
     (if c \<noteq> backslash then unescape (body @ [c]) (d # cs)
      else (case escaped d of None \<Rightarrow> Inl (bad_escape d) | Some e \<Rightarrow> unescape (body @ [e]) cs))"
| "unescape body _ = Inr body"

lemma payload_from_unescape:
  "payload_from s i body = unescape body (drop i s)"
proof (induction s i body rule: payload_from.induct)
  case (1 s i body)
  show ?case
  proof (cases "i + 1 < length s")
    case True
    then obtain cs where cs: "drop i s = s ! i # s ! (i + 1) # cs" "drop (i + 1) s = s ! (i + 1) # cs" "drop (i + 2) s = cs"
      by (metis Cons_nth_drop_Suc One_nat_def Suc_eq_plus1 Suc_lessD add_2_eq_Suc' add_Suc_right)
    show ?thesis
    proof (cases "s ! i = backslash")
      case True
      then have "payload_from s i body = (case escaped (s ! (i + 1)) of
          None \<Rightarrow> Inl (bad_escape (s ! (i + 1))) | Some c \<Rightarrow> payload_from s (i + 1 + 1) (body @ [c]))"
        using \<open>i + 1 < length s\<close> by (subst payload_from.simps) simp
      with 1(2) [OF \<open>i + 1 < length s\<close>] True cs \<open>i + 1 < length s\<close> show ?thesis
        by (auto split: option.splits)
    next
      case False
      with 1(1) [OF True False] cs True show ?thesis
        by (subst payload_from.simps) simp
    qed
  next
    case False
    then have "drop i s = [] \<or> (\<exists>c. drop i s = [c])"
      by (cases "drop i s"; cases "tl (drop i s)") (auto dest!: arg_cong [where f = length])
    with False show ?thesis by (subst payload_from.simps) auto
  qed
qed

lemma unescape_plain: "c \<noteq> backslash \<Longrightarrow> rest \<noteq> [] \<Longrightarrow> unescape body (c # rest) = unescape (body @ [c]) rest"
  by (cases rest) simp_all

lemma char_of_octet_eq: "char_of_octet w = c \<longleftrightarrow> w = toByte c"
  by (metis char_of_octet_toByte toByte_char_of_octet)

lemma char_of_octet_special:
  "char_of_octet 9 = CHR 0x09" "char_of_octet 10 = CHR 0x0A" "char_of_octet 13 = CHR 0x0D"
  "char_of_octet 34 = dquote" "char_of_octet 92 = backslash"
  by (simp_all add: char_of_octet_eq toByte_def)

lemma unescape_octet:
  "rest \<noteq> [] \<Longrightarrow> unescape body (text_of_octet w @ rest) = unescape (body @ [char_of_octet w]) rest"
  by (auto simp: text_of_octet_def escaped_def char_of_octet_eq char_of_octet_special toByte_def unescape_plain)

lemma unescape_text:
  "unescape body (concat (map text_of_octet ws) @ [c]) = Inr (body @ map char_of_octet ws)"
  by (induction ws arbitrary: body) (simp_all add: unescape_octet)

lemma describe_body_whole:
  "\<not> snd (describe_body asText body ws) \<Longrightarrow>
     fst (describe_body asText body ws)
       = (if asText then body @ concat (map text_of_octet ws) else bytes_hex_from body ws)"
  by (induction asText body ws rule: describe_body.induct) (auto simp: append_octet_def split: if_splits)

text \<open>A payload that the log shows whole.\<close>

definition shown_whole :: "Bytes \<Rightarrow> bool" where
  "shown_whole v \<longleftrightarrow> \<not> snd (describe_body (list_all isRenderableAsText v) [] v)"

lemma describe_whole:
  "shown_whole v \<Longrightarrow> describe_bytes v =
     (if list_all isRenderableAsText v then [dquote] @ concat (map text_of_octet v) @ [dquote]
      else ''<'' @ bytes_hex v @ ''>'')"
  using describe_body_whole [of "list_all isRenderableAsText v" "[]" v]
  by (cases "describe_body (list_all isRenderableAsText v) [] v"; cases "list_all isRenderableAsText v")
     (simp_all add: shown_whole_def describe_bytes_def bytes_hex_def Let_def)

lemma parse_described:
  assumes "shown_whole v"
  shows "parseValue bits fs base (describe_bytes v) = Inr (Payload v)"
proof (cases "list_all isRenderableAsText v")
  case True
  then show ?thesis
    by (simp add: describe_whole [OF assms] parseValue_def parseTextPayload_def payload_from_unescape
        unescape_text bytes_of_text_def comp_def)
next
  case False
  then show ?thesis
    using fromHex_hex [of v] by (simp add: describe_whole [OF assms] parseValue_def butlast_append)
qed

section \<open>A value pasted from the log\<close>

lemma trim_with_pad:
  assumes "set before \<subseteq> ws" "set after \<subseteq> ws" "s \<noteq> []" "hd s \<notin> ws" "last s \<notin> ws"
  shows "trim_with ws (before @ s @ after) = s"
proof -
  from assms(3,4) obtain c cs where s: "s = c # cs" "c \<notin> ws" by (cases s) auto
  have "dropWhile (\<lambda>c. c \<in> ws) (before @ s @ after) = s @ after"
    using assms(1) s by (subst dropWhile_append2) auto
  moreover have "dropWhile (\<lambda>c. c \<in> ws) (rev after @ rev s) = rev s"
    using assms(2,3,5) by (cases s rule: rev_cases; subst dropWhile_append2) auto
  ultimately show ?thesis by (simp add: trim_with_def)
qed

text \<open>What a scan remembers of the text it has passed.\<close>

fun remembered :: "char option \<Rightarrow> string \<Rightarrow> char option" where
  "remembered before [] = before"
| "remembered before (c # s) = remembered (Some c) s"

lemma remembered_snoc [simp]: "remembered before (s @ [c]) = Some c"
  by (induction s arbitrary: before) simp_all

lemma comment_scan_plain:
  "dquote \<notin> set s \<Longrightarrow> CHR 0x23 \<notin> set s \<or> quoted \<Longrightarrow>
     comment_scan before quoted (s @ rest) = s @ comment_scan (remembered before s) quoted rest"
proof (induction s arbitrary: before)
  case (Cons c s)
  then show ?case by auto
qed simp

lemma split_scan_plain:
  "set s \<inter> {dquote, CHR '',''} = {} \<Longrightarrow> quoted \<or> set s \<inter> {CHR ''('', CHR ''['', CHR ''<'', CHR '')'', CHR '']'', CHR ''>''} = {} \<Longrightarrow>
     split_scan before depth quoted current (s @ rest) = split_scan (remembered before s) depth quoted (current @ s) rest"
proof (induction s arbitrary: before current)
  case (Cons c s)
  then show ?case by auto
qed simp

lemma text_of_octet_chars:
  "CHR 0x0A \<notin> set (text_of_octet w)"
  by (auto simp: text_of_octet_def char_of_octet_eq toByte_def eq_commute [of "CHR 0x0A"])

lemma comment_scan_octet:
  "comment_scan before True (text_of_octet w @ rest)
     = text_of_octet w @ comment_scan (Some (last (text_of_octet w))) True rest"
  by (auto simp: text_of_octet_def char_of_octet_eq toByte_def)

lemma comment_scan_octets:
  "comment_scan before True (concat (map text_of_octet ws) @ rest)
     = concat (map text_of_octet ws)
       @ comment_scan (if ws = [] then before else Some (last (text_of_octet (last ws)))) True rest"
  by (induction ws arbitrary: before) (simp_all add: comment_scan_octet)

lemma split_scan_octet:
  "split_scan before depth True current (text_of_octet w @ rest)
     = split_scan (Some (last (text_of_octet w))) depth True (current @ text_of_octet w) rest"
  by (auto simp: text_of_octet_def char_of_octet_eq toByte_def)

lemma split_scan_octets:
  "split_scan before depth True current (concat (map text_of_octet ws) @ rest)
     = split_scan (if ws = [] then before else Some (last (text_of_octet (last ws)))) depth True
         (current @ concat (map text_of_octet ws)) rest"
  by (induction ws arbitrary: before current) (simp_all add: split_scan_octet)

lemma last_text_of_octet: "last (text_of_octet w) = backslash \<longleftrightarrow> w = 0x5C"
  by (auto simp: text_of_octet_def char_of_octet_eq toByte_def)

lemma bytes_hex_chars: "c \<in> set (bytes_hex v) \<Longrightarrow> c = CHR '' '' \<or> 0 \<le> hexDigit c"
proof -
  assume "c \<in> set (bytes_hex v)"
  then have "c = CHR '' '' \<or> c \<in> set (unspacedHex v)" by (auto simp: unspacedHex_def)
  then show ?thesis using unspacedHex_chars [of c v] hexDigit_hex_char by (metis of_nat_0_le_iff)
qed

lemma bytes_hex_plain:
  "set (bytes_hex v) \<inter> {dquote, CHR 0x23, CHR '','', CHR ''('', CHR ''['', CHR ''<'', CHR '')'', CHR '']'', CHR ''>'', CHR 0x0A} = {}"
proof -
  have "hexDigit c < 0 \<and> c \<noteq> CHR '' ''"
    if "c \<in> {dquote, CHR 0x23, CHR '','', CHR ''('', CHR ''['', CHR ''<'', CHR '')'', CHR '']'', CHR ''>'', CHR 0x0A}" for c
    using that by (auto simp: hexDigit_def)
  with bytes_hex_chars [of _ v] show ?thesis by (meson disjoint_iff leD)
qed

text \<open>A payload that ends in a backslash is written with a quote that looks escaped.\<close>

definition ends_in_backslash :: "Bytes \<Rightarrow> bool" where
  "ends_in_backslash v \<longleftrightarrow> list_all isRenderableAsText v \<and> v \<noteq> [] \<and> last v = 0x5C"

lemma described_scans:
  assumes "shown_whole v" and "\<not> ends_in_backslash v" and "before \<noteq> Some backslash"
  shows "comment_scan before False (describe_bytes v) = describe_bytes v"
    and "split_scan before 0 False current (describe_bytes v) = [trimmed (current @ describe_bytes v)]"
    and "CHR 0x0A \<notin> set (describe_bytes v)"
    and "describe_bytes v \<noteq> [] \<and> hd (describe_bytes v) \<notin> isSpace \<and> last (describe_bytes v) \<notin> isSpace"
proof -
  have last_ok: "(if v = [] then Some dquote else Some (last (text_of_octet (last v)))) \<noteq> Some backslash"
    if "list_all isRenderableAsText v"
    using assms(2) that by (auto simp: ends_in_backslash_def last_text_of_octet)
  have hex: "comment_scan b False (bytes_hex v @ [CHR ''>'']) = bytes_hex v @ [CHR ''>'']"
    "split_scan b 1 False c (bytes_hex v @ [CHR ''>'']) = [trimmed (c @ bytes_hex v @ [CHR ''>''])]" for b c
    using bytes_hex_plain [of v] comment_scan_plain [of "bytes_hex v" False b "[CHR ''>'']"]
      split_scan_plain [of "bytes_hex v" False b 1 c "[CHR ''>'']"]
    by auto
  show "comment_scan before False (describe_bytes v) = describe_bytes v"
    using assms(3) last_ok hex(1)
    by (simp add: describe_whole [OF assms(1)] comment_scan_octets)
  show "split_scan before 0 False current (describe_bytes v) = [trimmed (current @ describe_bytes v)]"
    using assms(3) last_ok hex(2)
    by (simp add: describe_whole [OF assms(1)] split_scan_octets)
  show "CHR 0x0A \<notin> set (describe_bytes v)"
    using text_of_octet_chars bytes_hex_plain [of v] by (auto simp: describe_whole [OF assms(1)])
  show "describe_bytes v \<noteq> [] \<and> hd (describe_bytes v) \<notin> isSpace \<and> last (describe_bytes v) \<notin> isSpace"
    by (simp add: describe_whole [OF assms(1)] isSpace_def)
qed

definition session_key :: "string \<Rightarrow> bool" where
  "session_key key \<longleftrightarrow> key \<noteq> [] \<and> list_all (\<lambda>c. c \<notin> isSpace \<and> c \<notin> {CHR ''='', CHR 0x23, dquote}) key"

text \<open>
  C30: What the log shows of a payload is a stimulus for it, when it shows the payload whole: an
  abridged one (more than kMaxDescribedBody characters) is none. Pasted after a key and an equals sign
  the text arms that key with the same octets, for every read. The key has no white space, no quote,
  no equals sign and no hash in it. A payload of text that ends in a backslash is excepted, see below.
\<close>

theorem pasted_payload_is_injected:
  assumes "shown_whole v" and "\<not> ends_in_backslash v" and "session_key key"
  shows "injectStimulus bits fs base (key @ '' = '' @ describe_bytes v @ [CHR 0x0A]) b
    = (None, injectData key (constantSource v) b)"
proof -
  let ?d = "describe_bytes v"
  note d = assms(1,2)
  have key: "key \<noteq> []" "set key \<inter> isSpace = {}" "set key \<inter> {CHR ''='', CHR 0x23, dquote} = {}"
    using assms(3) by (auto simp: session_key_def list_all_iff)
  then have hd_last: "hd key \<notin> isSpace" "last key \<notin> isSpace" by (auto dest: hd_in_set last_in_set)
  have "CHR 0x0A \<notin> set (key @ '' = '' @ ?d)"
    using key(2) described_scans(3) [OF d, of None] by (auto simp: isSpace_def)
  then have line: "lines_of (key @ '' = '' @ ?d @ [CHR 0x0A]) = [key @ '' = '' @ ?d]"
    using lines_of_line [of "key @ '' = '' @ ?d" "[]"] by simp
  have "comment_scan None False ((key @ '' = '') @ ?d) = (key @ '' = '') @ ?d"
  proof -
    have "remembered None (key @ '' = '') = Some (CHR '' '')"
      using remembered_snoc [of None "key @ '' =''"] by simp
    with comment_scan_plain [of "key @ '' = ''" False None ?d] key(3) described_scans(1) [OF d, of "Some (CHR '' '')"]
    show ?thesis by auto
  qed
  then have "withoutComment (key @ '' = '' @ ?d) = key @ '' = '' @ ?d" by (simp add: withoutComment_def)
  moreover have "trimmed (key @ '' = '' @ ?d) = key @ '' = '' @ ?d"
    using trim_with_pad [of "[]" isSpace "[]" "key @ '' = '' @ ?d"] key(1) hd_last(1) described_scans(4) [OF d, of None]
    by (simp add: trimmed_def)
  moreover have "split_first (CHR ''='') (key @ '' = '' @ ?d) = Some (key @ '' '', '' '' @ ?d)"
    using key(3) split_first_append [of "CHR ''=''" "key @ '' ''" "'' '' @ ?d"] by simp
  moreover have "trimmed (key @ '' '') = key"
    using trim_with_pad [of "[]" isSpace "'' ''" key] key(1) hd_last by (simp add: trimmed_def isSpace_def)
  moreover have "\<not> list_ex blank key"
    using key(2) by (auto simp: list_ex_iff blank_def isSpace_def)
  moreover have "splitValues ('' '' @ ?d) = [?d]"
    using described_scans(2) [OF d, of "Some (CHR '' '')" "'' ''"] described_scans(4) [OF d, of None]
      trim_with_pad [of "'' ''" isSpace "[]" ?d]
    by (simp add: splitValues_def trimmed_def isSpace_def)
  ultimately have "parse_lines bits fs base 1 [key @ '' = '' @ ?d] = Inr [(key, [Payload v])]"
    using key(1) parse_described [OF d(1)] by (simp add: parse_content_def Let_def)
  with line show ?thesis
    by (simp add: injectStimulus_def program_key_def programAs_def payloads_in_def map_filter_simps)
qed

theorem pasted_payload_is_injected_witness:
  "injectStimulus (\<lambda>_. 0) (\<lambda>_. None) [] (''Ser1.Data'' @ '' = '' @ describe_bytes [0x41, 0x0D] @ [CHR 0x0A]) new_bank
     = (None, injectData ''Ser1.Data'' (constantSource [0x41, 0x0D]) new_bank)"
  by (rule pasted_payload_is_injected)
     (simp_all add: shown_whole_def append_octet_def text_of_octet_def kMaxDescribedBody_def isRenderableAsText_def
        ends_in_backslash_def session_key_def isSpace_def)

section \<open>What is refused, and what is not\<close>

lemma unescape_error: "unescape body s = Inl e \<Longrightarrow> \<exists>c. e = bad_escape c"
  by (induction body s rule: unescape.induct) (auto split: if_splits option.splits)

text \<open>
  The error for a payload that ends in a half-written escape is never raised: a backslash before
  the closing quote takes the quote as its character, and the payload is accepted.
\<close>

theorem half_written_escape_accepted:
  "parseTextPayload s \<noteq> Inl (half_written s)
    \<and> parseValue bits fs base ([dquote] @ ''ACK'' @ [backslash, dquote]) = Inr (Payload (bytes_of_text (''ACK'' @ [dquote])))"
proof
  have "half_written s \<noteq> bad_escape c" for c by (simp add: half_written_def bad_escape_def sq_def)
  then show "parseTextPayload s \<noteq> Inl (half_written s)"
    by (cases "unescape [] (drop 1 s)")
       (auto simp: parseTextPayload_def payload_from_unescape dest: unescape_error)
  show "parseValue bits fs base ([dquote] @ ''ACK'' @ [backslash, dquote]) = Inr (Payload (bytes_of_text (''ACK'' @ [dquote])))"
    by (simp add: parseValue_def parseTextPayload_def payload_from_unescape escaped_def)
qed

text \<open>
  The scans for comments and commas look one character back only, so the quote that closes a
  payload ending in an escaped backslash closes nothing: two such values are read as one payload,
  which is neither, and a comment after one stays in the line.
\<close>

theorem trailing_backslash_misread:
  "let first = describe_bytes [0x61, 0x5C]; second = describe_bytes [0x62]
   in splitValues (first @ '', '' @ second) = [first @ '', '' @ second]
    \<and> parseValue bits fs base (first @ '', '' @ second)
        = Inr (Payload (bytes_of_text (''a'' @ [backslash, dquote] @ '', '' @ [dquote] @ ''b'')))
    \<and> withoutComment (first @ '' # note'') = first @ '' # note''"
proof -
  have d: "describe_bytes [0x61, 0x5C] = [dquote] @ ''a'' @ [backslash, backslash, dquote]"
    "describe_bytes [0x62] = [dquote] @ ''b'' @ [dquote]"
    by (simp_all add: describe_whole shown_whole_def append_octet_def text_of_octet_def kMaxDescribedBody_def
        isRenderableAsText_def char_of_octet_eq toByte_def)
  show ?thesis
    by (simp add: d splitValues_def withoutComment_def trimmed_def trim_with_def isSpace_def parseValue_def
        parseTextPayload_def payload_from_unescape escaped_def)
qed

lemma program_keys_error:
  "program_keys parsed b = (Some e, b') \<Longrightarrow>
     \<exists>programmed key values rest. parsed = programmed @ (key, values) # rest
       \<and> list_ex (\<lambda>v. shape v \<noteq> shape (hd values)) values \<and> e = mixes key
       \<and> program_keys programmed b = (None, b')"
proof (induction parsed b rule: program_keys.induct)
  case (2 key vs parsed b)
  show ?case
  proof (cases "list_ex (\<lambda>v. shape v \<noteq> shape (hd vs)) vs")
    case True
    with 2(2) have "e = mixes key" "b' = b" by (auto simp: program_key_def)
    with True have "(key, vs) # parsed = [] @ (key, vs) # parsed" "e = mixes key"
      "program_keys [] b = (None, b')" by simp_all
    with True show ?thesis by blast
  next
    case False
    then obtain b1 where b1: "program_key key vs b = (None, b1)" by (simp add: program_key_def)
    with 2 obtain programmed key' vs' rest where
      "parsed = programmed @ (key', vs') # rest" "list_ex (\<lambda>v. shape v \<noteq> shape (hd vs')) vs'"
      "e = mixes key'" "program_keys programmed b1 = (None, b')"
      by auto
    with b1 show ?thesis by (intro exI [of _ "(key, vs) # programmed"]) auto
  qed
qed simp

text \<open>
  When a stimulus is refused the bank is as it was if a line could not be read; but where a list
  mixes shapes the keys of the lines before it are already programmed, and the error names no line.
\<close>

theorem refused_stimulus_effect:
  assumes "injectStimulus bits fs base content b = (Some e, b')"
  shows "(parse_lines bits fs base 1 (lines_of content) = Inl e \<and> b' = b)
    \<or> (\<exists>programmed key values rest.
          parse_lines bits fs base 1 (lines_of content) = Inr (programmed @ (key, values) # rest)
          \<and> list_ex (\<lambda>v. shape v \<noteq> shape (hd values)) values
          \<and> e = mixes key \<and> program_keys programmed b = (None, b'))"
  using assms by (auto simp: injectStimulus_def dest!: program_keys_error split: sum.splits)

text \<open>Two lines; the second mixes a reading and a flag.\<close>

definition mixed_lines :: string where
  "mixed_lines = ''A = 5 V'' @ [CHR 0x0A] @ ''B = 5 V, true'' @ [CHR 0x0A]"

theorem refused_stimulus_effect_witness:
  "injectStimulus (\<lambda>_. 0) (\<lambda>_. None) [] mixed_lines new_bank
     = (Some (mixes ''B''), inject ''A'' (Quantity Voltage (Fin 5)) new_bank)"
proof -
  have five: "from_chars_double ''5'' = Some (Fin 5)"
    using small_integers_read_back(1) by (simp add: reads_back_def small_integers_def)
  have p: "parse_lines (\<lambda>_. 0) (\<lambda>_. None) [] 1 (lines_of mixed_lines)
      = Inr [(''A'', [Reading (Quantity Voltage (Fin 5))]), (''B'', [Reading (Quantity Voltage (Fin 5)), Flag True])]"
    by (simp add: mixed_lines_def lines_of_def withoutComment_def trimmed_def trim_with_def isSpace_def parse_content_def
        blank_def splitValues_def parseValue_def parseQuantity_def parseNumber_def five quantityKindFromSymbol_def
        kinds_def quantityVariantFromKind_def)
  have "injectStimulus (\<lambda>_. 0) (\<lambda>_. None) [] mixed_lines new_bank
     = (Some (mixes ''B''), snd (injectStimulus (\<lambda>_. 0) (\<lambda>_. None) [] mixed_lines new_bank))"
    unfolding injectStimulus_def p by (simp add: program_key_def)
  from refused_stimulus_effect [OF this] show ?thesis
    unfolding injectStimulus_def p
    by (simp add: program_key_def programReadings_def readings_in_def map_filter_simps inject_of_kind_def)
qed

section \<open>What a line of readings programs\<close>

lemma kind_order_set: "set (kind_order seen vs) = kind ` set vs - set seen"
  by (induction seen vs rule: kind_order.induct) auto

lemma kind_order_distinct: "distinct (kind_order seen vs)"
  by (induction seen vs rule: kind_order.induct) (auto simp: kind_order_set)

definition kind_source :: "QuantityVariant list \<Rightarrow> QuantityVariant Source option" where
  "kind_source vs = (case vs of [] \<Rightarrow> None | [v] \<Rightarrow> Some (constantSource v) | _ \<Rightarrow> Some (sourceOf vs))"

lemma inject_of_kind_slots:
  assumes "filter (\<lambda>v. kind v = k) vs \<noteq> []"
  shows "mKindSources (mScripted (inject_of_kind key vs k b)) k' other
    = (if k' = k \<and> other = key then kind_source (filter (\<lambda>v. kind v = k) vs) else mKindSources (mScripted b) k' other)"
proof -
  from assms obtain v rest where f: "filter (\<lambda>v. kind v = k) vs = v # rest" by (cases "filter (\<lambda>v. kind v = k) vs") auto
  have "v \<in> set (filter (\<lambda>v. kind v = k) vs)" unfolding f by simp
  then have "kind v = k" by simp
  with f show ?thesis
    by (cases rest)
       (auto simp: inject_of_kind_def kind_source_def inject_def inject_kind_def arm_def program_value_def
          program_kind_def slots_program_def)
qed

lemma fold_inject_slots:
  assumes "distinct order" and "\<And>k. k \<in> set order \<Longrightarrow> filter (\<lambda>v. kind v = k) vs \<noteq> []"
  shows "mKindSources (mScripted (fold (inject_of_kind key vs) order b)) k other
    = (if k \<in> set order \<and> other = key then kind_source (filter (\<lambda>v. kind v = k) vs) else mKindSources (mScripted b) k other)"
  using assms
  by (induction order arbitrary: b) (auto simp: inject_of_kind_slots)

text \<open>
  A line of readings is one slot per quantity at its key: the values of a kind, in the order of
  the line, are a sequence that runs out, or one value that never does; the kinds the line does not
  have, and every other key, keep what they had.
\<close>

theorem readings_program_per_kind:
  "mKindSources (mScripted (programReadings key vs b)) k other
    = (if other \<noteq> key then mKindSources (mScripted b) k other
       else (case filter (\<lambda>v. kind v = k) vs of
               [] \<Rightarrow> mKindSources (mScripted b) k key
             | [v] \<Rightarrow> Some (constantSource v)
             | readings \<Rightarrow> Some (sourceOf readings)))"
proof -
  define readings where "readings = filter (\<lambda>v. kind v = k) vs"
  have nonempty: "k \<in> set (kind_order [] vs) \<longleftrightarrow> filter (\<lambda>v. kind v = k) vs \<noteq> []" for k
    by (auto simp: kind_order_set filter_empty_conv)
  have "mKindSources (mScripted (programReadings key vs b)) k other
      = (if readings \<noteq> [] \<and> other = key then kind_source readings else mKindSources (mScripted b) k other)"
    unfolding programReadings_def readings_def nonempty [symmetric]
    by (rule fold_inject_slots [OF kind_order_distinct]) (simp add: nonempty)
  then show ?thesis
    unfolding readings_def [symmetric] by (cases readings; cases "tl readings") (auto simp: kind_source_def)
qed

end
