(* ===== verification/VerifyEngine.thy ===== *)
theory VerifyEngine
  imports Format Journal Stimulus
begin

text \<open>
  Verify and Fail: core/verbs/verify.hpp and core/criteria/criterion.hpp. Every form of the call
  posts a row to the journal and says whether the check passed. A criterion of a merged table holds
  one criterion per tolerance variant, and the active variant decides which is applied.
\<close>

record Criterion =
  crit_group :: string
  crit_id :: string
  description :: string
  predicate :: predicate

record MultiCriterion =
  multi_group :: string
  multi_id :: string
  variants :: "Criterion list"

definition makeCriterion :: "string \<Rightarrow> string \<Rightarrow> string \<Rightarrow> predicate \<Rightarrow> Criterion" where
  "makeCriterion g i d p = \<lparr>crit_group = g, crit_id = i, description = d, predicate = p\<rparr>"

definition makeMultiCriterion :: "string \<Rightarrow> string \<Rightarrow> Criterion list \<Rightarrow> MultiCriterion" where
  "makeMultiCriterion g i vs = \<lparr>multi_group = g, multi_id = i, variants = vs\<rparr>"

definition result_record ::
    "string \<Rightarrow> string \<Rightarrow> string \<Rightarrow> string \<Rightarrow> double option \<Rightarrow> string \<Rightarrow> string \<Rightarrow> bool \<Rightarrow> JournalRecord" where
  "result_record g i d valueText numeric un criterionText passed =
     blank_record\<lparr>Method := Verify, Subject := i, SubjectGroup := g, Detail := d, Value := valueText,
       Numeric := numeric, Unit := un, CriterionText := criterionText, Passed := Some passed\<rparr>"

definition not_checked_record :: "string \<Rightarrow> string \<Rightarrow> string \<Rightarrow> string \<Rightarrow> JournalRecord" where
  "not_checked_record g i d criterionText = result_record g i d kUncheckedValue None [] criterionText False"

section \<open>The forms of the call\<close>

definition verify_value :: "digits \<Rightarrow> Criterion \<Rightarrow> checked \<Rightarrow> Journal \<Rightarrow> bool \<times> Journal" where
  "verify_value fd c value j =
     (let passed = (holds (predicate c) value = Some True)
      in (passed,
          post (result_record (crit_group c) (crit_id c) (description c) (describeValue fd value)
                  (numericOf value) (unitOf (type_of value)) (describeCriterion fd (predicate c)) passed) j))"

text \<open>The ad hoc forms, with a description only, or a group, an id and a description.\<close>

definition verify_described :: "digits \<Rightarrow> string \<Rightarrow> predicate \<Rightarrow> checked \<Rightarrow> Journal \<Rightarrow> bool \<times> Journal" where
  "verify_described fd d p value j = verify_value fd (makeCriterion [] [] d p) value j"

definition verify_named ::
    "digits \<Rightarrow> string \<Rightarrow> string \<Rightarrow> string \<Rightarrow> predicate \<Rightarrow> checked \<Rightarrow> Journal \<Rightarrow> bool \<times> Journal" where
  "verify_named fd g i d p value j = verify_value fd (makeCriterion g i d p) value j"

text \<open>A reading that may be missing: of a unit, checked as a quantity where the predicate takes one.\<close>

definition verify_reading ::
    "digits \<Rightarrow> QuantityKind \<Rightarrow> Criterion \<Rightarrow> double option \<Rightarrow> Journal \<Rightarrow> bool \<times> Journal" where
  "verify_reading fd k c reading j =
     (case reading of
        None \<Rightarrow>
          (False,
           post (result_record (crit_group c) (crit_id c) (description c) ''<no reading>'' None
                   (unitSymbol k) (describeCriterion fd (predicate c)) False) j)
      | Some v \<Rightarrow>
          if callable (predicate c) (QuantityType k) then verify_value fd c (Measured (Quantity k v)) j
          else verify_value fd c (Plain v) j)"

text \<open>The fold over the variants stops at the first index that is wanted; none posts nothing.\<close>

fun select_variant :: "(Criterion \<Rightarrow> Journal \<Rightarrow> bool \<times> Journal) \<Rightarrow> nat \<Rightarrow> nat \<Rightarrow> Criterion list \<Rightarrow> Journal
      \<Rightarrow> bool option \<times> Journal" where
  "select_variant apply_to wanted i [] j = (None, j)"
| "select_variant apply_to wanted i (c # cs) j =
     (if i = wanted then (case apply_to c j of (passed, j') \<Rightarrow> (Some passed, j'))
      else select_variant apply_to wanted (i + 1) cs j)"

definition verifySelectedVariant ::
    "(Criterion \<Rightarrow> Journal \<Rightarrow> bool \<times> Journal) \<Rightarrow> nat \<Rightarrow> MultiCriterion \<Rightarrow> Journal \<Rightarrow> bool \<times> Journal" where
  "verifySelectedVariant apply_to wanted m j =
     (case select_variant apply_to wanted 0 (variants m) j of
        (matched, j') \<Rightarrow> (matched = Some True, j'))"

definition verify_multi :: "digits \<Rightarrow> nat \<Rightarrow> MultiCriterion \<Rightarrow> checked \<Rightarrow> Journal \<Rightarrow> bool \<times> Journal" where
  "verify_multi fd active m value j = verifySelectedVariant (\<lambda>c. verify_value fd c value) active m j"

definition verify_multi_reading ::
    "digits \<Rightarrow> nat \<Rightarrow> QuantityKind \<Rightarrow> MultiCriterion \<Rightarrow> double option \<Rightarrow> Journal \<Rightarrow> bool \<times> Journal" where
  "verify_multi_reading fd active k m reading j =
     verifySelectedVariant (\<lambda>c. verify_reading fd k c reading) active m j"

definition fail_reason :: "string \<Rightarrow> Journal \<Rightarrow> Journal" where
  "fail_reason reason j = post (not_checked_record [] [] reason []) j"

definition fail_criterion :: "digits \<Rightarrow> Criterion \<Rightarrow> string \<Rightarrow> Journal \<Rightarrow> Journal" where
  "fail_criterion fd c reason j =
     post (not_checked_record (crit_group c) (crit_id c) reason (describeCriterion fd (predicate c))) j"

definition fail_multi :: "digits \<Rightarrow> nat \<Rightarrow> MultiCriterion \<Rightarrow> string \<Rightarrow> Journal \<Rightarrow> Journal" where
  "fail_multi fd active m reason j =
     (case select_variant (\<lambda>c j. (False, fail_criterion fd c reason j)) active 0 (variants m) j of
        (None, j') \<Rightarrow> post (not_checked_record (multi_group m) (multi_id m) reason []) j'
      | (Some _, j') \<Rightarrow> j')"

section \<open>A test and its checks\<close>

text \<open>One call of Verify or Fail in a script, and what it tells the script.\<close>

datatype check_call =
    CheckValue Criterion checked
  | CheckReading QuantityKind Criterion "double option"
  | CheckMulti MultiCriterion checked
  | CheckMultiReading QuantityKind MultiCriterion "double option"
  | FailReason string
  | FailCriterion Criterion string
  | FailMulti MultiCriterion string

fun run_check :: "digits \<Rightarrow> nat \<Rightarrow> check_call \<Rightarrow> Journal \<Rightarrow> bool \<times> Journal" where
  "run_check fd active (CheckValue c v) j = verify_value fd c v j"
| "run_check fd active (CheckReading k c r) j = verify_reading fd k c r j"
| "run_check fd active (CheckMulti m v) j = verify_multi fd active m v j"
| "run_check fd active (CheckMultiReading k m r) j = verify_multi_reading fd active k m r j"
| "run_check fd active (FailReason reason) j = (False, fail_reason reason j)"
| "run_check fd active (FailCriterion c reason) j = (False, fail_criterion fd c reason j)"
| "run_check fd active (FailMulti m reason) j = (False, fail_multi fd active m reason j)"

fun run_checks :: "digits \<Rightarrow> nat \<Rightarrow> check_call list \<Rightarrow> Journal \<Rightarrow> bool list \<times> Journal" where
  "run_checks fd active [] j = ([], j)"
| "run_checks fd active (c # cs) j =
     (case run_check fd active c j of
        (passed, j1) \<Rightarrow> (case run_checks fd active cs j1 of (rs, j2) \<Rightarrow> (passed # rs, j2)))"

text \<open>The merged tables give every criterion as many variants as there are names to select.\<close>

fun merged :: "nat \<Rightarrow> check_call \<Rightarrow> bool" where
  "merged active (CheckMulti m v) \<longleftrightarrow> active < length (variants m)"
| "merged active (CheckMultiReading k m r) \<longleftrightarrow> active < length (variants m)"
| "merged active _ \<longleftrightarrow> True"

lemma select_variant_nth:
  "select_variant f wanted i cs j =
     (if i \<le> wanted \<and> wanted - i < length cs
      then (case f (cs ! (wanted - i)) j of (passed, j') \<Rightarrow> (Some passed, j')) else (None, j))"
proof (induction cs arbitrary: i)
  case (Cons c cs)
  show ?case
  proof (cases "i < wanted")
    case True
    then have "wanted - i = Suc (wanted - Suc i)" by simp
    with True Cons.IH [of "Suc i"] show ?thesis by simp
  qed (use Cons.IH [of "Suc i"] in auto)
qed simp

lemma posts_one:
  assumes "merged active c"
  shows "\<exists>r. Passed r = Some (fst (run_check fd active c j)) \<and> snd (run_check fd active c j) = post r j"
proof -
  have checked: "\<exists>r. Passed r = Some (fst (verify_value fd c v j)) \<and> snd (verify_value fd c v j) = post r j" for c v
    by (intro exI [of _ "result_record (crit_group c) (crit_id c) (description c) (describeValue fd v) (numericOf v)
          (unitOf (type_of v)) (describeCriterion fd (predicate c)) (holds (predicate c) v = Some True)"])
       (simp add: verify_value_def Let_def result_record_def)
  have reading: "\<exists>r. Passed r = Some (fst (verify_reading fd k c v j)) \<and> snd (verify_reading fd k c v j) = post r j" for k c v
  proof (cases v)
    case None
    then show ?thesis
      by (intro exI [of _ "result_record (crit_group c) (crit_id c) (description c) ''<no reading>'' None
          (unitSymbol k) (describeCriterion fd (predicate c)) False"])
         (simp add: verify_reading_def result_record_def)
  next
    case (Some x)
    then show ?thesis using checked by (simp add: verify_reading_def)
  qed
  have failed: "\<exists>r. Passed r = Some False \<and> post (not_checked_record g i d t) j = post r j" for g i d t
    by (intro exI [of _ "not_checked_record g i d t"]) (simp add: not_checked_record_def result_record_def)
  show ?thesis
  proof (cases c)
    case (CheckMulti m v)
    with assms checked [of "variants m ! active" v] show ?thesis
      by (auto simp: verify_multi_def verifySelectedVariant_def select_variant_nth split: prod.split)
  next
    case (CheckMultiReading k m r)
    with assms reading [of k "variants m ! active" r] show ?thesis
      by (auto simp: verify_multi_reading_def verifySelectedVariant_def select_variant_nth split: prod.split)
  next
    case (FailMulti m reason)
    then show ?thesis using failed by (simp add: fail_multi_def select_variant_nth fail_criterion_def)
  qed (use checked reading failed in \<open>simp_all add: fail_reason_def fail_criterion_def\<close>)
qed

lemma run_checks_tally:
  assumes "list_all (merged active) calls" and "mTestOpen j"
  shows "mTestOpen (snd (run_checks fd active calls j))
    \<and> mTestChecks (snd (run_checks fd active calls j)) = mTestChecks j + length calls
    \<and> (mTestFailures (snd (run_checks fd active calls j)) = 0 \<longleftrightarrow>
         mTestFailures j = 0 \<and> list_all id (fst (run_checks fd active calls j)))"
  using assms
proof (induction calls arbitrary: j)
  case (Cons c calls)
  obtain passed j1 where c: "run_check fd active c j = (passed, j1)" by (cases "run_check fd active c j")
  with posts_one [of active c fd j] Cons.prems obtain r where r: "Passed r = Some passed" "j1 = post r j" by auto
  have j1: "mTestOpen j1" "mTestChecks j1 = mTestChecks j + 1"
    "mTestFailures j1 = 0 \<longleftrightarrow> mTestFailures j = 0 \<and> passed"
    using r Cons.prems(2) by auto
  obtain rs j2 where "run_checks fd active calls j1 = (rs, j2)" by (cases "run_checks fd active calls j1")
  with Cons.IH [OF _ j1(1)] Cons.prems(1) c j1 show ?case by auto
qed simp

text \<open>
  C31: A script need not look at what Verify returns: a test passes exactly when it made at least
  one check and every Verify in it returned true, Fail in any form counting as one that did not.
\<close>

theorem test_passes_when_its_checks_do:
  assumes "list_all (merged active) calls"
  shows "fst (endTest (snd (run_checks fd active calls (beginTest t d j)))) \<longleftrightarrow>
    calls \<noteq> [] \<and> list_all id (fst (run_checks fd active calls (beginTest t d j)))"
proof -
  have "mTestOpen (beginTest t d j)" "mTestChecks (beginTest t d j) = 0" "mTestFailures (beginTest t d j) = 0"
    by (simp_all add: beginTest_def)
  with run_checks_tally [OF assms this(1), of fd] show ?thesis
    by (simp add: endTest_verdict)
qed

theorem test_passes_when_its_checks_do_witness:
  "let stress = makeCriterion ''FS'' ''Out'' ''stress'' (NE (Truth True));
       m = makeMultiCriterion ''FS'' ''Out'' [makeCriterion ''FS'' ''Out'' ''production'' (EQ (Truth True)), stress];
       calls = [CheckMulti m (Truth True), FailReason ''not settled''];
       j = beginTest ''T'' [] (fresh_journal [] blank_info (\<lambda>_. 0))
   in \<not> fst (endTest (snd (run_checks (\<lambda>_ _. []) 0 calls j)))
    \<and> fst (endTest (snd (run_checks (\<lambda>_ _. []) 0 [CheckMulti m (Truth True)] j)))"
  unfolding Let_def
  by (subst (1 2) test_passes_when_its_checks_do)
     (simp_all add: makeMultiCriterion_def verify_multi_def verifySelectedVariant_def verify_value_def Let_def
        makeCriterion_def EQ_def eq_holds_def split: prod.split)

section \<open>A reading pasted from the log\<close>

lemma letter_cases: "(scale, letter) \<in> set kPrefixLetters \<Longrightarrow> letter \<in> {''p'', ''n'', ''u'', ''m'', [], ''k'', ''M'', ''G''}"
  by (auto simp: kPrefixLetters_def)

lemma prefixNumber_letter:
  "prefixNumber fd v limits = (mantissa, letter) \<Longrightarrow> letter \<in> {''p'', ''n'', ''u'', ''m'', [], ''k'', ''M'', ''G''}"
proof -
  assume "prefixNumber fd v limits = (mantissa, letter)"
  then have "letter = [] \<or> (\<exists>scale. prefixLetter scale = Some letter)"
    by (auto simp: prefixNumber_def Let_def split: double.splits if_splits option.splits)
  then show ?thesis using letter_cases by (auto simp: prefixLetter_def dest!: map_of_SomeD)
qed

text \<open>
  What the log shows of a reading is not always a stimulus for it: a reading of a unit the log
  scales (5000 V is shown as 5 kV) is refused when it is pasted, its unit not being a symbol.
\<close>

theorem scaled_reading_is_refused:
  assumes "Prefixes (kind q) = Some limits" and "prefixNumber fd (rawValue q) limits = (mantissa, letter)"
    and "letter \<noteq> []" and "\<not> list_ex blank mantissa"
  shows "parseQuantity (describe_quantity fd q) = Inl (not_a_symbol (letter @ unitSymbol (kind q)))"
proof -
  let ?symbol = "letter @ unitSymbol (kind q)"
  have letter: "letter \<in> {''p'', ''n'', ''u'', ''m'', ''k'', ''M'', ''G''}"
    using prefixNumber_letter [OF assms(2)] assms(3) by auto
  have spelled: "describe_quantity fd q = mantissa @ '' '' @ ?symbol"
    using assms(1,2) by (simp add: describe_quantity_def Let_def)
  have "takeWhile (\<lambda>c. \<not> blank c) (describe_quantity fd q) = mantissa"
    and rest: "dropWhile (\<lambda>c. \<not> blank c) (describe_quantity fd q) = '' '' @ ?symbol"
    using assms(4) unfolding spelled by (auto simp: blank_def list_ex_iff takeWhile_append dropWhile_append)
  have "trimmed ('' '' @ ?symbol) = ?symbol"
    unfolding trimmed_def
    by (rule trim_with_pad [where after = "[]", simplified])
       (use letter assms(1) in \<open>cases "kind q"; auto simp: isSpace_def\<close>)+
  moreover have "quantityKindFromSymbol ?symbol = None"
    using letter assms(1) by (cases "kind q") (auto simp: quantityKindFromSymbol_def kinds_def)
  ultimately show ?thesis using rest by (simp add: parseQuantity_def Let_def)
qed

lemma five_kilovolts:
  "prefixNumber (\<lambda>_ _. ''5'') (Fin 5000) \<lparr>Smallest = - 6, Largest = 3\<rparr> = (''5'', ''k'')"
proof -
  have "floorlog 10 5000 = 4" "floorlog 10 1 = 1"
    using floorlog_power [of 5 10 3] floorlog_power [of 1 10 0] by (simp_all add: compute_floorlog)
  then have scale: "ilog10 5000 = 3" by (simp add: ilog10_def Let_def)
  have "representable 1000"
    by (rule representableI [where i = "1000 * 2 ^ 43" and e = 9]) (simp_all add: power_int_def power_divide)
  moreover have "representable 5"
    by (rule representableI [where i = "5 * 2 ^ 50" and e = 2]) (simp_all add: power_int_def power_divide)
  ultimately have "scaled 5000 3 = Fin 5"
    by (simp add: scaled_def representable_def)
  with scale show ?thesis
    by (simp add: prefixNumber_def clamp_def kPrefixedDigits_def prefixLetter_def kPrefixLetters_def
        kMantissaFloor_def kMantissaCeiling_def)
qed

theorem scaled_reading_is_refused_witness:
  "parseQuantity (describe_quantity (\<lambda>_ _. ''5'') (Quantity Voltage (Fin 5000))) = Inl (not_a_symbol (''k'' @ ''V''))"
  using scaled_reading_is_refused [of "Quantity Voltage (Fin 5000)" "\<lparr>Smallest = - 6, Largest = 3\<rparr>" "\<lambda>_ _. ''5''" "''5''" "''k''"]
    five_kilovolts by (simp add: blank_def)

end
