(* ===== verification/AddressPlan.thy ===== *)
theory AddressPlan
  imports SwitchUnit
begin

text \<open>
  Where the address of a box comes from when the rig's table is not the last word:
  hal/topology/address_plan.{hpp,cpp} and address_tables.{hpp,cpp}. The spellings of --address, the
  environment, and the pool and site tables of a deployment. The rows of the rig are an argument,
  an instrument is the index of its row, and the environment is a function that may have no value
  for a name. An address that is refused is an error value.
\<close>

datatype AddressSource = Table | Site | Pool | Override

fun to_string_source :: "AddressSource \<Rightarrow> string" where
  "to_string_source Table = ''table''"
| "to_string_source Site = ''site''"
| "to_string_source Pool = ''pool''"
| "to_string_source Override = ''--address''"

datatype address_error = AddressSyntaxError string | AddressKindMismatch string

text \<open>What a run was told about addresses.\<close>

record AddressPlan =
  Overrides :: "(string \<times> address) list"
  SimulatedFaces :: "nat list"
  PlanSite :: string

section \<open>Reading an address\<close>

definition wholeNumber :: "string \<Rightarrow> int option" where
  "wholeNumber text =
     (if text = [] then None
      else (case from_chars_int text of
              None \<Rightarrow> None
            | Some v \<Rightarrow> if v < 0 then None else Some v))"

definition not_a_port :: "string \<Rightarrow> string" where
  "not_a_port p =
     ''\"'' @ p @ ''\" is not a port number -- a lan address is written \"lan:<host>\" or \"lan:<host>:<port>\"''"

definition parseLan :: "string \<Rightarrow> address_error + address" where
  "parseLan value =
     (if value = [] then Inl (AddressSyntaxError ''a lan address needs a hostname'')
      else if hd value = CHR ''[''
      then Inl (AddressSyntaxError (''bracketed IPv6 addresses are not supported here -- write ''
             @ ''\"lan:<address>\" for the default port, and put a non-default port in the rig''
             @ [CHR 0x27] @ ''s own table''))
      else (case split_first (CHR '':'') value of
              None \<Rightarrow> Inr (Lan (lan_of_host value))
            | Some (name, rest) \<Rightarrow>
                if CHR '':'' \<in> set rest then Inr (Lan (lan_of_host value))
                else (case wholeNumber rest of
                        None \<Rightarrow> Inl (AddressSyntaxError (not_a_port rest))
                      | Some p \<Rightarrow> Inr (Lan \<lparr>host = name, port = p\<rparr>))))"

definition parseGpib :: "string \<Rightarrow> address_error + address" where
  "parseGpib value =
     (let fields = split_on (CHR '','') value
      in if length fields < 2 \<or> 3 < length fields
         then Inl (AddressSyntaxError (''a gpib address is written \"gpib:<board>,<primary>\" or''
                @ '' \"gpib:<board>,<primary>,<secondary>\"''))
         else (case (wholeNumber (fields ! 0), wholeNumber (fields ! 1)) of
                 (Some b, Some p) \<Rightarrow>
                   if length fields = 3
                   then (case wholeNumber (fields ! 2) of
                           None \<Rightarrow> Inl (AddressSyntaxError ''a gpib secondary address must be a whole number'')
                         | Some s \<Rightarrow> Inr (Gpib \<lparr>board = b, primary = p, secondary = Some s\<rparr>))
                   else Inr (Gpib \<lparr>board = b, primary = p, secondary = None\<rparr>)
               | _ \<Rightarrow> Inl (AddressSyntaxError ''a gpib board and primary address must both be whole numbers'')))"

definition parseAddress :: "string \<Rightarrow> address_error + address" where
  "parseAddress text =
     (if text = ''sim'' \<or> text = ''simulated'' then Inr Simulated
      else (case split_first (CHR '':'') text of
              None \<Rightarrow> Inl (AddressSyntaxError (''an address is written \"<kind>:<value>\" -- lan, usb, gpib,''
                        @ '' serial, or a bare \"sim\"''))
            | Some (bus, rest) \<Rightarrow>
                if bus = ''lan'' then parseLan rest
                else if bus = ''usb'' then Inr (Usb rest)
                else if bus = ''serial'' then Inr (Serial rest)
                else if bus = ''gpib'' then parseGpib rest
                else Inl (AddressSyntaxError (''\"'' @ bus @ ''\" is not a bus kind -- lan, usb, gpib, serial,''
                       @ '' or a bare \"sim\"''))))"

section \<open>--address\<close>

text \<open>core::meta::fromString over the enumerators, which are the names of the rows in order.\<close>

definition instrument_named :: "BoxRow list \<Rightarrow> string \<Rightarrow> nat option" where
  "instrument_named rows name = index_of name (map Row rows)"

definition parseFaceSimulation :: "BoxRow list \<Rightarrow> string \<Rightarrow> nat option" where
  "parseFaceSimulation rows text =
     (case split_first (CHR ''='') text of
        None \<Rightarrow> None
      | Some (name, spelled) \<Rightarrow>
          if name \<in> set (instrumentBoxNames rows) then None
          else (case instrument_named rows name of
                  None \<Rightarrow> None
                | Some i \<Rightarrow> if parseAddress spelled = Inr Simulated then Some i else None))"

text \<open>The list of names in a diagnostic: a comma before every name once there is some text.\<close>

fun comma_listed :: "string \<Rightarrow> string list \<Rightarrow> string" where
  "comma_listed known [] = known"
| "comma_listed known (c # cs) = comma_listed (known @ (if known = [] then [] else '', '') @ c) cs"

definition is_an_instrument :: "BoxRow list \<Rightarrow> string \<Rightarrow> nat \<Rightarrow> string \<Rightarrow> string" where
  "is_an_instrument rows name i spelled =
     ''\"'' @ name @ ''\" is an instrument, and an address belongs to the box it is a face of -- write \"''
       @ boxOf rows i @ ''='' @ spelled @ ''\", which moves every face of that box together. (\"'' @ name
       @ ''=sim\" leaves just this face out of the run.)''"

definition not_a_box :: "BoxRow list \<Rightarrow> string \<Rightarrow> string" where
  "not_a_box rows name =
     ''\"'' @ name @ ''\" is not a box on this rig -- it has '' @ comma_listed [] (instrumentBoxNames rows)"

definition no_equals :: "string \<Rightarrow> string" where
  "no_equals text =
     ''an address override is written \"<box>=<kind>:<value>\", for example \"Psu1=usb:CN65100272\" -- \"''
       @ text @ ''\" has no '' @ sq ''=''"

definition parseOverride :: "BoxRow list \<Rightarrow> string \<Rightarrow> address_error + string \<times> address" where
  "parseOverride rows text =
     (case split_first (CHR ''='') text of
        None \<Rightarrow> Inl (AddressSyntaxError (no_equals text))
      | Some (name, spelled) \<Rightarrow>
          if name \<notin> set (instrumentBoxNames rows)
          then (case instrument_named rows name of
                  Some i \<Rightarrow> Inl (AddressSyntaxError (is_an_instrument rows name i spelled))
                | None \<Rightarrow> Inl (AddressSyntaxError (not_a_box rows name)))
          else map_sum id (\<lambda>a. (name, a)) (parseAddress spelled))"

section \<open>The environment\<close>

type_synonym environment = "string \<Rightarrow> string option"

definition address_variable :: "string \<Rightarrow> string" where
  "address_variable name = ''THORIUM_ADDRESS_'' @ name"

definition renamed_variable :: "BoxRow list \<Rightarrow> nat \<Rightarrow> string" where
  "renamed_variable rows i =
     address_variable (Row (rows ! i)) @ '' names an instrument, and an address now belongs to the box it is''
       @ '' a face of -- rename it THORIUM_ADDRESS_'' @ boxOf rows i
       @ '', which moves every face of that box together''"

fun check_renamed :: "BoxRow list \<Rightarrow> environment \<Rightarrow> nat list \<Rightarrow> address_error option" where
  "check_renamed rows env [] = None"
| "check_renamed rows env (i # ids) =
     (if Row (rows ! i) \<notin> set (instrumentBoxNames rows) \<and> env (address_variable (Row (rows ! i))) \<noteq> None
      then Some (AddressSyntaxError (renamed_variable rows i))
      else check_renamed rows env ids)"

fun overrides_of :: "environment \<Rightarrow> string list \<Rightarrow> (string \<times> address) list
      \<Rightarrow> address_error + (string \<times> address) list" where
  "overrides_of env [] overrides = Inr overrides"
| "overrides_of env (box # boxes) overrides =
     (case env (address_variable box) of
        None \<Rightarrow> overrides_of env boxes overrides
      | Some spelled \<Rightarrow>
          (case parseAddress spelled of
             Inl e \<Rightarrow> Inl e
           | Inr a \<Rightarrow> overrides_of env boxes (overrides @ [(box, a)])))"

definition environmentOverrides :: "BoxRow list \<Rightarrow> environment \<Rightarrow> address_error + (string \<times> address) list" where
  "environmentOverrides rows env =
     (case check_renamed rows env [0..<length rows] of
        Some e \<Rightarrow> Inl e
      | None \<Rightarrow> overrides_of env (instrumentBoxNames rows) [])"

definition environmentSite :: "environment \<Rightarrow> string" where
  "environmentSite env = (case env ''THORIUM_SITE'' of Some site \<Rightarrow> site | None \<Rightarrow> [])"

section \<open>Pools and sites\<close>

record PoolEntry =
  PoolBox :: string
  PoolValue :: address

record SiteEntry =
  SiteName :: string
  SiteBox :: string
  SiteValue :: address

fun poolIn :: "PoolEntry list \<Rightarrow> string \<Rightarrow> address list" where
  "poolIn [] box = []"
| "poolIn (e # es) box = (if PoolBox e = box then PoolValue e # poolIn es box else poolIn es box)"

fun siteAddressIn :: "SiteEntry list \<Rightarrow> string \<Rightarrow> string \<Rightarrow> address option" where
  "siteAddressIn [] site box = None"
| "siteAddressIn (e # es) site box =
     (if SiteName e = site \<and> SiteBox e = box then Some (SiteValue e) else siteAddressIn es site box)"

definition siteNamesIn :: "SiteEntry list \<Rightarrow> string list" where
  "siteNamesIn entries = push_new [] (map SiteName entries)"

definition instrumentsOf :: "BoxRow list \<Rightarrow> PoolEntry list \<Rightarrow> nat list" where
  "instrumentsOf rows entries = push_new [] (concat (map (\<lambda>e. instrumentsIn rows (PoolBox e)) entries))"

definition hasPool :: "BoxRow list \<Rightarrow> PoolEntry list \<Rightarrow> nat \<Rightarrow> bool" where
  "hasPool rows entries i \<longleftrightarrow> i \<in> set (instrumentsOf rows entries)"

fun unknownBoxIn :: "BoxRow list \<Rightarrow> PoolEntry list \<Rightarrow> string" where
  "unknownBoxIn rows [] = []"
| "unknownBoxIn rows (e # es) =
     (if \<not> hasInstrumentsIn rows (PoolBox e)
      then ''POOL( '' @ PoolBox e @ '', ...) names a box no INSTRUMENT row in instrument.inc has. A pool names''
             @ '' the box -- the first column of the rows it serves.''
      else unknownBoxIn rows es)"

text \<open>The tables a deployment has beside its rig: its pools and its sites.\<close>

record address_tables =
  poolEntries :: "PoolEntry list"
  siteEntries :: "SiteEntry list"

definition poolFor :: "address_tables \<Rightarrow> string \<Rightarrow> address list" where
  "poolFor tables box = poolIn (poolEntries tables) box"

definition siteAddressFor :: "address_tables \<Rightarrow> string \<Rightarrow> string \<Rightarrow> address option" where
  "siteAddressFor tables site box = siteAddressIn (siteEntries tables) site box"

definition siteNames :: "address_tables \<Rightarrow> string list" where
  "siteNames tables = siteNamesIn (siteEntries tables)"

text \<open>The shelf of the dev/ rig: dev/rig/pools.inc; it has no sites.\<close>

definition dev_pools :: address_tables where
  "dev_pools = \<lparr>poolEntries =
      [\<lparr>PoolBox = ''DeskDmm'', PoolValue = Usb ''CN65510018''\<rparr>,
       \<lparr>PoolBox = ''Scope1'', PoolValue = Usb ''CN64504143''\<rparr>,
       \<lparr>PoolBox = ''Scope1'', PoolValue = Usb ''CN65374116''\<rparr>],
     siteEntries = []\<rparr>"

section \<open>Reading back what is written\<close>

text \<open>The operator's spelling of an address, with the port of a LAN address written out.\<close>

fun spelled :: "address \<Rightarrow> string" where
  "spelled (Lan l) = ''lan:'' @ host l @ '':'' @ show_int (port l)"
| "spelled (Gpib g) = ''gpib:'' @ show_int (board g) @ '','' @ show_int (primary g)
     @ (case secondary g of None \<Rightarrow> [] | Some s \<Rightarrow> '','' @ show_int s)"
| "spelled (Usb s) = ''usb:'' @ s"
| "spelled (Serial d) = ''serial:'' @ d"
| "spelled Simulated = ''sim''"

definition whole :: "int \<Rightarrow> bool" where
  "whole i \<longleftrightarrow> 0 \<le> i \<and> i \<le> 2147483647"

fun writable :: "address \<Rightarrow> bool" where
  "writable (Lan l) \<longleftrightarrow> host l \<noteq> [] \<and> hd (host l) \<noteq> CHR ''['' \<and> CHR '':'' \<notin> set (host l) \<and> whole (port l)"
| "writable (Gpib g) \<longleftrightarrow> whole (board g) \<and> whole (primary g) \<and> (\<forall>s. secondary g = Some s \<longrightarrow> whole s)"
| "writable _ \<longleftrightarrow> True"

lemma wholeNumber_show [simp]: "whole i \<Longrightarrow> wholeNumber (show_int i) = Some i"
proof -
  assume "whole i"
  then have "from_chars_int (show_int i) = Some i" "0 \<le> i" by (simp_all add: whole_def)
  moreover have "show_int i \<noteq> []" by (simp add: show_int_def)
  ultimately show ?thesis by (simp add: wholeNumber_def)
qed

lemma wholeNumber_whole: "wholeNumber s = Some i \<Longrightarrow> whole i"
  by (auto simp: wholeNumber_def whole_def split: if_splits option.splits dest: from_chars_int_range)

lemma separators_notin_show [simp]: "CHR '','' \<notin> set (show_int i)" "CHR '':'' \<notin> set (show_int i)"
  by (simp_all add: notin_show_int)

lemma parseLan_port:
  assumes "CHR '':'' \<notin> set name" and "name = [] \<or> hd name \<noteq> CHR ''[''" and "whole p"
  shows "parseLan (name @ CHR '':'' # show_int p) = Inr (Lan \<lparr>host = name, port = p\<rparr>)"
proof -
  have "hd (name @ CHR '':'' # show_int p) \<noteq> CHR ''[''" using assms(2) by (cases name) auto
  with assms(1,3) show ?thesis by (simp add: parseLan_def)
qed

lemma parseGpib_spelled:
  assumes "writable (Gpib g)"
  shows "parseGpib (show_int (board g) @ CHR '','' # show_int (primary g)
     @ (case secondary g of None \<Rightarrow> [] | Some s \<Rightarrow> CHR '','' # show_int s)) = Inr (Gpib g)"
proof (cases "secondary g")
  case None
  with assms show ?thesis
    by (cases g) (simp add: parseGpib_def split_on_append split_on_plain)
next
  case (Some s)
  have "split_on (CHR '','') (show_int (board g) @ CHR '','' # show_int (primary g) @ CHR '','' # show_int s)
     = [show_int (board g), show_int (primary g), show_int s]"
    by (simp add: split_on_append split_on_plain)
  with Some assms show ?thesis
    by (cases g) (simp add: parseGpib_def numeral_2_eq_2 numeral_3_eq_3)
qed

lemma parseAddress_spelled: "writable a \<Longrightarrow> parseAddress (spelled a) = Inr a"
proof (cases a)
  case (Gpib g)
  assume "writable a"
  with Gpib parseGpib_spelled [of g] show ?thesis by (cases "secondary g") (simp_all add: parseAddress_def)
next
  case (Lan l)
  assume "writable a"
  with Lan parseLan_port [of "host l" "port l"] show ?thesis by (simp add: parseAddress_def)
qed (simp_all add: parseAddress_def)

text \<open>
  An address of any bus kind, written after the box and an equals sign the way the operator
  writes it, is read back as that box and that address.
\<close>

theorem override_roundtrip:
  assumes "box \<in> set (instrumentBoxNames rows)" and "CHR ''='' \<notin> set box" and "writable a"
  shows "parseOverride rows (box @ ''='' @ spelled a) = Inr (box, a)"
  using assms parseAddress_spelled [OF assms(3)] by (simp add: parseOverride_def)

theorem override_roundtrip_witness:
  "parseOverride [\<lparr>RowBox = ''Psu1'', Row = ''DcP5'', RowAddress = Simulated, Device = False\<rparr>]
     (''Psu1'' @ ''='' @ spelled (Gpib \<lparr>board = 0, primary = 5, secondary = Some 3\<rparr>))
   = Inr (''Psu1'', Gpib \<lparr>board = 0, primary = 5, secondary = Some 3\<rparr>)"
  by (rule override_roundtrip) (simp_all add: instrumentBoxNames_def whole_def)

text \<open>Numbers of an address that is read are whole numbers of an int, whatever the text.\<close>

lemma parsed_numbers_whole:
  assumes "parseAddress text = Inr a"
  shows "case a of Lan l \<Rightarrow> whole (port l) | Gpib g \<Rightarrow> writable (Gpib g) | _ \<Rightarrow> True"
proof -
  have lan: "parseLan v = Inr a \<Longrightarrow> \<exists>l. a = Lan l \<and> whole (port l)" for v
    by (auto simp: parseLan_def lan_of_host_def whole_def [of 5025] split: if_splits option.splits dest!: wholeNumber_whole)
  have gpib: "parseGpib v = Inr a \<Longrightarrow> \<exists>g. a = Gpib g \<and> writable (Gpib g)" for v
    by (auto simp: parseGpib_def Let_def split: if_splits option.splits dest!: wholeNumber_whole)
  show ?thesis
    using assms by (auto simp: parseAddress_def split: if_splits option.splits dest!: lan gpib)
qed

text \<open>An IPv6 literal is a host on the default port, never a host and a port.\<close>

lemma ipv6_is_a_host:
  assumes "2 \<le> count_list h (CHR '':'')" and "hd h \<noteq> CHR ''[''"
  shows "parseAddress (''lan:'' @ h) = Inr (Lan (lan_of_host h))"
proof (cases "split_first (CHR '':'') h")
  case None
  with assms(1) show ?thesis by (simp add: split_first_None count_list_0_iff)
next
  case (Some r)
  then obtain a b where h: "h = a @ CHR '':'' # b" "CHR '':'' \<notin> set a"
    by (cases r) (auto simp: split_first_Some)
  with assms(1) have "CHR '':'' \<in> set b" using count_list_0_iff [of a "CHR '':''"] count_list_0_iff [of b "CHR '':''"] by simp
  with h assms(2) show ?thesis by (simp add: parseAddress_def parseLan_def)
qed

text \<open>
  The hostname of a LAN address is required by its diagnostic only: a port with nothing
  before its colon is taken, and gives an address whose host is the empty text.
\<close>

theorem lan_without_host_accepted:
  assumes "box \<in> set (instrumentBoxNames rows)" and "CHR ''='' \<notin> set box" and "whole p"
  shows "parseOverride rows (box @ ''=lan::'' @ show_int p) = Inr (box, Lan \<lparr>host = [], port = p\<rparr>)
    \<and> parseOverride rows (box @ ''=lan:'') = Inl (AddressSyntaxError ''a lan address needs a hostname'')"
  using assms parseLan_port [of "[]" p] by (simp add: parseOverride_def parseAddress_def) (simp add: parseLan_def)

theorem lan_without_host_accepted_witness:
  "let rows = [\<lparr>RowBox = ''Dmm'', Row = ''Dmm1'', RowAddress = Simulated, Device = False\<rparr>]
   in parseOverride rows (''Dmm'' @ ''=lan::'' @ show_int 5025) = Inr (''Dmm'', Lan \<lparr>host = [], port = 5025\<rparr>)
    \<and> parseOverride rows (''Dmm'' @ ''=lan:'') = Inl (AddressSyntaxError ''a lan address needs a hostname'')"
  unfolding Let_def
  by (rule lan_without_host_accepted) (simp_all add: instrumentBoxNames_def whole_def)

section \<open>Faces, boxes, and the environment\<close>

text \<open>What simulates a face is nothing an override would take.\<close>

lemma face_is_not_an_override:
  "parseFaceSimulation rows text = Some i \<Longrightarrow> \<exists>e. parseOverride rows text = Inl e"
  by (auto simp: parseFaceSimulation_def parseOverride_def split: option.splits prod.splits if_splits)

lemma overrides_of_exact:
  "overrides_of env boxes os = Inr result \<Longrightarrow>
     \<exists>new. result = os @ new \<and> map fst new = filter (\<lambda>b. env (address_variable b) \<noteq> None) boxes
       \<and> list_all (\<lambda>(b, a). \<exists>s. env (address_variable b) = Some s \<and> parseAddress s = Inr a) new"
proof (induction boxes arbitrary: os)
  case (Cons b boxes)
  show ?case
  proof (cases "env (address_variable b)")
    case None
    with Cons show ?thesis by simp
  next
    case (Some s)
    with Cons.prems obtain a where a: "parseAddress s = Inr a" "overrides_of env boxes (os @ [(b, a)]) = Inr result"
      by (auto split: sum.splits)
    from Cons.IH [OF a(2)] obtain new where "result = (os @ [(b, a)]) @ new"
      "map fst new = filter (\<lambda>b. env (address_variable b) \<noteq> None) boxes"
      "list_all (\<lambda>(b, a). \<exists>s. env (address_variable b) = Some s \<and> parseAddress s = Inr a) new" by auto
    with Some a(1) show ?thesis by (intro exI [of _ "(b, a) # new"]) simp
  qed
qed simp

lemma environment_overrides_exact:
  assumes "environmentOverrides rows env = Inr os"
  shows "map fst os = filter (\<lambda>b. env (address_variable b) \<noteq> None) (instrumentBoxNames rows)"
    and "(b, a) \<in> set os \<Longrightarrow> \<exists>s. env (address_variable b) = Some s \<and> parseAddress s = Inr a"
  using assms overrides_of_exact [of env "instrumentBoxNames rows" "[]" os]
  by (auto simp: environmentOverrides_def list_all_iff split: option.splits)

end
