(* ===== verification/Preflight.thy ===== *)
theory Preflight
  imports AddressPlan RigSwitching
begin

text \<open>
  Preflight: hal/src/verbs/preflight.cpp. bindAddresses decides the address of every instrument of
  the rig before anything is opened; contactInstruments asks every instrument that can be reached
  who it is, takes pooled boxes off their shelf, and checks the cards of the chassis.

  The instruments the reflection over the rig finds are a list, in its order; the hardware is a
  state, and what a driver's identity() and cardModel() do to it is a parameter. An exception is an
  error value; a function that changed something before it threw returns the change as well.
\<close>

section \<open>The rig as preflight sees it\<close>

record BackPanelInfo =
  Accepts :: "(address \<Rightarrow> bool) option"
  Kinds :: string

definition panel_allows :: "BackPanelInfo \<Rightarrow> address \<Rightarrow> bool" where
  "panel_allows panel a = (case Accepts panel of None \<Rightarrow> False | Some acc \<Rightarrow> acc a)"

text \<open>A panel of a driver: its connectors, Simulated being accepted by every panel.\<close>

definition BackPanel :: "string list \<Rightarrow> BackPanelInfo" where
  "BackPanel supported =
     \<lparr>Accepts = Some (\<lambda>a. a = Simulated \<or> kindOf_address a \<in> set supported), Kinds = comma_listed [] supported\<rparr>"

record ('h, 'e) ContactableInstrument =
  askIdentity :: "'h \<Rightarrow> ('e + string) \<times> 'h"
  closeSession :: "'h \<Rightarrow> 'h"

record ('h, 'e) PreflightInstrument =
  InstrumentId :: nat
  DisplayName :: string
  Buses :: BackPanelInfo
  currentAddress :: "'h \<Rightarrow> address"
  useAddress :: "address \<Rightarrow> 'h \<Rightarrow> 'h"
  Contactable :: "('h, 'e) ContactableInstrument option"
  cardModel :: "(int \<Rightarrow> 'h \<Rightarrow> ('e + string) \<times> 'h) option"

record ('h, 'e) PreflightRig =
  instruments :: "('h, 'e) PreflightInstrument list"
  rig_rows :: "BoxRow list"
  rig_devices :: device_table
  rig_tables :: address_tables
  isTransportError :: "'e \<Rightarrow> bool"

record Binding =
  BindingId :: nat
  BindingBox :: string
  BindingType :: string
  BindingValue :: address
  BindingSource :: AddressSource
  BindingPanel :: BackPanelInfo
  BindingSite :: string
  CanContact :: bool
  Identity :: string
  PoolPosition :: "(nat \<times> nat) option"

section \<open>The name of a driver's type\<close>

definition starts_with :: "string \<Rightarrow> string \<Rightarrow> bool" where
  "starts_with what s \<longleftrightarrow> take (length what) s = what"

function erase_from :: "string \<Rightarrow> string \<Rightarrow> string" where
  "erase_from what s =
     (if what = [] \<or> s = [] then s
      else if starts_with what s then erase_from what (drop (length what) s)
      else hd s # erase_from what (tl s))"
  by pat_completeness auto
termination by (relation "measure (\<lambda>(what, s). length s)") auto

declare erase_from.simps [simp del]

definition eraseEvery :: "string \<Rightarrow> string \<Rightarrow> nat \<Rightarrow> string" where
  "eraseEvery s what from = (if what = [] then s else take from s @ erase_from what (drop from s))"

text \<open>rfind: the last place at or before a position; the position is the end when there is no '<'.\<close>

definition find_char :: "char \<Rightarrow> string \<Rightarrow> nat" where
  "find_char c s = length (takeWhile (\<lambda>x. x \<noteq> c) s)"

definition rfind :: "string \<Rightarrow> nat \<Rightarrow> string \<Rightarrow> nat option" where
  "rfind what pos s =
     (case filter (\<lambda>i. starts_with what (drop i s)) (rev [0..<Suc (min pos (length s))]) of
        [] \<Rightarrow> None | i # _ \<Rightarrow> Some i)"

definition typeNameOf :: "string \<Rightarrow> string" where
  "typeNameOf display =
     (let name = eraseEvery display ''hal::'' 0
      in case rfind ''::'' (find_char (CHR ''<'') name) name of
           None \<Rightarrow> name
         | Some qualifier \<Rightarrow> (let package = take (qualifier + 2) name in eraseEvery name package (length package)))"

section \<open>Pass one: the address of every row\<close>

definition requireAccepted :: "BoxRow list \<Rightarrow> Binding \<Rightarrow> address \<Rightarrow> string \<Rightarrow> address_error option" where
  "requireAccepted rows b resolved origin =
     (if panel_allows (BindingPanel b) resolved then None
      else Some (AddressKindMismatch (Row (rows ! BindingId b) @ '' is a '' @ BindingType b @ '' and '' @ origin
        @ '' gives it a '' @ kindOf_address resolved @ '' address. That instrument'' @ [CHR 0x27]
        @ ''s back panel has: '' @ Kinds (BindingPanel b)
        @ ''. The same list is what the compiler checks the rig'' @ [CHR 0x27] @ ''s instrument table against''
        @ '' (see hal::BackPanel), so this is not a restriction the command line adds --''
        @ '' it is the one the table is already held to, applied to an address that''
        @ '' arrived too late for the compiler to see it.'')))"

fun override_for :: "(string \<times> address) list \<Rightarrow> string \<Rightarrow> address option" where
  "override_for [] box = None"
| "override_for ((b, a) # rest) box = (if b = box then Some a else override_for rest box)"

fun require_all :: "BoxRow list \<Rightarrow> Binding \<Rightarrow> address list \<Rightarrow> address_error option" where
  "require_all rows b [] = None"
| "require_all rows b (a # candidates) =
     (case requireAccepted rows b a ''the pool table'' of
        Some e \<Rightarrow> Some e | None \<Rightarrow> require_all rows b candidates)"

definition resolve :: "BoxRow list \<Rightarrow> address_tables \<Rightarrow> AddressPlan \<Rightarrow> Binding \<Rightarrow> address_error + Binding" where
  "resolve rows tables plan b =
     (if BindingId b \<in> set (SimulatedFaces plan)
      then Inr (b\<lparr>BindingValue := Simulated, BindingSource := Override\<rparr>)
      else
        (case override_for (Overrides plan) (BindingBox b) of
           Some a \<Rightarrow>
             (case requireAccepted rows b a ''--address'' of
                Some e \<Rightarrow> Inl e
              | None \<Rightarrow> Inr (b\<lparr>BindingValue := a, BindingSource := Override\<rparr>))
         | None \<Rightarrow>
             (case (if PlanSite plan = [] then None else siteAddressFor tables (PlanSite plan) (BindingBox b)) of
                Some a \<Rightarrow>
                  (case requireAccepted rows b a (''the site table'' @ [CHR 0x27] @ ''s '' @ PlanSite plan @ '' row'') of
                     Some e \<Rightarrow> Inl e
                   | None \<Rightarrow> Inr (b\<lparr>BindingValue := a, BindingSource := Site\<rparr>))
              | None \<Rightarrow>
                  (let candidates = poolFor tables (BindingBox b)
                   in if candidates = [] then Inr b
                      else (case require_all rows b candidates of
                              Some e \<Rightarrow> Inl e
                            | None \<Rightarrow> Inr (b\<lparr>BindingSource := Pool\<rparr>))))))"

definition table_binding :: "BoxRow list \<Rightarrow> ('h, 'e) PreflightInstrument \<Rightarrow> 'h \<Rightarrow> Binding" where
  "table_binding rows m h =
     \<lparr>BindingId = InstrumentId m, BindingBox = boxOf rows (InstrumentId m), BindingType = typeNameOf (DisplayName m),
      BindingValue = currentAddress m h, BindingSource = Table, BindingPanel = Buses m, BindingSite = [],
      CanContact = (Contactable m \<noteq> None), Identity = [], PoolPosition = None\<rparr>"

fun bind_from :: "BoxRow list \<Rightarrow> address_tables \<Rightarrow> AddressPlan \<Rightarrow> ('h, 'e) PreflightInstrument list
      \<Rightarrow> Binding list \<Rightarrow> 'h \<Rightarrow> (address_error + Binding list) \<times> 'h" where
  "bind_from rows tables plan [] bindings h = (Inr bindings, h)"
| "bind_from rows tables plan (m # ms) bindings h =
     (case resolve rows tables plan (table_binding rows m h) of
        Inl e \<Rightarrow> (Inl e, h)
      | Inr b0 \<Rightarrow>
          (let b = (if BindingSource b0 = Site then b0\<lparr>BindingSite := PlanSite plan\<rparr> else b0);
               h1 = (if BindingSource b \<noteq> Pool then useAddress m (BindingValue b) h else h)
           in bind_from rows tables plan ms (bindings @ [b]) h1))"

definition undeclared_site :: "address_tables \<Rightarrow> string \<Rightarrow> string" where
  "undeclared_site tables site =
     ''\"'' @ site @ ''\" is not a site this deployment declares''
       @ (let known = comma_listed [] (siteNames tables)
          in if known = []
             then '' -- it declares none at all, so every instrument'' @ [CHR 0x27]
                    @ ''s address comes from its own row in the rig'' @ [CHR 0x27] @ ''s instrument table''
             else '' -- it declares '' @ known)"

definition bindAddresses :: "('h, 'e) PreflightRig \<Rightarrow> AddressPlan \<Rightarrow> 'h \<Rightarrow> (address_error + Binding list) \<times> 'h" where
  "bindAddresses rig plan h =
     (if PlanSite plan \<noteq> [] \<and> PlanSite plan \<notin> set (siteNames (rig_tables rig))
      then (Inl (AddressSyntaxError (undeclared_site (rig_tables rig) (PlanSite plan))), h)
      else bind_from (rig_rows rig) (rig_tables rig) plan (instruments rig) [] h)"

section \<open>The banner\<close>

definition provenanceOf :: "Binding \<Rightarrow> string" where
  "provenanceOf b =
     to_string_source (BindingSource b)
       @ (if BindingSource b = Site \<and> BindingSite b \<noteq> [] then '' '' @ BindingSite b else [])
       @ (case PoolPosition b of None \<Rightarrow> [] | Some (i, n) \<Rightarrow> '' '' @ show_nat i @ '' of '' @ show_nat n)"

definition identityOf :: "Binding \<Rightarrow> string" where
  "identityOf b =
     (if Identity b \<noteq> [] then Identity b
      else if \<not> CanContact b then ''no session -- answers from its own hooks''
      else if BindingValue b = Simulated then ''simulated -- no instrument at this address''
      else ''not contacted -- detached run'')"

definition padded :: "string \<Rightarrow> nat \<Rightarrow> string" where
  "padded s width = s @ replicate (width - min width (length s)) (CHR '' '')"

definition column_width :: "(Binding \<Rightarrow> string) \<Rightarrow> Binding list \<Rightarrow> nat" where
  "column_width column bindings = foldl (\<lambda>w b. max w (length (column b))) 0 bindings"

definition bannerLines :: "BoxRow list \<Rightarrow> Binding list \<Rightarrow> string list" where
  "bannerLines rows bindings =
     (let row = (\<lambda>b. Row (rows ! BindingId b)); address = (\<lambda>b. to_string_address (BindingValue b));
          cell = (\<lambda>column b. padded (column b) (column_width column bindings) @ ''  '')
      in map (\<lambda>b. cell BindingBox b @ cell row b @ cell BindingType b @ cell address b @ cell provenanceOf b
               @ identityOf b) bindings)"

section \<open>Pass two: who answers\<close>

datatype 'e preflight_error =
    Driver 'e
  | Exhausted string
  | RigFault string
  | Logic string

text \<open>Field three of a reply to *IDN?; nothing when there are not three.\<close>

definition serialOf :: "string \<Rightarrow> string" where
  "serialOf reply = (case split_on (CHR '','') reply of _ # _ # serial # _ \<Rightarrow> serial | _ \<Rightarrow> [])"

record Claim =
  ClaimSerial :: string
  ClaimBox :: string

fun claimedByAnother :: "Claim list \<Rightarrow> string \<Rightarrow> string \<Rightarrow> string option" where
  "claimedByAnother [] serial box = None"
| "claimedByAnother (c # claimed) serial box =
     (if serial \<noteq> [] \<and> ClaimSerial c = serial \<and> ClaimBox c \<noteq> box then Some (ClaimBox c)
      else claimedByAnother claimed serial box)"

record Contacted =
  ContactedBox :: string
  ContactedValue :: address
  ContactedSerial :: string
  ContactedPosition :: "(nat \<times> nat) option"

definition exhausted_pool :: "string \<Rightarrow> nat \<Rightarrow> string" where
  "exhausted_pool box poolSize =
     ''no free instrument for box '' @ box @ '': all '' @ show_nat poolSize
       @ '' candidates in its pool were busy or unreachable''"

text \<open>
  acquireFromPool: the candidates in table order, numbered from one. A candidate that another box
  has, or that cannot be reached, is left with its session closed; any other exception ends the walk.
\<close>

fun acquire_from :: "('e \<Rightarrow> bool) \<Rightarrow> ('h, 'e) PreflightInstrument \<Rightarrow> ('h, 'e) ContactableInstrument \<Rightarrow> nat \<Rightarrow> nat
      \<Rightarrow> address list \<Rightarrow> Binding \<Rightarrow> Claim list \<Rightarrow> 'h
      \<Rightarrow> ('e preflight_error + Binding \<times> Claim list) \<times> 'h" where
  "acquire_from transport_error m c poolSize position [] b claimed h =
     (Inl (Exhausted (exhausted_pool (BindingBox b) poolSize)), h)"
| "acquire_from transport_error m c poolSize position (candidate # candidates) b claimed h =
     (case askIdentity c (useAddress m candidate h) of
        (Inl e, h1) \<Rightarrow>
          if transport_error e
          then acquire_from transport_error m c poolSize (position + 1) candidates b claimed (closeSession c h1)
          else (Inl (Driver e), h1)
      | (Inr reply, h1) \<Rightarrow>
          if claimedByAnother claimed (serialOf reply) (BindingBox b) \<noteq> None
          then acquire_from transport_error m c poolSize (position + 1) candidates b claimed (closeSession c h1)
          else (Inr (b\<lparr>BindingValue := candidate, Identity := reply, PoolPosition := Some (position + 1, poolSize)\<rparr>,
                     claimed @ [\<lparr>ClaimSerial = serialOf reply, ClaimBox = BindingBox b\<rparr>]), h1))"

definition acquireFromPool :: "('h, 'e) PreflightRig \<Rightarrow> ('h, 'e) PreflightInstrument \<Rightarrow> ('h, 'e) ContactableInstrument
      \<Rightarrow> Binding \<Rightarrow> Claim list \<Rightarrow> 'h \<Rightarrow> ('e preflight_error + Binding \<times> Claim list) \<times> 'h" where
  "acquireFromPool rig m c b claimed h =
     (let candidates = poolFor (rig_tables rig) (BindingBox b)
      in acquire_from (isTransportError rig) m c (length candidates) 0 candidates b claimed h)"

definition one_unit_two_boxes :: "string \<Rightarrow> string \<Rightarrow> string \<Rightarrow> string" where
  "one_unit_two_boxes other box serial =
     ''boxes '' @ other @ '' and '' @ box @ '' both answered with serial '' @ serial
       @ '' -- one unit under two box names. Give their rows one box name.''"

definition two_units_one_box :: "BoxRow list \<Rightarrow> Binding \<Rightarrow> string \<Rightarrow> string \<Rightarrow> string" where
  "two_units_one_box rows b serial earlier =
     Row (rows ! BindingId b) @ '' is a face of box '' @ BindingBox b @ '', but answered with serial '' @ serial
       @ '' where the box'' @ [CHR 0x27] @ ''s first face answered '' @ earlier
       @ '' -- the rows name one box and reach two units''"

definition no_binding :: "BoxRow list \<Rightarrow> nat \<Rightarrow> string" where
  "no_binding rows i =
     ''preflight: no binding for '' @ Row (rows ! i) @ '' -- pass two found an instrument pass one did not''"

definition bindingFor :: "Binding list \<Rightarrow> nat \<Rightarrow> nat option" where
  "bindingFor bindings i = index_of i (map BindingId bindings)"

record 'h contact_state =
  cs_bindings :: "Binding list"
  cs_claimed :: "Claim list"
  cs_contacted :: "Contacted list"
  cs_hardware :: 'h

definition contacted_now :: "Binding \<Rightarrow> Contacted" where
  "contacted_now b =
     \<lparr>ContactedBox = BindingBox b, ContactedValue = BindingValue b, ContactedSerial = serialOf (Identity b),
      ContactedPosition = PoolPosition b\<rparr>"

text \<open>A later face of a box that was reached: it takes the unit of the first, and has to be it.\<close>

definition contact_later_face :: "('h, 'e) PreflightRig \<Rightarrow> ('h, 'e) PreflightInstrument \<Rightarrow> ('h, 'e) ContactableInstrument
      \<Rightarrow> Contacted \<Rightarrow> nat \<Rightarrow> 'h contact_state \<Rightarrow> 'e preflight_error option \<times> 'h contact_state" where
  "contact_later_face rig m c earlier k s =
     (let b = cs_bindings s ! k;
          pooled = (BindingSource b = Pool);
          h = (if pooled then useAddress m (ContactedValue earlier) (cs_hardware s) else cs_hardware s);
          b1 = (if pooled then b\<lparr>BindingValue := ContactedValue earlier, PoolPosition := ContactedPosition earlier\<rparr> else b)
      in case askIdentity c h of
           (Inl e, h1) \<Rightarrow>
             (Some (Driver e), s\<lparr>cs_bindings := (cs_bindings s)[k := b1], cs_hardware := h1\<rparr>)
         | (Inr reply, h1) \<Rightarrow>
             (let b2 = b1\<lparr>Identity := reply\<rparr>; serial = serialOf reply
              in (if serial \<noteq> [] \<and> ContactedSerial earlier \<noteq> [] \<and> serial \<noteq> ContactedSerial earlier
                  then Some (RigFault (two_units_one_box (rig_rows rig) b2 serial (ContactedSerial earlier)))
                  else None,
                  s\<lparr>cs_bindings := (cs_bindings s)[k := b2], cs_hardware := h1\<rparr>)))"

text \<open>The first face of a box: off the shelf, or at the address it was bound to.\<close>

definition contact_first_face :: "('h, 'e) PreflightRig \<Rightarrow> ('h, 'e) PreflightInstrument \<Rightarrow> ('h, 'e) ContactableInstrument
      \<Rightarrow> nat \<Rightarrow> 'h contact_state \<Rightarrow> 'e preflight_error option \<times> 'h contact_state" where
  "contact_first_face rig m c k s =
     (let b = cs_bindings s ! k
      in if BindingSource b = Pool
         then (case acquireFromPool rig m c b (cs_claimed s) (cs_hardware s) of
                 (Inl e, h1) \<Rightarrow> (Some e, s\<lparr>cs_hardware := h1\<rparr>)
               | (Inr (b1, claimed), h1) \<Rightarrow>
                   (None, s\<lparr>cs_bindings := (cs_bindings s)[k := b1], cs_claimed := claimed,
                      cs_contacted := cs_contacted s @ [contacted_now b1], cs_hardware := h1\<rparr>))
         else (case askIdentity c (cs_hardware s) of
                 (Inl e, h1) \<Rightarrow> (Some (Driver e), s\<lparr>cs_hardware := h1\<rparr>)
               | (Inr reply, h1) \<Rightarrow>
                   (let b1 = b\<lparr>Identity := reply\<rparr>; s1 = s\<lparr>cs_bindings := (cs_bindings s)[k := b1], cs_hardware := h1\<rparr>
                    in case claimedByAnother (cs_claimed s) (serialOf reply) (BindingBox b) of
                         Some other \<Rightarrow>
                           (Some (RigFault (one_unit_two_boxes other (BindingBox b) (serialOf reply))), s1)
                       | None \<Rightarrow>
                           (None, s1\<lparr>cs_claimed := cs_claimed s @ [\<lparr>ClaimSerial = serialOf reply, ClaimBox = BindingBox b\<rparr>],
                              cs_contacted := cs_contacted s @ [contacted_now b1]\<rparr>))))"

definition contact_one :: "('h, 'e) PreflightRig \<Rightarrow> ('h, 'e) PreflightInstrument \<Rightarrow> 'h contact_state
      \<Rightarrow> 'e preflight_error option \<times> 'h contact_state" where
  "contact_one rig m s =
     (case Contactable m of
        None \<Rightarrow> (None, s)
      | Some c \<Rightarrow>
          (case bindingFor (cs_bindings s) (InstrumentId m) of
             None \<Rightarrow> (Some (Logic (no_binding (rig_rows rig) (InstrumentId m))), s)
           | Some k \<Rightarrow>
               if BindingValue (cs_bindings s ! k) = Simulated then (None, s)
               else (case find (\<lambda>e. ContactedBox e = BindingBox (cs_bindings s ! k)) (cs_contacted s) of
                       Some earlier \<Rightarrow> contact_later_face rig m c earlier k s
                     | None \<Rightarrow> contact_first_face rig m c k s)))"

fun contact_from :: "('h, 'e) PreflightRig \<Rightarrow> ('h, 'e) PreflightInstrument list \<Rightarrow> 'h contact_state
      \<Rightarrow> 'e preflight_error option \<times> 'h contact_state" where
  "contact_from rig [] s = (None, s)"
| "contact_from rig (m # ms) s =
     (case contact_one rig m s of
        (Some e, s1) \<Rightarrow> (Some e, s1)
      | (None, s1) \<Rightarrow> contact_from rig ms s1)"

section \<open>The cards\<close>

definition wrong_card :: "SwitchDeviceInfo \<Rightarrow> int \<Rightarrow> string \<Rightarrow> string \<Rightarrow> string" where
  "wrong_card dev slot box reported =
     DeviceName dev @ '' is declared as a '' @ Part (specOf (Model dev)) @ '' in slot '' @ show_int slot
       @ '' of box '' @ box @ '', but ''
       @ (if reported = [] then ''that slot is empty'' else ''that slot holds a '' @ reported)
       @ '' -- the rig'' @ [CHR 0x27] @ ''s card table describes a different rack. Fix the row'' @ [CHR 0x27]
       @ ''s model or slot, or move the card.''"

fun checkCardsOn :: "(int \<Rightarrow> 'h \<Rightarrow> ('e + string) \<times> 'h) \<Rightarrow> string \<Rightarrow> device_table \<Rightarrow> 'h \<Rightarrow> 'e preflight_error option \<times> 'h" where
  "checkCardsOn ask box [] h = (None, h)"
| "checkCardsOn ask box (dev # devices) h =
     (if Box dev \<noteq> box then checkCardsOn ask box devices h
      else (case Card dev of
              None \<Rightarrow> checkCardsOn ask box devices h
            | Some slot \<Rightarrow>
                (case ask slot h of
                   (Inl e, h1) \<Rightarrow> (Some (Driver e), h1)
                 | (Inr reported, h1) \<Rightarrow>
                     if reported = Reports (specOf (Model dev)) then checkCardsOn ask box devices h1
                     else (Some (RigFault (wrong_card dev slot box reported)), h1))))"

fun check_cards_from :: "('h, 'e) PreflightRig \<Rightarrow> Binding list \<Rightarrow> ('h, 'e) PreflightInstrument list \<Rightarrow> 'h
      \<Rightarrow> 'e preflight_error option \<times> 'h" where
  "check_cards_from rig bindings [] h = (None, h)"
| "check_cards_from rig bindings (m # ms) h =
     (case cardModel m of
        None \<Rightarrow> check_cards_from rig bindings ms h
      | Some ask \<Rightarrow>
          (case bindingFor bindings (InstrumentId m) of
             None \<Rightarrow> (Some (Logic (no_binding (rig_rows rig) (InstrumentId m))), h)
           | Some k \<Rightarrow>
               if BindingValue (bindings ! k) = Simulated then check_cards_from rig bindings ms h
               else (case checkCardsOn ask (BindingBox (bindings ! k)) (rig_devices rig) h of
                       (Some e, h1) \<Rightarrow> (Some e, h1)
                     | (None, h1) \<Rightarrow> check_cards_from rig bindings ms h1)))"

definition contactInstruments :: "('h, 'e) PreflightRig \<Rightarrow> bool \<Rightarrow> Binding list \<Rightarrow> 'h
      \<Rightarrow> 'e preflight_error option \<times> Binding list \<times> 'h" where
  "contactInstruments rig isAttached bindings h =
     (if \<not> isAttached then (None, bindings, h)
      else (case contact_from rig (instruments rig)
                   \<lparr>cs_bindings = bindings, cs_claimed = [], cs_contacted = [], cs_hardware = h\<rparr> of
              (Some e, s) \<Rightarrow> (Some e, cs_bindings s, cs_hardware s)
            | (None, s) \<Rightarrow>
                (case check_cards_from rig (cs_bindings s) (instruments rig) (cs_hardware s) of
                   (r, h1) \<Rightarrow> (r, cs_bindings s, h1))))"

section \<open>What binding decides\<close>

text \<open>
  The reference: what an override, a site row or a pool says of a box, in that order of
  priority; nothing of the face itself enters.
\<close>

definition box_decision :: "address_tables \<Rightarrow> AddressPlan \<Rightarrow> string \<Rightarrow> AddressSource \<times> address option" where
  "box_decision tables plan box =
     (case override_for (Overrides plan) box of
        Some a \<Rightarrow> (Override, Some a)
      | None \<Rightarrow>
          (case (if PlanSite plan = [] then None else siteAddressFor tables (PlanSite plan) box) of
             Some a \<Rightarrow> (Site, Some a)
           | None \<Rightarrow> (if poolFor tables box = [] then Table else Pool, None)))"

definition bound_by :: "address_tables \<Rightarrow> AddressPlan \<Rightarrow> Binding \<Rightarrow> bool" where
  "bound_by tables plan b \<longleftrightarrow>
     (if BindingId b \<in> set (SimulatedFaces plan) then BindingSource b = Override \<and> BindingValue b = Simulated
      else BindingSource b = fst (box_decision tables plan (BindingBox b))
        \<and> (case snd (box_decision tables plan (BindingBox b)) of
             Some a \<Rightarrow> BindingValue b = a \<and> panel_allows (BindingPanel b) a | None \<Rightarrow> True))"

lemma resolve_bound:
  assumes "resolve rows tables plan b = Inr r" and "BindingSource b = Table"
  shows "bound_by tables plan r \<and> Identity r = Identity b \<and> BindingId r = BindingId b \<and> BindingBox r = BindingBox b
     \<and> BindingPanel r = BindingPanel b \<and> (BindingSource r = Pool \<longrightarrow> BindingValue r = BindingValue b)"
  using assms
  by (auto simp: resolve_def bound_by_def box_decision_def requireAccepted_def Let_def split: if_splits option.splits)

lemma bound_by_site [simp]: "bound_by tables plan (b\<lparr>BindingSite := s\<rparr>) = bound_by tables plan b"
  by (simp add: bound_by_def split: option.split)

lemma bind_from_bound:
  assumes "bind_from rows tables plan ms bindings h = (Inr bound, h')"
  shows "\<exists>new. bound = bindings @ new \<and> map BindingId new = map InstrumentId ms
    \<and> list_all (\<lambda>b. bound_by tables plan b \<and> Identity b = [] \<and> BindingBox b = boxOf rows (BindingId b)) new"
  using assms
proof (induction ms arbitrary: bindings h)
  case (Cons m ms)
  from Cons.prems obtain b0 where r: "resolve rows tables plan (table_binding rows m h) = Inr b0"
    by (auto split: sum.splits)
  let ?b = "if BindingSource b0 = Site then b0\<lparr>BindingSite := PlanSite plan\<rparr> else b0"
  have facts: "bound_by tables plan ?b \<and> Identity ?b = [] \<and> BindingId ?b = InstrumentId m
      \<and> BindingBox ?b = boxOf rows (InstrumentId m)"
    using resolve_bound [OF r] by (simp add: table_binding_def)
  from Cons.prems r obtain h1 where "bind_from rows tables plan ms (bindings @ [?b]) h1 = (Inr bound, h')"
    by (auto simp: Let_def)
  from Cons.IH [OF this] facts show ?case by (auto simp del: if_split_asm)
qed simp

lemma bindAddresses_bound:
  assumes "bindAddresses rig plan h = (Inr bound, h')"
  shows "map BindingId bound = map InstrumentId (instruments rig)"
    and "b \<in> set bound \<Longrightarrow> bound_by (rig_tables rig) plan b \<and> Identity b = []
      \<and> BindingBox b = boxOf (rig_rows rig) (BindingId b)"
  using assms bind_from_bound [of "rig_rows rig" "rig_tables rig" plan "instruments rig" "[]" h bound h']
  by (auto simp: bindAddresses_def list_all_iff split: if_splits)

text \<open>
  Every face of a box binds to the same address from the same source, faces the run
  simulates apart: an override beats the site, the site beats the pool, and what a driver is
  given in place of its table's address is one its back panel has a connector for.
\<close>

theorem faces_bind_together:
  assumes "bindAddresses rig plan h = (Inr bound, h')" and "a \<in> set bound" and "b \<in> set bound"
    and "BindingBox a = BindingBox b"
    and "BindingId a \<notin> set (SimulatedFaces plan)" and "BindingId b \<notin> set (SimulatedFaces plan)"
  shows "BindingSource a = BindingSource b
    \<and> (BindingSource a \<in> {Override, Site} \<longrightarrow> BindingValue a = BindingValue b \<and> panel_allows (BindingPanel a) (BindingValue a))
    \<and> (\<forall>v. override_for (Overrides plan) (BindingBox a) = Some v \<longrightarrow> BindingSource a = Override \<and> BindingValue a = v)
    \<and> (poolFor (rig_tables rig) (BindingBox a) = [] \<longrightarrow> BindingSource a \<noteq> Pool)"
  using bindAddresses_bound(2) [OF assms(1,2)] bindAddresses_bound(2) [OF assms(1,3)] assms(4-6)
  by (auto simp: bound_by_def box_decision_def split: option.splits if_splits)

section \<open>Who answered\<close>

lemma claimedByAnother_None:
  "claimedByAnother claimed serial box = None \<longleftrightarrow>
     serial = [] \<or> (\<forall>c \<in> set claimed. ClaimSerial c = serial \<longrightarrow> ClaimBox c = box)"
  by (induction claimed) auto

lemma acquire_from_result:
  assumes "acquire_from te m c poolSize position candidates b claimed h = (Inr (b1, claimed1), h1)"
  shows "\<exists>a reply pos h0. a \<in> set candidates \<and> askIdentity c (useAddress m a h0) = (Inr reply, h1)
    \<and> b1 = b\<lparr>BindingValue := a, Identity := reply, PoolPosition := Some (pos, poolSize)\<rparr>
    \<and> claimedByAnother claimed (serialOf reply) (BindingBox b) = None
    \<and> claimed1 = claimed @ [\<lparr>ClaimSerial = serialOf reply, ClaimBox = BindingBox b\<rparr>]"
  using assms
proof (induction candidates arbitrary: position h)
  case (Cons a candidates)
  show ?case
  proof (cases "askIdentity c (useAddress m a h)")
    case (Pair r h2)
    show ?thesis
    proof (cases r)
      case (Inl e)
      with Pair Cons.prems Cons.IH [of "position + 1" "closeSession c h2"] show ?thesis
        by (auto split: if_splits)
    next
      case (Inr reply)
      show ?thesis
      proof (cases "claimedByAnother claimed (serialOf reply) (BindingBox b)")
        case None
        with Inr Pair Cons.prems show ?thesis by auto
      next
        case (Some other)
        with Inr Pair Cons.prems Cons.IH [of "position + 1" "closeSession c h2"] show ?thesis by auto
      qed
    qed
  qed
qed simp

definition answers_serial :: "('h, 'e) PreflightInstrument list \<Rightarrow> bool" where
  "answers_serial ms \<longleftrightarrow>
     (\<forall>m \<in> set ms. \<forall>c h r h'. Contactable m = Some c \<longrightarrow> askIdentity c h = (Inr r, h') \<longrightarrow> serialOf r \<noteq> [])"

definition answered_by :: "Binding \<Rightarrow> Contacted \<Rightarrow> bool" where
  "answered_by b e \<longleftrightarrow> ContactedBox e = BindingBox b \<and> ContactedSerial e = serialOf (Identity b)
     \<and> (BindingSource b = Pool \<longrightarrow> ContactedValue e = BindingValue b)"

definition contact_inv :: "'h contact_state \<Rightarrow> bool" where
  "contact_inv s \<longleftrightarrow>
     (\<forall>b \<in> set (cs_bindings s). Identity b \<noteq> [] \<longrightarrow> (\<exists>e \<in> set (cs_contacted s). answered_by b e))
     \<and> (\<forall>e \<in> set (cs_contacted s). ContactedSerial e \<noteq> []
          \<and> \<lparr>ClaimSerial = ContactedSerial e, ClaimBox = ContactedBox e\<rparr> \<in> set (cs_claimed s))
     \<and> (\<forall>c \<in> set (cs_claimed s). \<forall>d \<in> set (cs_claimed s). ClaimSerial c = ClaimSerial d \<longrightarrow> ClaimBox c = ClaimBox d)
     \<and> distinct (map ContactedBox (cs_contacted s))"

lemma contact_invD:
  assumes "contact_inv s"
  shows "b \<in> set (cs_bindings s) \<Longrightarrow> Identity b \<noteq> [] \<Longrightarrow> \<exists>e \<in> set (cs_contacted s). answered_by b e"
    and "e \<in> set (cs_contacted s) \<Longrightarrow> ContactedSerial e \<noteq> []"
    and "e \<in> set (cs_contacted s) \<Longrightarrow> \<lparr>ClaimSerial = ContactedSerial e, ClaimBox = ContactedBox e\<rparr> \<in> set (cs_claimed s)"
    and "c \<in> set (cs_claimed s) \<Longrightarrow> d \<in> set (cs_claimed s) \<Longrightarrow> ClaimSerial c = ClaimSerial d \<Longrightarrow> ClaimBox c = ClaimBox d"
    and "distinct (map ContactedBox (cs_contacted s))"
  using assms unfolding contact_inv_def by blast+

lemma answered_update:
  assumes "\<And>b. b \<in> set bs \<Longrightarrow> Identity b \<noteq> [] \<Longrightarrow> \<exists>e \<in> E. answered_by b e" and "\<exists>e \<in> E. answered_by x e"
    and "b \<in> set (bs[k := x])" and "Identity b \<noteq> []"
  shows "\<exists>e \<in> E. answered_by b e"
  using assms set_update_subset_insert [of bs k x] by auto

lemma first_face_inv:
  assumes "contact_inv s" and "BindingBox b1 \<notin> ContactedBox ` set (cs_contacted s)"
    and "serialOf (Identity b1) \<noteq> []"
    and "claimedByAnother (cs_claimed s) (serialOf (Identity b1)) (BindingBox b1) = None"
  shows "contact_inv (s\<lparr>cs_bindings := (cs_bindings s)[k := b1],
      cs_claimed := cs_claimed s @ [\<lparr>ClaimSerial = serialOf (Identity b1), ClaimBox = BindingBox b1\<rparr>],
      cs_contacted := cs_contacted s @ [contacted_now b1], cs_hardware := h\<rparr>)"
    (is "contact_inv ?s")
  unfolding contact_inv_def
proof (intro conjI ballI impI)
  fix b assume b: "b \<in> set (cs_bindings ?s)" "Identity b \<noteq> []"
  show "\<exists>e \<in> set (cs_contacted ?s). answered_by b e"
  proof (rule answered_update)
    show "b' \<in> set (cs_bindings s) \<Longrightarrow> Identity b' \<noteq> [] \<Longrightarrow> \<exists>e \<in> set (cs_contacted ?s). answered_by b' e" for b'
      using contact_invD(1) [OF assms(1)] by auto
    show "\<exists>e \<in> set (cs_contacted ?s). answered_by b1 e"
      by (rule bexI [of _ "contacted_now b1"]) (simp_all add: answered_by_def contacted_now_def)
    show "b \<in> set ((cs_bindings s)[k := b1])" "Identity b \<noteq> []" using b by simp_all
  qed
next
  fix e assume "e \<in> set (cs_contacted ?s)"
  then show "ContactedSerial e \<noteq> []"
      and "\<lparr>ClaimSerial = ContactedSerial e, ClaimBox = ContactedBox e\<rparr> \<in> set (cs_claimed ?s)"
    using contact_invD(2,3) [OF assms(1)] assms(3) by (auto simp: contacted_now_def)
next
  fix c d assume "c \<in> set (cs_claimed ?s)" "d \<in> set (cs_claimed ?s)" "ClaimSerial c = ClaimSerial d"
  then show "ClaimBox c = ClaimBox d"
    using contact_invD(4) [OF assms(1), of c d] assms(3,4) by (auto simp: claimedByAnother_None)
next
  show "distinct (map ContactedBox (cs_contacted ?s))"
    using contact_invD(5) [OF assms(1)] assms(2) by (simp add: contacted_now_def)
qed

lemma later_face_inv:
  assumes "contact_inv s" and "earlier \<in> set (cs_contacted s)" and "answered_by b2 earlier"
  shows "contact_inv (s\<lparr>cs_bindings := (cs_bindings s)[k := b2], cs_hardware := h\<rparr>)" (is "contact_inv ?s")
  unfolding contact_inv_def
proof (intro conjI ballI impI)
  fix b assume "b \<in> set (cs_bindings ?s)" "Identity b \<noteq> []"
  with answered_update [of "cs_bindings s" "set (cs_contacted s)" b2 b k] contact_invD(1) [OF assms(1)] assms(2,3)
  show "\<exists>e \<in> set (cs_contacted ?s). answered_by b e" by auto
next
  fix c d assume "c \<in> set (cs_claimed ?s)" "d \<in> set (cs_claimed ?s)" "ClaimSerial c = ClaimSerial d"
  then show "ClaimBox c = ClaimBox d" using contact_invD(4) [OF assms(1), of c d] by simp
qed (use contact_invD(2,3,5) [OF assms(1)] in simp_all)

lemma contact_one_inv:
  assumes "contact_one rig m s = (None, s')" and "contact_inv s" and "answers_serial [m]"
  shows "contact_inv s'"
proof (cases "Contactable m")
  case None
  with assms show ?thesis by (simp add: contact_one_def)
next
  case (Some c)
  have serial: "askIdentity c h = (Inr r, h') \<Longrightarrow> serialOf r \<noteq> []" for h r h'
    using assms(3) Some by (auto simp: answers_serial_def)
  from Some assms(1) obtain k where k: "bindingFor (cs_bindings s) (InstrumentId m) = Some k"
    by (cases "bindingFor (cs_bindings s) (InstrumentId m)") (auto simp: contact_one_def)
  let ?b = "cs_bindings s ! k"
  consider (skip) "BindingValue ?b = Simulated"
    | (later) earlier where "BindingValue ?b \<noteq> Simulated"
        "find (\<lambda>e. ContactedBox e = BindingBox ?b) (cs_contacted s) = Some earlier"
    | (first) "BindingValue ?b \<noteq> Simulated" "find (\<lambda>e. ContactedBox e = BindingBox ?b) (cs_contacted s) = None"
    by fastforce
  then show ?thesis
  proof cases
    case skip
    with assms(1,2) Some k show ?thesis by (simp add: contact_one_def)
  next
    case (later earlier)
    from find_SomeD [OF later(2)] have e: "earlier \<in> set (cs_contacted s)" "ContactedBox earlier = BindingBox ?b" by auto
    have "ContactedSerial earlier \<noteq> []" using assms(2) e(1) by (auto simp: contact_inv_def)
    moreover have "contact_later_face rig m c earlier k s = (None, s')"
      using later assms(1) Some k by (simp add: contact_one_def)
    ultimately obtain b2 h where "s' = s\<lparr>cs_bindings := (cs_bindings s)[k := b2], cs_hardware := h\<rparr>"
      and "answered_by b2 earlier"
      using e serial
      by (auto simp: contact_later_face_def Let_def answered_by_def split: if_splits prod.splits sum.splits)
    with later_face_inv [OF assms(2) e(1)] show ?thesis by simp
  next
    case first
    then have fresh: "BindingBox ?b \<notin> ContactedBox ` set (cs_contacted s)"
      by (auto simp: find_None_iff)
    have step: "contact_first_face rig m c k s = (None, s')"
      using first assms(1) Some k by (simp add: contact_one_def)
    show ?thesis
    proof (cases "BindingSource ?b = Pool")
      case True
      with step obtain b1 claimed1 h1 where a: "acquireFromPool rig m c ?b (cs_claimed s) (cs_hardware s) = (Inr (b1, claimed1), h1)"
        and s': "s' = s\<lparr>cs_bindings := (cs_bindings s)[k := b1], cs_claimed := claimed1,
           cs_contacted := cs_contacted s @ [contacted_now b1], cs_hardware := h1\<rparr>"
        by (auto simp: contact_first_face_def Let_def split: prod.splits sum.splits)
      from acquire_from_result [OF a [unfolded acquireFromPool_def Let_def]] obtain reply where
        r: "BindingBox b1 = BindingBox ?b" "Identity b1 = reply" "serialOf reply \<noteq> []"
          "claimedByAnother (cs_claimed s) (serialOf reply) (BindingBox ?b) = None"
          "claimed1 = cs_claimed s @ [\<lparr>ClaimSerial = serialOf reply, ClaimBox = BindingBox ?b\<rparr>]"
        using serial by auto
      with first_face_inv [OF assms(2), where ?b1.0 = b1 and k = k and h = h1] fresh s' show ?thesis by simp
    next
      case False
      with step obtain reply h1 where r: "askIdentity c (cs_hardware s) = (Inr reply, h1)"
          "claimedByAnother (cs_claimed s) (serialOf reply) (BindingBox ?b) = None"
        and s': "s' = s\<lparr>cs_bindings := (cs_bindings s)[k := ?b\<lparr>Identity := reply\<rparr>],
           cs_claimed := cs_claimed s @ [\<lparr>ClaimSerial = serialOf reply, ClaimBox = BindingBox ?b\<rparr>],
           cs_contacted := cs_contacted s @ [contacted_now (?b\<lparr>Identity := reply\<rparr>)], cs_hardware := h1\<rparr>"
        by (auto simp: contact_first_face_def Let_def split: prod.splits sum.splits option.splits)
      with first_face_inv [OF assms(2), where ?b1.0 = "?b\<lparr>Identity := reply\<rparr>" and k = k and h = h1] fresh serial show ?thesis by simp
    qed
  qed
qed

lemma contact_from_inv:
  "contact_from rig ms s = (None, s') \<Longrightarrow> contact_inv s \<Longrightarrow> answers_serial ms \<Longrightarrow> contact_inv s'"
proof (induction ms arbitrary: s)
  case (Cons m ms)
  from Cons.prems(1) obtain s1 where "contact_one rig m s = (None, s1)" "contact_from rig ms s1 = (None, s')"
    by (auto split: prod.splits option.splits)
  with Cons.IH contact_one_inv Cons.prems(2,3) show ?case by (fastforce simp: answers_serial_def)
qed simp

text \<open>
  C32: When preflight succeeds, instruments that answered have one serial number exactly when they
  are faces of one box: no unit is reached under two box names, no two boxes share a unit of a
  pool, and no box is two units. The pooled faces of a box all hold the address that was taken.
\<close>

theorem one_unit_per_box:
  assumes "bindAddresses rig plan h = (Inr bound, h1)" and "contactInstruments rig True bound h1 = (None, bs, h2)"
    and "answers_serial (instruments rig)"
    and "a \<in> set bs" and "b \<in> set bs" and "Identity a \<noteq> []" and "Identity b \<noteq> []"
  shows "(serialOf (Identity a) = serialOf (Identity b) \<longleftrightarrow> BindingBox a = BindingBox b)
    \<and> (BindingBox a = BindingBox b \<and> BindingSource a = Pool \<and> BindingSource b = Pool \<longrightarrow> BindingValue a = BindingValue b)"
proof -
  let ?start = "\<lparr>cs_bindings = bound, cs_claimed = [], cs_contacted = [], cs_hardware = h1\<rparr>"
  obtain s where s: "contact_from rig (instruments rig) ?start = (None, s)" "bs = cs_bindings s"
    using assms(2) by (auto simp: contactInstruments_def split: prod.splits option.splits)
  have "contact_inv ?start"
    using bindAddresses_bound(2) [OF assms(1)] by (simp add: contact_inv_def)
  with contact_from_inv [OF s(1) _ assms(3)] have inv: "contact_inv s" by simp
  obtain d where d: "d \<in> set (cs_contacted s)" "answered_by a d"
    using contact_invD(1) [OF inv, of a] assms(4,6) s(2) by auto
  obtain e where e: "e \<in> set (cs_contacted s)" "answered_by b e"
    using contact_invD(1) [OF inv, of b] assms(5,7) s(2) by auto
  have "ContactedSerial d = ContactedSerial e \<longrightarrow> ContactedBox d = ContactedBox e"
    using contact_invD(4) [OF inv contact_invD(3) [OF inv d(1)] contact_invD(3) [OF inv e(1)]] by simp
  moreover have "ContactedBox d = ContactedBox e \<longrightarrow> d = e"
    using contact_invD(5) [OF inv] d(1) e(1) by (simp add: distinct_map inj_on_def)
  ultimately show ?thesis using d(2) e(2) by (auto simp: answered_by_def)
qed

section \<open>A pooled row whose table says Simulated\<close>

lemma update_keeps: "b \<in> set bs \<Longrightarrow> b \<noteq> bs ! k \<Longrightarrow> b \<in> set (bs[k := x])"
  by (metis in_set_conv_nth length_list_update nth_list_update_neq)

lemma contact_one_keeps_simulated:
  assumes "contact_one rig m s = (r, s')" and "b \<in> set (cs_bindings s)" and "BindingValue b = Simulated"
  shows "b \<in> set (cs_bindings s')"
  using assms
  by (auto simp: contact_one_def contact_later_face_def contact_first_face_def Let_def intro!: update_keeps
      split: option.splits if_splits prod.splits sum.splits)

lemma contact_from_keeps_simulated:
  "contact_from rig ms s = (r, s') \<Longrightarrow> b \<in> set (cs_bindings s) \<Longrightarrow> BindingValue b = Simulated \<Longrightarrow> b \<in> set (cs_bindings s')"
proof (induction ms arbitrary: s)
  case (Cons m ms)
  obtain r1 s1 where one: "contact_one rig m s = (r1, s1)" by force
  with contact_one_keeps_simulated [OF one Cons.prems(2,3)] Cons show ?case by (auto split: option.splits)
qed simp

text \<open>
  A pool of a box whose row says Simulated is never drawn from: the row is skipped as having
  nothing at its address, on an attached run too, and its banner says so.
\<close>

theorem simulated_pool_row_is_not_acquired:
  assumes "contactInstruments rig True bound h = (r, bs, h')" and "b \<in> set bound"
    and "BindingSource b = Pool" and "BindingValue b = Simulated" and "CanContact b" and "Identity b = []"
  shows "b \<in> set bs \<and> identityOf b = ''simulated -- no instrument at this address''"
proof -
  obtain s where "bs = cs_bindings s" and "\<exists>e. contact_from rig (instruments rig)
      \<lparr>cs_bindings = bound, cs_claimed = [], cs_contacted = [], cs_hardware = h\<rparr> = (e, s)"
    using assms(1) by (auto simp: contactInstruments_def split: prod.splits option.splits)
  with contact_from_keeps_simulated assms(2,4) have "b \<in> set bs" by fastforce
  with assms(4-6) show ?thesis by (simp add: identityOf_def)
qed

section \<open>A rig to look at\<close>

text \<open>Two pooled boxes, the first with two faces, and a third whose row says Simulated.\<close>

definition shelf_driver :: "nat \<Rightarrow> (address list, unit) PreflightInstrument" where
  "shelf_driver i =
     \<lparr>InstrumentId = i, DisplayName = ''hal::demo::Meter'', Buses = BackPanel [''Usb''],
      currentAddress = (\<lambda>h. h ! i), useAddress = (\<lambda>a h. h[i := a]),
      Contactable = Some \<lparr>askIdentity = (\<lambda>h. (case h ! i of Usb s \<Rightarrow> Inr (''Maker,Model,SN'' @ s) | _ \<Rightarrow> Inl (), h)),
                          closeSession = (\<lambda>h. h)\<rparr>,
      cardModel = None\<rparr>"

definition shelf_rig :: "(address list, unit) PreflightRig" where
  "shelf_rig =
     \<lparr>instruments = map shelf_driver [0, 1, 2, 3],
      rig_rows = map (\<lambda>(box, name, a). \<lparr>RowBox = box, Row = name, RowAddress = a, Device = False\<rparr>)
        [(''Psu'', ''DcP1'', Usb ''0''), (''Psu'', ''DcP2'', Usb ''0''), (''Dmm'', ''Dmm1'', Usb ''0''), (''Osc'', ''Osc1'', Simulated)],
      rig_devices = [],
      rig_tables = \<lparr>poolEntries = map (\<lambda>(box, a). \<lparr>PoolBox = box, PoolValue = Usb a\<rparr>)
         [(''Psu'', ''A''), (''Dmm'', ''A''), (''Dmm'', ''B''), (''Osc'', ''C'')], siteEntries = []\<rparr>,
      isTransportError = (\<lambda>_. True)\<rparr>"

definition shelf_start :: "address list" where
  "shelf_start = [Usb ''0'', Usb ''0'', Usb ''0'', Simulated]"

definition no_plan :: AddressPlan where
  "no_plan = \<lparr>Overrides = [], SimulatedFaces = [], PlanSite = []\<rparr>"

definition shelf_bound :: "Binding list" where
  "shelf_bound = (case bindAddresses shelf_rig no_plan shelf_start of (Inr bs, _) \<Rightarrow> bs | _ \<Rightarrow> [])"

definition shelf_contacted :: "Binding list" where
  "shelf_contacted = fst (snd (contactInstruments shelf_rig True shelf_bound shelf_start))"

lemma answers_serial_shelf: "answers_serial (instruments shelf_rig)"
proof -
  have "serialOf (''Maker,Model,SN'' @ s) \<noteq> []" for s
    by (cases "split_on (CHR '','') s") (auto simp: serialOf_def)
  then show ?thesis
    by (auto simp: answers_serial_def shelf_rig_def shelf_driver_def split: address.splits)
qed

lemma shelf_binds: "bindAddresses shelf_rig no_plan shelf_start = (Inr shelf_bound, shelf_start)"
proof -
  have "\<not> isl (fst (bindAddresses shelf_rig no_plan shelf_start))" by code_simp
  moreover have "snd (bindAddresses shelf_rig no_plan shelf_start) = shelf_start" by code_simp
  ultimately show ?thesis
    unfolding shelf_bound_def by (cases "bindAddresses shelf_rig no_plan shelf_start"; cases "fst (bindAddresses shelf_rig no_plan shelf_start)") auto
qed

lemma shelf_contacts:
  "contactInstruments shelf_rig True shelf_bound shelf_start = (None, shelf_contacted, [Usb ''A'', Usb ''A'', Usb ''B'', Simulated])"
proof -
  have "fst (contactInstruments shelf_rig True shelf_bound shelf_start) = None" by code_simp
  moreover have "snd (snd (contactInstruments shelf_rig True shelf_bound shelf_start)) = [Usb ''A'', Usb ''A'', Usb ''B'', Simulated]"
    by code_simp
  ultimately show ?thesis
    unfolding shelf_contacted_def by (simp add: prod_eq_iff)
qed

theorem one_unit_per_box_witness:
  "let a = shelf_contacted ! 0; b = shelf_contacted ! 2
   in (serialOf (Identity a) = serialOf (Identity b) \<longleftrightarrow> BindingBox a = BindingBox b)
    \<and> (BindingBox a = BindingBox b \<and> BindingSource a = Pool \<and> BindingSource b = Pool \<longrightarrow> BindingValue a = BindingValue b)"
  unfolding Let_def
proof (rule one_unit_per_box [OF shelf_binds shelf_contacts answers_serial_shelf])
  have "length shelf_contacted = 4" by code_simp
  then show "shelf_contacted ! 0 \<in> set shelf_contacted" "shelf_contacted ! 2 \<in> set shelf_contacted" by simp_all
  show "Identity (shelf_contacted ! 0) \<noteq> []" "Identity (shelf_contacted ! 2) \<noteq> []" by code_simp+
qed

theorem faces_bind_together_witness:
  "let a = shelf_bound ! 0; b = shelf_bound ! 1
   in BindingSource a = BindingSource b
    \<and> (BindingSource a \<in> {Override, Site} \<longrightarrow> BindingValue a = BindingValue b \<and> panel_allows (BindingPanel a) (BindingValue a))
    \<and> (\<forall>v. override_for (Overrides no_plan) (BindingBox a) = Some v \<longrightarrow> BindingSource a = Override \<and> BindingValue a = v)
    \<and> (poolFor (rig_tables shelf_rig) (BindingBox a) = [] \<longrightarrow> BindingSource a \<noteq> Pool)"
  unfolding Let_def
proof (rule faces_bind_together [OF shelf_binds])
  have "length shelf_bound = 4" by code_simp
  then show "shelf_bound ! 0 \<in> set shelf_bound" "shelf_bound ! 1 \<in> set shelf_bound" by simp_all
  show "BindingBox (shelf_bound ! 0) = BindingBox (shelf_bound ! 1)" by code_simp
qed (simp_all add: no_plan_def)

theorem simulated_pool_row_is_not_acquired_witness:
  "let b = shelf_bound ! 3
   in b \<in> set shelf_contacted \<and> identityOf b = ''simulated -- no instrument at this address''"
  unfolding Let_def
proof (rule simulated_pool_row_is_not_acquired [OF shelf_contacts])
  have "length shelf_bound = 4" by code_simp
  then show "shelf_bound ! 3 \<in> set shelf_bound" by simp
  show "BindingSource (shelf_bound ! 3) = Pool" "BindingValue (shelf_bound ! 3) = Simulated"
    "CanContact (shelf_bound ! 3)" "Identity (shelf_bound ! 3) = []" by code_simp+
qed

end
