(* ===== verification/PreflightBench.thy ===== *)
theory PreflightBench
  imports Preflight
begin

text \<open>
  Preflight over a bench whose drivers keep their own address: the laws of address() and
  useAddress() as a locale, that after preflight every driver is at the address its binding says,
  and the bench of dev/rig/instrument.inc, whose drivers are connections of boxes.
\<close>

locale addressed_bench =
  fixes ms :: "('h, 'e) PreflightInstrument list" and ok :: "'h \<Rightarrow> bool"
  assumes ids: "distinct (map InstrumentId ms)"
    and use_ok: "m \<in> set ms \<Longrightarrow> ok h \<Longrightarrow> ok (useAddress m a h)"
    and use_this: "m \<in> set ms \<Longrightarrow> ok h \<Longrightarrow> currentAddress m (useAddress m a h) = a"
    and use_others: "m \<in> set ms \<Longrightarrow> m' \<in> set ms \<Longrightarrow> InstrumentId m' \<noteq> InstrumentId m \<Longrightarrow> ok h
      \<Longrightarrow> currentAddress m' (useAddress m a h) = currentAddress m' h"
    and ask_ok: "m \<in> set ms \<Longrightarrow> Contactable m = Some c \<Longrightarrow> ok h \<Longrightarrow> ok (snd (askIdentity c h))"
    and ask_keeps: "m \<in> set ms \<Longrightarrow> m' \<in> set ms \<Longrightarrow> Contactable m = Some c \<Longrightarrow> ok h
      \<Longrightarrow> currentAddress m' (snd (askIdentity c h)) = currentAddress m' h"
    and close_ok: "m \<in> set ms \<Longrightarrow> Contactable m = Some c \<Longrightarrow> ok h \<Longrightarrow> ok (closeSession c h)"
    and close_keeps: "m \<in> set ms \<Longrightarrow> m' \<in> set ms \<Longrightarrow> Contactable m = Some c \<Longrightarrow> ok h
      \<Longrightarrow> currentAddress m' (closeSession c h) = currentAddress m' h"
    and card_ok: "m \<in> set ms \<Longrightarrow> cardModel m = Some ask \<Longrightarrow> ok h \<Longrightarrow> ok (snd (ask slot h))"
    and card_keeps: "m \<in> set ms \<Longrightarrow> m' \<in> set ms \<Longrightarrow> cardModel m = Some ask \<Longrightarrow> ok h
      \<Longrightarrow> currentAddress m' (snd (ask slot h)) = currentAddress m' h"
begin

definition in_step :: "'h \<Rightarrow> Binding list \<Rightarrow> bool" where
  "in_step h bs \<longleftrightarrow> (\<forall>b \<in> set bs. \<forall>m \<in> set ms. InstrumentId m = BindingId b \<longrightarrow> currentAddress m h = BindingValue b)"

definition others_stay :: "nat \<Rightarrow> 'h \<Rightarrow> 'h \<Rightarrow> bool" where
  "others_stay i h h' \<longleftrightarrow> (\<forall>m \<in> set ms. InstrumentId m \<noteq> i \<longrightarrow> currentAddress m h' = currentAddress m h)"

lemma same_id: "m \<in> set ms \<Longrightarrow> m' \<in> set ms \<Longrightarrow> InstrumentId m' = InstrumentId m \<Longrightarrow> m' = m"
  using ids by (auto simp: distinct_map inj_on_def)

lemma in_step_keeps:
  "in_step h bs \<Longrightarrow> (\<And>m. m \<in> set ms \<Longrightarrow> currentAddress m h' = currentAddress m h) \<Longrightarrow> in_step h' bs"
  by (simp add: in_step_def)

lemma in_step_update:
  assumes "in_step h bs" and "distinct (map BindingId bs)" and "k < length bs" and "m \<in> set ms"
    and "BindingId (bs ! k) = InstrumentId m" and "BindingId b = InstrumentId m"
    and "currentAddress m h' = BindingValue b" and "others_stay (InstrumentId m) h h'"
  shows "in_step h' (bs[k := b])" and "map BindingId (bs[k := b]) = map BindingId bs"
proof -
  show "map BindingId (bs[k := b]) = map BindingId bs"
    using assms(3,5,6) by (metis list_update_id map_update nth_map)
  show "in_step h' (bs[k := b])"
    unfolding in_step_def
  proof (intro ballI impI)
    fix x m' assume x: "x \<in> set (bs[k := b])" and m': "m' \<in> set ms" "InstrumentId m' = BindingId x"
    then obtain j where j: "j < length bs" "x = (if j = k then b else bs ! j)"
      by (auto simp: in_set_conv_nth nth_list_update)
    show "currentAddress m' h' = BindingValue x"
    proof (cases "j = k")
      case True
      with j m' assms(4,6,7) same_id [of m m'] show ?thesis by auto
    next
      case False
      with j assms(3,5) nth_eq_iff_index_eq [OF assms(2), of j k] have "BindingId x \<noteq> InstrumentId m"
        by auto
      with m' False j assms(1,8) show ?thesis by (auto simp: in_step_def others_stay_def)
    qed
  qed
qed

lemma bind_from_in_step:
  assumes "bind_from rows tables plan xs bindings h = (Inr bound, h')" and "set xs \<subseteq> set ms"
    and "distinct (map InstrumentId xs)" and "BindingId ` set bindings \<inter> InstrumentId ` set xs = {}"
    and "ok h" and "in_step h bindings"
  shows "ok h' \<and> in_step h' bound"
  using assms
proof (induction xs arbitrary: bindings h)
  case (Cons m xs)
  from Cons.prems(1) obtain b0 where r: "resolve rows tables plan (table_binding rows m h) = Inr b0"
    by (auto split: sum.splits)
  let ?b = "if BindingSource b0 = Site then b0\<lparr>BindingSite := PlanSite plan\<rparr> else b0"
  let ?h1 = "if BindingSource ?b \<noteq> Pool then useAddress m (BindingValue ?b) h else h"
  have b: "BindingId ?b = InstrumentId m" "BindingSource ?b = Pool \<longrightarrow> BindingValue ?b = currentAddress m h"
    using resolve_bound [OF r] by (simp_all add: table_binding_def)
  have m: "m \<in> set ms" using Cons.prems(2) by simp
  have "ok ?h1" "currentAddress m ?h1 = BindingValue ?b" "others_stay (InstrumentId m) h ?h1"
    using Cons.prems(5) b(2) use_ok [OF m Cons.prems(5)] use_this [OF m Cons.prems(5)] use_others [OF m _ _ Cons.prems(5)]
    by (auto simp: others_stay_def)
  moreover from this have "in_step ?h1 (bindings @ [?b])"
    using Cons.prems(4,6) b(1) same_id [OF m] unfolding in_step_def others_stay_def by fastforce
  moreover have "bind_from rows tables plan xs (bindings @ [?b]) ?h1 = (Inr bound, h')"
    using Cons.prems(1) r by (simp add: Let_def)
  ultimately show ?case
    using Cons.IH [of "bindings @ [?b]" ?h1] Cons.prems(2-4) b(1) by auto
qed simp

lemma acquire_from_address:
  assumes "acquire_from te m c poolSize position candidates b claimed h = (Inr (b1, claimed1), h1)"
    and "m \<in> set ms" and "Contactable m = Some c" and "ok h"
  shows "ok h1 \<and> currentAddress m h1 = BindingValue b1 \<and> others_stay (InstrumentId m) h h1"
  using assms(1,4)
proof (induction candidates arbitrary: position h)
  case (Cons a candidates)
  let ?h0 = "useAddress m a h"
  obtain r h2 where ask: "askIdentity c ?h0 = (r, h2)" by (cases "askIdentity c ?h0")
  have h2: "ok h2" "currentAddress m h2 = a" "others_stay (InstrumentId m) h h2"
    using use_ok [OF assms(2) Cons.prems(2), of a] use_this [OF assms(2) Cons.prems(2), of a]
      ask_ok [OF assms(2,3), of ?h0] ask_keeps [OF assms(2) _ assms(3), of _ ?h0]
      use_others [OF assms(2) _ _ Cons.prems(2)] assms(2)
    by (simp_all add: ask others_stay_def)
  have h3: "ok (closeSession c h2)" "others_stay (InstrumentId m) h (closeSession c h2)"
    using close_ok [OF assms(2,3) h2(1)] close_keeps [OF assms(2) _ assms(3) h2(1)] h2(3)
    by (simp_all add: others_stay_def)
  show ?case
  proof (cases "acquire_from te m c poolSize (position + 1) candidates b claimed (closeSession c h2) = (Inr (b1, claimed1), h1)")
    case True
    with Cons.IH h3 show ?thesis by (fastforce simp: others_stay_def)
  next
    case False
    with Cons.prems(1) ask h2 show ?thesis by (auto split: sum.splits if_splits)
  qed
qed simp

lemma contact_one_in_step:
  assumes "contact_one rig m s = (None, s')" and "m \<in> set ms" and "ok (cs_hardware s)"
    and "in_step (cs_hardware s) (cs_bindings s)" and "distinct (map BindingId (cs_bindings s))"
  shows "ok (cs_hardware s') \<and> in_step (cs_hardware s') (cs_bindings s') \<and> map BindingId (cs_bindings s') = map BindingId (cs_bindings s)"
proof (cases "Contactable m")
  case None
  with assms show ?thesis by (simp add: contact_one_def)
next
  case (Some c)
  from Some assms(1) obtain k where k: "bindingFor (cs_bindings s) (InstrumentId m) = Some k"
    by (cases "bindingFor (cs_bindings s) (InstrumentId m)") (auto simp: contact_one_def)
  then have k': "k < length (cs_bindings s)" "BindingId (cs_bindings s ! k) = InstrumentId m"
    by (auto simp: bindingFor_def dest: index_of_Some)
  have update: "ok h' \<and> in_step h' ((cs_bindings s)[k := b]) \<and> map BindingId ((cs_bindings s)[k := b]) = map BindingId (cs_bindings s)"
    if "ok h'" "BindingId b = InstrumentId m" "currentAddress m h' = BindingValue b"
      "others_stay (InstrumentId m) (cs_hardware s) h'" for h' b
    using that in_step_update [OF assms(4,5) k'(1) assms(2) k'(2)] by simp
  have asked: "ok h' \<and> currentAddress m h' = currentAddress m h \<and> others_stay (InstrumentId m) h h'"
    if "askIdentity c h = (r, h')" "ok h" for h r h'
    using that ask_ok [OF assms(2) Some, of h] ask_keeps [OF assms(2) _ Some, of _ h] assms(2)
    by (simp add: others_stay_def)
  let ?b = "cs_bindings s ! k"
  have at: "currentAddress m (cs_hardware s) = BindingValue ?b"
    using assms(2,4) k' by (auto simp: in_step_def)
  show ?thesis
  proof (cases "BindingValue ?b = Simulated")
    case True
    with assms Some k show ?thesis by (simp add: contact_one_def)
  next
    case False
    show ?thesis
    proof (cases "find (\<lambda>e. ContactedBox e = BindingBox ?b) (cs_contacted s)")
      case (Some earlier)
      then have step: "contact_later_face rig m c earlier k s = (None, s')"
        using False assms(1) \<open>Contactable m = Some c\<close> k by (simp add: contact_one_def)
      let ?h = "if BindingSource ?b = Pool then useAddress m (ContactedValue earlier) (cs_hardware s) else cs_hardware s"
      let ?v = "if BindingSource ?b = Pool then ContactedValue earlier else BindingValue ?b"
      obtain r h1 where ask: "askIdentity c ?h = (r, h1)" by (cases "askIdentity c ?h")
      have moved: "ok ?h" "currentAddress m ?h = ?v" "others_stay (InstrumentId m) (cs_hardware s) ?h"
        using assms(3) use_ok [OF assms(2,3)] use_this [OF assms(2,3)] use_others [OF assms(2) _ _ assms(3)] at
        by (auto simp: others_stay_def)
      obtain b2 where b2: "cs_bindings s' = (cs_bindings s)[k := b2]" "cs_hardware s' = h1"
        "BindingId b2 = InstrumentId m" "BindingValue b2 = ?v"
        using step ask k'(2) by (auto simp: contact_later_face_def Let_def split: if_splits sum.splits)
      from asked [OF ask moved(1)] moved b2(3,4) update [of h1 b2]
      show ?thesis unfolding b2(1,2) by (auto simp: others_stay_def)
    next
      case None
      then have step: "contact_first_face rig m c k s = (None, s')"
        using False assms(1) \<open>Contactable m = Some c\<close> k by (simp add: contact_one_def)
      show ?thesis
      proof (cases "BindingSource ?b = Pool")
        case True
        with step obtain b1 claimed1 h1 where a: "acquireFromPool rig m c ?b (cs_claimed s) (cs_hardware s) = (Inr (b1, claimed1), h1)"
          and s': "cs_bindings s' = (cs_bindings s)[k := b1]" "cs_hardware s' = h1"
          by (auto simp: contact_first_face_def Let_def split: prod.splits sum.splits)
        from acquire_from_result [OF a [unfolded acquireFromPool_def Let_def]] k'(2)
        have "BindingId b1 = InstrumentId m" by auto
        with acquire_from_address [OF a [unfolded acquireFromPool_def Let_def] assms(2) \<open>Contactable m = Some c\<close> assms(3)] update
        show ?thesis unfolding s' by blast
      next
        case False
        obtain r h1 where ask: "askIdentity c (cs_hardware s) = (r, h1)" by (cases "askIdentity c (cs_hardware s)")
        with step False obtain b1 where b1: "cs_bindings s' = (cs_bindings s)[k := b1]" "cs_hardware s' = h1"
          "BindingId b1 = InstrumentId m" "BindingValue b1 = BindingValue ?b"
          using k'(2) by (auto simp: contact_first_face_def Let_def split: sum.splits option.splits)
        from asked [OF ask assms(3)] at b1(3,4) update [of h1 b1] show ?thesis unfolding b1(1,2) by simp
      qed
    qed
  qed
qed

lemma contact_from_in_step:
  assumes "contact_from rig xs s = (None, s')" and "set xs \<subseteq> set ms" and "ok (cs_hardware s)"
    and "in_step (cs_hardware s) (cs_bindings s)" and "distinct (map BindingId (cs_bindings s))"
  shows "ok (cs_hardware s') \<and> in_step (cs_hardware s') (cs_bindings s')
    \<and> map BindingId (cs_bindings s') = map BindingId (cs_bindings s)"
  using assms
proof (induction xs arbitrary: s)
  case (Cons m xs)
  from Cons.prems(1) obtain s1 where one: "contact_one rig m s = (None, s1)" and rest: "contact_from rig xs s1 = (None, s')"
    by (auto split: prod.splits option.splits)
  from contact_one_in_step [OF one _ Cons.prems(3-5)] Cons.prems(2)
  have "ok (cs_hardware s1)" "in_step (cs_hardware s1) (cs_bindings s1)"
    and "map BindingId (cs_bindings s1) = map BindingId (cs_bindings s)" by simp_all
  with Cons.IH [OF rest] Cons.prems(2,5) show ?case by simp
qed simp

lemma checkCardsOn_keeps:
  assumes "checkCardsOn ask box devices h = (r, h')" and "m \<in> set ms" and "cardModel m = Some ask" and "ok h"
  shows "ok h' \<and> (\<forall>m' \<in> set ms. currentAddress m' h' = currentAddress m' h)"
  using assms(1,4)
proof (induction devices arbitrary: h)
  case (Cons d devices)
  have one: "ok (snd (ask slot h)) \<and> (\<forall>m' \<in> set ms. currentAddress m' (snd (ask slot h)) = currentAddress m' h)" for slot
    using card_ok [OF assms(2,3) Cons.prems(2)] card_keeps [OF assms(2) _ assms(3) Cons.prems(2)] by simp
  show ?case
  proof (cases "Box d = box \<and> Card d \<noteq> None")
    case True
    then obtain slot where slot: "Card d = Some slot" by auto
    obtain reply h1 where ask: "ask slot h = (reply, h1)" by (cases "ask slot h")
    with one [of slot] have h1: "ok h1" "\<forall>m' \<in> set ms. currentAddress m' h1 = currentAddress m' h" by simp_all
    show ?thesis
    proof (cases "h' = h1")
      case False
      with Cons.prems(1) True slot ask have "checkCardsOn ask box devices h1 = (r, h')"
        by (auto split: sum.splits if_splits)
      from Cons.IH [OF this h1(1)] h1(2) show ?thesis by simp
    qed (use h1 in simp)
  next
    case False
    then have "checkCardsOn ask box devices h = (r, h')"
      using Cons.prems(1) by (auto split: if_splits option.splits)
    from Cons.IH [OF this Cons.prems(2)] show ?thesis .
  qed
qed simp

lemma check_cards_keeps:
  assumes "check_cards_from rig bindings xs h = (r, h')" and "set xs \<subseteq> set ms" and "ok h"
  shows "ok h' \<and> (\<forall>m' \<in> set ms. currentAddress m' h' = currentAddress m' h)"
  using assms
proof (induction xs arbitrary: h)
  case (Cons m xs)
  show ?case
  proof (cases "\<exists>ask box r1 h1. cardModel m = Some ask \<and> checkCardsOn ask box (rig_devices rig) h = (r1, h1)
      \<and> ((r, h') = (r1, h1) \<or> check_cards_from rig bindings xs h1 = (r, h'))")
    case True
    then obtain ask box r1 h1 where c: "cardModel m = Some ask" "checkCardsOn ask box (rig_devices rig) h = (r1, h1)"
      "(r, h') = (r1, h1) \<or> check_cards_from rig bindings xs h1 = (r, h')" by blast
    from checkCardsOn_keeps [OF c(2) _ c(1) Cons.prems(3)] Cons.prems(2)
    have h1: "ok h1" "\<forall>m' \<in> set ms. currentAddress m' h1 = currentAddress m' h" by simp_all
    with c(3) Cons.IH [of h1] Cons.prems(2) show ?thesis by auto
  next
    case False
    with Cons.prems(1) have "h' = h \<or> check_cards_from rig bindings xs h = (r, h')"
      by (auto split: option.splits if_splits prod.splits)
    with Cons.IH [of h] Cons.prems(2,3) show ?thesis by auto
  qed
qed simp

lemma preflight_in_step:
  assumes "instruments rig = ms" and "ok h"
    and "bindAddresses rig plan h = (Inr bound, h1)" and "contactInstruments rig isAttached bound h1 = (None, bs, h2)"
    and "b \<in> set bs"
  shows "\<exists>m \<in> set ms. InstrumentId m = BindingId b \<and> currentAddress m h2 = BindingValue b"
proof -
  have "bind_from (rig_rows rig) (rig_tables rig) plan ms [] h = (Inr bound, h1)"
    using assms(1,3) by (auto simp: bindAddresses_def split: if_splits)
  from bind_from_in_step [OF this] assms(2) ids
  have h1: "ok h1" "in_step h1 bound" by (auto simp: in_step_def)
  have "in_step h2 bs \<and> map BindingId bs = map InstrumentId ms"
  proof (cases isAttached)
    case True
    let ?start = "\<lparr>cs_bindings = bound, cs_claimed = [], cs_contacted = [], cs_hardware = h1\<rparr>"
    obtain s where s: "contact_from rig ms ?start = (None, s)" "bs = cs_bindings s"
      "check_cards_from rig bs ms (cs_hardware s) = (None, h2)"
      using assms(1,4) True by (auto simp: contactInstruments_def split: prod.splits option.splits)
    have "ok (cs_hardware s) \<and> in_step (cs_hardware s) (cs_bindings s) \<and> map BindingId bs = map InstrumentId ms"
      using contact_from_in_step [OF s(1)] h1 bindAddresses_bound(1) [OF assms(3)] assms(1) ids s(2) by simp
    with check_cards_keeps [OF s(3)] s(2) show ?thesis by (auto intro: in_step_keeps)
  next
    case False
    with assms(1,4) h1 bindAddresses_bound(1) [OF assms(3)] show ?thesis by (simp add: contactInstruments_def)
  qed
  moreover from this have "BindingId b \<in> InstrumentId ` set ms"
    using assms(5) by (metis image_eqI list.set_map)
  ultimately show ?thesis using assms(5) by (auto simp: in_step_def)
qed

end

section \<open>Connections keep their addresses\<close>

definition addresses :: "'t boxes \<Rightarrow> address list" where
  "addresses w = map mAddress (connections w)"

lemma addresses_set_link [simp]: "addresses (set_link i l w) = addresses w"
  by (cases "i < length (connections w)")
     (simp_all add: addresses_def set_link_def map_update list_update_same_conv list_update_beyond)

lemma addresses_put_link [simp]: "addresses (put_link l held w) = addresses w"
  by (simp add: addresses_def)

lemma addresses_fields [simp]:
  "addresses (w\<lparr>links := x\<rparr>) = addresses w" "addresses (w\<lparr>Links := y\<rparr>) = addresses w"
  by (simp_all add: addresses_def)

lemma addresses_registry_find: "addresses (snd (registry_find w box addr)) = addresses w"
  by (simp add: registry_find_def Let_def)

lemma addresses_boxLinkAt: "addresses (snd (boxLinkAt w box a)) = addresses w"
  using addresses_registry_find [of w box "to_string_address a"]
  by (auto simp: boxLinkAt_def split: prod.splits option.splits)

lemma addresses_link: "addresses (snd (connection_link rows i w)) = addresses w"
  using addresses_boxLinkAt [of w "boxOf rows i" "mAddress (connections w ! i)"]
  by (auto simp: connection_link_def Let_def split: prod.splits option.splits)

lemma addresses_heldLink: "addresses (snd (connection_heldLink rows i w)) = addresses w"
  using addresses_registry_find [of w "boxOf rows i" "to_string_address (mAddress (connections w ! i))"]
  by (auto simp: connection_heldLink_def existingBoxLinkAt_def Let_def split: prod.splits)

lemma addresses_session:
  "addresses (snd (connection_session rows ot family prepare i w)) = addresses w"
  using addresses_link [of rows i w]
  by (auto simp: connection_session_def Let_def split: prod.splits option.splits sum.splits)

lemma addresses_native: "addresses (snd (connection_native rows ty made i w)) = addresses w"
  using addresses_link [of rows i w]
  by (auto simp: connection_native_def Let_def split: prod.splits option.splits)

lemma addresses_close: "addresses (connection_close rows i w) = addresses w"
  using addresses_heldLink [of rows i w] by (auto simp: connection_close_def split: prod.splits option.splits)

lemma addresses_useAddress: "addresses (connection_useAddress i a w) = (addresses w)[i := a]"
  by (simp add: addresses_def connection_useAddress_def map_update)

lemma addresses_isSimulated: "addresses (snd (connection_isSimulated rows i w)) = addresses w"
  using addresses_heldLink [of rows i w]
  by (auto simp: connection_isSimulated_def connection_hasSession_def split: prod.splits option.splits)

section \<open>The bench of the dev rig\<close>

text \<open>
  A driver is a face of a box: identity() is its session, prepared by its family, asked *IDN?; the
  two faces of the PicoScope hold a native unit instead, whose maker throws nothing. How the other families prepare a session,
  and what unit the vendor's library opens at an address, are parameters.
\<close>

definition face_identity :: "'t bench_env \<Rightarrow> string \<Rightarrow> ('t \<Rightarrow> (io_error + unit) \<times> 't) \<Rightarrow> nat \<Rightarrow> 't SwitchUnit
      \<Rightarrow> (unit_error + string) \<times> 't SwitchUnit" where
  "face_identity env family prepare i u =
     (case connection_session (env_rows env) (openTransport env) family prepare i (mBoxes u) of
        (Inl e, w) \<Rightarrow> (Inl (BoxFault e), u\<lparr>mBoxes := w\<rparr>)
      | (Inr l, w) \<Rightarrow>
          (case Session (links w ! l) of
             None \<Rightarrow> (Inl (BoxFault (LogicError [])), u\<lparr>mBoxes := w\<rparr>)
           | Some t \<Rightarrow>
               (case scpi_identify (transport env) t of
                  (r, t') \<Rightarrow> (map_sum (\<lambda>e. BoxFault (Io e)) (\<lambda>x. x) r,
                     u\<lparr>mBoxes := put_link l ((links w ! l)\<lparr>Session := Some t'\<rparr>) w\<rparr>))))"

definition face_close :: "'t bench_env \<Rightarrow> nat \<Rightarrow> 't SwitchUnit \<Rightarrow> 't SwitchUnit" where
  "face_close env i u = u\<lparr>mBoxes := connection_close (env_rows env) i (mBoxes u)\<rparr>"

definition pico_identity :: "'t bench_env \<Rightarrow> (address \<Rightarrow> unit_error + string) \<Rightarrow> nat \<Rightarrow> 't SwitchUnit
      \<Rightarrow> (unit_error + string) \<times> 't SwitchUnit" where
  "pico_identity env openedUnit i u =
     (case connection_native (env_rows env) ''Hardware'' None i (mBoxes u) of
        (Inl e, w) \<Rightarrow> (Inl (BoxFault e), u\<lparr>mBoxes := w\<rparr>)
      | (Inr l, w) \<Rightarrow> (openedUnit (mAddress (connections w ! i)), u\<lparr>mBoxes := w\<rparr>))"

definition pico_close :: "'t bench_env \<Rightarrow> nat \<Rightarrow> 't SwitchUnit \<Rightarrow> 't SwitchUnit" where
  "pico_close env i u = u\<lparr>mBoxes := snd (connection_heldLink (env_rows env) i (mBoxes u))\<rparr>"

definition face_driver :: "nat \<Rightarrow> string \<Rightarrow> string list \<Rightarrow> ('t SwitchUnit \<Rightarrow> (unit_error + string) \<times> 't SwitchUnit)
      \<Rightarrow> ('t SwitchUnit \<Rightarrow> 't SwitchUnit) \<Rightarrow> ('t SwitchUnit, unit_error) PreflightInstrument" where
  "face_driver i name buses identity close =
     \<lparr>InstrumentId = i, DisplayName = name, Buses = BackPanel buses,
      currentAddress = (\<lambda>u. mAddress (connections (mBoxes u) ! i)),
      useAddress = (\<lambda>a u. u\<lparr>mBoxes := connection_useAddress i a (mBoxes u)\<rparr>),
      Contactable = Some \<lparr>askIdentity = identity, closeSession = close\<rparr>, cardModel = None\<rparr>"

definition unit_cardModel :: "'t bench_env \<Rightarrow> nat \<Rightarrow> int \<Rightarrow> 't SwitchUnit \<Rightarrow> (unit_error + string) \<times> 't SwitchUnit" where
  "unit_cardModel env mId slot u =
     (case unit_moduleIn env mId slot u of (r, u') \<Rightarrow> (map_sum id ModuleModel r, u'))"

definition dev_drivers :: "'t bench_env \<Rightarrow> (string \<Rightarrow> 't \<Rightarrow> (io_error + unit) \<times> 't) \<Rightarrow> (address \<Rightarrow> unit_error + string)
      \<Rightarrow> ('t SwitchUnit, unit_error) PreflightInstrument list" where
  "dev_drivers env prepare openedUnit =
     (let lan_usb = [''Lan'', ''Usb''];
          face = (\<lambda>i name buses family. face_driver i name buses (face_identity env family (prepare family) i) (face_close env i));
          supply = (\<lambda>i out. face i (''hal::keysight_edu36311a::DcSource<hal::keysight_edu36311a::'' @ out
                     @ '', hal::keysight_edu36311a::DirectWiring>'') lan_usb ''keysight_edu36311a'');
          pico = (\<lambda>i name. face_driver i name [''Usb''] (pico_identity env openedUnit i) (pico_close env i))
      in [face 0 ''hal::keysight_edu34450a::Multimeter'' lan_usb ''keysight_edu34450a'',
          supply 1 ''Output1'', supply 2 ''Output2'', supply 3 ''Output3'',
          face 4 ''hal::keysight_dsox1202g::Oscilloscope'' lan_usb ''keysight_dsox1202g'',
          face 5 ''hal::keysight_33522b::WaveformGenerator'' [''Lan'', ''Usb'', ''Gpib''] ''keysight_33522b'',
          (face_driver 6 ''hal::keysight_34980a::SwitchUnit'' [''Gpib'', ''Lan'', ''Usb'']
            (unit_identity env 6) (face_close env 6))\<lparr>cardModel := Some (unit_cardModel env 6)\<rparr>,
          face 7 ''hal::keysight_34980a::Multimeter'' [''Gpib'', ''Lan'', ''Usb''] ''keysight_34980a.dmm'',
          face 8 ''hal::keysight_dsox1202g::WaveformGenerator'' lan_usb ''keysight_dsox1202g.wgen'',
          pico 9 ''hal::pico_5244d::Oscilloscope'', pico 10 ''hal::pico_5244d::WaveformGenerator''])"

definition dev_preflight :: "'t bench_env \<Rightarrow> (string \<Rightarrow> 't \<Rightarrow> (io_error + unit) \<times> 't) \<Rightarrow> (address \<Rightarrow> unit_error + string)
      \<Rightarrow> ('t SwitchUnit, unit_error) PreflightRig" where
  "dev_preflight env prepare openedUnit =
     \<lparr>instruments = dev_drivers env prepare openedUnit, rig_rows = dev_rows, rig_devices = dev_devices,
      rig_tables = dev_pools,
      isTransportError = (\<lambda>e. case e of BoxFault (Io (Transport f)) \<Rightarrow> True | _ \<Rightarrow> False)\<rparr>"

lemma addresses_face [simp]:
  "addresses (mBoxes (snd (face_identity env family prepare i u))) = addresses (mBoxes u)"
  "addresses (mBoxes (face_close env i u)) = addresses (mBoxes u)"
  "addresses (mBoxes (snd (pico_identity env openedUnit i u))) = addresses (mBoxes u)"
  "addresses (mBoxes (pico_close env i u)) = addresses (mBoxes u)"
proof -
  show "addresses (mBoxes (snd (face_identity env family prepare i u))) = addresses (mBoxes u)"
    using addresses_session [of "env_rows env" "openTransport env" family prepare i "mBoxes u"]
    by (auto simp: face_identity_def split: prod.splits sum.splits option.splits)
  show "addresses (mBoxes (snd (pico_identity env openedUnit i u))) = addresses (mBoxes u)"
    using addresses_native [of "env_rows env" "''Hardware''" None i "mBoxes u"]
    by (auto simp: pico_identity_def split: prod.splits sum.splits)
qed (simp_all add: face_close_def pico_close_def addresses_close addresses_heldLink)

lemma addresses_on_session: "addresses (mBoxes (snd (on_session env mId act u))) = addresses (mBoxes u)"
  using addresses_session [of "env_rows env" "openTransport env" "''keysight_34980a''" "prepare_switch_unit (transport env)"
      mId "mBoxes u"]
  by (auto simp: on_session_def unit_session_def split: prod.splits sum.splits option.splits)

lemma addresses_simulating: "addresses (mBoxes (snd (simulating env mId u))) = addresses (mBoxes u)"
  using addresses_isSimulated [of "env_rows env" mId "mBoxes u"]
  by (auto simp: simulating_def unit_isSimulated_def split: prod.splits)

lemma addresses_unit [simp]:
  "addresses (mBoxes (snd (unit_identity env mId u))) = addresses (mBoxes u)"
  "addresses (mBoxes (snd (unit_cardModel env mId slot u))) = addresses (mBoxes u)"
proof -
  show "addresses (mBoxes (snd (unit_identity env mId u))) = addresses (mBoxes u)"
    by (simp add: unit_identity_def addresses_on_session)
  obtain b u1 where sim: "simulating env mId u = (b, u1)" by force
  then have "addresses (mBoxes u1) = addresses (mBoxes u)" using addresses_simulating [of env mId u] by simp
  with sim addresses_on_session [of env mId "scpi_queryChecked (transport env) (''SYST:CTYP? '' @ show_int slot)" u1]
  show "addresses (mBoxes (snd (unit_cardModel env mId slot u))) = addresses (mBoxes u)"
    by (auto simp: unit_cardModel_def unit_moduleIn_def split: prod.splits sum.splits option.splits bool.splits)
qed

text \<open>The bench is in order while it has a connection for every row.\<close>

definition eleven_connections :: "'t SwitchUnit \<Rightarrow> bool" where
  "eleven_connections u \<longleftrightarrow> length (addresses (mBoxes u)) = 11"

lemma dev_drivers_faces:
  assumes "m \<in> set (dev_drivers env prepare openedUnit)" and "eleven_connections u"
  shows "InstrumentId m < length (addresses (mBoxes u))" and "currentAddress m u = addresses (mBoxes u) ! InstrumentId m"
  using assms
  by (auto simp: dev_drivers_def Let_def face_driver_def addresses_def eleven_connections_def)

lemma dev_drivers_use:
  assumes "m \<in> set (dev_drivers env prepare openedUnit)"
  shows "addresses (mBoxes (useAddress m a u)) = (addresses (mBoxes u))[InstrumentId m := a]"
  using assms by (auto simp: dev_drivers_def Let_def face_driver_def addresses_useAddress)

lemma dev_drivers_contact:
  assumes "m \<in> set (dev_drivers env prepare openedUnit)" and "Contactable m = Some c"
  shows "addresses (mBoxes (snd (askIdentity c u))) = addresses (mBoxes u)"
    and "addresses (mBoxes (closeSession c u)) = addresses (mBoxes u)"
  using assms by (auto simp: dev_drivers_def Let_def face_driver_def)

lemma dev_drivers_card:
  assumes "m \<in> set (dev_drivers env prepare openedUnit)" and "cardModel m = Some ask"
  shows "addresses (mBoxes (snd (ask slot u))) = addresses (mBoxes u)"
  using assms by (auto simp: dev_drivers_def Let_def face_driver_def)

interpretation dev_bench: addressed_bench "dev_drivers env prepare openedUnit" eleven_connections
  for env :: "'t bench_env" and prepare and openedUnit
proof
  show "distinct (map InstrumentId (dev_drivers env prepare openedUnit))"
    by (simp add: dev_drivers_def Let_def face_driver_def)
next
  fix m m' :: "('t SwitchUnit, unit_error) PreflightInstrument" and u :: "'t SwitchUnit" and a
  assume m: "m \<in> set (dev_drivers env prepare openedUnit)" and u: "eleven_connections u"
  show used: "eleven_connections (useAddress m a u)"
    using u by (simp add: eleven_connections_def dev_drivers_use [OF m])
  show "currentAddress m (useAddress m a u) = a"
    using dev_drivers_faces(1) [OF m u] dev_drivers_faces(2) [OF m used] by (simp add: dev_drivers_use [OF m])
  assume m': "m' \<in> set (dev_drivers env prepare openedUnit)" and "InstrumentId m' \<noteq> InstrumentId m"
  then show "currentAddress m' (useAddress m a u) = currentAddress m' u"
    using dev_drivers_faces(2) [OF m' used] dev_drivers_faces(2) [OF m' u] by (simp add: dev_drivers_use [OF m])
next
  fix m m' :: "('t SwitchUnit, unit_error) PreflightInstrument" and c and u :: "'t SwitchUnit"
  assume m: "m \<in> set (dev_drivers env prepare openedUnit)" and c: "Contactable m = Some c" and u: "eleven_connections u"
  note kept = dev_drivers_contact [OF m c, of u]
  show ok: "eleven_connections (snd (askIdentity c u))" "eleven_connections (closeSession c u)"
    using u kept by (simp_all add: eleven_connections_def)
  assume m': "m' \<in> set (dev_drivers env prepare openedUnit)"
  show "currentAddress m' (snd (askIdentity c u)) = currentAddress m' u"
    and "currentAddress m' (closeSession c u) = currentAddress m' u"
    using dev_drivers_faces(2) [OF m' ok(1)] dev_drivers_faces(2) [OF m' ok(2)] dev_drivers_faces(2) [OF m' u] kept by simp_all
next
  fix m m' :: "('t SwitchUnit, unit_error) PreflightInstrument" and ask and u :: "'t SwitchUnit" and slot
  assume m: "m \<in> set (dev_drivers env prepare openedUnit)" and c: "cardModel m = Some ask" and u: "eleven_connections u"
  note kept = dev_drivers_card [OF m c, of slot u]
  show ok: "eleven_connections (snd (ask slot u))"
    using u kept by (simp add: eleven_connections_def)
  assume m': "m' \<in> set (dev_drivers env prepare openedUnit)"
  show "currentAddress m' (snd (ask slot u)) = currentAddress m' u"
    using dev_drivers_faces(2) [OF m' ok] dev_drivers_faces(2) [OF m' u] kept by simp
qed

text \<open>
  C33: When preflight of the dev bench succeeds every driver stands at the address its binding
  says and the banner prints, whatever the plan, on a detached run too: an override, a unit off
  the shelf, a simulated face, or the address it was built with.
\<close>

theorem drivers_stand_at_bound_addresses:
  assumes "length (connections (mBoxes u)) = 11"
    and "bindAddresses (dev_preflight env prepare openedUnit) plan u = (Inr bound, u1)"
    and "contactInstruments (dev_preflight env prepare openedUnit) isAttached bound u1 = (None, bs, u2)"
    and "b \<in> set bs"
  shows "mAddress (connections (mBoxes u2) ! BindingId b) = BindingValue b"
proof -
  have "eleven_connections u" using assms(1) by (simp add: eleven_connections_def addresses_def)
  moreover have "instruments (dev_preflight env prepare openedUnit) = dev_drivers env prepare openedUnit"
    by (simp add: dev_preflight_def)
  ultimately obtain m where
    m: "m \<in> set (dev_drivers env prepare openedUnit)" "InstrumentId m = BindingId b" "currentAddress m u2 = BindingValue b"
    using dev_bench.preflight_in_step [OF _ _ assms(2-4)] by blast
  from m(1) have "currentAddress m u2 = mAddress (connections (mBoxes u2) ! InstrumentId m)"
    by (auto simp: dev_drivers_def Let_def face_driver_def)
  with m(2,3) show ?thesis by simp
qed

definition idle_preflight :: "(unit SwitchUnit, unit_error) PreflightRig" where
  "idle_preflight = dev_preflight (dev_env (\<lambda>_. Inr ()) silent_transport) (\<lambda>_ t. (Inr (), t)) (\<lambda>_. Inr [])"

definition moved_supply :: AddressPlan where
  "moved_supply = \<lparr>Overrides = [(''Psu1'', Usb ''CN1'')], SimulatedFaces = [2], PlanSite = []\<rparr>"

definition moved_bindings :: "Binding list" where
  "moved_bindings = (case fst (bindAddresses idle_preflight moved_supply idle_mainframe) of Inr bs \<Rightarrow> bs | Inl _ \<Rightarrow> [])"

theorem drivers_stand_at_bound_addresses_witness:
  "let u = snd (bindAddresses idle_preflight moved_supply idle_mainframe)
   in mAddress (connections (mBoxes u) ! 1) = Usb ''CN1'' \<and> mAddress (connections (mBoxes u) ! 2) = Simulated"
proof -
  have inr: "\<not> isl (fst (bindAddresses idle_preflight moved_supply idle_mainframe))" by code_simp
  then have "bindAddresses idle_preflight moved_supply idle_mainframe
      = (Inr moved_bindings, snd (bindAddresses idle_preflight moved_supply idle_mainframe))"
    unfolding moved_bindings_def by (auto simp: prod_eq_iff split: sum.splits)
  note bound = drivers_stand_at_bound_addresses [OF _ this [unfolded idle_preflight_def], where isAttached = False,
      unfolded contactInstruments_def, simplified, folded idle_preflight_def]
  have "length moved_bindings = 11" by code_simp
  then have "moved_bindings ! 1 \<in> set moved_bindings" "moved_bindings ! 2 \<in> set moved_bindings" by simp_all
  moreover have "length (connections (mBoxes idle_mainframe)) = 11" by (simp add: idle_mainframe_def)
  moreover have "BindingId (moved_bindings ! 1) = 1" "BindingValue (moved_bindings ! 1) = Usb ''CN1''"
    "BindingId (moved_bindings ! 2) = 2" "BindingValue (moved_bindings ! 2) = Simulated" by code_simp+
  ultimately show ?thesis using bound by (metis (no_types))
qed

end
