(* ===== verification/Json.thy ===== *)
theory Json
  imports Double
begin

text \<open>
  The JSON a run writes and the console reads: core/src/journal/json.cpp, the escaper, and
  webui/src/protocol/json.cpp, the parser. A cursor into the text is the text that is left. The
  parser has fuel, and running out of it is an outcome of its own, which the theorems exclude: twice
  the length of the text and one is enough.
\<close>

section \<open>Escaping\<close>

definition dq :: char where
  "dq = CHR 0x22"

definition bs :: char where
  "bs = CHR 0x5C"

definition low_hex :: "nat \<Rightarrow> char" where
  "low_hex d = (if d < 10 then char_of (48 + d) else char_of (87 + d))"

text \<open>The format \<open>u%04x\<close> of a control byte, after its backslash.\<close>

definition control_escape :: "char \<Rightarrow> string" where
  "control_escape c = (let n = of_char c :: nat in [bs] @ ''u00'' @ [low_hex (n div 16), low_hex (n mod 16)])"

definition json_escape_char :: "char \<Rightarrow> string" where
  "json_escape_char c =
     (if c = dq then [bs, dq]
      else if c = bs then [bs, bs]
      else if c = CHR 0x08 then bs # ''b''
      else if c = CHR 0x0C then bs # ''f''
      else if c = CHR 0x0A then bs # ''n''
      else if c = CHR 0x0D then bs # ''r''
      else if c = CHR 0x09 then bs # ''t''
      else if (of_char c :: nat) < 32 then control_escape c
      else [c])"

definition jsonEscape :: "string \<Rightarrow> string" where
  "jsonEscape s = concat (map json_escape_char s)"

definition jsonQuoted :: "string \<Rightarrow> string" where
  "jsonQuoted s = [dq] @ jsonEscape s @ [dq]"

section \<open>The values and their accessors\<close>

text \<open>
  An object is its fields in declaration order; the key index answers the first of a
  duplicated key, as emplace keeps it.
\<close>

datatype json =
    JNull
  | JBool bool
  | JNumber double
  | JString string
  | JArray "json list"
  | JObject "(string \<times> json) list"

fun json_boolean :: "json \<Rightarrow> bool \<Rightarrow> bool" where
  "json_boolean (JBool b) fallback = b"
| "json_boolean _ fallback = fallback"

fun json_number :: "json \<Rightarrow> double \<Rightarrow> double" where
  "json_number (JNumber d) fallback = d"
| "json_number _ fallback = fallback"

fun json_text :: "json \<Rightarrow> string \<Rightarrow> string" where
  "json_text (JString s) fallback = s"
| "json_text _ fallback = fallback"

fun json_at :: "json \<Rightarrow> string \<Rightarrow> json option" where
  "json_at (JObject fields) key = map_of fields key"
| "json_at _ key = None"

definition json_textAt :: "json \<Rightarrow> string \<Rightarrow> string \<Rightarrow> string" where
  "json_textAt j key fallback = (case json_at j key of Some field \<Rightarrow> json_text field fallback | None \<Rightarrow> fallback)"

definition json_boolAt :: "json \<Rightarrow> string \<Rightarrow> bool \<Rightarrow> bool" where
  "json_boolAt j key fallback = (case json_at j key of Some field \<Rightarrow> json_boolean field fallback | None \<Rightarrow> fallback)"

fun json_items :: "json \<Rightarrow> json list" where
  "json_items (JArray items) = items"
| "json_items _ = []"

section \<open>The parser\<close>

definition json_space :: "char \<Rightarrow> bool" where
  "json_space c \<longleftrightarrow> c \<in> {CHR '' '', CHR 0x09, CHR 0x0A, CHR 0x0D}"

definition skipSpace :: "string \<Rightarrow> string" where
  "skipSpace s = dropWhile json_space s"

definition json_take :: "char \<Rightarrow> string \<Rightarrow> string option" where
  "json_take expected s =
     (case skipSpace s of [] \<Rightarrow> None | c # rest \<Rightarrow> if c = expected then Some rest else None)"

definition parseWord :: "string \<Rightarrow> json \<Rightarrow> string \<Rightarrow> (json \<times> string) option" where
  "parseWord spelling node s =
     (if take (length spelling) s = spelling then Some (node, drop (length spelling) s) else None)"

definition number_char :: "char \<Rightarrow> bool" where
  "number_char c \<longleftrightarrow> is_digit c \<or> c \<in> {CHR ''.'', CHR ''e'', CHR ''E'', CHR ''-'', CHR ''+''}"

text \<open>A sign, then everything a number could be spelled with; what strtod makes of it is the value.\<close>

definition json_parseNumber :: "string \<Rightarrow> (json \<times> string) option" where
  "json_parseNumber s =
     (let (sign, t) = (case s of [] \<Rightarrow> ([], [])
                        | c # u \<Rightarrow> if c = CHR ''-'' \<or> c = CHR ''+'' then ([c], u) else ([], s));
          body = takeWhile number_char t
      in if list_ex is_digit body then Some (JNumber (strtod (sign @ body)), dropWhile number_char t) else None)"

text \<open>
  strtoul in base 16 over a whole text: white space, a sign, an optional 0x, and digits to the
  end. A negative value wraps, and is above every byte.
\<close>

definition c_space :: "char \<Rightarrow> bool" where
  "c_space c \<longleftrightarrow> c \<in> {CHR '' '', CHR 0x09, CHR 0x0A, CHR 0x0B, CHR 0x0C, CHR 0x0D}"

definition hex_value :: "char \<Rightarrow> nat option" where
  "hex_value c =
     (let n = of_char c :: nat
      in if 48 \<le> n \<and> n \<le> 57 then Some (n - 48)
         else if 97 \<le> n \<and> n \<le> 102 then Some (n - 87)
         else if 65 \<le> n \<and> n \<le> 70 then Some (n - 55)
         else None)"

definition is_hex :: "char \<Rightarrow> bool" where
  "is_hex c \<longleftrightarrow> hex_value c \<noteq> None"

definition strtoul16 :: "string \<Rightarrow> int option" where
  "strtoul16 s =
     (let t = dropWhile c_space s;
          (neg, u) = (case t of [] \<Rightarrow> (False, [])
                       | c # v \<Rightarrow> if c = CHR ''-'' then (True, v) else if c = CHR ''+'' then (False, v) else (False, t));
          ds = (case u of z # x # d # v \<Rightarrow>
                   if z = CHR ''0'' \<and> (x = CHR ''x'' \<or> x = CHR ''X'') \<and> is_hex d then d # v else u
                 | _ \<Rightarrow> u)
      in if ds \<noteq> [] \<and> list_all is_hex ds
         then (let v = foldl (\<lambda>a c. 16 * a + int (the (hex_value c))) 0 ds
               in Some (if neg \<and> v \<noteq> 0 then 2 ^ 64 - v else v))
         else None)"

definition simple_escape :: "char \<Rightarrow> char option" where
  "simple_escape c =
     (if c = dq then Some dq else if c = bs then Some bs else if c = CHR ''/'' then Some (CHR ''/'')
      else if c = CHR ''b'' then Some (CHR 0x08) else if c = CHR ''f'' then Some (CHR 0x0C)
      else if c = CHR ''n'' then Some (CHR 0x0A) else if c = CHR ''r'' then Some (CHR 0x0D)
      else if c = CHR ''t'' then Some (CHR 0x09) else None)"

definition hex_escape :: "string \<Rightarrow> char option" where
  "hex_escape rest =
     (if length rest < 4 then None
      else (case strtoul16 (take 4 rest) of
              None \<Rightarrow> None
            | Some code \<Rightarrow> if 0xFF < code then None else Some (char_of (nat code))))"

text \<open>The inside of a string up to its closing quote: None when it is refused or ends too soon.\<close>

function string_body :: "string \<Rightarrow> string \<Rightarrow> (string \<times> string) option" where
  "string_body acc s =
     (case s of
        [] \<Rightarrow> None
      | c # rest \<Rightarrow>
          if c = dq then Some (acc, rest)
          else if c \<noteq> bs then string_body (acc @ [c]) rest
          else (case rest of
                  [] \<Rightarrow> None
                | e # after \<Rightarrow>
                    (case simple_escape e of
                       Some x \<Rightarrow> string_body (acc @ [x]) after
                     | None \<Rightarrow>
                         if e \<noteq> CHR ''u'' then None
                         else (case hex_escape after of
                                 None \<Rightarrow> None
                               | Some x \<Rightarrow> string_body (acc @ [x]) (drop 4 after)))))"
  by pat_completeness auto
termination by (relation "measure (\<lambda>(acc, s). length s)") auto

declare string_body.simps [simp del]

definition parseString :: "string \<Rightarrow> (string \<times> string) option" where
  "parseString s = (case json_take dq s of None \<Rightarrow> None | Some rest \<Rightarrow> string_body [] rest)"

datatype 'a parsed = OutOfFuel | Refused | Parsed 'a string

definition of_option :: "('a \<times> string) option \<Rightarrow> 'a parsed" where
  "of_option r = (case r of None \<Rightarrow> Refused | Some (v, rest) \<Rightarrow> Parsed v rest)"

text \<open>The loops of an array and of an object, from their first item on, and the value.\<close>

fun json_parseValue :: "nat \<Rightarrow> string \<Rightarrow> json parsed"
and parse_items :: "nat \<Rightarrow> json list \<Rightarrow> string \<Rightarrow> json parsed"
and parse_fields :: "nat \<Rightarrow> (string \<times> json) list \<Rightarrow> string \<Rightarrow> json parsed" where
  "json_parseValue 0 s = OutOfFuel"
| "json_parseValue (Suc n) s =
     (case skipSpace s of
        [] \<Rightarrow> Refused
      | c # rest \<Rightarrow>
          if c = CHR ''{'' then
            (case json_take (CHR ''}'') rest of Some r \<Rightarrow> Parsed (JObject []) r | None \<Rightarrow> parse_fields n [] rest)
          else if c = CHR ''['' then
            (case json_take (CHR '']'') rest of Some r \<Rightarrow> Parsed (JArray []) r | None \<Rightarrow> parse_items n [] rest)
          else if c = dq then of_option (map_option (\<lambda>(v, r). (JString v, r)) (parseString (c # rest)))
          else if c = CHR ''t'' then of_option (parseWord ''true'' (JBool True) (c # rest))
          else if c = CHR ''f'' then of_option (parseWord ''false'' (JBool False) (c # rest))
          else if c = CHR ''n'' then of_option (parseWord ''null'' JNull (c # rest))
          else of_option (json_parseNumber (c # rest)))"
| "parse_items 0 items s = OutOfFuel"
| "parse_items (Suc n) items s =
     (case json_parseValue n s of
        OutOfFuel \<Rightarrow> OutOfFuel
      | Refused \<Rightarrow> Refused
      | Parsed item rest \<Rightarrow>
          (case json_take (CHR '','') rest of
             Some r \<Rightarrow> parse_items n (items @ [item]) r
           | None \<Rightarrow>
               (case json_take (CHR '']'') rest of
                  Some r \<Rightarrow> Parsed (JArray (items @ [item])) r
                | None \<Rightarrow> Refused)))"
| "parse_fields 0 fields s = OutOfFuel"
| "parse_fields (Suc n) fields s =
     (case parseString (skipSpace s) of
        None \<Rightarrow> Refused
      | Some (key, rest) \<Rightarrow>
          (case json_take (CHR '':'') rest of
             None \<Rightarrow> Refused
           | Some r1 \<Rightarrow>
               (case json_parseValue n r1 of
                  OutOfFuel \<Rightarrow> OutOfFuel
                | Refused \<Rightarrow> Refused
                | Parsed v r2 \<Rightarrow>
                    (case json_take (CHR '','') r2 of
                       Some r \<Rightarrow> parse_fields n (fields @ [(key, v)]) r
                     | None \<Rightarrow>
                         (case json_take (CHR ''}'') r2 of
                            Some r \<Rightarrow> Parsed (JObject (fields @ [(key, v)])) r
                          | None \<Rightarrow> Refused)))))"

definition json_fuel :: "string \<Rightarrow> nat" where
  "json_fuel s = 2 * length s + 1"

definition json_parse :: "string \<Rightarrow> json option" where
  "json_parse s =
     (case json_parseValue (json_fuel s) s of
        Parsed v rest \<Rightarrow> if skipSpace rest = [] then Some v else None
      | _ \<Rightarrow> None)"

section \<open>The parser ends\<close>

lemma length_skipSpace: "length (skipSpace s) \<le> length s"
  by (simp add: skipSpace_def length_dropWhile_le)

lemma json_take_shorter: "json_take c s = Some r \<Longrightarrow> length r < length s"
  using length_skipSpace [of s] by (auto simp: json_take_def split: list.splits if_splits)

lemma string_body_Nil [simp]: "string_body acc [] = None"
  by (subst string_body.simps) simp

lemma string_body_quote [simp]: "string_body acc (dq # rest) = Some (acc, rest)"
  by (subst string_body.simps) simp

lemma string_body_plain: "c \<noteq> dq \<Longrightarrow> c \<noteq> bs \<Longrightarrow> string_body acc (c # rest) = string_body (acc @ [c]) rest"
  by (subst string_body.simps) simp

lemma bs_not_dq [simp]: "bs \<noteq> dq" "dq \<noteq> bs"
  by (simp_all add: bs_def dq_def)

lemma string_body_escape:
  "string_body acc (bs # e # rest) =
     (case simple_escape e of
        Some x \<Rightarrow> string_body (acc @ [x]) rest
      | None \<Rightarrow> if e \<noteq> CHR ''u'' then None
                else (case hex_escape rest of None \<Rightarrow> None | Some x \<Rightarrow> string_body (acc @ [x]) (drop 4 rest)))"
  by (subst string_body.simps) simp

lemma string_body_bs [simp]: "string_body acc [bs] = None"
  by (subst string_body.simps) simp

lemma string_body_shorter: "string_body acc s = Some (v, r) \<Longrightarrow> length r < length s"
proof (induction "length s" arbitrary: acc s rule: less_induct)
  case less
  show ?case
  proof (cases s)
    case (Cons c rest)
    show ?thesis
    proof (cases "c = bs")
      case True
      with less.prems Cons obtain e after where rest: "rest = e # after" by (cases rest) auto
      have IH: "string_body acc' t = Some (v, r) \<Longrightarrow> length t \<le> length after \<Longrightarrow> length r < Suc (Suc (length after))" for acc' t
        using less.hyps [of t acc'] Cons rest by simp
      from less.prems Cons True rest show ?thesis
        by (auto simp: string_body_escape split: option.splits if_splits intro: IH)
    next
      case False
      with less.prems Cons less.hyps [of rest "acc @ [c]"] show ?thesis
        by (cases "c = dq") (auto simp: string_body_plain)
    qed
  qed (use less.prems in simp)
qed

lemma parseString_shorter: "parseString s = Some (v, r) \<Longrightarrow> length r < length s"
  by (auto simp: parseString_def split: option.splits dest!: json_take_shorter string_body_shorter)

lemma parseWord_shorter: "parseWord w j s = Some (v, r) \<Longrightarrow> w \<noteq> [] \<Longrightarrow> s \<noteq> [] \<Longrightarrow> length r < length s"
  by (cases s; cases w) (auto simp: parseWord_def split: if_splits)

lemma parseNumber_shorter: "json_parseNumber s = Some (v, r) \<Longrightarrow> length r < length s"
proof -
  assume p: "json_parseNumber s = Some (v, r)"
  have "length (dropWhile number_char t) < length t" if "list_ex is_digit (takeWhile number_char t)" for t
  proof -
    from that have "takeWhile number_char t \<noteq> []" by auto
    then show ?thesis using takeWhile_dropWhile_id [of number_char t] by (metis length_append less_add_same_cancel2 length_greater_0_conv)
  qed
  note shorter = this
  show ?thesis
  proof (cases s)
    case (Cons c u)
    with p show ?thesis
      using shorter [of u] shorter [of s] by (auto simp: json_parseNumber_def Let_def split: if_splits)
  qed (use p in \<open>simp add: json_parseNumber_def\<close>)
qed

lemma of_option_Parsed [simp]: "of_option r = Parsed v s \<longleftrightarrow> r = Some (v, s)" "of_option r \<noteq> OutOfFuel"
  by (auto simp: of_option_def split: option.splits)

lemma word_shorter:
  "parseWord ''true'' j (c # s) = Some (v, r) \<Longrightarrow> length r < Suc (length s)"
  "parseWord ''false'' j (c # s) = Some (v, r) \<Longrightarrow> length r < Suc (length s)"
  "parseWord ''null'' j (c # s) = Some (v, r) \<Longrightarrow> length r < Suc (length s)"
  by (auto dest: parseWord_shorter)

lemma string_shorter: "parseString (c # s) = Some (v, r) \<Longrightarrow> length r < Suc (length s)"
  using parseString_shorter [of "c # s" v r] by simp

lemma number_shorter: "json_parseNumber (c # s) = Some (v, r) \<Longrightarrow> length r < Suc (length s)"
  using parseNumber_shorter [of "c # s" v r] by simp

lemma parsed_shorter:
  "json_parseValue n s = Parsed v r \<Longrightarrow> length r < length s"
  "parse_items n items s = Parsed v r \<Longrightarrow> length r < length s"
  "parse_fields n fields s = Parsed v r \<Longrightarrow> length r < length s"
proof (induction n s and n items s and n fields s arbitrary: v r and v r and v r
    rule: json_parseValue_parse_items_parse_fields.induct)
  case (2 n s)
  then obtain c rest where c: "skipSpace s = c # rest" by (auto split: list.splits)
  have "length r < Suc (length rest)"
    using 2 c by (auto split: if_splits option.splits dest!: json_take_shorter word_shorter string_shorter number_shorter
        intro: less_SucI)
  with length_skipSpace [of s] c show ?case by simp
next
  case (4 n items s)
  from "4.prems" obtain item rest where item: "json_parseValue n s = Parsed item rest" by (auto split: parsed.splits)
  from "4.IH"(1) [OF this] have "length rest < length s" .
  then show ?case
  proof (cases "json_take (CHR '','') rest")
    case (Some a)
    with "4.prems" item have "parse_items n (items @ [item]) a = Parsed v r" by simp
    from "4.IH"(2) [OF item Some this] json_take_shorter [OF Some] \<open>length rest < length s\<close> show ?thesis by linarith
  qed (use "4.prems" item in \<open>auto split: option.splits dest!: json_take_shorter\<close>)
next
  case (6 n fields s)
  from "6.prems" obtain key rest where key: "parseString (skipSpace s) = Some (key, rest)" by (auto split: option.splits)
  with "6.prems" obtain r1 where r1: "json_take (CHR '':'') rest = Some r1" by (auto split: option.splits)
  with "6.prems" key obtain x r2 where x: "json_parseValue n r1 = Parsed x r2" by (auto split: parsed.splits)
  have "length r2 < length s"
    using "6.IH"(1) [OF key refl r1 x] parseString_shorter [OF key] json_take_shorter [OF r1] length_skipSpace [of s] by linarith
  then show ?case
  proof (cases "json_take (CHR '','') r2")
    case (Some a)
    with "6.prems" key r1 x have "parse_fields n (fields @ [(key, x)]) a = Parsed v r" by simp
    from "6.IH"(2) [OF key refl r1 x Some this] json_take_shorter [OF Some] \<open>length r2 < length s\<close> show ?thesis by linarith
  qed (use "6.prems" key r1 x in \<open>auto split: option.splits dest!: json_take_shorter\<close>)
qed simp_all

lemma enough_fuel:
  "2 * length s < n \<Longrightarrow> json_parseValue n s \<noteq> OutOfFuel"
  "2 * length s + 1 < n \<Longrightarrow> parse_items n items s \<noteq> OutOfFuel"
  "2 * length s + 1 < n \<Longrightarrow> parse_fields n fields s \<noteq> OutOfFuel"
proof (induction n s and n items s and n fields s rule: json_parseValue_parse_items_parse_fields.induct)
  case (2 n s)
  show ?case
  proof (cases "skipSpace s")
    case (Cons c rest)
    with length_skipSpace [of s] "2.prems" have "2 * length rest + 1 < n" by simp
    with 2 Cons show ?thesis by (auto split: option.splits)
  qed simp
next
  case (4 n items s)
  then have item: "json_parseValue n s \<noteq> OutOfFuel" by simp
  show ?case
  proof (cases "json_parseValue n s")
    case (Parsed item rest)
    show ?thesis
    proof (cases "json_take (CHR '','') rest")
      case (Some r)
      with parsed_shorter(1) [OF Parsed] json_take_shorter [OF Some] "4.prems" have "2 * length r + 1 < n" by linarith
      with "4.IH"(2) [OF Parsed Some] Parsed Some show ?thesis by simp
    qed (auto simp: Parsed split: option.splits)
  qed (use item in simp_all)
next
  case (6 n fields s)
  show ?case
  proof (cases "parseString (skipSpace s)")
    case (Some kr)
    obtain key rest where key: "parseString (skipSpace s) = Some (key, rest)" using Some by (cases kr) auto
    have rest: "length rest < length s" using parseString_shorter [OF key] length_skipSpace [of s] by linarith
    show ?thesis
    proof (cases "json_take (CHR '':'') rest")
      case (Some r1)
      have r1: "length r1 < length rest" by (rule json_take_shorter [OF Some])
      with rest "6.prems" have "2 * length r1 < n" by linarith
      note v = "6.IH"(1) [OF key refl Some this]
      show ?thesis
      proof (cases "json_parseValue n r1")
        case (Parsed x r2)
        show ?thesis
        proof (cases "json_take (CHR '','') r2")
          case Some': (Some r)
          with parsed_shorter(1) [OF Parsed] json_take_shorter [OF Some'] r1 rest "6.prems"
          have "2 * length r + 1 < n" by linarith
          with "6.IH"(2) [OF key refl Some Parsed Some'] key Some Parsed Some' show ?thesis by simp
        qed (auto simp: key Some Parsed split: option.splits)
      qed (use v key Some in simp_all)
    qed (simp add: key)
  qed simp
qed simp_all

lemma more_fuel:
  "json_parseValue n s \<noteq> OutOfFuel \<Longrightarrow> json_parseValue (n + k) s = json_parseValue n s"
  "parse_items n items s \<noteq> OutOfFuel \<Longrightarrow> parse_items (n + k) items s = parse_items n items s"
  "parse_fields n fields s \<noteq> OutOfFuel \<Longrightarrow> parse_fields (n + k) fields s = parse_fields n fields s"
proof (induction n s and n items s and n fields s rule: json_parseValue_parse_items_parse_fields.induct)
  case (2 n s)
  then show ?case by (auto split: list.splits if_splits option.splits)
next
  case (4 n items s)
  then show ?case by (auto split: parsed.splits option.splits)
next
  case (6 n fields s)
  then show ?case by (auto split: parsed.splits option.splits prod.splits)
qed simp_all

text \<open>
  The parser ends on every text: it never needs more steps than twice the length of the text
  and one, and what it answers does not depend on the steps it is given beyond that.
\<close>

theorem json_parse_ends:
  "json_parseValue (2 * length s + 1) s \<noteq> OutOfFuel \<and> json_parseValue (2 * length s + 1 + k) s = json_parseValue (2 * length s + 1) s"
  using enough_fuel(1) [of s "2 * length s + 1"] more_fuel(1) [of "2 * length s + 1" s k] by simp

section \<open>What is escaped reads back\<close>

lemma hex_value_low: "d < 16 \<Longrightarrow> hex_value (low_hex d) = Some d"
  by (simp add: hex_value_def low_hex_def Let_def)

lemma hex_value_zero [simp]: "hex_value (CHR ''0'') = Some 0"
  by (simp add: hex_value_def)

lemma hex_escape_control:
  assumes "n < 256"
  shows "hex_escape (''00'' @ [low_hex (n div 16), low_hex (n mod 16)] @ rest) = Some (char_of n)"
proof -
  have "hex_value (low_hex (n div 16)) = Some (n div 16)" "hex_value (low_hex (n mod 16)) = Some (n mod 16)"
    using assms by (auto intro: hex_value_low)
  moreover have "16 * int (n div 16) + int (n mod 16) = int n"
    using mult_div_mod_eq [of 16 n] by (metis of_nat_add of_nat_mult of_nat_numeral)
  ultimately have "strtoul16 (''00'' @ [low_hex (n div 16), low_hex (n mod 16)]) = Some (int n)"
    by (simp add: strtoul16_def c_space_def is_hex_def)
  then show ?thesis using assms by (simp add: hex_escape_def)
qed

lemma simple_escapes [simp]:
  "simple_escape dq = Some dq" "simple_escape bs = Some bs" "simple_escape (CHR ''b'') = Some (CHR 0x08)"
  "simple_escape (CHR ''f'') = Some (CHR 0x0C)" "simple_escape (CHR ''n'') = Some (CHR 0x0A)"
  "simple_escape (CHR ''r'') = Some (CHR 0x0D)" "simple_escape (CHR ''t'') = Some (CHR 0x09)"
  "simple_escape (CHR ''u'') = None"
  by (simp_all add: simple_escape_def dq_def bs_def)

lemma named_escapes:
  "json_escape_char dq = [bs, dq]" "json_escape_char bs = [bs, bs]" "json_escape_char (CHR 0x08) = bs # ''b''"
  "json_escape_char (CHR 0x0C) = bs # ''f''" "json_escape_char (CHR 0x0A) = bs # ''n''"
  "json_escape_char (CHR 0x0D) = bs # ''r''" "json_escape_char (CHR 0x09) = bs # ''t''"
  by (simp_all add: json_escape_char_def dq_def bs_def)

lemma string_body_escaped_char: "string_body acc (json_escape_char c @ rest) = string_body (acc @ [c]) rest"
proof (cases "c = dq \<or> c = bs \<or> c \<in> {CHR 0x08, CHR 0x0C, CHR 0x0A, CHR 0x0D, CHR 0x09}")
  case True
  then show ?thesis by (auto simp: named_escapes string_body_escape)
next
  case False
  note rest = this
  show ?thesis
  proof (cases "(of_char c :: nat) < 32")
    case True
    then have "hex_escape (CHR ''0'' # CHR ''0'' # low_hex ((of_char c :: nat) div 16) # low_hex (of_char c mod 16) # rest) = Some c"
      using hex_escape_control [of "of_char c" rest] by simp
    with True rest show ?thesis
      by (simp add: json_escape_char_def control_escape_def Let_def string_body_escape)
  next
    case False
    with rest show ?thesis by (simp add: json_escape_char_def string_body_plain)
  qed
qed

lemma string_body_escaped: "string_body acc (jsonEscape s @ dq # rest) = Some (acc @ s, rest)"
  by (induction s arbitrary: acc) (simp_all add: jsonEscape_def string_body_escaped_char)

lemma skipSpace_dq [simp]: "skipSpace (dq # rest) = dq # rest"
  by (simp add: skipSpace_def json_space_def dq_def)

lemma parseString_quoted [simp]: "parseString (jsonQuoted s @ rest) = Some (s, rest)"
  by (simp add: parseString_def json_take_def jsonQuoted_def string_body_escaped)

text \<open>Documents as they are written: the text of a value, and the value it is read as.\<close>

datatype doc = DText string | DBool bool | DNumber string | DArray "doc list" | DObject "(string \<times> doc) list"

fun commas :: "string list \<Rightarrow> string" where
  "commas [] = []"
| "commas [s] = s"
| "commas (s # t # ts) = s @ '','' @ commas (t # ts)"

fun spell :: "doc \<Rightarrow> string" where
  "spell (DText s) = jsonQuoted s"
| "spell (DBool b) = (if b then ''true'' else ''false'')"
| "spell (DNumber s) = s"
| "spell (DArray ds) = ''['' @ commas (map spell ds) @ '']''"
| "spell (DObject fs) = ''{'' @ commas (map (\<lambda>(k, d). jsonQuoted k @ '':'' @ spell d) fs) @ ''}''"

fun meaning :: "doc \<Rightarrow> json" where
  "meaning (DText s) = JString s"
| "meaning (DBool b) = JBool b"
| "meaning (DNumber s) = JNumber (strtod s)"
| "meaning (DArray ds) = JArray (map meaning ds)"
| "meaning (DObject fs) = JObject (map (\<lambda>(k, d). (k, meaning d)) fs)"

definition number_text :: "string \<Rightarrow> bool" where
  "number_text s \<longleftrightarrow> s \<noteq> [] \<and> (is_digit (hd s) \<or> hd s = CHR ''-'') \<and> list_all number_char s \<and> list_ex is_digit s"

fun well_spelled :: "doc \<Rightarrow> bool" where
  "well_spelled (DNumber s) \<longleftrightarrow> number_text s"
| "well_spelled (DArray ds) \<longleftrightarrow> list_all well_spelled ds"
| "well_spelled (DObject fs) \<longleftrightarrow> list_all (\<lambda>(k, d). well_spelled d) fs"
| "well_spelled _ \<longleftrightarrow> True"

definition no_number_follows :: "string \<Rightarrow> bool" where
  "no_number_follows rest \<longleftrightarrow> rest = [] \<or> \<not> number_char (hd rest)"

lemma takeWhile_number: "list_all number_char s \<Longrightarrow> no_number_follows rest \<Longrightarrow>
    takeWhile number_char (s @ rest) = s \<and> dropWhile number_char (s @ rest) = rest"
  by (induction s) (cases rest; simp add: no_number_follows_def)+

lemma digit_not_sign: "is_digit c \<Longrightarrow> c \<noteq> CHR ''-'' \<and> c \<noteq> CHR ''+''"
  by (auto simp: is_digit_def)

lemma parseNumber_text:
  assumes "number_text s" and "no_number_follows rest"
  shows "json_parseNumber (s @ rest) = Some (JNumber (strtod s), rest)"
proof -
  obtain c t where s: "s = c # t" using assms(1) by (cases s) (auto simp: number_text_def)
  show ?thesis
  proof (cases "is_digit c")
    case True
    with assms s takeWhile_number [of s rest] digit_not_sign [OF True] show ?thesis
      by (simp add: json_parseNumber_def number_text_def)
  next
    case False
    with assms s have "c = CHR ''-''" "list_all number_char t" "list_ex is_digit t"
      by (auto simp: number_text_def)
    with s takeWhile_number [of t rest] assms(2) show ?thesis by (simp add: json_parseNumber_def)
  qed
qed

lemma number_start:
  assumes "is_digit c \<or> c = CHR ''-''"
  shows "\<not> json_space c" "c \<noteq> CHR ''{''" "c \<noteq> CHR ''[''" "c \<noteq> dq" "c \<noteq> CHR ''t''" "c \<noteq> CHR ''f''" "c \<noteq> CHR ''n''"
  using assms by (auto simp: is_digit_def json_space_def dq_def)

definition parses :: "string \<Rightarrow> json \<Rightarrow> string \<Rightarrow> bool" where
  "parses s j rest \<longleftrightarrow> (\<exists>n. json_parseValue n s = Parsed j rest)"

lemma parses_more: "json_parseValue n s = Parsed j rest \<Longrightarrow> json_parseValue (n + k) s = Parsed j rest"
  using more_fuel(1) [of n s k] by simp

lemma parses_json_parse:
  assumes "parses s j rest" and "skipSpace rest = []"
  shows "json_parse s = Some j"
proof -
  obtain n where n: "json_parseValue n s = Parsed j rest" using assms(1) by (auto simp: parses_def)
  have "json_parseValue (json_fuel s + n) s = json_parseValue (json_fuel s) s"
    using more_fuel(1) [of "json_fuel s" s n] enough_fuel(1) [of s "json_fuel s"] by (simp add: json_fuel_def)
  moreover have "json_parseValue (json_fuel s + n) s = Parsed j rest"
    using parses_more [OF n, of "json_fuel s"] by (simp add: add.commute)
  ultimately have "json_parseValue (json_fuel s) s = Parsed j rest" by simp
  with assms(2) show ?thesis by (simp add: json_parse_def)
qed

lemma parsesI: "json_parseValue n s = Parsed j rest \<Longrightarrow> parses s j rest"
  by (auto simp: parses_def)

lemma take_here [simp]: "\<not> json_space c \<Longrightarrow> json_take d (c # rest) = (if c = d then Some rest else None)"
  by (simp add: json_take_def skipSpace_def)

lemma punctuation [simp]:
  "\<not> json_space (CHR '','')" "\<not> json_space (CHR '':'')" "\<not> json_space (CHR '']'')" "\<not> json_space (CHR ''}'')"
  "\<not> json_space (CHR ''['')" "\<not> json_space (CHR ''{'')" "\<not> json_space (CHR ''t'')" "\<not> json_space (CHR ''f'')" "\<not> json_space dq"
  by (simp_all add: json_space_def dq_def)

lemma no_number_punctuation [simp]:
  "no_number_follows (CHR '','' # rest)" "no_number_follows (CHR '']'' # rest)" "no_number_follows (CHR ''}'' # rest)"
  "no_number_follows []"
  by (simp_all add: no_number_follows_def number_char_def is_digit_def)

lemma brace_not_dq [simp]: "dq \<noteq> CHR ''}''"
  by (simp add: dq_def)

lemma skip_here: "\<not> json_space c \<Longrightarrow> skipSpace (c # rest) = c # rest"
  by (simp add: skipSpace_def)

lemma parses_items:
  assumes "\<And>d rest. d \<in> set ds \<Longrightarrow> no_number_follows rest \<Longrightarrow> parses (spell d @ rest) (meaning d) rest" and "ds \<noteq> []"
  shows "\<exists>n. parse_items n items (commas (map spell ds) @ CHR '']'' # rest) = Parsed (JArray (items @ map meaning ds)) rest"
  using assms
proof (induction ds arbitrary: items)
  case (Cons d ds)
  show ?case
  proof (cases ds)
    case Nil
    with Cons.prems(1) [of d "CHR '']'' # rest"] obtain n where "json_parseValue n (spell d @ CHR '']'' # rest) = Parsed (meaning d) (CHR '']'' # rest)"
      by (auto simp: parses_def)
    with Nil show ?thesis by (intro exI [of _ "Suc n"]) simp
  next
    case tail: (Cons e es)
    let ?tail = "commas (map spell ds) @ CHR '']'' # rest"
    obtain n where n: "parse_items n (items @ [meaning d]) ?tail = Parsed (JArray (items @ map meaning (d # ds))) rest"
      using Cons.IH [of "items @ [meaning d]"] Cons.prems(1) tail by auto
    from Cons.prems(1) [of d "CHR '','' # ?tail"] obtain k where
      k: "json_parseValue k (spell d @ CHR '','' # ?tail) = Parsed (meaning d) (CHR '','' # ?tail)"
      by (auto simp: parses_def)
    have "parse_items (n + k) (items @ [meaning d]) ?tail = Parsed (JArray (items @ map meaning (d # ds))) rest"
      using more_fuel(2) [of n "items @ [meaning d]" ?tail k] n by simp
    moreover have "json_parseValue (n + k) (spell d @ CHR '','' # ?tail) = Parsed (meaning d) (CHR '','' # ?tail)"
      using parses_more [OF k, of n] by (simp add: add.commute)
    moreover have "commas (map spell (d # ds)) @ CHR '']'' # rest = spell d @ CHR '','' # ?tail" using tail by simp
    ultimately show ?thesis by (intro exI [of _ "Suc (n + k)"]) simp
  qed
qed simp

lemma parses_fields:
  assumes "\<And>k d rest. (k, d) \<in> set fs \<Longrightarrow> no_number_follows rest \<Longrightarrow> parses (spell d @ rest) (meaning d) rest" and "fs \<noteq> []"
  shows "\<exists>n. parse_fields n fields (commas (map (\<lambda>(k, d). jsonQuoted k @ '':'' @ spell d) fs) @ (CHR ''}'' # rest))
     = Parsed (JObject (fields @ map (\<lambda>(k, d). (k, meaning d)) fs)) rest"
  using assms
proof (induction fs arbitrary: fields)
  case (Cons f fs)
  obtain key d where f: "f = (key, d)" by (cases f)
  have quoted: "skipSpace (jsonQuoted key @ r) = jsonQuoted key @ r" for r by (simp add: jsonQuoted_def)
  show ?case
  proof (cases fs)
    case Nil
    with Cons.prems(1) [of key d "CHR ''}'' # rest"] f obtain n where
      "json_parseValue n (spell d @ CHR ''}'' # rest) = Parsed (meaning d) (CHR ''}'' # rest)"
      by (auto simp: parses_def)
    with Nil f quoted show ?thesis by (intro exI [of _ "Suc n"]) simp
  next
    case tail: (Cons e es)
    let ?tail = "commas (map (\<lambda>(k, d). jsonQuoted k @ '':'' @ spell d) fs) @ CHR ''}'' # rest"
    let ?all = "JObject (fields @ map (\<lambda>(k, d). (k, meaning d)) (f # fs))"
    obtain n where n: "parse_fields n (fields @ [(key, meaning d)]) ?tail = Parsed ?all rest"
      using Cons.IH [of "fields @ [(key, meaning d)]"] Cons.prems(1) tail f by auto
    from Cons.prems(1) [of key d "CHR '','' # ?tail"] f obtain k where
      k: "json_parseValue k (spell d @ CHR '','' # ?tail) = Parsed (meaning d) (CHR '','' # ?tail)"
      by (auto simp: parses_def)
    have "parse_fields (n + k) (fields @ [(key, meaning d)]) ?tail = Parsed ?all rest"
      using more_fuel(3) [of n "fields @ [(key, meaning d)]" ?tail k] n by simp
    moreover have "json_parseValue (n + k) (spell d @ CHR '','' # ?tail) = Parsed (meaning d) (CHR '','' # ?tail)"
      using parses_more [OF k, of n] by (simp add: add.commute)
    moreover have "commas (map (\<lambda>(k, d). jsonQuoted k @ '':'' @ spell d) (f # fs)) @ CHR ''}'' # rest
        = jsonQuoted key @ CHR '':'' # spell d @ CHR '','' # ?tail"
      using tail f by (cases e) simp
    ultimately show ?thesis using quoted by (intro exI [of _ "Suc (n + k)"]) simp
  qed
qed simp

lemma spell_not_empty: "well_spelled d \<Longrightarrow> \<exists>c t. spell d = c # t \<and> \<not> json_space c \<and> c \<noteq> CHR '']''"
  by (cases d) (auto simp: jsonQuoted_def number_text_def is_digit_def json_space_def dq_def neq_Nil_conv)

lemma commas_start:
  assumes "ss \<noteq> []" and "hd ss \<noteq> []"
  shows "commas ss @ rest = hd (hd ss) # tl (commas ss @ rest)"
  using assms by (cases ss rule: commas.cases) (auto simp: neq_Nil_conv)

lemma parses_spell: "well_spelled d \<Longrightarrow> no_number_follows rest \<Longrightarrow> parses (spell d @ rest) (meaning d) rest"
proof (induction d arbitrary: rest)
  case (DText s)
  have "json_parseValue (Suc 0) (jsonQuoted s @ rest) = Parsed (JString s) rest"
    using parseString_quoted [of s rest] by (simp add: jsonQuoted_def dq_def skip_here json_space_def)
  from parsesI [OF this] show ?case by simp
next
  case (DBool b)
  have "json_parseValue (Suc 0) (spell (DBool b) @ rest) = Parsed (JBool b) rest"
    by (cases b) (simp_all add: skip_here parseWord_def of_option_def dq_def)
  from parsesI [OF this] show ?case by simp
next
  case (DNumber s)
  then obtain c t where s: "s = c # t" "is_digit c \<or> c = CHR ''-''" by (cases s) (auto simp: number_text_def)
  note start = number_start [OF s(2)]
  have "json_parseValue (Suc 0) (s @ rest) = Parsed (JNumber (strtod s)) rest"
    using parseNumber_text [of s rest] DNumber start s(1) by (simp add: skip_here of_option_def)
  from parsesI [OF this] show ?case by simp
next
  case (DArray ds)
  show ?case
  proof (cases "ds = []")
    case True
    have "json_parseValue (Suc 0) (''[]'' @ rest) = Parsed (JArray []) rest" by (simp add: skip_here)
    from parsesI [OF this] True show ?thesis by simp
  next
    case False
    then obtain d es where ds: "ds = d # es" by (cases ds) auto
    have ok: "well_spelled x" if "x \<in> set ds" for x using DArray.prems(1) that by (simp add: list_all_iff)
    obtain n where n: "parse_items n [] (commas (map spell ds) @ CHR '']'' # rest) = Parsed (JArray (map meaning ds)) rest"
      using parses_items [of ds "[]" rest] DArray.IH ok False by auto
    obtain c t where c: "spell d = c # t" "\<not> json_space c" "c \<noteq> CHR '']''"
      using spell_not_empty [of d] ok ds by auto
    have "commas (map spell ds) @ CHR '']'' # rest = c # tl (commas (map spell ds) @ CHR '']'' # rest)"
      using commas_start [of "map spell ds" "CHR '']'' # rest"] ds c(1) by simp
    then have "json_take (CHR '']'') (commas (map spell ds) @ CHR '']'' # rest) = None"
      using c(2,3) by (metis take_here)
    with n have "json_parseValue (Suc n) (spell (DArray ds) @ rest) = Parsed (JArray (map meaning ds)) rest"
      by (simp add: skip_here)
    from parsesI [OF this] show ?thesis by simp
  qed
next
  case (DObject fs)
  show ?case
  proof (cases "fs = []")
    case True
    have "json_parseValue (Suc 0) (''{}'' @ rest) = Parsed (JObject []) rest" by (simp add: skip_here)
    from parsesI [OF this] True show ?thesis by simp
  next
    case False
    let ?text = "commas (map (\<lambda>(k, d). jsonQuoted k @ '':'' @ spell d) fs) @ CHR ''}'' # rest"
    have ok: "well_spelled d" if "(k, d) \<in> set fs" for k d using DObject.prems(1) that by (auto simp: list_all_iff)
    have each: "parses (spell d @ r) (meaning d) r" if "(k, d) \<in> set fs" "no_number_follows r" for k d r
      by (rule DObject.IH [OF that(1) _ ok [OF that(1)] that(2)]) simp
    obtain n where n: "parse_fields n [] ?text = Parsed (JObject (map (\<lambda>(k, d). (k, meaning d)) fs)) rest"
      using parses_fields [of fs "[]" rest] each False by auto
    have "?text = dq # tl ?text"
      using commas_start [of "map (\<lambda>(k, d). jsonQuoted k @ '':'' @ spell d) fs" "CHR ''}'' # rest"] False
      by (cases fs) (auto simp: jsonQuoted_def split: prod.splits)
    then have "json_take (CHR ''}'') ?text = None" by (metis take_here punctuation(9) brace_not_dq)
    with n have "json_parseValue (Suc n) (spell (DObject fs) @ rest) = Parsed (JObject (map (\<lambda>(k, d). (k, meaning d)) fs)) rest"
      by (simp add: skip_here)
    from parsesI [OF this] show ?thesis by simp
  qed
qed

theorem spelled_document_parses: "well_spelled d \<Longrightarrow> json_parse (spell d) = Some (meaning d)"
  using parses_json_parse [OF parses_spell [of d "[]"]] by (simp add: skipSpace_def)

end
