(* ===== verification/EventSink.thy ===== *)
theory EventSink
  imports Json Format Journal
begin

text \<open>
  The event stream, core/src/journal/event_sink.cpp: a run as JSON objects, one per line, flushed as
  each thing happens. Each journal call is turned into its line by the Line builder, modelled
  with its text and its comma flag; the stream itself is the lines in order. The lemmas of this
  theory show that the builder writes a document of the schema of event_sink.hpp, whatever the
  texts hold; ConsoleEvents reads it back.
\<close>

section \<open>Numbers\<close>

text \<open>
  std::to_string of a double in C++26, which is std::format with an empty specification: the
  fewest digits that read back as the same double, in the shorter of fixed and scientific, and
  fixed when they are as long. The sign of a zero or of a NaN is not in the model of a double.
\<close>

definition short_candidate :: "rat \<Rightarrow> nat \<Rightarrow> (int \<times> int) option" where
  "short_candidate x n =
     (let e = ilog10 x - int n + 1; k = half_even (x / 10 powi e);
          same = (\<lambda>i. round_double (of_int i * 10 powi e) = round_double x)
      in if same k then Some (k, e) else if same (k + 1) then Some (k + 1, e) else None)"

fun first_candidate :: "rat \<Rightarrow> nat list \<Rightarrow> (int \<times> int) option" where
  "first_candidate x [] = None"
| "first_candidate x (n # ns) = (case short_candidate x n of None \<Rightarrow> first_candidate x ns | Some r \<Rightarrow> Some r)"

definition kMaxDigits :: nat where
  "kMaxDigits = 17"

text \<open>The significant digits, and the exponent of the first.\<close>

definition short_digits :: "rat \<Rightarrow> string \<times> int" where
  "short_digits x =
     (case first_candidate x [1..<kMaxDigits + 1] of
        None \<Rightarrow> (''0'', 0)
      | Some (k, e) \<Rightarrow>
          (let s = show_nat (nat k); ds = rev (dropWhile (\<lambda>c. c = CHR ''0'') (rev s))
           in (if ds = [] then ''0'' else ds, e + int (length s) - 1)))"

definition scientific :: "string \<Rightarrow> int \<Rightarrow> string" where
  "scientific ds e =
     take 1 ds @ (if length ds > 1 then CHR ''.'' # drop 1 ds else []) @ ''e'' @
     (if e < 0 then ''-'' else ''+'') @ pad_zeros 2 (show_nat (nat \<bar>e\<bar>))"

definition whole_part :: "rat \<Rightarrow> nat" where
  "whole_part x = (case round_double x of Fin v \<Rightarrow> nat \<lfloor>v\<rfloor> | _ \<Rightarrow> 0)"

definition fixed :: "rat \<Rightarrow> string \<Rightarrow> int \<Rightarrow> string" where
  "fixed x ds e =
     (if e < 0 then ''0.'' @ replicate (nat (- e) - 1) (CHR ''0'') @ ds
      else if int (length ds) \<le> e + 1 then show_nat (whole_part x)
      else take (nat e + 1) ds @ CHR ''.'' # drop (nat e + 1) ds)"

definition positive_text :: "rat \<Rightarrow> string" where
  "positive_text x =
     (let (ds, e) = short_digits x; f = fixed x ds e; s = scientific ds e
      in if length f \<le> length s then f else s)"

fun to_string_double :: "double \<Rightarrow> string" where
  "to_string_double (Fin v) =
     (if v = 0 then ''0'' else if v < 0 then CHR ''-'' # positive_text (- v) else positive_text v)"
| "to_string_double PosInf = ''inf''"
| "to_string_double NegInf = ''-inf''"
| "to_string_double NaN = ''nan''"

section \<open>The line builder\<close>

record Line =
  mText :: string
  mFirstNested :: bool

definition start_line :: "string \<Rightarrow> Line" where
  "start_line k = \<lparr>mText = ''{'' @ jsonQuoted ''kind'' @ '':'' @ jsonQuoted k, mFirstNested = True\<rparr>"

definition add_text :: "string \<Rightarrow> Line \<Rightarrow> Line" where
  "add_text s l = l\<lparr>mText := mText l @ s\<rparr>"

definition bool_text :: "bool \<Rightarrow> string" where
  "bool_text b = (if b then ''true'' else ''false'')"

definition field_text :: "string \<Rightarrow> string \<Rightarrow> Line \<Rightarrow> Line" where
  "field_text key v l = (if v \<noteq> [] then add_text ('','' @ jsonQuoted key @ '':'' @ jsonQuoted v) l else l)"

definition field_bool :: "string \<Rightarrow> bool \<Rightarrow> Line \<Rightarrow> Line" where
  "field_bool key v l = add_text ('','' @ jsonQuoted key @ '':'' @ bool_text v) l"

definition field_u64 :: "string \<Rightarrow> 64 word \<Rightarrow> Line \<Rightarrow> Line" where
  "field_u64 key v l = add_text ('','' @ jsonQuoted key @ '':'' @ show_nat (unat v)) l"

definition field_i64 :: "string \<Rightarrow> int \<Rightarrow> Line \<Rightarrow> Line" where
  "field_i64 key v l = add_text ('','' @ jsonQuoted key @ '':'' @ show_int v) l"

definition field_double :: "string \<Rightarrow> double option \<Rightarrow> Line \<Rightarrow> Line" where
  "field_double key v l =
     (case v of Some d \<Rightarrow> add_text ('','' @ jsonQuoted key @ '':'' @ to_string_double d) l | None \<Rightarrow> l)"

definition field_verdict :: "string \<Rightarrow> bool option \<Rightarrow> Line \<Rightarrow> Line" where
  "field_verdict key v l =
     (case v of Some b \<Rightarrow> add_text ('','' @ jsonQuoted key @ '':'' @ bool_text b) l | None \<Rightarrow> l)"

definition openObject :: "string \<Rightarrow> Line \<Rightarrow> Line" where
  "openObject key l = (add_text ('','' @ jsonQuoted key @ '':{'') l)\<lparr>mFirstNested := True\<rparr>"

definition nested_comma :: "Line \<Rightarrow> string" where
  "nested_comma l = (if mFirstNested l then [] else '','')"

definition nested_text :: "string \<Rightarrow> string \<Rightarrow> Line \<Rightarrow> Line" where
  "nested_text key v l =
     (if v \<noteq> []
      then (add_text (nested_comma l @ jsonQuoted key @ '':'' @ jsonQuoted v) l)\<lparr>mFirstNested := False\<rparr>
      else l)"

definition nested_bool :: "string \<Rightarrow> bool \<Rightarrow> Line \<Rightarrow> Line" where
  "nested_bool key v l =
     (add_text (nested_comma l @ jsonQuoted key @ '':'' @ bool_text v) l)\<lparr>mFirstNested := False\<rparr>"

text \<open>The values of an array after the first of them, each with its comma before it.\<close>

fun array_rest :: "bool \<Rightarrow> string list \<Rightarrow> string" where
  "array_rest is_first [] = []"
| "array_rest is_first (v # vs) = (if is_first then [] else '','') @ jsonQuoted v @ array_rest False vs"

definition nestedArray :: "string \<Rightarrow> string list \<Rightarrow> Line \<Rightarrow> Line" where
  "nestedArray key vs l =
     (if vs = [] then l
      else (add_text (nested_comma l @ jsonQuoted key @ '':['' @ array_rest True vs @ '']'') l)\<lparr>mFirstNested := False\<rparr>)"

definition closeObject :: "Line \<Rightarrow> Line" where
  "closeObject l = add_text ''}'' l"

definition writeTo :: "Line \<Rightarrow> string" where
  "writeTo l = mText l @ ''}'' @ [CHR 0x0A]"

section \<open>The sink\<close>

record LogFiles =
  Sarif :: string
  Rtf :: string

definition onRunStart :: "LogFiles \<Rightarrow> RunInfo \<Rightarrow> string" where
  "onRunStart logs info =
     (let line = start_line ''runStart'';
          line = openObject ''info'' line;
          line = nested_text ''frameworkName'' (FrameworkName info) line;
          line = nested_text ''frameworkVersion'' (FrameworkVersion info) line;
          line = nested_text ''frameworkRevision'' (FrameworkRevision info) line;
          line = nested_text ''criteriaVariant'' (CriteriaVariant info) line;
          line = nested_text ''criteriaMaster'' (CriteriaMaster info) line;
          line = nested_text ''dutName'' (DutName info) line;
          line = nested_text ''dutSerial'' (DutSerial info) line;
          line = nested_text ''rigName'' (RigName info) line;
          line = nested_text ''operator'' (RunOperator info) line;
          line = nested_text ''hostName'' (HostName info) line;
          line = nested_text ''commandLine'' (CommandLine info) line;
          line = nested_text ''suiteVersion'' (SuiteVersion info) line;
          line = nested_text ''dutVersion'' (DutVersion info) line;
          line = nested_text ''rigVersion'' (RigVersion info) line;
          line = nested_text ''startedUtc'' (StartedUtc info) line;
          line = nested_text ''startedLocal'' (StartedLocal info) line;
          line = nested_bool ''benchAttached'' (BenchAttached info) line;
          line = nestedArray ''instruments'' (Instruments info) line;
          line = closeObject line;
          line = (if Sarif logs \<noteq> [] \<or> Rtf logs \<noteq> []
                  then closeObject (nested_text ''rtf'' (Rtf logs) (nested_text ''sarif'' (Sarif logs) (openObject ''logs'' line)))
                  else line)
      in writeTo line)"

definition onGroupStart :: "string \<Rightarrow> string \<Rightarrow> string" where
  "onGroupStart grp desc = writeTo (field_text ''description'' desc (field_text ''group'' grp (start_line ''groupStart'')))"

definition onGroupEnd :: "string \<Rightarrow> string" where
  "onGroupEnd grp = writeTo (field_text ''group'' grp (start_line ''groupEnd''))"

definition onTestStart :: "string \<Rightarrow> string \<Rightarrow> string" where
  "onTestStart test desc = writeTo (field_text ''description'' desc (field_text ''test'' test (start_line ''testStart'')))"

definition onPhaseStart :: "string \<Rightarrow> string \<Rightarrow> string \<Rightarrow> string" where
  "onPhaseStart grp phase title =
     writeTo (field_text ''title'' title (field_text ''phase'' phase (field_text ''group'' grp (start_line ''phaseStart''))))"

definition onPhaseEnd :: "string \<Rightarrow> string" where
  "onPhaseEnd phase = writeTo (field_text ''phase'' phase (start_line ''phaseEnd''))"

definition onEvent :: "JournalEvent \<Rightarrow> string" where
  "onEvent event =
     (let line = start_line ''event'';
          line = field_text ''verb'' (to_string_verb (Method event)) line;
          line = field_u64 ''sequence'' (Sequence event) line;
          line = field_text ''timeUtc'' (TimeUtc event) line;
          line = field_i64 ''wallClockMs'' (WallClockUnixMillis event) line;
          line = field_text ''group'' (Group event) line;
          line = field_text ''test'' (Test event) line;
          line = field_text ''phase'' (Phase event) line;
          line = field_text ''subject'' (Subject event) line;
          line = field_text ''subjectGroup'' (SubjectGroup event) line;
          line = field_text ''detail'' (Detail event) line;
          line = field_text ''instrument'' (Instrument event) line;
          line = field_text ''value'' (Value event) line;
          line = field_double ''numeric'' (Numeric event) line;
          line = field_text ''unit'' (Unit event) line;
          line = field_text ''criterionText'' (CriterionText event) line;
          line = field_verdict ''passed'' (Passed event) line
      in writeTo line)"

definition onTestEnd :: "string \<Rightarrow> string \<Rightarrow> bool \<Rightarrow> string" where
  "onTestEnd grp test passed =
     writeTo (field_bool ''passed'' passed (field_text ''test'' test (field_text ''group'' grp (start_line ''testEnd''))))"

definition onRunEnd :: "bool \<Rightarrow> string" where
  "onRunEnd allPassed = writeTo (field_bool ''allPassed'' allPassed (start_line ''runEnd''))"

fun sink_line :: "LogFiles \<Rightarrow> SinkCall \<Rightarrow> string" where
  "sink_line logs (OnRunStart info) = onRunStart logs info"
| "sink_line logs (OnGroupStart grp desc) = onGroupStart grp desc"
| "sink_line logs (OnGroupEnd grp) = onGroupEnd grp"
| "sink_line logs (OnTestStart test desc) = onTestStart test desc"
| "sink_line logs (OnPhaseStart grp phase title) = onPhaseStart grp phase title"
| "sink_line logs (OnPhaseEnd phase) = onPhaseEnd phase"
| "sink_line logs (OnEvent event) = onEvent event"
| "sink_line logs (OnTestEnd grp test passed) = onTestEnd grp test passed"
| "sink_line logs (OnRunEnd allPassed) = onRunEnd allPassed"

text \<open>The stream of a run: the lines of its calls, in their order.\<close>

definition stream_text :: "LogFiles \<Rightarrow> SinkCall list \<Rightarrow> string" where
  "stream_text logs calls = concat (map (sink_line logs) calls)"


section \<open>The document a line spells\<close>

text \<open>The schema of event_sink.hpp: empty texts, empty lists and unset options are left out.\<close>

definition if_text :: "string \<Rightarrow> string \<Rightarrow> (string \<times> doc) list" where
  "if_text key v = (if v = [] then [] else [(key, DText v)])"

definition if_list :: "string \<Rightarrow> string list \<Rightarrow> (string \<times> doc) list" where
  "if_list key vs = (if vs = [] then [] else [(key, DArray (map DText vs))])"

definition if_number :: "string \<Rightarrow> double option \<Rightarrow> (string \<times> doc) list" where
  "if_number key v = (case v of Some d \<Rightarrow> [(key, DNumber (to_string_double d))] | None \<Rightarrow> [])"

definition if_verdict :: "string \<Rightarrow> bool option \<Rightarrow> (string \<times> doc) list" where
  "if_verdict key v = (case v of Some b \<Rightarrow> [(key, DBool b)] | None \<Rightarrow> [])"

definition info_fields :: "RunInfo \<Rightarrow> (string \<times> doc) list" where
  "info_fields info =
     if_text ''frameworkName'' (FrameworkName info) @ if_text ''frameworkVersion'' (FrameworkVersion info) @
     if_text ''frameworkRevision'' (FrameworkRevision info) @ if_text ''criteriaVariant'' (CriteriaVariant info) @
     if_text ''criteriaMaster'' (CriteriaMaster info) @ if_text ''dutName'' (DutName info) @
     if_text ''dutSerial'' (DutSerial info) @ if_text ''rigName'' (RigName info) @
     if_text ''operator'' (RunOperator info) @ if_text ''hostName'' (HostName info) @
     if_text ''commandLine'' (CommandLine info) @ if_text ''suiteVersion'' (SuiteVersion info) @
     if_text ''dutVersion'' (DutVersion info) @ if_text ''rigVersion'' (RigVersion info) @
     if_text ''startedUtc'' (StartedUtc info) @ if_text ''startedLocal'' (StartedLocal info) @
     [(''benchAttached'', DBool (BenchAttached info))] @ if_list ''instruments'' (Instruments info)"

definition logs_fields :: "LogFiles \<Rightarrow> (string \<times> doc) list" where
  "logs_fields logs =
     (if Sarif logs = [] \<and> Rtf logs = [] then []
      else [(''logs'', DObject (if_text ''sarif'' (Sarif logs) @ if_text ''rtf'' (Rtf logs)))])"

definition before_numeric :: "JournalEvent \<Rightarrow> (string \<times> doc) list" where
  "before_numeric event =
     if_text ''verb'' (to_string_verb (Method event)) @
     [(''sequence'', DNumber (show_nat (unat (Sequence event))))] @ if_text ''timeUtc'' (TimeUtc event) @
     [(''wallClockMs'', DNumber (show_int (WallClockUnixMillis event)))] @ if_text ''group'' (Group event) @
     if_text ''test'' (Test event) @ if_text ''phase'' (Phase event) @ if_text ''subject'' (Subject event) @
     if_text ''subjectGroup'' (SubjectGroup event) @ if_text ''detail'' (Detail event) @
     if_text ''instrument'' (Instrument event) @ if_text ''value'' (Value event)"

definition after_numeric :: "JournalEvent \<Rightarrow> (string \<times> doc) list" where
  "after_numeric event =
     if_text ''unit'' (Unit event) @ if_text ''criterionText'' (CriterionText event) @ if_verdict ''passed'' (Passed event)"

fun schema :: "LogFiles \<Rightarrow> SinkCall \<Rightarrow> (string \<times> doc) list" where
  "schema logs (OnRunStart info) =
     [(''kind'', DText ''runStart''), (''info'', DObject (info_fields info))] @ logs_fields logs"
| "schema logs (OnGroupStart grp desc) = [(''kind'', DText ''groupStart'')] @ if_text ''group'' grp @ if_text ''description'' desc"
| "schema logs (OnGroupEnd grp) = [(''kind'', DText ''groupEnd'')] @ if_text ''group'' grp"
| "schema logs (OnTestStart test desc) = [(''kind'', DText ''testStart'')] @ if_text ''test'' test @ if_text ''description'' desc"
| "schema logs (OnPhaseStart grp phase title) =
     [(''kind'', DText ''phaseStart'')] @ if_text ''group'' grp @ if_text ''phase'' phase @ if_text ''title'' title"
| "schema logs (OnPhaseEnd phase) = [(''kind'', DText ''phaseEnd'')] @ if_text ''phase'' phase"
| "schema logs (OnEvent event) =
     [(''kind'', DText ''event'')] @ before_numeric event @ if_number ''numeric'' (Numeric event) @ after_numeric event"
| "schema logs (OnTestEnd grp test passed) =
     [(''kind'', DText ''testEnd'')] @ if_text ''group'' grp @ if_text ''test'' test @ [(''passed'', DBool passed)]"
| "schema logs (OnRunEnd allPassed) = [(''kind'', DText ''runEnd''), (''allPassed'', DBool allPassed)]"

section \<open>The builder writes the document\<close>

abbreviation spelled_field :: "string \<times> doc \<Rightarrow> string" where
  "spelled_field f \<equiv> (case f of (k, d) \<Rightarrow> jsonQuoted k @ '':'' @ spell d)"

lemma commas_append: "ss \<noteq> [] \<Longrightarrow> commas (ss @ [s]) = commas ss @ '','' @ s"
  by (induction ss rule: commas.induct) simp_all

lemma commas_eq_Nil: "commas (map spelled_field fs) = [] \<longleftrightarrow> fs = []"
  by (cases "map spelled_field fs" rule: commas.cases) (auto simp: jsonQuoted_def)

definition builds :: "Line \<Rightarrow> (string \<times> doc) list \<Rightarrow> bool" where
  "builds l fs \<longleftrightarrow> fs \<noteq> [] \<and> mText l = ''{'' @ commas (map spelled_field fs)"

definition nests :: "Line \<Rightarrow> (string \<times> doc) list \<Rightarrow> string \<Rightarrow> (string \<times> doc) list \<Rightarrow> bool" where
  "nests l fs key gs \<longleftrightarrow>
     fs \<noteq> [] \<and> (mFirstNested l \<longleftrightarrow> gs = []) \<and>
     mText l = ''{'' @ commas (map spelled_field fs) @ '','' @ jsonQuoted key @ '':{'' @ commas (map spelled_field gs)"

lemma builds_start: "builds (start_line k) [(''kind'', DText k)]"
  by (simp add: builds_def start_line_def)

lemma builds_add: "builds l fs \<Longrightarrow> builds (add_text ('','' @ jsonQuoted key @ '':'' @ spell d) l) (fs @ [(key, d)])"
  by (simp add: builds_def add_text_def commas_append)

lemma builds_text: "builds l fs \<Longrightarrow> builds (field_text key v l) (fs @ if_text key v)"
  using builds_add [of l fs key "DText v"] by (simp add: field_text_def if_text_def)

lemma builds_bool: "builds l fs \<Longrightarrow> builds (field_bool key v l) (fs @ [(key, DBool v)])"
  using builds_add [of l fs key "DBool v"] by (simp add: field_bool_def bool_text_def)

lemma builds_u64: "builds l fs \<Longrightarrow> builds (field_u64 key v l) (fs @ [(key, DNumber (show_nat (unat v)))])"
  using builds_add [of l fs key "DNumber (show_nat (unat v))"] by (simp add: field_u64_def)

lemma builds_i64: "builds l fs \<Longrightarrow> builds (field_i64 key v l) (fs @ [(key, DNumber (show_int v))])"
  using builds_add [of l fs key "DNumber (show_int v)"] by (simp add: field_i64_def)

lemma builds_double: "builds l fs \<Longrightarrow> builds (field_double key v l) (fs @ if_number key v)"
  using builds_add [of l fs key "DNumber (to_string_double (the v))"]
  by (auto simp: field_double_def if_number_def split: option.split)

lemma builds_verdict: "builds l fs \<Longrightarrow> builds (field_verdict key v l) (fs @ if_verdict key v)"
  using builds_add [of l fs key "DBool (the v)"]
  by (auto simp: field_verdict_def if_verdict_def bool_text_def split: option.split)

lemma nests_open: "builds l fs \<Longrightarrow> nests (openObject key l) fs key []"
  by (simp add: builds_def nests_def openObject_def add_text_def)

lemma nests_add:
  "nests l fs key gs \<Longrightarrow>
     nests ((add_text (nested_comma l @ jsonQuoted k @ '':'' @ spell d) l)\<lparr>mFirstNested := False\<rparr>) fs key (gs @ [(k, d)])"
  by (auto simp: nests_def nested_comma_def add_text_def commas_append)

lemma nests_text: "nests l fs key gs \<Longrightarrow> nests (nested_text k v l) fs key (gs @ if_text k v)"
  using nests_add [of l fs key gs k "DText v"] by (simp add: nested_text_def if_text_def)

lemma nests_bool: "nests l fs key gs \<Longrightarrow> nests (nested_bool k v l) fs key (gs @ [(k, DBool v)])"
  using nests_add [of l fs key gs k "DBool v"] by (simp add: nested_bool_def bool_text_def)

lemma array_rest_False: "array_rest False vs = concat (map (\<lambda>v. '','' @ jsonQuoted v) vs)"
  by (induction vs) simp_all

lemma array_rest_commas: "array_rest True vs = commas (map jsonQuoted vs)"
proof (cases vs)
  case (Cons v ws)
  have "jsonQuoted v @ array_rest False ws = commas (map jsonQuoted (v # ws))"
    by (induction ws arbitrary: v) simp_all
  with Cons show ?thesis by simp
qed simp

lemma nests_array: "nests l fs key gs \<Longrightarrow> nests (nestedArray k vs l) fs key (gs @ if_list k vs)"
  using nests_add [of l fs key gs k "DArray (map DText vs)"]
  by (simp add: nestedArray_def if_list_def array_rest_commas comp_def)

lemma builds_close: "nests l fs key gs \<Longrightarrow> builds (closeObject l) (fs @ [(key, DObject gs)])"
  by (simp add: nests_def builds_def closeObject_def add_text_def commas_append)

lemma writeTo_spells: "builds l fs \<Longrightarrow> writeTo l = spell (DObject fs) @ [CHR 0x0A]"
  by (simp add: writeTo_def builds_def)

lemmas built =
  builds_close builds_text builds_bool builds_u64 builds_i64 builds_double builds_verdict builds_start
  nests_text nests_bool nests_array nests_open

lemma line_spells: "builds l fs \<Longrightarrow> fs = gs \<Longrightarrow> writeTo l = spell (DObject gs) @ [CHR 0x0A]"
  by (simp add: writeTo_spells)

lemma onRunStart_spells: "onRunStart logs info = spell (DObject (schema logs (OnRunStart info))) @ [CHR 0x0A]"
proof (cases "Sarif logs = [] \<and> Rtf logs = []")
  case True
  then have plain: "\<not> (Sarif logs \<noteq> [] \<or> Rtf logs \<noteq> [])" by simp
  show ?thesis
    unfolding onRunStart_def Let_def if_not_P [OF plain]
    by (rule line_spells, (rule built)+) (use True in \<open>simp add: info_fields_def logs_fields_def\<close>)
next
  case False
  then have logged: "Sarif logs \<noteq> [] \<or> Rtf logs \<noteq> []" by simp
  show ?thesis
    unfolding onRunStart_def Let_def if_P [OF logged]
    by (rule line_spells, (rule built)+) (use False in \<open>simp add: info_fields_def logs_fields_def\<close>)
qed

lemma onEvent_spells: "onEvent event = spell (DObject (schema logs (OnEvent event))) @ [CHR 0x0A]"
  unfolding onEvent_def Let_def
  by (rule line_spells, (rule built)+) (simp add: before_numeric_def after_numeric_def)

lemma short_lines_spell:
  "onGroupStart grp desc = spell (DObject (schema logs (OnGroupStart grp desc))) @ [CHR 0x0A]"
  "onGroupEnd grp = spell (DObject (schema logs (OnGroupEnd grp))) @ [CHR 0x0A]"
  "onTestStart test desc = spell (DObject (schema logs (OnTestStart test desc))) @ [CHR 0x0A]"
  "onPhaseStart grp phase title = spell (DObject (schema logs (OnPhaseStart grp phase title))) @ [CHR 0x0A]"
  "onPhaseEnd phase = spell (DObject (schema logs (OnPhaseEnd phase))) @ [CHR 0x0A]"
  "onTestEnd grp test passed = spell (DObject (schema logs (OnTestEnd grp test passed))) @ [CHR 0x0A]"
  "onRunEnd allPassed = spell (DObject (schema logs (OnRunEnd allPassed))) @ [CHR 0x0A]"
  unfolding onGroupStart_def onGroupEnd_def onTestStart_def onPhaseStart_def onPhaseEnd_def onTestEnd_def onRunEnd_def
  by (rule line_spells, (rule built)+, simp)+

lemma sink_line_text: "sink_line logs call = spell (DObject (schema logs call)) @ [CHR 0x0A]"
  by (cases call)
    (simp_all only: sink_line.simps onRunStart_spells onEvent_spells [where logs = logs] short_lines_spell [where logs = logs])

text \<open>
  Every line of the stream is the object the schema names for its call, ended by a line feed: the
  fields set, in the order of the schema, whatever characters they hold.
\<close>

theorem sink_line_spells_schema: "sink_line logs call = spell (DObject (schema logs call)) @ [CHR 0x0A]"
  by (rule sink_line_text)

section \<open>Every line with finite numbers is well formed\<close>

lemma number_text_digits:
  "is_digit (hd s) \<Longrightarrow> s \<noteq> [] \<Longrightarrow> list_all number_char s \<Longrightarrow> number_text s"
  by (cases s) (auto simp: number_text_def)

lemma digits_number_chars: "list_all is_digit s \<Longrightarrow> list_all number_char s"
  by (auto simp: list_all_iff number_char_def)

lemma number_text_show_nat: "number_text (show_nat n)"
  by (rule number_text_digits) (simp_all add: show_nat_hd digits_number_chars)

lemma number_text_minus: "number_text s \<Longrightarrow> number_text (CHR ''-'' # s)"
  by (auto simp: number_text_def number_char_def)

lemma number_text_show_int: "number_text (show_int i)"
  by (simp add: show_int_def number_text_show_nat number_text_minus)

lemma short_digits_digits:
  assumes "short_digits x = (ds, e)"
  shows "ds \<noteq> [] \<and> list_all is_digit ds"
proof -
  let ?stripped = "\<lambda>k. rev (dropWhile (\<lambda>c. c = CHR ''0'') (rev (show_nat (nat k))))"
  have stripped: "list_all is_digit (?stripped k)" for k
    using show_nat_digits [of _ "nat k"] by (auto simp: list_all_iff dest!: set_dropWhileD)
  have zero: "is_digit (CHR ''0'')" by (simp add: is_digit_def)
  show ?thesis
  proof (cases "first_candidate x [1..<kMaxDigits + 1]")
    case None
    with assms zero show ?thesis by (auto simp: short_digits_def)
  next
    case (Some ke)
    obtain k e' where "ke = (k, e')" by (cases ke)
    with Some assms have "ds = (if ?stripped k = [] then ''0'' else ?stripped k)"
      by (simp add: short_digits_def Let_def)
    with stripped [of k] zero show ?thesis by (cases "?stripped k = []") simp_all
  qed
qed

lemma list_all_take_drop: "list_all P s \<Longrightarrow> list_all P (take n s) \<and> list_all P (drop n s)"
  by (auto simp: list_all_iff dest: in_set_takeD in_set_dropD)

lemma number_char_0 [simp]: "number_char (CHR ''0'')" "is_digit (CHR ''0'')"
  by (simp_all add: number_char_def is_digit_def)

lemma number_char_punctuation [simp]:
  "number_char (CHR ''.'')" "number_char (CHR ''e'')" "number_char (CHR ''-'')" "number_char (CHR ''+'')"
  by (simp_all add: number_char_def)

lemma number_text_fixed:
  assumes "ds \<noteq> []" and "list_all is_digit ds"
  shows "number_text (fixed x ds e)"
proof -
  note parts = list_all_take_drop [OF digits_number_chars [OF assms(2)]]
  have "list_all number_char (show_nat n)" for n by (rule digits_number_chars) simp
  moreover have "is_digit (hd ds)" using assms by (cases ds) auto
  moreover have "list_all number_char (replicate k (CHR ''0''))" for k by (simp add: list_all_iff)
  ultimately show ?thesis
    using assms parts digits_number_chars [OF assms(2)] number_text_show_nat
    by (auto simp: fixed_def intro!: number_text_digits)
qed

lemma number_text_scientific:
  assumes "ds \<noteq> []" and "list_all is_digit ds"
  shows "number_text (scientific ds e)"
proof -
  note parts = list_all_take_drop [OF digits_number_chars [OF assms(2)]]
  have "list_all number_char (pad_zeros 2 (show_nat n))" for n
    by (auto simp: pad_zeros_def list_all_iff intro: show_nat_digits dest: show_nat_digits simp: number_char_def)
  moreover obtain c t where "ds = c # t" "is_digit c" using assms by (cases ds) auto
  ultimately show ?thesis using parts [of 1] by (auto simp: scientific_def intro!: number_text_digits)
qed

lemma number_text_double: "number_text (to_string_double (Fin v))"
proof -
  have "number_text (positive_text x)" for x
    using short_digits_digits [of x] number_text_fixed number_text_scientific
    by (auto simp: positive_text_def Let_def split: prod.split)
  moreover have "number_text ''0''" by (simp add: number_text_def)
  ultimately show ?thesis by (simp add: number_text_minus)
qed

definition number_is_finite :: "double option \<Rightarrow> bool" where
  "number_is_finite v = (case v of None \<Rightarrow> True | Some (Fin x) \<Rightarrow> True | _ \<Rightarrow> False)"

fun numbers_finite :: "SinkCall \<Rightarrow> bool" where
  "numbers_finite (OnEvent event) = number_is_finite (Numeric event)"
| "numbers_finite _ = True"

lemma well_spelled_parts [simp]:
  "list_all (\<lambda>(k, d). well_spelled d) (if_text key t)"
  "list_all (\<lambda>(k, d). well_spelled d) (if_list key ts)"
  "list_all (\<lambda>(k, d). well_spelled d) (if_verdict key b)"
  "number_is_finite v \<Longrightarrow> list_all (\<lambda>(k, d). well_spelled d) (if_number key v)"
  by (auto simp: if_text_def if_list_def if_verdict_def if_number_def list_all_iff number_is_finite_def number_text_double
      simp del: to_string_double.simps split: option.splits double.splits)

lemma well_spelled_schema: "numbers_finite call \<Longrightarrow> well_spelled (DObject (schema logs call))"
  by (cases call) (auto simp: info_fields_def logs_fields_def before_numeric_def after_numeric_def
      number_text_show_nat number_text_show_int)

end
