(* ===== verification/ConsoleEvents.thy ===== *)
theory ConsoleEvents
  imports EventSink
begin

text \<open>
  The console's end of the event stream, webui/src/protocol/events.cpp: one line decoded, and the
  reader that holds the partial line between two reads of the pipe. The theorems compose it with
  the sink of the theory EventSink: what the run told its journal is what the console is told, however
  the pipe cuts the text.
\<close>

section \<open>Events\<close>

datatype EventKind =
    KindRunStart | KindGroupStart | KindGroupEnd | KindTestStart | KindTestEnd | KindPhaseStart
  | KindPhaseEnd | KindEvent | KindRunEnd | KindUnknown

record RunHeader =
  HdrDutName :: string
  HdrDutSerial :: string
  HdrRigName :: string
  HdrCriteriaVariant :: string
  HdrCriteriaMaster :: string
  HdrOperator :: string
  HdrStartedLocal :: string
  HdrCommandLine :: string
  HdrInstruments :: "string list"
  HdrBenchAttached :: bool

record RunEvent =
  Which :: EventKind
  EvGroup :: string
  EvTest :: string
  EvPhase :: string
  EvDescription :: string
  EvTitle :: string
  EvVerb :: string
  EvSubject :: string
  EvSubjectGroup :: string
  EvDetail :: string
  EvInstrument :: string
  EvValue :: string
  EvUnit :: string
  EvCriterionText :: string
  EvNumeric :: "double option"
  EvPassed :: "bool option"
  EvHeader :: RunHeader
  EvSarifLog :: string
  EvRtfLog :: string

definition default_header :: RunHeader where
  "default_header =
     \<lparr>HdrDutName = [], HdrDutSerial = [], HdrRigName = [], HdrCriteriaVariant = [], HdrCriteriaMaster = [],
      HdrOperator = [], HdrStartedLocal = [], HdrCommandLine = [], HdrInstruments = [], HdrBenchAttached = True\<rparr>"

definition default_event :: RunEvent where
  "default_event =
     \<lparr>Which = KindUnknown, EvGroup = [], EvTest = [], EvPhase = [], EvDescription = [], EvTitle = [], EvVerb = [],
      EvSubject = [], EvSubjectGroup = [], EvDetail = [], EvInstrument = [], EvValue = [], EvUnit = [],
      EvCriterionText = [], EvNumeric = None, EvPassed = None, EvHeader = default_header, EvSarifLog = [], EvRtfLog = []\<rparr>"

section \<open>One line\<close>

definition kindFrom :: "string \<Rightarrow> EventKind" where
  "kindFrom name =
     (if name = ''runStart'' then KindRunStart else if name = ''groupStart'' then KindGroupStart
      else if name = ''groupEnd'' then KindGroupEnd else if name = ''testStart'' then KindTestStart
      else if name = ''testEnd'' then KindTestEnd else if name = ''phaseStart'' then KindPhaseStart
      else if name = ''phaseEnd'' then KindPhaseEnd else if name = ''event'' then KindEvent
      else if name = ''runEnd'' then KindRunEnd else KindUnknown)"

definition optionalBool :: "json \<Rightarrow> string \<Rightarrow> bool option" where
  "optionalBool object key = (case json_at object key of Some (JBool b) \<Rightarrow> Some b | _ \<Rightarrow> None)"

definition optionalNumber :: "json \<Rightarrow> string \<Rightarrow> double option" where
  "optionalNumber object key = (case json_at object key of Some (JNumber d) \<Rightarrow> Some d | _ \<Rightarrow> None)"

definition readHeader :: "json \<Rightarrow> RunHeader" where
  "readHeader info =
     \<lparr>HdrDutName = json_textAt info ''dutName'' [], HdrDutSerial = json_textAt info ''dutSerial'' [],
      HdrRigName = json_textAt info ''rigName'' [], HdrCriteriaVariant = json_textAt info ''criteriaVariant'' [],
      HdrCriteriaMaster = json_textAt info ''criteriaMaster'' [], HdrOperator = json_textAt info ''operator'' [],
      HdrStartedLocal = json_textAt info ''startedLocal'' [], HdrCommandLine = json_textAt info ''commandLine'' [],
      HdrInstruments = (case json_at info ''instruments'' of
                          Some instruments \<Rightarrow> map (\<lambda>line. json_text line []) (json_items instruments)
                        | None \<Rightarrow> []),
      HdrBenchAttached = json_boolAt info ''benchAttached'' True\<rparr>"

definition parseEvent :: "string \<Rightarrow> RunEvent option" where
  "parseEvent line =
     (case json_parse line of
        Some (JObject entries) \<Rightarrow>
          (let document = JObject entries in
           case json_at document ''kind'' of
             None \<Rightarrow> None
           | Some kind_field \<Rightarrow>
               (let which = kindFrom (json_text kind_field []);
                    event = default_event
                      \<lparr>Which := which, EvGroup := json_textAt document ''group'' [], EvTest := json_textAt document ''test'' [],
                       EvPhase := json_textAt document ''phase'' [], EvDescription := json_textAt document ''description'' [],
                       EvTitle := json_textAt document ''title'' [], EvVerb := json_textAt document ''verb'' [],
                       EvSubject := json_textAt document ''subject'' [], EvSubjectGroup := json_textAt document ''subjectGroup'' [],
                       EvDetail := json_textAt document ''detail'' [], EvInstrument := json_textAt document ''instrument'' [],
                       EvValue := json_textAt document ''value'' [], EvUnit := json_textAt document ''unit'' [],
                       EvCriterionText := json_textAt document ''criterionText'' [],
                       EvNumeric := optionalNumber document ''numeric'',
                       EvPassed := optionalBool document (if which = KindRunEnd then ''allPassed'' else ''passed'')\<rparr>
                in if which = KindRunStart
                   then (let event = (case json_at document ''info'' of
                                        Some info \<Rightarrow> event\<lparr>EvHeader := readHeader info\<rparr> | None \<Rightarrow> event)
                         in case json_at document ''logs'' of
                              Some logs \<Rightarrow> Some (event\<lparr>EvSarifLog := json_textAt logs ''sarif'' [], EvRtfLog := json_textAt logs ''rtf'' []\<rparr>)
                            | None \<Rightarrow> Some event)
                   else Some event))
      | _ \<Rightarrow> None)"

section \<open>The reader of the pipe\<close>

definition newline :: char where
  "newline = CHR 0x0A"

text \<open>A carriage return at the end of a line, from a pipe in text mode.\<close>

definition without_cr :: "string \<Rightarrow> string" where
  "without_cr line = (if line \<noteq> [] \<and> last line = CHR 0x0D then butlast line else line)"

text \<open>The loop of consume: the events of the whole lines, and what is left after the last of them.\<close>

function consume_lines :: "string \<Rightarrow> RunEvent list \<times> string" where
  "consume_lines partial =
     (if newline \<in> set partial
      then (let line = without_cr (takeWhile (\<lambda>c. c \<noteq> newline) partial);
                (events, rest) = consume_lines (drop 1 (dropWhile (\<lambda>c. c \<noteq> newline) partial))
            in (case parseEvent line of Some event \<Rightarrow> event # events | None \<Rightarrow> events, rest))
      else ([], partial))"
  by pat_completeness auto
termination
proof (relation "measure length")
  fix partial :: string
  assume "newline \<in> set partial"
  then have "partial \<noteq> []" by auto
  moreover have "length (dropWhile (\<lambda>c. c \<noteq> newline) partial) \<le> length partial" by (rule length_dropWhile_le)
  ultimately show "(drop 1 (dropWhile (\<lambda>c. c \<noteq> newline) partial), partial) \<in> measure length"
    by (cases partial) auto
qed simp

declare consume_lines.simps [simp del]

text \<open>The state of an EventStream is the text it holds.\<close>

definition consume :: "string \<Rightarrow> string \<Rightarrow> RunEvent list \<times> string" where
  "consume chunk mPartial = consume_lines (mPartial @ chunk)"

definition residue :: "string \<Rightarrow> string" where
  "residue mPartial = mPartial"

fun consume_all :: "string list \<Rightarrow> string \<Rightarrow> RunEvent list \<times> string" where
  "consume_all [] held = ([], held)"
| "consume_all (chunk # chunks) held =
     (let (events, held') = consume chunk held; (later, held'') = consume_all chunks held'
      in (events @ later, held''))"

section \<open>Chunks do not matter\<close>

lemma consume_lines_none: "newline \<notin> set s \<Longrightarrow> consume_lines s = ([], s)"
  by (subst consume_lines.simps) simp

lemma consume_lines_line:
  assumes "newline \<notin> set line"
  shows "consume_lines (line @ newline # rest) =
     (let (events, r) = consume_lines rest
      in (case parseEvent (without_cr line) of Some event \<Rightarrow> event # events | None \<Rightarrow> events, r))"
proof -
  have "takeWhile (\<lambda>c. c \<noteq> newline) (line @ newline # rest) = line"
    using assms by (induction line) auto
  moreover have "dropWhile (\<lambda>c. c \<noteq> newline) (line @ newline # rest) = newline # rest"
    using assms by (induction line) auto
  ultimately show ?thesis by (subst consume_lines.simps) (simp add: Let_def)
qed

lemma split_at_newline:
  assumes "newline \<in> set s"
  obtains line rest where "s = line @ newline # rest" and "newline \<notin> set line"
  using split_list_first [OF assms] by blast

lemma consume_lines_residue: "newline \<notin> set (snd (consume_lines s))"
proof (induction "length s" arbitrary: s rule: less_induct)
  case less
  show ?case
  proof (cases "newline \<in> set s")
    case True
    then obtain line rest where s: "s = line @ newline # rest" "newline \<notin> set line" by (rule split_at_newline)
    from less [of rest] s show ?thesis by (cases "consume_lines rest") (simp add: consume_lines_line)
  qed (simp add: consume_lines_none)
qed

lemma consume_lines_append:
  "consume_lines (s @ t) =
     (let (events, held) = consume_lines s; (later, held') = consume_lines (held @ t) in (events @ later, held'))"
proof (induction "length s" arbitrary: s rule: less_induct)
  case less
  show ?case
  proof (cases "newline \<in> set s")
    case True
    then obtain line rest where s: "s = line @ newline # rest" "newline \<notin> set line" by (rule split_at_newline)
    from less [of rest] s show ?thesis
      by (simp add: consume_lines_line [OF s(2)] Let_def split: prod.splits option.split)
  qed (simp add: consume_lines_none)
qed

lemma chunks_concat: "newline \<notin> set held \<Longrightarrow> consume_all chunks held = consume (concat chunks) held"
proof (induction chunks arbitrary: held)
  case (Cons chunk chunks)
  obtain events held' where c: "consume_lines (held @ chunk) = (events, held')" by force
  then have "newline \<notin> set held'" using consume_lines_residue [of "held @ chunk"] by simp
  from Cons.IH [OF this] c show ?case
    using consume_lines_append [of "held @ chunk" "concat chunks"] by (simp add: consume_def)
qed (simp add: consume_def consume_lines_none)


text \<open>
  A reader that is fed a text in pieces answers the same events, and holds the same rest, as
  one that is fed it at once.
\<close>

theorem chunks_do_not_matter:
  assumes "concat chunks = concat chunks'" and "newline \<notin> set held"
  shows "consume_all chunks held = consume_all chunks' held"
  using assms by (simp add: chunks_concat)

theorem chunks_do_not_matter_witness:
  "consume_all [''{}'' @ [newline] @ ''{'', ''}''] ''x'' = consume_all [''{'', ''}'', [newline], ''{}''] ''x''"
  by (rule chunks_do_not_matter) (simp_all add: newline_def)

section \<open>What the console is told\<close>

definition header_of :: "RunInfo \<Rightarrow> RunHeader" where
  "header_of info =
     \<lparr>HdrDutName = DutName info, HdrDutSerial = DutSerial info, HdrRigName = RigName info,
      HdrCriteriaVariant = CriteriaVariant info, HdrCriteriaMaster = CriteriaMaster info,
      HdrOperator = RunOperator info, HdrStartedLocal = StartedLocal info, HdrCommandLine = CommandLine info,
      HdrInstruments = Instruments info, HdrBenchAttached = BenchAttached info\<rparr>"

text \<open>
  The event a call has to arrive as: every text as it was told, the verdict under either of its
  names, and the number as its shortest text is read.
\<close>

fun told_event :: "LogFiles \<Rightarrow> SinkCall \<Rightarrow> RunEvent" where
  "told_event logs (OnRunStart info) =
     default_event\<lparr>Which := KindRunStart, EvHeader := header_of info, EvSarifLog := Sarif logs, EvRtfLog := Rtf logs\<rparr>"
| "told_event logs (OnGroupStart grp desc) = default_event\<lparr>Which := KindGroupStart, EvGroup := grp, EvDescription := desc\<rparr>"
| "told_event logs (OnGroupEnd grp) = default_event\<lparr>Which := KindGroupEnd, EvGroup := grp\<rparr>"
| "told_event logs (OnTestStart test desc) = default_event\<lparr>Which := KindTestStart, EvTest := test, EvDescription := desc\<rparr>"
| "told_event logs (OnPhaseStart grp phase title) =
     default_event\<lparr>Which := KindPhaseStart, EvGroup := grp, EvPhase := phase, EvTitle := title\<rparr>"
| "told_event logs (OnPhaseEnd phase) = default_event\<lparr>Which := KindPhaseEnd, EvPhase := phase\<rparr>"
| "told_event logs (OnEvent event) =
     default_event
       \<lparr>Which := KindEvent, EvGroup := Group event, EvTest := Test event, EvPhase := Phase event,
        EvVerb := to_string_verb (Method event), EvSubject := Subject event, EvSubjectGroup := SubjectGroup event,
        EvDetail := Detail event, EvInstrument := Instrument event, EvValue := Value event, EvUnit := Unit event,
        EvCriterionText := CriterionText event,
        EvNumeric := map_option (\<lambda>d. strtod (to_string_double d)) (Numeric event), EvPassed := Passed event\<rparr>"
| "told_event logs (OnTestEnd grp test passed) =
     default_event\<lparr>Which := KindTestEnd, EvGroup := grp, EvTest := test, EvPassed := Some passed\<rparr>"
| "told_event logs (OnRunEnd allPassed) = default_event\<lparr>Which := KindRunEnd, EvPassed := Some allPassed\<rparr>"

abbreviation meanings :: "(string \<times> doc) list \<Rightarrow> (string \<times> json) list" where
  "meanings fs \<equiv> map (\<lambda>(k, d). (k, meaning d)) fs"

definition read_text :: "(string \<times> doc) list \<Rightarrow> string \<Rightarrow> string" where
  "read_text fs k = json_textAt (JObject (meanings fs)) k []"

definition lookup :: "(string \<times> doc) list \<Rightarrow> string \<Rightarrow> json option" where
  "lookup fs k = map_of (meanings fs) k"

lemma text_or_empty [simp]: "(if t = [] then [] else t) = t"
  by simp

lemma read_text_simps:
  "read_text [] k = []"
  "read_text ((key, DText t) # fs) k = (if k = key then t else read_text fs k)"
  "read_text ((key, DBool b) # fs) k = (if k = key then [] else read_text fs k)"
  "read_text ((key, DNumber digits) # fs) k = (if k = key then [] else read_text fs k)"
  "read_text ((key, DObject gs) # fs) k = (if k = key then [] else read_text fs k)"
  "read_text (if_text key t @ fs) k = (if k = key then if t = [] then read_text fs k else t else read_text fs k)"
  "read_text (if_text key t) k = (if k = key then t else [])"
  "read_text (if_list key ts) k = []"
  "k \<noteq> key \<Longrightarrow> read_text (if_number key n @ fs) k = read_text fs k"
  "read_text (if_verdict key v) k = []"
  "k \<noteq> ''logs'' \<Longrightarrow> read_text (logs_fields logs) k = []"
  by (auto simp: read_text_def json_textAt_def if_text_def if_list_def if_number_def if_verdict_def logs_fields_def
      split: option.splits)

lemma lookup_simps:
  "lookup [] k = None"
  "lookup ((key, d) # fs) k = (if k = key then Some (meaning d) else lookup fs k)"
  "k \<noteq> key \<Longrightarrow> lookup (if_text key t @ fs) k = lookup fs k"
  "k \<noteq> key \<Longrightarrow> lookup (if_text key t) k = None"
  "lookup (if_list key ts) k = (if k = key \<and> ts \<noteq> [] then Some (JArray (map JString ts)) else None)"
  "lookup (if_number key n @ fs) k =
     (if k = key \<and> n \<noteq> None then Some (JNumber (strtod (to_string_double (the n)))) else lookup fs k)"
  "lookup (if_verdict key b) k = (if k = key \<and> b \<noteq> None then Some (JBool (the b)) else None)"
  "lookup (logs_fields logs) k =
     (if k = ''logs'' \<and> (Sarif logs \<noteq> [] \<or> Rtf logs \<noteq> [])
      then Some (meaning (DObject (if_text ''sarif'' (Sarif logs) @ if_text ''rtf'' (Rtf logs)))) else None)"
  by (auto simp: lookup_def if_text_def if_list_def if_number_def if_verdict_def logs_fields_def comp_def
      split: option.splits)

lemma fold_reads:
  "json_textAt (JObject (meanings fs)) k [] = read_text fs k"
  "json_at (JObject (meanings fs)) k = lookup fs k"
  by (simp_all add: read_text_def lookup_def)

lemma readHeader_info: "readHeader (JObject (meanings (info_fields info))) = header_of info"
  unfolding readHeader_def header_of_def fold_reads json_boolAt_def
  by (simp add: info_fields_def read_text_simps lookup_simps comp_def)

definition event_fields :: "(string \<times> doc) list \<Rightarrow> EventKind \<Rightarrow> RunEvent" where
  "event_fields fs which =
     default_event
       \<lparr>Which := which, EvGroup := read_text fs ''group'', EvTest := read_text fs ''test'',
        EvPhase := read_text fs ''phase'', EvDescription := read_text fs ''description'',
        EvTitle := read_text fs ''title'', EvVerb := read_text fs ''verb'',
        EvSubject := read_text fs ''subject'', EvSubjectGroup := read_text fs ''subjectGroup'',
        EvDetail := read_text fs ''detail'', EvInstrument := read_text fs ''instrument'',
        EvValue := read_text fs ''value'', EvUnit := read_text fs ''unit'',
        EvCriterionText := read_text fs ''criterionText'',
        EvNumeric := (case lookup fs ''numeric'' of Some (JNumber d) \<Rightarrow> Some d | _ \<Rightarrow> None),
        EvPassed := (case lookup fs (if which = KindRunEnd then ''allPassed'' else ''passed'') of
                       Some (JBool b) \<Rightarrow> Some b | _ \<Rightarrow> None)\<rparr>"

lemma parseEvent_other:
  assumes "json_parse line = Some (meaning (DObject ((''kind'', DText name) # fs)))" and "kindFrom name \<noteq> KindRunStart"
  shows "parseEvent line = Some (event_fields ((''kind'', DText name) # fs) (kindFrom name))"
  using assms by (simp add: parseEvent_def event_fields_def Let_def read_text_def lookup_def optionalNumber_def optionalBool_def)

lemma event_texts:
  fixes event :: JournalEvent
  defines "fs \<equiv> (''kind'', DText ''event'') # before_numeric event @ if_number ''numeric'' (Numeric event) @ after_numeric event"
  shows "read_text fs ''group'' = Group event" "read_text fs ''test'' = Test event" "read_text fs ''phase'' = Phase event"
    "read_text fs ''description'' = []" "read_text fs ''title'' = []" "read_text fs ''verb'' = to_string_verb (Method event)"
    "read_text fs ''subject'' = Subject event" "read_text fs ''subjectGroup'' = SubjectGroup event"
    "read_text fs ''detail'' = Detail event" "read_text fs ''instrument'' = Instrument event"
    "read_text fs ''value'' = Value event" "read_text fs ''unit'' = Unit event"
    "read_text fs ''criterionText'' = CriterionText event"
    "lookup fs ''numeric'' = map_option (\<lambda>d. JNumber (strtod (to_string_double d))) (Numeric event)"
    "lookup fs ''passed'' = map_option JBool (Passed event)"
  unfolding fs_def before_numeric_def after_numeric_def append_assoc append.simps
  by (cases "Numeric event"; cases "Passed event"; simp add: read_text_simps lookup_simps)+

lemma parsed_event:
  assumes "json_parse line = Some (meaning (DObject (schema logs call)))"
  shows "parseEvent line = Some (told_event logs call)"
proof (cases call)
  case (OnRunStart info)
  have parsed: "json_parse line = Some (JObject (meanings (schema logs call)))"
    using assms by simp
  show ?thesis
    unfolding parseEvent_def optionalNumber_def optionalBool_def parsed option.case json.case Let_def fold_reads
    using OnRunStart
    by (simp add: lookup_simps read_text_simps kindFrom_def readHeader_info fold_reads
        default_event_def del: map_append)
next
  case (OnEvent event)
  with assms have "json_parse line = Some (meaning (DObject ((''kind'', DText ''event'') #
      before_numeric event @ if_number ''numeric'' (Numeric event) @ after_numeric event)))" by simp
  from parseEvent_other [OF this] OnEvent show ?thesis
    by (simp add: event_fields_def kindFrom_def event_texts default_event_def split: option.split)
qed (use assms parseEvent_other [of line] in
      \<open>simp_all add: event_fields_def kindFrom_def read_text_simps lookup_simps
        default_event_def del: map_append list.map\<close>)


lemma line_decodes: "numbers_finite call \<Longrightarrow> parseEvent (spell (DObject (schema logs call))) = Some (told_event logs call)"
  by (rule parsed_event) (rule spelled_document_parses [OF well_spelled_schema])

section \<open>A number that is not finite\<close>

definition no_value :: "string \<Rightarrow> bool" where
  "no_value w \<longleftrightarrow> (\<forall>r. json_parseValue 1 (w @ r) = Refused)"

lemma no_value_infinite: "v \<in> {PosInf, NegInf, NaN} \<Longrightarrow> no_value (to_string_double v)"
  by (auto simp: no_value_def skipSpace_def json_space_def dq_def json_parseNumber_def number_char_def is_digit_def parseWord_def of_option_def)

lemma commas_Cons: "commas (s # ss) = s @ (if ss = [] then [] else '','' @ commas ss)"
  by (cases ss) simp_all

lemma fields_refused:
  assumes "list_all (\<lambda>(k, d). well_spelled d) front" and "no_value w"
  shows "\<exists>n. parse_fields n before (commas (map spelled_field (front @ (key, DNumber w) # rear)) @ rest) = Refused"
  using assms
proof (induction front arbitrary: before)
  case Nil
  have quoted: "skipSpace (jsonQuoted key @ r) = jsonQuoted key @ r" for r by (simp add: jsonQuoted_def)
  from Nil.prems(2) have "json_parseValue 1 (w @ r) = Refused" for r by (simp add: no_value_def)
  then show ?case using quoted by (intro exI [of _ "Suc 1"]) (simp add: commas_Cons)
next
  case (Cons f front)
  obtain k d where f: "f = (k, d)" by (cases f)
  let ?tail = "commas (map spelled_field (front @ (key, DNumber w) # rear)) @ rest"
  have quoted: "skipSpace (jsonQuoted k @ r) = jsonQuoted k @ r" for r by (simp add: jsonQuoted_def)
  obtain n where n: "parse_fields n (before @ [(k, meaning d)]) ?tail = Refused"
    using Cons.IH [of "before @ [(k, meaning d)]"] Cons.prems by auto
  obtain m where m: "json_parseValue m (spell d @ CHR '','' # ?tail) = Parsed (meaning d) (CHR '','' # ?tail)"
    using parses_spell [of d "CHR '','' # ?tail"] Cons.prems(1) f by (auto simp: parses_def)
  have "parse_fields (n + m) (before @ [(k, meaning d)]) ?tail = Refused"
    using more_fuel(3) [of n "before @ [(k, meaning d)]" ?tail m] n by simp
  moreover have "json_parseValue (n + m) (spell d @ CHR '','' # ?tail) = Parsed (meaning d) (CHR '','' # ?tail)"
    using parses_more [OF m, of n] by (simp add: add.commute)
  moreover have "commas (map spelled_field ((f # front) @ (key, DNumber w) # rear)) @ rest
      = jsonQuoted k @ CHR '':'' # spell d @ CHR '','' # ?tail"
    by (simp add: commas_Cons f)
  ultimately show ?case using quoted by (intro exI [of _ "Suc (n + m)"]) simp
qed

lemma object_refused:
  assumes "list_all (\<lambda>(k, d). well_spelled d) front" and "no_value w"
  shows "json_parse (spell (DObject (front @ (key, DNumber w) # rear))) = None"
proof -
  let ?fs = "front @ (key, DNumber w) # rear"
  let ?text = "commas (map spelled_field ?fs) @ ''}''"
  let ?all = "spell (DObject ?fs)"
  obtain n where n: "parse_fields n [] ?text = Refused" using fields_refused [OF assms, of "[]" key rear "''}''"] by auto
  have "?text = dq # tl ?text"
    using commas_start [of "map spelled_field ?fs" "''}''"] by (cases front) (auto simp: jsonQuoted_def split: prod.splits)
  then have "json_take (CHR ''}'') ?text = None" by (metis take_here punctuation(9) brace_not_dq)
  with n have refused: "json_parseValue (Suc n) ?all = Refused" by (simp add: skip_here)
  have "json_parseValue (json_fuel ?all) ?all = json_parseValue (json_fuel ?all + Suc n) ?all"
    using more_fuel(1) [of "json_fuel ?all" ?all "Suc n"] enough_fuel(1) [of ?all "json_fuel ?all"] by (simp add: json_fuel_def)
  also have "\<dots> = Refused"
    using more_fuel(1) [of "Suc n" ?all "json_fuel ?all"] refused by (simp only: add.commute) simp
  finally show ?thesis by (simp add: json_parse_def)
qed

lemma unfinite_line_refused:
  assumes "\<not> numbers_finite call"
  shows "parseEvent (spell (DObject (schema logs call))) = None"
proof -
  obtain event v where call: "call = OnEvent event" and v: "Numeric event = Some v" "v \<in> {PosInf, NegInf, NaN}"
    using assms by (cases call) (auto simp: number_is_finite_def split: option.splits double.splits)
  have "list_all (\<lambda>(k, d). well_spelled d) ((''kind'', DText ''event'') # before_numeric event)"
    by (simp add: before_numeric_def number_text_show_nat number_text_show_int)
  from object_refused [OF this no_value_infinite [OF v(2)], of "''numeric''" "after_numeric event"] call v(1)
  show ?thesis by (simp add: parseEvent_def if_number_def)
qed

section \<open>The whole stream\<close>

lemma no_newline_escaped: "newline \<notin> set (json_escape_char c)"
proof -
  have "newline \<noteq> bs" "newline \<noteq> dq" by (simp_all add: newline_def bs_def dq_def)
  moreover have "newline \<noteq> low_hex d" if "d < 16" for d
  proof
    assume "newline = low_hex d"
    then have "hex_value newline = Some d" using hex_value_low [OF that] by simp
    then show False by (simp add: hex_value_def newline_def)
  qed
  moreover have "(of_char c :: nat) mod 16 < 16" "(of_char c :: nat) < 32 \<Longrightarrow> (of_char c :: nat) div 16 < 16" by simp_all
  ultimately show ?thesis
    by (auto simp: json_escape_char_def control_escape_def Let_def newline_def)
qed

lemma no_newline_quoted [simp]: "newline \<notin> set (jsonQuoted s)"
  using no_newline_escaped by (auto simp: jsonQuoted_def jsonEscape_def dq_def newline_def)

fun one_line :: "doc \<Rightarrow> bool" where
  "one_line (DNumber s) \<longleftrightarrow> newline \<notin> set s"
| "one_line (DArray ds) \<longleftrightarrow> list_all one_line ds"
| "one_line (DObject fs) \<longleftrightarrow> list_all (\<lambda>(k, d). one_line d) fs"
| "one_line _ \<longleftrightarrow> True"

lemma set_commas: "set (commas ss) \<subseteq> insert (CHR '','') (\<Union>s\<in>set ss. set s)"
  by (induction ss rule: commas.induct) auto

lemma newline_punctuation [simp]:
  "newline \<noteq> CHR '',''" "newline \<noteq> CHR '':''" "newline \<noteq> CHR ''{''" "newline \<noteq> CHR ''}''"
  "newline \<noteq> CHR ''[''" "newline \<noteq> CHR '']''"
  by (simp_all add: newline_def)

lemma one_line_spell: "one_line d \<Longrightarrow> newline \<notin> set (spell d)"
proof (induction d)
  case (DBool b)
  show ?case by (simp add: newline_def)
next
  case (DArray ds)
  then have "newline \<notin> set (commas (map spell ds))"
    using set_commas [of "map spell ds"] by (auto simp: list_all_iff)
  then show ?case by simp
next
  case (DObject fs)
  have "newline \<notin> set (spelled_field f)" if "f \<in> set fs" for f
    using DObject that by (cases f) (auto simp: list_all_iff)
  then have "newline \<notin> set (commas (map spelled_field fs))"
    using set_commas [of "map spelled_field fs"] by auto
  then show ?case by simp
qed simp_all

lemma number_text_one_line: "number_text s \<Longrightarrow> newline \<notin> set s"
  by (auto simp: number_text_def list_all_iff newline_def number_char_def is_digit_def)

lemma newline_show [simp]: "newline \<notin> set (show_nat n)" "newline \<notin> set (show_int i)"
  using number_text_one_line number_text_show_nat number_text_show_int by blast+

lemma newline_double: "newline \<notin> set (to_string_double v)"
proof (cases v)
  case (Fin x)
  then show ?thesis using number_text_one_line [OF number_text_double] by blast
qed (simp_all add: newline_def)

lemma one_line_parts [simp]:
  "list_all (\<lambda>(k, d). one_line d) (if_text key t)" "list_all (\<lambda>(k, d). one_line d) (if_list key ts)"
  "list_all (\<lambda>(k, d). one_line d) (if_verdict key b)" "list_all (\<lambda>(k, d). one_line d) (if_number key v)"
  by (auto simp: if_text_def if_list_def if_verdict_def if_number_def list_all_iff newline_double split: option.splits)

lemma one_line_schema: "one_line (DObject (schema logs call))"
  by (cases call) (auto simp: info_fields_def logs_fields_def before_numeric_def after_numeric_def)

text \<open>What a stream of calls is to a watcher: an event for every call but those whose number is not finite.\<close>

definition seen_events :: "LogFiles \<Rightarrow> SinkCall list \<Rightarrow> RunEvent list" where
  "seen_events logs calls = map (told_event logs) (filter numbers_finite calls)"

lemma consume_stream: "consume_lines (stream_text logs calls) = (seen_events logs calls, [])"
proof (induction calls)
  case Nil
  show ?case by (simp add: stream_text_def seen_events_def consume_lines_none)
next
  case (Cons call calls)
  let ?line = "spell (DObject (schema logs call))"
  have spelled: "stream_text logs (call # calls) = ?line @ newline # stream_text logs calls"
    by (simp add: stream_text_def sink_line_text newline_def del: spell.simps)
  have cr: "without_cr ?line = ?line" by (simp add: without_cr_def)
  have clean: "newline \<notin> set ?line" by (rule one_line_spell) (rule one_line_schema)
  show ?case
    unfolding spelled consume_lines_line [OF clean] Cons.IH cr
    using line_decodes [of call logs] unfinite_line_refused [of call logs]
    by (cases "numbers_finite call") (simp_all add: seen_events_def del: spell.simps)
qed

text \<open>
  C34: However the pipe cuts the stream of a run, the console is given the events of the run, in their order,
  and holds nothing back: every call arrives but an event whose number is not finite.
\<close>

theorem console_sees_the_run:
  assumes "concat chunks = stream_text logs calls"
  shows "consume_all chunks [] = (seen_events logs calls, [])"
  using chunks_concat [of "[]" chunks] assms consume_stream by (simp add: consume_def)

text \<open>The stream of a run of one group, cut in the middle of a line.\<close>

definition sample_calls :: "SinkCall list" where
  "sample_calls = [OnGroupStart ''supply'' ''rails'', OnTestEnd ''supply'' ''rail'' False, OnRunEnd False]"

definition sample_stream :: string where
  "sample_stream = stream_text \<lparr>Sarif = [], Rtf = []\<rparr> sample_calls"

theorem console_sees_the_run_witness:
  "consume_all [take 30 sample_stream, drop 30 sample_stream] [] =
     ([default_event\<lparr>Which := KindGroupStart, EvGroup := ''supply'', EvDescription := ''rails''\<rparr>,
       default_event\<lparr>Which := KindTestEnd, EvGroup := ''supply'', EvTest := ''rail'', EvPassed := Some False\<rparr>,
       default_event\<lparr>Which := KindRunEnd, EvPassed := Some False\<rparr>], [])"
  using console_sees_the_run [of "[take 30 sample_stream, drop 30 sample_stream]" "\<lparr>Sarif = [], Rtf = []\<rparr>" sample_calls]
  by (simp add: sample_stream_def seen_events_def sample_calls_def)

section \<open>What the parser takes that is not JSON\<close>

lemma malformed_number_accepted: "json_parse ''1.2.3'' = Some (JNumber (Fin (6 / 5)))"
  by code_simp

lemma malformed_escape_accepted: "json_parse ([dq, bs] @ ''u +1F'' @ [dq]) = Some (JString [CHR 0x1F])"
  by code_simp

end
