(* ===== verification/BoxSession.thy ===== *)
theory BoxSession
  imports SwitchUnit EventSink
begin

text \<open>
  What the SCPI drivers of the instruments share: an operation run in the session of a box
  (hal/driver/box_connection.hpp), ScpiSession::number of hal/src/io/scpi.cpp, a run of checked
  commands, the text of an exception, and hal/driver/describe.hpp. The second half watches the
  commands a driver sends: a transport that keeps a list of them, and what a run of checked
  commands leaves in that list whatever the instrument answers.
\<close>

section \<open>Operations in a session\<close>

text \<open>An operation on the session a driver's session() answers; the session stays with the link.\<close>

definition in_session ::
    "'t bench_env \<Rightarrow> string \<Rightarrow> ('t ITransport \<Rightarrow> 't \<Rightarrow> (io_error + unit) \<times> 't) \<Rightarrow> nat
       \<Rightarrow> ('t ITransport \<Rightarrow> 't \<Rightarrow> (io_error + 'a) \<times> 't) \<Rightarrow> 't boxes \<Rightarrow> (box_error + 'a) \<times> 't boxes" where
  "in_session env family prepare i act w =
     (case connection_session (env_rows env) (openTransport env) family (prepare (transport env)) i w of
        (Inl e, w') \<Rightarrow> (Inl e, w')
      | (Inr l, w') \<Rightarrow>
          (case Session (links w' ! l) of
             None \<Rightarrow> (Inl (LogicError []), w')
           | Some t \<Rightarrow>
               (case act (transport env) t of
                  (r, t') \<Rightarrow> (map_sum Io (\<lambda>x. x) r, put_link l ((links w' ! l)\<lparr>Session := Some t'\<rparr>) w'))))"

text \<open>An operation on the session that is open already, if one is; what it throws is swallowed.\<close>

definition in_open_session ::
    "'t bench_env \<Rightarrow> nat \<Rightarrow> ('t ITransport \<Rightarrow> 't \<Rightarrow> (io_error + unit) \<times> 't) \<Rightarrow> 't boxes \<Rightarrow> 't boxes" where
  "in_open_session env i act w =
     (case connection_openSession (env_rows env) i w of
        (None, w') \<Rightarrow> w'
      | (Some l, w') \<Rightarrow>
          (case Session (links w' ! l) of
             None \<Rightarrow> w'
           | Some t \<Rightarrow> put_link l ((links w' ! l)\<lparr>Session := Some (snd (act (transport env) t))\<rparr>) w'))"

definition scpi_number :: "double \<Rightarrow> string" where
  "scpi_number v = to_string_double v"

text \<open>Checked commands one after another; the first that throws ends it.\<close>

fun checked_all :: "'t ITransport \<Rightarrow> string list \<Rightarrow> 't \<Rightarrow> (io_error + unit) \<times> 't" where
  "checked_all tr [] t = (Inr (), t)"
| "checked_all tr (c # cs) t =
     (case scpi_checked tr c t of
        (Inl e, t') \<Rightarrow> (Inl e, t')
      | (Inr _, t') \<Rightarrow> checked_all tr cs t')"

text \<open>Plain writes one after another.\<close>

fun write_all :: "'t ITransport \<Rightarrow> string list \<Rightarrow> 't \<Rightarrow> (io_error + unit) \<times> 't" where
  "write_all tr [] t = (Inr (), t)"
| "write_all tr (c # cs) t =
     (case scpi_write tr c t of
        (Inl e, t') \<Rightarrow> (Inl e, t')
      | (Inr _, t') \<Rightarrow> write_all tr cs t')"

text \<open>What what() says of the exceptions a session throws.\<close>

fun transport_error_text :: "transport_error \<Rightarrow> string" where
  "transport_error_text (TransportError s) = s"
| "transport_error_text (TransportTimeout s) = s"

fun io_error_text :: "io_error \<Rightarrow> string" where
  "io_error_text (Transport e) = transport_error_text e"
| "io_error_text (ScpiFault instrument command e) = scpi_fault_text instrument command e"

fun box_error_text :: "box_error \<Rightarrow> string" where
  "box_error_text (LogicError s) = s"
| "box_error_text (Io e) = io_error_text e"

section \<open>How a configuration is described\<close>

definition describeSetting :: "digits \<Rightarrow> string \<Rightarrow> QuantityKind \<Rightarrow> double option \<Rightarrow> string" where
  "describeSetting fd name k v =
     (case v of None \<Rightarrow> [] | Some x \<Rightarrow> name @ ''='' @ describe_quantity fd (quantityVariantFromKind k x))"

definition describeChoice :: "string \<Rightarrow> string option \<Rightarrow> string" where
  "describeChoice name v = (case v of None \<Rightarrow> [] | Some x \<Rightarrow> name @ ''='' @ x)"

definition describeCount :: "string \<Rightarrow> int option \<Rightarrow> string" where
  "describeCount name v = (case v of None \<Rightarrow> [] | Some x \<Rightarrow> name @ ''='' @ show_int x)"

text \<open>The fragments that say something, separated by commas.\<close>

definition describeSettings :: "string list \<Rightarrow> string" where
  "describeSettings fragments =
     foldl (\<lambda>result fragment. if fragment = [] then result
              else (if result = [] then fragment else result @ '', '' @ fragment)) [] fragments"

section \<open>The commands a driver sends\<close>

text \<open>The transport that keeps what was sent through it, whether the instrument took it or not.\<close>

definition logging :: "'t ITransport \<Rightarrow> ('t \<times> string list) ITransport" where
  "logging tr =
     \<lparr>send = (\<lambda>c (t, sent). case send tr c t of (r, t') \<Rightarrow> (r, (t', sent @ [c]))),
      receive = (\<lambda>(t, sent). case receive tr t of (r, t') \<Rightarrow> (r, (t', sent))),
      description = (\<lambda>(t, sent). description tr t)\<rparr>"

text \<open>The commands proper: without the questions a session asks of the error queue.\<close>

definition told_instrument :: "string list \<Rightarrow> string list" where
  "told_instrument sent = filter (\<lambda>c. c \<noteq> ''SYST:ERR?'') sent"

lemma told_instrument_simps [simp]:
  "told_instrument [] = []" "told_instrument (xs @ ys) = told_instrument xs @ told_instrument ys"
  "told_instrument [''SYST:ERR?''] = []" "c \<noteq> ''SYST:ERR?'' \<Longrightarrow> told_instrument [c] = [c]"
  "''SYST:ERR?'' \<noteq> c \<Longrightarrow> told_instrument [c] = [c]"
  by (auto simp: told_instrument_def)

lemma send_logging: "send (logging tr) c s = (fst (send tr c (fst s)), (snd (send tr c (fst s)), snd s @ [c]))"
  by (simp add: logging_def split: prod.splits)

lemma receive_logging: "receive (logging tr) s = (fst (receive tr (fst s)), (snd (receive tr (fst s)), snd s))"
  by (simp add: logging_def split: prod.splits)

lemma query_sent: "snd (snd (scpi_query (logging tr) c s)) = snd s @ [c]"
  by (simp add: scpi_query_def send_logging receive_logging split: option.splits sum.splits prod.splits)

lemma nextError_told: "told_instrument (snd (snd (scpi_nextError (logging tr) s))) = told_instrument (snd s)"
  using query_sent [of tr "''SYST:ERR?''" s]
  by (auto simp: scpi_nextError_def split: prod.splits sum.splits option.splits)

lemma drain_told: "told_instrument (snd (snd (scpi_drain n (logging tr) s))) = told_instrument (snd s)"
proof (induction n arbitrary: s)
  case (Suc n)
  then show ?case
    using nextError_told [of tr s] by (auto split: prod.splits sum.splits option.splits)
qed simp

lemma clearErrors_told: "told_instrument (snd (snd (scpi_clearErrors (logging tr) s))) = told_instrument (snd s)"
  by (simp add: scpi_clearErrors_def drain_told)

lemma checked_told:
  assumes "c \<noteq> ''SYST:ERR?''"
  shows "told_instrument (snd (snd (scpi_checked (logging tr) c s))) = told_instrument (snd s) @ [c]"
proof (cases "fst (send tr c (fst s))")
  case (Some e)
  with assms show ?thesis by (simp add: scpi_checked_def send_logging)
next
  case None
  let ?s = "(snd (send tr c (fst s)), snd s @ [c])"
  obtain r s2 where n: "scpi_nextError (logging tr) ?s = (r, s2)" by (cases "scpi_nextError (logging tr) ?s")
  with nextError_told [of tr ?s] assms have t: "told_instrument (snd s2) = told_instrument (snd s) @ [c]" by simp
  from n None t clearErrors_told [of tr s2] show ?thesis
    by (auto simp: scpi_checked_def send_logging split: sum.splits option.splits prod.splits)
qed

lemma queryChecked_told:
  assumes "c \<noteq> ''SYST:ERR?''"
  shows "told_instrument (snd (snd (scpi_queryChecked (logging tr) c s))) = told_instrument (snd s) @ [c]"
proof -
  obtain r s1 where q: "scpi_query (logging tr) c s = (r, s1)" by (cases "scpi_query (logging tr) c s")
  with query_sent [of tr c s] assms have t: "told_instrument (snd s1) = told_instrument (snd s) @ [c]" by simp
  obtain r2 s2 where n: "scpi_nextError (logging tr) s1 = (r2, s2)" by (cases "scpi_nextError (logging tr) s1")
  with nextError_told [of tr s1] t have t2: "told_instrument (snd s2) = told_instrument (snd s) @ [c]" by simp
  from q n t t2 clearErrors_told [of tr s2] show ?thesis
    by (auto simp: scpi_queryChecked_def split: sum.splits option.splits prod.splits io_error.splits transport_error.splits)
qed

lemma queryNumber_told:
  assumes "c \<noteq> ''SYST:ERR?''"
  shows "told_instrument (snd (snd (scpi_queryNumber (logging tr) c s))) = told_instrument (snd s) @ [c]"
  using queryChecked_told [OF assms, of tr s]
  by (auto simp: scpi_queryNumber_def split: sum.splits option.splits prod.splits)

text \<open>
  A run of checked commands tells the instrument the commands in their order, and all of them when it
  returns. When it throws, the last one told is the one that was refused.
\<close>

lemma checked_all_told:
  assumes "''SYST:ERR?'' \<notin> set cs"
  shows "\<exists>n \<le> length cs. told_instrument (snd (snd (checked_all (logging tr) cs s))) = told_instrument (snd s) @ take n cs \<and>
    (fst (checked_all (logging tr) cs s) = Inr () \<longrightarrow> n = length cs)"
  using assms
proof (induction cs arbitrary: s)
  case (Cons c cs)
  obtain r s1 where c: "scpi_checked (logging tr) c s = (r, s1)" by (cases "scpi_checked (logging tr) c s")
  with checked_told [of c tr s] Cons.prems have t: "told_instrument (snd s1) = told_instrument (snd s) @ [c]" by auto
  show ?case
  proof (cases r)
    case (Inl e)
    with c t show ?thesis by (intro exI [of _ 1]) simp
  next
    case (Inr u)
    from Cons.IH [of s1] Cons.prems obtain n where n: "n \<le> length cs"
      "told_instrument (snd (snd (checked_all (logging tr) cs s1))) = told_instrument (snd s1) @ take n cs"
      "fst (checked_all (logging tr) cs s1) = Inr () \<longrightarrow> n = length cs" by auto
    with c t Inr show ?thesis by (intro exI [of _ "Suc n"]) simp
  qed
qed simp

lemma write_all_told:
  assumes "''SYST:ERR?'' \<notin> set cs"
  shows "\<exists>n \<le> length cs. told_instrument (snd (snd (write_all (logging tr) cs s))) = told_instrument (snd s) @ take n cs \<and>
    (fst (write_all (logging tr) cs s) = Inr () \<longrightarrow> n = length cs)"
  using assms
proof (induction cs arbitrary: s)
  case (Cons c cs)
  let ?s = "(snd (send tr c (fst s)), snd s @ [c])"
  show ?case
  proof (cases "fst (send tr c (fst s))")
    case (Some e)
    with Cons.prems show ?thesis by (intro exI [of _ 1]) (simp add: scpi_write_def send_logging)
  next
    case None
    from Cons.IH [of ?s] Cons.prems obtain n where "n \<le> length cs"
      "told_instrument (snd (snd (write_all (logging tr) cs ?s))) = told_instrument (snd ?s) @ take n cs"
      "fst (write_all (logging tr) cs ?s) = Inr () \<longrightarrow> n = length cs" by auto
    with None Cons.prems show ?thesis
      by (intro exI [of _ "Suc n"]) (simp add: scpi_write_def send_logging)
  qed
qed simp

lemma waitForComplete_told:
  "told_instrument (snd (snd (scpi_waitForComplete (logging tr) s))) = told_instrument (snd s) @ [''*OPC?'']"
  using queryChecked_told [of "''*OPC?''" tr s]
  by (auto simp: scpi_waitForComplete_def split: sum.splits prod.splits)

text \<open>Checked commands and a wait: told in order up to the first that is refused, all of them on return.\<close>

lemma program_told:
  assumes "''SYST:ERR?'' \<notin> set cs"
    and p: "p = (case checked_all (logging tr) cs s of (Inl e, t') \<Rightarrow> (Inl e, t') | (Inr _, t') \<Rightarrow> scpi_waitForComplete (logging tr) t')"
  shows "\<exists>n. told_instrument (snd (snd p)) = told_instrument (snd s) @ take n (cs @ [''*OPC?'']) \<and>
     (fst p = Inr () \<longrightarrow> take n (cs @ [''*OPC?'']) = cs @ [''*OPC?''])"
proof -
  obtain r s1 where c: "checked_all (logging tr) cs s = (r, s1)" by (cases "checked_all (logging tr) cs s")
  with checked_all_told [OF assms(1), of tr s] obtain n where
    n: "n \<le> length cs" "told_instrument (snd s1) = told_instrument (snd s) @ take n cs" "r = Inr () \<longrightarrow> n = length cs"
    by auto
  show ?thesis
  proof (cases r)
    case (Inl e)
    with c n show ?thesis by (intro exI [of _ n]) (simp add: p)
  next
    case (Inr u)
    with c n waitForComplete_told [of tr s1] show ?thesis
      by (intro exI [of _ "length cs + 1"]) (simp add: p)
  qed
qed

text \<open>
  The same with what came of each: every command before the last one told was accepted, and that one
  is the refusal when the sequence threw.
\<close>

lemma checked_all_in_turn:
  assumes "''SYST:ERR?'' \<notin> set cs" and "checked_all (logging tr) cs s = (r, t)"
  shows "\<exists>n hs. n \<le> length cs \<and> length hs = Suc n \<and> hs ! 0 = s
    \<and> (\<forall>i < n. scpi_checked (logging tr) (cs ! i) (hs ! i) = (Inr (), hs ! Suc i)
        \<and> told_instrument (snd (hs ! Suc i)) = told_instrument (snd (hs ! i)) @ [cs ! i])
    \<and> (n = length cs \<and> r = Inr () \<and> t = hs ! n
       \<or> (\<exists>e. n < length cs \<and> r = Inl e \<and> scpi_checked (logging tr) (cs ! n) (hs ! n) = (Inl e, t)
            \<and> told_instrument (snd t) = told_instrument (snd (hs ! n)) @ [cs ! n]))"
  using assms
proof (induction cs arbitrary: s)
  case Nil
  then show ?case by (intro exI [of _ 0] exI [of _ "[s]"]) simp
next
  case (Cons c cs)
  obtain q s1 where c: "scpi_checked (logging tr) c s = (q, s1)" by (cases "scpi_checked (logging tr) c s")
  with checked_told [of c tr s] Cons.prems(1) have told: "told_instrument (snd s1) = told_instrument (snd s) @ [c]" by auto
  show ?case
  proof (cases q)
    case (Inl e)
    with c Cons.prems(2) have "r = Inl e" "t = s1" by simp_all
    with c Inl told show ?thesis by (intro exI [of _ 0] exI [of _ "[s]"]) simp
  next
    case (Inr u)
    with c Cons.prems have rest: "checked_all (logging tr) cs s1 = (r, t)" and ok: "''SYST:ERR?'' \<notin> set cs" by simp_all
    obtain n hs where ih: "n \<le> length cs" "length hs = Suc n" "hs ! 0 = s1"
      "\<forall>i < n. scpi_checked (logging tr) (cs ! i) (hs ! i) = (Inr (), hs ! Suc i)
        \<and> told_instrument (snd (hs ! Suc i)) = told_instrument (snd (hs ! i)) @ [cs ! i]"
      "n = length cs \<and> r = Inr () \<and> t = hs ! n
       \<or> (\<exists>e. n < length cs \<and> r = Inl e \<and> scpi_checked (logging tr) (cs ! n) (hs ! n) = (Inl e, t)
            \<and> told_instrument (snd t) = told_instrument (snd (hs ! n)) @ [cs ! n])"
      using Cons.IH [OF ok rest] by (elim exE conjE) (rule that)
    have first: "scpi_checked (logging tr) c s = (Inr (), hs ! 0)" using c Inr ih(3) by simp
    have "\<forall>i < Suc n. scpi_checked (logging tr) ((c # cs) ! i) ((s # hs) ! i) = (Inr (), (s # hs) ! Suc i)
        \<and> told_instrument (snd ((s # hs) ! Suc i)) = told_instrument (snd ((s # hs) ! i)) @ [(c # cs) ! i]"
      using ih(4) first told ih(3) by (auto simp: less_Suc_eq_0_disj)
    with ih(1,2,5) show ?thesis by (intro exI [of _ "Suc n"] exI [of _ "s # hs"]) auto
  qed
qed

section \<open>A willing instrument\<close>

text \<open>An instrument that takes every command and answers every question with a zero.\<close>

definition willing_instrument :: "unit ITransport" where
  "willing_instrument = \<lparr>send = (\<lambda>_ _. (None, ())), receive = (\<lambda>_. (Inr ''0'', ())), description = (\<lambda>_. ''Psu1'')\<rparr>"

lemma willing_query: "scpi_query (logging willing_instrument) c s = (Inr ''0'', ((), snd s @ [c]))"
  by (simp add: scpi_query_def willing_instrument_def logging_def scpi_trimmed_def scpi_whitespace_def trim_with_id split: prod.split)

lemma willing_checked: "scpi_checked (logging willing_instrument) c s = (Inr (), ((), snd s @ [c, ''SYST:ERR?'']))"
proof -
  have "parseQueueEntry ''0'' = None" by code_simp
  with willing_query have "scpi_nextError (logging willing_instrument) s = (Inr None, ((), snd s @ [''SYST:ERR?'']))" for s
    by (simp add: scpi_nextError_def)
  moreover have "send (logging willing_instrument) c s = (None, ((), snd s @ [c]))"
    by (simp add: willing_instrument_def logging_def split: prod.split)
  ultimately show ?thesis by (simp add: scpi_checked_def)
qed

lemma willing_all: "fst (checked_all (logging willing_instrument) cs s) = Inr ()"
  by (induction cs arbitrary: s) (simp_all add: willing_checked)

lemma willing_program:
  "fst (case checked_all (logging willing_instrument) cs s of
     (Inl e, t') \<Rightarrow> (Inl e, t') | (Inr _, t') \<Rightarrow> scpi_waitForComplete (logging willing_instrument) t') = Inr ()"
proof -
  obtain s1 where "checked_all (logging willing_instrument) cs s = (Inr (), s1)"
    using willing_all [of cs s] by (metis prod.collapse)
  then show ?thesis
    by (simp add: scpi_waitForComplete_def scpi_queryChecked_def willing_query)
qed

lemma describeSettings_empty [simp]: "describeSettings [] = []"
  by (simp add: describeSettings_def)

end
