(* ===== verification/Wiring.thy ===== *)
theory Wiring
  imports SwitchFabric
begin

text \<open>
  The wiring of a rig: hal/topology/wiring.hpp and wiring.cpp, hal/topology/vpc_location.cpp, and the
  wiring.inc of both rigs. Four tables: which relays an instrument and a connector pin sit behind,
  which pin a source is cabled onto, and which pin a meter is. An InstrumentId is the spelling of its
  enumerator. A lookup that throws returns the message. The compile-time predicates the macros
  define are functions of the tables they are built from.
\<close>

section \<open>Locations\<close>

datatype VpcRack = RackA | RackB

record VpcLocation =
  vpc_rack :: VpcRack
  vpc_connector :: u16
  vpc_pin :: u16

definition vpc :: "VpcRack \<Rightarrow> u16 \<Rightarrow> u16 \<Rightarrow> VpcLocation" where
  "vpc r c p = \<lparr>vpc_rack = r, vpc_connector = c, vpc_pin = p\<rparr>"

definition to_string_location :: "VpcLocation \<Rightarrow> string" where
  "to_string_location l =
     (if vpc_rack l = RackA then ''A'' else ''B'') @ show_nat (unat (vpc_connector l)) @ ''/pin'' @
     show_nat (unat (vpc_pin l))"

section \<open>The two tables of paths\<close>

datatype WireRole = Force | Sense

record InstrumentWiringEntry =
  iw_instrument :: string
  iw_role :: WireRole
  iw_path :: Path

type_synonym InstrumentWiring = "InstrumentWiringEntry list"

definition iw_addWire :: "string \<Rightarrow> Path \<Rightarrow> WireRole \<Rightarrow> InstrumentWiring \<Rightarrow> InstrumentWiring" where
  "iw_addWire instrument path role w = w @ [\<lparr>iw_instrument = instrument, iw_role = role, iw_path = path\<rparr>]"

definition no_instrument_path :: "string \<Rightarrow> string" where
  "no_instrument_path instrument = ''hal::InstrumentWiring: instrument '' @ instrument @ '' has no fixed path on this rig'' @
     [CHR 0x27] @ ''s fabric''"

definition no_instrument_sense :: "string \<Rightarrow> string" where
  "no_instrument_sense instrument =
     ''hal::InstrumentWiring: instrument '' @ instrument @ '' has no fixed sense path on this rig'' @ [CHR 0x27] @ ''s fabric''"

definition iw_find :: "InstrumentWiring \<Rightarrow> string \<Rightarrow> string + Path" where
  "iw_find w instrument =
     (case find (\<lambda>e. iw_instrument e = instrument \<and> iw_role e = Force) w of
        Some e \<Rightarrow> Inr (iw_path e)
      | None \<Rightarrow> Inl (no_instrument_path instrument))"

definition combined_path :: "(InstrumentWiringEntry \<Rightarrow> bool) \<Rightarrow> InstrumentWiring \<Rightarrow> Path" where
  "combined_path P w = concat (map iw_path (filter P w))"

definition iw_findAll :: "InstrumentWiring \<Rightarrow> string \<Rightarrow> string + Path" where
  "iw_findAll w instrument =
     (let combined = combined_path (\<lambda>e. iw_instrument e = instrument) w
      in if combined = [] then Inl (no_instrument_path instrument) else Inr combined)"

definition iw_findSense :: "InstrumentWiring \<Rightarrow> string \<Rightarrow> string + Path" where
  "iw_findSense w instrument =
     (let combined = combined_path (\<lambda>e. iw_instrument e = instrument \<and> iw_role e = Sense) w
      in if combined = [] then Inl (no_instrument_sense instrument) else Inr combined)"

record ConnectorWiringEntry =
  cw_location :: VpcLocation
  cw_role :: WireRole
  cw_path :: Path

type_synonym ConnectorWiring = "ConnectorWiringEntry list"

definition cw_addWire :: "VpcLocation \<Rightarrow> Path \<Rightarrow> WireRole \<Rightarrow> ConnectorWiring \<Rightarrow> ConnectorWiring" where
  "cw_addWire location path role w = w @ [\<lparr>cw_location = location, cw_role = role, cw_path = path\<rparr>]"

definition cw_find :: "ConnectorWiring \<Rightarrow> VpcLocation \<Rightarrow> string + Path" where
  "cw_find w location =
     (case find (\<lambda>e. cw_location e = location \<and> cw_role e = Force) w of
        Some e \<Rightarrow> Inr (cw_path e)
      | None \<Rightarrow> Inl (''hal::ConnectorWiring: '' @ to_string_location location @ '' has no fixed path on this rig'' @
                     [CHR 0x27] @ ''s fabric''))"

definition cw_findSense :: "ConnectorWiring \<Rightarrow> VpcLocation \<Rightarrow> string + Path" where
  "cw_findSense w location =
     (case find (\<lambda>e. cw_location e = location \<and> cw_role e = Sense) w of
        Some e \<Rightarrow> Inr (cw_path e)
      | None \<Rightarrow> Inl (''hal::ConnectorWiring: '' @ to_string_location location @ '' has no fixed sense path on this rig'' @
                     [CHR 0x27] @ ''s fabric''))"

section \<open>The two tables of pins\<close>

type_synonym PinTable = "(string \<times> VpcLocation) list"

definition pins_add :: "string \<Rightarrow> VpcLocation \<Rightarrow> PinTable \<Rightarrow> PinTable" where
  "pins_add instrument location rows = rows @ [(instrument, location)]"

definition instrumentAt :: "PinTable \<Rightarrow> VpcLocation \<Rightarrow> string option" where
  "instrumentAt rows location = map_option fst (find (\<lambda>row. snd row = location) rows)"

definition locationsOf :: "PinTable \<Rightarrow> string \<Rightarrow> VpcLocation list" where
  "locationsOf rows instrument = map snd (filter (\<lambda>row. fst row = instrument) rows)"

definition covers :: "PinTable \<Rightarrow> string \<Rightarrow> bool" where
  "covers rows instrument = list_ex (\<lambda>row. fst row = instrument) rows"

definition covers_at :: "PinTable \<Rightarrow> string \<Rightarrow> VpcLocation \<Rightarrow> bool" where
  "covers_at rows instrument location = list_ex (\<lambda>row. fst row = instrument \<and> snd row = location) rows"

fun joined_pins :: "string list \<Rightarrow> string" where
  "joined_pins [] = []"
| "joined_pins [s] = s"
| "joined_pins (s # t # ts) = s @ '', '' @ joined_pins (t # ts)"

definition describe_pins :: "PinTable \<Rightarrow> string \<Rightarrow> string" where
  "describe_pins rows instrument =
     (let locations = locationsOf rows instrument
      in if locations = [] then ''none'' else joined_pins (map to_string_location locations))"

definition findLanding :: "PinTable \<Rightarrow> VpcLocation \<Rightarrow> string option" where
  "findLanding sourceWiring location = instrumentAt sourceWiring location"

definition source_find :: "PinTable \<Rightarrow> VpcLocation \<Rightarrow> string + string" where
  "source_find sourceWiring location =
     (case findLanding sourceWiring location of
        Some i \<Rightarrow> Inr i
      | None \<Rightarrow> Inl (''hal::SourceWiring: no fixed-wired source lands on '' @ to_string_location location))"

definition source_findAll :: "PinTable \<Rightarrow> string \<Rightarrow> VpcLocation list" where
  "source_findAll sourceWiring instrument = locationsOf sourceWiring instrument"

definition taps :: "PinTable \<Rightarrow> string \<Rightarrow> bool" where
  "taps tapWiring instrument = covers tapWiring instrument"

definition isTappedBy :: "PinTable \<Rightarrow> string \<Rightarrow> VpcLocation \<Rightarrow> bool" where
  "isTappedBy tapWiring instrument location = covers_at tapWiring instrument location"

definition describeTaps :: "PinTable \<Rightarrow> string \<Rightarrow> string" where
  "describeTaps tapWiring instrument = describe_pins tapWiring instrument"

section \<open>What the compiler asks of the tables\<close>

definition rowsAt :: "PinTable \<Rightarrow> VpcLocation \<Rightarrow> nat" where
  "rowsAt rows location = length (filter (\<lambda>row. snd row = location) rows)"

definition rowsFor :: "PinTable \<Rightarrow> string \<Rightarrow> bool" where
  "rowsFor rows instrument = list_ex (\<lambda>row. fst row = instrument) rows"

definition isInstrumentWired :: "InstrumentWiring \<Rightarrow> string \<Rightarrow> WireRole \<Rightarrow> bool" where
  "isInstrumentWired w instrument role = list_ex (\<lambda>(i, r). i = instrument \<and> r = role) (map (\<lambda>e. (iw_instrument e, iw_role e)) w)"

definition isWired :: "ConnectorWiring \<Rightarrow> VpcLocation \<Rightarrow> WireRole \<Rightarrow> bool" where
  "isWired w location role = list_ex (\<lambda>(l, r). l = location \<and> r = role) (map (\<lambda>e. (cw_location e, cw_role e)) w)"

definition sourcesAt :: "PinTable \<Rightarrow> VpcLocation \<Rightarrow> nat" where
  "sourcesAt sourceWiring location = rowsAt sourceWiring location"

definition isSourceWired :: "PinTable \<Rightarrow> VpcLocation \<Rightarrow> bool" where
  "isSourceWired sourceWiring location \<longleftrightarrow> sourcesAt sourceWiring location > 0"

definition tapsAt :: "PinTable \<Rightarrow> VpcLocation \<Rightarrow> nat" where
  "tapsAt tapWiring location = rowsAt tapWiring location"

definition isTapWired :: "PinTable \<Rightarrow> VpcLocation \<Rightarrow> bool" where
  "isTapWired tapWiring location \<longleftrightarrow> tapsAt tapWiring location > 0"

definition isTapWiredInstrument :: "PinTable \<Rightarrow> string \<Rightarrow> bool" where
  "isTapWiredInstrument tapWiring instrument = rowsFor tapWiring instrument"

text \<open>
  Every hop of every entry with the endpoint that owns it. Hop zero of a path is the endpoint's own
  relay; the hops after it may be shared trunk.
\<close>

datatype WiringOwner = InstrumentSide string WireRole | ConnectorSide VpcLocation WireRole

record WiringHop =
  hop_owner :: WiringOwner
  hop_entry :: nat
  hop_element :: SwitchElementId
  hop_identifies :: bool

definition path_hops :: "WiringOwner \<Rightarrow> nat \<Rightarrow> Path \<Rightarrow> WiringHop list" where
  "path_hops owner index path =
     map (\<lambda>(k, el). \<lparr>hop_owner = owner, hop_entry = index, hop_element = el, hop_identifies = (k = 0)\<rparr>)
       (enumerate 0 path)"

definition instrument_hopsOf :: "InstrumentWiring \<Rightarrow> WiringHop list" where
  "instrument_hopsOf entries =
     concat (map (\<lambda>(index, e). path_hops (InstrumentSide (iw_instrument e) (iw_role e)) index (iw_path e)) (enumerate 0 entries))"

definition connector_hopsOf :: "ConnectorWiring \<Rightarrow> WiringHop list" where
  "connector_hopsOf entries =
     concat (map (\<lambda>(index, e). path_hops (ConnectorSide (cw_location e) (cw_role e)) index (cw_path e)) (enumerate 0 entries))"

fun sameSide :: "WiringOwner \<Rightarrow> WiringOwner \<Rightarrow> bool" where
  "sameSide (InstrumentSide _ _) (InstrumentSide _ _) = True"
| "sameSide (ConnectorSide _ _) (ConnectorSide _ _) = True"
| "sameSide _ _ = False"

definition sameEntry :: "WiringHop \<Rightarrow> WiringHop \<Rightarrow> bool" where
  "sameEntry left right \<longleftrightarrow> sameSide (hop_owner left) (hop_owner right) \<and> hop_entry left = hop_entry right"

definition claimedElsewhere :: "WiringHop list \<Rightarrow> WiringHop \<Rightarrow> bool" where
  "claimedElsewhere hops h \<longleftrightarrow>
     hop_identifies h \<and> list_ex (\<lambda>other. \<not> sameEntry h other \<and> hop_element other = hop_element h) hops"

definition allHops :: "InstrumentWiring \<Rightarrow> ConnectorWiring \<Rightarrow> WiringHop list" where
  "allHops iw cw = instrument_hopsOf iw @ connector_hopsOf cw"

definition channels_owned_once :: "InstrumentWiring \<Rightarrow> ConnectorWiring \<Rightarrow> bool" where
  "channels_owned_once iw cw = list_all (\<lambda>h. \<not> claimedElsewhere (allHops iw cw) h) (allHops iw cw)"

definition one_way_in :: "InstrumentWiring \<Rightarrow> PinTable \<Rightarrow> string list \<Rightarrow> bool" where
  "one_way_in iw tapWiring ids = list_all (\<lambda>i. \<not> (isInstrumentWired iw i Force \<and> isTapWiredInstrument tapWiring i)) ids"

section \<open>The two rigs\<close>

text \<open>
  A row of a table whose hops the compiler accepts; a row with a refused hop does not compile, and
  is None here.
\<close>

definition wired_path :: "SwitchElementId option list \<Rightarrow> Path option" where
  "wired_path hops = those hops"

definition WIRE_INSTRUMENT :: "string \<Rightarrow> SwitchElementId option list \<Rightarrow> InstrumentWiringEntry option" where
  "WIRE_INSTRUMENT instrument hops =
     map_option (\<lambda>p. \<lparr>iw_instrument = instrument, iw_role = Force, iw_path = p\<rparr>) (wired_path hops)"

definition WIRE_CONNECTOR :: "VpcRack \<Rightarrow> u16 \<Rightarrow> u16 \<Rightarrow> SwitchElementId option list \<Rightarrow> ConnectorWiringEntry option" where
  "WIRE_CONNECTOR r c p hops =
     map_option (\<lambda>q. \<lparr>cw_location = vpc r c p, cw_role = Force, cw_path = q\<rparr>) (wired_path hops)"

definition WIRE_SOURCE :: "string \<Rightarrow> VpcRack \<Rightarrow> u16 \<Rightarrow> u16 \<Rightarrow> string \<times> VpcLocation" where
  "WIRE_SOURCE instrument r c p = (instrument, vpc r c p)"

definition ref_instrument_rows :: "InstrumentWiringEntry option list" where
  "ref_instrument_rows =
     [WIRE_INSTRUMENT ''Dmm1'' [crosspoint ref_devices 0 0 0 0],
      WIRE_INSTRUMENT ''Osc1'' [crosspoint ref_devices 0 0 2 0],
      WIRE_INSTRUMENT ''DcP6'' [hop ref_devices 2 6],
      WIRE_INSTRUMENT ''DcP7'' [hop ref_devices 2 7],
      WIRE_INSTRUMENT ''AcP1'' [hop ref_devices 2 0],
      WIRE_INSTRUMENT ''AcP1'' [hop ref_devices 2 1],
      WIRE_INSTRUMENT ''AcP1'' [hop ref_devices 2 2],
      WIRE_INSTRUMENT ''AcP1'' [hop ref_devices 2 3],
      WIRE_INSTRUMENT ''Ser1'' [hop ref_devices 2 16],
      WIRE_INSTRUMENT ''Ser1'' [hop ref_devices 2 17],
      WIRE_INSTRUMENT ''Ser1'' [hop ref_devices 2 18]]"

definition ref_connector_rows :: "ConnectorWiringEntry option list" where
  "ref_connector_rows =
     [WIRE_CONNECTOR RackA 1 3 [hop ref_devices 1 0, crosspoint ref_devices 0 0 3 0],
      WIRE_CONNECTOR RackA 1 6 [hop ref_devices 1 1, crosspoint ref_devices 0 0 3 0],
      WIRE_CONNECTOR RackA 1 4 [hop ref_devices 1 2, crosspoint ref_devices 0 0 3 0],
      WIRE_CONNECTOR RackA 1 5 [hop ref_devices 1 3, crosspoint ref_devices 0 0 3 0],
      WIRE_CONNECTOR RackA 1 7 [hop ref_devices 1 4, crosspoint ref_devices 0 0 3 0],
      WIRE_CONNECTOR RackA 1 8 [hop ref_devices 1 5, crosspoint ref_devices 0 0 3 0],
      WIRE_CONNECTOR RackA 3 1 [hop ref_devices 1 6, crosspoint ref_devices 0 0 3 0],
      WIRE_CONNECTOR RackA 3 3 [hop ref_devices 1 7, crosspoint ref_devices 0 0 3 0],
      WIRE_CONNECTOR RackA 3 5 [hop ref_devices 1 8, crosspoint ref_devices 0 0 3 0],
      WIRE_CONNECTOR RackA 3 7 [hop ref_devices 1 9, crosspoint ref_devices 0 0 3 0],
      WIRE_CONNECTOR RackA 1 2 [bank ref_devices 4 0 1],
      WIRE_CONNECTOR RackA 2 1 [hop ref_devices 3 0],
      WIRE_CONNECTOR RackA 2 2 [hop ref_devices 3 1],
      WIRE_CONNECTOR RackA 2 5 [hop ref_devices 3 2]]"

definition ref_sources :: PinTable where
  "ref_sources =
     [WIRE_SOURCE ''DcP6'' RackA 1 5, WIRE_SOURCE ''DcP7'' RackA 1 8, WIRE_SOURCE ''AcP1'' RackA 3 1,
      WIRE_SOURCE ''AcP1'' RackA 3 3, WIRE_SOURCE ''AcP1'' RackA 3 5, WIRE_SOURCE ''AcP1'' RackA 3 7]"

definition dev_instrument_rows :: "InstrumentWiringEntry option list" where
  "dev_instrument_rows = [WIRE_INSTRUMENT ''Dmm2'' [analogBus dev_devices 0 1]]"

definition dev_connector_rows :: "ConnectorWiringEntry option list" where
  "dev_connector_rows = [WIRE_CONNECTOR RackA 1 1 [rowColumn dev_devices 0 5 1]]"

definition dev_sources :: PinTable where
  "dev_sources = [WIRE_SOURCE ''DcP7'' RackA 1 1]"

definition no_taps :: PinTable where
  "no_taps = []"

section \<open>The predicates and the lookups\<close>

lemma find_SomeI: "\<exists>x\<in>set xs. P x \<Longrightarrow> \<exists>y. find P xs = Some y"
  by (metis find_None_iff not_None_eq)

lemma find_in: "find P xs = Some x \<Longrightarrow> x \<in> set xs \<and> P x"
  by (metis find_Some_iff nth_mem)

lemma combined_path_empty: "combined_path P w = [] \<longleftrightarrow> (\<forall>e\<in>set w. P e \<longrightarrow> iw_path e = [])"
  by (auto simp: combined_path_def)

text \<open>
  The compile-time predicates and the lookups at run time answer alike: a pin or an instrument
  that the compiler was told is wired is found, and one it was not told of throws.
\<close>

theorem wired_iff_found:
  assumes "list_all (\<lambda>e. iw_path e \<noteq> []) iw"
  shows "(isWired cw location Force \<longleftrightarrow> (\<exists>path. cw_find cw location = Inr path)) \<and>
    (isWired cw location Sense \<longleftrightarrow> (\<exists>path. cw_findSense cw location = Inr path)) \<and>
    (isInstrumentWired iw instrument Force \<longleftrightarrow> (\<exists>path. iw_find iw instrument = Inr path)) \<and>
    (isInstrumentWired iw instrument Sense \<longleftrightarrow> (\<exists>path. iw_findSense iw instrument = Inr path)) \<and>
    (isSourceWired src location \<longleftrightarrow> (\<exists>i. source_find src location = Inr i)) \<and>
    (isTapWiredInstrument tap instrument \<longleftrightarrow> taps tap instrument)"
proof (intro conjI)
  have found: "list_ex P xs \<longleftrightarrow> (\<exists>y. find P xs = Some y)" for P and xs :: "'z list"
    by (auto simp: list_ex_iff find_Some_iff dest: find_SomeI find_in) (metis find_SomeI find_Some_iff)
  show "isWired cw location Force \<longleftrightarrow> (\<exists>path. cw_find cw location = Inr path)"
    and "isWired cw location Sense \<longleftrightarrow> (\<exists>path. cw_findSense cw location = Inr path)"
    and "isInstrumentWired iw instrument Force \<longleftrightarrow> (\<exists>path. iw_find iw instrument = Inr path)"
    by (auto simp: isWired_def isInstrumentWired_def cw_find_def cw_findSense_def iw_find_def found [symmetric] list_ex_iff
        split: option.splits dest: find_in) (auto simp: find_None_iff)
  show "isInstrumentWired iw instrument Sense \<longleftrightarrow> (\<exists>path. iw_findSense iw instrument = Inr path)"
    using assms by (auto simp: isInstrumentWired_def iw_findSense_def Let_def combined_path_empty list_ex_iff list_all_iff)
  show "isSourceWired src location \<longleftrightarrow> (\<exists>i. source_find src location = Inr i)"
    by (auto simp: isSourceWired_def sourcesAt_def rowsAt_def source_find_def findLanding_def instrumentAt_def filter_empty_conv
        find_None_iff split: option.splits dest: find_in)
  show "isTapWiredInstrument tap instrument \<longleftrightarrow> taps tap instrument"
    by (simp add: isTapWiredInstrument_def rowsFor_def taps_def covers_def)
qed

theorem wired_iff_found_witness:
  "isWired [] (vpc RackA 1 1) Force = (\<exists>path. cw_find [] (vpc RackA 1 1) = Inr path) \<and>
   isInstrumentWired (map the dev_instrument_rows) ''Dmm2'' Sense =
     (\<exists>path. iw_findSense (map the dev_instrument_rows) ''Dmm2'' = Inr path)"
proof -
  have "list_all (\<lambda>e. iw_path e \<noteq> []) (map the dev_instrument_rows)" by code_simp
  from wired_iff_found [OF this, of "[]" "vpc RackA 1 1" "''Dmm2''" "[]" "[]"] show ?thesis by blast
qed

section \<open>A channel that is owned once\<close>

definition table_paths :: "InstrumentWiring \<Rightarrow> ConnectorWiring \<Rightarrow> Path list" where
  "table_paths iw cw = map iw_path iw @ map cw_path cw"

lemma in_path_hops:
  "k < length path \<Longrightarrow> \<lparr>hop_owner = owner, hop_entry = i, hop_element = path ! k, hop_identifies = (k = 0)\<rparr> \<in> set (path_hops owner i path)"
  by (force simp: path_hops_def in_set_enumerate_eq)

lemma in_instrument_hops:
  assumes "i < length iw" and "k < length (iw_path (iw ! i))"
  shows "\<lparr>hop_owner = InstrumentSide (iw_instrument (iw ! i)) (iw_role (iw ! i)), hop_entry = i,
    hop_element = iw_path (iw ! i) ! k, hop_identifies = (k = 0)\<rparr> \<in> set (instrument_hopsOf iw)"
  using assms in_path_hops [OF assms(2)] by (force simp: instrument_hopsOf_def in_set_enumerate_eq)

lemma in_connector_hops:
  assumes "i < length cw" and "k < length (cw_path (cw ! i))"
  shows "\<lparr>hop_owner = ConnectorSide (cw_location (cw ! i)) (cw_role (cw ! i)), hop_entry = i,
    hop_element = cw_path (cw ! i) ! k, hop_identifies = (k = 0)\<rparr> \<in> set (connector_hopsOf cw)"
  using assms in_path_hops [OF assms(2)] by (force simp: connector_hopsOf_def in_set_enumerate_eq)

text \<open>The side and the index within the side of an index of both tables.\<close>

definition entry_key :: "InstrumentWiring \<Rightarrow> nat \<Rightarrow> bool \<times> nat" where
  "entry_key iw i = (if i < length iw then (True, i) else (False, i - length iw))"

lemma hop_of_index:
  assumes "i < length (table_paths iw cw)" and "k < length (table_paths iw cw ! i)"
  shows "\<exists>h \<in> set (allHops iw cw). hop_element h = table_paths iw cw ! i ! k \<and> (hop_identifies h \<longleftrightarrow> k = 0) \<and>
    (case hop_owner h of InstrumentSide _ _ \<Rightarrow> True | ConnectorSide _ _ \<Rightarrow> False) = fst (entry_key iw i) \<and>
    hop_entry h = snd (entry_key iw i)"
proof (cases "i < length iw")
  case True
  with assms have "k < length (iw_path (iw ! i))" by (simp add: table_paths_def nth_append)
  from in_instrument_hops [OF True this] True show ?thesis
    by (intro bexI) (auto simp: allHops_def table_paths_def nth_append entry_key_def)
next
  case False
  with assms have "i - length iw < length cw" "k < length (cw_path (cw ! (i - length iw)))"
    by (auto simp: table_paths_def nth_append)
  from in_connector_hops [OF this] False assms(1) show ?thesis
    by (intro bexI) (auto simp: allHops_def table_paths_def nth_append entry_key_def)
qed

lemma own_relay_elsewhere:
  assumes "channels_owned_once iw cw" and "i < length (table_paths iw cw)" and "j < length (table_paths iw cw)"
    and "i \<noteq> j" and "table_paths iw cw ! i \<noteq> []"
  shows "hd (table_paths iw cw ! i) \<notin> set (table_paths iw cw ! j)"
proof
  assume "hd (table_paths iw cw ! i) \<in> set (table_paths iw cw ! j)"
  then obtain k where k: "k < length (table_paths iw cw ! j)" "table_paths iw cw ! j ! k = hd (table_paths iw cw ! i)"
    by (auto simp: in_set_conv_nth)
  obtain h where h: "h \<in> set (allHops iw cw)" "hop_element h = hd (table_paths iw cw ! i)" "hop_identifies h"
    "(case hop_owner h of InstrumentSide _ _ \<Rightarrow> True | ConnectorSide _ _ \<Rightarrow> False) = fst (entry_key iw i)"
    "hop_entry h = snd (entry_key iw i)"
    using hop_of_index [OF assms(2), of 0] assms(5) by (auto simp: hd_conv_nth)
  obtain g where g: "g \<in> set (allHops iw cw)" "hop_element g = hd (table_paths iw cw ! i)"
    "(case hop_owner g of InstrumentSide _ _ \<Rightarrow> True | ConnectorSide _ _ \<Rightarrow> False) = fst (entry_key iw j)"
    "hop_entry g = snd (entry_key iw j)"
    using hop_of_index [OF assms(3) k(1)] k(2) by auto
  have "\<not> sameEntry h g"
  proof
    assume "sameEntry h g"
    then have "fst (entry_key iw i) = fst (entry_key iw j)" "snd (entry_key iw i) = snd (entry_key iw j)"
      using h(4,5) g(3,4) by (auto simp: sameEntry_def split: WiringOwner.splits)
    with assms(4) show False by (auto simp: entry_key_def split: if_splits)
  qed
  with h g have "claimedElsewhere (allHops iw cw) h" by (auto simp: claimedElsewhere_def list_ex_iff)
  with assms(1) h(1) show False by (auto simp: channels_owned_once_def list_all_iff)
qed

text \<open>A route is composed of entries of the tables; what the fabric holds is a list of routes.\<close>

definition route_path :: "Path list \<Rightarrow> nat list \<Rightarrow> Path" where
  "route_path paths route = concat (map (\<lambda>i. paths ! i) route)"

text \<open>
  C17: When the compiler has checked that every channel is owned once, the own relay of a pin or of
  an instrument is closed exactly when a route through that very entry is connected: routing to one
  pin never touches the relay of another, shared trunks or not.
\<close>

theorem own_relay_closed_iff_routed:
  assumes "channels_owned_once iw cw"
    and "fabric_reachable d (f, map (route_path (table_paths iw cw)) routes)"
    and "\<forall>route \<in> set routes. \<forall>i \<in> set route. i < length (table_paths iw cw)"
    and "j < length (table_paths iw cw)" and "table_paths iw cw ! j \<noteq> []"
  shows "fabric_isClosed (hd (table_paths iw cw ! j)) f \<longleftrightarrow> (\<exists>route \<in> set routes. j \<in> set route)"
proof -
  let ?own = "hd (table_paths iw cw ! j)"
  have "fabric_isClosed ?own f \<longleftrightarrow> (\<exists>route \<in> set routes. ?own \<in> set (route_path (table_paths iw cw) route))"
    using fabric_reachable_agrees [OF assms(2)] by (simp add: fabric_agrees_def isClosed_iff_uses total_uses_pos)
  also have "\<dots> \<longleftrightarrow> (\<exists>route \<in> set routes. j \<in> set route)"
    using own_relay_elsewhere [OF assms(1) assms(4) _ _ assms(5)] assms(3,5)
    by (auto simp: route_path_def) (metis hd_in_set)
  finally show ?thesis .
qed

text \<open>On the bench rig: the route of its meter to its pin.\<close>

definition dev_route_fabric :: "unit SwitchFabric" where
  "dev_route_fabric =
     snd (fabric_connect (None :: (unit, unit) SwitchDriver option)
       (route_path (table_paths (map the dev_instrument_rows) (map the dev_connector_rows)) [0, 1])
       \<lparr>mUseCount = (\<lambda>_. None), hardware = ()\<rparr>)"

theorem own_relay_closed_iff_routed_witness:
  "fabric_isClosed (hd (table_paths (map the dev_instrument_rows) (map the dev_connector_rows) ! 1)) dev_route_fabric
     \<longleftrightarrow> (\<exists>route \<in> set [[0, 1]]. (1 :: nat) \<in> set route)"
proof (rule own_relay_closed_iff_routed)
  let ?d = "None :: (unit, unit) SwitchDriver option"
  let ?f = "\<lparr>mUseCount = (\<lambda>_. None), hardware = ()\<rparr>"
  let ?p = "route_path (table_paths (map the dev_instrument_rows) (map the dev_connector_rows)) [0, 1]"
  have "fst (fabric_connect ?d ?p ?f) = None" by code_simp
  then have c: "fabric_connect ?d ?p ?f = (None, dev_route_fabric)"
    by (metis dev_route_fabric_def prod.collapse)
  have "fabric_reachable ?d (?f, [])" by (rule fabric_reachable.start) simp
  from fabric_reachable.step [OF this fabric_step.connect [OF c]]
  show "fabric_reachable ?d (dev_route_fabric,
      map (route_path (table_paths (map the dev_instrument_rows) (map the dev_connector_rows))) [[0, 1]])"
    by simp
qed code_simp+

section \<open>Both rigs pass the checks\<close>

definition compiled :: "'e option list \<Rightarrow> 'e list" where
  "compiled rows = map the rows"

definition rig_wiring_checks ::
    "InstrumentWiringEntry option list \<Rightarrow> ConnectorWiringEntry option list \<Rightarrow> PinTable \<Rightarrow> PinTable \<Rightarrow> bool" where
  "rig_wiring_checks irows crows sources tapped \<longleftrightarrow>
     None \<notin> set irows \<and> None \<notin> set crows \<and>
     channels_owned_once (compiled irows) (compiled crows) \<and>
     list_all (\<lambda>(i, l). sourcesAt sources l \<le> 1) sources \<and>
     one_way_in (compiled irows) tapped (map iw_instrument (compiled irows) @ map fst tapped)"

text \<open>
  The tables of both rigs compile, every channel in them is owned once, no pin has two sources
  and no instrument is both routed and tapped.
\<close>

theorem rig_tables_pass:
  "rig_wiring_checks ref_instrument_rows ref_connector_rows ref_sources no_taps \<and>
   rig_wiring_checks dev_instrument_rows dev_connector_rows dev_sources no_taps"
  by code_simp

end
