(* ===== verification/Verbs.thy ===== *)
theory Verbs
  imports Wiring Session Format Journal
begin

text \<open>
  The verbs of a script, core/verbs/measure.hpp, route.hpp, source.hpp, acquire.hpp, transfer.hpp and
  trace.hpp, with the electrical interlock of core/verbs/interlock.hpp and hal/src/verbs/interlock.cpp. A verb
  works on a bench: the fabric with the hardware behind it, the journal and the session bank. An exception
  is the text of its what(). What a driver does is a parameter: a port reads the hardware, and a
  source is a record of the driver functions the engines find for its configuration. The same
  state passing composes them with the models of the drivers.
\<close>

section \<open>Reducing a trace\<close>

definition peakToPeakValue :: "Waveform \<Rightarrow> string + QuantityVariant" where
  "peakToPeakValue w =
     (case waveform_values w of
        [] \<Rightarrow> Inl (empty_trace_error ''peakToPeak'')
      | x # xs \<Rightarrow>
          Inr (quantityVariantFromKind (mKind w) (d_sub (element_by (\<lambda>a b. d_lt b a) x xs) (element_by d_lt x xs))))"

text \<open>A double over the number of samples; a count of samples is a double itself.\<close>

fun d_over :: "double \<Rightarrow> nat \<Rightarrow> double" where
  "d_over (Fin a) n = round_double (a / of_nat n)"
| "d_over d n = d"

definition meanValue :: "Waveform \<Rightarrow> string + QuantityVariant" where
  "meanValue w =
     (if mSamples w = [] then Inl (empty_trace_error ''mean'')
      else Inr (quantityVariantFromKind (mKind w)
                  (d_over (foldl d_add (Fin 0) (waveform_values w)) (length (mSamples w)))))"

definition describe_waveform :: "digits \<Rightarrow> Waveform \<Rightarrow> string" where
  "describe_waveform fd w =
     (case peakToPeakValue w of
        Inl _ \<Rightarrow> ''0 pts''
      | Inr height \<Rightarrow>
          show_nat (length (mSamples w)) @ '' pts @ '' @
          describe_quantity fd (quantityVariantFromKind Time (Increment (mTiming w))) @ '', '' @
          describe_quantity fd height @ '' pk-pk'')"

section \<open>The interlock\<close>

fun requiresDeadNode :: "QuantityKind \<Rightarrow> bool" where
  "requiresDeadNode Current = True"
| "requiresDeadNode Resistance = True"
| "requiresDeadNode Capacitance = True"
| "requiresDeadNode _ = False"

definition hotSwitchDetail :: "Verb \<Rightarrow> string \<Rightarrow> string" where
  "hotSwitchDetail m instrument =
     ''hot switching -- '' @
     (if m = Connect then ''relay closed onto an energised output''
      else ''relay opened while the output was energised'') @ '' ('' @ instrument @ '')''"

definition liveTapMessage :: "string \<Rightarrow> string \<Rightarrow> QuantityKind \<Rightarrow> string \<Rightarrow> string" where
  "liveTapMessage point instrument k liveSource =
     ''interlock: refusing to route '' @ instrument @ [CHR 0x27] @ ''s '' @ to_string_kind k @ '' measurement to '' @ point @
     '' -- '' @ liveSource @ '' is energised and cabled onto that pin, so this reading would put a low impedance across'' @
     '' a live rail through the switching fabric. Remove( '' @ liveSource @
     '') first, or measure at the instrument instead''"

text \<open>An instrument with an output: its id, and isEnabled().\<close>

type_synonym 'h energisable = "string \<times> ('h \<Rightarrow> bool)"

definition energisedSourceAt :: "PinTable \<Rightarrow> 'h energisable list \<Rightarrow> VpcLocation \<Rightarrow> 'h \<Rightarrow> string" where
  "energisedSourceAt sourceWiring members location h =
     (case findLanding sourceWiring location of
        None \<Rightarrow> []
      | Some landing \<Rightarrow> if list_ex (\<lambda>(i, isEnabled). i = landing \<and> isEnabled h) members then landing else [])"

section \<open>Ports, points and the bench\<close>

datatype PointKind = SignalPoint | SourcePoint

record AdapterPoint =
  LocationValue :: VpcLocation
  KindValue :: PointKind
  PointName :: string
  PointDescription :: string

text \<open>
  A port: what it reads, its instrument, and how. rawMeasure answers, throws an UnmeasurableReading
  with the instrument's reason, or throws something else. The fallback of whenUnmeasurable() may
  throw too.
\<close>

datatype port_fault = UnmeasurableReading string | PortFailure string

record 'h Port =
  port_kind :: QuantityKind
  port_instrument :: string
  port_sense :: bool
  port_qualifier :: string
  rawMeasure :: "'h \<Rightarrow> (port_fault + double) \<times> 'h"
  mUnmeasurable :: "(string \<Rightarrow> string + double) option"

record 'h Rig =
  mDriver :: "('h, string) SwitchDriver option"
  mInstrumentWiring :: InstrumentWiring
  mConnectorWiring :: ConnectorWiring
  mTapWiring :: PinTable
  mSourceWiring :: PinTable
  rig_sources :: "'h energisable list"
  rig_bench :: Bench
  rig_number :: "double \<Rightarrow> string"
  rig_digits :: digits

record 'h Bay =
  fabric :: "'h SwitchFabric"
  journal :: Journal
  mSessions :: SessionBank

definition unmeasurableValue :: "'h Port \<Rightarrow> string \<Rightarrow> string + double" where
  "unmeasurableValue prt reason = (case mUnmeasurable prt of Some f \<Rightarrow> f reason | None \<Rightarrow> Inr NaN)"

text \<open>What a live read works on: the fabric, and the reason an unmeasurable reading gave.\<close>

type_synonym 'h reading_state = "'h SwitchFabric \<times> string"

definition readOrSubstitute :: "'h Port \<Rightarrow> 'h reading_state \<Rightarrow> (string + double) \<times> 'h reading_state" where
  "readOrSubstitute prt s =
     (case s of (f, reason) \<Rightarrow>
        (case rawMeasure prt (hardware f) of
           (Inr v, h) \<Rightarrow> (Inr v, f\<lparr>hardware := h\<rparr>, reason)
         | (Inl (PortFailure e), h) \<Rightarrow> (Inl e, f\<lparr>hardware := h\<rparr>, reason)
         | (Inl (UnmeasurableReading why), h) \<Rightarrow> (unmeasurableValue prt why, f\<lparr>hardware := h\<rparr>, why)))"

definition quantity_value :: "'h Port \<Rightarrow> (string + double) \<Rightarrow> string + RecordedValue" where
  "quantity_value prt r =
     (case r of Inl e \<Rightarrow> Inl e | Inr v \<Rightarrow> Inr (Reading (quantityVariantFromKind (port_kind prt) v)))"

section \<open>Measure\<close>

definition wrong_pin_message :: "'h Rig \<Rightarrow> 'h Port \<Rightarrow> AdapterPoint \<Rightarrow> string" where
  "wrong_pin_message rig prt point =
     port_instrument prt @ '' is cabled straight onto '' @ describeTaps (mTapWiring rig) (port_instrument prt) @
     '' and has no path to '' @ PointName point @
     '' -- on a direct-wired rig at( ...) names the pin the instrument'' @ [CHR 0x27] @ ''s own leads are on''"

definition measure_path :: "'h Rig \<Rightarrow> 'h Port \<Rightarrow> AdapterPoint \<Rightarrow> string + Path" where
  "measure_path rig prt point =
     (case iw_find (mInstrumentWiring rig) (port_instrument prt) of
        Inl e \<Rightarrow> Inl e
      | Inr path \<Rightarrow>
          (case cw_find (mConnectorWiring rig) (LocationValue point) of
             Inl e \<Rightarrow> Inl e
           | Inr connectorPath \<Rightarrow>
               (if port_sense prt
                then (case iw_findSense (mInstrumentWiring rig) (port_instrument prt) of
                        Inl e \<Rightarrow> Inl e
                      | Inr instrumentSense \<Rightarrow>
                          (case cw_findSense (mConnectorWiring rig) (LocationValue point) of
                             Inl e \<Rightarrow> Inl e
                           | Inr connectorSense \<Rightarrow> Inr (path @ connectorPath @ instrumentSense @ connectorSense)))
                else Inr (path @ connectorPath))))"

text \<open>The reading between connect and disconnect; after a read that threw, what disconnect throws is swallowed.\<close>

definition routed_read ::
    "'h Rig \<Rightarrow> 'h Port \<Rightarrow> Path \<Rightarrow> 'h reading_state \<Rightarrow> (string + RecordedValue) \<times> 'h reading_state" where
  "routed_read rig prt path s =
     (case fabric_connect (mDriver rig) path (fst s) of
        (Some e, f) \<Rightarrow> (Inl e, f, snd s)
      | (None, f) \<Rightarrow>
          (case readOrSubstitute prt (f, snd s) of
             (Inl e, f', reason) \<Rightarrow> (Inl e, snd (fabric_disconnect (mDriver rig) path f'), reason)
           | (Inr v, f', reason) \<Rightarrow>
               (case fabric_disconnect (mDriver rig) path f' of
                  (Some e, f'') \<Rightarrow> (Inl e, f'', reason)
                | (None, f'') \<Rightarrow> (quantity_value prt (Inr v), f'', reason))))"

definition liveRead :: "'h Rig \<Rightarrow> 'h Port \<Rightarrow> AdapterPoint \<Rightarrow> 'h reading_state live_read" where
  "liveRead rig prt point s =
     (let liveSource = energisedSourceAt (mSourceWiring rig) (rig_sources rig) (LocationValue point) (hardware (fst s))
      in if KindValue point = SourcePoint \<and> requiresDeadNode (port_kind prt) \<and> liveSource \<noteq> []
         then (Inl (liveTapMessage (PointName point) (port_instrument prt) (port_kind prt) liveSource), s)
         else if taps (mTapWiring rig) (port_instrument prt)
         then (if \<not> isTappedBy (mTapWiring rig) (port_instrument prt) (LocationValue point)
               then (Inl (wrong_pin_message rig prt point), s)
               else (case readOrSubstitute prt s of (r, s') \<Rightarrow> (quantity_value prt r, s')))
         else (case measure_path rig prt point of
                 Inl e \<Rightarrow> (Inl e, s)
               | Inr path \<Rightarrow> routed_read rig prt path s))"

text \<open>The number a recorded value holds: asQuantity on what the bank hands back.\<close>

definition recorded_quantity :: "QuantityKind \<Rightarrow> RecordedValue \<Rightarrow> string + double" where
  "recorded_quantity k v = (case v of Reading q \<Rightarrow> asQuantity k q | _ \<Rightarrow> Inl [])"

text \<open>
  activeSession().fetch: the sample a recorder makes is stamped with the running test and with the
  system clock, read once when a sample is made.
\<close>

definition session_fetch ::
    "'h Rig \<Rightarrow> string \<Rightarrow> slot \<Rightarrow> 'h reading_state live_read \<Rightarrow> 'h Bay \<Rightarrow> (string + RecordedValue) \<times> string \<times> 'h Bay" where
  "session_fetch rig instrument q live w =
     (let j = journal w;
          here = \<lparr>currentTest = mTest j, wallClockMillis = clock j (clock_reads j), instrumentId = instrument\<rparr>
      in case bank_fetch (rig_number rig) (rig_bench rig) here q live (mSessions w, fabric w, []) of
           (r, b, f, reason) \<Rightarrow>
             (let reads = (if mNextObservation b = mNextObservation (mSessions w) then 0 else 1)
              in (r, reason, w\<lparr>fabric := f, mSessions := b, journal := j\<lparr>clock_reads := clock_reads j + reads\<rparr>\<rparr>)))"

definition bay_post :: "JournalRecord \<Rightarrow> 'h Bay \<Rightarrow> 'h Bay" where
  "bay_post r w = w\<lparr>journal := post r (journal w)\<rparr>"

definition measure_record :: "'h Rig \<Rightarrow> 'h Port \<Rightarrow> string \<Rightarrow> string \<Rightarrow> double \<Rightarrow> JournalRecord" where
  "measure_record rig prt key detail v =
     blank_record\<lparr>Method := Measure, Subject := key, Detail := detail, Instrument := port_instrument prt,
       Value := describe_quantity (rig_digits rig) (quantityVariantFromKind (port_kind prt) v),
       Numeric := Some v, Unit := unitSymbol (port_kind prt)\<rparr>"

definition finish_measure ::
    "'h Rig \<Rightarrow> 'h Port \<Rightarrow> string \<Rightarrow> string \<Rightarrow> (string + RecordedValue) \<times> string \<times> 'h Bay \<Rightarrow> (string + double) \<times> 'h Bay" where
  "finish_measure rig prt key desc fetched =
     (case fetched of
        (Inl e, reason, w) \<Rightarrow> (Inl e, w)
      | (Inr recorded, reason, w) \<Rightarrow>
          (case recorded_quantity (port_kind prt) recorded of
             Inl e \<Rightarrow> (Inl e, w)
           | Inr v \<Rightarrow>
               (Inr v, bay_post (measure_record rig prt key
                   (if reason = [] then desc else desc @ '' -- unmeasurable: '' @ reason) v) w)))"

definition point_key :: "'h Port \<Rightarrow> AdapterPoint \<Rightarrow> string" where
  "point_key prt point =
     (if port_qualifier prt = [] then PointName point else PointName point @ ''.'' @ port_qualifier prt)"

text \<open>Measure( port, at( point)).\<close>

definition measure_at :: "'h Rig \<Rightarrow> 'h Port \<Rightarrow> AdapterPoint \<Rightarrow> 'h Bay \<Rightarrow> (string + double) \<times> 'h Bay" where
  "measure_at rig prt point w =
     finish_measure rig prt (point_key prt point) (PointDescription point)
       (session_fetch rig (port_instrument prt) (ReadingSeam (port_kind prt), point_key prt point)
          (liveRead rig prt point) w)"

definition instrument_key :: "'h Port \<Rightarrow> string" where
  "instrument_key prt =
     (if port_qualifier prt = [] then port_instrument prt @ ''.'' @ to_string_kind (port_kind prt)
      else port_instrument prt @ ''.'' @ port_qualifier prt @ ''.'' @ to_string_kind (port_kind prt))"

text \<open>Measure( port), the instrument's own readback.\<close>

definition measure_port :: "'h Rig \<Rightarrow> 'h Port \<Rightarrow> 'h Bay \<Rightarrow> (string + double) \<times> 'h Bay" where
  "measure_port rig prt w =
     (if taps (mTapWiring rig) (port_instrument prt)
      then (Inl (port_instrument prt @ '' is cabled straight onto '' @ describeTaps (mTapWiring rig) (port_instrument prt) @
                 '' -- measure it as Measure( port, at( <that point>)) so the reading is keyed by the pin '' @
                 ''rather than by the instrument''), w)
      else finish_measure rig prt (instrument_key prt) ''instrument readback''
             (session_fetch rig (port_instrument prt) (ReadingSeam (port_kind prt), instrument_key prt)
                (\<lambda>s. case readOrSubstitute prt s of (r, s') \<Rightarrow> (quantity_value prt r, s')) w))"

section \<open>Sources and the other verbs\<close>

text \<open>
  What the engines find for the configuration of a builder: its description, whether Apply can
  energise it, and its driver functions. A connecting driver works on the fabric with the tables.
\<close>

record AdapterBundle =
  BundleName :: string
  BundleDescription :: string
  bundleLocations :: "VpcLocation list"

record 'h Builder =
  described_instrument :: string
  described_settings :: string
  energisable :: bool
  isEnergised :: "'h \<Rightarrow> (string + bool) \<times> 'h"
  applyDriver :: "'h \<Rightarrow> string option \<times> 'h"
  removeDriver :: "'h \<Rightarrow> string option \<times> 'h"
  setupDriver :: "'h \<Rightarrow> string option \<times> 'h"
  armDriver :: "'h \<Rightarrow> string option \<times> 'h"
  awaitDriver :: "'h \<Rightarrow> (string + bool) \<times> 'h"
  readDriver :: "'h \<Rightarrow> (string + Bytes) \<times> 'h"
  writeDriver :: "Bytes \<Rightarrow> 'h \<Rightarrow> string option \<times> 'h"
  fetchDriver :: "'h \<Rightarrow> (string + Waveform) \<times> 'h"
  traceQualifier :: string
  connectDriver :: "'h Rig \<Rightarrow> AdapterBundle option \<Rightarrow> 'h SwitchFabric \<Rightarrow> string option \<times> 'h SwitchFabric"
  disconnectDriver :: "'h Rig \<Rightarrow> AdapterBundle option \<Rightarrow> 'h SwitchFabric \<Rightarrow> string option \<times> 'h SwitchFabric"

text \<open>The connecting driver of a source behind its own relays: everything wired to the instrument.\<close>

definition connect_fixed ::
    "string \<Rightarrow> 'h Rig \<Rightarrow> AdapterBundle option \<Rightarrow> 'h SwitchFabric \<Rightarrow> string option \<times> 'h SwitchFabric" where
  "connect_fixed instrument rig bundle f =
     (case iw_findAll (mInstrumentWiring rig) instrument of
        Inl e \<Rightarrow> (Some e, f)
      | Inr path \<Rightarrow> fabric_connect (mDriver rig) path f)"

definition disconnect_fixed ::
    "string \<Rightarrow> 'h Rig \<Rightarrow> AdapterBundle option \<Rightarrow> 'h SwitchFabric \<Rightarrow> string option \<times> 'h SwitchFabric" where
  "disconnect_fixed instrument rig bundle f =
     (case iw_findAll (mInstrumentWiring rig) instrument of
        Inl e \<Rightarrow> (Some e, f)
      | Inr path \<Rightarrow> fabric_disconnect (mDriver rig) path f)"

definition source_detail :: "'h Rig \<Rightarrow> Verb \<Rightarrow> string \<Rightarrow> bool \<Rightarrow> string" where
  "source_detail rig m instrument hotSwitched =
     (if mAttached (rig_bench rig) then (if hotSwitched then hotSwitchDetail m instrument else []) else kDetachedDetail)"

definition postSourceEvent :: "'h Rig \<Rightarrow> Verb \<Rightarrow> 'h Builder \<Rightarrow> bool \<Rightarrow> bool \<Rightarrow> 'h Bay \<Rightarrow> 'h Bay" where
  "postSourceEvent rig m builder withSettings hotSwitched =
     bay_post (blank_record\<lparr>Method := m, Subject := described_instrument builder,
       Detail := source_detail rig m (described_instrument builder) hotSwitched,
       Instrument := described_instrument builder,
       Value := (if withSettings then described_settings builder else [])\<rparr>)"

text \<open>A driver function run on the hardware, on an attached bench only.\<close>

definition if_attached :: "'h Rig \<Rightarrow> ('h \<Rightarrow> string option \<times> 'h) \<Rightarrow> 'h Bay \<Rightarrow> string option \<times> 'h Bay" where
  "if_attached rig driver w =
     (if mAttached (rig_bench rig)
      then (case driver (hardware (fabric w)) of (e, h) \<Rightarrow> (e, w\<lparr>fabric := (fabric w)\<lparr>hardware := h\<rparr>\<rparr>))
      else (None, w))"

definition then_post :: "('h Bay \<Rightarrow> 'h Bay) \<Rightarrow> string option \<times> 'h Bay \<Rightarrow> string option \<times> 'h Bay" where
  "then_post posted r = (case r of (Some e, w) \<Rightarrow> (Some e, w) | (None, w) \<Rightarrow> (None, posted w))"

definition applyEngine :: "'h Rig \<Rightarrow> 'h Builder \<Rightarrow> 'h Bay \<Rightarrow> string option \<times> 'h Bay" where
  "applyEngine rig b w = then_post (postSourceEvent rig Apply b True False) (if_attached rig (applyDriver b) w)"

definition setupEngine :: "'h Rig \<Rightarrow> 'h Builder \<Rightarrow> 'h Bay \<Rightarrow> string option \<times> 'h Bay" where
  "setupEngine rig b w = then_post (postSourceEvent rig Setup b True False) (if_attached rig (setupDriver b) w)"

definition removeEngine :: "'h Rig \<Rightarrow> 'h Builder \<Rightarrow> 'h Bay \<Rightarrow> string option \<times> 'h Bay" where
  "removeEngine rig b w = then_post (postSourceEvent rig Remove b False False) (if_attached rig (removeDriver b) w)"

definition armEngine :: "'h Rig \<Rightarrow> 'h Builder \<Rightarrow> 'h Bay \<Rightarrow> string option \<times> 'h Bay" where
  "armEngine rig b w = then_post (postSourceEvent rig Arm b True False) (if_attached rig (armDriver b) w)"

text \<open>Whether the relay is about to move under an energised output: asked on an attached bench only.\<close>

definition energisedNow :: "'h Rig \<Rightarrow> 'h Builder \<Rightarrow> 'h Bay \<Rightarrow> (string + bool) \<times> 'h Bay" where
  "energisedNow rig b w =
     (if mAttached (rig_bench rig) \<and> energisable b
      then (case isEnergised b (hardware (fabric w)) of (r, h) \<Rightarrow> (r, w\<lparr>fabric := (fabric w)\<lparr>hardware := h\<rparr>\<rparr>))
      else (Inr False, w))"

definition move_fabric ::
    "'h Rig \<Rightarrow> ('h SwitchFabric \<Rightarrow> string option \<times> 'h SwitchFabric) \<Rightarrow> 'h Bay \<Rightarrow> string option \<times> 'h Bay" where
  "move_fabric rig driver w =
     (if mAttached (rig_bench rig) then (case driver (fabric w) of (e, f) \<Rightarrow> (e, w\<lparr>fabric := f\<rparr>)) else (None, w))"

definition bundle_detail :: "'h Rig \<Rightarrow> Verb \<Rightarrow> string \<Rightarrow> AdapterBundle \<Rightarrow> bool \<Rightarrow> string" where
  "bundle_detail rig m instrument point hotSwitched =
     (if mAttached (rig_bench rig)
      then (if hotSwitched then BundleDescription point @ '' -- '' @ hotSwitchDetail m instrument else BundleDescription point)
      else kDetachedDetail)"

definition post_routed :: "'h Rig \<Rightarrow> Verb \<Rightarrow> 'h Builder \<Rightarrow> AdapterBundle option \<Rightarrow> bool \<Rightarrow> 'h Bay \<Rightarrow> 'h Bay" where
  "post_routed rig m b bundle hotSwitched =
     (case bundle of
        None \<Rightarrow> postSourceEvent rig m b False hotSwitched
      | Some point \<Rightarrow>
          bay_post (blank_record\<lparr>Method := m, Subject := described_instrument b,
            Detail := bundle_detail rig m (described_instrument b) point hotSwitched,
            Instrument := described_instrument b, Value := BundleName point\<rparr>))"

definition connectEngine :: "'h Rig \<Rightarrow> 'h Builder \<Rightarrow> AdapterBundle option \<Rightarrow> 'h Bay \<Rightarrow> string option \<times> 'h Bay" where
  "connectEngine rig b bundle w =
     (case energisedNow rig b w of
        (Inl e, w') \<Rightarrow> (Some e, w')
      | (Inr hotSwitched, w') \<Rightarrow>
          then_post (post_routed rig Connect b bundle hotSwitched) (move_fabric rig (connectDriver b rig bundle) w'))"

definition disconnectEngine :: "'h Rig \<Rightarrow> 'h Builder \<Rightarrow> AdapterBundle option \<Rightarrow> 'h Bay \<Rightarrow> string option \<times> 'h Bay" where
  "disconnectEngine rig b bundle w =
     (case energisedNow rig b w of
        (Inl e, w') \<Rightarrow> (Some e, w')
      | (Inr hotSwitched, w') \<Rightarrow>
          then_post (post_routed rig Disconnect b bundle hotSwitched) (move_fabric rig (disconnectDriver b rig bundle) w'))"

text \<open>A live read of the hardware alone, through the session.\<close>

definition live_of :: "('a \<Rightarrow> RecordedValue) \<Rightarrow> ('h \<Rightarrow> (string + 'a) \<times> 'h) \<Rightarrow> 'h reading_state live_read" where
  "live_of wrap reader s =
     (case reader (hardware (fst s)) of
        (Inl e, h) \<Rightarrow> (Inl e, (fst s)\<lparr>hardware := h\<rparr>, snd s)
      | (Inr v, h) \<Rightarrow> (Inr (wrap v), (fst s)\<lparr>hardware := h\<rparr>, snd s))"

definition awaitEngine :: "'h Rig \<Rightarrow> 'h Builder \<Rightarrow> 'h Bay \<Rightarrow> (string + bool) \<times> 'h Bay" where
  "awaitEngine rig b w =
     (let instrument = described_instrument b; key = instrument @ ''.Acquisition''
      in case session_fetch rig instrument (FlagSeam, key) (live_of Flag (awaitDriver b)) w of
           (Inr (Flag completed), _, w') \<Rightarrow>
             (Inr completed, bay_post (blank_record\<lparr>Method := Await, Subject := key,
                Detail := (if completed then ''acquisition complete'' else ''timed out before the acquisition completed''),
                Instrument := instrument, Value := (if completed then ''complete'' else ''timeout'')\<rparr>) w')
         | (Inl e, _, w') \<Rightarrow> (Inl e, w')
         | (Inr _, _, w') \<Rightarrow> (Inl [], w'))"

definition readEngine :: "'h Rig \<Rightarrow> 'h Builder \<Rightarrow> 'h Bay \<Rightarrow> (string + Bytes) \<times> 'h Bay" where
  "readEngine rig b w =
     (let instrument = described_instrument b; key = instrument @ ''.Data''
      in case session_fetch rig instrument (DataSeam, key) (live_of Payload (readDriver b)) w of
           (Inr (Payload payload), _, w') \<Rightarrow>
             (Inr payload, bay_post (blank_record\<lparr>Method := Read, Subject := key, Detail := ''received'',
                Instrument := instrument, Value := describe_bytes payload\<rparr>) w')
         | (Inl e, _, w') \<Rightarrow> (Inl e, w')
         | (Inr _, _, w') \<Rightarrow> (Inl [], w'))"

definition fetchEngine :: "'h Rig \<Rightarrow> 'h Builder \<Rightarrow> 'h Bay \<Rightarrow> (string + Waveform) \<times> 'h Bay" where
  "fetchEngine rig b w =
     (let instrument = described_instrument b; key = instrument @ ''.'' @ traceQualifier b
      in case session_fetch rig instrument (TraceSeam, key) (live_of Trace (fetchDriver b)) w of
           (Inr (Trace trace), _, w') \<Rightarrow>
             (Inr trace, bay_post (blank_record\<lparr>Method := Fetch, Subject := key, Detail := ''captured'',
                Instrument := instrument, Value := describe_waveform (rig_digits rig) trace\<rparr>) w')
         | (Inl e, _, w') \<Rightarrow> (Inl e, w')
         | (Inr _, _, w') \<Rightarrow> (Inl [], w'))"

definition writeEngine :: "'h Rig \<Rightarrow> 'h Builder \<Rightarrow> Bytes \<Rightarrow> 'h Bay \<Rightarrow> string option \<times> 'h Bay" where
  "writeEngine rig b payload w =
     then_post (bay_post (blank_record\<lparr>Method := Write, Subject := described_instrument b,
         Detail := (if mAttached (rig_bench rig) then ''sent'' else kDetachedDetail),
         Instrument := described_instrument b, Value := describe_bytes payload\<rparr>))
       (if_attached rig (writeDriver b payload) w)"

section \<open>A script's calls\<close>

datatype 'h verb_call =
    DoMeasureAt "'h Port" AdapterPoint
  | DoMeasure "'h Port"
  | DoApply "'h Builder"
  | DoSetup "'h Builder"
  | DoRemove "'h Builder"
  | DoArm "'h Builder"
  | DoConnect "'h Builder" "AdapterBundle option"
  | DoDisconnect "'h Builder" "AdapterBundle option"
  | DoAwait "'h Builder"
  | DoRead "'h Builder"
  | DoFetch "'h Builder"
  | DoWrite "'h Builder" Bytes

definition outcome :: "(string + 'a) \<times> 'h Bay \<Rightarrow> string option \<times> 'h Bay" where
  "outcome r = (case r of (Inl e, w) \<Rightarrow> (Some e, w) | (Inr v, w) \<Rightarrow> (None, w))"

fun run_verb :: "'h Rig \<Rightarrow> 'h verb_call \<Rightarrow> 'h Bay \<Rightarrow> string option \<times> 'h Bay" where
  "run_verb rig (DoMeasureAt p point) w = outcome (measure_at rig p point w)"
| "run_verb rig (DoMeasure p) w = outcome (measure_port rig p w)"
| "run_verb rig (DoApply b) w = applyEngine rig b w"
| "run_verb rig (DoSetup b) w = setupEngine rig b w"
| "run_verb rig (DoRemove b) w = removeEngine rig b w"
| "run_verb rig (DoArm b) w = armEngine rig b w"
| "run_verb rig (DoConnect b bundle) w = connectEngine rig b bundle w"
| "run_verb rig (DoDisconnect b bundle) w = disconnectEngine rig b bundle w"
| "run_verb rig (DoAwait b) w = outcome (awaitEngine rig b w)"
| "run_verb rig (DoRead b) w = outcome (readEngine rig b w)"
| "run_verb rig (DoFetch b) w = outcome (fetchEngine rig b w)"
| "run_verb rig (DoWrite b payload) w = writeEngine rig b payload w"

end
