(* ===== verification/DcSource.thy ===== *)
theory DcSource
  imports BoxSession Verbs
begin

text \<open>
  The bench supply, instruments/keysight_edu36311a: what its three outputs are told and in which order
  (src/keysight_edu36311a.cpp), the driver of one output (keysight_edu36311a_dc_source.hpp), its
  configuration and the functions the verbs find for it, and hal/verbs/snapshot.hpp, which puts a
  source back as it was. The outputs of a box share its session, so a bench is the box connections
  and the state of every output. An output is the number of its row in the instrument table.
\<close>

section \<open>The outputs\<close>

record DcOutput =
  Channel :: int
  MaxVolts :: double
  MaxAmps :: double
  Rating :: string

definition Output1 :: DcOutput where
  "Output1 = \<lparr>Channel = 1, MaxVolts = Fin 6, MaxAmps = Fin 5, Rating = ''6 V / 5 A''\<rparr>"

definition Output2 :: DcOutput where
  "Output2 = \<lparr>Channel = 2, MaxVolts = Fin 30, MaxAmps = Fin 1, Rating = ''30 V / 1 A''\<rparr>"

definition Output3 :: DcOutput where
  "Output3 = \<lparr>Channel = 3, MaxVolts = Fin 30, MaxAmps = Fin 1, Rating = ''30 V / 1 A''\<rparr>"

text \<open>What is thrown: a RatingExceeded with its setting, value, rating and unit, or a session's exception.\<close>

datatype dc_error = RatingExceeded string string double double string | DcFault box_error

fun dc_error_text :: "dc_error \<Rightarrow> string" where
  "dc_error_text (RatingExceeded instrument setting v rated u) =
     instrument @ '': '' @ setting @ '' of '' @ scpi_number v @ '' '' @ u @
     '' is beyond this output'' @ [CHR 0x27] @ ''s rating of '' @ scpi_number rated @ '' '' @ u @
     '' -- an EDU36311A output is 6 V / 5 A or 30 V / 1 A, see instruments/keysight_edu36311a/README.md''"
| "dc_error_text (DcFault e) = box_error_text e"

section \<open>On the wire\<close>

definition psu_channelList :: "int \<Rightarrow> string" where
  "psu_channelList ch = ''(@'' @ show_int ch @ '')''"

definition psu_setting :: "string \<Rightarrow> double \<Rightarrow> int \<Rightarrow> string" where
  "psu_setting command v ch = command @ '' '' @ scpi_number v @ '', '' @ psu_channelList ch"

text \<open>Field two of an identity, empty when there is no comma.\<close>

definition psu_modelOf :: "string \<Rightarrow> string" where
  "psu_modelOf identity =
     (case split_first (CHR '','') identity of
        None \<Rightarrow> []
      | Some (_, rest) \<Rightarrow> (case split_first (CHR '','') rest of None \<Rightarrow> rest | Some (model, _) \<Rightarrow> model))"

definition psu_prepare :: "'t ITransport \<Rightarrow> 't \<Rightarrow> (io_error + unit) \<times> 't" where
  "psu_prepare tr t =
     (case scpi_clearErrors tr t of
        (Inl e, t1) \<Rightarrow> (Inl e, t1)
      | (Inr _, t1) \<Rightarrow>
          (case scpi_identify tr t1 of
             (Inl e, t2) \<Rightarrow> (Inl e, t2)
           | (Inr identity, t2) \<Rightarrow>
               (if psu_modelOf identity \<noteq> ''EDU36311A''
                then (Inl (ScpiFault (description tr t2) ''*IDN?''
                       \<lparr>Code = 0, Message = ''expected an EDU36311A and found \"'' @ identity @
                          ''\" -- check this instrument'' @ [CHR 0x27] @ ''s address in the rig'' @ [CHR 0x27] @
                          ''s instrument table. Note an E36311A is NOT this instrument: same commands, different '' @
                          ''ranges, and a negative rail on output 3''\<rparr>), t2)
                else (Inr (), t2))))"

text \<open>The settings of an Apply in the order they are sent: limit, trip level, voltage, and the output on.\<close>

definition program_commands :: "int \<Rightarrow> double option \<Rightarrow> double option \<Rightarrow> double option \<Rightarrow> string list" where
  "program_commands ch volts amps overVolts =
     (case amps of None \<Rightarrow> [] | Some a \<Rightarrow> [psu_setting ''CURR'' a ch]) @
     (case overVolts of None \<Rightarrow> [] | Some v \<Rightarrow> [psu_setting ''VOLT:PROT'' v ch]) @
     [psu_setting ''VOLT'' (case volts of None \<Rightarrow> Fin 0 | Some v \<Rightarrow> v) ch, psu_setting ''OUTP'' (Fin 1) ch]"

definition psu_program ::
    "int \<Rightarrow> double option \<Rightarrow> double option \<Rightarrow> double option \<Rightarrow> 't ITransport \<Rightarrow> 't \<Rightarrow> (io_error + unit) \<times> 't" where
  "psu_program ch volts amps overVolts tr t =
     (case checked_all tr (program_commands ch volts amps overVolts) t of
        (Inl e, t') \<Rightarrow> (Inl e, t')
      | (Inr _, t') \<Rightarrow> scpi_waitForComplete tr t')"

definition psu_disableOutput :: "int \<Rightarrow> 't ITransport \<Rightarrow> 't \<Rightarrow> (io_error + unit) \<times> 't" where
  "psu_disableOutput ch tr t =
     (case scpi_checked tr (psu_setting ''OUTP'' (Fin 0) ch) t of
        (Inl e, t') \<Rightarrow> (Inl e, t')
      | (Inr _, t') \<Rightarrow> scpi_waitForComplete tr t')"

datatype DcReading = VoltageReading | CurrentReading

definition psu_measure :: "int \<Rightarrow> DcReading \<Rightarrow> 't ITransport \<Rightarrow> 't \<Rightarrow> (io_error + double) \<times> 't" where
  "psu_measure ch reading tr t =
     scpi_queryNumber tr ((if reading = VoltageReading then ''MEAS:VOLT? '' else ''MEAS:CURR? '') @ psu_channelList ch) t"

definition psu_outputIsOn :: "int \<Rightarrow> 't ITransport \<Rightarrow> 't \<Rightarrow> (io_error + bool) \<times> 't" where
  "psu_outputIsOn ch tr t =
     (case scpi_queryNumber tr (''OUTP? '' @ psu_channelList ch) t of
        (Inl e, t') \<Rightarrow> (Inl e, t')
      | (Inr v, t') \<Rightarrow> (Inr (\<not> d_eq v (Fin 0)), t'))"

text \<open>Off, then the setpoint zeroed; a transport error ends the sends and is swallowed.\<close>

definition psu_sendSafe :: "int \<Rightarrow> 't ITransport \<Rightarrow> 't \<Rightarrow> (io_error + unit) \<times> 't" where
  "psu_sendSafe ch tr t = write_all tr [psu_setting ''OUTP'' (Fin 0) ch, psu_setting ''VOLT'' (Fin 0) ch] t"

section \<open>The driver of an output\<close>

record DcState =
  mOutputVoltage :: double
  mSimOutputCurrent :: double
  mCurrentLimit :: "double option"
  mOverVoltage :: "double option"
  mEnabled :: bool

definition dc_new :: DcState where
  "dc_new = \<lparr>mOutputVoltage = Fin 0, mSimOutputCurrent = Fin 0, mCurrentLimit = None, mOverVoltage = None, mEnabled = False\<rparr>"

record 't DcBench =
  dc_boxes :: "'t boxes"
  dc_state :: "nat \<Rightarrow> DcState"

text \<open>One output: its row, its id, which output of the box it is, and whether a relay stands in its lead.\<close>

record DcUnit =
  dc_row :: nat
  dc_id :: string
  dc_output :: DcOutput
  HasRelay :: bool

definition dc_now :: "DcUnit \<Rightarrow> 't DcBench \<Rightarrow> DcState" where
  "dc_now u w = dc_state w (dc_row u)"

definition dc_set :: "DcUnit \<Rightarrow> DcState \<Rightarrow> 't DcBench \<Rightarrow> 't DcBench" where
  "dc_set u s w = w\<lparr>dc_state := (dc_state w)(dc_row u := s)\<rparr>"

definition dc_on_wire ::
    "'t bench_env \<Rightarrow> DcUnit \<Rightarrow> ('t ITransport \<Rightarrow> 't \<Rightarrow> (io_error + 'a) \<times> 't) \<Rightarrow> 't DcBench \<Rightarrow> (dc_error + 'a) \<times> 't DcBench" where
  "dc_on_wire env u act w =
     (case in_session env ''keysight_edu36311a'' psu_prepare (dc_row u) act (dc_boxes w) of
        (r, b) \<Rightarrow> (map_sum DcFault (\<lambda>x. x) r, w\<lparr>dc_boxes := b\<rparr>))"

definition dc_isSimulated :: "'t bench_env \<Rightarrow> DcUnit \<Rightarrow> 't DcBench \<Rightarrow> bool \<times> 't DcBench" where
  "dc_isSimulated env u w =
     (case connection_isSimulated (env_rows env) (dc_row u) (dc_boxes w) of (b, x) \<Rightarrow> (b, w\<lparr>dc_boxes := x\<rparr>))"

definition dc_identity :: "'t bench_env \<Rightarrow> DcUnit \<Rightarrow> 't DcBench \<Rightarrow> (dc_error + string) \<times> 't DcBench" where
  "dc_identity env u w = dc_on_wire env u scpi_identify w"

definition dc_useTransport :: "'t bench_env \<Rightarrow> DcUnit \<Rightarrow> 't \<Rightarrow> 't DcBench \<Rightarrow> 't DcBench" where
  "dc_useTransport env u t w = w\<lparr>dc_boxes := connection_useTransport (env_rows env) (dc_row u) t (dc_boxes w)\<rparr>"

definition dc_useAddress :: "DcUnit \<Rightarrow> address \<Rightarrow> 't DcBench \<Rightarrow> 't DcBench" where
  "dc_useAddress u a w = w\<lparr>dc_boxes := connection_useAddress (dc_row u) a (dc_boxes w)\<rparr>"

definition dc_closeSession :: "'t bench_env \<Rightarrow> DcUnit \<Rightarrow> 't DcBench \<Rightarrow> 't DcBench" where
  "dc_closeSession env u w = w\<lparr>dc_boxes := connection_close (env_rows env) (dc_row u) (dc_boxes w)\<rparr>"

definition dc_rawMeasure ::
    "'t bench_env \<Rightarrow> DcUnit \<Rightarrow> DcReading \<Rightarrow> 't DcBench \<Rightarrow> (dc_error + double) \<times> 't DcBench" where
  "dc_rawMeasure env u reading w =
     (case dc_isSimulated env u w of
        (True, w') \<Rightarrow>
          (Inr (if mEnabled (dc_now u w')
                then (if reading = VoltageReading then mOutputVoltage (dc_now u w') else mSimOutputCurrent (dc_now u w'))
                else Fin 0), w')
      | (False, w') \<Rightarrow> dc_on_wire env u (psu_measure (Channel (dc_output u)) reading) w')"

definition checkAgainstRating :: "DcUnit \<Rightarrow> double option \<Rightarrow> double option \<Rightarrow> double option \<Rightarrow> dc_error option" where
  "checkAgainstRating u voltage limit overVoltage =
     (let exceeds = (\<lambda>v rated. case v of None \<Rightarrow> False | Some x \<Rightarrow> d_lt rated x); out = dc_output u
      in if exceeds voltage (MaxVolts out)
         then Some (RatingExceeded (dc_id u) ''voltage'' (the voltage) (MaxVolts out) ''V'')
         else if exceeds overVoltage (MaxVolts out)
         then Some (RatingExceeded (dc_id u) ''overvoltage trip level'' (the overVoltage) (MaxVolts out) ''V'')
         else if exceeds limit (MaxAmps out)
         then Some (RatingExceeded (dc_id u) ''current limit'' (the limit) (MaxAmps out) ''A'')
         else None)"

definition dc_applied :: "double option \<Rightarrow> double option \<Rightarrow> double option \<Rightarrow> DcState \<Rightarrow> DcState" where
  "dc_applied voltage limit overVoltage s =
     s\<lparr>mOutputVoltage := (case voltage of None \<Rightarrow> Fin 0 | Some v \<Rightarrow> v), mCurrentLimit := limit,
       mOverVoltage := overVoltage, mEnabled := True\<rparr>"

text \<open>The rating, then the driver's own memory, then the wire.\<close>

definition applyOutput ::
    "'t bench_env \<Rightarrow> DcUnit \<Rightarrow> double option \<Rightarrow> double option \<Rightarrow> double option \<Rightarrow> 't DcBench \<Rightarrow> (dc_error + unit) \<times> 't DcBench" where
  "applyOutput env u voltage limit overVoltage w =
     (case checkAgainstRating u voltage limit overVoltage of
        Some e \<Rightarrow> (Inl e, w)
      | None \<Rightarrow>
          (case dc_isSimulated env u (dc_set u (dc_applied voltage limit overVoltage (dc_now u w)) w) of
             (True, w') \<Rightarrow> (Inr (), w')
           | (False, w') \<Rightarrow> dc_on_wire env u (psu_program (Channel (dc_output u)) voltage limit overVoltage) w'))"

definition removeOutput :: "'t bench_env \<Rightarrow> DcUnit \<Rightarrow> 't DcBench \<Rightarrow> (dc_error + unit) \<times> 't DcBench" where
  "removeOutput env u w =
     (case dc_isSimulated env u (dc_set u ((dc_now u w)\<lparr>mEnabled := False\<rparr>) w) of
        (True, w') \<Rightarrow> (Inr (), w')
      | (False, w') \<Rightarrow> dc_on_wire env u (psu_disableOutput (Channel (dc_output u))) w')"

definition dc_isEnabled :: "DcUnit \<Rightarrow> 't DcBench \<Rightarrow> bool" where
  "dc_isEnabled u w = mEnabled (dc_now u w)"

definition dc_outputIsOn :: "'t bench_env \<Rightarrow> DcUnit \<Rightarrow> 't DcBench \<Rightarrow> (dc_error + bool) \<times> 't DcBench" where
  "dc_outputIsOn env u w =
     (case dc_isSimulated env u w of
        (True, w') \<Rightarrow> (Inr (mEnabled (dc_now u w')), w')
      | (False, w') \<Rightarrow> dc_on_wire env u (psu_outputIsOn (Channel (dc_output u))) w')"

definition setSimulatedOutputCurrent :: "DcUnit \<Rightarrow> double \<Rightarrow> 't DcBench \<Rightarrow> 't DcBench" where
  "setSimulatedOutputCurrent u c w = dc_set u ((dc_now u w)\<lparr>mSimOutputCurrent := c\<rparr>) w"

definition dc_safe :: "'t bench_env \<Rightarrow> DcUnit \<Rightarrow> 't DcBench \<Rightarrow> 't DcBench" where
  "dc_safe env u w =
     (let w' = dc_set u ((dc_now u w)\<lparr>mEnabled := False, mOutputVoltage := Fin 0\<rparr>) w
      in w'\<lparr>dc_boxes := in_open_session env (dc_row u) (psu_sendSafe (Channel (dc_output u))) (dc_boxes w')\<rparr>)"

section \<open>Configurations, and what the verbs find for one\<close>

record DcConfig =
  cfg_unit :: DcUnit
  cfg_Voltage :: "double option"
  cfg_CurrentLimit :: "double option"
  cfg_OverVoltage :: "double option"

definition dc :: "DcUnit \<Rightarrow> DcConfig" where
  "dc u = \<lparr>cfg_unit = u, cfg_Voltage = None, cfg_CurrentLimit = None, cfg_OverVoltage = None\<rparr>"

definition cfg_voltage :: "double \<Rightarrow> DcConfig \<Rightarrow> DcConfig" where
  "cfg_voltage v c = c\<lparr>cfg_Voltage := Some v\<rparr>"

definition cfg_currentLimit :: "double \<Rightarrow> DcConfig \<Rightarrow> DcConfig" where
  "cfg_currentLimit a c = c\<lparr>cfg_CurrentLimit := Some a\<rparr>"

definition overVoltageProtection :: "double \<Rightarrow> DcConfig \<Rightarrow> DcConfig" where
  "overVoltageProtection v c = c\<lparr>cfg_OverVoltage := Some v\<rparr>"

text \<open>An exception as the verbs see it, its text.\<close>

definition thrown_text :: "(dc_error + unit) \<times> 'w \<Rightarrow> string option \<times> 'w" where
  "thrown_text r = (case r of (Inl e, w) \<Rightarrow> (Some (dc_error_text e), w) | (Inr _, w) \<Rightarrow> (None, w))"

definition dc_describe :: "digits \<Rightarrow> DcConfig \<Rightarrow> string" where
  "dc_describe fd c =
     describeSettings
       [describeSetting fd ''voltage'' Voltage (cfg_Voltage c),
        describeSetting fd ''currentLimit'' Current (cfg_CurrentLimit c),
        describeSetting fd ''ovp'' Voltage (cfg_OverVoltage c),
        ''output '' @ show_int (Channel (dc_output (cfg_unit c))) @ '' ('' @ Rating (dc_output (cfg_unit c)) @ '')'']"

text \<open>
  The functions found for a DcConfig. A Connect of an output without a relay, a Setup or a Read does
  not compile; their fields are never used.
\<close>

definition dc_builder :: "'t bench_env \<Rightarrow> digits \<Rightarrow> DcConfig \<Rightarrow> 't DcBench Builder" where
  "dc_builder env fd c =
     (let u = cfg_unit c
      in \<lparr>described_instrument = dc_id u, described_settings = dc_describe fd c, energisable = True,
          isEnergised = (\<lambda>w. case dc_outputIsOn env u w of (r, w') \<Rightarrow> (map_sum dc_error_text (\<lambda>b. b) r, w')),
          applyDriver = (\<lambda>w. thrown_text (applyOutput env u (cfg_Voltage c) (cfg_CurrentLimit c) (cfg_OverVoltage c) w)),
          removeDriver = (\<lambda>w. thrown_text (removeOutput env u w)),
          setupDriver = (\<lambda>w. (None, w)), armDriver = (\<lambda>w. (None, w)), awaitDriver = (\<lambda>w. (Inr False, w)),
          readDriver = (\<lambda>w. (Inr [], w)), writeDriver = (\<lambda>_ w. (None, w)), fetchDriver = (\<lambda>w. (Inl [], w)),
          traceQualifier = [], connectDriver = connect_fixed (dc_id u), disconnectDriver = disconnect_fixed (dc_id u)\<rparr>)"

definition dc_port :: "'t bench_env \<Rightarrow> DcUnit \<Rightarrow> DcReading \<Rightarrow> 't DcBench Port" where
  "dc_port env u reading =
     \<lparr>port_kind = (if reading = VoltageReading then Voltage else Current), port_instrument = dc_id u, port_sense = False,
      port_qualifier = [],
      rawMeasure = (\<lambda>w. case dc_rawMeasure env u reading w of (r, w') \<Rightarrow> (map_sum (\<lambda>e. PortFailure (dc_error_text e)) (\<lambda>v. v) r, w')),
      mUnmeasurable = None\<rparr>"

section \<open>Remembering a source\<close>

record DcSnapshot =
  snap_Voltage :: double
  snap_CurrentLimit :: "double option"

definition snapshotDriver :: "DcUnit \<Rightarrow> 't DcBench \<Rightarrow> DcSnapshot" where
  "snapshotDriver u w = \<lparr>snap_Voltage = mOutputVoltage (dc_now u w), snap_CurrentLimit = mCurrentLimit (dc_now u w)\<rparr>"

definition restoreDriver :: "DcUnit \<Rightarrow> DcSnapshot \<Rightarrow> DcConfig" where
  "restoreDriver u snap =
     (let c = cfg_voltage (snap_Voltage snap) (dc u)
      in case snap_CurrentLimit snap of None \<Rightarrow> c | Some a \<Rightarrow> cfg_currentLimit a c)"

text \<open>SourceSnapshot: what is held, and whether the source was delivering.\<close>

type_synonym held_source = "(DcSnapshot \<times> bool) option"

definition capture :: "DcUnit \<Rightarrow> 't DcBench \<Rightarrow> held_source" where
  "capture u w = Some (snapshotDriver u w, dc_isEnabled u w)"

text \<open>restore: the exception of the Connect or the Apply, or whether it restored anything.\<close>

definition restore ::
    "'t bench_env \<Rightarrow> 't DcBench Rig \<Rightarrow> DcUnit \<Rightarrow> held_source \<Rightarrow> 't DcBench Bay \<Rightarrow> (string + bool) \<times> 't DcBench Bay" where
  "restore env rig u held w =
     (case held of
        None \<Rightarrow> (Inr False, w)
      | Some (snap, energised) \<Rightarrow>
          (if \<not> energised \<or> dc_isEnabled u (hardware (fabric w)) then (Inr False, w)
           else
             (case (if HasRelay u then connectEngine rig (dc_builder env (rig_digits rig) (dc u)) None w else (None, w)) of
                (Some e, w') \<Rightarrow> (Inl e, w')
              | (None, w') \<Rightarrow>
                  (case applyEngine rig (dc_builder env (rig_digits rig) (restoreDriver u snap)) w' of
                     (Some e, w'') \<Rightarrow> (Inl e, w'')
                   | (None, w'') \<Rightarrow> (Inr True, w'')))))"

end
