(* ===== verification/DcFacts.thy ===== *)
theory DcFacts
  imports DcSource
begin

text \<open>
  What holds of the bench supply: the order of an Apply on the wire, the ratings, the interlock after
  a Remove that failed, and what a restored source is programmed to.
\<close>

section \<open>The order of an Apply\<close>

lemma psu_setting_not_question:
  "c \<noteq> CHR ''S'' \<Longrightarrow> ''SYST:ERR?'' \<noteq> psu_setting (c # cs) v ch"
  by (simp add: psu_setting_def)

text \<open>The values of an optional setting.\<close>

fun option_list :: "'a option \<Rightarrow> 'a list" where
  "option_list None = []"
| "option_list (Some x) = [x]"

lemma program_commands_told: "''SYST:ERR?'' \<notin> set (program_commands ch volts amps overVolts)"
  by (auto simp: program_commands_def psu_setting_def split: option.splits)

text \<open>
  C18: Whatever the supply answers, an Apply sends it the current limit, the trip level, the voltage and
  the output on, in that order, the limit and the trip level only when they are given. Each is sent after the
  one before it was accepted: written, and the error queue asked and found empty. The first that is refused
  is the last thing told, and is what the Apply throws; so an output is never switched on under a limit, a
  trip level or a voltage that was not taken. When all are taken the Apply ends as the wait for their
  completion does.
\<close>

theorem apply_in_order:
  assumes "psu_program ch volts amps overVolts (logging tr) s = (r, t)"
    and "cs = map (\<lambda>a. psu_setting ''CURR'' a ch) (option_list amps)
           @ map (\<lambda>v. psu_setting ''VOLT:PROT'' v ch) (option_list overVolts)
           @ [psu_setting ''VOLT'' (case volts of None \<Rightarrow> Fin 0 | Some v \<Rightarrow> v) ch, psu_setting ''OUTP'' (Fin 1) ch]"
  shows "\<exists>n hs. n \<le> length cs \<and> length hs = Suc n \<and> hs ! 0 = s
    \<and> (\<forall>i < n. scpi_checked (logging tr) (cs ! i) (hs ! i) = (Inr (), hs ! Suc i)
        \<and> told_instrument (snd (hs ! Suc i)) = told_instrument (snd (hs ! i)) @ [cs ! i])
    \<and> (n = length cs \<and> scpi_waitForComplete (logging tr) (hs ! n) = (r, t)
          \<and> told_instrument (snd t) = told_instrument (snd (hs ! n)) @ [''*OPC?'']
       \<or> (\<exists>e. n < length cs \<and> r = Inl e \<and> scpi_checked (logging tr) (cs ! n) (hs ! n) = (Inl e, t)
            \<and> told_instrument (snd t) = told_instrument (snd (hs ! n)) @ [cs ! n]))"
proof -
  have cs: "cs = program_commands ch volts amps overVolts"
    unfolding assms(2) by (simp add: program_commands_def split: option.split)
  obtain q t1 where q: "checked_all (logging tr) cs s = (q, t1)"
    by (cases "checked_all (logging tr) cs s")
  have no: "''SYST:ERR?'' \<notin> set cs" unfolding cs by (rule program_commands_told)
  from checked_all_in_turn [OF no q] obtain n hs where h: "n \<le> length cs" "length hs = Suc n" "hs ! 0 = s"
    "\<forall>i < n. scpi_checked (logging tr) (cs ! i) (hs ! i) = (Inr (), hs ! Suc i)
        \<and> told_instrument (snd (hs ! Suc i)) = told_instrument (snd (hs ! i)) @ [cs ! i]"
    and ends: "n = length cs \<and> q = Inr () \<and> t1 = hs ! n
       \<or> (\<exists>e. n < length cs \<and> q = Inl e \<and> scpi_checked (logging tr) (cs ! n) (hs ! n) = (Inl e, t1)
            \<and> told_instrument (snd t1) = told_instrument (snd (hs ! n)) @ [cs ! n])"
    by (elim exE conjE) (rule that)
  have p: "(r, t) = (case q of Inl e \<Rightarrow> (Inl e, t1) | Inr _ \<Rightarrow> scpi_waitForComplete (logging tr) t1)"
    using assms(1) q by (simp add: psu_program_def cs [symmetric])
  have "n = length cs \<and> scpi_waitForComplete (logging tr) (hs ! n) = (r, t)
          \<and> told_instrument (snd t) = told_instrument (snd (hs ! n)) @ [''*OPC?'']
       \<or> (\<exists>e. n < length cs \<and> r = Inl e \<and> scpi_checked (logging tr) (cs ! n) (hs ! n) = (Inl e, t)
            \<and> told_instrument (snd t) = told_instrument (snd (hs ! n)) @ [cs ! n])"
    using ends
  proof (elim disjE conjE exE)
    assume "n = length cs" "q = Inr ()" "t1 = hs ! n"
    then have w: "scpi_waitForComplete (logging tr) (hs ! n) = (r, t)" using p by simp
    with waitForComplete_told [of tr "hs ! n"] \<open>n = length cs\<close> show ?thesis by simp
  next
    fix e
    assume "n < length cs" "q = Inl e" "scpi_checked (logging tr) (cs ! n) (hs ! n) = (Inl e, t1)"
      "told_instrument (snd t1) = told_instrument (snd (hs ! n)) @ [cs ! n]"
    then show ?thesis using p by simp
  qed
  with h show ?thesis by blast
qed

theorem apply_in_order_witness:
  "told_instrument (snd (snd (psu_program 2 (Some (Fin 24)) (Some (Fin (1 / 2))) None (logging willing_instrument) ((), [])))) =
     [psu_setting ''CURR'' (Fin (1 / 2)) 2, psu_setting ''VOLT'' (Fin 24) 2, psu_setting ''OUTP'' (Fin 1) 2, ''*OPC?'']"
proof -
  let ?p = "psu_program 2 (Some (Fin 24)) (Some (Fin (1 / 2))) None (logging willing_instrument) ((), [])"
  let ?cs = "[psu_setting ''CURR'' (Fin (1 / 2)) 2, psu_setting ''VOLT'' (Fin 24) 2, psu_setting ''OUTP'' (Fin 1) 2]"
  have ok: "fst ?p = Inr ()" unfolding psu_program_def by (rule willing_program)
  have cs: "?cs = map (\<lambda>a. psu_setting ''CURR'' a 2) (option_list (Some (Fin (1 / 2))))
      @ map (\<lambda>v. psu_setting ''VOLT:PROT'' v 2) (option_list None)
      @ [psu_setting ''VOLT'' (case Some (Fin 24) of None \<Rightarrow> Fin 0 | Some v \<Rightarrow> v) 2, psu_setting ''OUTP'' (Fin 1) 2]" by simp
  from apply_in_order [OF prod.collapse [symmetric] cs, where tr = willing_instrument and s = "((), [])"] ok
  obtain hs where h: "hs ! 0 = ((), [])"
    "\<forall>i < length ?cs. told_instrument (snd (hs ! Suc i)) = told_instrument (snd (hs ! i)) @ [?cs ! i]"
    "told_instrument (snd (snd ?p)) = told_instrument (snd (hs ! length ?cs)) @ [''*OPC?'']"
    by auto
  from h(1) h(2) [rule_format, of 0] h(2) [rule_format, of 1] h(2) [rule_format, of 2] h(3) show ?thesis
    by (simp add: numeral_eq_Suc)
qed

text \<open>Safing tells the output to go off first, and the setpoint to zero after that.\<close>

lemma safe_in_order:
  "\<exists>n. told_instrument (snd (snd (psu_sendSafe ch (logging tr) s))) =
     told_instrument (snd s) @ take n [psu_setting ''OUTP'' (Fin 0) ch, psu_setting ''VOLT'' (Fin 0) ch]"
proof -
  let ?cs = "[psu_setting ''OUTP'' (Fin 0) ch, psu_setting ''VOLT'' (Fin 0) ch]"
  have "''SYST:ERR?'' \<notin> set ?cs" by (simp add: psu_setting_def)
  from write_all_told [OF this, of tr s] show ?thesis unfolding psu_sendSafe_def by blast
qed

section \<open>The driver's memory\<close>

lemma dc_set_now [simp]: "dc_now u (dc_set u s w) = s" "dc_row v \<noteq> dc_row u \<Longrightarrow> dc_now v (dc_set u s w) = dc_now v w"
  by (simp_all add: dc_now_def dc_set_def)

lemma dc_on_wire_state [simp]: "dc_state (snd (dc_on_wire env u act w)) = dc_state w"
  by (simp add: dc_on_wire_def split: prod.split)

lemma dc_isSimulated_state [simp]: "dc_state (snd (dc_isSimulated env u w)) = dc_state w"
  by (simp add: dc_isSimulated_def split: prod.split)

lemma simulated_state: "dc_isSimulated env u w = (b, w') \<Longrightarrow> dc_state w' = dc_state w"
  using dc_isSimulated_state [of env u w] by simp

lemma dc_now_cong: "dc_state w = dc_state w' \<Longrightarrow> dc_now u w = dc_now u w'"
  by (simp add: dc_now_def)

text \<open>What every operation leaves in the driver's memory, exceptions included.\<close>

lemma apply_state:
  "dc_state (snd (applyOutput env u v c ov w)) =
     (if checkAgainstRating u v c ov = None then dc_state (dc_set u (dc_applied v c ov (dc_now u w)) w) else dc_state w)"
  by (auto simp: applyOutput_def dest: simulated_state split: option.split prod.split bool.split)

lemma remove_state:
  "dc_state (snd (removeOutput env u w)) = dc_state (dc_set u ((dc_now u w)\<lparr>mEnabled := False\<rparr>) w)"
  by (auto simp: removeOutput_def dest: simulated_state split: prod.split bool.split)

lemma measure_state: "dc_state (snd (dc_rawMeasure env u reading w)) = dc_state w"
  by (auto simp: dc_rawMeasure_def dest: simulated_state split: prod.split bool.split)

lemma outputIsOn_state: "dc_state (snd (dc_outputIsOn env u w)) = dc_state w"
  by (auto simp: dc_outputIsOn_def dest: simulated_state split: prod.split bool.split)

lemma safe_state: "dc_state (dc_safe env u w) = dc_state (dc_set u ((dc_now u w)\<lparr>mEnabled := False, mOutputVoltage := Fin 0\<rparr>) w)"
  by (simp add: dc_safe_def Let_def)

lemmas dc_states = apply_state remove_state measure_state outputIsOn_state safe_state

section \<open>Ratings\<close>

datatype 't dc_op =
    DcApply "double option" "double option" "double option"
  | DcRemove
  | DcSafe
  | DcMeasured DcReading
  | DcOutputIsOn
  | DcIdentity
  | DcSimulatedCurrent double
  | DcUseTransport 't
  | DcUseAddress address
  | DcClose

fun run_dc_op :: "'t bench_env \<Rightarrow> DcUnit \<Rightarrow> 't dc_op \<Rightarrow> 't DcBench \<Rightarrow> 't DcBench" where
  "run_dc_op env u (DcApply v c ov) w = snd (applyOutput env u v c ov w)"
| "run_dc_op env u DcRemove w = snd (removeOutput env u w)"
| "run_dc_op env u DcSafe w = dc_safe env u w"
| "run_dc_op env u (DcMeasured r) w = snd (dc_rawMeasure env u r w)"
| "run_dc_op env u DcOutputIsOn w = snd (dc_outputIsOn env u w)"
| "run_dc_op env u DcIdentity w = snd (dc_identity env u w)"
| "run_dc_op env u (DcSimulatedCurrent c) w = setSimulatedOutputCurrent u c w"
| "run_dc_op env u (DcUseTransport t) w = dc_useTransport env u t w"
| "run_dc_op env u (DcUseAddress a) w = dc_useAddress u a w"
| "run_dc_op env u DcClose w = dc_closeSession env u w"

definition run_dc :: "'t bench_env \<Rightarrow> (DcUnit \<times> 't dc_op) list \<Rightarrow> 't DcBench \<Rightarrow> 't DcBench" where
  "run_dc env ops w = foldl (\<lambda>w (u, op). run_dc_op env u op w) w ops"

definition not_above :: "double \<Rightarrow> double option \<Rightarrow> bool" where
  "not_above rated v \<longleftrightarrow> (\<forall>x. v = Some x \<longrightarrow> \<not> d_lt rated x)"

definition rated_state :: "DcOutput \<Rightarrow> DcState \<Rightarrow> bool" where
  "rated_state out s \<longleftrightarrow>
     \<not> d_lt (MaxVolts out) (mOutputVoltage s) \<and> not_above (MaxVolts out) (mOverVoltage s) \<and> not_above (MaxAmps out) (mCurrentLimit s)"

lemma checkAgainstRating_None:
  "checkAgainstRating u v c ov = None \<longleftrightarrow>
     not_above (MaxVolts (dc_output u)) v \<and> not_above (MaxVolts (dc_output u)) ov \<and> not_above (MaxAmps (dc_output u)) c"
  by (auto simp: checkAgainstRating_def not_above_def Let_def split: option.splits)

lemma dc_op_rated:
  assumes "rated_state (dc_output u) (dc_now u w)" and "\<not> d_lt (MaxVolts (dc_output u)) (Fin 0)"
  shows "rated_state (dc_output u) (dc_now u (run_dc_op env u op w))"
proof (cases op)
  case (DcApply v c ov)
  have "rated_state (dc_output u) (dc_applied v c ov s)" if "checkAgainstRating u v c ov = None" for s
    using that assms(2)
    by (auto simp: checkAgainstRating_None rated_state_def dc_applied_def not_above_def split: option.split)
  then show ?thesis
    using DcApply assms(1) dc_states(1) [of env u v c ov w]
    by (cases "checkAgainstRating u v c ov") (simp_all add: dc_now_def dc_set_def)
qed (use assms in \<open>simp_all add: dc_now_def dc_states dc_set_def rated_state_def dc_identity_def setSimulatedOutputCurrent_def
       dc_useTransport_def dc_useAddress_def dc_closeSession_def\<close>)

lemma dc_op_other:
  assumes "dc_row v \<noteq> dc_row u"
  shows "dc_now v (run_dc_op env u op w) = dc_now v w"
  using assms by (cases op)
    (simp_all add: dc_now_def dc_states dc_set_def dc_identity_def setSimulatedOutputCurrent_def
       dc_useTransport_def dc_useAddress_def dc_closeSession_def)

text \<open>
  C19: Whatever is done to the outputs of a bench, exceptions included, what the driver of an output
  remembers of its setpoint, its trip level and its limit is never above the rating on its badge.
\<close>

theorem setpoints_within_rating:
  assumes "\<forall>(u, op) \<in> set ops. u \<in> units" and "inj_on dc_row units" and "v \<in> units"
    and "\<not> d_lt (MaxVolts (dc_output v)) (Fin 0)" and "dc_now v w = dc_new"
  shows "rated_state (dc_output v) (dc_now v (run_dc env ops w))"
proof -
  have "rated_state (dc_output v) (dc_now v w)"
    using assms(4,5) by (simp add: dc_new_def rated_state_def not_above_def)
  with assms(1) show ?thesis
    unfolding run_dc_def
  proof (induction ops arbitrary: w)
    case (Cons a ops)
    obtain u op where a: "a = (u, op)" by (cases a)
    with Cons.prems(1) have u: "u \<in> units" by auto
    have "rated_state (dc_output v) (dc_now v (run_dc_op env u op w))"
    proof (cases "dc_row v = dc_row u")
      case True
      with assms(2,3) u have "v = u" by (auto dest: inj_onD)
      with dc_op_rated [OF _ assms(4)] Cons.prems(2) show ?thesis by simp
    next
      case False
      with Cons.prems(2) show ?thesis by (simp add: dc_op_other)
    qed
    with Cons.IH Cons.prems(1) a show ?case by simp
  qed simp
qed

definition dc_p7 :: DcUnit where
  "dc_p7 = \<lparr>dc_row = 0, dc_id = ''DcP7'', dc_output = Output3, HasRelay = False\<rparr>"

definition psu_rows :: "BoxRow list" where
  "psu_rows = [\<lparr>RowBox = ''Psu1'', Row = ''DcP7'', RowAddress = Usb ''CN65100272'', Device = False\<rparr>]"

text \<open>A chassis whose link is open and prepared, with one session on it.\<close>

definition open_bench :: "'t \<Rightarrow> 't DcBench" where
  "open_bench t =
     \<lparr>dc_boxes = \<lparr>connections = [\<lparr>mAddress = Usb ''CN65100272'', mLink = Some 0\<rparr>],
        links = [\<lparr>Session = Some t, PreparedBy = [''keysight_edu36311a''], Native = None\<rparr>], Links = []\<rparr>,
      dc_state = (\<lambda>_. dc_new)\<rparr>"

definition psu_env :: "'t ITransport \<Rightarrow> 't bench_env" where
  "psu_env tr = \<lparr>env_rows = psu_rows, openTransport = (\<lambda>_. Inl (TransportError [])), transport = tr\<rparr>"

theorem setpoints_within_rating_witness:
  "rated_state Output3 (dc_now dc_p7 (run_dc (psu_env willing_instrument)
     [(dc_p7, DcApply (Some (Fin 24)) None (Some (Fin 31))), (dc_p7, DcSafe)] (open_bench ())))"
  using setpoints_within_rating [of "[(dc_p7, DcApply (Some (Fin 24)) None (Some (Fin 31))), (dc_p7, DcSafe)]" "{dc_p7}"
      dc_p7 "open_bench ()" "psu_env willing_instrument"]
  by (simp add: dc_p7_def Output3_def dc_now_def open_bench_def)

section \<open>The interlock after a Remove that failed\<close>

lemma remove_disables: "dc_now u (snd (removeOutput env u w)) = (dc_now u w)\<lparr>mEnabled := False\<rparr>"
  by (simp add: dc_now_def remove_state dc_set_def)

text \<open>
  A supply that has stopped answering with its outputs on: nothing sent to it arrives, and what it
  delivers is what it delivered.
\<close>

definition deaf_supply :: "bool ITransport" where
  "deaf_supply = \<lparr>send = (\<lambda>_ live. (Some (TransportTimeout ''no reply from Psu1''), live)),
     receive = (\<lambda>live. (Inl (TransportTimeout ''no reply from Psu1''), live)), description = (\<lambda>_. ''Psu1'')\<rparr>"

definition session_state :: "'t DcBench \<Rightarrow> 't option" where
  "session_state w = Session (links (dc_boxes w) ! 0)"

text \<open>
  Remove writes down that the output is off before it tells the supply. When the supply does not
  answer the Remove throws and the output is still on, but the interlock, which asks what the driver
  wrote down, no longer names the source, and lets a low-impedance reading be routed to its pin.
\<close>

theorem failed_remove_blinds_interlock:
  assumes "findLanding sourceWiring location = Some (dc_id u)"
  shows "energisedSourceAt sourceWiring [(dc_id u, dc_isEnabled u)] location (snd (removeOutput env u w)) = [] \<and>
    (\<exists>bench. dc_isEnabled dc_p7 bench \<and>
       fst (removeOutput (psu_env deaf_supply) dc_p7 bench) =
         Inl (DcFault (Io (Transport (TransportTimeout ''no reply from Psu1'')))) \<and>
       session_state (snd (removeOutput (psu_env deaf_supply) dc_p7 bench)) = Some True)"
proof
  show "energisedSourceAt sourceWiring [(dc_id u, dc_isEnabled u)] location (snd (removeOutput env u w)) = []"
    using assms by (simp add: energisedSourceAt_def dc_isEnabled_def remove_disables)
  let ?bench = "dc_set dc_p7 (dc_applied (Some (Fin 24)) None None dc_new) (open_bench True)"
  have "dc_isEnabled dc_p7 ?bench" by code_simp
  moreover have "dc_boxes (snd (removeOutput (psu_env deaf_supply) dc_p7 ?bench)) = dc_boxes (open_bench True) \<and>
      fst (removeOutput (psu_env deaf_supply) dc_p7 ?bench) =
         Inl (DcFault (Io (Transport (TransportTimeout ''no reply from Psu1''))))"
    by (simp add: removeOutput_def dc_isSimulated_def connection_isSimulated_def connection_hasSession_def
        connection_heldLink_def dc_set_def open_bench_def dc_p7_def psu_env_def dc_on_wire_def in_session_def
        connection_session_def connection_link_def put_link_def psu_disableOutput_def scpi_checked_def deaf_supply_def Let_def)
  ultimately show "\<exists>bench. dc_isEnabled dc_p7 bench \<and>
       fst (removeOutput (psu_env deaf_supply) dc_p7 bench) =
         Inl (DcFault (Io (Transport (TransportTimeout ''no reply from Psu1'')))) \<and>
       session_state (snd (removeOutput (psu_env deaf_supply) dc_p7 bench)) = Some True"
    by (intro exI [of _ ?bench]) (simp add: session_state_def open_bench_def)
qed

theorem failed_remove_blinds_interlock_witness:
  "energisedSourceAt dev_sources [(''DcP7'', dc_isEnabled dc_p7)] (vpc RackA 1 1)
     (snd (removeOutput (psu_env deaf_supply) dc_p7 (open_bench True))) = []"
  using failed_remove_blinds_interlock [of dev_sources "vpc RackA 1 1" dc_p7 "psu_env deaf_supply" "open_bench True"]
  by (simp add: dev_sources_def WIRE_SOURCE_def findLanding_def instrumentAt_def dc_p7_def)

section \<open>Putting a source back\<close>

lemma apply_driver_state:
  assumes "applyEngine rig (dc_builder env fd c) w = (None, w')" and "mAttached (rig_bench rig)"
  shows "dc_now (cfg_unit c) (hardware (fabric w')) =
    dc_applied (cfg_Voltage c) (cfg_CurrentLimit c) (cfg_OverVoltage c) (dc_now (cfg_unit c) (hardware (fabric w)))"
proof -
  let ?h = "hardware (fabric w)"
  obtain r h where a: "applyOutput env (cfg_unit c) (cfg_Voltage c) (cfg_CurrentLimit c) (cfg_OverVoltage c) ?h = (r, h)"
    by (cases "applyOutput env (cfg_unit c) (cfg_Voltage c) (cfg_CurrentLimit c) (cfg_OverVoltage c) ?h")
  with assms have r: "r = Inr ()" "hardware (fabric w') = h"
    by (auto simp: applyEngine_def dc_builder_def if_attached_def then_post_def thrown_text_def Let_def postSourceEvent_def
        bay_post_def split: sum.splits)
  have "checkAgainstRating (cfg_unit c) (cfg_Voltage c) (cfg_CurrentLimit c) (cfg_OverVoltage c) = None"
    using a r(1) by (auto simp: applyOutput_def split: option.splits)
  with apply_state [of env "cfg_unit c" "cfg_Voltage c" "cfg_CurrentLimit c" "cfg_OverVoltage c" ?h] a r(2)
  show ?thesis by (simp add: dc_now_def dc_set_def)
qed

text \<open>
  C20: A source that was delivering when it was captured and is down now is put back by restore: it is
  delivering again, at the voltage and under the limit it had, unless the Connect or the Apply that puts
  it back throws, and then restore throws the same. Its overvoltage trip level is not among what is
  put back. A source that was not delivering then, or is delivering now, is left as it is, and restore
  says so.
\<close>

theorem restore_puts_back:
  assumes "restore env rig u (capture u h) w = (r, w')" and "mAttached (rig_bench rig)"
  shows "if dc_isEnabled u h \<and> \<not> dc_isEnabled u (hardware (fabric w))
    then (case r of
        Inr restored \<Rightarrow> restored \<and> dc_isEnabled u (hardware (fabric w')) \<and>
          mOutputVoltage (dc_now u (hardware (fabric w'))) = mOutputVoltage (dc_now u h) \<and>
          mCurrentLimit (dc_now u (hardware (fabric w'))) = mCurrentLimit (dc_now u h) \<and>
          mOverVoltage (dc_now u (hardware (fabric w'))) = None
      | Inl e \<Rightarrow>
          (HasRelay u \<and> connectEngine rig (dc_builder env (rig_digits rig) (dc u)) None w = (Some e, w')) \<or>
          (\<exists>w1. applyEngine rig (dc_builder env (rig_digits rig) (restoreDriver u (snapshotDriver u h))) w1 = (Some e, w')))
    else r = Inr False \<and> w' = w"
proof (cases "dc_isEnabled u h \<and> \<not> dc_isEnabled u (hardware (fabric w))")
  case False
  with assms(1) show ?thesis by (auto simp: restore_def capture_def)
next
  case on: True
  show ?thesis
  proof (cases r)
    case (Inl e)
    with on assms(1) show ?thesis
      by (auto simp: restore_def capture_def split: if_splits option.splits prod.splits)
  next
    case (Inr restored)
    let ?c = "restoreDriver u (snapshotDriver u h)"
    from assms(1) on Inr obtain w1 where ok: "restored"
      and a: "applyEngine rig (dc_builder env (rig_digits rig) ?c) w1 = (None, w')"
      by (auto simp: restore_def capture_def split: if_splits option.splits prod.splits)
    have c: "cfg_unit ?c = u" "cfg_Voltage ?c = Some (mOutputVoltage (dc_now u h))"
      "cfg_CurrentLimit ?c = mCurrentLimit (dc_now u h)" "cfg_OverVoltage ?c = None"
      by (simp_all add: restoreDriver_def snapshotDriver_def cfg_voltage_def cfg_currentLimit_def dc_def Let_def split: option.split)
    from apply_driver_state [OF a assms(2)] c
    have "dc_now u (hardware (fabric w')) =
        dc_applied (Some (mOutputVoltage (dc_now u h))) (mCurrentLimit (dc_now u h)) None (dc_now u (hardware (fabric w1)))"
      by simp
    with on ok Inr show ?thesis by (simp add: dc_isEnabled_def dc_applied_def)
  qed
qed

text \<open>A simulated supply, and a rig around it.\<close>

definition simulated_bench :: "DcState \<Rightarrow> unit DcBench" where
  "simulated_bench s =
     \<lparr>dc_boxes = \<lparr>connections = [\<lparr>mAddress = Simulated, mLink = None\<rparr>], links = [], Links = []\<rparr>, dc_state = (\<lambda>_. s)\<rparr>"

definition dc_rig :: "unit DcBench Rig" where
  "dc_rig =
     \<lparr>mDriver = None, mInstrumentWiring = [], mConnectorWiring = [], mTapWiring = [], mSourceWiring = dev_sources,
      rig_sources = [(''DcP7'', dc_isEnabled dc_p7)], rig_bench = \<lparr>mAttached = True\<rparr>, rig_number = (\<lambda>_. []), rig_digits = (\<lambda>_ _. [])\<rparr>"

definition dc_bay :: "unit DcBench \<Rightarrow> unit DcBench Bay" where
  "dc_bay h = \<lparr>fabric = \<lparr>mUseCount = (\<lambda>_. None), hardware = h\<rparr>,
     journal = fresh_journal [0] blank_info (\<lambda>n. int n), mSessions = new_bank\<rparr>"

definition battery_on :: DcState where
  "battery_on = dc_applied (Some (Fin 24)) (Some (Fin (1 / 2))) (Some (Fin 27)) dc_new"

theorem restore_puts_back_witness:
  "mOutputVoltage (dc_now dc_p7 (hardware (fabric (snd (restore (psu_env willing_instrument) dc_rig dc_p7
       (capture dc_p7 (simulated_bench battery_on)) (dc_bay (simulated_bench dc_new))))))) = Fin 24"
proof -
  let ?r = "restore (psu_env willing_instrument) dc_rig dc_p7 (capture dc_p7 (simulated_bench battery_on)) (dc_bay (simulated_bench dc_new))"
  have "fst ?r = Inr True" "dc_isEnabled dc_p7 (simulated_bench battery_on)"
    "\<not> dc_isEnabled dc_p7 (hardware (fabric (dc_bay (simulated_bench dc_new))))"
    by (simp_all add: restore_def capture_def dc_isEnabled_def simulated_bench_def dc_now_def battery_on_def dc_applied_def dc_new_def
        dc_bay_def dc_p7_def applyEngine_def if_attached_def dc_rig_def dc_builder_def thrown_text_def applyOutput_def
        checkAgainstRating_def restoreDriver_def snapshotDriver_def cfg_voltage_def cfg_currentLimit_def dc_def Output3_def
        dc_isSimulated_def connection_isSimulated_def connection_hasSession_def connection_heldLink_def dc_set_def
        psu_env_def then_post_def Let_def)
  with restore_puts_back [OF prod.collapse [symmetric], where env = "psu_env willing_instrument" and rig = dc_rig and u = dc_p7
      and h = "simulated_bench battery_on" and w = "dc_bay (simulated_bench dc_new)"]
  show ?thesis by (simp add: dc_rig_def) (simp add: simulated_bench_def dc_now_def battery_on_def dc_applied_def)
qed

end
