(* ===== verification/Meters.thy ===== *)
theory Meters
  imports BoxSession Verbs
begin

text \<open>
  The two meters. The bench meter, instruments/keysight_edu34450a, configures a function and reads it;
  the meter inside the switching mainframe, instruments/keysight_34980a/src/multimeter.cpp, asks one
  query on the Analog Bus and looks at the error queue after it. Both keep the front panel's keys
  (DC or AC, two or four wires) on the instrument: a port reads the function the keys say when it
  is read. A driver is its box connections and its own members.
\<close>

section \<open>The front panel\<close>

datatype MeterMode = Dc | Ac

datatype ResistanceMode = TwoWire | FourWire

datatype Resolution = Slow | Fast

datatype MeterFunction =
    DcVoltage | AcVoltage | DcCurrent | AcCurrent | TwoWireResistance | FourWireResistance | FrequencyCount | Capacity

record MeterKeys =
  mMode :: MeterMode
  mResistanceMode :: ResistanceMode

record BenchMeter = MeterKeys +
  mResolution :: Resolution
  mSimVoltage :: double
  mSimCurrent :: double
  mSimAcVoltage :: double
  mSimAcCurrent :: double
  mSimResistance :: double
  mSimFourWireResistance :: double
  mSimFrequency :: double
  mSimCapacitance :: double

definition new_meter :: BenchMeter where
  "new_meter =
     \<lparr>mMode = Dc, mResistanceMode = TwoWire, mResolution = Slow, mSimVoltage = Fin 0, mSimCurrent = Fin 0,
      mSimAcVoltage = Fin 0, mSimAcCurrent = Fin 0, mSimResistance = Fin 0, mSimFourWireResistance = Fin 0,
      mSimFrequency = Fin 0, mSimCapacitance = Fin 0\<rparr>"

text \<open>The accessors that make a port: the keys they press, and the quantity the port reads.\<close>

datatype meter_port =
    PortVoltage | PortCurrent | PortAcVoltage | PortAcCurrent | PortResistance | PortFourWireResistance
  | PortFrequency | PortCapacitance

fun press :: "meter_port \<Rightarrow> 'a MeterKeys_scheme \<Rightarrow> 'a MeterKeys_scheme" where
  "press PortVoltage s = s\<lparr>mMode := Dc\<rparr>"
| "press PortCurrent s = s\<lparr>mMode := Dc\<rparr>"
| "press PortAcVoltage s = s\<lparr>mMode := Ac\<rparr>"
| "press PortAcCurrent s = s\<lparr>mMode := Ac\<rparr>"
| "press PortResistance s = s\<lparr>mResistanceMode := TwoWire\<rparr>"
| "press PortFourWireResistance s = s\<lparr>mResistanceMode := FourWire\<rparr>"
| "press PortFrequency s = s"
| "press PortCapacitance s = s"

fun port_reads :: "meter_port \<Rightarrow> QuantityKind" where
  "port_reads PortVoltage = Voltage"
| "port_reads PortAcVoltage = Voltage"
| "port_reads PortCurrent = Current"
| "port_reads PortAcCurrent = Current"
| "port_reads PortResistance = Resistance"
| "port_reads PortFourWireResistance = Resistance"
| "port_reads PortFrequency = Frequency"
| "port_reads PortCapacitance = Capacitance"

section \<open>The bench meter\<close>

record FunctionCommands =
  Configure :: string
  ResolutionPath :: string
  HasDiscreteResolution :: bool
  FunctionName :: string

fun commandsFor :: "MeterFunction \<Rightarrow> FunctionCommands" where
  "commandsFor DcVoltage = \<lparr>Configure = ''CONF:VOLT:DC'', ResolutionPath = ''SENS:VOLT:DC:RES'', HasDiscreteResolution = True, FunctionName = ''DC voltage''\<rparr>"
| "commandsFor AcVoltage = \<lparr>Configure = ''CONF:VOLT:AC'', ResolutionPath = ''SENS:VOLT:AC:RES'', HasDiscreteResolution = True, FunctionName = ''AC voltage''\<rparr>"
| "commandsFor DcCurrent = \<lparr>Configure = ''CONF:CURR:DC'', ResolutionPath = ''SENS:CURR:DC:RES'', HasDiscreteResolution = True, FunctionName = ''DC current''\<rparr>"
| "commandsFor AcCurrent = \<lparr>Configure = ''CONF:CURR:AC'', ResolutionPath = ''SENS:CURR:AC:RES'', HasDiscreteResolution = True, FunctionName = ''AC current''\<rparr>"
| "commandsFor TwoWireResistance = \<lparr>Configure = ''CONF:RES'', ResolutionPath = ''SENS:RES:RES'', HasDiscreteResolution = True, FunctionName = ''2-wire resistance''\<rparr>"
| "commandsFor FourWireResistance = \<lparr>Configure = ''CONF:FRES'', ResolutionPath = ''SENS:FRES:RES'', HasDiscreteResolution = True, FunctionName = ''4-wire resistance''\<rparr>"
| "commandsFor FrequencyCount = \<lparr>Configure = ''CONF:FREQ'', ResolutionPath = [], HasDiscreteResolution = False, FunctionName = ''frequency''\<rparr>"
| "commandsFor Capacity = \<lparr>Configure = ''CONF:CAP'', ResolutionPath = [], HasDiscreteResolution = False, FunctionName = ''capacitance''\<rparr>"

fun resolutionFor :: "Resolution \<Rightarrow> string" where
  "resolutionFor Slow = ''MIN''"
| "resolutionFor Fast = ''MAX''"

definition meter_modelOf :: "string \<Rightarrow> string" where
  "meter_modelOf identity =
     (case split_first (CHR '','') identity of
        None \<Rightarrow> []
      | Some (_, rest) \<Rightarrow> (case split_first (CHR '','') rest of None \<Rightarrow> rest | Some (model, _) \<Rightarrow> model))"

definition verifyIdentity :: "'t ITransport \<Rightarrow> 't \<Rightarrow> (io_error + string) \<times> 't" where
  "verifyIdentity tr t =
     (case scpi_identify tr t of
        (Inl e, t') \<Rightarrow> (Inl e, t')
      | (Inr identity, t') \<Rightarrow>
          (if meter_modelOf identity \<noteq> ''EDU34450A'' \<and> meter_modelOf identity \<noteq> ''34450A''
           then (Inl (ScpiFault (description tr t') ''*IDN?''
                  \<lparr>Code = 0, Message = ''expected an EDU34450A or a 34450A and found \"'' @ identity @
                     ''\" -- check this instrument'' @ [CHR 0x27] @ ''s address in the rig'' @ [CHR 0x27] @
                     ''s instrument table''\<rparr>), t')
           else (Inr identity, t')))"

definition meter_prepare :: "'t ITransport \<Rightarrow> 't \<Rightarrow> (io_error + unit) \<times> 't" where
  "meter_prepare tr t =
     (case scpi_clearErrors tr t of
        (Inl e, t1) \<Rightarrow> (Inl e, t1)
      | (Inr _, t1) \<Rightarrow> (case verifyIdentity tr t1 of (Inl e, t2) \<Rightarrow> (Inl e, t2) | (Inr _, t2) \<Rightarrow> (Inr (), t2)))"

definition configure_command :: "MeterFunction \<Rightarrow> double option \<Rightarrow> string" where
  "configure_command fn r =
     Configure (commandsFor fn) @ (case r of None \<Rightarrow> [] | Some x \<Rightarrow> '' '' @ scpi_number x)"

fun isDcFunction :: "MeterFunction \<Rightarrow> bool" where
  "isDcFunction DcVoltage = True"
| "isDcFunction DcCurrent = True"
| "isDcFunction TwoWireResistance = True"
| "isDcFunction FourWireResistance = True"
| "isDcFunction _ = False"

definition resolution_commands :: "MeterFunction \<Rightarrow> Resolution \<Rightarrow> string list" where
  "resolution_commands fn res =
     (if HasDiscreteResolution (commandsFor fn) \<and> res \<noteq> Slow
      then (if isDcFunction fn then [ResolutionPath (commandsFor fn) @ '' '' @ resolutionFor res] else [])
      else [])"

definition overload_place :: "double option \<Rightarrow> string" where
  "overload_place r = (case r of Some x \<Rightarrow> ''the '' @ scpi_number x @ '' range'' | None \<Rightarrow> ''autoranging'')"

text \<open>A reading: the instrument's reason why there is none, or the number.\<close>

type_synonym meter_reading = "string + double"

definition meter_read ::
    "MeterFunction \<Rightarrow> double option \<Rightarrow> Resolution \<Rightarrow> 't ITransport \<Rightarrow> 't \<Rightarrow> (io_error + meter_reading) \<times> 't" where
  "meter_read fn r res tr t =
     (case scpi_checked tr (configure_command fn r) t of
        (Inl e, t1) \<Rightarrow> (Inl e, t1)
      | (Inr _, t1) \<Rightarrow>
          (case write_all tr (resolution_commands fn res) t1 of
             (Inl e, t2) \<Rightarrow> (Inl e, t2)
           | (Inr _, t2) \<Rightarrow>
               (case scpi_queryNumbers tr ''READ?'' t2 of
                  (Inl e, t3) \<Rightarrow> (Inl e, t3)
                | (Inr readings, t3) \<Rightarrow>
                    (if isOverload (hd readings)
                     then (Inr (Inl (FunctionName (commandsFor fn) @ '' overload -- the input is beyond '' @ overload_place r)), t3)
                     else (Inr (Inr (hd readings)), t3)))))"

type_synonym ('t, 's) device = "'t boxes \<times> 's"

text \<open>functionFor and simulatedReading; a quantity the meter has no port for does not compile.\<close>

fun functionFor :: "QuantityKind \<Rightarrow> 'a MeterKeys_scheme \<Rightarrow> MeterFunction option" where
  "functionFor Voltage s = Some (if mMode s = Ac then AcVoltage else DcVoltage)"
| "functionFor Current s = Some (if mMode s = Ac then AcCurrent else DcCurrent)"
| "functionFor Resistance s = Some (if mResistanceMode s = FourWire then FourWireResistance else TwoWireResistance)"
| "functionFor Frequency s = Some FrequencyCount"
| "functionFor Capacitance s = Some Capacity"
| "functionFor _ s = None"

fun simulatedReading :: "QuantityKind \<Rightarrow> BenchMeter \<Rightarrow> double option" where
  "simulatedReading Voltage s = Some (if mMode s = Ac then mSimAcVoltage s else mSimVoltage s)"
| "simulatedReading Current s = Some (if mMode s = Ac then mSimAcCurrent s else mSimCurrent s)"
| "simulatedReading Resistance s = Some (if mResistanceMode s = FourWire then mSimFourWireResistance s else mSimResistance s)"
| "simulatedReading Frequency s = Some (mSimFrequency s)"
| "simulatedReading Capacitance s = Some (mSimCapacitance s)"
| "simulatedReading _ s = None"

definition meter_on_wire ::
    "'t bench_env \<Rightarrow> nat \<Rightarrow> ('t ITransport \<Rightarrow> 't \<Rightarrow> (io_error + 'a) \<times> 't) \<Rightarrow> ('t, 's) device \<Rightarrow> (box_error + 'a) \<times> ('t, 's) device" where
  "meter_on_wire env i act d =
     (case in_session env ''keysight_edu34450a'' meter_prepare i act (fst d) of (r, b) \<Rightarrow> (r, (b, snd d)))"

definition meter_identity :: "'t bench_env \<Rightarrow> nat \<Rightarrow> ('t, BenchMeter) device \<Rightarrow> (box_error + string) \<times> ('t, BenchMeter) device" where
  "meter_identity env i d = meter_on_wire env i scpi_identify d"

definition setResolution :: "Resolution \<Rightarrow> ('t, BenchMeter) device \<Rightarrow> ('t, BenchMeter) device" where
  "setResolution res d = (fst d, (snd d)\<lparr>mResolution := res\<rparr>)"

text \<open>The simulation hooks.\<close>

definition setSimulatedVoltage :: "double \<Rightarrow> BenchMeter \<Rightarrow> BenchMeter" where
  "setSimulatedVoltage v s = s\<lparr>mSimVoltage := v\<rparr>"

definition setSimulatedCurrent :: "double \<Rightarrow> BenchMeter \<Rightarrow> BenchMeter" where
  "setSimulatedCurrent v s = s\<lparr>mSimCurrent := v\<rparr>"

definition setSimulatedAcVoltage :: "double \<Rightarrow> BenchMeter \<Rightarrow> BenchMeter" where
  "setSimulatedAcVoltage v s = s\<lparr>mSimAcVoltage := v\<rparr>"

definition setSimulatedAcCurrent :: "double \<Rightarrow> BenchMeter \<Rightarrow> BenchMeter" where
  "setSimulatedAcCurrent v s = s\<lparr>mSimAcCurrent := v\<rparr>"

definition setSimulatedResistance :: "double \<Rightarrow> BenchMeter \<Rightarrow> BenchMeter" where
  "setSimulatedResistance v s = s\<lparr>mSimResistance := v\<rparr>"

definition setSimulatedFourWireResistance :: "double \<Rightarrow> BenchMeter \<Rightarrow> BenchMeter" where
  "setSimulatedFourWireResistance v s = s\<lparr>mSimFourWireResistance := v\<rparr>"

definition setSimulatedFrequency :: "double \<Rightarrow> BenchMeter \<Rightarrow> BenchMeter" where
  "setSimulatedFrequency v s = s\<lparr>mSimFrequency := v\<rparr>"

definition setSimulatedCapacitance :: "double \<Rightarrow> BenchMeter \<Rightarrow> BenchMeter" where
  "setSimulatedCapacitance v s = s\<lparr>mSimCapacitance := v\<rparr>"

text \<open>rawMeasure of a port of a kind: None for a port that does not compile.\<close>

definition meter_rawMeasure ::
    "'t bench_env \<Rightarrow> nat \<Rightarrow> QuantityKind \<Rightarrow> double option \<Rightarrow> ('t, BenchMeter) device
       \<Rightarrow> (box_error + meter_reading) option \<times> ('t, BenchMeter) device" where
  "meter_rawMeasure env i k r d =
     (case connection_isSimulated (env_rows env) i (fst d) of
        (True, b) \<Rightarrow> (map_option (\<lambda>v. Inr (Inr v)) (simulatedReading k (snd d)), (b, snd d))
      | (False, b) \<Rightarrow>
          (case functionFor k (snd d) of
             None \<Rightarrow> (None, (b, snd d))
           | Some fn \<Rightarrow>
               (case meter_on_wire env i (meter_read fn r (mResolution (snd d))) (b, snd d) of
                  (v, d') \<Rightarrow> (Some v, d'))))"

section \<open>The meter of the mainframe\<close>

record DmmCommand =
  DmmQuery :: string
  DmmName :: string
  TakesRange :: bool

text \<open>commandFor; the functions this meter does not have are the default of the switch.\<close>

fun commandFor :: "MeterFunction \<Rightarrow> DmmCommand" where
  "commandFor DcVoltage = \<lparr>DmmQuery = ''MEAS:VOLT:DC?'', DmmName = ''DC voltage'', TakesRange = True\<rparr>"
| "commandFor AcVoltage = \<lparr>DmmQuery = ''MEAS:VOLT:AC?'', DmmName = ''AC voltage'', TakesRange = True\<rparr>"
| "commandFor TwoWireResistance = \<lparr>DmmQuery = ''MEAS:RES?'', DmmName = ''resistance'', TakesRange = True\<rparr>"
| "commandFor FourWireResistance = \<lparr>DmmQuery = ''MEAS:FRES?'', DmmName = ''4-wire resistance'', TakesRange = True\<rparr>"
| "commandFor FrequencyCount = \<lparr>DmmQuery = ''MEAS:FREQ?'', DmmName = ''frequency'', TakesRange = False\<rparr>"
| "commandFor _ = \<lparr>DmmQuery = [], DmmName = [], TakesRange = False\<rparr>"

definition answersYes :: "string \<Rightarrow> 't ITransport \<Rightarrow> 't \<Rightarrow> (io_error + bool) \<times> 't" where
  "answersYes question tr t =
     (case scpi_queryNumber tr question t of (Inl e, t') \<Rightarrow> (Inl e, t') | (Inr v, t') \<Rightarrow> (Inr (\<not> d_eq v (Fin 0)), t'))"

definition require_yes :: "string \<Rightarrow> string \<Rightarrow> 't ITransport \<Rightarrow> 't \<Rightarrow> (io_error + unit) \<times> 't" where
  "require_yes question why tr t =
     (case answersYes question tr t of
        (Inl e, t') \<Rightarrow> (Inl e, t')
      | (Inr yes, t') \<Rightarrow>
          (if yes then (Inr (), t') else (Inl (ScpiFault (description tr t') question \<lparr>Code = 0, Message = why\<rparr>), t')))"

definition dmm_prepare :: "'t ITransport \<Rightarrow> 't \<Rightarrow> (io_error + unit) \<times> 't" where
  "dmm_prepare tr t =
     (case scpi_clearErrors tr t of
        (Inl e, t1) \<Rightarrow> (Inl e, t1)
      | (Inr _, t1) \<Rightarrow>
          (case verifyMainframe tr t1 of
             (Inl e, t2) \<Rightarrow> (Inl e, t2)
           | (Inr _, t2) \<Rightarrow>
               (case require_yes ''INST:DMM:INST?''
                       (''this 34980A has no internal DMM fitted -- a row naming keysight_34980a::Multimeter'' @
                        '' needs the optional DMM assembly'') tr t2 of
                  (Inl e, t3) \<Rightarrow> (Inl e, t3)
                | (Inr _, t3) \<Rightarrow>
                    require_yes ''INST:DMM?''
                       (''this 34980A'' @ [CHR 0x27] @ ''s internal DMM is disabled, so it is not on the Analog Buses. Enable'' @
                        '' it from the front panel or a bring-up session (INST:DMM ON) -- this driver'' @
                        '' will not, because enabling it issues a factory reset'') tr t3)))"

definition dmm_query :: "MeterFunction \<Rightarrow> double option \<Rightarrow> string" where
  "dmm_query fn r =
     DmmQuery (commandFor fn) @
     (case r of Some x \<Rightarrow> (if TakesRange (commandFor fn) then '' '' @ scpi_number x else []) | None \<Rightarrow> [])"

text \<open>What the error queue says after a query: its entry as a fault, or the result as it was.\<close>

definition queue_or :: "string \<Rightarrow> (io_error + 'a) \<Rightarrow> 't ITransport \<Rightarrow> 't \<Rightarrow> (io_error + 'a) \<times> 't" where
  "queue_or query otherwise tr t =
     (case scpi_nextError tr t of
        (Inl e, t') \<Rightarrow> (Inl e, t')
      | (Inr (Some e), t') \<Rightarrow> (Inl (ScpiFault (description tr t') query e), t')
      | (Inr None, t') \<Rightarrow> (otherwise, t'))"

definition dmm_read :: "MeterFunction \<Rightarrow> double option \<Rightarrow> 't ITransport \<Rightarrow> 't \<Rightarrow> (io_error + meter_reading) \<times> 't" where
  "dmm_read fn r tr t =
     (case scpi_queryNumbers tr (dmm_query fn r) t of
        (Inl (Transport (TransportTimeout why)), t1) \<Rightarrow> queue_or (dmm_query fn r) (Inl (Transport (TransportTimeout why))) tr t1
      | (Inl e, t1) \<Rightarrow> (Inl e, t1)
      | (Inr readings, t1) \<Rightarrow>
          queue_or (dmm_query fn r)
            (Inr (if isOverload (hd readings)
                  then Inl (DmmName (commandFor fn) @ '' overload on the Analog Bus -- the input is beyond '' @
                            overload_place (if TakesRange (commandFor fn) then r else None))
                  else Inr (hd readings))) tr t1)"

record InternalMeter = MeterKeys +
  dmm_SimVoltage :: double
  dmm_SimAcVoltage :: double
  dmm_SimFrequency :: double
  dmm_SimResistance :: "double option"

definition dmm_setSimulatedVoltage :: "double \<Rightarrow> InternalMeter \<Rightarrow> InternalMeter" where
  "dmm_setSimulatedVoltage v s = s\<lparr>dmm_SimVoltage := v\<rparr>"

definition dmm_setSimulatedAcVoltage :: "double \<Rightarrow> InternalMeter \<Rightarrow> InternalMeter" where
  "dmm_setSimulatedAcVoltage v s = s\<lparr>dmm_SimAcVoltage := v\<rparr>"

definition dmm_setSimulatedFrequency :: "double \<Rightarrow> InternalMeter \<Rightarrow> InternalMeter" where
  "dmm_setSimulatedFrequency v s = s\<lparr>dmm_SimFrequency := v\<rparr>"

definition dmm_setSimulatedResistance :: "double option \<Rightarrow> InternalMeter \<Rightarrow> InternalMeter" where
  "dmm_setSimulatedResistance v s = s\<lparr>dmm_SimResistance := v\<rparr>"

fun dmm_functionFor :: "QuantityKind \<Rightarrow> InternalMeter \<Rightarrow> MeterFunction option" where
  "dmm_functionFor Voltage s = Some (if mMode s = Ac then AcVoltage else DcVoltage)"
| "dmm_functionFor Resistance s = Some (if mResistanceMode s = FourWire then FourWireResistance else TwoWireResistance)"
| "dmm_functionFor Frequency s = Some FrequencyCount"
| "dmm_functionFor _ s = None"

fun dmm_simulatedReading :: "QuantityKind \<Rightarrow> InternalMeter \<Rightarrow> meter_reading option" where
  "dmm_simulatedReading Voltage s = Some (Inr (if mMode s = Ac then dmm_SimAcVoltage s else dmm_SimVoltage s))"
| "dmm_simulatedReading Resistance s =
     Some (case dmm_SimResistance s of None \<Rightarrow> Inl ''resistance overload -- nothing on the Analog Bus'' | Some v \<Rightarrow> Inr v)"
| "dmm_simulatedReading Frequency s = Some (Inr (dmm_SimFrequency s))"
| "dmm_simulatedReading _ s = None"

definition dmm_on_wire ::
    "'t bench_env \<Rightarrow> nat \<Rightarrow> ('t ITransport \<Rightarrow> 't \<Rightarrow> (io_error + 'a) \<times> 't) \<Rightarrow> ('t, 's) device \<Rightarrow> (box_error + 'a) \<times> ('t, 's) device" where
  "dmm_on_wire env i act d =
     (case in_session env ''keysight_34980a.dmm'' dmm_prepare i act (fst d) of (r, b) \<Rightarrow> (r, (b, snd d)))"

definition dmm_identity :: "'t bench_env \<Rightarrow> nat \<Rightarrow> ('t, InternalMeter) device \<Rightarrow> (box_error + string) \<times> ('t, InternalMeter) device" where
  "dmm_identity env i d = dmm_on_wire env i scpi_identify d"

definition dmm_rawMeasure ::
    "'t bench_env \<Rightarrow> nat \<Rightarrow> QuantityKind \<Rightarrow> double option \<Rightarrow> ('t, InternalMeter) device
       \<Rightarrow> (box_error + meter_reading) option \<times> ('t, InternalMeter) device" where
  "dmm_rawMeasure env i k r d =
     (case connection_isSimulated (env_rows env) i (fst d) of
        (True, b) \<Rightarrow> (map_option Inr (dmm_simulatedReading k (snd d)), (b, snd d))
      | (False, b) \<Rightarrow>
          (case dmm_functionFor k (snd d) of
             None \<Rightarrow> (None, (b, snd d))
           | Some fn \<Rightarrow> (case dmm_on_wire env i (dmm_read fn r) (b, snd d) of (v, d') \<Rightarrow> (Some v, d'))))"

text \<open>The driver's handling of its connection is that of every instrument.\<close>

definition device_useTransport :: "'t bench_env \<Rightarrow> nat \<Rightarrow> 't \<Rightarrow> ('t, 's) device \<Rightarrow> ('t, 's) device" where
  "device_useTransport env i t d = (connection_useTransport (env_rows env) i t (fst d), snd d)"

definition device_useAddress :: "nat \<Rightarrow> address \<Rightarrow> ('t, 's) device \<Rightarrow> ('t, 's) device" where
  "device_useAddress i a d = (connection_useAddress i a (fst d), snd d)"

definition device_closeSession :: "'t bench_env \<Rightarrow> nat \<Rightarrow> ('t, 's) device \<Rightarrow> ('t, 's) device" where
  "device_closeSession env i d = (connection_close (env_rows env) i (fst d), snd d)"

section \<open>A meter's port in a script\<close>

text \<open>What Measure gets from a port: a reading, its reason, or a failure.\<close>

definition port_answer :: "(box_error + meter_reading) option \<Rightarrow> port_fault + double" where
  "port_answer r =
     (case r of
        Some (Inr (Inr v)) \<Rightarrow> Inr v
      | Some (Inr (Inl why)) \<Rightarrow> Inl (UnmeasurableReading why)
      | Some (Inl e) \<Rightarrow> Inl (PortFailure (box_error_text e))
      | None \<Rightarrow> Inl (PortFailure []))"

definition bench_meter_port :: "'t bench_env \<Rightarrow> nat \<Rightarrow> string \<Rightarrow> meter_port \<Rightarrow> double option \<Rightarrow> ('t, BenchMeter) device Port" where
  "bench_meter_port env i name p r =
     \<lparr>port_kind = port_reads p, port_instrument = name, port_sense = (p = PortFourWireResistance), port_qualifier = [],
      rawMeasure = (\<lambda>d. case meter_rawMeasure env i (port_reads p) r d of (v, d') \<Rightarrow> (port_answer v, d')),
      mUnmeasurable = None\<rparr>"

end
