(* ===== verification/MeterFacts.thy ===== *)
theory MeterFacts
  imports Meters
begin

text \<open>
  What holds of the meters: which function a port reads, what is told to the meter for a reading, the
  overload sentinel, and what becomes of an error the meter queued for a command nobody checked.
\<close>

section \<open>What holds of a reading\<close>

text \<open>A port that is read straight after it was made reads its own function, whatever the keys were.\<close>

fun names_function :: "meter_port \<Rightarrow> MeterFunction" where
  "names_function PortVoltage = DcVoltage"
| "names_function PortCurrent = DcCurrent"
| "names_function PortAcVoltage = AcVoltage"
| "names_function PortAcCurrent = AcCurrent"
| "names_function PortResistance = TwoWireResistance"
| "names_function PortFourWireResistance = FourWireResistance"
| "names_function PortFrequency = FrequencyCount"
| "names_function PortCapacitance = Capacity"

lemma port_reads_its_function: "functionFor (port_reads p) (press p s) = Some (names_function p)"
  by (cases p) simp_all

text \<open>The meter's overload sentinel is never handed on as a reading.\<close>

lemma queue_or_value: "queue_or q otherwise tr t = (Inr v, t') \<Longrightarrow> otherwise = Inr v"
  by (auto simp: queue_or_def split: prod.splits sum.splits option.splits)

theorem overload_is_no_reading:
  assumes "fst (meter_read fn r res tr t) = Inr (Inr v) \<or> fst (dmm_read fn r tr t) = Inr (Inr v)"
  shows "\<not> isOverload v"
  using assms
proof
  assume "fst (meter_read fn r res tr t) = Inr (Inr v)"
  then show ?thesis by (auto simp: meter_read_def split: prod.splits sum.splits if_splits)
next
  assume a: "fst (dmm_read fn r tr t) = Inr (Inr v)"
  then obtain t' where "dmm_read fn r tr t = (Inr (Inr v), t')" by (metis prod.collapse)
  then show ?thesis
    by (auto simp: dmm_read_def dest!: queue_or_value split: prod.splits sum.splits io_error.splits transport_error.splits if_splits)
qed

section \<open>What the meter is told for a reading\<close>

lemma queryNumbers_told:
  assumes "c \<noteq> ''SYST:ERR?''"
  shows "told_instrument (snd (snd (scpi_queryNumbers (logging tr) c s))) = told_instrument (snd s) @ [c]"
  using queryChecked_told [OF assms, of tr s]
  by (auto simp: scpi_queryNumbers_def split: sum.splits option.splits prod.splits if_splits)

lemma configure_told: "configure_command fn r \<noteq> ''SYST:ERR?''"
  by (cases fn) (simp_all add: configure_command_def)

lemma resolution_told: "''SYST:ERR?'' \<notin> set (resolution_commands fn res)"
  by (cases fn) (simp_all add: resolution_commands_def)

text \<open>
  A reading that returns told the meter, in this order: the function with its range, the resolution if
  it is not the default and the function takes one, and the trigger. A reading that throws told a
  part of that.
\<close>

theorem reading_configures_first:
  "\<exists>n. told_instrument (snd (snd (meter_read fn r res (logging tr) s))) =
       told_instrument (snd s) @ take n ([configure_command fn r] @ resolution_commands fn res @ [''READ?'']) \<and>
     (\<forall>v. fst (meter_read fn r res (logging tr) s) = Inr v \<longrightarrow>
       told_instrument (snd (snd (meter_read fn r res (logging tr) s))) =
         told_instrument (snd s) @ [configure_command fn r] @ resolution_commands fn res @ [''READ?''])"
proof -
  let ?c = "configure_command fn r" and ?ws = "resolution_commands fn res"
  obtain r1 s1 where c: "scpi_checked (logging tr) ?c s = (r1, s1)" by (cases "scpi_checked (logging tr) ?c s")
  with checked_told [OF configure_told [of fn r], of tr s] have t1: "told_instrument (snd s1) = told_instrument (snd s) @ [?c]" by simp
  obtain r2 s2 where w: "write_all (logging tr) ?ws s1 = (r2, s2)" by (cases "write_all (logging tr) ?ws s1")
  from write_all_told [OF resolution_told [of fn res], of tr s1] w obtain n where
    n: "n \<le> length ?ws" "told_instrument (snd s2) = told_instrument (snd s1) @ take n ?ws" "r2 = Inr () \<longrightarrow> n = length ?ws"
    by auto
  obtain r3 s3 where q: "scpi_queryNumbers (logging tr) ''READ?'' s2 = (r3, s3)"
    by (cases "scpi_queryNumbers (logging tr) ''READ?'' s2")
  with queryNumbers_told [of "''READ?''" tr s2] have t3: "told_instrument (snd s3) = told_instrument (snd s2) @ [''READ?'']" by simp
  show ?thesis
  proof (cases r1)
    case (Inl e)
    with c t1 show ?thesis by (intro exI [of _ 1]) (simp add: meter_read_def)
  next
    case (Inr u)
    show ?thesis
    proof (cases r2)
      case (Inl e)
      with c t1 Inr w n show ?thesis by (intro exI [of _ "Suc n"]) (simp add: meter_read_def)
    next
      case (Inr u')
      with c t1 \<open>r1 = Inr u\<close> w n q t3 show ?thesis
        by (intro exI [of _ "length ?ws + 2"]) (auto simp: meter_read_def split: sum.split)
    qed
  qed
qed

section \<open>Errors nobody asked for\<close>

text \<open>
  The resolution is sent without asking whether the meter took it. An error it queued is found by the
  next reading, and thrown as a refusal of that reading's CONFigure, which the meter did take.
\<close>

theorem stale_error_blamed_on_next_reading:
  assumes "error_queue_instrument tr errq" and "errq t = e # es" and "\<forall>e \<in> set (errq t). queued_error e"
    and "length (errq t) \<le> 22" and "send tr (configure_command fn r) t = (None, t1)" and "errq t1 = errq t"
  shows "\<exists>instrument. fst (meter_read fn r res tr t) = Inl (ScpiFault instrument (configure_command fn r) e)"
proof -
  from nextError_device [OF assms(1), of t1] assms obtain t2 where
    ask: "scpi_nextError tr t1 = (Inr (Some e), t2)" and q: "errq t2 = es" by auto
  with assms have "length (errq t2) \<le> 21" "\<forall>e \<in> set (errq t2). queued_error e" by simp_all
  with drain_device [OF assms(1), of t2 21] obtain t3 where "scpi_clearErrors tr t2 = (Inr (), t3)"
    by (auto simp: scpi_clearErrors_def kMaximumQueueDepth_def)
  with ask assms(5) show ?thesis by (simp add: meter_read_def scpi_checked_def)
qed

text \<open>A bench meter that takes everything but a resolution, and reads one volt and a half.\<close>

definition fussy_meter :: "(ScpiError list \<times> string) ITransport" where
  "fussy_meter = \<lparr>
     send = (\<lambda>command (q, line).
       if command = ''SYST:ERR?'' then (None, (tl q, queue_line (case q of [] \<Rightarrow> no_error | e # _ \<Rightarrow> e)))
       else if command = ''READ?'' then (None, (q, ''+1.5E+00''))
       else if take 4 command = ''SENS'' then (None, (q @ [\<lparr>Code = - 410, Message = ''Query INTERRUPTED''\<rparr>], line))
       else (None, (q, line))),
     receive = (\<lambda>(q, line). (Inr line, (q, []))),
     description = (\<lambda>_. ''Dmm1'')\<rparr>"

lemma fussy_meter_queue: "error_queue_instrument fussy_meter fst"
  by (auto simp: error_queue_instrument_def fussy_meter_def)

lemma fussy_first_reading:
  "meter_read DcVoltage None Fast fussy_meter ([], []) =
     (Inr (Inr (Fin (3 / 2))), ([\<lparr>Code = - 410, Message = ''Query INTERRUPTED''\<rparr>], []))"
  by code_simp

theorem stale_error_blamed_on_next_reading_witness:
  "(\<exists>v t. meter_read DcVoltage None Fast fussy_meter ([], []) = (Inr (Inr v), t) \<and>
     (\<exists>instrument. fst (meter_read DcCurrent None Slow fussy_meter t) =
        Inl (ScpiFault instrument ''CONF:CURR:DC'' \<lparr>Code = - 410, Message = ''Query INTERRUPTED''\<rparr>)))"
  using fussy_first_reading
    stale_error_blamed_on_next_reading [OF fussy_meter_queue,
      of "([\<lparr>Code = - 410, Message = ''Query INTERRUPTED''\<rparr>], [])" "\<lparr>Code = - 410, Message = ''Query INTERRUPTED''\<rparr>" "[]"
        DcCurrent None "([\<lparr>Code = - 410, Message = ''Query INTERRUPTED''\<rparr>], [])" Slow]
  by (simp add: queued_error_def int32_def configure_command_def) (simp add: fussy_meter_def)

text \<open>The mainframe's meter takes one entry off the queue and leaves the others to be blamed on the next query.\<close>

lemma dmm_leaves_the_rest:
  assumes "error_queue_instrument tr errq" and "scpi_queryNumbers tr (dmm_query fn r) t = (Inr readings, t1)"
    and "errq t1 = e # es" and "\<forall>e \<in> set (errq t1). queued_error e"
  shows "\<exists>instrument t2. dmm_read fn r tr t = (Inl (ScpiFault instrument (dmm_query fn r) e), t2) \<and> errq t2 = es"
proof -
  from nextError_device [OF assms(1,4)] assms(3) obtain t2 where "scpi_nextError tr t1 = (Inr (Some e), t2)" "errq t2 = es"
    by auto
  with assms(2) show ?thesis by (simp add: dmm_read_def queue_or_def)
qed

section \<open>Applied to that meter\<close>

theorem overload_is_no_reading_witness:
  "\<exists>v. fst (meter_read DcVoltage None Fast fussy_meter ([], [])) = Inr (Inr v) \<and> \<not> isOverload v"
  using overload_is_no_reading [of DcVoltage None Fast fussy_meter "([], [])" "Fin (3 / 2)"] fussy_first_reading by simp

theorem reading_configures_first_witness:
  "told_instrument (snd (snd (meter_read DcVoltage None Fast (logging fussy_meter) (([], []), [])))) =
     [''CONF:VOLT:DC'', ''SENS:VOLT:DC:RES MAX'', ''READ?'']"
proof -
  have "fst (meter_read DcVoltage None Fast (logging fussy_meter) (([], []), [])) = Inr (Inr (Fin (3 / 2)))" by code_simp
  with reading_configures_first [of DcVoltage None Fast fussy_meter "(([], []), [])"] show ?thesis
    by (auto simp: configure_command_def resolution_commands_def)
qed

end
