(* ===== verification/Generator.thy ===== *)
theory Generator
  imports BoxSession Verbs
begin

text \<open>
  The two-channel waveform generator, instruments/keysight_33522b: what is sent for an Apply and in
  which order (src/keysight_33522b.cpp), the limits that are checked before anything is sent, and
  the driver's memory of both outputs (keysight_33522b_waveform_generator.hpp), with its
  configurations and the functions the verbs find for them. A double literal of the source is the
  nearest double of the number it spells.
\<close>

section \<open>Shapes\<close>

datatype GenShape = Sine | Square | Ramp | Triangle | Pulse | Noise | DcLevel

fun shape_function :: "GenShape \<Rightarrow> string" where
  "shape_function Sine = ''SIN''"
| "shape_function Square = ''SQU''"
| "shape_function Ramp = ''RAMP''"
| "shape_function Triangle = ''TRI''"
| "shape_function Pulse = ''PULS''"
| "shape_function Noise = ''NOIS''"
| "shape_function DcLevel = ''DC''"

fun shape_name :: "GenShape \<Rightarrow> string" where
  "shape_name Sine = ''sine''"
| "shape_name Square = ''square''"
| "shape_name Ramp = ''ramp''"
| "shape_name Triangle = ''triangle''"
| "shape_name Pulse = ''pulse''"
| "shape_name Noise = ''noise''"
| "shape_name DcLevel = ''dc''"

text \<open>The concepts a shape meets: Periodic with its MaxHertz, HasDutyCycle, HasSymmetry, Amplifiable.\<close>

fun MaxHertz :: "GenShape \<Rightarrow> double option" where
  "MaxHertz Sine = Some (Fin 30000000)"
| "MaxHertz Square = Some (Fin 30000000)"
| "MaxHertz Ramp = Some (Fin 200000)"
| "MaxHertz Triangle = Some (Fin 200000)"
| "MaxHertz Pulse = Some (Fin 30000000)"
| "MaxHertz _ = None"

fun DutyCycleCommand :: "GenShape \<Rightarrow> string option" where
  "DutyCycleCommand Square = Some ''FUNC:SQU:DCYC''"
| "DutyCycleCommand Pulse = Some ''FUNC:PULS:DCYC''"
| "DutyCycleCommand _ = None"

fun SymmetryCommand :: "GenShape \<Rightarrow> string option" where
  "SymmetryCommand Ramp = Some ''FUNC:RAMP:SYMM''"
| "SymmetryCommand _ = None"

definition Amplifiable :: "GenShape \<Rightarrow> bool" where
  "Amplifiable shape \<longleftrightarrow> shape \<noteq> DcLevel"

datatype Termination = Ohms50 | HighImpedance

fun describeTermination :: "Termination \<Rightarrow> string" where
  "describeTermination HighImpedance = ''into a high-impedance load''"
| "describeTermination Ohms50 = ''into 50 Ohm''"

fun to_string_termination :: "Termination \<Rightarrow> string" where
  "to_string_termination Ohms50 = ''Ohms50''"
| "to_string_termination HighImpedance = ''HighImpedance''"

section \<open>On the wire\<close>

definition gen_source :: "int \<Rightarrow> string" where
  "gen_source ch = ''SOUR'' @ show_int ch @ '':''"

definition gen_output :: "int \<Rightarrow> string" where
  "gen_output ch = ''OUTP'' @ show_int ch"

definition gen_setting :: "string \<Rightarrow> double \<Rightarrow> string" where
  "gen_setting command v = command @ '' '' @ scpi_number v"

definition gen_modelOf :: "string \<Rightarrow> string" where
  "gen_modelOf identity =
     (case split_first (CHR '','') identity of
        None \<Rightarrow> []
      | Some (_, rest) \<Rightarrow> (case split_first (CHR '','') rest of None \<Rightarrow> rest | Some (model, _) \<Rightarrow> model))"

definition gen_prepare :: "'t ITransport \<Rightarrow> 't \<Rightarrow> (io_error + unit) \<times> 't" where
  "gen_prepare tr t =
     (case scpi_clearErrors tr t of
        (Inl e, t1) \<Rightarrow> (Inl e, t1)
      | (Inr _, t1) \<Rightarrow>
          (case scpi_identify tr t1 of
             (Inl e, t2) \<Rightarrow> (Inl e, t2)
           | (Inr identity, t2) \<Rightarrow>
               (if gen_modelOf identity \<noteq> ''33522B''
                then (Inl (ScpiFault (description tr t2) ''*IDN?''
                       \<lparr>Code = 0, Message = ''expected a 33522B and found \"'' @ identity @
                          ''\" -- check this instrument'' @ [CHR 0x27] @ ''s address in the rig'' @ [CHR 0x27] @
                          ''s instrument table. Note the rest of the 33500B Series speaks the same commands and would '' @
                          ''accept most of what this driver sends: the other models differ in '' @
                          ''channel count (33509B/11B/19B/21B have one) and in bandwidth '' @
                          ''(the 20 MHz models, where this driver believes 30)''\<rparr>), t2)
                else (Inr (), t2))))"

record GenProgram =
  gp_Channel :: int
  gp_Function :: string
  gp_Load :: string
  gp_Hertz :: "double option"
  gp_Volts :: "double option"
  gp_OffsetVolts :: "double option"
  gp_ShapeCommand :: string
  gp_ShapePercent :: "double option"

definition if_given :: "('a \<Rightarrow> string) \<Rightarrow> 'a option \<Rightarrow> string list" where
  "if_given say v = (case v of None \<Rightarrow> [] | Some x \<Rightarrow> [say x])"

text \<open>The settings in the order they are sent, and the output on last.\<close>

definition waveform_commands :: "GenProgram \<Rightarrow> string list" where
  "waveform_commands w =
     (let prefix = gen_source (gp_Channel w); connector = gen_output (gp_Channel w)
      in (if gp_Load w = [] then [] else [connector @ '':LOAD '' @ gp_Load w]) @
         [prefix @ ''FUNC '' @ gp_Function w] @
         if_given (gen_setting (prefix @ ''FREQ'')) (gp_Hertz w) @
         (if gp_ShapeCommand w = [] then [] else if_given (gen_setting (prefix @ gp_ShapeCommand w)) (gp_ShapePercent w)) @
         if_given (\<lambda>v. gen_setting (prefix @ ''VOLT'') v @ '' VPP'') (gp_Volts w) @
         if_given (gen_setting (prefix @ ''VOLT:OFFS'')) (gp_OffsetVolts w) @
         [connector @ '' ON''])"

definition gen_program :: "GenProgram \<Rightarrow> 't ITransport \<Rightarrow> 't \<Rightarrow> (io_error + unit) \<times> 't" where
  "gen_program w tr t =
     (case checked_all tr (waveform_commands w) t of
        (Inl e, t') \<Rightarrow> (Inl e, t')
      | (Inr _, t') \<Rightarrow> scpi_waitForComplete tr t')"

definition gen_disableOutput :: "int \<Rightarrow> 't ITransport \<Rightarrow> 't \<Rightarrow> (io_error + unit) \<times> 't" where
  "gen_disableOutput ch tr t =
     (case scpi_checked tr (gen_output ch @ '' OFF'') t of
        (Inl e, t') \<Rightarrow> (Inl e, t')
      | (Inr _, t') \<Rightarrow> scpi_waitForComplete tr t')"

definition gen_outputIsOn :: "int \<Rightarrow> 't ITransport \<Rightarrow> 't \<Rightarrow> (io_error + bool) \<times> 't" where
  "gen_outputIsOn ch tr t =
     (case scpi_queryNumber tr (gen_output ch @ ''?'') t of
        (Inl e, t') \<Rightarrow> (Inl e, t')
      | (Inr v, t') \<Rightarrow> (Inr (\<not> d_eq v (Fin 0)), t'))"

text \<open>
  Off, wait, and the signal collapsed. What is caught is a TransportError; the wait reads the error
  queue when it times out and can throw a ScpiFault, which is not one.
\<close>

definition gen_sendSafe :: "int \<Rightarrow> 't ITransport \<Rightarrow> 't \<Rightarrow> (io_error + unit) \<times> 't" where
  "gen_sendSafe ch tr t =
     (case (case scpi_write tr (gen_output ch @ '' OFF'') t of
              (Inl e, t1) \<Rightarrow> (Inl e, t1)
            | (Inr _, t1) \<Rightarrow>
                (case scpi_waitForComplete tr t1 of
                   (Inl e, t2) \<Rightarrow> (Inl e, t2)
                 | (Inr _, t2) \<Rightarrow> write_all tr [gen_source ch @ ''VOLT MIN'', gen_source ch @ ''VOLT:OFFS 0''] t2)) of
        (Inl (Transport e), t') \<Rightarrow> (Inr (), t')
      | r \<Rightarrow> r)"

text \<open>Both channels of the generator, down the open session.\<close>

fun gen_safe_channels :: "int list \<Rightarrow> 't ITransport \<Rightarrow> 't \<Rightarrow> (io_error + unit) \<times> 't" where
  "gen_safe_channels [] tr t = (Inr (), t)"
| "gen_safe_channels (ch # chs) tr t =
     (case gen_sendSafe ch tr t of
        (Inl e, t') \<Rightarrow> (Inl e, t')
      | (Inr _, t') \<Rightarrow> gen_safe_channels chs tr t')"

section \<open>Configurations\<close>

record WaveformConfig =
  wf_Channel :: u32
  wf_Shape :: GenShape
  wf_Frequency :: "double option"
  wf_Amplitude :: "double option"
  wf_Offset :: "double option"
  wf_DutyCycle :: "double option"
  wf_Symmetry :: "double option"
  wf_Load :: "Termination option"

text \<open>channel<N>() and the shape it makes a builder of; only channels 1 and 2 compile.\<close>

definition gen_channel :: "u32 \<Rightarrow> GenShape \<Rightarrow> WaveformConfig option" where
  "gen_channel n shape =
     (if 1 \<le> n \<and> n \<le> 2
      then Some \<lparr>wf_Channel = n, wf_Shape = shape, wf_Frequency = None, wf_Amplitude = None, wf_Offset = None,
                 wf_DutyCycle = None, wf_Symmetry = None, wf_Load = None\<rparr>
      else None)"

text \<open>The setters; a setter a shape does not have does not compile and is None.\<close>

definition wf_frequency :: "double \<Rightarrow> WaveformConfig \<Rightarrow> WaveformConfig option" where
  "wf_frequency f c = (if MaxHertz (wf_Shape c) = None then None else Some (c\<lparr>wf_Frequency := Some f\<rparr>))"

definition wf_amplitude :: "double \<Rightarrow> WaveformConfig \<Rightarrow> WaveformConfig option" where
  "wf_amplitude v c = (if Amplifiable (wf_Shape c) then Some (c\<lparr>wf_Amplitude := Some v\<rparr>) else None)"

definition wf_offset :: "double \<Rightarrow> WaveformConfig \<Rightarrow> WaveformConfig" where
  "wf_offset v c = c\<lparr>wf_Offset := Some v\<rparr>"

definition wf_dutyCycle :: "double \<Rightarrow> WaveformConfig \<Rightarrow> WaveformConfig option" where
  "wf_dutyCycle p c = (if DutyCycleCommand (wf_Shape c) = None then None else Some (c\<lparr>wf_DutyCycle := Some p\<rparr>))"

definition wf_symmetry :: "double \<Rightarrow> WaveformConfig \<Rightarrow> WaveformConfig option" where
  "wf_symmetry p c = (if SymmetryCommand (wf_Shape c) = None then None else Some (c\<lparr>wf_Symmetry := Some p\<rparr>))"

definition wf_into :: "Termination \<Rightarrow> WaveformConfig \<Rightarrow> WaveformConfig" where
  "wf_into z c = c\<lparr>wf_Load := Some z\<rparr>"

section \<open>The limits of the model\<close>

datatype gen_error = SettingOutOfRange string string string | NoSuchOutput | GenFault box_error

fun gen_error_text :: "gen_error \<Rightarrow> string" where
  "gen_error_text (SettingOutOfRange instrument setting detail) =
     instrument @ '': '' @ setting @ '' '' @ detail @ '' -- see instruments/keysight_33522b/README.md''"
| "gen_error_text NoSuchOutput = ''array::at''"
| "gen_error_text (GenFault e) = box_error_text e"

fun maxAmplitude :: "Termination \<Rightarrow> double" where
  "maxAmplitude HighImpedance = Fin 20"
| "maxAmplitude Ohms50 = Fin 10"

fun maxPeak :: "Termination \<Rightarrow> double" where
  "maxPeak HighImpedance = Fin 10"
| "maxPeak Ohms50 = Fin 5"

definition minAmplitude :: double where
  "minAmplitude = round_double (1 / 1000)"

definition minFrequency :: double where
  "minFrequency = round_double (1 / 1000000)"

definition outside :: "double \<Rightarrow> double \<Rightarrow> double \<Rightarrow> bool" where
  "outside low high v \<longleftrightarrow> d_lt v low \<or> d_lt high v"

definition volts_text :: "digits \<Rightarrow> double \<Rightarrow> string" where
  "volts_text fd v = describe_quantity fd (quantityVariantFromKind Voltage v)"

definition hertz_text :: "digits \<Rightarrow> double \<Rightarrow> string" where
  "hertz_text fd v = describe_quantity fd (quantityVariantFromKind Frequency v)"

definition check_frequency :: "digits \<Rightarrow> string \<Rightarrow> WaveformConfig \<Rightarrow> gen_error option" where
  "check_frequency fd instrument c =
     (case (MaxHertz (wf_Shape c), wf_Frequency c) of
        (Some highest, Some hertz) \<Rightarrow>
          (if outside minFrequency highest hertz
           then Some (SettingOutOfRange instrument ''frequency''
                  (''of '' @ hertz_text fd hertz @ '' is outside a '' @ shape_name (wf_Shape c) @ [CHR 0x27] @
                   ''s range on a 33522B ('' @ hertz_text fd minFrequency @ '' to '' @ hertz_text fd highest @ '')''))
           else None)
      | _ \<Rightarrow> None)"

definition check_amplitude :: "digits \<Rightarrow> string \<Rightarrow> WaveformConfig \<Rightarrow> Termination \<Rightarrow> gen_error option" where
  "check_amplitude fd instrument c termination =
     (case wf_Amplitude c of
        Some volts \<Rightarrow>
          (if Amplifiable (wf_Shape c) \<and> outside minAmplitude (maxAmplitude termination) volts
           then Some (SettingOutOfRange instrument ''amplitude''
                  (''of '' @ volts_text fd volts @ '' peak-to-peak is outside '' @ volts_text fd minAmplitude @ '' to '' @
                   volts_text fd (maxAmplitude termination) @ '' '' @ describeTermination termination))
           else None)
      | None \<Rightarrow> None)"

definition check_headroom :: "digits \<Rightarrow> string \<Rightarrow> WaveformConfig \<Rightarrow> Termination \<Rightarrow> double \<Rightarrow> gen_error option" where
  "check_headroom fd instrument c termination v =
     (case wf_Amplitude c of
        Some volts \<Rightarrow>
          (let headroom = d_sub (maxPeak termination) (d_over volts 2)
           in if Amplifiable (wf_Shape c) \<and> outside (d_neg headroom) headroom v
              then Some (SettingOutOfRange instrument ''offset''
                     (''of '' @ volts_text fd v @ '' leaves no headroom for a '' @ volts_text fd volts @
                      '' peak-to-peak amplitude '' @ describeTermination termination @
                      '' -- the instrument allows |offset| <= '' @ volts_text fd (maxPeak termination) @
                      '' - amplitude/2, so at most '' @ volts_text fd headroom))
              else None)
      | None \<Rightarrow> None)"

definition check_offset :: "digits \<Rightarrow> string \<Rightarrow> WaveformConfig \<Rightarrow> Termination \<Rightarrow> gen_error option" where
  "check_offset fd instrument c termination =
     (case wf_Offset c of
        None \<Rightarrow> None
      | Some v \<Rightarrow>
          (if outside (d_neg (maxPeak termination)) (maxPeak termination) v
           then Some (SettingOutOfRange instrument ''offset''
                  (''of '' @ volts_text fd v @ '' is outside +-'' @ volts_text fd (maxPeak termination) @ '' '' @
                   describeTermination termination))
           else check_headroom fd instrument c termination v))"

definition checkPercent :: "string \<Rightarrow> string \<Rightarrow> double option \<Rightarrow> double \<Rightarrow> double \<Rightarrow> gen_error option" where
  "checkPercent instrument setting v low high =
     (case v of
        None \<Rightarrow> None
      | Some p \<Rightarrow>
          (if d_le low p \<and> d_le p high then None
           else Some (SettingOutOfRange instrument setting
                  (''of '' @ scpi_number p @ ''% is outside '' @ scpi_number low @ ''% to '' @ scpi_number high @ ''%''))))"

fun first_error :: "'e option list \<Rightarrow> 'e option" where
  "first_error [] = None"
| "first_error (None # es) = first_error es"
| "first_error (Some e # es) = Some e"

definition checkAgainstModel :: "digits \<Rightarrow> string \<Rightarrow> WaveformConfig \<Rightarrow> Termination \<Rightarrow> gen_error option" where
  "checkAgainstModel fd instrument c termination =
     first_error
       [check_frequency fd instrument c, check_amplitude fd instrument c termination, check_offset fd instrument c termination,
        (if DutyCycleCommand (wf_Shape c) = None then None
         else checkPercent instrument ''duty cycle'' (wf_DutyCycle c) (round_double (1 / 100)) (round_double (9999 / 100))),
        (if SymmetryCommand (wf_Shape c) = None then None
         else checkPercent instrument ''symmetry'' (wf_Symmetry c) (Fin 0) (Fin 100))]"

definition flatten :: "WaveformConfig \<Rightarrow> Termination \<Rightarrow> GenProgram" where
  "flatten c termination =
     (let duty = (case DutyCycleCommand (wf_Shape c) of Some cmd \<Rightarrow> map_option (\<lambda>p. (cmd, p)) (wf_DutyCycle c) | None \<Rightarrow> None);
          symm = (case SymmetryCommand (wf_Shape c) of Some cmd \<Rightarrow> map_option (\<lambda>p. (cmd, p)) (wf_Symmetry c) | None \<Rightarrow> None);
          parameter = (case symm of Some p \<Rightarrow> Some p | None \<Rightarrow> duty)
      in \<lparr>gp_Channel = uint (wf_Channel c), gp_Function = shape_function (wf_Shape c),
          gp_Load = (if wf_Load c = None then [] else if termination = HighImpedance then ''INF'' else ''50''),
          gp_Hertz = wf_Frequency c, gp_Volts = wf_Amplitude c, gp_OffsetVolts = wf_Offset c,
          gp_ShapeCommand = (case parameter of Some (cmd, _) \<Rightarrow> cmd | None \<Rightarrow> []),
          gp_ShapePercent = map_option snd parameter\<rparr>)"

section \<open>The driver\<close>

record GenOutput =
  go_Function :: string
  go_Frequency :: "double option"
  go_Amplitude :: "double option"
  go_Offset :: "double option"
  go_Load :: Termination
  go_Enabled :: bool

definition new_output :: GenOutput where
  "new_output = \<lparr>go_Function = [], go_Frequency = None, go_Amplitude = None, go_Offset = None, go_Load = Ohms50, go_Enabled = False\<rparr>"

record 't GenBench =
  gen_boxes :: "'t boxes"
  mOutputs :: "GenOutput list"

text \<open>outputFor: at( channel - 1) of the array of two, on unsigned numbers.\<close>

definition outputFor :: "u32 \<Rightarrow> 't GenBench \<Rightarrow> nat option" where
  "outputFor ch w = (let k = unat (ch - 1) in if k < length (mOutputs w) then Some k else None)"

definition set_output :: "nat \<Rightarrow> GenOutput \<Rightarrow> 't GenBench \<Rightarrow> 't GenBench" where
  "set_output k s w = w\<lparr>mOutputs := (mOutputs w)[k := s]\<rparr>"

definition gen_on_wire ::
    "'t bench_env \<Rightarrow> nat \<Rightarrow> ('t ITransport \<Rightarrow> 't \<Rightarrow> (io_error + 'a) \<times> 't) \<Rightarrow> 't GenBench \<Rightarrow> (gen_error + 'a) \<times> 't GenBench" where
  "gen_on_wire env i act w =
     (case in_session env ''keysight_33522b'' gen_prepare i act (gen_boxes w) of
        (r, b) \<Rightarrow> (map_sum GenFault (\<lambda>x. x) r, w\<lparr>gen_boxes := b\<rparr>))"

definition gen_isSimulated :: "'t bench_env \<Rightarrow> nat \<Rightarrow> 't GenBench \<Rightarrow> bool \<times> 't GenBench" where
  "gen_isSimulated env i w =
     (case connection_isSimulated (env_rows env) i (gen_boxes w) of (s, b) \<Rightarrow> (s, w\<lparr>gen_boxes := b\<rparr>))"

definition gen_identity :: "'t bench_env \<Rightarrow> nat \<Rightarrow> 't GenBench \<Rightarrow> (gen_error + string) \<times> 't GenBench" where
  "gen_identity env i w = gen_on_wire env i scpi_identify w"

definition applied :: "WaveformConfig \<Rightarrow> Termination \<Rightarrow> GenOutput \<Rightarrow> GenOutput" where
  "applied c termination s =
     s\<lparr>go_Function := shape_name (wf_Shape c), go_Load := termination, go_Enabled := True,
       go_Frequency := (if wf_Frequency c = None then go_Frequency s else wf_Frequency c),
       go_Amplitude := (if wf_Amplitude c = None then go_Amplitude s else wf_Amplitude c),
       go_Offset := (if wf_Offset c = None then go_Offset s else wf_Offset c)\<rparr>"

definition applyWaveform ::
    "'t bench_env \<Rightarrow> digits \<Rightarrow> nat \<Rightarrow> string \<Rightarrow> WaveformConfig \<Rightarrow> 't GenBench \<Rightarrow> (gen_error + unit) \<times> 't GenBench" where
  "applyWaveform env fd i name c w =
     (case outputFor (wf_Channel c) w of
        None \<Rightarrow> (Inl NoSuchOutput, w)
      | Some k \<Rightarrow>
          (let termination = (case wf_Load c of Some z \<Rightarrow> z | None \<Rightarrow> go_Load (mOutputs w ! k))
           in case checkAgainstModel fd name c termination of
                Some e \<Rightarrow> (Inl e, w)
              | None \<Rightarrow>
                  (case gen_isSimulated env i (set_output k (applied c termination (mOutputs w ! k)) w) of
                     (True, w') \<Rightarrow> (Inr (), w')
                   | (False, w') \<Rightarrow> gen_on_wire env i (gen_program (flatten c termination)) w')))"

definition gen_removeOutput :: "'t bench_env \<Rightarrow> nat \<Rightarrow> u32 \<Rightarrow> 't GenBench \<Rightarrow> (gen_error + unit) \<times> 't GenBench" where
  "gen_removeOutput env i ch w =
     (case outputFor ch w of
        None \<Rightarrow> (Inl NoSuchOutput, w)
      | Some k \<Rightarrow>
          (case gen_isSimulated env i (set_output k ((mOutputs w ! k)\<lparr>go_Enabled := False\<rparr>) w) of
             (True, w') \<Rightarrow> (Inr (), w')
           | (False, w') \<Rightarrow> gen_on_wire env i (gen_disableOutput (uint ch)) w'))"

fun gen_remove_from :: "'t bench_env \<Rightarrow> nat \<Rightarrow> u32 list \<Rightarrow> 't GenBench \<Rightarrow> (gen_error + unit) \<times> 't GenBench" where
  "gen_remove_from env i [] w = (Inr (), w)"
| "gen_remove_from env i (ch # chs) w =
     (case gen_removeOutput env i ch w of
        (Inl e, w') \<Rightarrow> (Inl e, w')
      | (Inr _, w') \<Rightarrow> gen_remove_from env i chs w')"

definition gen_channels :: "u32 list" where
  "gen_channels = [1, 2]"

definition gen_removeOutputs :: "'t bench_env \<Rightarrow> nat \<Rightarrow> 't GenBench \<Rightarrow> (gen_error + unit) \<times> 't GenBench" where
  "gen_removeOutputs env i w = gen_remove_from env i gen_channels w"

definition gen_isEnabled :: "'t GenBench \<Rightarrow> bool" where
  "gen_isEnabled w = list_ex go_Enabled (mOutputs w)"

definition gen_isEnabled_at :: "u32 \<Rightarrow> 't GenBench \<Rightarrow> gen_error + bool" where
  "gen_isEnabled_at ch w = (case outputFor ch w of None \<Rightarrow> Inl NoSuchOutput | Some k \<Rightarrow> Inr (go_Enabled (mOutputs w ! k)))"

definition gen_isOn :: "'t bench_env \<Rightarrow> nat \<Rightarrow> u32 \<Rightarrow> 't GenBench \<Rightarrow> (gen_error + bool) \<times> 't GenBench" where
  "gen_isOn env i ch w =
     (case gen_isSimulated env i w of
        (True, w') \<Rightarrow> (gen_isEnabled_at ch w', w')
      | (False, w') \<Rightarrow> gen_on_wire env i (gen_outputIsOn (uint ch)) w')"

definition idle_output :: "GenOutput \<Rightarrow> GenOutput" where
  "idle_output s = s\<lparr>go_Enabled := False, go_Amplitude := None, go_Offset := None\<rparr>"

text \<open>safe: what escapes the sends leaves safe() too.\<close>

definition gen_safe :: "'t bench_env \<Rightarrow> nat \<Rightarrow> 't GenBench \<Rightarrow> gen_error option \<times> 't GenBench" where
  "gen_safe env i w =
     (let w1 = w\<lparr>mOutputs := map idle_output (mOutputs w)\<rparr>
      in case connection_openSession (env_rows env) i (gen_boxes w1) of
           (None, b) \<Rightarrow> (None, w1\<lparr>gen_boxes := b\<rparr>)
         | (Some l, b) \<Rightarrow>
             (case Session (links b ! l) of
                None \<Rightarrow> (None, w1\<lparr>gen_boxes := b\<rparr>)
              | Some t \<Rightarrow>
                  (case gen_safe_channels [1, 2] (transport env) t of
                     (r, t') \<Rightarrow>
                       ((case r of Inl e \<Rightarrow> Some (GenFault (Io e)) | Inr _ \<Rightarrow> None),
                        w1\<lparr>gen_boxes := put_link l ((links b ! l)\<lparr>Session := Some t'\<rparr>) b\<rparr>))))"

section \<open>What the verbs find\<close>

definition describePercent :: "string \<Rightarrow> double option \<Rightarrow> string" where
  "describePercent name v = (case v of None \<Rightarrow> [] | Some p \<Rightarrow> name @ ''='' @ scpi_number p @ ''%'')"

definition gen_describe :: "digits \<Rightarrow> WaveformConfig \<Rightarrow> string" where
  "gen_describe fd c =
     describeSettings
       [''channel '' @ show_int (uint (wf_Channel c)), shape_name (wf_Shape c),
        describeSetting fd ''frequency'' Frequency (wf_Frequency c), describeSetting fd ''amplitude'' Voltage (wf_Amplitude c),
        describeSetting fd ''offset'' Voltage (wf_Offset c), describePercent ''dutyCycle'' (wf_DutyCycle c),
        describePercent ''symmetry'' (wf_Symmetry c), describeChoice ''load'' (map_option to_string_termination (wf_Load c))]"

definition gen_thrown :: "(gen_error + unit) \<times> 'w \<Rightarrow> string option \<times> 'w" where
  "gen_thrown r = (case r of (Inl e, w) \<Rightarrow> (Some (gen_error_text e), w) | (Inr _, w) \<Rightarrow> (None, w))"

text \<open>A generator has no relay: Connect, Setup and the rest do not compile, and their fields are never used.\<close>

definition gen_builder :: "'t bench_env \<Rightarrow> digits \<Rightarrow> nat \<Rightarrow> string \<Rightarrow> WaveformConfig \<Rightarrow> 't GenBench Builder" where
  "gen_builder env fd i name c =
     \<lparr>described_instrument = name, described_settings = gen_describe fd c, energisable = True,
      isEnergised = (\<lambda>w. case gen_isOn env i (wf_Channel c) w of (r, w') \<Rightarrow> (map_sum gen_error_text (\<lambda>b. b) r, w')),
      applyDriver = (\<lambda>w. gen_thrown (applyWaveform env fd i name c w)),
      removeDriver = (\<lambda>w. gen_thrown (gen_removeOutput env i (wf_Channel c) w)),
      setupDriver = (\<lambda>w. (None, w)), armDriver = (\<lambda>w. (None, w)), awaitDriver = (\<lambda>w. (Inr False, w)),
      readDriver = (\<lambda>w. (Inr [], w)), writeDriver = (\<lambda>_ w. (None, w)), fetchDriver = (\<lambda>w. (Inl [], w)),
      traceQualifier = [], connectDriver = (\<lambda>_ _ f. (None, f)), disconnectDriver = (\<lambda>_ _ f. (None, f))\<rparr>"

end
