(* ===== verification/GeneratorFacts.thy ===== *)
theory GeneratorFacts
  imports Generator
begin

text \<open>
  What holds of the waveform generator: the order of an Apply on the wire, the limits its memory
  stays in, a safing pass that throws, and the termination the limits are checked against.
\<close>

section \<open>The order of an Apply\<close>

lemma waveform_commands_told: "''SYST:ERR?'' \<notin> set (waveform_commands w)"
  by (auto simp: waveform_commands_def if_given_def gen_setting_def gen_source_def gen_output_def Let_def split: option.splits)

text \<open>
  Whatever the generator answers, an Apply tells it the termination, the function, the frequency, the
  shape's parameter, the amplitude, the offset, the output on and the wait, in that order, up to
  the first that is refused, and all of it when it returns.
\<close>

theorem waveform_in_order:
  "\<exists>n. told_instrument (snd (snd (gen_program w (logging tr) s))) =
       told_instrument (snd s) @ take n (waveform_commands w @ [''*OPC?'']) \<and>
     (fst (gen_program w (logging tr) s) = Inr () \<longrightarrow>
       take n (waveform_commands w @ [''*OPC?'']) = waveform_commands w @ [''*OPC?''])"
  by (rule program_told [OF waveform_commands_told]) (simp add: gen_program_def)

definition square_wave :: GenProgram where
  "square_wave = \<lparr>gp_Channel = 2, gp_Function = ''SQU'', gp_Load = ''INF'', gp_Hertz = Some (Fin 1000), gp_Volts = Some (Fin 3),
     gp_OffsetVolts = None, gp_ShapeCommand = ''FUNC:SQU:DCYC'', gp_ShapePercent = Some (Fin 25)\<rparr>"

theorem waveform_in_order_witness:
  "told_instrument (snd (snd (gen_program square_wave (logging willing_instrument) ((), [])))) =
     [''OUTP2:LOAD INF'', ''SOUR2:FUNC SQU'', gen_setting ''SOUR2:FREQ'' (Fin 1000), gen_setting ''SOUR2:FUNC:SQU:DCYC'' (Fin 25),
      gen_setting ''SOUR2:VOLT'' (Fin 3) @ '' VPP'', ''OUTP2 ON'', ''*OPC?'']"
proof -
  have two: "gen_source 2 = ''SOUR2:''" "gen_output 2 = ''OUTP2''" by code_simp+
  let ?p = "gen_program square_wave (logging willing_instrument) ((), [])"
  have "fst ?p = Inr ()" unfolding gen_program_def by (rule willing_program)
  with waveform_in_order [of square_wave willing_instrument "((), [])"] show ?thesis
    by (auto simp: waveform_commands_def square_wave_def if_given_def two Let_def)
qed

section \<open>A safing pass that throws\<close>

lemma safing_throws:
  assumes "error_queue_instrument tr errq" and "send tr (gen_output ch @ '' OFF'') t = (None, t1)"
    and "scpi_query tr ''*OPC?'' t1 = (Inl (Transport (TransportTimeout why)), t2)"
    and "errq t2 = e # es" and "\<forall>e \<in> set (errq t2). queued_error e" and "length (errq t2) \<le> 22"
  shows "\<exists>instrument t3. scpi_waitForComplete tr t1 = (Inl (ScpiFault instrument ''*OPC?'' e), t3)
    \<and> gen_safe_channels (ch # chs) tr t = (Inl (ScpiFault instrument ''*OPC?'' e), t3)"
proof -
  from nextError_device [OF assms(1,5)] assms(4) obtain t3 where
    ask: "scpi_nextError tr t2 = (Inr (Some e), t3)" and q: "errq t3 = es" by auto
  with assms(4-6) have "length (errq t3) \<le> 21" "\<forall>e \<in> set (errq t3). queued_error e" by simp_all
  with drain_device [OF assms(1), of t3 21] obtain t4 where "scpi_clearErrors tr t3 = (Inr (), t4)"
    by (auto simp: scpi_clearErrors_def kMaximumQueueDepth_def)
  with ask assms(2,3) show ?thesis
    by (simp add: gen_sendSafe_def scpi_write_def scpi_waitForComplete_def scpi_queryChecked_def)
qed

lemma logging_queue: "error_queue_instrument tr errq \<Longrightarrow> error_queue_instrument (logging tr) (errq \<circ> fst)"
  unfolding error_queue_instrument_def
proof (intro allI)
  fix s :: "'a \<times> string list"
  assume "\<forall>t. \<exists>t1 t2. send tr ''SYST:ERR?'' t = (None, t1) \<and>
        receive tr t1 = (Inr (queue_line (case errq t of [] \<Rightarrow> no_error | e # _ \<Rightarrow> e)), t2) \<and> errq t2 = tl (errq t)"
  then obtain t1 t2 where "send tr ''SYST:ERR?'' (fst s) = (None, t1)"
    "receive tr t1 = (Inr (queue_line (case errq (fst s) of [] \<Rightarrow> no_error | e # _ \<Rightarrow> e)), t2)" "errq t2 = tl (errq (fst s))"
    by blast
  then show "\<exists>t1 t2. send (logging tr) ''SYST:ERR?'' s = (None, t1) \<and>
        receive (logging tr) t1 = (Inr (queue_line (case (errq \<circ> fst) s of [] \<Rightarrow> no_error | e # _ \<Rightarrow> e)), t2) \<and>
        (errq \<circ> fst) t2 = tl ((errq \<circ> fst) s)"
    by (intro exI [of _ "(t1, snd s @ [''SYST:ERR?''])"] exI [of _ "(t2, snd s @ [''SYST:ERR?''])"])
      (simp add: send_logging receive_logging)
qed

text \<open>
  C21: safe() means to throw nothing, and catches TransportError around what it sends. One of its steps
  waits for the instrument. When the command that turns a channel off was written, the wait for it times
  out and the error queue then holds an entry, at most 22 of them, each a line the session reads, what is
  thrown is a ScpiFault of the first, which passes the catch. All the generator was told then is that
  this channel goes off and the question that timed out, beside the questions after its errors: neither
  the rest of this channel nor any other channel is told anything.
\<close>

theorem safing_can_throw:
  assumes "error_queue_instrument tr errq" and "send tr (gen_output ch @ '' OFF'') t = (None, t1)"
    and "scpi_query tr ''*OPC?'' t1 = (Inl (Transport (TransportTimeout why)), t2)"
    and "errq t2 = e # es" and "\<forall>e \<in> set (errq t2). queued_error e" and "length (errq t2) \<le> 22"
  shows "\<exists>instrument t3 sent'.
    gen_safe_channels (ch # chs) (logging tr) (t, sent) = (Inl (ScpiFault instrument ''*OPC?'' e), t3, sent')
    \<and> told_instrument sent' = told_instrument sent @ [gen_output ch @ '' OFF'', ''*OPC?'']"
proof -
  let ?s = "(t, sent)" and ?s1 = "(t1, sent @ [gen_output ch @ '' OFF''])"
    and ?s2 = "(t2, (sent @ [gen_output ch @ '' OFF'']) @ [''*OPC?''])"
  have off: "send (logging tr) (gen_output ch @ '' OFF'') ?s = (None, ?s1)" using assms(2) by (simp add: send_logging)
  have "fst (scpi_query (logging tr) ''*OPC?'' ?s1) = Inl (Transport (TransportTimeout why))
      \<and> fst (snd (scpi_query (logging tr) ''*OPC?'' ?s1)) = t2"
    using assms(3) by (auto simp: scpi_query_def send_logging receive_logging split: prod.splits option.splits sum.splits)
  with query_sent [of tr "''*OPC?''" ?s1]
  have q: "scpi_query (logging tr) ''*OPC?'' ?s1 = (Inl (Transport (TransportTimeout why)), ?s2)"
    by (simp add: prod_eq_iff)
  from safing_throws [OF logging_queue [OF assms(1)] off q, of e es chs] assms(4-6)
  obtain instrument s3 where s3: "gen_safe_channels (ch # chs) (logging tr) ?s = (Inl (ScpiFault instrument ''*OPC?'' e), s3)"
    and "scpi_waitForComplete (logging tr) ?s1 = (Inl (ScpiFault instrument ''*OPC?'' e), s3)"
    by auto
  moreover have "gen_output ch @ '' OFF'' \<noteq> ''SYST:ERR?''" by (auto dest: arg_cong [of _ _ last])
  ultimately have "told_instrument (snd s3) = told_instrument sent @ [gen_output ch @ '' OFF'', ''*OPC?'']"
    using waitForComplete_told [of tr ?s1] by simp
  with s3 show ?thesis by (cases s3) auto
qed

text \<open>A generator whose overload protection tripped: it answers its error queue, and never completes.\<close>

definition tripped_generator :: "(ScpiError list \<times> string option) ITransport" where
  "tripped_generator = \<lparr>
     send = (\<lambda>command (q, line).
       if command = ''SYST:ERR?'' then (None, (tl q, Some (queue_line (case q of [] \<Rightarrow> no_error | e # _ \<Rightarrow> e))))
       else (None, (q, None))),
     receive = (\<lambda>(q, line). case line of Some l \<Rightarrow> (Inr l, (q, None)) | None \<Rightarrow> (Inl (TransportTimeout ''no reply''), (q, None))),
     description = (\<lambda>_. ''Wfg1'')\<rparr>"

definition overload_entry :: ScpiError where
  "overload_entry = \<lparr>Code = 541, Message = ''Output 1 overload''\<rparr>"

lemma tripped_generator_queue: "error_queue_instrument tripped_generator fst"
  by (auto simp: error_queue_instrument_def tripped_generator_def)

theorem safing_can_throw_witness:
  "\<exists>instrument t3 sent'. gen_safe_channels [1, 2] (logging tripped_generator) (([overload_entry], None), []) =
     (Inl (ScpiFault instrument ''*OPC?'' overload_entry), t3, sent') \<and> told_instrument sent' = [''OUTP1 OFF'', ''*OPC?'']"
proof -
  have "send tripped_generator (gen_output 1 @ '' OFF'') ([overload_entry], None) = (None, [overload_entry], None)"
    "scpi_query tripped_generator ''*OPC?'' ([overload_entry], None) =
       (Inl (Transport (TransportTimeout ''no reply'')), [overload_entry], None)"
    by (simp_all add: tripped_generator_def scpi_query_def gen_output_def)
  moreover have "queued_error overload_entry" by (simp add: overload_entry_def queued_error_def int32_def)
  moreover have "gen_output 1 @ '' OFF'' = ''OUTP1 OFF''" by code_simp
  ultimately show ?thesis
    using safing_can_throw [OF tripped_generator_queue, of 1 "([overload_entry], None)" "([overload_entry], None)" "''no reply''"
        "([overload_entry], None)" overload_entry "[]" "[2]" "[]"] by simp
qed

section \<open>The driver's memory\<close>

lemma gen_wire_outputs [simp]: "mOutputs (snd (gen_on_wire env i act w)) = mOutputs w"
  by (simp add: gen_on_wire_def split: prod.split)

lemma gen_simulated_outputs: "gen_isSimulated env i w = (b, w') \<Longrightarrow> mOutputs w' = mOutputs w"
  by (auto simp: gen_isSimulated_def split: prod.splits)

lemma apply_outputs:
  "mOutputs (snd (applyWaveform env fd i name c w)) = mOutputs w \<or>
   (\<exists>k termination. outputFor (wf_Channel c) w = Some k \<and> checkAgainstModel fd name c termination = None \<and>
     termination = (case wf_Load c of Some z \<Rightarrow> z | None \<Rightarrow> go_Load (mOutputs w ! k)) \<and>
     mOutputs (snd (applyWaveform env fd i name c w)) = (mOutputs w)[k := applied c termination (mOutputs w ! k)])"
proof (cases "outputFor (wf_Channel c) w")
  case None
  then show ?thesis by (simp add: applyWaveform_def)
next
  case (Some k)
  let ?z = "case wf_Load c of Some z \<Rightarrow> z | None \<Rightarrow> go_Load (mOutputs w ! k)"
  obtain b w1 where s: "gen_isSimulated env i (set_output k (applied c ?z (mOutputs w ! k)) w) = (b, w1)"
    by (cases "gen_isSimulated env i (set_output k (applied c ?z (mOutputs w ! k)) w)")
  from gen_simulated_outputs [OF s] have m: "mOutputs w1 = (mOutputs w)[k := applied c ?z (mOutputs w ! k)]"
    by (simp add: set_output_def)
  show ?thesis
  proof (cases "checkAgainstModel fd name c ?z")
    case None
    with Some s m show ?thesis by (cases b) (auto simp: applyWaveform_def Let_def)
  next
    case (Some e)
    with \<open>outputFor (wf_Channel c) w = Some k\<close> show ?thesis by (simp add: applyWaveform_def Let_def)
  qed
qed

lemma remove_outputs:
  "mOutputs (snd (gen_removeOutput env i ch w)) = mOutputs w \<or>
   (\<exists>k. mOutputs (snd (gen_removeOutput env i ch w)) = (mOutputs w)[k := (mOutputs w ! k)\<lparr>go_Enabled := False\<rparr>])"
proof (cases "outputFor ch w")
  case None
  then show ?thesis by (simp add: gen_removeOutput_def)
next
  case (Some k)
  obtain b w1 where s: "gen_isSimulated env i (set_output k ((mOutputs w ! k)\<lparr>go_Enabled := False\<rparr>) w) = (b, w1)"
    by (cases "gen_isSimulated env i (set_output k ((mOutputs w ! k)\<lparr>go_Enabled := False\<rparr>) w)")
  from gen_simulated_outputs [OF s] have "mOutputs w1 = (mOutputs w)[k := (mOutputs w ! k)\<lparr>go_Enabled := False\<rparr>]"
    by (simp add: set_output_def)
  with Some s show ?thesis by (cases b) (auto simp: gen_removeOutput_def)
qed

text \<open>
  An Apply remembers the termination it named before it tells the generator. When it throws there,
  the generator is left as it was, and the next Apply that names none is checked against a termination the
  generator is not in: ten volts more of amplitude than the output has.
\<close>

theorem failed_apply_moves_limits:
  assumes "length (mOutputs w) = 2" and "wf_Channel c = 1" and "wf_Load c = Some HighImpedance"
    and "checkAgainstModel fd name c HighImpedance = None"
    and "applyWaveform env fd i name c w = (r, w')"
    and "wf_Channel d = 1" and "wf_Load d = None" and "fst (applyWaveform env fd i name d w') = Inl e"
    and "checkAgainstModel fd name d HighImpedance = None"
  shows "go_Load (mOutputs w' ! 0) = HighImpedance \<and> (\<exists>fault. e = GenFault fault)"
proof -
  have k: "outputFor 1 w = Some 0" using assms(1) by (simp add: outputFor_def)
  let ?w = "set_output 0 (applied c HighImpedance (mOutputs w ! 0)) w"
  obtain b w1 where s: "gen_isSimulated env i ?w = (b, w1)" by (cases "gen_isSimulated env i ?w")
  from gen_simulated_outputs [OF s] have m: "mOutputs w1 = (mOutputs w)[0 := applied c HighImpedance (mOutputs w ! 0)]"
    by (simp add: set_output_def)
  have w': "mOutputs w' = (mOutputs w)[0 := applied c HighImpedance (mOutputs w ! 0)]"
  proof (cases b)
    case True
    with assms(2-5) k s m show ?thesis by (simp add: applyWaveform_def)
  next
    case False
    with assms(2-5) k s have "w' = snd (gen_on_wire env i (gen_program (flatten c HighImpedance)) w1)"
      by (simp add: applyWaveform_def)
    with m show ?thesis by simp
  qed
  with assms(1) have load: "go_Load (mOutputs w' ! 0) = HighImpedance" and two: "length (mOutputs w') = 2"
    by (simp_all add: applied_def)
  from two have k': "outputFor 1 w' = Some 0" by (simp add: outputFor_def)
  have "\<exists>fault. e = GenFault fault"
    using assms(6-9) k' load
    by (auto simp: applyWaveform_def gen_on_wire_def map_sum_def split: prod.splits bool.splits sum.splits)
  with load show ?thesis by blast
qed

end
