(* ===== verification/Scope.thy ===== *)
theory Scope
  imports Meters
begin

text \<open>
  The oscilloscope, instruments/keysight_dsox1202g: what is sent for a Setup, an Arm, an Await, a Fetch
  and a reading, and in which order (src/oscilloscope.cpp), the driver's memory of what it was told
  (keysight_dsox1202g_oscilloscope.hpp), its configurations and the functions the verbs find for them.
  The clock is a parameter: how often the instrument is asked before a timeout has passed.
\<close>

section \<open>The vocabulary\<close>

datatype ScopeMode =
    MVpp | MVmax | MVmin | MVrms | MVaverage | MVbase | MVtop | MVamplitude
  | MFrequency | MPeriod | MRiseTime | MFallTime | MPositiveWidth | MNegativeWidth

datatype Coupling = CouplingDc | CouplingAc
datatype Bandwidth = FullBandwidth | LimitedBandwidth
datatype ChannelDisplay = DisplayOn | DisplayOff
datatype AcquisitionType = AcquireNormal | AcquireAveraged | AcquireHighResolution | AcquirePeakDetect
datatype TriggerSweep = SweepAuto | SweepNormal
datatype TriggerSlope = SlopeRising | SlopeFalling | SlopeEither | SlopeAlternating
datatype TriggerCoupling = TriggerDc | TriggerAc | TriggerLowFrequencyReject
datatype TriggerReject = RejectOff | RejectLowFrequency | RejectHighFrequency
datatype TimebaseReference = ReferenceLeft | ReferenceCenter | ReferenceRight

definition kUnmeasurable :: string where "kUnmeasurable = ''measurement could not be made''"

text \<open>How the instrument spells them, and how the log does.\<close>

fun scpiFor_slope :: "TriggerSlope \<Rightarrow> string" where
  "scpiFor_slope SlopeRising = ''POSitive''"
| "scpiFor_slope SlopeFalling = ''NEGative''"
| "scpiFor_slope SlopeEither = ''EITHer''"
| "scpiFor_slope SlopeAlternating = ''ALTernate''"

fun to_string_slope :: "TriggerSlope \<Rightarrow> string" where
  "to_string_slope SlopeRising = ''Rising''"
| "to_string_slope SlopeFalling = ''Falling''"
| "to_string_slope SlopeEither = ''Either''"
| "to_string_slope SlopeAlternating = ''Alternating''"

fun scpiFor_sweep :: "TriggerSweep \<Rightarrow> string" where
  "scpiFor_sweep SweepAuto = ''AUTO''"
| "scpiFor_sweep SweepNormal = ''NORMal''"

fun to_string_sweep :: "TriggerSweep \<Rightarrow> string" where
  "to_string_sweep SweepAuto = ''Auto''"
| "to_string_sweep SweepNormal = ''Normal''"

fun scpiFor_trigger_coupling :: "TriggerCoupling \<Rightarrow> string" where
  "scpiFor_trigger_coupling TriggerDc = ''DC''"
| "scpiFor_trigger_coupling TriggerAc = ''AC''"
| "scpiFor_trigger_coupling TriggerLowFrequencyReject = ''LFReject''"

fun to_string_trigger_coupling :: "TriggerCoupling \<Rightarrow> string" where
  "to_string_trigger_coupling TriggerDc = ''Dc''"
| "to_string_trigger_coupling TriggerAc = ''Ac''"
| "to_string_trigger_coupling TriggerLowFrequencyReject = ''LowFrequencyReject''"

fun scpiFor_reject :: "TriggerReject \<Rightarrow> string" where
  "scpiFor_reject RejectOff = ''OFF''"
| "scpiFor_reject RejectLowFrequency = ''LFReject''"
| "scpiFor_reject RejectHighFrequency = ''HFReject''"

fun to_string_reject :: "TriggerReject \<Rightarrow> string" where
  "to_string_reject RejectOff = ''Off''"
| "to_string_reject RejectLowFrequency = ''LowFrequency''"
| "to_string_reject RejectHighFrequency = ''HighFrequency''"

fun scpiFor_reference :: "TimebaseReference \<Rightarrow> string" where
  "scpiFor_reference ReferenceLeft = ''LEFT''"
| "scpiFor_reference ReferenceCenter = ''CENTer''"
| "scpiFor_reference ReferenceRight = ''RIGHt''"

fun to_string_reference :: "TimebaseReference \<Rightarrow> string" where
  "to_string_reference ReferenceLeft = ''Left''"
| "to_string_reference ReferenceCenter = ''Center''"
| "to_string_reference ReferenceRight = ''Right''"

fun scpiFor_acquisition :: "AcquisitionType \<Rightarrow> string" where
  "scpiFor_acquisition AcquireNormal = ''NORMal''"
| "scpiFor_acquisition AcquireAveraged = ''AVERage''"
| "scpiFor_acquisition AcquireHighResolution = ''HRESolution''"
| "scpiFor_acquisition AcquirePeakDetect = ''PEAK''"

fun to_string_acquisition :: "AcquisitionType \<Rightarrow> string" where
  "to_string_acquisition AcquireNormal = ''Normal''"
| "to_string_acquisition AcquireAveraged = ''Averaged''"
| "to_string_acquisition AcquireHighResolution = ''HighResolution''"
| "to_string_acquisition AcquirePeakDetect = ''PeakDetect''"

fun scpiFor_coupling :: "Coupling \<Rightarrow> string" where
  "scpiFor_coupling CouplingDc = ''DC''"
| "scpiFor_coupling CouplingAc = ''AC''"

fun to_string_coupling :: "Coupling \<Rightarrow> string" where
  "to_string_coupling CouplingDc = ''Dc''"
| "to_string_coupling CouplingAc = ''Ac''"

fun scpiFor_bandwidth :: "Bandwidth \<Rightarrow> string" where
  "scpiFor_bandwidth LimitedBandwidth = ''ON''"
| "scpiFor_bandwidth FullBandwidth = ''OFF''"

fun to_string_bandwidth :: "Bandwidth \<Rightarrow> string" where
  "to_string_bandwidth LimitedBandwidth = ''Limited''"
| "to_string_bandwidth FullBandwidth = ''Full''"

fun scpiFor_display :: "ChannelDisplay \<Rightarrow> string" where
  "scpiFor_display DisplayOn = ''ON''"
| "scpiFor_display DisplayOff = ''OFF''"

fun to_string_display :: "ChannelDisplay \<Rightarrow> string" where
  "to_string_display DisplayOn = ''On''"
| "to_string_display DisplayOff = ''Off''"

section \<open>Measurements\<close>

definition scope_sourceOf :: "u32 \<Rightarrow> string" where
  "scope_sourceOf ch = ''CHANnel'' @ show_nat (unat ch)"

record MeasurementCommand =
  Mnemonic :: string
  UsesThresholds :: bool
  MeasurementName :: string

fun scope_commandFor :: "ScopeMode \<Rightarrow> MeasurementCommand" where
  "scope_commandFor MVpp = \<lparr>Mnemonic = ''VPP'', UsesThresholds = False, MeasurementName = ''peak-to-peak voltage''\<rparr>"
| "scope_commandFor MVmax = \<lparr>Mnemonic = ''VMAX'', UsesThresholds = False, MeasurementName = ''maximum voltage''\<rparr>"
| "scope_commandFor MVmin = \<lparr>Mnemonic = ''VMIN'', UsesThresholds = False, MeasurementName = ''minimum voltage''\<rparr>"
| "scope_commandFor MVrms = \<lparr>Mnemonic = ''VRMS'', UsesThresholds = False, MeasurementName = ''RMS voltage''\<rparr>"
| "scope_commandFor MVaverage = \<lparr>Mnemonic = ''VAVerage'', UsesThresholds = False, MeasurementName = ''average voltage''\<rparr>"
| "scope_commandFor MVbase = \<lparr>Mnemonic = ''VBASe'', UsesThresholds = False, MeasurementName = ''base voltage''\<rparr>"
| "scope_commandFor MVtop = \<lparr>Mnemonic = ''VTOP'', UsesThresholds = False, MeasurementName = ''top voltage''\<rparr>"
| "scope_commandFor MVamplitude = \<lparr>Mnemonic = ''VAMPlitude'', UsesThresholds = False, MeasurementName = ''amplitude''\<rparr>"
| "scope_commandFor MFrequency = \<lparr>Mnemonic = ''FREQuency'', UsesThresholds = False, MeasurementName = ''frequency''\<rparr>"
| "scope_commandFor MPeriod = \<lparr>Mnemonic = ''PERiod'', UsesThresholds = False, MeasurementName = ''period''\<rparr>"
| "scope_commandFor MRiseTime = \<lparr>Mnemonic = ''RISetime'', UsesThresholds = True, MeasurementName = ''rise time''\<rparr>"
| "scope_commandFor MFallTime = \<lparr>Mnemonic = ''FALLtime'', UsesThresholds = True, MeasurementName = ''fall time''\<rparr>"
| "scope_commandFor MPositiveWidth = \<lparr>Mnemonic = ''PWIDth'', UsesThresholds = False, MeasurementName = ''positive pulse width''\<rparr>"
| "scope_commandFor MNegativeWidth = \<lparr>Mnemonic = ''NWIDth'', UsesThresholds = False, MeasurementName = ''negative pulse width''\<rparr>"

fun mode_name :: "ScopeMode \<Rightarrow> string" where
  "mode_name MVpp = ''Vpp''"
| "mode_name MVmax = ''Vmax''"
| "mode_name MVmin = ''Vmin''"
| "mode_name MVrms = ''Vrms''"
| "mode_name MVaverage = ''Vaverage''"
| "mode_name MVbase = ''Vbase''"
| "mode_name MVtop = ''Vtop''"
| "mode_name MVamplitude = ''Vamplitude''"
| "mode_name MFrequency = ''Frequency''"
| "mode_name MPeriod = ''Period''"
| "mode_name MRiseTime = ''RiseTime''"
| "mode_name MFallTime = ''FallTime''"
| "mode_name MPositiveWidth = ''PositiveWidth''"
| "mode_name MNegativeWidth = ''NegativeWidth''"

fun mode_reads :: "ScopeMode \<Rightarrow> QuantityKind" where
  "mode_reads MVpp = Voltage"
| "mode_reads MVmax = Voltage"
| "mode_reads MVmin = Voltage"
| "mode_reads MVrms = Voltage"
| "mode_reads MVaverage = Voltage"
| "mode_reads MVbase = Voltage"
| "mode_reads MVtop = Voltage"
| "mode_reads MVamplitude = Voltage"
| "mode_reads MFrequency = Frequency"
| "mode_reads MPeriod = Time"
| "mode_reads MRiseTime = Time"
| "mode_reads MFallTime = Time"
| "mode_reads MPositiveWidth = Time"
| "mode_reads MNegativeWidth = Time"

text \<open>A fraction as a percentage: the product of two doubles.\<close>

fun percent :: "double \<Rightarrow> double" where
  "percent (Fin v) = round_double (v * 100)"
| "percent v = v"

definition threshold_command :: "double option \<Rightarrow> double option \<Rightarrow> string \<Rightarrow> string" where
  "threshold_command low high src =
     (let lower = percent (case low of Some v \<Rightarrow> v | None \<Rightarrow> round_double (1 / 10));
          upper = percent (case high of Some v \<Rightarrow> v | None \<Rightarrow> round_double (9 / 10))
      in if d_eq lower (Fin 10) \<and> d_eq upper (Fin 90) then '':MEASure:DEFine THResholds,STANdard,'' @ src
         else '':MEASure:DEFine THResholds,PERCent,'' @ scpi_number upper @ '',50,'' @ scpi_number lower @ '','' @ src)"

definition threshold_commands :: "ScopeMode \<Rightarrow> u32 \<Rightarrow> double option \<Rightarrow> double option \<Rightarrow> string list" where
  "threshold_commands mode ch low high =
     (if UsesThresholds (scope_commandFor mode) then [threshold_command low high (scope_sourceOf ch)] else [])"

definition measure_query :: "ScopeMode \<Rightarrow> u32 \<Rightarrow> string" where
  "measure_query mode ch = '':MEASure:'' @ Mnemonic (scope_commandFor mode) @ ''? '' @ scope_sourceOf ch"

definition readMeasurement ::
    "ScopeMode \<Rightarrow> u32 \<Rightarrow> double option \<Rightarrow> double option \<Rightarrow> 't ITransport \<Rightarrow> 't \<Rightarrow> (io_error + meter_reading) \<times> 't" where
  "readMeasurement mode ch low high tr t =
     (case checked_all tr (threshold_commands mode ch low high) t of
        (Inl e, t1) \<Rightarrow> (Inl e, t1)
      | (Inr _, t1) \<Rightarrow>
          (case scpi_queryNumber tr (measure_query mode ch) t1 of
             (Inl e, t2) \<Rightarrow> (Inl e, t2)
           | (Inr v, t2) \<Rightarrow>
               (if isOverload v then (Inr (Inl (MeasurementName (scope_commandFor mode) @ '': '' @ kUnmeasurable)), t2)
                else (Inr (Inr v), t2))))"

section \<open>Who answers\<close>

definition blank_or_tab :: "char \<Rightarrow> bool" where
  "blank_or_tab c \<longleftrightarrow> c = CHR '' '' \<or> c = CHR 0x09"

definition scope_modelOf :: "string \<Rightarrow> string" where
  "scope_modelOf identity =
     (case split_first (CHR '','') identity of
        None \<Rightarrow> []
      | Some (_, rest) \<Rightarrow>
          (let model = (case split_first (CHR '','') rest of None \<Rightarrow> rest | Some (m, _) \<Rightarrow> m)
           in rev (dropWhile blank_or_tab (rev (dropWhile blank_or_tab model)))))"

definition upper_char :: "char \<Rightarrow> char" where
  "upper_char c = (if 97 \<le> (of_char c :: nat) \<and> (of_char c :: nat) \<le> 122 then char_of ((of_char c :: nat) - 32) else c)"

definition modelToken :: "string \<Rightarrow> string" where
  "modelToken model = map upper_char (filter (\<lambda>c. c \<noteq> CHR ''-'' \<and> c \<noteq> CHR '' '' \<and> c \<noteq> CHR ''_'') model)"

definition verifyScope :: "bool \<Rightarrow> 't ITransport \<Rightarrow> 't \<Rightarrow> (io_error + string) \<times> 't" where
  "verifyScope requireGenerator tr t =
     (case scpi_identify tr t of
        (Inl e, t') \<Rightarrow> (Inl e, t')
      | (Inr identity, t') \<Rightarrow>
          (let token = modelToken (scope_modelOf identity)
           in if token \<noteq> ''DSOX1202G'' \<and> token \<noteq> ''DSOX1202A''
              then (Inl (ScpiFault (description tr t') ''*IDN?''
                     \<lparr>Code = 0, Message = ''expected a DSOX1202G or a DSOX1202A and found \"'' @ identity @
                        ''\" -- check this instrument'' @ [CHR 0x27] @ ''s address in the rig'' @ [CHR 0x27] @
                        ''s instrument table''\<rparr>), t')
              else if requireGenerator \<and> token \<noteq> ''DSOX1202G''
              then (Inl (ScpiFault (description tr t') ''*IDN?''
                     \<lparr>Code = 0, Message = ''\"'' @ identity @ ''\" has no built-in waveform generator -- only the G-suffix'' @
                        '' model has one, so a row naming keysight_dsox1202g::WaveformGenerator needs a DSOX1202G''\<rparr>), t')
              else (Inr identity, t')))"

definition scope_prepare :: "'t ITransport \<Rightarrow> 't \<Rightarrow> (io_error + unit) \<times> 't" where
  "scope_prepare tr t =
     (case scpi_clearErrors tr t of
        (Inl e, t1) \<Rightarrow> (Inl e, t1)
      | (Inr _, t1) \<Rightarrow> (case verifyScope False tr t1 of (Inl e, t2) \<Rightarrow> (Inl e, t2) | (Inr _, t2) \<Rightarrow> (Inr (), t2)))"

section \<open>A block of samples\<close>

text \<open>
  std::from_chars on a field whose end is not looked at: the longest prefix that is a number. A
  sample may have spaces and one plus sign before it.
\<close>

definition from_chars_prefix :: "string \<Rightarrow> double option" where
  "from_chars_prefix s =
     (let (neg, u) = (case s of [] \<Rightarrow> (False, []) | c # v \<Rightarrow> if c = CHR ''-'' then (True, v) else (False, s));
          word = map lower (take 3 u);
          value = (if word = ''inf'' then Some PosInf else if word = ''nan'' then Some NaN
                   else (case read_decimal u of None \<Rightarrow> None | Some (v, _) \<Rightarrow> if fits_double v then Some (Fin v) else None))
      in map_option (if neg then d_neg else (\<lambda>v. v)) value)"

definition sample_value :: "string \<Rightarrow> double option" where
  "sample_value field =
     (let s = dropWhile blank_or_tab field
      in from_chars_prefix (case s of [] \<Rightarrow> [] | c # u \<Rightarrow> if c = CHR ''+'' then u else s))"

definition block_fault :: "string \<Rightarrow> string \<Rightarrow> io_error" where
  "block_fault instrument why = ScpiFault instrument '':WAVeform:DATA?'' \<lparr>Code = 0, Message = why\<rparr>"

fun samples_of :: "string \<Rightarrow> string list \<Rightarrow> io_error + double list" where
  "samples_of instrument [] = Inr []"
| "samples_of instrument (field # parts) =
     (case sample_value field of
        None \<Rightarrow> Inl (block_fault instrument (''\"'' @ field @ ''\" is not a sample''))
      | Some v \<Rightarrow> (case samples_of instrument parts of Inl e \<Rightarrow> Inl e | Inr vs \<Rightarrow> Inr (v # vs)))"

text \<open>The fields between the commas; nothing is read after the last comma when nothing stands there.\<close>

definition block_fields :: "string \<Rightarrow> string list" where
  "block_fields data = (let parts = split_on (CHR '','') data in if last parts = [] then butlast parts else parts)"

text \<open>The digit that says how many digits the length has; a character below the digits wraps around.\<close>

definition header_digits :: "char \<Rightarrow> nat option" where
  "header_digits c = (if is_digit c \<and> c \<noteq> CHR ''0'' then Some (digit_val c) else None)"

definition samplesFromBlock :: "string \<Rightarrow> string \<Rightarrow> io_error + double list" where
  "samplesFromBlock instrument block =
     (if length block < 2 \<or> hd block \<noteq> CHR ''#''
      then Inl (block_fault instrument (''expected a definite-length block beginning with '' @ [CHR 0x27] @ ''#'' @ [CHR 0x27]))
      else (case header_digits (block ! 1) of
              None \<Rightarrow> Inl (block_fault instrument ''the block header does not say how long the block is'')
            | Some n \<Rightarrow>
                if length block < 2 + n
                then Inl (block_fault instrument ''the block header does not say how long the block is'')
                else if \<not> list_all is_digit (take n (drop 2 block))
                then Inl (block_fault instrument (''the block header'' @ [CHR 0x27] @ ''s length is not a number''))
                else (let size = read_nat (take n (drop 2 block)); payload = drop (2 + n) block
                      in if length payload < size
                         then Inl (block_fault instrument
                                (''the block says it carries '' @ show_nat size @ '' bytes and '' @ show_nat (length payload) @ '' arrived''))
                         else (case samples_of instrument (block_fields (take size payload)) of
                                 Inl e \<Rightarrow> Inl e
                               | Inr [] \<Rightarrow> Inl (block_fault instrument ''the block carries no samples'')
                               | Inr vs \<Rightarrow> Inr vs))))"
section \<open>Configurations\<close>

record TriggerConfig =
  EdgeSource :: "u32 option"
  Slope :: "TriggerSlope option"
  TriggerLevel :: "double option"
  Sweep :: "TriggerSweep option"
  TriggerCouplingOf :: "TriggerCoupling option"
  Reject :: "TriggerReject option"
  Holdoff :: "double option"

record TimebaseConfig =
  TimePerDivision :: "double option"
  TimebasePosition :: "double option"
  TimebaseReferenceOf :: "TimebaseReference option"

record AcquisitionConfig =
  AcquireType :: "AcquisitionType option"
  AverageCount :: "u32 option"

record ChannelConfig =
  ConfigChannel :: u32
  ConfigCoupling :: "Coupling option"
  ConfigVoltsPerDivision :: "double option"
  ConfigVerticalOffset :: "double option"
  ConfigBandwidth :: "Bandwidth option"
  ConfigProbe :: "double option"
  ConfigDisplay :: "ChannelDisplay option"

record SingleConfig =
  CaptureTimeout :: "double option"
  ArmTimeout :: "double option"

text \<open>The builders an instrument hands out; a channel other than 1 or 2 does not compile.\<close>

definition ValidChannel :: "u32 \<Rightarrow> bool" where
  "ValidChannel n \<longleftrightarrow> 1 \<le> n \<and> n \<le> 2"

definition scope_trigger :: TriggerConfig where
  "scope_trigger =
     \<lparr>EdgeSource = None, Slope = None, TriggerLevel = None, Sweep = None, TriggerCouplingOf = None, Reject = None, Holdoff = None\<rparr>"

definition trigger_edgeSource :: "u32 \<Rightarrow> TriggerConfig \<Rightarrow> TriggerConfig option" where
  "trigger_edgeSource n c = (if ValidChannel n then Some (c\<lparr>EdgeSource := Some n\<rparr>) else None)"

definition trigger_slope :: "TriggerSlope \<Rightarrow> TriggerConfig \<Rightarrow> TriggerConfig" where
  "trigger_slope v c = c\<lparr>Slope := Some v\<rparr>"

definition trigger_level :: "double \<Rightarrow> TriggerConfig \<Rightarrow> TriggerConfig" where
  "trigger_level v c = c\<lparr>TriggerLevel := Some v\<rparr>"

definition trigger_sweep :: "TriggerSweep \<Rightarrow> TriggerConfig \<Rightarrow> TriggerConfig" where
  "trigger_sweep v c = c\<lparr>Sweep := Some v\<rparr>"

definition trigger_coupling :: "TriggerCoupling \<Rightarrow> TriggerConfig \<Rightarrow> TriggerConfig" where
  "trigger_coupling v c = c\<lparr>TriggerCouplingOf := Some v\<rparr>"

definition trigger_reject :: "TriggerReject \<Rightarrow> TriggerConfig \<Rightarrow> TriggerConfig" where
  "trigger_reject v c = c\<lparr>Reject := Some v\<rparr>"

definition trigger_holdoff :: "double \<Rightarrow> TriggerConfig \<Rightarrow> TriggerConfig" where
  "trigger_holdoff v c = c\<lparr>Holdoff := Some v\<rparr>"

definition scope_timebase :: TimebaseConfig where
  "scope_timebase = \<lparr>TimePerDivision = None, TimebasePosition = None, TimebaseReferenceOf = None\<rparr>"

definition timebase_timePerDivision :: "double \<Rightarrow> TimebaseConfig \<Rightarrow> TimebaseConfig" where
  "timebase_timePerDivision v c = c\<lparr>TimePerDivision := Some v\<rparr>"

definition timebase_position :: "double \<Rightarrow> TimebaseConfig \<Rightarrow> TimebaseConfig" where
  "timebase_position v c = c\<lparr>TimebasePosition := Some v\<rparr>"

definition timebase_reference :: "TimebaseReference \<Rightarrow> TimebaseConfig \<Rightarrow> TimebaseConfig" where
  "timebase_reference v c = c\<lparr>TimebaseReferenceOf := Some v\<rparr>"

definition scope_acquisition :: AcquisitionConfig where
  "scope_acquisition = \<lparr>AcquireType = None, AverageCount = None\<rparr>"

definition acquisition_type :: "AcquisitionType \<Rightarrow> AcquisitionConfig \<Rightarrow> AcquisitionConfig" where
  "acquisition_type v c = c\<lparr>AcquireType := Some v\<rparr>"

definition averagedOver :: "u32 \<Rightarrow> AcquisitionConfig \<Rightarrow> AcquisitionConfig" where
  "averagedOver n c = c\<lparr>AcquireType := Some AcquireAveraged, AverageCount := Some n\<rparr>"

definition scope_channel :: "u32 \<Rightarrow> ChannelConfig option" where
  "scope_channel n =
     (if ValidChannel n
      then Some \<lparr>ConfigChannel = n, ConfigCoupling = None, ConfigVoltsPerDivision = None, ConfigVerticalOffset = None,
                 ConfigBandwidth = None, ConfigProbe = None, ConfigDisplay = None\<rparr>
      else None)"

definition channel_coupling :: "Coupling \<Rightarrow> ChannelConfig \<Rightarrow> ChannelConfig" where
  "channel_coupling v c = c\<lparr>ConfigCoupling := Some v\<rparr>"

definition channel_voltsPerDivision :: "double \<Rightarrow> ChannelConfig \<Rightarrow> ChannelConfig" where
  "channel_voltsPerDivision v c = c\<lparr>ConfigVoltsPerDivision := Some v\<rparr>"

definition channel_verticalOffset :: "double \<Rightarrow> ChannelConfig \<Rightarrow> ChannelConfig" where
  "channel_verticalOffset v c = c\<lparr>ConfigVerticalOffset := Some v\<rparr>"

definition channel_bandwidth :: "Bandwidth \<Rightarrow> ChannelConfig \<Rightarrow> ChannelConfig" where
  "channel_bandwidth v c = c\<lparr>ConfigBandwidth := Some v\<rparr>"

definition channel_probeAttenuation :: "double \<Rightarrow> ChannelConfig \<Rightarrow> ChannelConfig" where
  "channel_probeAttenuation v c = c\<lparr>ConfigProbe := Some v\<rparr>"

definition channel_display :: "ChannelDisplay \<Rightarrow> ChannelConfig \<Rightarrow> ChannelConfig" where
  "channel_display v c = c\<lparr>ConfigDisplay := Some v\<rparr>"

definition scope_single :: SingleConfig where
  "scope_single = \<lparr>CaptureTimeout = None, ArmTimeout = None\<rparr>"

definition single_timeout :: "double \<Rightarrow> SingleConfig \<Rightarrow> SingleConfig" where
  "single_timeout v c = c\<lparr>CaptureTimeout := Some v\<rparr>"

definition single_armTimeout :: "double \<Rightarrow> SingleConfig \<Rightarrow> SingleConfig" where
  "single_armTimeout v c = c\<lparr>ArmTimeout := Some v\<rparr>"

section \<open>What a Setup sends\<close>

definition said :: "('a \<Rightarrow> string) \<Rightarrow> 'a option \<Rightarrow> string list" where
  "said say v = (case v of None \<Rightarrow> [] | Some x \<Rightarrow> [say x])"

definition trigger_commands :: "TriggerConfig \<Rightarrow> string list" where
  "trigger_commands c =
     ['':TRIGger:MODE EDGE''] @
     said (\<lambda>n. '':TRIGger:EDGE:SOURce '' @ scope_sourceOf n) (EdgeSource c) @
     said (\<lambda>v. '':TRIGger:EDGE:SLOPe '' @ scpiFor_slope v) (Slope c) @
     said (\<lambda>v. '':TRIGger:EDGE:LEVel '' @ scpi_number v) (TriggerLevel c) @
     said (\<lambda>v. '':TRIGger:SWEep '' @ scpiFor_sweep v) (Sweep c) @
     said (\<lambda>v. '':TRIGger:EDGE:COUPling '' @ scpiFor_trigger_coupling v) (TriggerCouplingOf c) @
     said (\<lambda>v. '':TRIGger:EDGE:REJect '' @ scpiFor_reject v) (Reject c) @
     said (\<lambda>v. '':TRIGger:HOLDoff '' @ scpi_number v) (Holdoff c) @
     ['':RUN'']"

definition timebase_commands :: "TimebaseConfig \<Rightarrow> string list" where
  "timebase_commands c =
     said (\<lambda>v. '':TIMebase:SCALe '' @ scpi_number v) (TimePerDivision c) @
     said (\<lambda>v. '':TIMebase:REFerence '' @ scpiFor_reference v) (TimebaseReferenceOf c) @
     said (\<lambda>v. '':TIMebase:POSition '' @ scpi_number v) (TimebasePosition c)"

definition acquisition_commands :: "AcquisitionConfig \<Rightarrow> string list" where
  "acquisition_commands c =
     said (\<lambda>v. '':ACQuire:TYPE '' @ scpiFor_acquisition v) (AcquireType c) @
     said (\<lambda>n. '':ACQuire:COUNt '' @ show_nat (unat n)) (AverageCount c)"

definition channel_commands :: "ChannelConfig \<Rightarrow> string list" where
  "channel_commands c =
     (let channel = '':CHANnel'' @ show_nat (unat (ConfigChannel c))
      in said (\<lambda>v. channel @ '':PROBe '' @ scpi_number v) (ConfigProbe c) @
         said (\<lambda>v. channel @ '':COUPling '' @ scpiFor_coupling v) (ConfigCoupling c) @
         said (\<lambda>v. channel @ '':SCALe '' @ scpi_number v) (ConfigVoltsPerDivision c) @
         said (\<lambda>v. channel @ '':OFFSet '' @ scpi_number v) (ConfigVerticalOffset c) @
         said (\<lambda>v. channel @ '':BWLimit '' @ scpiFor_bandwidth v) (ConfigBandwidth c) @
         said (\<lambda>v. channel @ '':DISPlay '' @ scpiFor_display v) (ConfigDisplay c))"

section \<open>Arming and waiting\<close>

text \<open>
  The two polls. \<open>looks\<close> is how often the clock is still before the deadline when it is looked at,
  after a poll that was not answered as hoped.
\<close>

fun poll_armed :: "nat \<Rightarrow> string \<Rightarrow> 't ITransport \<Rightarrow> 't \<Rightarrow> (io_error + unit) \<times> 't" where
  "poll_armed looks why tr t =
     (case scpi_queryNumber tr '':AER?'' t of
        (Inl e, t') \<Rightarrow> (Inl e, t')
      | (Inr v, t') \<Rightarrow>
          (if \<not> d_eq v (Fin 0) then (Inr (), t')
           else (case looks of
                   0 \<Rightarrow> (Inl (Transport (TransportTimeout (description tr t' @ why))), t')
                 | Suc n \<Rightarrow> poll_armed n why tr t')))"

definition arm_sequence :: "(double \<Rightarrow> nat) \<Rightarrow> double \<Rightarrow> 't ITransport \<Rightarrow> 't \<Rightarrow> (io_error + unit) \<times> 't" where
  "arm_sequence looks timeout tr t =
     (case scpi_checked tr '':STOP'' t of
        (Inl e, t1) \<Rightarrow> (Inl e, t1)
      | (Inr _, t1) \<Rightarrow>
          (case scpi_waitForComplete tr t1 of
             (Inl e, t2) \<Rightarrow> (Inl e, t2)
           | (Inr _, t2) \<Rightarrow>
               (case scpi_checked tr '':SINGle'' t2 of
                  (Inl e, t3) \<Rightarrow> (Inl e, t3)
                | (Inr _, t3) \<Rightarrow>
                    poll_armed (looks timeout)
                      ('' did not report itself armed within '' @ scpi_number timeout @ '' s of :SINGle'') tr t3)))"

text \<open>
  static_cast<int>( double) cuts off the fraction; what does not fit an int is undefined in the
  code, and the bits are those of the whole number here. kRunBit is bit 3.
\<close>

fun cut_off :: "double \<Rightarrow> int" where
  "cut_off (Fin v) = (if v < 0 then - floor (- v) else floor v)"
| "cut_off _ = 0"

definition running :: "double \<Rightarrow> bool" where
  "running v \<longleftrightarrow> odd (cut_off v div 8)"

text \<open>The poll of the RUN bit, and :STOP when the capture did not complete in time.\<close>

fun poll_done :: "nat \<Rightarrow> 't ITransport \<Rightarrow> 't \<Rightarrow> (io_error + bool) \<times> 't" where
  "poll_done looks tr t =
     (case scpi_queryNumber tr '':OPERegister:CONDition?'' t of
        (Inl e, t') \<Rightarrow> (Inl e, t')
      | (Inr v, t') \<Rightarrow>
          (if \<not> running v then (Inr True, t')
           else (case looks of
                   0 \<Rightarrow> (case scpi_write tr '':STOP'' t' of (Inl e, t2) \<Rightarrow> (Inl e, t2) | (Inr _, t2) \<Rightarrow> (Inr False, t2))
                 | Suc n \<Rightarrow> poll_done n tr t')))"

definition fetch_trace :: "(double \<Rightarrow> 64 word) \<Rightarrow> u32 \<Rightarrow> 't ITransport \<Rightarrow> 't \<Rightarrow> (io_error + Waveform) \<times> 't" where
  "fetch_trace bits ch tr t =
     (case checked_all tr ['':WAVeform:SOURce '' @ scope_sourceOf ch, '':WAVeform:FORMat ASCii''] t of
        (Inl e, t1) \<Rightarrow> (Inl e, t1)
      | (Inr _, t1) \<Rightarrow>
          (case scpi_queryNumbers tr '':WAVeform:PREamble?'' t1 of
             (Inl e, t2) \<Rightarrow> (Inl e, t2)
           | (Inr preamble, t2) \<Rightarrow>
               if length preamble < 6
               then (Inl (ScpiFault (description tr t2) '':WAVeform:PREamble?''
                      \<lparr>Code = 0, Message = ''expected ten preamble fields and got '' @ show_nat (length preamble)\<rparr>), t2)
               else (case scpi_query tr '':WAVeform:DATA?'' t2 of
                       (Inl e, t3) \<Rightarrow> (Inl e, t3)
                     | (Inr block, t3) \<Rightarrow>
                         (case samplesFromBlock (description tr t3) block of
                            Inl e \<Rightarrow> (Inl e, t3)
                          | Inr vs \<Rightarrow>
                              (Inr \<lparr>mKind = Voltage, mTiming = \<lparr>Origin = preamble ! 5, Increment = preamble ! 4\<rparr>,
                                    mSamples = map bits vs\<rparr>, t3)))))"

section \<open>The driver\<close>

record ScopeChannel =
  SimVpp :: double
  SimVmax :: double
  SimVmin :: double
  SimVrms :: double
  SimVaverage :: double
  SimVbase :: double
  SimVtop :: double
  SimVamplitude :: double
  SimFreq :: double
  SimPeriod :: double
  SimRiseTime :: double
  SimFallTime :: double
  SimPositiveWidth :: double
  SimNegativeWidth :: double
  InputCoupling :: "Coupling option"
  VoltsPerDivision :: "double option"
  VerticalOffset :: "double option"
  BandwidthLimit :: "Bandwidth option"
  ProbeAttenuation :: "double option"
  Display :: "ChannelDisplay option"
  Unmeasurable :: "ScopeMode list"
  SimTrace :: Waveform

definition new_channel :: ScopeChannel where
  "new_channel =
     \<lparr>SimVpp = Fin 0, SimVmax = Fin 0, SimVmin = Fin 0, SimVrms = Fin 0, SimVaverage = Fin 0, SimVbase = Fin 0, SimVtop = Fin 0, SimVamplitude = Fin 0, SimFreq = Fin 0, SimPeriod = Fin 0, SimRiseTime = Fin 0, SimFallTime = Fin 0, SimPositiveWidth = Fin 0, SimNegativeWidth = Fin 0,
      InputCoupling = None, VoltsPerDivision = None, VerticalOffset = None, BandwidthLimit = None, ProbeAttenuation = None,
      Display = None, Unmeasurable = [],
      SimTrace = \<lparr>mKind = Voltage, mTiming = \<lparr>Origin = Fin 0, Increment = Fin 0\<rparr>, mSamples = []\<rparr>\<rparr>"

record ScopeState =
  sc_mode :: ScopeMode
  sc_channel :: u32
  sc_channels :: "ScopeChannel list"
  mTriggerSource :: "u32 option"
  mTriggerSlope :: "TriggerSlope option"
  mTriggerLevel :: "double option"
  mTriggerSweep :: "TriggerSweep option"
  mTriggerCoupling :: "TriggerCoupling option"
  mTriggerReject :: "TriggerReject option"
  mTriggerHoldoff :: "double option"
  mTimePerDivision :: "double option"
  mTimebasePosition :: "double option"
  mTimebaseReference :: "TimebaseReference option"
  mAcquisitionType :: "AcquisitionType option"
  mAverageCount :: "u32 option"
  mArmed :: bool
  mCompleted :: bool
  mCaptureCompletes :: bool

definition new_scope :: ScopeState where
  "new_scope =
     \<lparr>sc_mode = MVpp, sc_channel = 1, sc_channels = [new_channel, new_channel], mTriggerSource = None, mTriggerSlope = None,
      mTriggerLevel = None, mTriggerSweep = None, mTriggerCoupling = None, mTriggerReject = None, mTriggerHoldoff = None,
      mTimePerDivision = None, mTimebasePosition = None, mTimebaseReference = None, mAcquisitionType = None,
      mAverageCount = None, mArmed = False, mCompleted = False, mCaptureCompletes = True\<rparr>"

type_synonym 't scope = "('t, ScopeState) device"

datatype scope_error = NoSuchChannel | ScopeBox box_error

fun scope_error_text :: "scope_error \<Rightarrow> string" where
  "scope_error_text NoSuchChannel = ''array::at''"
| "scope_error_text (ScopeBox e) = box_error_text e"

text \<open>atChannel: at( channel - 1) of the array of two, on unsigned numbers.\<close>

definition atChannel :: "u32 \<Rightarrow> ScopeState \<Rightarrow> nat option" where
  "atChannel ch s = (let k = unat (ch - 1) in if k < length (sc_channels s) then Some k else None)"

definition change_channel :: "u32 \<Rightarrow> (ScopeChannel \<Rightarrow> ScopeChannel) \<Rightarrow> ScopeState \<Rightarrow> (scope_error + ScopeState)" where
  "change_channel ch f s =
     (case atChannel ch s of
        None \<Rightarrow> Inl NoSuchChannel
      | Some k \<Rightarrow> Inr (s\<lparr>sc_channels := (sc_channels s)[k := f (sc_channels s ! k)]\<rparr>))"

definition scope_on_wire ::
    "'t bench_env \<Rightarrow> nat \<Rightarrow> ('t ITransport \<Rightarrow> 't \<Rightarrow> (io_error + 'a) \<times> 't) \<Rightarrow> 't scope \<Rightarrow> (scope_error + 'a) \<times> 't scope" where
  "scope_on_wire env i act d =
     (case in_session env ''keysight_dsox1202g'' scope_prepare i act (fst d) of (r, b) \<Rightarrow> (map_sum ScopeBox (\<lambda>x. x) r, (b, snd d)))"

definition scope_isSimulated :: "'t bench_env \<Rightarrow> nat \<Rightarrow> 't scope \<Rightarrow> bool \<times> 't scope" where
  "scope_isSimulated env i d = (case connection_isSimulated (env_rows env) i (fst d) of (sim, b) \<Rightarrow> (sim, (b, snd d)))"

definition scope_identity :: "'t bench_env \<Rightarrow> nat \<Rightarrow> 't scope \<Rightarrow> (scope_error + string) \<times> 't scope" where
  "scope_identity env i d = scope_on_wire env i scpi_identify d"

text \<open>What a Setup does: the settings it names are remembered, and on a real instrument also told.\<close>

definition setup_scope ::
    "'t bench_env \<Rightarrow> nat \<Rightarrow> string list \<Rightarrow> 't scope \<Rightarrow> (scope_error + unit) \<times> 't scope" where
  "setup_scope env i commands d =
     (case scope_isSimulated env i d of
        (True, d') \<Rightarrow> (Inr (), d')
      | (False, d') \<Rightarrow> scope_on_wire env i (\<lambda>tr. checked_all tr commands) d')"

definition given :: "'a option \<Rightarrow> 'a option \<Rightarrow> 'a option" where
  "given v old = (case v of None \<Rightarrow> old | Some x \<Rightarrow> Some x)"

definition remember_trigger :: "TriggerConfig \<Rightarrow> ScopeState \<Rightarrow> ScopeState" where
  "remember_trigger c s =
     s\<lparr>mTriggerSource := given (EdgeSource c) (mTriggerSource s), mTriggerSlope := given (Slope c) (mTriggerSlope s),
       mTriggerLevel := given (TriggerLevel c) (mTriggerLevel s), mTriggerSweep := given (Sweep c) (mTriggerSweep s),
       mTriggerCoupling := given (TriggerCouplingOf c) (mTriggerCoupling s), mTriggerReject := given (Reject c) (mTriggerReject s),
       mTriggerHoldoff := given (Holdoff c) (mTriggerHoldoff s)\<rparr>"

definition configureTrigger :: "'t bench_env \<Rightarrow> nat \<Rightarrow> TriggerConfig \<Rightarrow> 't scope \<Rightarrow> (scope_error + unit) \<times> 't scope" where
  "configureTrigger env i c d = setup_scope env i (trigger_commands c) (fst d, remember_trigger c (snd d))"

definition remember_timebase :: "TimebaseConfig \<Rightarrow> ScopeState \<Rightarrow> ScopeState" where
  "remember_timebase c s =
     s\<lparr>mTimePerDivision := given (TimePerDivision c) (mTimePerDivision s),
       mTimebasePosition := given (TimebasePosition c) (mTimebasePosition s),
       mTimebaseReference := given (TimebaseReferenceOf c) (mTimebaseReference s)\<rparr>"

definition configureTimebase :: "'t bench_env \<Rightarrow> nat \<Rightarrow> TimebaseConfig \<Rightarrow> 't scope \<Rightarrow> (scope_error + unit) \<times> 't scope" where
  "configureTimebase env i c d = setup_scope env i (timebase_commands c) (fst d, remember_timebase c (snd d))"

definition remember_acquisition :: "AcquisitionConfig \<Rightarrow> ScopeState \<Rightarrow> ScopeState" where
  "remember_acquisition c s =
     s\<lparr>mAcquisitionType := given (AcquireType c) (mAcquisitionType s), mAverageCount := given (AverageCount c) (mAverageCount s)\<rparr>"

definition configureAcquisition :: "'t bench_env \<Rightarrow> nat \<Rightarrow> AcquisitionConfig \<Rightarrow> 't scope \<Rightarrow> (scope_error + unit) \<times> 't scope" where
  "configureAcquisition env i c d = setup_scope env i (acquisition_commands c) (fst d, remember_acquisition c (snd d))"

definition remember_channel :: "ChannelConfig \<Rightarrow> ScopeChannel \<Rightarrow> ScopeChannel" where
  "remember_channel c s =
     s\<lparr>InputCoupling := given (ConfigCoupling c) (InputCoupling s), VoltsPerDivision := given (ConfigVoltsPerDivision c) (VoltsPerDivision s),
       VerticalOffset := given (ConfigVerticalOffset c) (VerticalOffset s), BandwidthLimit := given (ConfigBandwidth c) (BandwidthLimit s),
       ProbeAttenuation := given (ConfigProbe c) (ProbeAttenuation s), Display := given (ConfigDisplay c) (Display s)\<rparr>"

definition configureChannel :: "'t bench_env \<Rightarrow> nat \<Rightarrow> ChannelConfig \<Rightarrow> 't scope \<Rightarrow> (scope_error + unit) \<times> 't scope" where
  "configureChannel env i c d =
     (case change_channel (ConfigChannel c) (remember_channel c) (snd d) of
        Inl e \<Rightarrow> (Inl e, d)
      | Inr s \<Rightarrow> setup_scope env i (channel_commands c) (fst d, s))"

definition kDefaultCaptureTimeout :: double where "kDefaultCaptureTimeout = Fin 5"
definition kDefaultArmTimeout :: double where "kDefaultArmTimeout = Fin 1"

definition armSingle ::
    "'t bench_env \<Rightarrow> (double \<Rightarrow> nat) \<Rightarrow> nat \<Rightarrow> SingleConfig \<Rightarrow> 't scope \<Rightarrow> (scope_error + unit) \<times> 't scope" where
  "armSingle env looks i c d =
     (case scope_isSimulated env i (fst d, (snd d)\<lparr>mCompleted := False\<rparr>) of
        (True, b, s) \<Rightarrow> (Inr (), (b, s\<lparr>mArmed := True\<rparr>))
      | (False, b, s) \<Rightarrow>
          (let timeout = (case ArmTimeout c of Some v \<Rightarrow> v | None \<Rightarrow> kDefaultArmTimeout)
           in case scope_on_wire env i (arm_sequence looks timeout) (b, s\<lparr>mArmed := False\<rparr>) of
                (Inl e, d') \<Rightarrow> (Inl e, d')
              | (Inr _, b', s') \<Rightarrow> (Inr (), (b', s'\<lparr>mArmed := True\<rparr>))))"

definition awaitAcquisition ::
    "'t bench_env \<Rightarrow> (double \<Rightarrow> nat) \<Rightarrow> nat \<Rightarrow> SingleConfig \<Rightarrow> 't scope \<Rightarrow> (scope_error + bool) \<times> 't scope" where
  "awaitAcquisition env looks i c d =
     (if \<not> mArmed (snd d) then (Inr False, d)
      else (case scope_isSimulated env i (fst d, (snd d)\<lparr>mArmed := False\<rparr>) of
              (True, b, s) \<Rightarrow> (Inr (mCaptureCompletes s), (b, s\<lparr>mCompleted := mCaptureCompletes s\<rparr>))
            | (False, d1) \<Rightarrow>
                (let timeout = (case CaptureTimeout c of Some v \<Rightarrow> v | None \<Rightarrow> kDefaultCaptureTimeout)
                 in case scope_on_wire env i (poll_done (looks timeout)) d1 of
                      (Inl e, d') \<Rightarrow> (Inl e, d')
                    | (Inr completed, b, s) \<Rightarrow> (Inr completed, (b, s\<lparr>mCompleted := completed\<rparr>)))))"

definition fetchWaveform ::
    "'t bench_env \<Rightarrow> (double \<Rightarrow> 64 word) \<Rightarrow> nat \<Rightarrow> u32 \<Rightarrow> 't scope \<Rightarrow> (scope_error + Waveform) \<times> 't scope" where
  "fetchWaveform env bits i ch d =
     (case scope_isSimulated env i d of
        (True, b, s) \<Rightarrow>
          (case atChannel ch s of None \<Rightarrow> (Inl NoSuchChannel, (b, s)) | Some k \<Rightarrow> (Inr (SimTrace (sc_channels s ! k)), (b, s)))
      | (False, d') \<Rightarrow> scope_on_wire env i (fetch_trace bits ch) d')"

text \<open>safe: the flag, and :STOP down a session that is already open; what the send throws is swallowed.\<close>

definition scope_safe :: "'t bench_env \<Rightarrow> nat \<Rightarrow> 't scope \<Rightarrow> 't scope" where
  "scope_safe env i d = (in_open_session env i (\<lambda>tr. scpi_write tr '':STOP'') (fst d), (snd d)\<lparr>mArmed := False\<rparr>)"

section \<open>Simulation\<close>

definition scope_setSimulatedVpp :: "u32 \<Rightarrow> double \<Rightarrow> ScopeState \<Rightarrow> (scope_error + ScopeState)" where
  "scope_setSimulatedVpp ch v = change_channel ch (\<lambda>c. c\<lparr>SimVpp := v\<rparr>)"

definition scope_setSimulatedVmax :: "u32 \<Rightarrow> double \<Rightarrow> ScopeState \<Rightarrow> (scope_error + ScopeState)" where
  "scope_setSimulatedVmax ch v = change_channel ch (\<lambda>c. c\<lparr>SimVmax := v\<rparr>)"

definition scope_setSimulatedVmin :: "u32 \<Rightarrow> double \<Rightarrow> ScopeState \<Rightarrow> (scope_error + ScopeState)" where
  "scope_setSimulatedVmin ch v = change_channel ch (\<lambda>c. c\<lparr>SimVmin := v\<rparr>)"

definition scope_setSimulatedVrms :: "u32 \<Rightarrow> double \<Rightarrow> ScopeState \<Rightarrow> (scope_error + ScopeState)" where
  "scope_setSimulatedVrms ch v = change_channel ch (\<lambda>c. c\<lparr>SimVrms := v\<rparr>)"

definition scope_setSimulatedVaverage :: "u32 \<Rightarrow> double \<Rightarrow> ScopeState \<Rightarrow> (scope_error + ScopeState)" where
  "scope_setSimulatedVaverage ch v = change_channel ch (\<lambda>c. c\<lparr>SimVaverage := v\<rparr>)"

definition scope_setSimulatedVbase :: "u32 \<Rightarrow> double \<Rightarrow> ScopeState \<Rightarrow> (scope_error + ScopeState)" where
  "scope_setSimulatedVbase ch v = change_channel ch (\<lambda>c. c\<lparr>SimVbase := v\<rparr>)"

definition scope_setSimulatedVtop :: "u32 \<Rightarrow> double \<Rightarrow> ScopeState \<Rightarrow> (scope_error + ScopeState)" where
  "scope_setSimulatedVtop ch v = change_channel ch (\<lambda>c. c\<lparr>SimVtop := v\<rparr>)"

definition scope_setSimulatedVamplitude :: "u32 \<Rightarrow> double \<Rightarrow> ScopeState \<Rightarrow> (scope_error + ScopeState)" where
  "scope_setSimulatedVamplitude ch v = change_channel ch (\<lambda>c. c\<lparr>SimVamplitude := v\<rparr>)"

definition scope_setSimulatedFrequency :: "u32 \<Rightarrow> double \<Rightarrow> ScopeState \<Rightarrow> (scope_error + ScopeState)" where
  "scope_setSimulatedFrequency ch v = change_channel ch (\<lambda>c. c\<lparr>SimFreq := v\<rparr>)"

definition scope_setSimulatedPeriod :: "u32 \<Rightarrow> double \<Rightarrow> ScopeState \<Rightarrow> (scope_error + ScopeState)" where
  "scope_setSimulatedPeriod ch v = change_channel ch (\<lambda>c. c\<lparr>SimPeriod := v\<rparr>)"

definition scope_setSimulatedRiseTime :: "u32 \<Rightarrow> double \<Rightarrow> ScopeState \<Rightarrow> (scope_error + ScopeState)" where
  "scope_setSimulatedRiseTime ch v = change_channel ch (\<lambda>c. c\<lparr>SimRiseTime := v\<rparr>)"

definition scope_setSimulatedFallTime :: "u32 \<Rightarrow> double \<Rightarrow> ScopeState \<Rightarrow> (scope_error + ScopeState)" where
  "scope_setSimulatedFallTime ch v = change_channel ch (\<lambda>c. c\<lparr>SimFallTime := v\<rparr>)"

definition scope_setSimulatedPositiveWidth :: "u32 \<Rightarrow> double \<Rightarrow> ScopeState \<Rightarrow> (scope_error + ScopeState)" where
  "scope_setSimulatedPositiveWidth ch v = change_channel ch (\<lambda>c. c\<lparr>SimPositiveWidth := v\<rparr>)"

definition scope_setSimulatedNegativeWidth :: "u32 \<Rightarrow> double \<Rightarrow> ScopeState \<Rightarrow> (scope_error + ScopeState)" where
  "scope_setSimulatedNegativeWidth ch v = change_channel ch (\<lambda>c. c\<lparr>SimNegativeWidth := v\<rparr>)"

definition setSimulatedTrace :: "u32 \<Rightarrow> Waveform \<Rightarrow> ScopeState \<Rightarrow> (scope_error + ScopeState)" where
  "setSimulatedTrace ch trace = change_channel ch (\<lambda>c. c\<lparr>SimTrace := trace\<rparr>)"

definition setSimulatedUnmeasurable :: "u32 \<Rightarrow> ScopeMode \<Rightarrow> ScopeState \<Rightarrow> (scope_error + ScopeState)" where
  "setSimulatedUnmeasurable ch mode = change_channel ch (\<lambda>c. c\<lparr>Unmeasurable := mode # Unmeasurable c\<rparr>)"

definition clearSimulatedUnmeasurable :: "u32 \<Rightarrow> ScopeMode \<Rightarrow> ScopeState \<Rightarrow> (scope_error + ScopeState)" where
  "clearSimulatedUnmeasurable ch mode = change_channel ch (\<lambda>c. c\<lparr>Unmeasurable := filter (\<lambda>m. m \<noteq> mode) (Unmeasurable c)\<rparr>)"

definition setSimulatedCaptureCompletes :: "bool \<Rightarrow> ScopeState \<Rightarrow> ScopeState" where
  "setSimulatedCaptureCompletes completes s = s\<lparr>mCaptureCompletes := completes\<rparr>"

section \<open>Readings\<close>

text \<open>Making a port turns the instrument's keys; a reading goes by the keys when it is taken.\<close>

definition scope_press :: "u32 \<Rightarrow> ScopeMode \<Rightarrow> ScopeState \<Rightarrow> ScopeState" where
  "scope_press n mode s = s\<lparr>sc_channel := n, sc_mode := mode\<rparr>"

text \<open>The switches of rawMeasure, by the quantity of the port; other quantities do not compile.\<close>

fun voltage_of :: "ScopeMode \<Rightarrow> ScopeChannel \<Rightarrow> double" where
  "voltage_of MVmax c = SimVmax c"
| "voltage_of MVmin c = SimVmin c"
| "voltage_of MVrms c = SimVrms c"
| "voltage_of MVaverage c = SimVaverage c"
| "voltage_of MVbase c = SimVbase c"
| "voltage_of MVtop c = SimVtop c"
| "voltage_of MVamplitude c = SimVamplitude c"
| "voltage_of _ c = SimVpp c"

fun time_of :: "ScopeMode \<Rightarrow> ScopeChannel \<Rightarrow> double" where
  "time_of MRiseTime c = SimRiseTime c"
| "time_of MFallTime c = SimFallTime c"
| "time_of MPositiveWidth c = SimPositiveWidth c"
| "time_of MNegativeWidth c = SimNegativeWidth c"
| "time_of _ c = SimPeriod c"

fun scope_simulated :: "QuantityKind \<Rightarrow> ScopeMode \<Rightarrow> ScopeChannel \<Rightarrow> double option" where
  "scope_simulated Voltage mode c = Some (voltage_of mode c)"
| "scope_simulated Frequency mode c = Some (SimFreq c)"
| "scope_simulated Time mode c = Some (time_of mode c)"
| "scope_simulated _ mode c = None"

definition scope_reads :: "QuantityKind \<Rightarrow> bool" where
  "scope_reads k \<longleftrightarrow> k \<in> {Voltage, Frequency, Time}"

definition scope_rawMeasure ::
    "'t bench_env \<Rightarrow> nat \<Rightarrow> QuantityKind \<Rightarrow> double option \<Rightarrow> double option \<Rightarrow> 't scope
       \<Rightarrow> (scope_error + meter_reading) option \<times> 't scope" where
  "scope_rawMeasure env i k low high d =
     (if \<not> scope_reads k then (None, d)
      else (case scope_isSimulated env i d of
              (False, b, s) \<Rightarrow>
                (case scope_on_wire env i (readMeasurement (sc_mode s) (sc_channel s) low high) (b, s) of (r, d') \<Rightarrow> (Some r, d'))
            | (True, b, s) \<Rightarrow>
                (case atChannel (sc_channel s) s of
                   None \<Rightarrow> (Some (Inl NoSuchChannel), (b, s))
                 | Some n \<Rightarrow>
                     (let c = sc_channels s ! n
                      in (if sc_mode s \<in> set (Unmeasurable c) then Some (Inr (Inl kUnmeasurable))
                          else map_option (\<lambda>v. Inr (Inr v)) (scope_simulated k (sc_mode s) c), (b, s))))))"

text \<open>The thresholds a port is made with: a tenth and nine tenths for the two edges, none otherwise.\<close>

fun port_thresholds :: "ScopeMode \<Rightarrow> double option \<times> double option" where
  "port_thresholds MRiseTime = (Some (round_double (1 / 10)), Some (round_double (9 / 10)))"
| "port_thresholds MFallTime = (Some (round_double (1 / 10)), Some (round_double (9 / 10)))"
| "port_thresholds _ = (None, None)"

definition scope_answer :: "(scope_error + meter_reading) option \<Rightarrow> port_fault + double" where
  "scope_answer r =
     (case r of
        Some (Inr (Inr v)) \<Rightarrow> Inr v
      | Some (Inr (Inl why)) \<Rightarrow> Inl (UnmeasurableReading why)
      | Some (Inl e) \<Rightarrow> Inl (PortFailure (scope_error_text e))
      | None \<Rightarrow> Inl (PortFailure []))"

definition scope_port :: "'t bench_env \<Rightarrow> nat \<Rightarrow> string \<Rightarrow> ScopeMode \<Rightarrow> double option \<times> double option \<Rightarrow> 't scope Port" where
  "scope_port env i name mode thresholds =
     \<lparr>port_kind = mode_reads mode, port_instrument = name, port_sense = False, port_qualifier = mode_name mode,
      rawMeasure = (\<lambda>d. case scope_rawMeasure env i (mode_reads mode) (fst thresholds) (snd thresholds) d of
                        (v, d') \<Rightarrow> (scope_answer v, d')),
      mUnmeasurable = None\<rparr>"

section \<open>What the verbs find\<close>

text \<open>std::to_string of a double, without the zeros after the point.\<close>

definition describeAttenuation :: "string \<Rightarrow> double option \<Rightarrow> string" where
  "describeAttenuation name v =
     (case v of
        None \<Rightarrow> []
      | Some x \<Rightarrow>
          (let digits = to_string_double x;
               digits = (if CHR ''.'' \<in> set digits
                         then (let cut = rev (dropWhile (\<lambda>c. c = CHR ''0'') (rev digits))
                               in if cut \<noteq> [] \<and> last cut = CHR ''.'' then butlast cut else cut)
                         else digits)
           in name @ ''='' @ digits @ ''x''))"

definition count_of :: "u32 option \<Rightarrow> int option" where
  "count_of v = map_option uint v"

definition describe_trigger :: "digits \<Rightarrow> TriggerConfig \<Rightarrow> string" where
  "describe_trigger fd c =
     describeSettings
       [describeCount ''trigger.source'' (count_of (EdgeSource c)),
        describeChoice ''trigger.slope'' (map_option to_string_slope (Slope c)),
        describeSetting fd ''trigger.level'' Voltage (TriggerLevel c),
        describeChoice ''trigger.sweep'' (map_option to_string_sweep (Sweep c)),
        describeChoice ''trigger.coupling'' (map_option to_string_trigger_coupling (TriggerCouplingOf c)),
        describeChoice ''trigger.reject'' (map_option to_string_reject (Reject c)),
        describeSetting fd ''trigger.holdoff'' Time (Holdoff c)]"

definition describe_timebase :: "digits \<Rightarrow> TimebaseConfig \<Rightarrow> string" where
  "describe_timebase fd c =
     describeSettings
       [describeSetting fd ''timebase.perDivision'' Time (TimePerDivision c),
        describeSetting fd ''timebase.position'' Time (TimebasePosition c),
        describeChoice ''timebase.reference'' (map_option to_string_reference (TimebaseReferenceOf c))]"

definition describe_acquisition :: "AcquisitionConfig \<Rightarrow> string" where
  "describe_acquisition c =
     describeSettings
       [describeChoice ''acquire.type'' (map_option to_string_acquisition (AcquireType c)),
        (if AcquireType c = Some AcquireAveraged then describeCount ''acquire.averages'' (count_of (AverageCount c)) else [])]"

definition describe_channel :: "digits \<Rightarrow> ChannelConfig \<Rightarrow> string" where
  "describe_channel fd c =
     (let prefix = ''ch'' @ show_nat (unat (ConfigChannel c)) @ ''.''
      in describeSettings
           [describeChoice (prefix @ ''coupling'') (map_option to_string_coupling (ConfigCoupling c)),
            describeSetting fd (prefix @ ''perDiv'') Voltage (ConfigVoltsPerDivision c),
            describeSetting fd (prefix @ ''offset'') Voltage (ConfigVerticalOffset c),
            describeChoice (prefix @ ''bandwidth'') (map_option to_string_bandwidth (ConfigBandwidth c)),
            describeAttenuation (prefix @ ''probe'') (ConfigProbe c),
            describeChoice (prefix @ ''display'') (map_option to_string_display (ConfigDisplay c))])"

definition describe_single :: "digits \<Rightarrow> SingleConfig \<Rightarrow> string" where
  "describe_single fd c =
     describeSettings
       [''single.timeout='' @ describe_quantity fd (quantityVariantFromKind Time
          (case CaptureTimeout c of Some v \<Rightarrow> v | None \<Rightarrow> kDefaultCaptureTimeout)),
        ''single.armTimeout='' @ describe_quantity fd (quantityVariantFromKind Time
          (case ArmTimeout c of Some v \<Rightarrow> v | None \<Rightarrow> kDefaultArmTimeout))]"

text \<open>A configuration as the verbs see it. A verb that a configuration does not have does not compile.\<close>

datatype ScopeConfig =
    TriggerSetup TriggerConfig | TimebaseSetup TimebaseConfig | AcquisitionSetup AcquisitionConfig
  | ChannelSetup ChannelConfig | Single SingleConfig | TraceOf u32

fun scope_describe :: "digits \<Rightarrow> ScopeConfig \<Rightarrow> string" where
  "scope_describe fd (TriggerSetup c) = describe_trigger fd c"
| "scope_describe fd (TimebaseSetup c) = describe_timebase fd c"
| "scope_describe fd (AcquisitionSetup c) = describe_acquisition c"
| "scope_describe fd (ChannelSetup c) = describe_channel fd c"
| "scope_describe fd (Single c) = describe_single fd c"
| "scope_describe fd (TraceOf ch) = ''ch'' @ show_nat (unat ch)"

fun scope_setup :: "'t bench_env \<Rightarrow> nat \<Rightarrow> ScopeConfig \<Rightarrow> 't scope \<Rightarrow> (scope_error + unit) \<times> 't scope" where
  "scope_setup env i (TriggerSetup c) d = configureTrigger env i c d"
| "scope_setup env i (TimebaseSetup c) d = configureTimebase env i c d"
| "scope_setup env i (AcquisitionSetup c) d = configureAcquisition env i c d"
| "scope_setup env i (ChannelSetup c) d = configureChannel env i c d"
| "scope_setup env i _ d = (Inr (), d)"

definition scope_thrown :: "(scope_error + unit) \<times> 'w \<Rightarrow> string option \<times> 'w" where
  "scope_thrown r = (case r of (Inl e, w) \<Rightarrow> (Some (scope_error_text e), w) | (Inr _, w) \<Rightarrow> (None, w))"

definition scope_builder ::
    "'t bench_env \<Rightarrow> digits \<Rightarrow> (double \<Rightarrow> nat) \<Rightarrow> (double \<Rightarrow> 64 word) \<Rightarrow> nat \<Rightarrow> string \<Rightarrow> ScopeConfig \<Rightarrow> 't scope Builder" where
  "scope_builder env fd looks bits i name c =
     \<lparr>described_instrument = name, described_settings = scope_describe fd c, energisable = False, isEnergised = (\<lambda>w. (Inr False, w)),
      applyDriver = (\<lambda>w. (None, w)), removeDriver = (\<lambda>w. (None, w)),
      setupDriver = (\<lambda>w. scope_thrown (scope_setup env i c w)),
      armDriver = (\<lambda>w. case c of Single config \<Rightarrow> scope_thrown (armSingle env looks i config w) | _ \<Rightarrow> (None, w)),
      awaitDriver = (\<lambda>w. case c of
          Single config \<Rightarrow> (case awaitAcquisition env looks i config w of (r, w') \<Rightarrow> (map_sum scope_error_text (\<lambda>b. b) r, w'))
        | _ \<Rightarrow> (Inr False, w)),
      readDriver = (\<lambda>w. (Inr [], w)), writeDriver = (\<lambda>_ w. (None, w)),
      fetchDriver = (\<lambda>w. case c of
          TraceOf ch \<Rightarrow> (case fetchWaveform env bits i ch w of (r, w') \<Rightarrow> (map_sum scope_error_text (\<lambda>t. t) r, w'))
        | _ \<Rightarrow> (Inl [], w)),
      traceQualifier = (case c of TraceOf ch \<Rightarrow> ''Channel'' @ show_nat (unat ch) | _ \<Rightarrow> []),
      connectDriver = (\<lambda>_ _ f. (None, f)), disconnectDriver = (\<lambda>_ _ f. (None, f))\<rparr>"

end
