(* ===== verification/ScopeFacts.thy ===== *)
theory ScopeFacts
  imports Scope
begin

text \<open>
  What the oscilloscope's driver keeps: an Await answers for the Arm before it and for no other, arming
  asks in Keysight's order and ends, a reading of an edge says its thresholds, and a block of samples
  is read whole or refused.
\<close>

section \<open>Blocks\<close>

text \<open>The block an instrument sends of a payload.\<close>

definition definite_block :: "string \<Rightarrow> string" where
  "definite_block payload =
     ''#'' @ show_nat (length (show_nat (length payload))) @ show_nat (length payload) @ payload"

lemma length_show_nat: "n < 10 ^ Suc m \<Longrightarrow> length (show_nat n) \<le> Suc m"
proof (induction m arbitrary: n)
  case 0
  then show ?case by (simp add: show_nat.simps [of n])
next
  case (Suc m)
  show ?case
  proof (cases "n < 10")
    case False
    with Suc.prems have "n div 10 < 10 ^ Suc m" by (simp add: less_mult_imp_div_less mult.commute)
    from Suc.IH [OF this] False show ?thesis by (simp add: show_nat.simps [of n])
  qed (simp add: show_nat.simps [of n])
qed

lemma one_digit: "k < 10 \<Longrightarrow> show_nat k = [digit_char k]"
  by (simp add: show_nat.simps [of k])

lemma digit_char_is_digit: "k < 10 \<Longrightarrow> is_digit (digit_char k)"
  using show_nat_digits [of "digit_char k" k] by (simp add: one_digit)

lemma digit_char_val: "k < 10 \<Longrightarrow> digit_val (digit_char k) = k"
  using read_show_nat [of k] by (simp add: one_digit read_nat_def)

lemma header_of_length: "0 < k \<Longrightarrow> k < 10 \<Longrightarrow> header_digits (digit_char k) = Some k"
proof -
  assume k: "0 < k" "k < 10"
  have "digit_char k \<noteq> CHR ''0''"
  proof
    assume "digit_char k = CHR ''0''"
    with digit_char_val [OF k(2)] have "digit_val (CHR ''0'') = k" by simp
    with k(1) show False by (simp add: digit_val_def)
  qed
  with k show ?thesis by (simp add: header_digits_def digit_char_is_digit digit_char_val)
qed

text \<open>A block is '#', one digit for the length of its length, its length and its payload.\<close>

definition size_text :: "string \<Rightarrow> string" where
  "size_text payload = show_nat (length payload)"

lemma size_digits:
  assumes "length payload < 10 ^ 9"
  shows "0 < length (size_text payload)" "length (size_text payload) < 10" "list_all is_digit (size_text payload)"
    "read_nat (size_text payload) = length payload"
  using length_show_nat [of "length payload" 8] assms by (auto simp: size_text_def)

lemma block_parts:
  "length payload < 10 ^ 9 \<Longrightarrow>
     definite_block payload = CHR ''#'' # digit_char (length (size_text payload)) # size_text payload @ payload"
  using size_digits [of payload] by (simp add: definite_block_def size_text_def one_digit)

lemma read_block:
  assumes "length payload < 10 ^ 9"
  shows "samplesFromBlock instrument (definite_block payload @ rest) =
     (case samples_of instrument (block_fields payload) of
        Inl e \<Rightarrow> Inl e
      | Inr [] \<Rightarrow> Inl (block_fault instrument ''the block carries no samples'')
      | Inr vs \<Rightarrow> Inr vs)"
  using size_digits [OF assms] header_of_length [of "length (size_text payload)"]
  by (simp add: samplesFromBlock_def block_parts [OF assms])

lemma cut_block:
  assumes "length payload < 10 ^ 9" and "n < length (definite_block payload)"
  shows "\<exists>why. samplesFromBlock instrument (take n (definite_block payload)) = Inl (block_fault instrument why)"
proof -
  let ?size = "size_text payload"
  consider "n = 0" | "n = 1" | m where "n = Suc (Suc m)" "m < length ?size"
    | m where "n = Suc (Suc (length ?size + m))" "m < length payload"
  proof (cases "n < 2 + length ?size")
    case True
    then show ?thesis using that(1-3) by (cases n) (auto, metis not0_implies_Suc Suc_less_eq)
  next
    case False
    then obtain m where m: "n = 2 + length ?size + m" using le_Suc_ex by (metis not_less)
    with assms that(4) show ?thesis by (simp add: block_parts)
  qed
  then show ?thesis
  proof cases
    case 3
    have "header_digits (digit_char (length ?size)) = Some (length ?size)"
      using size_digits [OF assms(1)] by (simp add: header_of_length)
    with 3 show ?thesis by (auto simp: samplesFromBlock_def block_parts [OF assms(1)])
  next
    case 4
    have "header_digits (digit_char (length ?size)) = Some (length ?size)"
      using size_digits [OF assms(1)] by (simp add: header_of_length)
    with 4 show ?thesis using size_digits(3,4) [OF assms(1)]
      by (auto simp: samplesFromBlock_def block_parts [OF assms(1)])
  qed (auto simp: samplesFromBlock_def block_parts [OF assms(1)])
qed

lemma split_joined_parts:
  "parts \<noteq> [] \<Longrightarrow> list_all (\<lambda>p. c \<notin> set p) parts \<Longrightarrow> split_on c (joined [c] parts) = parts"
proof (induction parts)
  case (Cons p ps)
  then show ?case by (cases ps) (simp_all add: split_on_append split_on_plain)
qed simp

lemma sample_not_blank: "sample_value p = Some v \<Longrightarrow> p \<noteq> []"
  by (auto simp: sample_value_def from_chars_prefix_def read_decimal_def)

lemma samples_not_blank: "list_all2 (\<lambda>p v. sample_value p = Some v) parts vs \<Longrightarrow> p \<in> set parts \<Longrightarrow> p \<noteq> []"
  by (induction rule: list_all2_induct) (auto dest: sample_not_blank)

lemma samples_read: "list_all2 (\<lambda>p v. sample_value p = Some v) parts vs \<Longrightarrow> samples_of instrument parts = Inr vs"
  by (induction rule: list_all2_induct) simp_all

lemma parts_of_payload:
  assumes "parts \<noteq> []" and "list_all (\<lambda>p. CHR '','' \<notin> set p) parts" and "last parts \<noteq> []"
  shows "block_fields (joined '','' parts) = parts"
  using split_joined_parts [OF assms(1,2)] assms(3) by (simp add: block_fields_def)

text \<open>
  The samples of a block are read back, whatever the transport hands on after it, when every one is
  spelled as a number without a comma.
\<close>

theorem block_reads_back:
  assumes "list_all2 (\<lambda>p v. sample_value p = Some v) parts vs" and "parts \<noteq> []"
    and "list_all (\<lambda>p. CHR '','' \<notin> set p) parts" and "length (joined '','' parts) < 10 ^ 9"
  shows "samplesFromBlock instrument (definite_block (joined '','' parts) @ rest) = Inr vs"
proof -
  have "last parts \<noteq> []" using samples_not_blank [OF assms(1)] assms(2) last_in_set by blast
  moreover from assms(1,2) obtain w ws where "vs = w # ws" by (cases vs) auto
  ultimately show ?thesis
    using read_block [OF assms(4)] parts_of_payload [OF assms(2,3)] samples_read [OF assms(1)] by simp
qed

lemmas sample_eval = sample_value_def from_chars_prefix_def blank_or_tab_def read_decimal_def read_exponent_def is_digit_def
  read_nat_def digit_val_def pow10_def fits_double_def lower_def

theorem block_reads_back_witness:
  "samplesFromBlock ''scope'' (definite_block (joined '','' [''+5.0E+00'', ''-2.5E-01'']) @ [CHR 0x0A]) = Inr [Fin 5, Fin (- (1 / 4))]"
  by (rule block_reads_back) (simp_all add: sample_eval)

text \<open>
  A block whose end the transport lost is refused: of every block whose payload its header can give
  the size of, no beginning short of the whole is taken for samples, whatever is in it.
\<close>

theorem short_block_is_refused:
  assumes "length payload < 10 ^ 9" and "n < length (definite_block payload)"
  shows "\<exists>why. samplesFromBlock instrument (take n (definite_block payload)) = Inl (block_fault instrument why)"
  using cut_block [OF assms] .

theorem short_block_is_refused_witness:
  "\<exists>why. samplesFromBlock ''scope'' (take 12 (definite_block ''+5.0E+00,-2.5E-01'')) = Inl (block_fault ''scope'' why)"
  by (rule short_block_is_refused) (simp_all add: definite_block_def show_nat.simps)

text \<open>The end of a field is not looked at: what follows a number in it is lost.\<close>

lemma field_end_unread: "sample_value ''5.02 V'' = sample_value ''5.02''" "sample_value ''1.2.3'' = sample_value ''1.2''"
  by (simp_all add: sample_eval)

section \<open>Arming\<close>

text \<open>
  Arming stops the scope, waits until it has stopped, arms it, and asks whether it is armed until it
  says so, at most once more than the clock allows; nothing is sent after a command that failed.
\<close>

lemma poll_armed_told:
  "\<exists>k \<le> Suc looks. told_instrument (snd (snd (poll_armed looks why (logging tr) s))) = told_instrument (snd s) @ replicate k '':AER?''
     \<and> (fst (poll_armed looks why (logging tr) s) = Inr () \<longrightarrow> 0 < k)"
proof (induction looks arbitrary: s)
  case 0
  obtain r s1 where q: "scpi_queryNumber (logging tr) '':AER?'' s = (r, s1)"
    by (cases "scpi_queryNumber (logging tr) '':AER?'' s")
  with queryNumber_told [of "'':AER?''" tr s] show ?case
    by (intro exI [of _ 1]) (auto split: sum.splits)
next
  case (Suc looks)
  obtain r s1 where q: "scpi_queryNumber (logging tr) '':AER?'' s = (r, s1)"
    by (cases "scpi_queryNumber (logging tr) '':AER?'' s")
  with queryNumber_told [of "'':AER?''" tr s] have t: "told_instrument (snd s1) = told_instrument (snd s) @ ['':AER?'']" by simp
  show ?case
  proof (cases "\<exists>v. r = Inr v \<and> d_eq v (Fin 0)")
    case True
    from Suc.IH [of s1] obtain k where k: "k \<le> Suc looks"
      "told_instrument (snd (snd (poll_armed looks why (logging tr) s1))) = told_instrument (snd s1) @ replicate k '':AER?''" by blast
    with True q t show ?thesis by (intro exI [of _ "Suc k"]) auto
  next
    case False
    with q t show ?thesis by (intro exI [of _ 1]) (auto split: sum.splits)
  qed
qed

lemma scope_waits_told: "told_instrument (snd (snd (scpi_waitForComplete (logging tr) s))) = told_instrument (snd s) @ [''*OPC?'']"
  using queryChecked_told [of "''*OPC?''" tr s]
  by (auto simp: scpi_waitForComplete_def split: sum.splits prod.splits)

theorem arming_in_order:
  "\<exists>n k. k \<le> Suc (looks timeout) \<and>
     (let sent = told_instrument (snd (snd (arm_sequence looks timeout (logging tr) s)));
          opening = ['':STOP'', ''*OPC?'', '':SINGle'']
      in sent = told_instrument (snd s) @ take n opening @ (if n < length opening then [] else replicate k '':AER?'') \<and>
         (fst (arm_sequence looks timeout (logging tr) s) = Inr () \<longrightarrow> length opening \<le> n \<and> 0 < k))"
proof -
  obtain r1 s1 where c1: "scpi_checked (logging tr) '':STOP'' s = (r1, s1)"
    by (cases "scpi_checked (logging tr) '':STOP'' s")
  with checked_told [of "'':STOP''" tr s] have t1: "told_instrument (snd s1) = told_instrument (snd s) @ ['':STOP'']" by simp
  obtain r2 s2 where c2: "scpi_waitForComplete (logging tr) s1 = (r2, s2)"
    by (cases "scpi_waitForComplete (logging tr) s1")
  with scope_waits_told [of tr s1] t1 have t2: "told_instrument (snd s2) = told_instrument (snd s) @ ['':STOP'', ''*OPC?'']" by simp
  obtain r3 s3 where c3: "scpi_checked (logging tr) '':SINGle'' s2 = (r3, s3)"
    by (cases "scpi_checked (logging tr) '':SINGle'' s2")
  with checked_told [of "'':SINGle''" tr s2] t2
  have t3: "told_instrument (snd s3) = told_instrument (snd s) @ ['':STOP'', ''*OPC?'', '':SINGle'']" by simp
  note armed = poll_armed_told [of "looks timeout" _ tr s3]
  show ?thesis
  proof (cases "(\<exists>e. r1 = Inl e) \<or> (\<exists>e. r2 = Inl e) \<or> (\<exists>e. r3 = Inl e)")
    case True
    then consider e where "r1 = Inl e" | e where "r1 = Inr ()" "r2 = Inl e" | e where "r1 = Inr ()" "r2 = Inr ()" "r3 = Inl e"
      by (metis old.sum.exhaust old.unit.exhaust)
    then show ?thesis
    proof cases
      case 1
      then show ?thesis using c1 t1 by (intro exI [of _ 1] exI [of _ 0]) (simp add: arm_sequence_def)
    next
      case 2
      then show ?thesis using c1 c2 t2 by (intro exI [of _ 2] exI [of _ 0]) (simp add: arm_sequence_def)
    next
      case 3
      then show ?thesis using c1 c2 c3 t3 by (intro exI [of _ 3] exI [of _ 0]) (simp add: arm_sequence_def)
    qed
  next
    case False
    then have "r1 = Inr ()" "r2 = Inr ()" "r3 = Inr ()" by (metis old.sum.exhaust old.unit.exhaust)+
    with c1 c2 c3 have seq: "arm_sequence looks timeout (logging tr) s =
        poll_armed (looks timeout) ('' did not report itself armed within '' @ scpi_number timeout @ '' s of :SINGle'') (logging tr) s3"
      by (simp add: arm_sequence_def)
    from armed obtain k where "k \<le> Suc (looks timeout)"
      "told_instrument (snd (snd (arm_sequence looks timeout (logging tr) s))) = told_instrument (snd s3) @ replicate k '':AER?''"
      "fst (arm_sequence looks timeout (logging tr) s) = Inr () \<longrightarrow> 0 < k" unfolding seq by blast
    with t3 show ?thesis by (intro exI [of _ 3] exI [of _ k]) simp
  qed
qed

section \<open>An Await answers for its own Arm\<close>

datatype scope_call =
    CallSetup ScopeConfig | CallArm SingleConfig | CallAwait SingleConfig | CallFetch u32 | CallPress u32 ScopeMode
  | CallMeasure QuantityKind "double option" "double option" | CallSafe | CallIdentity | CallClose | CallAddress address
  | CallCompletes bool | CallVpp u32 double

datatype scope_event = CaptureArmed | ArmFailed | CaptureAnswered bool | AwaitFailed | Safed | Unrelated

fun scope_perform ::
    "'t bench_env \<Rightarrow> (double \<Rightarrow> nat) \<Rightarrow> (double \<Rightarrow> 64 word) \<Rightarrow> nat \<Rightarrow> scope_call \<Rightarrow> 't scope \<Rightarrow> scope_event \<times> 't scope" where
  "scope_perform env looks bits i (CallSetup c) d = (Unrelated, snd (scope_setup env i c d))"
| "scope_perform env looks bits i (CallArm c) d =
     (case armSingle env looks i c d of (Inl e, d') \<Rightarrow> (ArmFailed, d') | (Inr _, d') \<Rightarrow> (CaptureArmed, d'))"
| "scope_perform env looks bits i (CallAwait c) d =
     (case awaitAcquisition env looks i c d of (Inl e, d') \<Rightarrow> (AwaitFailed, d') | (Inr b, d') \<Rightarrow> (CaptureAnswered b, d'))"
| "scope_perform env looks bits i (CallFetch ch) d = (Unrelated, snd (fetchWaveform env bits i ch d))"
| "scope_perform env looks bits i (CallPress n mode) d = (Unrelated, (fst d, scope_press n mode (snd d)))"
| "scope_perform env looks bits i (CallMeasure k low high) d = (Unrelated, snd (scope_rawMeasure env i k low high d))"
| "scope_perform env looks bits i CallSafe d = (Safed, scope_safe env i d)"
| "scope_perform env looks bits i CallIdentity d = (Unrelated, snd (scope_identity env i d))"
| "scope_perform env looks bits i CallClose d = (Unrelated, device_closeSession env i d)"
| "scope_perform env looks bits i (CallAddress a) d = (Unrelated, device_useAddress i a d)"
| "scope_perform env looks bits i (CallCompletes b) d = (Unrelated, (fst d, setSimulatedCaptureCompletes b (snd d)))"
| "scope_perform env looks bits i (CallVpp ch v) d =
     (Unrelated, (fst d, case scope_setSimulatedVpp ch v (snd d) of Inl e \<Rightarrow> snd d | Inr s \<Rightarrow> s))"

fun scope_calls ::
    "'t bench_env \<Rightarrow> (double \<Rightarrow> nat) \<Rightarrow> (double \<Rightarrow> 64 word) \<Rightarrow> nat \<Rightarrow> scope_call list \<Rightarrow> 't scope \<Rightarrow> scope_event list" where
  "scope_calls env looks bits i [] d = []"
| "scope_calls env looks bits i (c # cs) d = (case scope_perform env looks bits i c d of (e, d') \<Rightarrow> e # scope_calls env looks bits i cs d')"

text \<open>Every capture that is said to be complete was armed, and nothing came between that ends an Arm.\<close>

fun matched :: "bool \<Rightarrow> scope_event list \<Rightarrow> bool" where
  "matched armed [] = True"
| "matched armed (CaptureArmed # es) = matched True es"
| "matched armed (CaptureAnswered True # es) = (armed \<and> matched False es)"
| "matched armed (Unrelated # es) = matched armed es"
| "matched armed (_ # es) = matched False es"

lemma on_wire_state [simp]: "snd (snd (scope_on_wire env i act d)) = snd d"
  by (simp add: scope_on_wire_def split: prod.split)

lemma isSimulated_state [simp]: "snd (snd (scope_isSimulated env i d)) = snd d"
  by (simp add: scope_isSimulated_def split: prod.split)

lemma setup_state [simp]: "snd (snd (setup_scope env i commands d)) = snd d"
  by (auto simp: setup_scope_def split: prod.split bool.split) (metis isSimulated_state on_wire_state snd_conv)+

lemma change_channel_armed: "change_channel ch f s = Inr s' \<Longrightarrow> mArmed s' = mArmed s"
  by (auto simp: change_channel_def split: option.splits)

lemma setup_armed: "mArmed (snd (snd (scope_setup env i c d))) = mArmed (snd d)"
  by (cases c)
     (auto simp: configureTrigger_def configureTimebase_def configureAcquisition_def configureChannel_def remember_trigger_def
       remember_timebase_def remember_acquisition_def change_channel_armed split: sum.split)

lemma scope_simulated_state: "scope_isSimulated env i d = (sim, b, s) \<Longrightarrow> s = snd d"
  using isSimulated_state [of env i d] by simp

lemma wire_state: "scope_on_wire env i act d = (r, b, s) \<Longrightarrow> s = snd d"
  using on_wire_state [of env i act d] by simp

lemma fetch_armed: "mArmed (snd (snd (fetchWaveform env bits i ch d))) = mArmed (snd d)"
  by (auto simp: fetchWaveform_def split: prod.split bool.split option.split dest!: scope_simulated_state)

lemma measure_armed: "mArmed (snd (snd (scope_rawMeasure env i k low high d))) = mArmed (snd d)"
  by (auto simp: scope_rawMeasure_def Let_def split: prod.split bool.split option.split dest!: scope_simulated_state wire_state)

lemma arm_armed: "mArmed (snd (snd (armSingle env looks i c d))) \<longleftrightarrow> fst (armSingle env looks i c d) = Inr ()"
  by (auto simp: armSingle_def Let_def split: prod.split bool.split sum.split dest!: scope_simulated_state wire_state)

lemma await_armed:
  "\<not> mArmed (snd (snd (awaitAcquisition env looks i c d)))"
  "fst (awaitAcquisition env looks i c d) = Inr True \<Longrightarrow> mArmed (snd d)"
  by (auto simp: awaitAcquisition_def Let_def split: prod.splits bool.splits sum.splits if_splits dest!: scope_simulated_state wire_state)

lemma calls_matched: "matched (mArmed (snd d)) (scope_calls env looks bits i cs d)"
proof (induction cs arbitrary: d)
  case (Cons c cs)
  obtain e d' where s: "scope_perform env looks bits i c d = (e, d')"
    by (cases "scope_perform env looks bits i c d")
  note step = Cons.IH [of d']
  have "matched (mArmed (snd d)) (e # es)" if "matched (mArmed (snd d')) es" for es
  proof (cases c)
    case (CallArm x)
    with s that arm_armed [of env looks i x d] show ?thesis by (auto split: prod.splits sum.splits)
  next
    case (CallAwait x)
    with s that await_armed [of env looks i x d] show ?thesis
      by (auto split: prod.splits sum.splits) (metis (full_types) matched.simps(3,6))
  next
    case (CallVpp ch v)
    with s that show ?thesis
      by (auto simp: scope_setSimulatedVpp_def change_channel_armed split: sum.splits)
  qed (use s that setup_armed [of env i _ d] fetch_armed [of env bits i _ d] measure_armed [of env i _ _ _ d] in
       \<open>auto simp: scope_press_def scope_safe_def scope_identity_def device_closeSession_def device_useAddress_def
          setSimulatedCaptureCompletes_def\<close>)
  with step s show ?case by simp
qed simp

text \<open>
  C22: Whatever is done to the oscilloscope, on a bench or simulated, a capture that Await says is complete was
  armed by an Arm that succeeded, with no Await, no failed Arm and no safing between them.
\<close>

theorem await_answers_for_its_arm:
  "matched False (scope_calls env looks bits i calls (boxes, new_scope))"
  using calls_matched [of "(boxes, new_scope)" env looks bits i calls] by (simp add: new_scope_def)

section \<open>Readings\<close>

text \<open>An edge is never measured between thresholds an earlier reading left behind.\<close>

lemma reading_told:
  assumes "fst (readMeasurement mode ch low high (logging tr) s) = Inr v"
  shows "told_instrument (snd (snd (readMeasurement mode ch low high (logging tr) s))) =
    told_instrument (snd s) @ threshold_commands mode ch low high @ [measure_query mode ch]"
proof -
  have clean: "''SYST:ERR?'' \<notin> set (threshold_commands mode ch low high)" "measure_query mode ch \<noteq> ''SYST:ERR?''"
    by (simp_all add: threshold_commands_def threshold_command_def measure_query_def Let_def)
  obtain r s1 where c: "checked_all (logging tr) (threshold_commands mode ch low high) s = (r, s1)"
    by (cases "checked_all (logging tr) (threshold_commands mode ch low high) s")
  with assms obtain u where r: "r = Inr u" by (cases r) (simp_all add: readMeasurement_def)
  with checked_all_told [OF clean(1), of tr s] c
  have t: "told_instrument (snd s1) = told_instrument (snd s) @ threshold_commands mode ch low high" by auto
  from queryNumber_told [OF clean(2), of tr s1] c r t show ?thesis
    by (auto simp: readMeasurement_def split: prod.splits sum.splits)
qed

text \<open>
  The thresholds the two edge ports are made with are those of the instrument's standard: a tenth and
  nine tenths, as doubles and times a hundred, are ten and ninety.
\<close>

lemma round_double_at:
  assumes "2 powi e \<le> x" and "x < 2 powi (e + 1)" and "- 1022 \<le> e" and "half_even (x / 2 powi (e - 52)) = h"
    and "of_int h * 2 powi (e - 52) < (2 :: rat) ^ 10"
  shows "round_double x = Fin (of_int h * 2 powi (e - 52))"
proof -
  have "0 < x" using assms(1) zero_less_power_int [of "2 :: rat" e] by linarith
  moreover have "(2 :: rat) ^ 10 \<le> double_limit" unfolding double_limit_def by (rule power_increasing) simp_all
  ultimately show ?thesis
    using ilog2_unique [OF assms(1,2)] assms(3-5) by (simp add: round_double_def Let_def max_def)
qed

lemma two_powi: "(2 :: rat) powi (- 56) = 1 / 72057594037927936" "(2 :: rat) powi (- 53) = 1 / 9007199254740992"
  "(2 :: rat) powi (- 49) = 1 / 562949953421312" "(2 :: rat) powi (- 46) = 1 / 70368744177664"
  by (simp_all add: power_int_minus)

lemma small_powi: "(2 :: rat) powi (- 4) = 1 / 16" "(2 :: rat) powi (- 3) = 1 / 8" "(2 :: rat) powi (- 1) = 1 / 2"
  by (simp_all add: power_int_minus)

lemma half_even_down: "of_int h < x \<Longrightarrow> x < of_int h + 1 / 2 \<Longrightarrow> half_even x = h"
proof -
  assume "of_int h < x" "x < of_int h + 1 / 2"
  moreover from this have "\<lfloor>x\<rfloor> = h" by (simp add: floor_unique)
  ultimately show ?thesis by (simp add: half_even_def Let_def)
qed

lemma half_even_up: "of_int h - 1 / 2 < x \<Longrightarrow> x < of_int h \<Longrightarrow> half_even x = h"
proof -
  assume "of_int h - 1 / 2 < x" "x < of_int h"
  moreover from this have "\<lfloor>x\<rfloor> = h - 1" by (simp add: floor_unique)
  ultimately show ?thesis by (simp add: half_even_def Let_def)
qed

lemma tenth: "round_double (1 / 10) = Fin (7205759403792794 / 72057594037927936)"
proof -
  have "half_even ((1 / 10) / 2 powi (- 4 - 52)) = 7205759403792794" by (rule half_even_up) (simp_all add: two_powi)
  with round_double_at [of "- 4" "1 / 10" 7205759403792794] show ?thesis by (simp add: two_powi small_powi)
qed

lemma nine_tenths: "round_double (9 / 10) = Fin (8106479329266893 / 9007199254740992)"
proof -
  have "half_even ((9 / 10) / 2 powi (- 1 - 52)) = 8106479329266893" by (rule half_even_up) (simp_all add: two_powi)
  with round_double_at [of "- 1" "9 / 10" 8106479329266893] show ?thesis by (simp add: two_powi small_powi)
qed

lemma tenth_percent: "round_double (7205759403792794 / 72057594037927936 * 100) = Fin 10"
proof -
  have "half_even ((7205759403792794 / 72057594037927936 * 100) / 2 powi (3 - 52)) = 5629499534213120"
    by (rule half_even_down) (simp_all add: two_powi)
  with round_double_at [of 3 "7205759403792794 / 72057594037927936 * 100" 5629499534213120] show ?thesis by (simp add: two_powi)
qed

lemma nine_tenths_percent: "round_double (8106479329266893 / 9007199254740992 * 100) = Fin 90"
proof -
  have "half_even ((8106479329266893 / 9007199254740992 * 100) / 2 powi (6 - 52)) = 6333186975989760"
    by (rule half_even_down) (simp_all add: two_powi)
  with round_double_at [of 6 "8106479329266893 / 9007199254740992 * 100" 6333186975989760] show ?thesis by (simp add: two_powi)
qed

theorem edges_measured_by_the_standard:
  "mode \<in> {MRiseTime, MFallTime} \<Longrightarrow>
     threshold_commands mode ch (fst (port_thresholds mode)) (snd (port_thresholds mode)) =
       ['':MEASure:DEFine THResholds,STANdard,'' @ scope_sourceOf ch]"
proof -
  have "percent (round_double (1 / 10)) = Fin 10" "percent (round_double (9 / 10)) = Fin 90"
    using tenth_percent nine_tenths_percent by (simp_all only: tenth nine_tenths percent.simps)
  then show "mode \<in> {MRiseTime, MFallTime} \<Longrightarrow> ?thesis"
    by (auto simp: threshold_commands_def threshold_command_def Let_def)
qed

text \<open>Two ports of one quantity, made before either is read, are read as the one made last.\<close>

lemma last_port_made_is_read:
  "scope_rawMeasure env i k low high (b, scope_press n mode (scope_press m other s)) =
     scope_rawMeasure env i k low high (b, scope_press n mode s)"
  by (simp add: scope_press_def)

end
