(* ===== verification/VerbFacts.thy ===== *)
theory VerbFacts
  imports Verbs
begin

text \<open>
  What holds of the verbs of the theory Verbs, for every driver, every session and every way a call
  can end: measurements give their relays back, a detached bench is left alone, the interlock is asked before
  anything moves, and a relay is closed exactly when something that was connected holds it.
\<close>

section \<open>One fetch\<close>

lemma bank_fetch_rig:
  assumes "P rig" and "P rig \<Longrightarrow> P (snd (live rig))"
  shows "P (snd (snd (bank_fetch fmt bench here q live (b, rig))))"
  using assms
  by (auto simp: bank_fetch_def recorder_fetch_def switchable_fetch_def live_fetch_def
      split: prod.splits sum.splits option.splits pointed_at.splits)

lemma session_fetch_fabric:
  assumes "P (fabric w)" and "\<And>s. P (fst s) \<Longrightarrow> P (fst (snd (live s)))"
  shows "P (fabric (snd (snd (session_fetch rig instrument q live w))))"
proof -
  let ?here = "\<lparr>currentTest = mTest (journal w), wallClockMillis = clock (journal w) (clock_reads (journal w)), instrumentId = instrument\<rparr>"
  have "P (fst (snd (snd (bank_fetch (rig_number rig) (rig_bench rig) ?here q live (mSessions w, fabric w, [])))))"
    by (rule bank_fetch_rig [where P = "\<lambda>s. P (fst s)"]) (use assms in simp_all)
  then show ?thesis by (auto simp: session_fetch_def Let_def split: prod.splits)
qed

lemma bay_post_fabric [simp]: "fabric (bay_post r w) = fabric w" "mSessions (bay_post r w) = mSessions w"
  by (simp_all add: bay_post_def)

lemma finish_measure_fabric [simp]:
  "fabric (snd (finish_measure rig p key desc r)) = fabric (snd (snd r))"
  by (auto simp: finish_measure_def split: prod.splits sum.splits)

section \<open>A measurement gives its relays back\<close>

definition same_uses :: "'h SwitchFabric \<Rightarrow> 'h SwitchFabric \<Rightarrow> bool" where
  "same_uses f g \<longleftrightarrow> fabric_ok g \<and> uses g = uses f"

lemma hardware_uses [simp]: "uses (f\<lparr>hardware := h\<rparr>) = uses f" "fabric_ok (f\<lparr>hardware := h\<rparr>) = fabric_ok f"
  by (simp_all add: uses_def fabric_ok_def fun_eq_iff)

lemma same_uses_hardware [simp]: "same_uses f (g\<lparr>hardware := h\<rparr>) = same_uses f g"
  by (simp add: same_uses_def)

lemma readOrSubstitute_fabric: "\<exists>h. fst (snd (readOrSubstitute p s)) = (fst s)\<lparr>hardware := h\<rparr>"
  by (auto simp: readOrSubstitute_def split: prod.splits sum.splits port_fault.splits)

lemma routed_read_uses:
  assumes "fabric_ok (fst s)"
  shows "same_uses (fst s) (fst (snd (routed_read rig p path s)))"
proof -
  obtain r f where c: "fabric_connect (mDriver rig) path (fst s) = (r, f)" by force
  note connected = connect_uses [OF assms c]
  show ?thesis
  proof (cases r)
    case (Some e)
    with c connected show ?thesis by (simp add: routed_read_def same_uses_def)
  next
    case None
    obtain v f' reason where v: "readOrSubstitute p (f, snd s) = (v, f', reason)" by (cases "readOrSubstitute p (f, snd s)") auto
    obtain h where f': "f' = f\<lparr>hardware := h\<rparr>" using readOrSubstitute_fabric [of p "(f, snd s)"] v by auto
    obtain e f'' where d: "fabric_disconnect (mDriver rig) path f' = (e, f'')" by force
    have "fabric_ok f'" using f' connected by simp
    from disconnect_uses [OF this d] have "fabric_ok f''" "uses f'' = uses (fst s)"
      using f' connected None uses_nonneg [OF assms] by (auto simp: fun_eq_iff)
    with None c v d show ?thesis
      by (cases v; cases e) (simp_all add: routed_read_def same_uses_def)
  qed
qed

lemma liveRead_uses:
  assumes "fabric_ok (fst s)"
  shows "same_uses (fst s) (fst (snd (liveRead rig p point s)))"
proof -
  have "same_uses (fst s) (fst s)" using assms by (simp add: same_uses_def)
  moreover obtain h where "fst (snd (readOrSubstitute p s)) = (fst s)\<lparr>hardware := h\<rparr>"
    using readOrSubstitute_fabric [of p s] by auto
  ultimately show ?thesis
    using routed_read_uses [OF assms]
    by (auto simp: liveRead_def Let_def split: prod.splits sum.splits)
qed

lemma measure_at_uses:
  fixes w :: "'h Bay"
  assumes "fabric_ok (fabric w)"
  shows "same_uses (fabric w) (fabric (snd (measure_at rig p point w)))"
  unfolding measure_at_def finish_measure_fabric
proof (rule session_fetch_fabric [where P = "same_uses (fabric w)"])
  fix s :: "'h reading_state"
  assume "same_uses (fabric w) (fst s)"
  with liveRead_uses [of s rig p point] show "same_uses (fabric w) (fst (snd (liveRead rig p point s)))"
    by (simp add: same_uses_def)
qed (use assms in \<open>simp add: same_uses_def\<close>)

lemma measure_port_uses:
  fixes w :: "'h Bay"
  assumes "fabric_ok (fabric w)"
  shows "same_uses (fabric w) (fabric (snd (measure_port rig p w)))"
proof (cases "taps (mTapWiring rig) (port_instrument p)")
  case False
  have "same_uses (fabric w) (fabric (snd (snd (session_fetch rig i q
      (\<lambda>s. case readOrSubstitute p s of (r, s') \<Rightarrow> (quantity_value p r, s')) w))))" for i q
  proof (rule session_fetch_fabric [where P = "same_uses (fabric w)"])
    fix s :: "'h reading_state"
    assume "same_uses (fabric w) (fst s)"
    moreover obtain h where "fst (snd (readOrSubstitute p s)) = (fst s)\<lparr>hardware := h\<rparr>"
      using readOrSubstitute_fabric [of p s] by auto
    ultimately show "same_uses (fabric w) (fst (snd (case readOrSubstitute p s of (r, s') \<Rightarrow> (quantity_value p r, s'))))"
      by (cases "readOrSubstitute p s") simp
  qed (use assms in \<open>simp add: same_uses_def\<close>)
  with False show ?thesis by (simp add: measure_port_def)
qed (use assms in \<open>simp add: measure_port_def same_uses_def\<close>)

lemma session_uses:
  assumes "fabric_ok (fabric w)"
    and "\<And>s. same_uses (fabric w) (fst s) \<Longrightarrow> same_uses (fabric w) (fst (snd (live s)))"
  shows "same_uses (fabric w) (fabric (snd (snd (session_fetch rig i q live w))))"
  by (rule session_fetch_fabric [where P = "same_uses (fabric w)"]) (use assms in \<open>simp_all add: same_uses_def\<close>)

lemma live_of_uses: "same_uses f (fst s) \<Longrightarrow> same_uses f (fst (snd (live_of wrap reader s)))"
  by (simp add: live_of_def split: prod.split sum.split)

lemma outcome_snd [simp]: "snd (outcome r) = snd r"
  by (simp add: outcome_def split: prod.split sum.split)

lemma acquiring_fabric:
  "fabric (snd (awaitEngine rig b w)) =
     fabric (snd (snd (session_fetch rig (described_instrument b) (FlagSeam, described_instrument b @ ''.Acquisition'')
       (live_of Flag (awaitDriver b)) w)))"
  "fabric (snd (readEngine rig b w)) =
     fabric (snd (snd (session_fetch rig (described_instrument b) (DataSeam, described_instrument b @ ''.Data'')
       (live_of Payload (readDriver b)) w)))"
  "fabric (snd (fetchEngine rig b w)) =
     fabric (snd (snd (session_fetch rig (described_instrument b) (TraceSeam, described_instrument b @ ''.'' @ traceQualifier b)
       (live_of Trace (fetchDriver b)) w)))"
  by (auto simp: awaitEngine_def readEngine_def fetchEngine_def Let_def split: prod.splits sum.splits RecordedValue.splits)

lemma acquiring_uses:
  assumes "fabric_ok (fabric w)"
  shows "same_uses (fabric w) (fabric (snd (awaitEngine rig b w)))"
    and "same_uses (fabric w) (fabric (snd (readEngine rig b w)))"
    and "same_uses (fabric w) (fabric (snd (fetchEngine rig b w)))"
  unfolding acquiring_fabric by (intro session_uses assms live_of_uses; assumption)+

lemma then_post_fabric [simp]: "(\<And>w. fabric (posted w) = fabric w) \<Longrightarrow> fabric (snd (then_post posted r)) = fabric (snd r)"
  by (simp add: then_post_def split: prod.split option.split)

lemma postSourceEvent_fabric [simp]:
  "fabric (postSourceEvent rig m b s h w) = fabric w" "fabric (post_routed rig m b bundle h w) = fabric w"
  by (simp_all add: postSourceEvent_def post_routed_def split: option.split)

lemma if_attached_uses: "fabric_ok (fabric w) \<Longrightarrow> same_uses (fabric w) (fabric (snd (if_attached rig driver w)))"
  by (simp add: if_attached_def same_uses_def split: prod.split)

lemma energisedNow_uses: "fabric_ok (fabric w) \<Longrightarrow> same_uses (fabric w) (fabric (snd (energisedNow rig b w)))"
  by (simp add: energisedNow_def same_uses_def split: prod.split)

fun moves_relays :: "'h verb_call \<Rightarrow> bool" where
  "moves_relays (DoConnect b bundle) = True"
| "moves_relays (DoDisconnect b bundle) = True"
| "moves_relays _ = False"

lemma verb_uses:
  assumes "fabric_ok (fabric w)" and "\<not> moves_relays call"
  shows "same_uses (fabric w) (fabric (snd (run_verb rig call w)))"
  using assms
  by (cases call)
    (simp_all add: measure_at_uses measure_port_uses acquiring_uses if_attached_uses
      applyEngine_def setupEngine_def removeEngine_def armEngine_def writeEngine_def)


text \<open>The bench rig with a source on its pin, whose hardware is whether that source is on, and a meter.\<close>

definition sample_rig :: "bool \<Rightarrow> bool Rig" where
  "sample_rig attached =
     \<lparr>mDriver = None, mInstrumentWiring = map the dev_instrument_rows, mConnectorWiring = map the dev_connector_rows,
      mTapWiring = [], mSourceWiring = dev_sources, rig_sources = [(''DcP7'', \<lambda>on. on)],
      rig_bench = \<lparr>mAttached = attached\<rparr>, rig_number = (\<lambda>_. []), rig_digits = (\<lambda>_ _. [])\<rparr>"

definition sample_port :: "QuantityKind \<Rightarrow> bool Port" where
  "sample_port k = \<lparr>port_kind = k, port_instrument = ''Dmm2'', port_sense = False, port_qualifier = [],
     rawMeasure = (\<lambda>h. (Inl (PortFailure ''timeout''), h)), mUnmeasurable = None\<rparr>"

definition sample_point :: AdapterPoint where
  "sample_point = \<lparr>LocationValue = vpc RackA 1 1, KindValue = SourcePoint, PointName = ''DeskTerminal'', PointDescription = []\<rparr>"

definition sample_bay :: "bool Bay" where
  "sample_bay = \<lparr>fabric = \<lparr>mUseCount = (\<lambda>_. None), hardware = True\<rparr>,
     journal = fresh_journal [0] blank_info (\<lambda>n. int n), mSessions = new_bank\<rparr>"


section \<open>The interlock\<close>

lemma finish_measure_error: "fst r = Inl e \<Longrightarrow> finish_measure rig p key desc r = (Inl e, snd (snd r))"
  by (cases r) (simp add: finish_measure_def split: prod.split)



section \<open>A detached bench\<close>

lemma detached_fetch:
  assumes "\<not> mAttached (rig_bench rig)"
  shows "fabric (snd (snd (session_fetch rig i q live w))) = fabric w"
  using assms
  by (auto simp: session_fetch_def Let_def bank_fetch_def recorder_fetch_def switchable_fetch_def live_fetch_def
      split: prod.splits sum.splits option.splits pointed_at.splits)

text \<open>
  On a detached bench no verb touches the rig: not the relays, not an instrument, whatever the verb and
  whatever its driver would have done.
\<close>

theorem detached_verbs_leave_rig:
  assumes "\<not> mAttached (rig_bench rig)"
  shows "fabric (snd (run_verb rig call w)) = fabric w"
  using assms
  by (cases call)
    (auto simp: measure_at_def measure_port_def acquiring_fabric detached_fetch if_attached_def move_fabric_def
      applyEngine_def setupEngine_def removeEngine_def armEngine_def writeEngine_def connectEngine_def disconnectEngine_def
      energisedNow_def split: prod.splits sum.splits)

theorem detached_verbs_leave_rig_witness:
  "fabric (snd (run_verb (sample_rig False) (DoMeasureAt (sample_port Voltage) sample_point) sample_bay)) = fabric sample_bay"
  by (rule detached_verbs_leave_rig) (simp add: sample_rig_def)

section \<open>One event for a call that returns\<close>

definition logged :: "Journal \<Rightarrow> string option \<times> 'h Bay \<Rightarrow> bool" where
  "logged j r \<longleftrightarrow>
     length (told (journal (snd r))) = length (told j) + (if fst r = None then 1 else 0) \<and>
     (\<forall>sink. reader_agrees sink j \<longrightarrow> reader_agrees sink (journal (snd r)))"

lemma told_bay_post: "journal (bay_post r w) = post r (journal w)"
  by (simp add: bay_post_def)

lemma reader_agrees_reads [simp]: "reader_agrees sink (j\<lparr>clock_reads := n\<rparr>) = reader_agrees sink j"
  by (simp add: reader_agrees_def heard_def)

lemma session_fetch_log:
  "told (journal (snd (snd (session_fetch rig i q live w)))) = told (journal w) \<and>
   (reader_agrees sink (journal w) \<longrightarrow> reader_agrees sink (journal (snd (snd (session_fetch rig i q live w)))))"
  by (simp add: session_fetch_def Let_def split: prod.split)

lemma logged_post: "told (journal w) = told j \<Longrightarrow> (\<And>sink. reader_agrees sink j \<Longrightarrow> reader_agrees sink (journal w)) \<Longrightarrow>
    logged j (None, bay_post r w)"
  by (simp add: logged_def told_bay_post post_agrees)

lemma logged_throw: "told (journal w) = told j \<Longrightarrow> (\<And>sink. reader_agrees sink j \<Longrightarrow> reader_agrees sink (journal w)) \<Longrightarrow>
    logged j (Some e, w)"
  by (simp add: logged_def)

lemma logged_fetch:
  assumes "session_fetch rig i q live w = (r, reason, w')"
  shows "told (journal w') = told (journal w)" and "reader_agrees sink (journal w) \<Longrightarrow> reader_agrees sink (journal w')"
  using session_fetch_log [of rig i q live w sink] assms by simp_all

lemma logged_measure: "logged (journal w) (outcome (finish_measure rig p key desc (session_fetch rig i q live w)))"
proof -
  obtain r reason w' where f: "session_fetch rig i q live w = (r, reason, w')" by (cases "session_fetch rig i q live w") auto
  note facts = logged_fetch [OF f]
  show ?thesis
    by (auto simp: f finish_measure_def outcome_def facts intro!: logged_post logged_throw split: sum.split)
qed

lemma logged_then_post:
  assumes "told (journal (snd r)) = told j" and "\<And>sink. reader_agrees sink j \<Longrightarrow> reader_agrees sink (journal (snd r))"
    and "\<And>w. \<exists>rec. posted w = bay_post rec w"
  shows "logged j (then_post posted r)"
proof (cases r)
  case (Pair e w)
  obtain rec where "posted w = bay_post rec w" using assms(3) by blast
  with Pair assms(1,2) show ?thesis
    by (auto simp: then_post_def intro!: logged_post logged_throw split: option.split)
qed

lemma bay_posts_one: "\<exists>rec. postSourceEvent rig m b s h w = bay_post rec w" "\<exists>rec. post_routed rig m b bundle h w = bay_post rec w"
  by (auto simp: postSourceEvent_def post_routed_def split: option.split)

lemma moved_journal [simp]:
  "journal (snd (if_attached rig driver w)) = journal w" "journal (snd (move_fabric rig mover w)) = journal w"
  "journal (snd (energisedNow rig b w)) = journal w"
  by (simp_all add: if_attached_def move_fabric_def energisedNow_def split: prod.split)

lemma logged_routed: "logged (journal w) (connectEngine rig b bundle w)" "logged (journal w) (disconnectEngine rig b bundle w)"
proof -
  obtain r w' where e: "energisedNow rig b w = (r, w')" by force
  then have j: "journal w' = journal w" using moved_journal(3) [of rig b w] by simp
  show "logged (journal w) (connectEngine rig b bundle w)" "logged (journal w) (disconnectEngine rig b bundle w)"
    by (auto simp: connectEngine_def disconnectEngine_def e j intro!: logged_then_post logged_throw bay_posts_one split: sum.split)
qed

lemma logged_acquire:
  "logged (journal w) (outcome (awaitEngine rig b w))" "logged (journal w) (outcome (readEngine rig b w))"
  "logged (journal w) (outcome (fetchEngine rig b w))"
proof -
  have "logged (journal w) (outcome (case session_fetch rig i q live w of
      (Inr (Flag c), _, w') \<Rightarrow> (Inr c, bay_post (rec c) w') | (Inl e, _, w') \<Rightarrow> (Inl e, w') | (Inr _, _, w') \<Rightarrow> (Inl [], w')))"
    for i q live and rec :: "bool \<Rightarrow> JournalRecord"
    using logged_fetch [of rig i q live w]
    by (auto simp: outcome_def intro!: logged_post logged_throw split: prod.split sum.split RecordedValue.split)
  then show "logged (journal w) (outcome (awaitEngine rig b w))" by (simp add: awaitEngine_def Let_def)
  have "logged (journal w) (outcome (case session_fetch rig i q live w of
      (Inr (Payload c), _, w') \<Rightarrow> (Inr c, bay_post (rec c) w') | (Inl e, _, w') \<Rightarrow> (Inl e, w') | (Inr _, _, w') \<Rightarrow> (Inl [], w')))"
    for i q live and rec :: "Bytes \<Rightarrow> JournalRecord"
    using logged_fetch [of rig i q live w]
    by (auto simp: outcome_def intro!: logged_post logged_throw split: prod.split sum.split RecordedValue.split)
  then show "logged (journal w) (outcome (readEngine rig b w))" by (simp add: readEngine_def Let_def)
  have "logged (journal w) (outcome (case session_fetch rig i q live w of
      (Inr (Trace c), _, w') \<Rightarrow> (Inr c, bay_post (rec c) w') | (Inl e, _, w') \<Rightarrow> (Inl e, w') | (Inr _, _, w') \<Rightarrow> (Inl [], w')))"
    for i q live and rec :: "Waveform \<Rightarrow> JournalRecord"
    using logged_fetch [of rig i q live w]
    by (auto simp: outcome_def intro!: logged_post logged_throw split: prod.split sum.split RecordedValue.split)
  then show "logged (journal w) (outcome (fetchEngine rig b w))" by (simp add: fetchEngine_def Let_def)
qed

text \<open>
  A verb that returns posts exactly one event and one that throws posts none, and either way what
  the sinks were told stays consistent.
\<close>

theorem verb_logs_one_event:
  "length (told (journal (snd (run_verb rig call w)))) =
     length (told (journal w)) + (if fst (run_verb rig call w) = None then 1 else 0) \<and>
   (reader_agrees sink (journal w) \<longrightarrow> reader_agrees sink (journal (snd (run_verb rig call w))))"
proof -
  have bare: "logged (journal w) (outcome (measure_port rig p w))" for p
    by (simp add: measure_port_def logged_measure) (simp add: outcome_def logged_throw)
  have "logged (journal w) (run_verb rig call w)"
    by (cases call)
      (auto simp: measure_at_def logged_measure logged_acquire logged_routed bare
        applyEngine_def setupEngine_def removeEngine_def armEngine_def writeEngine_def intro!: logged_then_post bay_posts_one)
  then show ?thesis by (simp add: logged_def)
qed

theorem verb_logs_one_event_witness:
  "length (told (journal (snd (run_verb (sample_rig True) (DoMeasure (sample_port Voltage)) sample_bay)))) =
     length (told (journal sample_bay)) + (if fst (run_verb (sample_rig True) (DoMeasure (sample_port Voltage)) sample_bay) = None then 1 else 0)
   \<and> reader_agrees 0 (journal (snd (run_verb (sample_rig True) (DoMeasure (sample_port Voltage)) sample_bay)))"
proof -
  have "reader_agrees 0 (journal sample_bay)"
    by (simp add: sample_bay_def reader_agrees_def fresh_journal_def heard_def read_log_def new_reader_def)
  with verb_logs_one_event [of "sample_rig True" "DoMeasure (sample_port Voltage)" sample_bay 0] show ?thesis by blast
qed

section \<open>Which relays are closed\<close>

text \<open>
  A script's calls on an attached rig, exceptions included. A Connect that returned holds its
  instrument; a Disconnect releases it, even when it throws, unless asking whether the output is on
  threw before. The sources are those whose connecting driver is the fixed one.
\<close>

definition fixed_source :: "'h Builder \<Rightarrow> bool" where
  "fixed_source b \<longleftrightarrow> connectDriver b = connect_fixed (described_instrument b) \<and>
     disconnectDriver b = disconnect_fixed (described_instrument b)"

inductive bay_reachable :: "'h Rig \<Rightarrow> 'h Bay \<times> string list \<Rightarrow> bool" for rig where
  start: "mUseCount (fabric w) = (\<lambda>_. None) \<Longrightarrow> bay_reachable rig (w, [])"
| other: "bay_reachable rig (w, held) \<Longrightarrow> \<not> moves_relays call \<Longrightarrow> bay_reachable rig (snd (run_verb rig call w), held)"
| connects: "bay_reachable rig (w, held) \<Longrightarrow> fixed_source b \<Longrightarrow> run_verb rig (DoConnect b bundle) w = (e, w') \<Longrightarrow>
     bay_reachable rig (w', if e = None then described_instrument b # held else held)"
| disconnects: "bay_reachable rig (w, held) \<Longrightarrow> fixed_source b \<Longrightarrow> described_instrument b \<in> set held \<Longrightarrow>
     fst (energisedNow rig b w) = r \<Longrightarrow> run_verb rig (DoDisconnect b bundle) w = (e, w') \<Longrightarrow>
     bay_reachable rig (w', if isl r then held else remove1 (described_instrument b) held)"

definition held_path :: "'h Rig \<Rightarrow> string \<Rightarrow> Path" where
  "held_path rig instrument = combined_path (\<lambda>e. iw_instrument e = instrument) (mInstrumentWiring rig)"

definition bay_agrees :: "'h Rig \<Rightarrow> 'h Bay \<times> string list \<Rightarrow> bool" where
  "bay_agrees rig s \<longleftrightarrow> fabric_agrees (fabric (fst s), map (held_path rig) (snd s)) \<and>
     (\<forall>i\<in>set (snd s). held_path rig i \<noteq> [])"

lemma same_uses_agrees: "same_uses f g \<Longrightarrow> fabric_agrees (f, held) \<Longrightarrow> fabric_agrees (g, held)"
  by (simp add: same_uses_def fabric_agrees_def)

lemma findAll_path: "iw_findAll (mInstrumentWiring rig) i = (if held_path rig i = [] then Inl (no_instrument_path i) else Inr (held_path rig i))"
  by (simp add: iw_findAll_def held_path_def Let_def)

lemma then_post_fst [simp]: "fst (then_post posted r) = fst r"
  by (simp add: then_post_def split: prod.split option.split)

lemma connect_agrees:
  assumes "bay_agrees rig (w, held)" and "fixed_source b" and "mAttached (rig_bench rig)"
    and "run_verb rig (DoConnect b bundle) w = (e, w')"
  shows "bay_agrees rig (w', if e = None then described_instrument b # held else held)"
proof -
  let ?i = "described_instrument b"
  obtain r w1 where n: "energisedNow rig b w = (r, w1)" by force
  have ok: "fabric_ok (fabric w)" using assms(1) by (simp add: bay_agrees_def fabric_agrees_def)
  from energisedNow_uses [OF ok, of rig b] n have "same_uses (fabric w) (fabric w1)" by simp
  with assms(1) have a1: "fabric_agrees (fabric w1, map (held_path rig) held)" by (auto simp: bay_agrees_def intro: same_uses_agrees)
  show ?thesis
  proof (cases r)
    case (Inl x)
    with assms(1,4) n a1 show ?thesis by (auto simp: connectEngine_def bay_agrees_def)
  next
    case (Inr hot)
    obtain c f where c: "connect_fixed ?i rig bundle (fabric w1) = (c, f)" by force
    with assms(2-4) n Inr have e: "e = c" "fabric w' = f"
      by (auto simp: connectEngine_def move_fabric_def fixed_source_def then_post_def split: option.splits)
    show ?thesis
    proof (cases "held_path rig ?i = []")
      case True
      with c a1 assms(1) e show ?thesis by (auto simp: connect_fixed_def findAll_path bay_agrees_def)
    next
      case False
      then have "fabric_connect (mDriver rig) (held_path rig ?i) (fabric w1) = (c, f)"
        using c by (simp add: connect_fixed_def findAll_path)
      with a1 connect_uses [of "fabric w1" "mDriver rig" "held_path rig ?i" c f]
      have "fabric_agrees (f, map (held_path rig) (if c = None then ?i # held else held))"
        by (auto simp: fabric_agrees_def fun_eq_iff)
      with e False assms(1) show ?thesis by (simp add: bay_agrees_def)
    qed
  qed
qed

lemma map_remove1_agrees:
  assumes "i \<in> set held" and "fabric_ok f" and "uses f = (\<lambda>el. max 0 (total_uses (map p held) el - adds (p i) el))"
  shows "fabric_agrees (f, map p (remove1 i held))"
proof -
  have total: "total_uses (map p (remove1 i held)) el = total_uses (map p held) el - adds (p i) el" for el
    using assms(1) by (induction held) auto
  with assms total_uses_nonneg [of "map p (remove1 i held)"] show ?thesis
    by (auto simp: fabric_agrees_def fun_eq_iff max_def)
qed

lemma disconnect_agrees:
  assumes "bay_agrees rig (w, held)" and "fixed_source b" and "mAttached (rig_bench rig)"
    and "described_instrument b \<in> set held" and "fst (energisedNow rig b w) = r"
    and "run_verb rig (DoDisconnect b bundle) w = (e, w')"
  shows "bay_agrees rig (w', if isl r then held else remove1 (described_instrument b) held)"
proof -
  let ?i = "described_instrument b"
  obtain w1 where n: "energisedNow rig b w = (r, w1)" using assms(5) by (cases "energisedNow rig b w") simp
  have ok: "fabric_ok (fabric w)" using assms(1) by (simp add: bay_agrees_def fabric_agrees_def)
  from energisedNow_uses [OF ok, of rig b] n have "same_uses (fabric w) (fabric w1)" by simp
  with assms(1) have a1: "fabric_agrees (fabric w1, map (held_path rig) held)" by (auto simp: bay_agrees_def intro: same_uses_agrees)
  show ?thesis
  proof (cases r)
    case (Inl x)
    with assms(1,6) n a1 show ?thesis by (simp add: disconnectEngine_def bay_agrees_def)
  next
    case (Inr hot)
    have path: "held_path rig ?i \<noteq> []" using assms(1,4) by (simp add: bay_agrees_def)
    obtain c f where c: "fabric_disconnect (mDriver rig) (held_path rig ?i) (fabric w1) = (c, f)" by force
    with assms(2,3,6) n Inr path have "fabric w' = f"
      by (auto simp: disconnectEngine_def move_fabric_def fixed_source_def then_post_def disconnect_fixed_def findAll_path
          split: option.splits)
    moreover have "fabric_agrees (f, map (held_path rig) (remove1 ?i held))"
      using disconnect_uses [OF _ c] a1 by (intro map_remove1_agrees assms(4)) (simp_all add: fabric_agrees_def)
    moreover have "set (remove1 ?i held) \<subseteq> set held" by (rule set_remove1_subset)
    ultimately show ?thesis using Inr assms(1) by (auto simp: bay_agrees_def)
  qed
qed

lemma bay_reachable_agrees:
  assumes "bay_reachable rig s" and "mAttached (rig_bench rig)"
  shows "bay_agrees rig s"
  using assms(1)
proof (induction rule: bay_reachable.induct)
  case (start w)
  then show ?case by (auto simp: bay_agrees_def fabric_agrees_def fabric_ok_def uses_def fun_eq_iff)
next
  case (other w held call)
  then have "fabric_ok (fabric w)" by (simp add: bay_agrees_def fabric_agrees_def)
  from verb_uses [OF this other(2), of rig] other show ?case by (auto simp: bay_agrees_def intro: same_uses_agrees)
next
  case (connects w held b pts e w')
  from connect_agrees [OF connects(4) connects(2) assms(2) connects(3)] show ?case .
next
  case (disconnects w held b r pts e w')
  from disconnect_agrees [OF disconnects(6) disconnects(2) assms(2) disconnects(3-5)] show ?case .
qed


definition sample_builder :: "bool Builder" where
  "sample_builder =
     \<lparr>described_instrument = ''Dmm2'', described_settings = [], energisable = True, isEnergised = (\<lambda>h. (Inr h, h)),
      applyDriver = (\<lambda>h. (None, True)), removeDriver = (\<lambda>h. (None, False)), setupDriver = (\<lambda>h. (None, h)),
      armDriver = (\<lambda>h. (None, h)), awaitDriver = (\<lambda>h. (Inr True, h)), readDriver = (\<lambda>h. (Inr [], h)),
      writeDriver = (\<lambda>_ h. (None, h)), fetchDriver = (\<lambda>h. (Inl [], h)), traceQualifier = ''Trace'',
      connectDriver = connect_fixed ''Dmm2'', disconnectDriver = disconnect_fixed ''Dmm2''\<rparr>"


section \<open>A reading has one name\<close>

lemma posted_event_numeric [simp]: "Instrument (posted_event r j) = Instrument r" "Numeric (posted_event r j) = Numeric r"
  by (simp_all add: posted_event_def event_of_def JournalRecord.extend_def JournalEvent.fields_def)

text \<open>
  C16: A reading taken while recording is in the recording and in the log under one name, with one
  value, from one instrument and inside one test. The recording is a list of samples in memory, or, as
  run_scripts has it, a writer: then the sample was written to it whole, and without an error.
\<close>

theorem reading_recorded_as_logged:
  assumes "measure_at rig p point w = (Inr v, w')" and "mRecording (mSessions w)"
  shows "\<exists>sample event. (case mWriter (mSessions w) of
        None \<Rightarrow> mWriter (mSessions w') = None \<and> mRecorded (mSessions w') = mRecorded (mSessions w) @ [sample]
      | Some wr \<Rightarrow> mRecorded (mSessions w') = mRecorded (mSessions w) \<and>
          (\<exists>wr'. write_sample (rig_number rig) sample wr = (None, wr') \<and> mWriter (mSessions w') = Some wr')) \<and>
      told (journal w') = told (journal w) @ [(mSinks (journal w), OnEvent event)] \<and>
      mPointName sample = Subject event \<and> mInstrumentId sample = Instrument event \<and>
      mTestId sample = (if Test event = [] then kRunScope else Test event) \<and> Subject event = point_key p point \<and>
      Numeric event = Some v \<and> recorded_quantity (port_kind p) (mValue sample) = Inr v"
proof -
  obtain r reason w1 where f: "session_fetch rig (port_instrument p) (ReadingSeam (port_kind p), point_key p point)
      (liveRead rig p point) w = (r, reason, w1)" by (cases "session_fetch rig (port_instrument p)
      (ReadingSeam (port_kind p), point_key p point) (liveRead rig p point) w") auto
  with assms(1) obtain recorded where r: "r = Inr recorded" "recorded_quantity (port_kind p) recorded = Inr v"
    and w': "w' = bay_post (measure_record rig p (point_key p point)
       (if reason = [] then PointDescription point else PointDescription point @ '' -- unmeasurable: '' @ reason) v) w1"
    by (auto simp: measure_at_def finish_measure_def split: sum.splits)
  let ?here = "\<lparr>currentTest = mTest (journal w), wallClockMillis = clock (journal w) (clock_reads (journal w)), instrumentId = port_instrument p\<rparr>"
  let ?sample = "sample_at ?here (point_key p point) recorded (mNextObservation (mSessions w))"
  let ?kept = "\<lambda>b. case mWriter (mSessions w) of
        None \<Rightarrow> mWriter b = None \<and> mRecorded b = mRecorded (mSessions w) @ [?sample]
      | Some wr \<Rightarrow> mRecorded b = mRecorded (mSessions w) \<and>
          (\<exists>wr'. write_sample (rig_number rig) ?sample wr = (None, wr') \<and> mWriter b = Some wr')"
  from f r(1) assms(2) have "?kept (mSessions w1)"
    by (auto simp: session_fetch_def Let_def bank_fetch_def recorder_fetch_def switchable_fetch_def bank_record_def
        split: prod.splits sum.splits option.splits pointed_at.splits)
  moreover have "told (journal w1) = told (journal w)" "mSinks (journal w1) = mSinks (journal w)" "mTest (journal w1) = mTest (journal w)"
    using f by (auto simp: session_fetch_def Let_def split: prod.splits)
  ultimately have facts: "?kept (mSessions w1)"
    "told (journal w1) = told (journal w)" "mSinks (journal w1) = mSinks (journal w)" "mTest (journal w1) = mTest (journal w)"
    by blast+
  let ?r = "measure_record rig p (point_key p point)
       (if reason = [] then PointDescription point else PointDescription point @ '' -- unmeasurable: '' @ reason) v"
  let ?event = "posted_event ?r (journal w1)"
  have same: "mSessions w' = mSessions w1" using w' by (simp add: bay_post_def)
  have "?kept (mSessions w')" unfolding same by (rule facts(1))
  moreover have "told (journal w') = told (journal w) @ [(mSinks (journal w), OnEvent ?event)]"
    using facts w' by (simp add: told_bay_post)
  moreover have "mPointName ?sample = Subject ?event" "mInstrumentId ?sample = Instrument ?event"
    "mTestId ?sample = (if Test ?event = [] then kRunScope else Test ?event)" "Subject ?event = point_key p point" "Numeric ?event = Some v"
    "mValue ?sample = recorded"
    using facts by (simp_all add: sample_at_def measure_record_def)
  moreover have "recorded_quantity (port_kind p) (mValue ?sample) = Inr v" using r(2) by (simp add: sample_at_def)
  ultimately show ?thesis by (intro exI [of _ ?sample] exI [of _ ?event] conjI) assumption+
qed

definition good_port :: "bool Port" where
  "good_port = (sample_port Voltage)\<lparr>rawMeasure := (\<lambda>h. (Inr (Fin 5), h))\<rparr>"

text \<open>A bay that streams its readings to a recording, as run_scripts --record= does.\<close>

definition stream_writer :: RecordingWriter where
  "stream_writer = \<lparr>mOut = [], mSidecarDirectory = ''run.d'', mDirectoryReady = False, disk = empty_disk\<rparr>"

definition streaming_bay :: "bool Bay" where
  "streaming_bay = sample_bay\<lparr>mSessions := startRecordingTo stream_writer new_bank\<rparr>"

theorem reading_recorded_as_logged_witness:
  "\<exists>sample event wr'. write_sample (rig_number (sample_rig True)) sample stream_writer = (None, wr') \<and>
      mWriter (mSessions (snd (measure_at (sample_rig True) good_port sample_point streaming_bay))) = Some wr' \<and>
      told (journal (snd (measure_at (sample_rig True) good_port sample_point streaming_bay))) =
        told (journal streaming_bay) @ [(mSinks (journal streaming_bay), OnEvent event)] \<and>
      mPointName sample = Subject event \<and> Subject event = point_key good_port sample_point \<and>
      Numeric event = Some (Fin 5) \<and> recorded_quantity (port_kind good_port) (mValue sample) = Inr (Fin 5)"
proof -
  have "fst (measure_at (sample_rig True) good_port sample_point streaming_bay) = Inr (Fin 5)" by code_simp
  then have r: "measure_at (sample_rig True) good_port sample_point streaming_bay =
      (Inr (Fin 5), snd (measure_at (sample_rig True) good_port sample_point streaming_bay))"
    by (metis prod.collapse)
  have "mRecording (mSessions streaming_bay)" "mWriter (mSessions streaming_bay) = Some stream_writer"
    by (simp_all add: streaming_bay_def startRecordingTo_def)
  with reading_recorded_as_logged [OF r] show ?thesis by (simp only: option.case) blast
qed

end
