(* ===== verification/Reports.thy ===== *)
theory Reports
  imports Json Journal
begin

unbundle bit_operations_syntax

text \<open>
  The human log: what its lines say (core/src/journal/report.cpp), which call of the journal writes which
  of them (human_sink.cpp), and the two sinks that paint them, the terminal (console_sink.cpp) and
  the RTF file (rtf_sink.cpp). The file is its text and the put position of the stream: a flush closes
  the document and steps back over the brace, and the next write goes over it.
\<close>

section \<open>Lines\<close>

datatype Emphasis = Plain | Heading | DetailText | Pass | Fail | Warning

record ReportSpan =
  Style :: Emphasis
  SpanText :: string

type_synonym ReportLine = "ReportSpan list"

definition span :: "Emphasis \<Rightarrow> string \<Rightarrow> ReportSpan" where
  "span style t = \<lparr>Style = style, SpanText = t\<rparr>"

definition kIndent :: string where "kIndent = [CHR 0x09]"
definition kLabelWidth :: nat where "kLabelWidth = 18"
definition kVerbWidth :: nat where "kVerbWidth = 8"
definition kSubjectWidth :: nat where "kSubjectWidth = 28"
definition kValueWidth :: nat where "kValueWidth = 12"
definition kRequiredWidth :: nat where "kRequiredWidth = 24"

definition kRule :: string where
  "kRule = ''--------------------------------------------------------------------------''"

definition lower_char :: "char \<Rightarrow> char" where
  "lower_char c = (let n = of_char c :: nat in if 65 \<le> n \<and> n \<le> 90 then char_of (n - 65 + 97) else c)"

definition lowercased :: "string \<Rightarrow> string" where
  "lowercased = map lower_char"

definition line :: "Emphasis \<Rightarrow> string \<Rightarrow> ReportLine" where
  "line style t = [span style t]"

definition describedLine :: "Emphasis \<Rightarrow> string \<Rightarrow> string \<Rightarrow> ReportLine" where
  "describedLine style t desc = (if desc = [] then line style t else [span style t, span DetailText desc])"

definition blankLine :: ReportLine where
  "blankLine = []"

definition report_padded :: "string \<Rightarrow> nat \<Rightarrow> string" where
  "report_padded t width = t @ replicate (if length t < width then width - length t else 1) (CHR '' '')"

definition titleLine :: "string \<Rightarrow> string \<Rightarrow> string \<Rightarrow> ReportLine" where
  "titleLine indent name desc = describedLine Heading (indent @ name @ (if desc = [] then [] else '' '')) desc"

definition metadataLine :: "string \<Rightarrow> string \<Rightarrow> ReportLine" where
  "metadataLine label v = line DetailText (report_padded label kLabelWidth @ v)"

definition benchLine :: "bool \<Rightarrow> ReportLine" where
  "benchLine attached =
     (if attached then metadataLine ''Bench'' ''attached''
      else line Warning (report_padded ''Bench'' kLabelWidth @ ''DETACHED -- no instrument was touched''))"

definition versionLines :: "RunInfo \<Rightarrow> ReportLine list" where
  "versionLines info =
     (if SuiteVersion info = DutVersion info \<and> DutVersion info = RigVersion info
      then [metadataLine ''Suite/DUT/rig'' (SuiteVersion info)]
      else [metadataLine ''Suite version'' (SuiteVersion info), metadataLine ''DUT version'' (DutVersion info),
            metadataLine ''Rig version'' (RigVersion info)])"

fun instrument_rows :: "string \<Rightarrow> string list \<Rightarrow> ReportLine list" where
  "instrument_rows label [] = []"
| "instrument_rows label (i # is) = metadataLine label i # instrument_rows [] is"

definition instrumentLines :: "RunInfo \<Rightarrow> ReportLine list" where
  "instrumentLines info = instrument_rows ''Instruments'' (Instruments info)"

definition qualifiedSubject :: "JournalEvent \<Rightarrow> string" where
  "qualifiedSubject event =
     (if SubjectGroup event = [] then Subject event else SubjectGroup event @ ''::'' @ Subject event)"

definition plainText :: "ReportLine \<Rightarrow> string" where
  "plainText l = concat (map SpanText l)"

definition isHumanRelevant :: "JournalEvent \<Rightarrow> bool" where
  "isHumanRelevant event \<longleftrightarrow>
     Method event = Measure \<or> Method event = Read \<or> Method event = Await \<or> Method event = Fetch \<or> Method event = Verify"

definition humanHeaderLines :: "RunInfo \<Rightarrow> ReportLine list" where
  "humanHeaderLines info =
     [line Heading (DutName info @ '' -- '' @ StartedLocal info),
      metadataLine ''DUT serial'' (DutSerial info),
      metadataLine ''Operator'' (RunOperator info),
      metadataLine ''Criteria'' (CriteriaVariant info),
      metadataLine ''Criteria master'' (CriteriaMaster info),
      benchLine (BenchAttached info),
      metadataLine ''Framework'' (FrameworkName info @ '' '' @ FrameworkVersion info @
        (if FrameworkRevision info = [] then [] else '' ('' @ FrameworkRevision info @ '')''))] @
     versionLines info @
     [metadataLine ''Started (UTC)'' (StartedUtc info), metadataLine ''Command line'' (CommandLine info)] @
     instrumentLines info @ [line DetailText kRule, blankLine]"

definition humanGroupHeadingLines :: "string \<Rightarrow> string \<Rightarrow> ReportLine list" where
  "humanGroupHeadingLines grp desc = [titleLine [] grp desc]"

definition humanTestHeadingLines :: "string \<Rightarrow> string \<Rightarrow> ReportLine list" where
  "humanTestHeadingLines test desc = [titleLine kIndent test desc]"

definition humanPhaseHeadingLines :: "string \<Rightarrow> string \<Rightarrow> string \<Rightarrow> ReportLine list" where
  "humanPhaseHeadingLines grp phase title = [titleLine (if grp = [] then [] else kIndent) phase title]"

definition humanPhaseClosingLines :: "ReportLine list" where
  "humanPhaseClosingLines = [blankLine]"

definition verdict_word :: "bool \<Rightarrow> string" where
  "verdict_word passed = (if passed then ''[PASS]'' else ''[FAIL]'')"

definition verdict_style :: "bool \<Rightarrow> Emphasis" where
  "verdict_style passed = (if passed then Pass else Fail)"

definition humanEventLines :: "JournalEvent \<Rightarrow> ReportLine list" where
  "humanEventLines event =
     (if \<not> isHumanRelevant event then []
      else
        (let spaced = (\<lambda>t. if Detail event = [] then t else t @ ''  '')
         in if Method event = Measure \<or> Method event = Read \<or> Method event = Await \<or> Method event = Fetch
            then (let t = report_padded (lowercased (to_string_verb (Method event))) kVerbWidth
                        @ report_padded (Subject event) kSubjectWidth @ report_padded (Value event) kValueWidth;
                      t' = (if Instrument event = [] then t else t @ ''('' @ Instrument event @ '')'')
                  in [describedLine Plain (kIndent @ spaced t') (Detail event)])
            else (let passed = (Passed event = Some True);
                      t = report_padded ''verify'' kVerbWidth @ report_padded (qualifiedSubject event) kSubjectWidth
                        @ report_padded (Value event) kValueWidth @ report_padded (CriterionText event) kRequiredWidth
                        @ verdict_word passed
                  in [describedLine (verdict_style passed) (kIndent @ spaced t) (Detail event)])))"

definition humanTestResultLines :: "string \<Rightarrow> bool \<Rightarrow> ReportLine list" where
  "humanTestResultLines test passed =
     [line (verdict_style passed)
        (kIndent @ report_padded ''RESULT'' kVerbWidth @ report_padded test (kSubjectWidth + kValueWidth + kRequiredWidth)
           @ verdict_word passed),
      blankLine]"

definition humanSummaryLines :: "bool \<Rightarrow> ReportLine list" where
  "humanSummaryLines allPassed =
     [line DetailText kRule,
      line (verdict_style allPassed) (if allPassed then ''ALL SCRIPTS PASSED'' else ''SOME SCRIPTS FAILED'')]"

text \<open>HumanReportSink, call by call; the end of a group is the default of IJournalSink, which says nothing.\<close>

fun human_lines :: "SinkCall \<Rightarrow> ReportLine list" where
  "human_lines (OnRunStart info) = humanHeaderLines info"
| "human_lines (OnGroupStart grp desc) = humanGroupHeadingLines grp desc"
| "human_lines (OnGroupEnd grp) = []"
| "human_lines (OnTestStart test desc) = humanTestHeadingLines test desc"
| "human_lines (OnPhaseStart grp phase title) = humanPhaseHeadingLines grp phase title"
| "human_lines (OnPhaseEnd phase) = humanPhaseClosingLines"
| "human_lines (OnEvent event) = humanEventLines event"
| "human_lines (OnTestEnd grp test passed) = humanTestResultLines test passed"
| "human_lines (OnRunEnd allPassed) = humanSummaryLines allPassed"

section \<open>The terminal\<close>

definition esc :: char where "esc = CHR 0x1B"

fun ansiFor :: "Emphasis \<Rightarrow> string" where
  "ansiFor Plain = []"
| "ansiFor Heading = esc # ''[1;34m''"
| "ansiFor DetailText = esc # ''[90m''"
| "ansiFor Pass = esc # ''[1;32m''"
| "ansiFor Fail = esc # ''[1;31m''"
| "ansiFor Warning = esc # ''[1;33m''"

definition kReset :: string where "kReset = esc # ''[0m''"

definition console_span :: "bool \<Rightarrow> ReportSpan \<Rightarrow> string" where
  "console_span mColour s =
     (let colour = (if mColour then ansiFor (Style s) else [])
      in if colour = [] then SpanText s else colour @ SpanText s @ kReset)"

definition console_writeAll :: "bool \<Rightarrow> ReportLine list \<Rightarrow> string" where
  "console_writeAll mColour ls = concat (map (\<lambda>l. concat (map (console_span mColour) l) @ [CHR 0x0A]) ls)"

text \<open>What a run leaves on the terminal.\<close>

definition console_text :: "bool \<Rightarrow> SinkCall list \<Rightarrow> string" where
  "console_text mColour calls = concat (map (console_writeAll mColour \<circ> human_lines) calls)"

section \<open>Escaping for RTF\<close>

definition ctl :: "string \<Rightarrow> string" where
  "ctl word = bs # word"

definition code_of :: "char \<Rightarrow> nat" where
  "code_of c = of_char c"

definition appendUnicodeUnit :: "nat \<Rightarrow> string" where
  "appendUnicodeUnit unit =
     ctl ''u'' @ show_int (if unit \<ge> 0x8000 then int unit - 0x10000 else int unit) @ ''?''"

definition asSingleByte :: "char \<Rightarrow> string" where
  "asSingleByte c = (let n = code_of c in [bs, CHR 0x27, low_hex (n div 16), low_hex (n mod 16)])"

text \<open>How many continuation bytes a lead byte promises, and the bits it contributes.\<close>

definition utf8_lead :: "char \<Rightarrow> (nat \<times> nat) option" where
  "utf8_lead c =
     (let lead = code_of c
      in if lead AND 0xE0 = 0xC0 then Some (1, lead AND 0x1F)
         else if lead AND 0xF0 = 0xE0 then Some (2, lead AND 0x0F)
         else if lead AND 0xF8 = 0xF0 then Some (3, lead AND 0x07)
         else None)"

fun continuations :: "nat \<Rightarrow> string \<Rightarrow> nat option" where
  "continuations code [] = Some code"
| "continuations code (c # cs) =
     (if code_of c AND 0xC0 \<noteq> 0x80 then None
      else continuations (push_bit 6 code OR (code_of c AND 0x3F)) cs)"

definition unicode_units :: "nat \<Rightarrow> nat list" where
  "unicode_units code =
     (if code > 0xFFFF
      then (let adjusted = code - 0x10000 in [0xD800 + drop_bit 10 adjusted, 0xDC00 + (adjusted AND 0x3FF)])
      else [code])"

text \<open>appendUtf8Sequence at a lead byte: what is appended, and how many bytes after it were used.\<close>

definition appendUtf8Sequence :: "char \<Rightarrow> string \<Rightarrow> string \<times> nat" where
  "appendUtf8Sequence c rest =
     (case utf8_lead c of
        None \<Rightarrow> (asSingleByte c, 0)
      | Some (extra, code) \<Rightarrow>
          (if extra > length rest then (asSingleByte c, 0)
           else
             (case continuations code (take extra rest) of
                None \<Rightarrow> (asSingleByte c, 0)
              | Some code \<Rightarrow> (concat (map appendUnicodeUnit (unicode_units code)), extra))))"

text \<open>One turn of the loop of RtfSink::escape: what is appended, and how many further bytes were used.\<close>

definition rtf_escape_step :: "char \<Rightarrow> string \<Rightarrow> string \<times> nat" where
  "rtf_escape_step c rest =
     (if c = bs then (ctl [bs], 0)
      else if c = CHR ''{'' then (ctl ''{'', 0)
      else if c = CHR ''}'' then (ctl ''}'', 0)
      else if c = CHR 0x0A then (ctl ''line '', 0)
      else if c = CHR 0x0D then ([], 0)
      else if c = CHR 0x09 then (ctl ''tab '', 0)
      else if code_of c < 0x20 then ([], 0)
      else if code_of c > 0x7F then appendUtf8Sequence c rest
      else ([c], 0))"

function rtf_escape :: "string \<Rightarrow> string" where
  "rtf_escape [] = []"
| "rtf_escape (c # rest) = (case rtf_escape_step c rest of (t, used) \<Rightarrow> t @ rtf_escape (drop used rest))"
  by pat_completeness auto
termination by (relation "measure length") auto

section \<open>The RTF file\<close>

fun emphasisFormat :: "Emphasis \<Rightarrow> string" where
  "emphasisFormat Plain = ctl ''f0'' @ ctl ''fs20'' @ ctl ''cf1 ''"
| "emphasisFormat Heading = ctl ''f0'' @ ctl ''fs22'' @ ctl ''b'' @ ctl ''cf4 ''"
| "emphasisFormat DetailText = ctl ''f0'' @ ctl ''fs20'' @ ctl ''cf5 ''"
| "emphasisFormat Pass = ctl ''f0'' @ ctl ''fs20'' @ ctl ''b'' @ ctl ''cf2 ''"
| "emphasisFormat Fail = ctl ''f0'' @ ctl ''fs20'' @ ctl ''b'' @ ctl ''cf3 ''"
| "emphasisFormat Warning = ctl ''f0'' @ ctl ''fs20'' @ ctl ''b'' @ ctl ''cf6 ''"

definition rgb :: "string \<Rightarrow> string \<Rightarrow> string \<Rightarrow> string" where
  "rgb r g b = ctl ''red'' @ r @ ctl ''green'' @ g @ ctl ''blue'' @ b @ '';''"

definition kColourTable :: string where
  "kColourTable = ''{'' @ ctl ''colortbl ;'' @ rgb ''0'' ''0'' ''0'' @ rgb ''0'' ''128'' ''0'' @ rgb ''192'' ''0'' ''0''
     @ rgb ''0'' ''51'' ''153'' @ rgb ''112'' ''112'' ''112'' @ rgb ''176'' ''112'' ''0'' @ ''}''"

definition kFontTable :: string where
  "kFontTable = ''{'' @ ctl ''fonttbl'' @ ''{'' @ ctl ''f0'' @ ctl ''fmodern'' @ ctl ''fprq1'' @ ctl ''fcharset0 Courier New;'' @ ''}'' @ ''}''"

definition rtf_preamble :: string where
  "rtf_preamble = ''{'' @ ctl ''rtf1'' @ ctl ''ansi'' @ ctl ''ansicpg1252'' @ ctl ''deff0'' @ [CHR 0x0A]
     @ kFontTable @ [CHR 0x0A] @ kColourTable @ [CHR 0x0A]"

record RtfFile =
  rtf_text :: string
  rtf_put :: nat
  mFinalised :: bool

definition put_text :: "string \<Rightarrow> RtfFile \<Rightarrow> RtfFile" where
  "put_text t f =
     f\<lparr>rtf_text := take (rtf_put f) (rtf_text f) @ t @ drop (rtf_put f + length t) (rtf_text f),
       rtf_put := rtf_put f + length t\<rparr>"

definition flushDocument :: "RtfFile \<Rightarrow> RtfFile" where
  "flushDocument f =
     (if mFinalised f then f
      else let f' = put_text ''}'' f in f'\<lparr>rtf_put := rtf_put f' - 1\<rparr>)"

definition finishDocument :: "RtfFile \<Rightarrow> RtfFile" where
  "finishDocument f = (if mFinalised f then f else (put_text ''}'' f)\<lparr>mFinalised := True\<rparr>)"

definition rtf_line :: "ReportLine \<Rightarrow> string" where
  "rtf_line l = concat (map (\<lambda>s. ''{'' @ emphasisFormat (Style s) @ rtf_escape (SpanText s) @ ''}'') l) @ ctl ''par'' @ [CHR 0x0A]"

definition rtf_writeAll :: "ReportLine list \<Rightarrow> RtfFile \<Rightarrow> RtfFile" where
  "rtf_writeAll ls f = (if ls = [] then f else flushDocument (fold (\<lambda>l. put_text (rtf_line l)) ls f))"

text \<open>The constructor on a file that could be opened, which is truncated, and the destructor.\<close>

definition rtf_open :: RtfFile where
  "rtf_open = flushDocument (put_text rtf_preamble \<lparr>rtf_text = [], rtf_put = 0, mFinalised = False\<rparr>)"

definition rtf_close :: "RtfFile \<Rightarrow> RtfFile" where
  "rtf_close f = finishDocument f"

definition rtf_call :: "SinkCall \<Rightarrow> RtfFile \<Rightarrow> RtfFile" where
  "rtf_call call f =
     (let f' = rtf_writeAll (human_lines call) f
      in case call of OnRunEnd _ \<Rightarrow> finishDocument f' | _ \<Rightarrow> f')"

definition rtf_run :: "SinkCall list \<Rightarrow> RtfFile \<Rightarrow> RtfFile" where
  "rtf_run calls f = fold rtf_call calls f"

end
