(* ===== verification/ReportFacts.thy ===== *)
theory ReportFacts
  imports Reports
begin

unbundle bit_operations_syntax

text \<open>
  What holds of the human log: the RTF file is a complete document after every call, text survives its
  escaping, and the file reads as the terminal does.
\<close>

section \<open>Complete documents\<close>

text \<open>
  The group depth of RTF after a text: a backslash takes the character after it along. None when
  something stands after the end of the document.
\<close>

fun rtf_depth :: "nat \<Rightarrow> string \<Rightarrow> nat option" where
  "rtf_depth d [] = Some d"
| "rtf_depth 0 (c # cs) = None"
| "rtf_depth (Suc d) (c # cs) =
     (if c = bs then (case cs of [] \<Rightarrow> None | _ # cs' \<Rightarrow> rtf_depth (Suc d) cs')
      else if c = CHR ''{'' then rtf_depth (Suc (Suc d)) cs
      else if c = CHR ''}'' then rtf_depth d cs
      else rtf_depth (Suc d) cs)"

text \<open>A document is one group, and nothing after it.\<close>

definition complete_document :: "string \<Rightarrow> bool" where
  "complete_document t \<longleftrightarrow> (case t of [] \<Rightarrow> False | c # cs \<Rightarrow> c = CHR ''{'' \<and> rtf_depth 1 cs = Some 0)"

text \<open>A text that can stand anywhere inside a group.\<close>

definition inside_group :: "string \<Rightarrow> bool" where
  "inside_group t \<longleftrightarrow> (\<forall>d rest. rtf_depth (Suc d) (t @ rest) = rtf_depth (Suc d) rest)"

lemma inside_group_Nil [simp]: "inside_group []"
  by (simp add: inside_group_def)

lemma inside_group_append: "inside_group a \<Longrightarrow> inside_group b \<Longrightarrow> inside_group (a @ b)"
  by (simp add: inside_group_def)

lemma inside_group_concat: "(\<And>t. t \<in> set ts \<Longrightarrow> inside_group t) \<Longrightarrow> inside_group (concat ts)"
  by (induction ts) (auto intro: inside_group_append)

definition group_plain :: "char \<Rightarrow> bool" where
  "group_plain c \<longleftrightarrow> c \<noteq> bs \<and> c \<noteq> CHR ''{'' \<and> c \<noteq> CHR ''}''"

lemma inside_group_plain: "list_all group_plain t \<Longrightarrow> inside_group t"
proof (induction t)
  case (Cons c t)
  then show ?case by (simp add: inside_group_def group_plain_def)
qed simp

lemma inside_group_escaped: "inside_group t \<Longrightarrow> inside_group (bs # c # t)"
  by (simp add: inside_group_def)

lemma inside_ctl: "list_all group_plain w \<Longrightarrow> inside_group (ctl (c # w))"
  by (simp add: ctl_def inside_group_escaped inside_group_plain)

lemma inside_group_braces: "inside_group t \<Longrightarrow> inside_group (''{'' @ t @ ''}'')"
  by (simp add: inside_group_def bs_def)

lemma plain_digit: "is_digit c \<Longrightarrow> group_plain c"
  by (auto simp: group_plain_def is_digit_def bs_def)

lemma plain_show_int: "list_all group_plain (show_int i)"
proof -
  have "list_all group_plain (show_nat n)" for n
    by (auto simp: list_all_iff dest!: show_nat_digits intro: plain_digit)
  then show ?thesis by (simp add: show_int_def group_plain_def bs_def)
qed

lemma inside_unit: "inside_group (appendUnicodeUnit u)"
proof -
  have "inside_group (show_int i @ ''?'')" for i
    by (rule inside_group_plain) (simp add: plain_show_int group_plain_def bs_def)
  then show ?thesis by (simp add: appendUnicodeUnit_def ctl_def inside_group_escaped)
qed

lemma low_hex_plain: "n < 16 \<Longrightarrow> group_plain (low_hex n)"
proof -
  assume "n < 16"
  moreover have "list_all (\<lambda>n. group_plain (low_hex n)) [0..<16]" by code_simp
  ultimately show ?thesis by (simp add: list_all_iff)
qed

lemma inside_single_byte: "inside_group (asSingleByte c)"
proof -
  have n: "code_of c < 256" by (simp add: code_of_def)
  then have "code_of c div 16 < 16" by (simp add: less_mult_imp_div_less)
  moreover have "code_of c mod 16 < 16" by simp
  ultimately show ?thesis
    unfolding asSingleByte_def Let_def by (intro inside_group_escaped inside_group_plain) (simp add: low_hex_plain)
qed

lemma inside_step: "inside_group (fst (rtf_escape_step c rest))"
proof -
  have "inside_group (fst (appendUtf8Sequence c rest))"
    by (auto simp: appendUtf8Sequence_def inside_single_byte inside_unit intro!: inside_group_concat split: option.split)
  moreover have "inside_group (ctl [x])" for x by (simp add: inside_ctl)
  moreover have "inside_group (ctl ''line '')" "inside_group (ctl ''tab '')"
    by (simp_all add: inside_ctl group_plain_def bs_def)
  moreover have "c \<noteq> bs \<Longrightarrow> c \<noteq> CHR ''{'' \<Longrightarrow> c \<noteq> CHR ''}'' \<Longrightarrow> inside_group [c]"
    by (rule inside_group_plain) (simp add: group_plain_def)
  ultimately show ?thesis by (simp add: rtf_escape_step_def)
qed

lemma inside_escape: "inside_group (rtf_escape t)"
proof (induction t rule: rtf_escape.induct)
  case (2 c rest)
  obtain t used where s: "rtf_escape_step c rest = (t, used)" by (cases "rtf_escape_step c rest")
  with inside_step [of c rest] have "inside_group t" by simp
  with 2 s show ?case by (simp add: inside_group_append)
qed simp

lemma inside_emphasis: "inside_group (emphasisFormat e)"
  by (cases e) (simp_all add: inside_group_append inside_ctl group_plain_def bs_def)

lemma inside_line: "inside_group (rtf_line l)"
proof -
  have "inside_group (ctl ''par'' @ [CHR 0x0A])"
    by (rule inside_group_append [OF inside_ctl inside_group_plain]) (simp_all add: group_plain_def bs_def)
  moreover have "inside_group (''{'' @ emphasisFormat e @ rtf_escape t @ ''}'')" for e t
    using inside_group_braces [OF inside_group_append [OF inside_emphasis [of e] inside_escape [of t]]] by simp
  ultimately show ?thesis
    unfolding rtf_line_def by (auto intro!: inside_group_append inside_group_concat)
qed

section \<open>The file as it is written\<close>

definition rtf_body :: "SinkCall list \<Rightarrow> string" where
  "rtf_body calls = concat (map rtf_line (concat (map human_lines calls)))"

text \<open>The file between two calls: what was written, the closing brace, and the stream before the brace.\<close>

definition unfinished :: "string \<Rightarrow> RtfFile" where
  "unfinished t = \<lparr>rtf_text = t @ ''}'', rtf_put = length t, mFinalised = False\<rparr>"

definition finished :: "string \<Rightarrow> RtfFile" where
  "finished t = \<lparr>rtf_text = t @ ''}'', rtf_put = length t + 1, mFinalised = True\<rparr>"

lemma rtf_open_unfinished: "rtf_open = unfinished rtf_preamble"
  by (simp add: rtf_open_def unfinished_def flushDocument_def put_text_def Let_def)

lemma put_end:
  "length r \<le> length u \<Longrightarrow>
   put_text u \<lparr>rtf_text = t @ r, rtf_put = length t, mFinalised = b\<rparr> = \<lparr>rtf_text = t @ u, rtf_put = length (t @ u), mFinalised = b\<rparr>"
  by (simp add: put_text_def)

lemma fold_put:
  "r = [] \<or> (ls \<noteq> [] \<and> length r \<le> 1) \<Longrightarrow> 
   fold (\<lambda>l. put_text (rtf_line l)) ls \<lparr>rtf_text = t @ r, rtf_put = length t, mFinalised = b\<rparr> =
     \<lparr>rtf_text = t @ concat (map rtf_line ls), rtf_put = length (t @ concat (map rtf_line ls)), mFinalised = b\<rparr>"
proof (induction ls arbitrary: t r)
  case (Cons l ls)
  have "length r \<le> length (rtf_line l)" using Cons.prems by (auto simp: rtf_line_def)
  then show ?case using Cons.IH [of "[]" "t @ rtf_line l"] by (simp add: put_end [of r "rtf_line l" t b, simplified])
qed simp

lemma writeAll_unfinished:
  "rtf_writeAll ls (unfinished t) = unfinished (t @ concat (map rtf_line ls))"
  by (auto simp: rtf_writeAll_def unfinished_def fold_put flushDocument_def put_text_def Let_def)

lemma finish_unfinished: "finishDocument (unfinished t) = finished t"
  by (simp add: finishDocument_def unfinished_def finished_def put_text_def)

lemma finish_finished: "finishDocument (finished t) = finished t"
  by (simp add: finishDocument_def finished_def)

fun is_run_end :: "SinkCall \<Rightarrow> bool" where
  "is_run_end (OnRunEnd b) \<longleftrightarrow> True"
| "is_run_end _ \<longleftrightarrow> False"

lemma call_unfinished:
  "rtf_call c (unfinished t) =
     (if is_run_end c then finished else unfinished) (t @ concat (map rtf_line (human_lines c)))"
  by (cases c) (simp_all add: rtf_call_def writeAll_unfinished finish_unfinished del: human_lines.simps)

lemma run_unfinished:
  "list_all (\<lambda>c. \<not> is_run_end c) calls \<Longrightarrow> rtf_run calls (unfinished t) = unfinished (t @ rtf_body calls)"
  by (induction calls arbitrary: t) (simp_all add: rtf_run_def rtf_body_def call_unfinished)

text \<open>The calls of one run: the end of the run, when it is among them, is the last.\<close>

definition one_run :: "SinkCall list \<Rightarrow> bool" where
  "one_run calls \<longleftrightarrow> list_all (\<lambda>c. \<not> is_run_end c) (butlast calls)"

lemma run_file:
  assumes "one_run calls"
  shows "rtf_run calls (unfinished t) =
    (if calls \<noteq> [] \<and> is_run_end (last calls) then finished else unfinished) (t @ rtf_body calls)"
proof (cases calls rule: rev_cases)
  case Nil
  then show ?thesis by (simp add: rtf_run_def rtf_body_def)
next
  case (snoc cs c)
  with assms have "list_all (\<lambda>c. \<not> is_run_end c) cs" by (simp add: one_run_def)
  from run_unfinished [OF this, of t] snoc show ?thesis
    by (simp add: rtf_run_def call_unfinished rtf_body_def)
qed

lemma inside_preamble: "inside_group (tl rtf_preamble)"
proof -
  have words: "inside_group (ctl ''rtf1'')" "inside_group (ctl ''ansi'')" "inside_group (ctl ''ansicpg1252'')"
    "inside_group (ctl ''deff0'')" "inside_group [CHR 0x0A]"
    "inside_group (ctl ''f0'')" "inside_group (ctl ''fmodern'')" "inside_group (ctl ''fprq1'')"
    "inside_group (ctl ''fcharset0 Courier New;'')" "inside_group (ctl ''fonttbl'')" "inside_group (ctl ''colortbl ;'')"
    by (simp_all add: inside_ctl inside_group_plain group_plain_def bs_def)
  have rgb: "list_all group_plain r \<Longrightarrow> list_all group_plain g \<Longrightarrow> list_all group_plain b \<Longrightarrow> inside_group (rgb r g b)" for r g b
    unfolding rgb_def by (intro inside_group_append inside_ctl inside_group_plain) (simp_all add: group_plain_def bs_def)
  have fonts: "inside_group kFontTable"
    using inside_group_braces [OF inside_group_append [OF words(10) inside_group_braces
      [OF inside_group_append [OF words(6) inside_group_append [OF words(7) inside_group_append [OF words(8,9)]]]]]]
    by (simp add: kFontTable_def)
  have colours: "inside_group (rgb ''0'' ''0'' ''0'' @ rgb ''0'' ''128'' ''0'' @ rgb ''192'' ''0'' ''0''
     @ rgb ''0'' ''51'' ''153'' @ rgb ''112'' ''112'' ''112'' @ rgb ''176'' ''112'' ''0'')"
    by (intro inside_group_append rgb) (simp_all add: group_plain_def bs_def)
  have "inside_group kColourTable"
    using inside_group_braces [OF inside_group_append [OF words(11) colours]] by (simp add: kColourTable_def)
  with fonts words have "inside_group (ctl ''rtf1'' @ ctl ''ansi'' @ ctl ''ansicpg1252'' @ ctl ''deff0'' @ [CHR 0x0A]
     @ kFontTable @ [CHR 0x0A] @ kColourTable @ [CHR 0x0A])"
    by (intro inside_group_append)
  then show ?thesis by (simp add: rtf_preamble_def)
qed

lemma complete_text: "complete_document (rtf_preamble @ rtf_body calls @ ''}'')"
proof -
  obtain p where p: "rtf_preamble = CHR ''{'' # p" "inside_group p"
    using inside_preamble by (simp add: rtf_preamble_def)
  have "inside_group (rtf_body calls)"
    unfolding rtf_body_def by (rule inside_group_concat) (auto simp: inside_line)
  with p(2) have "rtf_depth (Suc 0) (p @ rtf_body calls @ ''}'') = rtf_depth (Suc 0) ''}''"
    by (simp only: inside_group_def)
  also have "\<dots> = Some 0" by (simp add: bs_def)
  finally show ?thesis unfolding complete_document_def p(1) append_Cons list.case One_nat_def by simp
qed

text \<open>
  C23: After every call the file on the disk is a whole document, and so it is after the end of the
  run and after the destructor: a run that is killed leaves a log that opens, whatever its texts hold.
\<close>

theorem log_file_always_complete:
  assumes "one_run calls"
  shows "complete_document (rtf_text (rtf_run calls rtf_open)) \<and>
    complete_document (rtf_text (rtf_close (rtf_run calls rtf_open)))"
proof -
  let ?t = "rtf_preamble @ rtf_body calls"
  consider "rtf_run calls rtf_open = finished ?t" | "rtf_run calls rtf_open = unfinished ?t"
    using run_file [OF assms, of rtf_preamble] by (auto simp: rtf_open_unfinished split: if_splits)
  then show ?thesis
    using complete_text [of calls]
    by cases (simp_all add: rtf_close_def finish_finished finish_unfinished, simp_all add: finished_def unfinished_def)
qed

theorem log_file_always_complete_witness:
  "complete_document (rtf_text (rtf_run [OnTestStart ''{Supply}'' [bs], OnRunEnd True] rtf_open))"
  using log_file_always_complete [of "[OnTestStart ''{Supply}'' [bs], OnRunEnd True]"] by (simp add: one_run_def)

section \<open>Reading the file\<close>

text \<open>
  What a reader of RTF shows of the body of a document, as UTF-16 code units: groups are transparent,
  control words are skipped but for the ones that stand for text.
\<close>

definition is_letter :: "char \<Rightarrow> bool" where
  "is_letter c \<longleftrightarrow> (let n = code_of c in 65 \<le> n \<and> n \<le> 90 \<or> 97 \<le> n \<and> n \<le> 122)"

definition without :: "char \<Rightarrow> string \<Rightarrow> string" where
  "without x s = (case s of c # cs \<Rightarrow> if c = x then cs else s | [] \<Rightarrow> [])"

definition control_word :: "string \<Rightarrow> string \<times> int \<times> string" where
  "control_word s =
     (let r = dropWhile is_letter s; r1 = without (CHR ''-'') r; n = int (read_nat (takeWhile is_digit r1))
      in (takeWhile is_letter s, if r1 = r then n else - n, without (CHR '' '') (dropWhile is_digit r1)))"

lemma without_here [simp]: "without x (x # cs) = cs"
  by (simp add: without_def)

lemma without_shorter: "length (without x s) \<le> length s"
  by (simp add: without_def split: list.split)

lemma control_word_shorter: "length (snd (snd (control_word s))) \<le> length s"
  unfolding control_word_def Let_def snd_conv
  by (rule order_trans [OF without_shorter]) (rule order_trans [OF length_dropWhile_le order_trans [OF without_shorter length_dropWhile_le]])

lemma control_word_length: "control_word s = (w, n, r) \<Longrightarrow> length r \<le> length s"
  using control_word_shorter [of s] by simp

text \<open>What one token that starts with a character shows, and what stands after the token.\<close>

definition word_shows :: "string \<Rightarrow> int \<Rightarrow> string \<Rightarrow> nat list \<times> string" where
  "word_shows w n r =
     (if w = ''u'' then ([nat (n mod 65536)], drop 1 r)
      else if w = ''par'' \<or> w = ''line'' then ([10], r)
      else if w = ''tab'' then ([9], r)
      else ([], r))"

definition byte_value :: "string \<Rightarrow> nat" where
  "byte_value hh = foldl (\<lambda>a h. a * 16 + (case hex_value h of None \<Rightarrow> 0 | Some v \<Rightarrow> v)) 0 hh"

definition rtf_token :: "char \<Rightarrow> string \<Rightarrow> nat list \<times> string" where
  "rtf_token c s =
     (if c = bs
      then (case s of [] \<Rightarrow> ([], [])
            | d # s' \<Rightarrow>
                (if is_letter d then (case control_word s of (w, n, r) \<Rightarrow> word_shows w n r)
                 else if d = CHR 0x27 then ([byte_value (take 2 s')], drop 2 s')
                 else ([code_of d], s')))
      else if c = CHR ''{'' \<or> c = CHR ''}'' \<or> c = CHR 0x0A \<or> c = CHR 0x0D then ([], s)
      else ([code_of c], s))"

lemma word_shows_shorter: "length (snd (word_shows w n r)) \<le> length r"
  by (simp add: word_shows_def)

lemma rtf_token_shorter: "rtf_token c s = (us, r) \<Longrightarrow> length r \<le> length s"
proof -
  assume t: "rtf_token c s = (us, r)"
  obtain w n r' where cw: "control_word s = (w, n, r')" by (cases "control_word s")
  with word_shows_shorter [of w n r'] control_word_length [OF cw]
  have "length (snd (word_shows w n r')) \<le> length s" by linarith
  with t cw show ?thesis by (cases s) (auto simp: rtf_token_def split: if_splits)
qed

function rtf_read :: "string \<Rightarrow> nat list" where
  "rtf_read [] = []"
| "rtf_read (c # s) = (case rtf_token c s of (us, r) \<Rightarrow> us @ rtf_read r)"
  by pat_completeness auto
termination
  by (relation "measure length") (auto dest!: sym [of "(_, _)"] rtf_token_shorter simp: less_Suc_eq_le)

declare rtf_read.simps [simp del]

text \<open>A piece of RTF that a reader shows as these units wherever it stands.\<close>

definition reads_as :: "string \<Rightarrow> nat list \<Rightarrow> bool" where
  "reads_as t us \<longleftrightarrow> (\<forall>rest. rtf_read (t @ rest) = us @ rtf_read rest)"

lemma reads_as_Nil: "reads_as [] []"
  by (simp add: reads_as_def)

lemma reads_as_append: "reads_as a us \<Longrightarrow> reads_as b vs \<Longrightarrow> reads_as (a @ b) (us @ vs)"
  by (simp add: reads_as_def)


lemma rtf_read_append:
  "rtf_token c (s @ rest) = (us, s' @ rest) \<Longrightarrow> rtf_read (c # s @ rest) = us @ rtf_read (s' @ rest)"
  by (simp add: rtf_read.simps)

lemma bs_facts: "bs \<noteq> CHR ''{''" "bs \<noteq> CHR ''}''" "\<not> is_letter bs" "code_of bs = 92"
  by (simp_all add: bs_def is_letter_def code_of_def)

text \<open>A control word without a number, ended by a space or by whatever is no part of it.\<close>

lemma letters_end:
  "list_all is_letter w \<Longrightarrow> (rest = [] \<or> \<not> is_letter (hd rest)) \<Longrightarrow>
     takeWhile is_letter (w @ rest) = w \<and> dropWhile is_letter (w @ rest) = rest"
  by (induction w) (cases rest; simp)+

lemma control_word_space:
  "list_all is_letter w \<Longrightarrow> control_word (w @ '' '' @ rest) = (w, 0, rest)"
  using letters_end [of w "'' '' @ rest"]
  by (simp add: control_word_def without_def is_letter_def code_of_def is_digit_def read_nat_def Let_def)

lemma control_word_newline:
  "list_all is_letter w \<Longrightarrow> control_word (w @ CHR 0x0A # rest) = (w, 0, CHR 0x0A # rest)"
  using letters_end [of w "CHR 0x0A # rest"]
  by (simp add: control_word_def without_def is_letter_def code_of_def is_digit_def read_nat_def Let_def)

lemma digit_no_letter: "is_digit c \<Longrightarrow> \<not> is_letter c"
  by (auto simp: is_digit_def is_letter_def code_of_def Let_def)

lemma digits_end:
  "\<not> is_digit (hd rest) \<Longrightarrow> rest \<noteq> [] \<Longrightarrow>
     takeWhile is_digit (show_nat n @ rest) = show_nat n \<and> dropWhile is_digit (show_nat n @ rest) = rest"
proof -
  assume r: "\<not> is_digit (hd rest)" "rest \<noteq> []"
  have "list_all is_digit w \<Longrightarrow> takeWhile is_digit (w @ rest) = w \<and> dropWhile is_digit (w @ rest) = rest" for w
    using r by (induction w) (cases rest; simp)+
  then show ?thesis by simp
qed

lemma show_nat_cons: "\<exists>c cs. show_nat n = c # cs \<and> is_digit c"
  using show_nat_hd [of n] show_nat_nonempty [of n] by (cases "show_nat n") auto

lemma control_word_number:
  assumes "list_all is_letter w" and "rest \<noteq> []" and "\<not> is_digit (hd rest)"
  shows "control_word (w @ show_int i @ rest) = (w, i, without (CHR '' '') rest)"
proof (cases "i < 0")
  case True
  have "takeWhile is_letter (w @ CHR ''-'' # show_nat (nat (- i)) @ rest) = w \<and>
        dropWhile is_letter (w @ CHR ''-'' # show_nat (nat (- i)) @ rest) = CHR ''-'' # show_nat (nat (- i)) @ rest"
    by (rule letters_end [OF assms(1)]) (simp add: is_letter_def code_of_def)
  with True digits_end [OF assms(3,2), of "nat (- i)"] show ?thesis
    by (simp add: control_word_def show_int_def Let_def)
next
  case False
  obtain c cs where c: "show_nat (nat i) = c # cs" "is_digit c" using show_nat_cons by blast
  then have "c \<noteq> CHR ''-''" by auto
  have "takeWhile is_letter (w @ show_nat (nat i) @ rest) = w \<and>
        dropWhile is_letter (w @ show_nat (nat i) @ rest) = show_nat (nat i) @ rest"
    by (rule letters_end [OF assms(1)]) (simp add: c digit_no_letter)
  moreover from c \<open>c \<noteq> CHR ''-''\<close> have "without (CHR ''-'') (show_nat (nat i) @ rest) = show_nat (nat i) @ rest"
    by (simp add: without_def)
  ultimately show ?thesis
    using False digits_end [OF assms(3,2), of "nat i"] by (simp add: control_word_def show_int_def Let_def)
qed

lemma rtf_read_word:
  assumes "w \<noteq> []" and "list_all is_letter w" and "control_word (w @ s) = (w, n, r)"
  shows "rtf_read (ctl w @ s) = fst (word_shows w n r) @ rtf_read (snd (word_shows w n r))"
proof -
  obtain d w' where w: "w = d # w'" using assms(1) by (cases w) auto
  with assms show ?thesis by (simp add: ctl_def rtf_read.simps rtf_token_def split: prod.split)
qed

lemma reads_as_unit: "unit < 65536 \<Longrightarrow> reads_as (appendUnicodeUnit unit) [unit]"
proof -
  assume u: "unit < 65536"
  let ?i = "if unit \<ge> 0x8000 then int unit - 0x10000 else int unit"
  have "control_word (''u'' @ show_int ?i @ ''?'' @ rest) = (''u'', ?i, ''?'' @ rest)" for rest
    using control_word_number [of "''u''" "''?'' @ rest" ?i]
    by (simp add: is_letter_def code_of_def is_digit_def without_def)
  moreover have "nat (?i mod 65536) = unit" using u by auto
  ultimately show ?thesis
    using rtf_read_word [of "''u''" "show_int ?i @ ''?'' @ _"]
    by (simp add: reads_as_def appendUnicodeUnit_def word_shows_def is_letter_def code_of_def ctl_def)
qed

lemma reads_as_units: "\<forall>u \<in> set us. u < 65536 \<Longrightarrow> reads_as (concat (map appendUnicodeUnit us)) us"
proof (induction us)
  case (Cons u us)
  then show ?case using reads_as_append [OF reads_as_unit [of u], of "concat (map appendUnicodeUnit us)" us] by simp
qed (simp add: reads_as_Nil)

lemma reads_as_line: "reads_as (ctl ''line '') [10]" and reads_as_tab: "reads_as (ctl ''tab '') [9]"
  and reads_as_par: "reads_as (ctl ''par'' @ [CHR 0x0A]) [10]"
proof -
  have l: "list_all is_letter ''line''" "list_all is_letter ''tab''" "list_all is_letter ''par''" by code_simp+
  show "reads_as (ctl ''line '') [10]"
    using rtf_read_word [OF _ l(1) control_word_space [OF l(1)]] by (simp add: reads_as_def ctl_def word_shows_def)
  show "reads_as (ctl ''tab '') [9]"
    using rtf_read_word [OF _ l(2) control_word_space [OF l(2)]] by (simp add: reads_as_def ctl_def word_shows_def)
  show "reads_as (ctl ''par'' @ [CHR 0x0A]) [10]"
    using rtf_read_word [OF _ l(3) control_word_newline [OF l(3)]]
    by (simp add: reads_as_def ctl_def word_shows_def rtf_read.simps(2) [of "CHR 0x0A"] rtf_token_def bs_def)
qed


section \<open>Text through its escaping\<close>

text \<open>The UTF-8 of a code point, its UTF-16, and the code points a log line can hold.\<close>

definition utf8 :: "nat \<Rightarrow> string" where
  "utf8 cp = map char_of
     (if cp < 0x80 then [cp]
      else if cp < 0x800 then [0xC0 + cp div 64, 0x80 + cp mod 64]
      else if cp < 0x10000 then [0xE0 + cp div 4096, 0x80 + cp div 64 mod 64, 0x80 + cp mod 64]
      else [0xF0 + cp div 262144, 0x80 + cp div 4096 mod 64, 0x80 + cp div 64 mod 64, 0x80 + cp mod 64])"

definition utf16 :: "nat \<Rightarrow> nat list" where
  "utf16 cp = (if cp < 0x10000 then [cp] else [0xD800 + (cp - 0x10000) div 1024, 0xDC00 + (cp - 0x10000) mod 1024])"

definition printed :: "nat \<Rightarrow> bool" where
  "printed cp \<longleftrightarrow> cp = 9 \<or> cp = 10 \<or> 32 \<le> cp \<and> cp < 0x110000"

lemma and_shifted_mask: "n AND push_bit j (mask k) = 2 ^ j * (n div 2 ^ j mod 2 ^ k)" for n :: nat
proof -
  have "n AND push_bit j (mask k) = push_bit j (take_bit k (drop_bit j n))"
    by (rule bit_eqI) (auto simp: bit_simps)
  then show ?thesis by (simp add: push_bit_eq_mult take_bit_eq_mod drop_bit_eq_div mult.commute)
qed

lemma lead_masks:
  fixes n :: nat
  assumes "n < 256"
  shows "(n AND 0xE0 = 0xC0) = (n div 32 = 6)" "(n AND 0xF0 = 0xE0) = (n div 16 = 14)"
    "(n AND 0xF8 = 0xF0) = (n div 8 = 30)" "(n AND 0xC0 = 0x80) = (n div 64 = 2)"
proof -
  have d: "n div 32 < 8" "n div 16 < 16" "n div 8 < 32" "n div 64 < 4" using assms by auto
  have m: "n AND 0xE0 = 32 * (n div 32)" "n AND 0xF0 = 16 * (n div 16)" "n AND 0xF8 = 8 * (n div 8)" "n AND 0xC0 = 64 * (n div 64)"
    using and_shifted_mask [of n 5 3] and_shifted_mask [of n 4 4] and_shifted_mask [of n 3 5] and_shifted_mask [of n 6 2] d
    by (simp_all add: mask_eq_exp_minus_1 push_bit_eq_mult)
  show "(n AND 0xE0 = 0xC0) = (n div 32 = 6)" "(n AND 0xF0 = 0xE0) = (n div 16 = 14)"
    "(n AND 0xF8 = 0xF0) = (n div 8 = 30)" "(n AND 0xC0 = 0x80) = (n div 64 = 2)"
    unfolding m by auto
qed

lemma low_masks: "n AND 0x1F = n mod 32" "n AND 0x0F = n mod 16" "n AND 0x07 = n mod 8" "n AND 0x3F = n mod 64" for n :: nat
proof -
  have "n AND mask k = n mod 2 ^ k" for k by (simp flip: take_bit_eq_mask add: take_bit_eq_mod)
  from this [of 5] this [of 4] this [of 3] this [of 6]
  show "n AND 0x1F = n mod 32" "n AND 0x0F = n mod 16" "n AND 0x07 = n mod 8" "n AND 0x3F = n mod 64"
    by (simp_all add: mask_eq_exp_minus_1)
qed

lemma push_six: "push_bit 6 a OR (b AND 0x3F) = a * 64 + b mod 64" for a b :: nat
proof -
  have "b AND 0x3F = take_bit 6 b" by (simp add: low_masks take_bit_eq_mod)
  moreover have "push_bit 6 a AND take_bit 6 b = 0"
    by (rule bit_eqI) (auto simp: bit_simps)
  then have "push_bit 6 a + take_bit 6 b = push_bit 6 a OR take_bit 6 b" by (rule disjunctive_add_eq_or)
  ultimately show ?thesis by (simp add: push_bit_eq_mult take_bit_eq_mod)
qed

lemma code_of_char [simp]: "n < 256 \<Longrightarrow> code_of (char_of n) = n"
  by (simp add: code_of_def)

lemma offset: "a < m \<Longrightarrow> (k * m + a) div m = k \<and> (k * m + a) mod m = a" for a :: nat
  by simp

lemma continuations_step:
  "b < 64 \<Longrightarrow> continuations code (char_of (128 + b) # cs) = continuations (code * 64 + b) cs"
proof -
  assume b: "b < 64"
  then have "(128 + b) div 64 = 2" "(128 + b) mod 64 = b" "128 + b < 256"
    using offset [OF b, of 2] by simp_all
  with lead_masks [of "128 + b"] push_six [of code "128 + b"] show ?thesis by simp
qed

lemma utf8_leads:
  "a < 32 \<Longrightarrow> utf8_lead (char_of (0xC0 + a)) = Some (1, a)"
  "a < 16 \<Longrightarrow> utf8_lead (char_of (0xE0 + a)) = Some (2, a)"
  "a < 8 \<Longrightarrow> utf8_lead (char_of (0xF0 + a)) = Some (3, a)"
proof -
  have d: "(192 + a) div 32 = 6 \<and> (192 + a) mod 32 = a" if "a < 32"
    using offset [OF that, of 6] by simp
  have e: "(224 + a) div 16 = 14 \<and> (224 + a) div 32 = 7 \<and> (224 + a) mod 16 = a" if "a < 16"
    using offset [OF that, of 14] offset [of a 32 7] that by simp
  have f: "(240 + a) div 8 = 30 \<and> (240 + a) div 16 = 15 \<and> (240 + a) div 32 = 7 \<and> (240 + a) mod 8 = a" if "a < 8"
    using offset [OF that, of 30] offset [of a 16 15] offset [of "a + 16" 32 7] that by simp
  show "a < 32 \<Longrightarrow> utf8_lead (char_of (0xC0 + a)) = Some (1, a)"
    using d lead_masks [of "192 + a"] by (simp add: utf8_lead_def low_masks Let_def)
  show "a < 16 \<Longrightarrow> utf8_lead (char_of (0xE0 + a)) = Some (2, a)"
    using e lead_masks [of "224 + a"] by (simp add: utf8_lead_def low_masks Let_def)
  show "a < 8 \<Longrightarrow> utf8_lead (char_of (0xF0 + a)) = Some (3, a)"
    using f lead_masks [of "240 + a"] by (simp add: utf8_lead_def low_masks Let_def)
qed

lemma unicode_units_utf16: "unicode_units cp = utf16 cp"
proof -
  have "n AND 0x3FF = n mod 1024" for n :: nat
    using take_bit_eq_mask [of 10 n] by (simp add: take_bit_eq_mod mask_eq_exp_minus_1)
  then show ?thesis by (simp add: unicode_units_def utf16_def drop_bit_eq_div Let_def)
qed

lemma utf16_small: "cp < 0x110000 \<Longrightarrow> \<forall>u \<in> set (utf16 cp). u < 65536"
  by (auto simp: utf16_def)

text \<open>A sequence of more than one byte is decoded whole, whatever follows it.\<close>

lemma sequence_decoded:
  assumes "0x80 \<le> cp" and "cp < 0x110000"
  shows "\<exists>c cs. utf8 cp = c # cs \<and> code_of c > 0x7F \<and>
    (\<forall>rest. appendUtf8Sequence c (cs @ rest) = (concat (map appendUnicodeUnit (utf16 cp)), length cs))"
proof -
  consider (two) "cp < 0x800" | (three) "0x800 \<le> cp" "cp < 0x10000" | (four) "0x10000 \<le> cp" by linarith
  then show ?thesis
  proof cases
    case two
    then have a: "cp div 64 < 32" "cp div 64 * 64 + cp mod 64 = cp" by auto
    with two assms show ?thesis
      by (simp add: utf8_def appendUtf8Sequence_def utf8_leads unicode_units_utf16 continuations_step del: continuations.simps(2))
  next
    case three
    then have a: "cp div 4096 < 16" by auto
    have "(cp div 4096 * 64 + cp div 64 mod 64) * 64 + cp mod 64 = cp"
      using div_mult_mod_eq [of "cp div 64" 64] div_mult_mod_eq [of cp 64] by (simp add: div_mult2_eq [symmetric])
    with three assms a show ?thesis
      by (simp add: utf8_def appendUtf8Sequence_def utf8_leads unicode_units_utf16 continuations_step del: continuations.simps(2))
  next
    case four
    then have a: "cp div 262144 < 8" using assms by auto
    have "((cp div 262144 * 64 + cp div 4096 mod 64) * 64 + cp div 64 mod 64) * 64 + cp mod 64 = cp"
      using div_mult_mod_eq [of "cp div 4096" 64] div_mult_mod_eq [of "cp div 64" 64] div_mult_mod_eq [of cp 64]
      by (simp add: div_mult2_eq [symmetric])
    with four assms a show ?thesis
      by (simp add: utf8_def appendUtf8Sequence_def utf8_leads unicode_units_utf16 continuations_step del: continuations.simps(2))
  qed
qed


lemma reads_as_brace: "reads_as ''{'' []" "reads_as ''}'' []"
  by (simp_all add: reads_as_def rtf_read.simps(2) [of "CHR ''{''"] rtf_read.simps(2) [of "CHR ''}''"] rtf_token_def bs_def)

lemma reads_as_plain:
  "c \<noteq> bs \<Longrightarrow> c \<noteq> CHR ''{'' \<Longrightarrow> c \<noteq> CHR ''}'' \<Longrightarrow> c \<noteq> CHR 0x0A \<Longrightarrow> c \<noteq> CHR 0x0D \<Longrightarrow> reads_as [c] [code_of c]"
  by (simp add: reads_as_def rtf_read.simps(2) [of c] rtf_token_def)

lemma reads_as_quoted: "\<not> is_letter c \<Longrightarrow> c \<noteq> CHR 0x27 \<Longrightarrow> reads_as (ctl [c]) [code_of c]"
  by (simp add: reads_as_def ctl_def rtf_read.simps(2) [of bs] rtf_token_def)

lemma special_steps:
  "rtf_escape_step (CHR 0x09) rest = (ctl ''tab '', 0)" "rtf_escape_step (CHR 0x0A) rest = (ctl ''line '', 0)"
  "rtf_escape_step (CHR 0x5C) rest = (ctl [bs], 0)" "rtf_escape_step (CHR ''{'') rest = (ctl ''{'', 0)"
  "rtf_escape_step (CHR ''}'') rest = (ctl ''}'', 0)"
  by (simp_all add: rtf_escape_step_def bs_def)

lemma special_chars:
  "char_of (9 :: nat) = CHR 0x09" "char_of (10 :: nat) = CHR 0x0A" "char_of (92 :: nat) = CHR 0x5C"
  "char_of (123 :: nat) = CHR ''{''" "char_of (125 :: nat) = CHR ''}''"
  by code_simp+

lemma high_step: "code_of c > 0x7F \<Longrightarrow> rtf_escape_step c rest = appendUtf8Sequence c rest"
proof -
  assume h: "code_of c > 0x7F"
  then have "c \<noteq> d" if "code_of d \<le> 127" for d using that by auto
  from this [of bs] this [of "CHR ''{''"] this [of "CHR ''}''"] this [of "CHR 0x0A"] this [of "CHR 0x0D"] this [of "CHR 0x09"] h
  show ?thesis by (simp add: rtf_escape_step_def bs_def code_of_def)
qed

text \<open>The escape of one code point.\<close>

lemma escape_code_point:
  assumes "printed cp"
  shows "\<exists>e. (\<forall>rest. rtf_escape (utf8 cp @ rest) = e @ rtf_escape rest) \<and> reads_as e (utf16 cp)"
proof (cases "cp < 0x80")
  case False
  with assms have "0x80 \<le> cp" "cp < 0x110000" by (auto simp: printed_def)
  from sequence_decoded [OF this] obtain c cs where u: "utf8 cp = c # cs" "code_of c > 0x7F"
      "\<And>rest. appendUtf8Sequence c (cs @ rest) = (concat (map appendUnicodeUnit (utf16 cp)), length cs)" by blast
  have "rtf_escape_step c (cs @ rest) = (concat (map appendUnicodeUnit (utf16 cp)), length cs)" for rest
    by (simp only: high_step [OF u(2)] u(3))
  with u(1) reads_as_units [OF utf16_small [OF \<open>cp < 0x110000\<close>]] show ?thesis by auto
next
  case True
  then have u: "utf8 cp = [char_of cp]" "utf16 cp = [cp]" by (simp_all add: utf8_def utf16_def)
  have step: "\<exists>e. (\<forall>rest. rtf_escape (utf8 cp @ rest) = e @ rtf_escape rest) \<and> reads_as e (utf16 cp)"
    if "\<And>rest. rtf_escape_step (char_of cp) rest = (e, 0)" "reads_as e [cp]" for e
    using that u by (intro exI [of _ e]) simp
  consider "cp = 9" | "cp = 10" | "cp = 92" | "cp = 123" | "cp = 125" |
    (plain) "32 \<le> cp" "cp \<noteq> 92" "cp \<noteq> 123" "cp \<noteq> 125" using assms by (auto simp: printed_def)
  then show ?thesis
  proof cases
    case plain
    then have n: "(char_of cp :: char) \<noteq> bs" "char_of cp \<noteq> CHR ''{''" "char_of cp \<noteq> CHR ''}''" "char_of cp \<noteq> CHR 0x0A"
        "char_of cp \<noteq> CHR 0x0D" "char_of cp \<noteq> CHR 0x09"
      using True by (auto simp: bs_def char_of_eq_iff code_of_def take_bit_eq_mod dest!: arg_cong [of _ _ code_of])
    with plain True reads_as_plain [of "char_of cp"] show ?thesis
      by (intro step [of "[char_of cp]"]) (simp_all add: rtf_escape_step_def)
  next
    assume "cp = 9"
    then show ?thesis by (intro step [of "ctl ''tab ''"]) (simp_all add: special_steps special_chars reads_as_tab)
  next
    assume "cp = 10"
    then show ?thesis by (intro step [of "ctl ''line ''"]) (simp_all add: special_steps special_chars reads_as_line)
  next
    assume "cp = 92"
    then show ?thesis using reads_as_quoted [of bs]
      by (intro step [of "ctl [bs]"]) (simp_all add: special_steps special_chars bs_def is_letter_def code_of_def)
  next
    assume "cp = 123"
    then show ?thesis using reads_as_quoted [of "CHR ''{''"]
      by (intro step [of "ctl ''{''"]) (simp_all add: special_steps special_chars is_letter_def code_of_def)
  next
    assume "cp = 125"
    then show ?thesis using reads_as_quoted [of "CHR ''}''"]
      by (intro step [of "ctl ''}''"]) (simp_all add: special_steps special_chars is_letter_def code_of_def)
  qed
qed

text \<open>A text of the log is UTF-8 of characters a line can hold.\<close>

definition encodes :: "nat list \<Rightarrow> string \<Rightarrow> bool" where
  "encodes cps t \<longleftrightarrow> list_all printed cps \<and> t = concat (map utf8 cps)"

lemma reads_as_escape: "encodes cps t \<Longrightarrow> reads_as (rtf_escape t) (concat (map utf16 cps))"
proof (induction cps arbitrary: t)
  case Nil
  then show ?case by (simp add: encodes_def reads_as_Nil)
next
  case (Cons cp cps)
  then have p: "printed cp" and e: "encodes cps (concat (map utf8 cps))" and t: "t = utf8 cp @ concat (map utf8 cps)"
    by (auto simp: encodes_def)
  from escape_code_point [OF p] obtain u where
    "rtf_escape t = u @ rtf_escape (concat (map utf8 cps))" "reads_as u (utf16 cp)" using t by blast
  with reads_as_append Cons.IH [OF e] show ?case by simp
qed


section \<open>The terminal and the file\<close>

lemma reads_as_emphasis: "reads_as (emphasisFormat e) []"
proof -
  have "rtf_read (emphasisFormat e @ rest) = rtf_read rest" for rest
    by (cases e) (simp_all add: ctl_def rtf_read.simps(2) [of bs, unfolded bs_def] rtf_token_def control_word_def word_shows_def is_letter_def
        code_of_def is_digit_def bs_def without_def Let_def)
  then show ?thesis by (simp add: reads_as_def)
qed

lemma reads_as_span:
  assumes "encodes cps (SpanText s)"
  shows "reads_as (''{'' @ emphasisFormat (Style s) @ rtf_escape (SpanText s) @ ''}'') (concat (map utf16 cps))"
  using reads_as_append [OF reads_as_append [OF reads_as_brace(1) reads_as_emphasis [of "Style s"]]
      reads_as_append [OF reads_as_escape [OF assms] reads_as_brace(2)]] by simp

lemma encodes_append: "encodes a t \<Longrightarrow> encodes b u \<Longrightarrow> encodes (a @ b) (t @ u)"
  by (simp add: encodes_def)

lemma encodes_ascii: "list_all (\<lambda>c. printed (code_of c) \<and> code_of c < 128) t \<Longrightarrow> encodes (map code_of t) t"
  by (induction t) (auto simp: encodes_def utf8_def code_of_def)

lemma encodes_newline: "encodes [10] [CHR 0x0A]"
  by (simp add: encodes_def printed_def utf8_def special_chars)

lemma console_span_plain: "console_span False = SpanText"
  by (simp add: fun_eq_iff console_span_def)

lemma line_agrees:
  assumes "\<forall>s \<in> set l. \<exists>cps. encodes cps (SpanText s)"
  shows "\<exists>cps. encodes cps (concat (map (console_span False) l) @ [CHR 0x0A]) \<and> reads_as (rtf_line l) (concat (map utf16 cps))"
  using assms
proof (induction l)
  case Nil
  show ?case using encodes_newline reads_as_par by (intro exI [of _ "[10]"]) (simp add: rtf_line_def utf16_def)
next
  case (Cons s l)
  then obtain a where a: "encodes a (SpanText s)" by auto
  from Cons obtain b where b: "encodes b (concat (map (console_span False) l) @ [CHR 0x0A])"
    "reads_as (rtf_line l) (concat (map utf16 b))" by auto
  from encodes_append [OF a b(1)] reads_as_append [OF reads_as_span [OF a] b(2)] show ?case
    by (intro exI [of _ "a @ b"]) (simp add: console_span_plain rtf_line_def)
qed

lemma lines_agree:
  assumes "\<forall>l \<in> set ls. \<forall>s \<in> set l. \<exists>cps. encodes cps (SpanText s)"
  shows "\<exists>cps. encodes cps (console_writeAll False ls) \<and> reads_as (concat (map rtf_line ls)) (concat (map utf16 cps))"
  using assms
proof (induction ls)
  case Nil
  show ?case by (intro exI [of _ "[]"]) (simp add: encodes_def console_writeAll_def reads_as_Nil)
next
  case (Cons l ls)
  with line_agrees [of l] obtain a where a: "encodes a (concat (map (console_span False) l) @ [CHR 0x0A])"
    "reads_as (rtf_line l) (concat (map utf16 a))" by auto
  from Cons obtain b where b: "encodes b (console_writeAll False ls)"
    "reads_as (concat (map rtf_line ls)) (concat (map utf16 b))" by auto
  from encodes_append [OF a(1) b(1)] reads_as_append [OF a(2) b(2)] show ?case
    by (intro exI [of _ "a @ b"]) (simp add: console_writeAll_def)
qed

text \<open>
  C24: The file says what the terminal shows: read as RTF it is the same characters, line for line, when the
  texts of the run are UTF-8 without control characters but tabs and line breaks.
\<close>

theorem terminal_and_file_agree:
  assumes "one_run calls"
    and "\<forall>call \<in> set calls. \<forall>l \<in> set (human_lines call). \<forall>s \<in> set l. \<exists>cps. encodes cps (SpanText s)"
  shows "\<exists>cps. console_text False calls = concat (map utf8 cps) \<and>
    rtf_read (drop (length rtf_preamble) (rtf_text (rtf_run calls rtf_open))) = concat (map utf16 cps)"
proof -
  have "console_text False calls = console_writeAll False (concat (map human_lines calls))"
    by (induction calls) (simp_all add: console_text_def console_writeAll_def)
  moreover from lines_agree [of "concat (map human_lines calls)"] assms(2) obtain cps where
    c: "encodes cps (console_writeAll False (concat (map human_lines calls)))" "reads_as (rtf_body calls) (concat (map utf16 cps))"
    by (auto simp: rtf_body_def)
  moreover have "rtf_text (rtf_run calls rtf_open) = rtf_preamble @ rtf_body calls @ ''}''"
    using run_file [OF assms(1), of rtf_preamble]
    by (simp add: rtf_open_unfinished) (simp add: finished_def unfinished_def)
  moreover have "rtf_read ''}'' = []" using reads_as_brace(2) by (simp add: reads_as_def rtf_read.simps rtf_token_def bs_def)
  ultimately show ?thesis by (auto simp: encodes_def reads_as_def)
qed

theorem terminal_and_file_agree_witness:
  "\<exists>cps. console_text False [OnTestStart ''{Supply}'' []] = concat (map utf8 cps) \<and>
     rtf_read (drop (length rtf_preamble) (rtf_text (rtf_run [OnTestStart ''{Supply}'' []] rtf_open))) = concat (map utf16 cps)"
proof (rule terminal_and_file_agree)
  have "encodes (map code_of (kIndent @ ''{Supply}'')) (kIndent @ ''{Supply}'')"
    by (rule encodes_ascii) (simp add: kIndent_def printed_def code_of_def)
  then show "\<forall>call \<in> set [OnTestStart ''{Supply}'' []]. \<forall>l \<in> set (human_lines call). \<forall>s \<in> set l. \<exists>cps. encodes cps (SpanText s)"
    by (auto simp: humanTestHeadingLines_def titleLine_def describedLine_def line_def span_def)
qed (simp add: one_run_def)

end
