(* ===== verification/Sarif.thy ===== *)
theory Sarif
  imports Json Format Journal
begin

text \<open>
  The machine log, core/src/journal/sarif_sink.cpp: one JSON document of the SARIF format, written when
  the run ends. The sink collects rules and results while the run goes on; a result is an event of
  the journal or a boundary of the catalog. The text of the document is laid out by hand in the code,
  block by block, and so it is here.
\<close>

section \<open>Properties\<close>

definition nl :: string where "nl = [CHR 0x0A]"

definition indent_by :: "nat \<Rightarrow> string" where
  "indent_by n = replicate (2 * n) (CHR '' '')"

definition key_text :: "string \<Rightarrow> string" where
  "key_text key = jsonQuoted key @ '': ''"

text \<open>What is written so far, and whether the next property is the first of its object.\<close>

type_synonym property_out = "string \<times> bool"

definition comma_unless :: "bool \<Rightarrow> string" where
  "comma_unless is_first = (if is_first then [] else '','' @ nl)"

definition property :: "nat \<Rightarrow> string \<Rightarrow> string \<Rightarrow> property_out \<Rightarrow> property_out" where
  "property level key v out =
     (fst out @ comma_unless (snd out) @ indent_by level @ key_text key @ jsonQuoted v, False)"

definition optionalProperty :: "nat \<Rightarrow> string \<Rightarrow> string \<Rightarrow> property_out \<Rightarrow> property_out" where
  "optionalProperty level key v out = (if v = [] then out else property level key v out)"

definition booleanProperty :: "nat \<Rightarrow> string \<Rightarrow> bool \<Rightarrow> property_out \<Rightarrow> property_out" where
  "booleanProperty level key v out =
     (fst out @ comma_unless (snd out) @ indent_by level @ key_text key @ (if v then ''true'' else ''false''), False)"

fun listed_values :: "bool \<Rightarrow> string list \<Rightarrow> string" where
  "listed_values firstValue [] = []"
| "listed_values firstValue (v # vs) = (if firstValue then [] else '', '') @ jsonQuoted v @ listed_values False vs"

definition optionalArrayProperty :: "nat \<Rightarrow> string \<Rightarrow> string list \<Rightarrow> property_out \<Rightarrow> property_out" where
  "optionalArrayProperty level key vs out =
     (if vs = [] then out
      else (fst out @ comma_unless (snd out) @ indent_by level @ key_text key @ ''['' @ listed_values True vs @ '']'', False))"

section \<open>What a result says\<close>

definition kSarifSchema :: string where
  "kSarifSchema = ''https://raw.githubusercontent.com/oasis-tcs/sarif-spec/master/Schemata/sarif-schema-2.1.0.json''"

definition kSarifVersion :: string where "kSarifVersion = ''2.1.0''"
definition kToolUri :: string where "kToolUri = ''https://github.com/thomasrambrant/thorium''"
definition kAdHocVerifyRule :: string where "kAdHocVerifyRule = ''Thorium/Verify''"
definition kGroupRule :: string where "kGroupRule = ''Thorium/Group''"
definition kTestRule :: string where "kTestRule = ''Thorium/Test''"
definition kPhaseRule :: string where "kPhaseRule = ''Thorium/Phase''"

definition levelFor :: "JournalEvent \<Rightarrow> string" where
  "levelFor event = (if Method event = Verify then (if Passed event = Some True then ''none'' else ''error'') else ''none'')"

definition kindFor :: "JournalEvent \<Rightarrow> string" where
  "kindFor event =
     (if Method event = Verify then (if Passed event = Some True then ''pass'' else ''fail'') else ''informational'')"

definition subjectName :: "JournalEvent \<Rightarrow> string" where
  "subjectName event = (if Subject event = [] then Detail event else Subject event)"

definition messageFor :: "JournalEvent \<Rightarrow> string" where
  "messageFor event =
     (let subject = subjectName event;
          message = to_string_verb (Method event);
          message = (if subject = [] then message else message @ '' '' @ subject);
          message = (if Value event = [] then message else message @ '' = '' @ Value event);
          message = (if Instrument event \<noteq> [] \<and> Instrument event \<noteq> subject
                     then message @ '' via '' @ Instrument event else message);
          message = (case Passed event of None \<Rightarrow> message
                     | Some passed \<Rightarrow> message @ (if passed then '' [PASS]'' else '' [FAIL]''))
      in if Detail event \<noteq> [] \<and> Detail event \<noteq> subject then message @ '' -- '' @ Detail event else message)"

definition joined_name :: "string \<Rightarrow> string \<Rightarrow> string" where
  "joined_name name part = (if part = [] then name else name @ (if name = [] then [] else ''/'') @ part)"

definition fullyQualifiedName :: "JournalEvent \<Rightarrow> string" where
  "fullyQualifiedName event = joined_name (joined_name (Group event) (Test event)) (subjectName event)"

definition ruleIdFor :: "JournalEvent \<Rightarrow> string" where
  "ruleIdFor event =
     (if Method event = Verify
      then (if SubjectGroup event = [] then kAdHocVerifyRule else SubjectGroup event @ ''/'' @ Subject event)
      else ''Thorium/'' @ to_string_verb (Method event))"

section \<open>The sink\<close>

datatype Entry = EventEntry | GroupEntry | TestEntry | PhaseEntry

record BoundaryText =
  Rule :: string
  Label :: string
  LocationKind :: string

fun boundaryTextFor :: "Entry \<Rightarrow> BoundaryText" where
  "boundaryTextFor GroupEntry = \<lparr>Rule = kGroupRule, Label = ''Group'', LocationKind = ''namespace''\<rparr>"
| "boundaryTextFor TestEntry = \<lparr>Rule = kTestRule, Label = ''Test'', LocationKind = ''function''\<rparr>"
| "boundaryTextFor PhaseEntry = \<lparr>Rule = kPhaseRule, Label = ''Phase'', LocationKind = ''function''\<rparr>"
| "boundaryTextFor EventEntry = \<lparr>Rule = [], Label = [], LocationKind = []\<rparr>"

record SarifSink =
  sarif_info :: RunInfo
  mResults :: "(Entry \<times> JournalEvent) list"
  sarif_group :: string
  mRules :: "(string \<times> string) list"
  mWritten :: bool
  sarif_file :: "string option"

definition new_sarif :: "RunInfo \<Rightarrow> SarifSink" where
  "new_sarif empty_info =
     \<lparr>sarif_info = empty_info, mResults = [], sarif_group = [], mRules = [], mWritten = False, sarif_file = None\<rparr>"

definition add_rule :: "string \<Rightarrow> string \<Rightarrow> SarifSink \<Rightarrow> SarifSink" where
  "add_rule rule_id desc s = (if list_ex (\<lambda>rule. fst rule = rule_id) (mRules s) then s else s\<lparr>mRules := mRules s @ [(rule_id, desc)]\<rparr>)"

definition noteRule :: "JournalEvent \<Rightarrow> SarifSink \<Rightarrow> SarifSink" where
  "noteRule event s =
     (let rule_id = ruleIdFor event
      in add_rule rule_id
           (if Method event = Verify
            then (if rule_id = kAdHocVerifyRule
                  then ''An inline check in a test script, with no criteria-table entry of its own''
                  else Detail event)
            else ''Thorium '' @ to_string_verb (Method event) @ '' step'') s)"

text \<open>A boundary is an event with the members set that the code sets, at the time of the call.\<close>

definition boundary_event :: "string \<Rightarrow> string \<Rightarrow> string \<Rightarrow> int \<Rightarrow> JournalEvent" where
  "boundary_event subject title enclosing millis =
     JournalRecord.extend (blank_record\<lparr>Subject := subject, Detail := title\<rparr>)
       (JournalEvent.fields 0 0 (isoUtcFromUnixMillis millis) enclosing [] [])"

definition noteBoundary :: "Entry \<Rightarrow> string \<Rightarrow> string \<Rightarrow> string \<Rightarrow> int \<Rightarrow> SarifSink \<Rightarrow> SarifSink" where
  "noteBoundary what subject title enclosing millis s =
     (let t = boundaryTextFor what;
          s' = add_rule (Rule t) (''The run entered a catalog '' @ Label t @ '' of this name'') s
      in s'\<lparr>mResults := mResults s' @ [(what, boundary_event subject title enclosing millis)]\<rparr>)"

section \<open>The document\<close>

definition rule_text :: "string \<times> string \<Rightarrow> bool \<Rightarrow> string" where
  "rule_text rule is_last =
     indent_by 6 @ ''{'' @ nl @ indent_by 7 @ key_text ''id'' @ jsonQuoted (fst rule) @
     (if snd rule = [] then []
      else '','' @ nl @ indent_by 7 @ key_text ''shortDescription'' @ ''{ '' @ key_text ''text'' @ jsonQuoted (snd rule) @ '' }'') @
     nl @ indent_by 6 @ ''}'' @ (if is_last then nl else '','' @ nl)"

fun each_with_last :: "('a \<Rightarrow> bool \<Rightarrow> string) \<Rightarrow> 'a list \<Rightarrow> string" where
  "each_with_last f [] = []"
| "each_with_last f (x # xs) = f x (xs = []) @ each_with_last f xs"

definition writeToolDriver :: "SarifSink \<Rightarrow> string" where
  "writeToolDriver s =
     (let info = sarif_info s
      in indent_by 3 @ key_text ''tool'' @ ''{'' @ nl @
         indent_by 4 @ key_text ''driver'' @ ''{'' @ nl @
         indent_by 5 @ key_text ''name'' @ jsonQuoted (FrameworkName info) @ '','' @ nl @
         indent_by 5 @ key_text ''version'' @ jsonQuoted (FrameworkVersion info) @ '','' @ nl @
         indent_by 5 @ key_text ''semanticVersion'' @ jsonQuoted (FrameworkVersion info) @ '','' @ nl @
         indent_by 5 @ key_text ''informationUri'' @ jsonQuoted kToolUri @ '','' @ nl @
         indent_by 5 @ key_text ''rules'' @ ''['' @ nl @ each_with_last rule_text (mRules s) @
         indent_by 5 @ '']'' @ nl @ indent_by 4 @ ''}'' @ nl @ indent_by 3 @ ''},'' @ nl)"

definition writeInvocations :: "string \<Rightarrow> SarifSink \<Rightarrow> string" where
  "writeInvocations endedUtc s =
     (let info = sarif_info s;
          begun = indent_by 3 @ key_text ''invocations'' @ ''['' @ nl @ indent_by 4 @ ''{'' @ nl @
            indent_by 5 @ key_text ''executionSuccessful'' @ ''true,'' @ nl @
            indent_by 5 @ key_text ''startTimeUtc'' @ jsonQuoted (StartedUtc info) @ '','' @ nl @
            indent_by 5 @ key_text ''endTimeUtc'' @ jsonQuoted endedUtc;
          out = (begun, False);
          out = optionalProperty 5 ''commandLine'' (CommandLine info) out;
          out = optionalProperty 5 ''machine'' (HostName info) out;
          out = optionalProperty 5 ''account'' (RunOperator info) out
      in fst out @ nl @ indent_by 4 @ ''}'' @ nl @ indent_by 3 @ ''],'' @ nl)"

definition writeAutomationDetails :: "SarifSink \<Rightarrow> string" where
  "writeAutomationDetails s =
     (let info = sarif_info s
      in indent_by 3 @ key_text ''automationDetails'' @ ''{'' @ nl @
         indent_by 4 @ key_text ''id'' @
         jsonQuoted (''thorium/'' @ DutName info @ ''/'' @ CriteriaVariant info @ ''/'' @ StartedUtc info) @ '','' @ nl @
         indent_by 4 @ key_text ''description'' @ ''{ '' @ key_text ''text'' @
         jsonQuoted (FrameworkName info @ '' '' @ FrameworkVersion info @ '' run against '' @ DutName info @
           '' (criteria variant: '' @ CriteriaVariant info @ '')'') @ '' }'' @ nl @
         indent_by 3 @ ''},'' @ nl)"

definition run_properties :: "RunInfo \<Rightarrow> string \<Rightarrow> property_out \<Rightarrow> property_out" where
  "run_properties info endedUtc out =
     (let out = property 4 ''frameworkName'' (FrameworkName info) out;
          out = property 4 ''frameworkVersion'' (FrameworkVersion info) out;
          out = property 4 ''frameworkRevision'' (FrameworkRevision info) out;
          out = property 4 ''criteriaVariant'' (CriteriaVariant info) out;
          out = property 4 ''criteriaMaster'' (CriteriaMaster info) out;
          out = property 4 ''dutName'' (DutName info) out;
          out = optionalProperty 4 ''dutSerial'' (DutSerial info) out;
          out = property 4 ''rigName'' (RigName info) out;
          out = optionalProperty 4 ''operator'' (RunOperator info) out;
          out = optionalProperty 4 ''hostName'' (HostName info) out;
          out = optionalProperty 4 ''commandLine'' (CommandLine info) out;
          out = booleanProperty 4 ''benchAttached'' (BenchAttached info) out;
          out = optionalArrayProperty 4 ''instruments'' (Instruments info) out;
          out = optionalProperty 4 ''suiteVersion'' (SuiteVersion info) out;
          out = optionalProperty 4 ''dutVersion'' (DutVersion info) out;
          out = optionalProperty 4 ''rigVersion'' (RigVersion info) out;
          out = property 4 ''startedUtc'' (StartedUtc info) out;
          out = optionalProperty 4 ''startedLocal'' (StartedLocal info) out
      in property 4 ''endedUtc'' endedUtc out)"

definition writeRunProperties :: "string \<Rightarrow> bool \<Rightarrow> SarifSink \<Rightarrow> string" where
  "writeRunProperties endedUtc allPassed s =
     indent_by 3 @ key_text ''properties'' @ ''{'' @ nl @
     fst (run_properties (sarif_info s) endedUtc ([], True)) @ '','' @ nl @
     indent_by 4 @ key_text ''allPassed'' @ (if allPassed then ''true'' else ''false'') @ nl @ indent_by 3 @ ''},'' @ nl"

definition writeBoundaryProperties :: "Entry \<Rightarrow> JournalEvent \<Rightarrow> string" where
  "writeBoundaryProperties what event =
     (let out = property 6 ''boundary'' (Label (boundaryTextFor what)) ([], True);
          out = optionalProperty 6 ''group'' (if what = GroupEntry then Subject event else Group event) out;
          out = optionalProperty 6 ''test'' (if what = TestEntry then Subject event else []) out;
          out = optionalProperty 6 ''phase'' (if what = PhaseEntry then Subject event else []) out;
          out = optionalProperty 6 ''title'' (Detail event) out;
          out = optionalProperty 6 ''timeUtc'' (TimeUtc event) out
      in fst out @ nl)"

definition event_properties :: "JournalEvent \<Rightarrow> property_out \<Rightarrow> property_out" where
  "event_properties event out =
     (let out = property 6 ''verb'' (to_string_verb (Method event)) out;
          out = optionalProperty 6 ''group'' (Group event) out;
          out = optionalProperty 6 ''test'' (Test event) out;
          out = optionalProperty 6 ''phase'' (Phase event) out;
          out = optionalProperty 6 ''criteriaGroup'' (SubjectGroup event) out;
          out = optionalProperty 6 ''instrument'' (Instrument event) out;
          out = optionalProperty 6 ''value'' (Value event) out;
          out = optionalProperty 6 ''unit'' (Unit event) out;
          out = optionalProperty 6 ''criterion'' (CriterionText event) out
      in optionalProperty 6 ''timeUtc'' (TimeUtc event) out)"

definition writeEventProperties :: "digits \<Rightarrow> JournalEvent \<Rightarrow> string" where
  "writeEventProperties fd event =
     fst (event_properties event ([], True)) @
     (case Numeric event of None \<Rightarrow> []
      | Some v \<Rightarrow> '','' @ nl @ indent_by 6 @ key_text ''numericValue'' @ formatNumber fd v) @
     '','' @ nl @ indent_by 6 @ key_text ''sequence'' @ show_nat (unat (Sequence event)) @ nl"

definition result_message :: "Entry \<Rightarrow> JournalEvent \<Rightarrow> string" where
  "result_message what event =
     (if what = EventEntry then messageFor event
      else Label (boundaryTextFor what) @ '' '' @ Subject event @ (if Detail event = [] then [] else '' -- '' @ Detail event))"

definition result_rule :: "Entry \<Rightarrow> JournalEvent \<Rightarrow> string" where
  "result_rule what event = (if what = EventEntry then ruleIdFor event else Rule (boundaryTextFor what))"

definition writeResult :: "digits \<Rightarrow> Entry \<times> JournalEvent \<Rightarrow> bool \<Rightarrow> string" where
  "writeResult fd result is_last =
     (let what = fst result; event = snd result;
          is_event = (what = EventEntry);
          level = (if is_event then levelFor event else ''none'');
          sort = (if is_event then kindFor event else ''informational'');
          locationKind = (if is_event then ''member'' else LocationKind (boundaryTextFor what))
      in indent_by 4 @ ''{'' @ nl @
         indent_by 5 @ key_text ''ruleId'' @ jsonQuoted (result_rule what event) @ '','' @ nl @
         indent_by 5 @ key_text ''level'' @ jsonQuoted level @ '','' @ nl @
         indent_by 5 @ key_text ''kind'' @ jsonQuoted sort @ '','' @ nl @
         indent_by 5 @ key_text ''message'' @ ''{ '' @ key_text ''text'' @ jsonQuoted (result_message what event) @ '' },'' @ nl @
         indent_by 5 @ key_text ''locations'' @ ''['' @ nl @
         indent_by 6 @ ''{'' @ nl @
         indent_by 7 @ key_text ''logicalLocations'' @ ''['' @ nl @
         indent_by 8 @ ''{'' @ nl @
         indent_by 9 @ key_text ''name'' @ jsonQuoted (subjectName event) @ '','' @ nl @
         indent_by 9 @ key_text ''fullyQualifiedName'' @ jsonQuoted (fullyQualifiedName event) @ '','' @ nl @
         indent_by 9 @ key_text ''kind'' @ jsonQuoted locationKind @ nl @
         indent_by 8 @ ''}'' @ nl @
         indent_by 7 @ '']'' @ nl @
         indent_by 6 @ ''}'' @ nl @
         indent_by 5 @ ''],'' @ nl @
         indent_by 5 @ key_text ''properties'' @ ''{'' @ nl @
         (if is_event then writeEventProperties fd event else writeBoundaryProperties what event) @
         indent_by 5 @ ''}'' @ nl @
         indent_by 4 @ ''}'' @ (if is_last then nl else '','' @ nl))"

definition writeResults :: "digits \<Rightarrow> SarifSink \<Rightarrow> string" where
  "writeResults fd s =
     indent_by 3 @ key_text ''results'' @ ''['' @ nl @ each_with_last (writeResult fd) (mResults s) @ indent_by 3 @ '']'' @ nl"

definition sarif_document :: "digits \<Rightarrow> string \<Rightarrow> bool \<Rightarrow> SarifSink \<Rightarrow> string" where
  "sarif_document fd endedUtc allPassed s =
     ''{'' @ nl @
     indent_by 1 @ key_text ''$schema'' @ jsonQuoted kSarifSchema @ '','' @ nl @
     indent_by 1 @ key_text ''version'' @ jsonQuoted kSarifVersion @ '','' @ nl @
     indent_by 1 @ key_text ''runs'' @ ''['' @ nl @
     indent_by 2 @ ''{'' @ nl @
     writeToolDriver s @ writeInvocations endedUtc s @ writeAutomationDetails s @
     writeRunProperties endedUtc allPassed s @ writeResults fd s @
     indent_by 2 @ ''}'' @ nl @ indent_by 1 @ '']'' @ nl @ ''}'' @ nl"

text \<open>
  What a sink has of its surroundings: the digits of a number, its path, whether the file can be opened and
  whether a write to it arrives; a write that fails leaves some part of the document.
\<close>

record SarifWorld =
  sarif_digits :: digits
  mPath :: string
  can_open :: bool
  write_fails :: "string option"

text \<open>The flag is set before anything is written. None, or the exception.\<close>

definition writeLog :: "SarifWorld \<Rightarrow> int \<Rightarrow> bool \<Rightarrow> SarifSink \<Rightarrow> string option \<times> SarifSink" where
  "writeLog world millis allPassed s =
     (let s' = s\<lparr>mWritten := True\<rparr>
      in if \<not> can_open world
         then (Some (''SarifSink: could not open '' @ sq (mPath world) @ '' for writing''), s')
         else (case write_fails world of
                 Some part \<Rightarrow> (Some (''SarifSink: failed while writing '' @ sq (mPath world)), s'\<lparr>sarif_file := Some part\<rparr>)
               | None \<Rightarrow>
                   (None, s'\<lparr>sarif_file := Some (sarif_document (sarif_digits world) (isoUtcFromUnixMillis millis) allPassed s)\<rparr>)))"

fun sarif_call :: "SarifWorld \<Rightarrow> int \<Rightarrow> SinkCall \<Rightarrow> SarifSink \<Rightarrow> string option \<times> SarifSink" where
  "sarif_call world millis (OnRunStart info) s = (None, s\<lparr>sarif_info := info\<rparr>)"
| "sarif_call world millis (OnGroupStart grp desc) s =
     (None, noteBoundary GroupEntry grp desc [] millis (s\<lparr>sarif_group := grp\<rparr>))"
| "sarif_call world millis (OnGroupEnd grp) s = (None, s\<lparr>sarif_group := []\<rparr>)"
| "sarif_call world millis (OnTestStart test desc) s = (None, noteBoundary TestEntry test desc (sarif_group s) millis s)"
| "sarif_call world millis (OnPhaseStart grp phase title) s = (None, noteBoundary PhaseEntry phase title grp millis s)"
| "sarif_call world millis (OnPhaseEnd phase) s = (None, s)"
| "sarif_call world millis (OnEvent event) s =
     (None, (noteRule event s)\<lparr>mResults := mResults s @ [(EventEntry, event)]\<rparr>)"
| "sarif_call world millis (OnTestEnd grp test passed) s = (None, s)"
| "sarif_call world millis (OnRunEnd allPassed) s = writeLog world millis allPassed s"

definition sarif_destroy :: "SarifWorld \<Rightarrow> int \<Rightarrow> SarifSink \<Rightarrow> SarifSink" where
  "sarif_destroy world millis s = (if mWritten s then s else snd (writeLog world millis False s))"

text \<open>The calls of a run, each with the time it comes at.\<close>

definition sarif_run :: "SarifWorld \<Rightarrow> (int \<times> SinkCall) list \<Rightarrow> SarifSink \<Rightarrow> SarifSink" where
  "sarif_run world calls s = fold (\<lambda>(millis, call). snd \<circ> sarif_call world millis call) calls s"

end
