(* ===== verification/Layout.thy ===== *)
theory Layout
  imports Sarif
begin

text \<open>
  The JSON documents a run writes for people to read as well, laid out over lines: a text is a layout
  of a document when it spells it with white space between its tokens, and a layout of a document is
  read as the document. The writers of sarif_sink.cpp and cli.hpp lay out by hand; the lemmas here
  put their lines together.
\<close>

section \<open>Layouts\<close>

definition blank :: "string \<Rightarrow> bool" where
  "blank ws \<longleftrightarrow> list_all json_space ws"

text \<open>A text that spells a document with white space between its tokens.\<close>

inductive lays :: "doc \<Rightarrow> string \<Rightarrow> bool"
  and lays_items :: "doc list \<Rightarrow> string \<Rightarrow> bool"
  and lays_fields :: "(string \<times> doc) list \<Rightarrow> string \<Rightarrow> bool" where
  lays_text: "lays (DText s) (jsonQuoted s)"
| lays_bool: "lays (DBool b) (if b then ''true'' else ''false'')"
| lays_number: "number_text s \<Longrightarrow> lays (DNumber s) s"
| lays_no_items: "blank w \<Longrightarrow> lays (DArray []) (''['' @ w @ '']'')"
| lays_array: "lays_items ds t \<Longrightarrow> lays (DArray ds) (''['' @ t @ '']'')"
| lays_object: "lays_fields fs t \<Longrightarrow> lays (DObject fs) (''{'' @ t @ ''}'')"
| lays_item: "blank a \<Longrightarrow> blank b \<Longrightarrow> lays d t \<Longrightarrow> lays_items [d] (a @ t @ b)"
| lays_more_items: "blank a \<Longrightarrow> blank b \<Longrightarrow> lays d t \<Longrightarrow> lays_items ds u \<Longrightarrow> lays_items (d # ds) (a @ t @ b @ '','' @ u)"
| lays_field: "blank a \<Longrightarrow> blank b \<Longrightarrow> lays d t \<Longrightarrow> lays_fields [(k, d)] (a @ key_text k @ t @ b)"
| lays_more_fields: "blank a \<Longrightarrow> blank b \<Longrightarrow> lays d t \<Longrightarrow> lays_fields fs u \<Longrightarrow>
    lays_fields ((k, d) # fs) (a @ key_text k @ t @ b @ '','' @ u)"

lemma skipSpace_blank [simp]: "blank a \<Longrightarrow> skipSpace (a @ s) = skipSpace s"
  by (induction a) (simp_all add: skipSpace_def blank_def)

lemma json_take_blank [simp]: "blank a \<Longrightarrow> json_take c (a @ s) = json_take c s"
  by (simp add: json_take_def)

lemma parseValue_blank [simp]: "blank a \<Longrightarrow> json_parseValue n (a @ s) = json_parseValue n s"
  by (cases n) simp_all

lemma no_number_blank: "blank b \<Longrightarrow> no_number_follows s \<Longrightarrow> no_number_follows (b @ s)"
  by (cases b) (auto simp: blank_def no_number_follows_def json_space_def number_char_def is_digit_def)

lemma skipSpace_key [simp]: "skipSpace (jsonQuoted k @ s) = jsonQuoted k @ s"
  by (simp add: jsonQuoted_def)

lemma take_colon [simp]: "json_take (CHR '':'') (CHR '':'' # s) = Some s"
  by simp

lemma blank_space: "blank '' ''"
  by (simp add: blank_def json_space_def)

lemma parseValue_space [simp]: "json_parseValue n (CHR '' '' # s) = json_parseValue n s"
  using parseValue_blank [OF blank_space, of n s] by simp

lemma parse_fields_key:
  "blank a \<Longrightarrow> parse_fields (Suc n) acc (a @ key_text k @ s) =
     (case json_parseValue n s of
        OutOfFuel \<Rightarrow> OutOfFuel
      | Refused \<Rightarrow> Refused
      | Parsed v r2 \<Rightarrow>
          (case json_take (CHR '','') r2 of
             Some r \<Rightarrow> parse_fields n (acc @ [(k, v)]) r
           | None \<Rightarrow> (case json_take (CHR ''}'') r2 of Some r \<Rightarrow> Parsed (JObject (acc @ [(k, v)])) r | None \<Rightarrow> Refused)))"
  by (simp add: key_text_def)

text \<open>What a value starts with, so that it is not taken for the end of a list.\<close>

definition starts_value :: "string \<Rightarrow> bool" where
  "starts_value s \<longleftrightarrow> (\<exists>c t. skipSpace s = c # t \<and> c \<noteq> CHR '']'' \<and> c \<noteq> CHR ''}'')"

lemma starts_take: "starts_value s \<Longrightarrow> json_take (CHR '']'') s = None \<and> json_take (CHR ''}'') s = None"
  by (auto simp: starts_value_def json_take_def)

lemma starts_blank [simp]: "blank a \<Longrightarrow> starts_value (a @ s) = starts_value s"
  by (simp add: starts_value_def)

lemma starts_key [simp]: "starts_value (key_text k @ s)"
  by (simp add: starts_value_def key_text_def jsonQuoted_def dq_def skipSpace_def json_space_def)

lemma starts_here: "\<not> json_space c \<Longrightarrow> c \<noteq> CHR '']'' \<Longrightarrow> c \<noteq> CHR ''}'' \<Longrightarrow> starts_value (c # t)"
  by (simp add: starts_value_def skipSpace_def)

lemma lays_starts: "lays d t \<Longrightarrow> starts_value (t @ s)"
proof (induction rule: lays.cases)
  case (lays_number n)
  then obtain c t' where "n = c # t'" "is_digit c \<or> c = CHR ''-''" by (cases n) (auto simp: number_text_def)
  with lays_number show ?case by (auto intro!: starts_here simp: is_digit_def json_space_def)
qed (auto intro!: starts_here simp: jsonQuoted_def dq_def json_space_def)

lemma parses_laid:
  shows "lays d t \<Longrightarrow> no_number_follows rest \<Longrightarrow> parses (t @ rest) (meaning d) rest"
    and "lays_items ds t \<Longrightarrow> starts_value (t @ s) \<and>
      (\<exists>n. parse_items n items (t @ CHR '']'' # rest) = Parsed (JArray (items @ map meaning ds)) rest)"
    and "lays_fields fs t \<Longrightarrow> starts_value (t @ s) \<and>
      (\<exists>n. parse_fields n acc (t @ CHR ''}'' # rest) = Parsed (JObject (acc @ map (\<lambda>(k, d). (k, meaning d)) fs)) rest)"
proof (induction arbitrary: rest and items s rest and acc s rest rule: lays_lays_items_lays_fields.inducts)
  case (lays_text s)
  then show ?case using parses_spell [of "DText s" rest] by simp
next
  case (lays_bool b)
  then show ?case using parses_spell [of "DBool b" rest] by simp
next
  case (lays_number s)
  then show ?case using parses_spell [of "DNumber s" rest] by simp
next
  case (lays_no_items w)
  then have "json_parseValue (Suc 0) (''['' @ w @ '']'' @ rest) = Parsed (JArray []) rest"
    by (simp add: skip_here)
  from parsesI [OF this] show ?case by simp
next
  case (lays_array ds t)
  then obtain n where n: "starts_value (t @ '']'' @ rest)" "parse_items n [] (t @ CHR '']'' # rest) = Parsed (JArray (map meaning ds)) rest"
    by (metis append_Nil)
  then have "json_parseValue (Suc n) (''['' @ t @ '']'' @ rest) = Parsed (JArray (map meaning ds)) rest"
    using starts_take [OF n(1)] by (simp add: skip_here)
  from parsesI [OF this] show ?case by simp
next
  case (lays_object fs t)
  then obtain n where n: "starts_value (t @ ''}'' @ rest)"
      "parse_fields n [] (t @ CHR ''}'' # rest) = Parsed (JObject (map (\<lambda>(k, d). (k, meaning d)) fs)) rest"
    by (metis append_Nil)
  then have "json_parseValue (Suc n) (''{'' @ t @ ''}'' @ rest) = Parsed (JObject (map (\<lambda>(k, d). (k, meaning d)) fs)) rest"
    using starts_take [OF n(1)] by (simp add: skip_here)
  from parsesI [OF this] show ?case by simp
next
  case (lays_item a b d t)
  have "no_number_follows (b @ CHR '']'' # rest)" using lays_item.hyps(2) by (simp add: no_number_blank)
  from lays_item.IH [OF this] obtain n where
    "json_parseValue n (t @ b @ CHR '']'' # rest) = Parsed (meaning d) (b @ CHR '']'' # rest)" by (auto simp: parses_def)
  then have "parse_items (Suc n) items ((a @ t @ b) @ CHR '']'' # rest) = Parsed (JArray (items @ map meaning [d])) rest"
    using lays_item.hyps(1,2) by simp
  moreover have "starts_value ((a @ t @ b) @ s)" using lays_item.hyps lays_starts [of d t "b @ s"] by simp
  ultimately show ?case by blast
next
  case (lays_more_items a b d t ds u)
  have "no_number_follows (b @ CHR '','' # u @ CHR '']'' # rest)" using lays_more_items.hyps(2) by (simp add: no_number_blank)
  from lays_more_items.IH(1) [OF this] obtain k where
    k: "json_parseValue k (t @ b @ CHR '','' # u @ CHR '']'' # rest) = Parsed (meaning d) (b @ CHR '','' # u @ CHR '']'' # rest)"
    by (auto simp: parses_def)
  from lays_more_items.IH(2) [of s "items @ [meaning d]" rest] obtain n where
    n: "parse_items n (items @ [meaning d]) (u @ CHR '']'' # rest) = Parsed (JArray (items @ map meaning (d # ds))) rest" by auto
  have "parse_items (n + k) (items @ [meaning d]) (u @ CHR '']'' # rest) = Parsed (JArray (items @ map meaning (d # ds))) rest"
    using more_fuel(2) [of n "items @ [meaning d]" "u @ CHR '']'' # rest" k] n by simp
  moreover have "json_parseValue (n + k) (t @ b @ CHR '','' # u @ CHR '']'' # rest) = Parsed (meaning d) (b @ CHR '','' # u @ CHR '']'' # rest)"
    using parses_more [OF k, of n] by (simp add: add.commute)
  ultimately have "parse_items (Suc (n + k)) items ((a @ t @ b @ '','' @ u) @ CHR '']'' # rest) = Parsed (JArray (items @ map meaning (d # ds))) rest"
    using lays_more_items.hyps(1,2) by simp
  moreover have "starts_value ((a @ t @ b @ '','' @ u) @ s)"
    using lays_more_items.hyps lays_starts [of d t "b @ '','' @ u @ s"] by simp
  ultimately show ?case by blast
next
  case (lays_field a b d t k)
  have "no_number_follows (b @ CHR ''}'' # rest)" using lays_field.hyps(2) by (simp add: no_number_blank)
  from lays_field.IH [OF this] obtain n where
    "json_parseValue n (t @ b @ CHR ''}'' # rest) = Parsed (meaning d) (b @ CHR ''}'' # rest)" by (auto simp: parses_def)
  then have "parse_fields (Suc n) acc ((a @ key_text k @ t @ b) @ CHR ''}'' # rest) =
      Parsed (JObject (acc @ map (\<lambda>(k, d). (k, meaning d)) [(k, d)])) rest"
    using lays_field.hyps(1,2) parse_fields_key [of a n acc k "t @ b @ CHR ''}'' # rest"] by simp
  moreover have "starts_value ((a @ key_text k @ t @ b) @ s)" using lays_field.hyps(1) by simp
  ultimately show ?case by blast
next
  case (lays_more_fields a b d t fs u key)
  have "no_number_follows (b @ CHR '','' # u @ CHR ''}'' # rest)" using lays_more_fields.hyps(2) by (simp add: no_number_blank)
  from lays_more_fields.IH(1) [OF this] obtain k where
    k: "json_parseValue k (t @ b @ CHR '','' # u @ CHR ''}'' # rest) = Parsed (meaning d) (b @ CHR '','' # u @ CHR ''}'' # rest)"
    by (auto simp: parses_def)
  let ?all = "JObject (acc @ map (\<lambda>(k, d). (k, meaning d)) ((key, d) # fs))"
  from lays_more_fields.IH(2) [of s "acc @ [(key, meaning d)]" rest] obtain n where
    n: "parse_fields n (acc @ [(key, meaning d)]) (u @ CHR ''}'' # rest) = Parsed ?all rest" by auto
  have "parse_fields (n + k) (acc @ [(key, meaning d)]) (u @ CHR ''}'' # rest) = Parsed ?all rest"
    using more_fuel(3) [of n "acc @ [(key, meaning d)]" "u @ CHR ''}'' # rest" k] n by simp
  moreover have "json_parseValue (n + k) (t @ b @ CHR '','' # u @ CHR ''}'' # rest) = Parsed (meaning d) (b @ CHR '','' # u @ CHR ''}'' # rest)"
    using parses_more [OF k, of n] by (simp add: add.commute)
  ultimately have "parse_fields (Suc (n + k)) acc ((a @ key_text key @ t @ b @ '','' @ u) @ CHR ''}'' # rest) = Parsed ?all rest"
    using lays_more_fields.hyps(1,2) parse_fields_key [of a "n + k" acc key "t @ b @ CHR '','' # u @ CHR ''}'' # rest"] by simp
  moreover have "starts_value ((a @ key_text key @ t @ b @ '','' @ u) @ s)" using lays_more_fields.hyps(1) by simp
  ultimately show ?case by blast
qed


section \<open>Putting layouts together\<close>

lemmas item_rule = lays_item and items_rule = lays_more_items and field_rule = lays_field and fields_rule = lays_more_fields

lemma blank_simps [simp]: "blank []" "blank nl" "blank (indent_by n)" "blank '' ''" "blank (a @ b) = (blank a \<and> blank b)"
  by (auto simp: blank_def nl_def indent_by_def json_space_def list_all_iff)

lemma lays_fields_append: "lays_fields fs t \<Longrightarrow> lays_fields gs u \<Longrightarrow> lays_fields (fs @ gs) (t @ '','' @ u)"
proof (induction rule: lays_lays_items_lays_fields.inducts(3) [where ?P1.0 = "\<lambda>_ _. True" and ?P2.0 = "\<lambda>_ _. True"])
  case (lays_field a b d t k)
  then show ?case using fields_rule [of a b d t gs u k] by simp
next
  case (lays_more_fields a b d t fs v k)
  then show ?case using fields_rule [of a b d t "fs @ gs" "v @ '','' @ u" k] by simp
qed simp_all

lemma lays_fields_pad: "lays_fields fs t \<Longrightarrow> blank w \<Longrightarrow> lays_fields fs (w @ t) \<and> lays_fields fs (t @ w)"
proof (induction rule: lays_lays_items_lays_fields.inducts(3) [where ?P1.0 = "\<lambda>_ _. True" and ?P2.0 = "\<lambda>_ _. True"])
  case (lays_field a b d t k)
  then show ?case using field_rule [of "w @ a" b d t k] field_rule [of a "b @ w" d t k] by simp
next
  case (lays_more_fields a b d t fs v k)
  then show ?case using fields_rule [of "w @ a" b d t fs v k] fields_rule [of a b d t fs "v @ w" k] by simp
qed simp_all

lemma lays_items_pad: "lays_items ds t \<Longrightarrow> blank w \<Longrightarrow> lays_items ds (w @ t) \<and> lays_items ds (t @ w)"
proof (induction rule: lays_lays_items_lays_fields.inducts(2) [where ?P1.0 = "\<lambda>_ _. True" and ?P3.0 = "\<lambda>_ _. True"])
  case (lays_item a b d t)
  then show ?case using item_rule [of "w @ a" b d t] item_rule [of a "b @ w" d t] by simp
next
  case (lays_more_items a b d t ds v)
  then show ?case using items_rule [of "w @ a" b d t ds v] items_rule [of a b d t ds "v @ w"] by simp
qed simp_all

lemma lays_one: "lays d t \<Longrightarrow> lays_fields [(k, d)] (key_text k @ t)"
  using field_rule [of "[]" "[]" d t k] by simp

lemma lays_single_item: "lays d t \<Longrightarrow> lays_items [d] t"
  using item_rule [of "[]" "[]" d t] by simp

text \<open>Fields one per line, an object and a list around their lines, and the object of one text.\<close>

fun field_lines :: "nat \<Rightarrow> (string \<times> string) list \<Rightarrow> string" where
  "field_lines n [] = []"
| "field_lines n [(k, t)] = indent_by n @ key_text k @ t"
| "field_lines n ((k, t) # f # fs) = indent_by n @ key_text k @ t @ '','' @ nl @ field_lines n (f # fs)"

lemma lays_lines: "fs \<noteq> [] \<Longrightarrow> list_all2 (\<lambda>(k, d) (k', t). k = k' \<and> lays d t) fs ts \<Longrightarrow> lays_fields fs (field_lines n ts)"
proof (induction n ts arbitrary: fs rule: field_lines.induct)
  case (2 n k t)
  then obtain d where "fs = [(k, d)]" "lays d t" by (auto simp: list_all2_Cons2)
  with lays_one [of d t k] show ?case by (auto dest: lays_fields_pad [of _ _ "indent_by n"])
next
  case (3 n k t f ts)
  then obtain d gs where f: "fs = (k, d) # gs" "lays d t" and g: "list_all2 (\<lambda>(k, d) (k', t). k = k' \<and> lays d t) gs (f # ts)"
    by (auto simp: list_all2_Cons2)
  then have "gs \<noteq> []" by auto
  with 3 g have "lays_fields gs (nl @ field_lines n (f # ts))" using lays_fields_pad [of gs "field_lines n (f # ts)" nl] by simp
  with f fields_rule [of "indent_by n" "[]" d t gs _ k] show ?case by simp
qed simp

lemma lays_braces: "lays_fields fs t \<Longrightarrow> blank a \<Longrightarrow> blank b \<Longrightarrow> lays (DObject fs) (''{'' @ a @ t @ b @ ''}'')"
  using lays_object [of fs "a @ t @ b"] lays_fields_pad [of fs "a @ t" b] lays_fields_pad [of fs t a] by simp

lemma lays_brackets: "lays_items ds t \<Longrightarrow> blank a \<Longrightarrow> blank b \<Longrightarrow> lays (DArray ds) (''['' @ a @ t @ b @ '']'')"
  using lays_array [of ds "a @ t @ b"] lays_items_pad [of ds "a @ t" b] lays_items_pad [of ds t a] by simp

lemma lays_listed: "vs \<noteq> [] \<Longrightarrow> lays_items (map DText vs) (listed_values True vs)"
proof -
  have rest: "listed_values False vs = concat (map (\<lambda>v. '', '' @ jsonQuoted v) vs)" for vs by (induction vs) simp_all
  have "lays_items (map DText (v # vs)) (jsonQuoted v @ concat (map (\<lambda>v. '', '' @ jsonQuoted v) vs))" for v vs
  proof (induction vs arbitrary: v)
    case Nil
    then show ?case using lays_single_item [OF lays_text] by simp
  next
    case (Cons w vs)
    from lays_items_pad [OF Cons.IH [of w], of "'' ''"]
    show ?case using items_rule [of "[]" "[]" "DText v" "jsonQuoted v", OF _ _ lays_text] by simp
  qed
  then show "vs \<noteq> [] \<Longrightarrow> ?thesis" by (cases vs) (simp_all add: rest)
qed

lemma lays_next: "lays_fields fs t \<Longrightarrow> lays d u \<Longrightarrow> blank w \<Longrightarrow> lays_fields (fs @ [(k, d)]) (t @ '','' @ w @ key_text k @ u)"
  using lays_fields_append [of fs t "[(k, d)]" "w @ key_text k @ u"] lays_fields_pad [OF lays_one, of d u w k] by simp

lemma lays_separated:
  "(\<And>x. lays (d x) (g x)) \<Longrightarrow> blank w \<Longrightarrow> blank v \<Longrightarrow>
     lays_items (map d (x0 # xs)) (w @ v @ g x0 @ concat (map (\<lambda>x. '','' @ w @ v @ g x) xs))"
proof (induction xs arbitrary: x0)
  case Nil
  with item_rule [of "w @ v" "[]" "d x0" "g x0"] show ?case by simp
next
  case (Cons y ys)
  from Cons.IH [of y] Cons.prems
  have "lays_items (map d (y # ys)) (w @ v @ g y @ concat (map (\<lambda>x. '','' @ w @ v @ g x) ys))" by simp
  from items_rule [of "w @ v" "[]" "d x0" "g x0", OF _ _ _ this] Cons.prems show ?case by simp
qed

end
