(* ===== verification/SarifFacts.thy ===== *)
theory SarifFacts
  imports Layout EventSink
begin

text \<open>
  What holds of the machine log: the text the sink
  writes is a layout (theory Layout) of the SARIF document of the run, and every result names a rule that is declared.
\<close>

definition text_doc :: "string \<Rightarrow> doc" where
  "text_doc t = DObject [(''text'', DText t)]"

lemma lays_text_doc: "lays (text_doc t) (''{ '' @ key_text ''text'' @ jsonQuoted t @ '' }'')"
  using lays_braces [OF lays_one [OF lays_text], of "'' ''" "'' ''" "''text''" t] by (simp add: text_doc_def)

lemma lays_each:
  assumes "\<And>x b. f x b = g x @ (if b then nl else '','' @ nl)" and "\<And>x. x \<in> set xs \<Longrightarrow> lays_items [d x] (g x)"
  shows "lays (DArray (map d xs)) (''['' @ nl @ each_with_last f xs @ indent_by n @ '']'')"
proof (cases "xs = []")
  case True
  then show ?thesis using lays_no_items [of "nl @ indent_by n"] by simp
next
  case False
  have append: "lays_items ds t \<Longrightarrow> lays_items es u \<Longrightarrow> lays_items (ds @ es) (t @ '','' @ u)" for ds t es u
  proof (induction rule: lays_lays_items_lays_fields.inducts(2) [where ?P1.0 = "\<lambda>_ _. True" and ?P3.0 = "\<lambda>_ _. True"])
    case (lays_item a b d t)
    then show ?case using items_rule [of a b d t es u] by simp
  next
    case (lays_more_items a b d t ds v)
    then show ?case using items_rule [of a b d t "ds @ es" "v @ '','' @ u"] by simp
  qed simp_all
  from False assms(2) have "lays_items (map d xs) (each_with_last f xs)"
  proof (induction xs)
    case (Cons x xs)
    then have x: "lays_items [d x] (g x)" by simp
    show ?case
    proof (cases "xs = []")
      case True
      with x show ?thesis using lays_items_pad [OF x, of nl] by (simp add: assms(1))
    next
      case False
      with Cons have "lays_items (map d xs) (nl @ each_with_last f xs)"
        using lays_items_pad [of "map d xs" "each_with_last f xs" nl] by simp
      from append [OF x this] False show ?thesis by (simp add: assms(1) [of x])
    qed
  qed simp
  from lays_brackets [OF this, of nl "indent_by n"] show ?thesis by simp
qed

section \<open>Properties as they are written\<close>

definition writes :: "property_out \<Rightarrow> (string \<times> doc) list \<Rightarrow> bool" where
  "writes out fs \<longleftrightarrow>
     (if snd out then fs = [] \<and> fst out = [] else fs \<noteq> [] \<and> lays_fields fs (fst out))"

lemma writes_start: "writes ([], True) []"
  by (simp add: writes_def)

lemma writes_add:
  "writes out fs \<Longrightarrow> lays d t \<Longrightarrow>
     writes (fst out @ comma_unless (snd out) @ indent_by n @ key_text k @ t, False) (fs @ [(k, d)])"
proof -
  assume w: "writes out fs" and d: "lays d t"
  then have one: "lays_fields [(k, d)] (indent_by n @ key_text k @ t)" "lays_fields [(k, d)] (nl @ indent_by n @ key_text k @ t)"
    using field_rule [of "indent_by n" "[]" d t k] field_rule [of "nl @ indent_by n" "[]" d t k] by simp_all
  then show ?thesis
    using w lays_fields_append [of fs "fst out", OF _ one(2)] by (auto simp: writes_def comma_unless_def)
qed

lemma writes_property: "writes out fs \<Longrightarrow> writes (property n k v out) (fs @ [(k, DText v)])"
  unfolding property_def by (rule writes_add [OF _ lays_text])

lemma writes_optional: "writes out fs \<Longrightarrow> writes (optionalProperty n k v out) (fs @ if_text k v)"
  by (simp add: optionalProperty_def if_text_def writes_property)

lemma writes_boolean: "writes out fs \<Longrightarrow> writes (booleanProperty n k v out) (fs @ [(k, DBool v)])"
  unfolding booleanProperty_def by (rule writes_add [OF _ lays_bool])

lemma writes_list: "writes out fs \<Longrightarrow> writes (optionalArrayProperty n k vs out) (fs @ if_list k vs)"
proof (cases "vs = []")
  case False
  assume w: "writes out fs"
  from lays_brackets [OF lays_listed [OF False], of "[]" "[]"]
  have "lays (DArray (map DText vs)) (''['' @ listed_values True vs @ '']'')" by simp
  from writes_add [OF w this] False show ?thesis by (simp add: optionalArrayProperty_def if_list_def)
qed (simp add: optionalArrayProperty_def if_list_def)

lemmas writes_all = writes_property writes_optional writes_boolean writes_list


section \<open>The document of a run\<close>

definition rule_doc :: "string \<times> string \<Rightarrow> doc" where
  "rule_doc rule = DObject ([(''id'', DText (fst rule))] @
     (if snd rule = [] then [] else [(''shortDescription'', text_doc (snd rule))]))"

definition tool_doc :: "SarifSink \<Rightarrow> doc" where
  "tool_doc s = DObject [(''driver'', DObject
     [(''name'', DText (FrameworkName (sarif_info s))), (''version'', DText (FrameworkVersion (sarif_info s))),
      (''semanticVersion'', DText (FrameworkVersion (sarif_info s))), (''informationUri'', DText kToolUri),
      (''rules'', DArray (map rule_doc (mRules s)))])]"

definition invocation_doc :: "string \<Rightarrow> SarifSink \<Rightarrow> doc" where
  "invocation_doc endedUtc s = DObject ([(''executionSuccessful'', DBool True), (''startTimeUtc'', DText (StartedUtc (sarif_info s))),
     (''endTimeUtc'', DText endedUtc)] @ if_text ''commandLine'' (CommandLine (sarif_info s)) @
     if_text ''machine'' (HostName (sarif_info s)) @ if_text ''account'' (RunOperator (sarif_info s)))"

definition automation_doc :: "SarifSink \<Rightarrow> doc" where
  "automation_doc s = (let info = sarif_info s in DObject
     [(''id'', DText (''thorium/'' @ DutName info @ ''/'' @ CriteriaVariant info @ ''/'' @ StartedUtc info)),
      (''description'', text_doc (FrameworkName info @ '' '' @ FrameworkVersion info @ '' run against '' @ DutName info @
           '' (criteria variant: '' @ CriteriaVariant info @ '')''))])"

definition run_fields :: "RunInfo \<Rightarrow> string \<Rightarrow> (string \<times> doc) list" where
  "run_fields info endedUtc =
     [(''frameworkName'', DText (FrameworkName info)), (''frameworkVersion'', DText (FrameworkVersion info)),
      (''frameworkRevision'', DText (FrameworkRevision info)), (''criteriaVariant'', DText (CriteriaVariant info)),
      (''criteriaMaster'', DText (CriteriaMaster info)), (''dutName'', DText (DutName info))] @
     if_text ''dutSerial'' (DutSerial info) @ [(''rigName'', DText (RigName info))] @
     if_text ''operator'' (RunOperator info) @ if_text ''hostName'' (HostName info) @ if_text ''commandLine'' (CommandLine info) @
     [(''benchAttached'', DBool (BenchAttached info))] @ if_list ''instruments'' (Instruments info) @
     if_text ''suiteVersion'' (SuiteVersion info) @ if_text ''dutVersion'' (DutVersion info) @ if_text ''rigVersion'' (RigVersion info) @
     [(''startedUtc'', DText (StartedUtc info))] @ if_text ''startedLocal'' (StartedLocal info) @ [(''endedUtc'', DText endedUtc)]"

definition event_fields :: "digits \<Rightarrow> JournalEvent \<Rightarrow> (string \<times> doc) list" where
  "event_fields fd event =
     [(''verb'', DText (to_string_verb (Method event)))] @ if_text ''group'' (Group event) @ if_text ''test'' (Test event) @
     if_text ''phase'' (Phase event) @ if_text ''criteriaGroup'' (SubjectGroup event) @ if_text ''instrument'' (Instrument event) @
     if_text ''value'' (Value event) @ if_text ''unit'' (Unit event) @ if_text ''criterion'' (CriterionText event) @
     if_text ''timeUtc'' (TimeUtc event) @
     (case Numeric event of None \<Rightarrow> [] | Some v \<Rightarrow> [(''numericValue'', DNumber (formatNumber fd v))]) @
     [(''sequence'', DNumber (show_nat (unat (Sequence event))))]"

definition boundary_fields :: "Entry \<Rightarrow> JournalEvent \<Rightarrow> (string \<times> doc) list" where
  "boundary_fields what event =
     [(''boundary'', DText (Label (boundaryTextFor what)))] @
     if_text ''group'' (if what = GroupEntry then Subject event else Group event) @
     if_text ''test'' (if what = TestEntry then Subject event else []) @
     if_text ''phase'' (if what = PhaseEntry then Subject event else []) @
     if_text ''title'' (Detail event) @ if_text ''timeUtc'' (TimeUtc event)"

definition location_doc :: "Entry \<Rightarrow> JournalEvent \<Rightarrow> doc" where
  "location_doc what event = DObject [(''logicalLocations'', DArray [DObject
     [(''name'', DText (subjectName event)), (''fullyQualifiedName'', DText (fullyQualifiedName event)),
      (''kind'', DText (if what = EventEntry then ''member'' else LocationKind (boundaryTextFor what)))]])]"

definition result_doc :: "digits \<Rightarrow> Entry \<times> JournalEvent \<Rightarrow> doc" where
  "result_doc fd result = (let what = fst result; event = snd result in DObject
     [(''ruleId'', DText (result_rule what event)),
      (''level'', DText (if what = EventEntry then levelFor event else ''none'')),
      (''kind'', DText (if what = EventEntry then kindFor event else ''informational'')),
      (''message'', text_doc (result_message what event)),
      (''locations'', DArray [location_doc what event]),
      (''properties'', DObject (if what = EventEntry then event_fields fd event else boundary_fields what event))])"

definition sarif_schema :: "digits \<Rightarrow> string \<Rightarrow> bool \<Rightarrow> SarifSink \<Rightarrow> doc" where
  "sarif_schema fd endedUtc allPassed s = DObject
     [(''$schema'', DText kSarifSchema), (''version'', DText kSarifVersion),
      (''runs'', DArray [DObject
        [(''tool'', tool_doc s), (''invocations'', DArray [invocation_doc endedUtc s]), (''automationDetails'', automation_doc s),
         (''properties'', DObject (run_fields (sarif_info s) endedUtc @ [(''allPassed'', DBool allPassed)])),
         (''results'', DArray (map (result_doc fd) (mResults s)))]])]"

text \<open>Events whose number the log can hold, given the digits it is printed with.\<close>

definition printable :: "digits \<Rightarrow> JournalEvent \<Rightarrow> bool" where
  "printable fd event \<longleftrightarrow> (case Numeric event of None \<Rightarrow> True | Some v \<Rightarrow> number_text (formatNumber fd v))"

text \<open>Block by block.\<close>

lemma writes_fields: "writes out fs \<Longrightarrow> fs \<noteq> [] \<Longrightarrow> lays_fields fs (fst out)"
  by (simp add: writes_def split: if_splits)

lemma writes_cong: "writes out fs \<Longrightarrow> fs = gs \<Longrightarrow> writes out gs"
  by simp

lemma run_properties_written: "writes (run_properties info endedUtc ([], True)) (run_fields info endedUtc)"
  unfolding run_properties_def Let_def
  by (rule writes_cong, (rule writes_all)+, rule writes_start) (simp add: run_fields_def)

lemma event_properties_laid:
  assumes "printable fd event"
  shows "lays_fields (event_fields fd event) (writeEventProperties fd event)"
proof -
  let ?head = "[(''verb'', DText (to_string_verb (Method event)))] @ if_text ''group'' (Group event) @ if_text ''test'' (Test event) @
     if_text ''phase'' (Phase event) @ if_text ''criteriaGroup'' (SubjectGroup event) @ if_text ''instrument'' (Instrument event) @
     if_text ''value'' (Value event) @ if_text ''unit'' (Unit event) @ if_text ''criterion'' (CriterionText event) @
     if_text ''timeUtc'' (TimeUtc event)"
  have "writes (event_properties event ([], True)) ?head"
    unfolding event_properties_def Let_def
    by (rule writes_cong, (rule writes_all)+, rule writes_start) simp
  then have head: "lays_fields ?head (fst (event_properties event ([], True)))" by (rule writes_fields) simp
  have seq: "lays_fields [(''sequence'', DNumber (show_nat (unat (Sequence event))))]
      (nl @ indent_by 6 @ key_text ''sequence'' @ show_nat (unat (Sequence event)) @ nl)"
    using field_rule [of "nl @ indent_by 6" nl, OF _ _ lays_number [OF number_text_show_nat]] by simp
  show ?thesis
  proof (cases "Numeric event")
    case None
    with lays_fields_append [OF head seq] show ?thesis by (simp add: event_fields_def writeEventProperties_def)
  next
    case (Some v)
    with assms have "number_text (formatNumber fd v)" by (simp add: printable_def)
    then have "lays_fields [(''numericValue'', DNumber (formatNumber fd v))] (nl @ indent_by 6 @ key_text ''numericValue'' @ formatNumber fd v)"
      using field_rule [of "nl @ indent_by 6" "[]", OF _ _ lays_number] by simp
    from lays_fields_append [OF lays_fields_append [OF head this] seq] Some
    show ?thesis by (simp add: event_fields_def writeEventProperties_def)
  qed
qed

lemma boundary_properties_laid: "lays_fields (boundary_fields what event) (writeBoundaryProperties what event)"
proof -
  define out where "out = optionalProperty 6 ''timeUtc'' (TimeUtc event) (optionalProperty 6 ''title'' (Detail event)
    (optionalProperty 6 ''phase'' (if what = PhaseEntry then Subject event else [])
    (optionalProperty 6 ''test'' (if what = TestEntry then Subject event else [])
    (optionalProperty 6 ''group'' (if what = GroupEntry then Subject event else Group event)
    (property 6 ''boundary'' (Label (boundaryTextFor what)) ([], True))))))"
  have "writes out (boundary_fields what event)"
    unfolding out_def by (rule writes_cong, (rule writes_all)+, rule writes_start) (simp add: boundary_fields_def)
  then have "lays_fields (boundary_fields what event) (fst out)" by (rule writes_fields) (simp add: boundary_fields_def)
  moreover have "writeBoundaryProperties what event = fst out @ nl" by (simp add: writeBoundaryProperties_def out_def Let_def)
  ultimately show ?thesis using lays_fields_pad [of _ "fst out" nl] by simp
qed

lemma rule_laid: "lays_items [rule_doc rule] (indent_by 6 @ ''{'' @ nl @ indent_by 7 @ key_text ''id'' @ jsonQuoted (fst rule) @
     (if snd rule = [] then []
      else '','' @ nl @ indent_by 7 @ key_text ''shortDescription'' @ ''{ '' @ key_text ''text'' @ jsonQuoted (snd rule) @ '' }'') @
     nl @ indent_by 6 @ ''}'')"
proof -
  have "lays (rule_doc rule) (''{'' @ nl @ field_lines 7 ([(''id'', jsonQuoted (fst rule))] @
      (if snd rule = [] then [] else [(''shortDescription'', ''{ '' @ key_text ''text'' @ jsonQuoted (snd rule) @ '' }'')])) @ (nl @ indent_by 6) @ ''}'')"
    unfolding rule_doc_def by (intro lays_braces lays_lines) (simp_all add: lays_text lays_text_doc [simplified])
  from item_rule [of "indent_by 6" "[]", OF _ _ this] show ?thesis by (cases "snd rule = []") simp_all
qed

lemma tool_laid: "\<exists>t. lays_fields [(''tool'', tool_doc s)] t \<and> writeToolDriver s = t @ '','' @ nl"
proof -
  have rules: "lays (DArray (map rule_doc (mRules s))) (''['' @ nl @ each_with_last rule_text (mRules s) @ indent_by 5 @ '']'')"
    by (rule lays_each [OF _ rule_laid]) (simp add: rule_text_def)
  let ?lines = "field_lines 5 [(''name'', jsonQuoted (FrameworkName (sarif_info s))), (''version'', jsonQuoted (FrameworkVersion (sarif_info s))),
      (''semanticVersion'', jsonQuoted (FrameworkVersion (sarif_info s))), (''informationUri'', jsonQuoted kToolUri),
      (''rules'', ''['' @ nl @ each_with_last rule_text (mRules s) @ indent_by 5 @ '']'')]"
  have driver: "lays (DObject [(''name'', DText (FrameworkName (sarif_info s))), (''version'', DText (FrameworkVersion (sarif_info s))),
      (''semanticVersion'', DText (FrameworkVersion (sarif_info s))), (''informationUri'', DText kToolUri),
      (''rules'', DArray (map rule_doc (mRules s)))]) (''{'' @ nl @ ?lines @ (nl @ indent_by 4) @ ''}'')"
    by (intro lays_braces lays_lines) (simp_all add: lays_text rules [simplified])
  have "lays (tool_doc s) (''{'' @ nl @ field_lines 4 [(''driver'', ''{'' @ nl @ ?lines @ (nl @ indent_by 4) @ ''}'')] @ (nl @ indent_by 3) @ ''}'')"
    unfolding tool_doc_def by (intro lays_braces lays_lines) (simp_all add: driver [simplified])
  from field_rule [of "indent_by 3" "[]", OF _ _ this] show ?thesis by (simp add: writeToolDriver_def Let_def)
qed

lemma optional_prefix:
  "optionalProperty n k v (p @ fst out, snd out) = (p @ fst (optionalProperty n k v out), snd (optionalProperty n k v out))"
  by (simp add: optionalProperty_def property_def)

lemma invocations_laid: "\<exists>t. lays_fields [(''invocations'', DArray [invocation_doc endedUtc s])] t \<and> writeInvocations endedUtc s = t @ '','' @ nl"
proof -
  let ?i = "sarif_info s"
  let ?begun = "field_lines 5 [(''executionSuccessful'', ''true''), (''startTimeUtc'', jsonQuoted (StartedUtc ?i)), (''endTimeUtc'', jsonQuoted endedUtc)]"
  let ?head = "[(''executionSuccessful'', DBool True), (''startTimeUtc'', DText (StartedUtc ?i)), (''endTimeUtc'', DText endedUtc)]"
  define out where "out = optionalProperty 5 ''account'' (RunOperator ?i) (optionalProperty 5 ''machine'' (HostName ?i)
      (optionalProperty 5 ''commandLine'' (CommandLine ?i) (?begun, False)))"
  have "lays (DBool True) ''true''" using lays_bool [of True] by simp
  then have "lays_fields ?head ?begun" by (intro lays_lines) (simp_all add: lays_text)
  then have "writes (?begun, False) ?head" by (simp add: writes_def)
  then have "writes out (?head @ if_text ''commandLine'' (CommandLine ?i) @ if_text ''machine'' (HostName ?i) @ if_text ''account'' (RunOperator ?i))"
    unfolding out_def by (intro writes_cong [OF writes_optional [OF writes_optional [OF writes_optional]]]) simp_all
  then have "lays (invocation_doc endedUtc s) (''{'' @ nl @ fst out @ (nl @ indent_by 4) @ ''}'')"
    unfolding invocation_doc_def by (intro lays_braces writes_fields) simp_all
  note field = field_rule [of "indent_by 3" "[]", OF _ _ lays_brackets [OF lays_single_item [OF this], of "nl @ indent_by 4" "nl @ indent_by 3"]]
  show ?thesis
  proof (intro exI conjI)
    let ?pre = "indent_by 3 @ key_text ''invocations'' @ ''['' @ nl @ indent_by 4 @ ''{'' @ nl"
    have "optionalProperty 5 ''account'' (RunOperator ?i) (optionalProperty 5 ''machine'' (HostName ?i)
        (optionalProperty 5 ''commandLine'' (CommandLine ?i) (?pre @ ?begun, False))) = (?pre @ fst out, snd out)"
      unfolding out_def optional_prefix [of 5 _ _ _ "(_, _)", unfolded fst_conv snd_conv] optional_prefix ..
    then show "writeInvocations endedUtc s = (indent_by 3 @ key_text ''invocations'' @ (''['' @ (nl @ indent_by 4) @
        (''{'' @ nl @ fst out @ (nl @ indent_by 4) @ ''}'') @ (nl @ indent_by 3) @ '']'') @ []) @ '','' @ nl"
      by (simp add: writeInvocations_def Let_def)
  qed (rule field, simp_all)
qed

lemma automation_laid: "\<exists>t. lays_fields [(''automationDetails'', automation_doc s)] t \<and> writeAutomationDetails s = t @ '','' @ nl"
proof -
  have "lays (DObject [(''id'', DText a), (''description'', text_doc b)])
      (''{'' @ nl @ field_lines 4 [(''id'', jsonQuoted a), (''description'', ''{ '' @ key_text ''text'' @ jsonQuoted b @ '' }'')] @ (nl @ indent_by 3) @ ''}'')"
    for a b by (intro lays_braces lays_lines) (simp_all add: lays_text lays_text_doc [simplified])
  from field_rule [of "indent_by 3" "[]", OF _ _ this] show ?thesis
    by (simp add: writeAutomationDetails_def automation_doc_def Let_def)
qed

lemma properties_laid:
  "\<exists>t. lays_fields [(''properties'', DObject (run_fields (sarif_info s) endedUtc @ [(''allPassed'', DBool allPassed)]))] t \<and>
     writeRunProperties endedUtc allPassed s = t @ '','' @ nl"
proof -
  let ?run = "fst (run_properties (sarif_info s) endedUtc ([], True))" and ?verdict = "if allPassed then ''true'' else ''false''"
  have run: "lays_fields (run_fields (sarif_info s) endedUtc) ?run"
    by (rule writes_fields [OF run_properties_written]) (simp add: run_fields_def)
  have "lays_fields [(''allPassed'', DBool allPassed)] ((nl @ indent_by 4) @ key_text ''allPassed'' @ ?verdict @ [])"
    by (rule lays_field) (simp_all only: blank_simps lays_bool simp_thms)
  from lays_braces [OF lays_fields_append [OF run this], of nl "nl @ indent_by 3"]
  have "lays (DObject (run_fields (sarif_info s) endedUtc @ [(''allPassed'', DBool allPassed)]))
      (''{'' @ nl @ (?run @ '','' @ (nl @ indent_by 4) @ key_text ''allPassed'' @ ?verdict @ []) @ (nl @ indent_by 3) @ ''}'')" by simp
  from field_rule [of "indent_by 3" "[]", OF _ _ this] show ?thesis by (auto simp: writeRunProperties_def)
qed


lemma location_laid: "lays (DArray [location_doc what event])
   (''['' @ nl @ indent_by 6 @ ''{'' @ nl @ indent_by 7 @ key_text ''logicalLocations'' @ ''['' @ nl @
         indent_by 8 @ ''{'' @ nl @
         indent_by 9 @ key_text ''name'' @ jsonQuoted (subjectName event) @ '','' @ nl @
         indent_by 9 @ key_text ''fullyQualifiedName'' @ jsonQuoted (fullyQualifiedName event) @ '','' @ nl @
         indent_by 9 @ key_text ''kind'' @ jsonQuoted (if what = EventEntry then ''member'' else LocationKind (boundaryTextFor what)) @ nl @
         indent_by 8 @ ''}'' @ nl @ indent_by 7 @ '']'' @ nl @ indent_by 6 @ ''}'' @ nl @ indent_by 5 @ '']'')"
proof -
  let ?kind = "if what = EventEntry then ''member'' else LocationKind (boundaryTextFor what)"
  have "lays (DObject [(''name'', DText (subjectName event)), (''fullyQualifiedName'', DText (fullyQualifiedName event)), (''kind'', DText ?kind)])
      (''{'' @ nl @ field_lines 9 [(''name'', jsonQuoted (subjectName event)), (''fullyQualifiedName'', jsonQuoted (fullyQualifiedName event)),
        (''kind'', jsonQuoted ?kind)] @ (nl @ indent_by 8) @ ''}'')"
    by (intro lays_braces lays_lines) (simp_all only: list_all2_Cons list_all2_Nil prod.case lays_text simp_thms list.distinct blank_simps)
  from lays_brackets [OF lays_single_item [OF this], of "nl @ indent_by 8" "nl @ indent_by 7"]
  have "lays (DArray [DObject [(''name'', DText (subjectName event)), (''fullyQualifiedName'', DText (fullyQualifiedName event)), (''kind'', DText ?kind)]])
    (''['' @ (nl @ indent_by 8) @ (''{'' @ nl @ field_lines 9 [(''name'', jsonQuoted (subjectName event)), (''fullyQualifiedName'', jsonQuoted (fullyQualifiedName event)),
        (''kind'', jsonQuoted ?kind)] @ (nl @ indent_by 8) @ ''}'') @ (nl @ indent_by 7) @ '']'')" by simp
  from lays_brackets [OF lays_single_item [OF lays_braces [OF lays_one [OF this], of "nl @ indent_by 7" "nl @ indent_by 6"]], of "nl @ indent_by 6" "nl @ indent_by 5"]
  show ?thesis by (simp add: location_doc_def del: if_split)
qed

lemma result_laid:
  assumes "fst result = EventEntry \<Longrightarrow> printable fd (snd result)"
  shows "\<exists>t. lays_items [result_doc fd result] t \<and> (\<forall>b. writeResult fd result b = t @ (if b then nl else '','' @ nl))"
proof -
  obtain what event where r: "result = (what, event)" by (cases result)
  let ?props = "if what = EventEntry then writeEventProperties fd event else writeBoundaryProperties what event"
  let ?fields = "if what = EventEntry then event_fields fd event else boundary_fields what event"
  have "lays_fields ?fields ?props"
    using assms r by (simp add: event_properties_laid boundary_properties_laid)
  from lays_braces [OF this, of nl "indent_by 5"] have props: "lays (DObject ?fields) (''{'' @ nl @ ?props @ indent_by 5 @ ''}'')" by simp
  let ?location = "''['' @ nl @ indent_by 6 @ ''{'' @ nl @ indent_by 7 @ key_text ''logicalLocations'' @ ''['' @ nl @
         indent_by 8 @ ''{'' @ nl @
         indent_by 9 @ key_text ''name'' @ jsonQuoted (subjectName event) @ '','' @ nl @
         indent_by 9 @ key_text ''fullyQualifiedName'' @ jsonQuoted (fullyQualifiedName event) @ '','' @ nl @
         indent_by 9 @ key_text ''kind'' @ jsonQuoted (if what = EventEntry then ''member'' else LocationKind (boundaryTextFor what)) @ nl @
         indent_by 8 @ ''}'' @ nl @ indent_by 7 @ '']'' @ nl @ indent_by 6 @ ''}'' @ nl @ indent_by 5 @ '']''"
  let ?fs = "[(''ruleId'', jsonQuoted (result_rule what event)),
     (''level'', jsonQuoted (if what = EventEntry then levelFor event else ''none'')),
     (''kind'', jsonQuoted (if what = EventEntry then kindFor event else ''informational'')),
     (''message'', ''{ '' @ key_text ''text'' @ jsonQuoted (result_message what event) @ '' }''),
     (''locations'', ?location), (''properties'', ''{'' @ nl @ ?props @ indent_by 5 @ ''}'')]"
  have "lays (result_doc fd result) (''{'' @ nl @ field_lines 5 ?fs @ (nl @ indent_by 4) @ ''}'')"
    unfolding result_doc_def r fst_conv snd_conv Let_def
    by (intro lays_braces lays_lines)
      (simp_all only: list_all2_Cons list_all2_Nil prod.case lays_text lays_text_doc location_laid props simp_thms list.distinct blank_simps)
  from item_rule [of "indent_by 4" "[]", OF _ _ this]
  have "lays_items [result_doc fd result] (indent_by 4 @ ''{'' @ nl @ field_lines 5 ?fs @ nl @ indent_by 4 @ ''}'')" by simp
  moreover have "writeResult fd result b = (indent_by 4 @ ''{'' @ nl @ field_lines 5 ?fs @ nl @ indent_by 4 @ ''}'') @ (if b then nl else '','' @ nl)" for b
    by (simp add: writeResult_def r Let_def)
  ultimately show ?thesis by blast
qed

lemma document_laid:
  assumes "\<And>event. (EventEntry, event) \<in> set (mResults s) \<Longrightarrow> printable fd event"
  shows "\<exists>t. lays (sarif_schema fd endedUtc allPassed s) t \<and> sarif_document fd endedUtc allPassed s = t @ nl"
proof -
  have each: "\<exists>t. lays_items [result_doc fd r] t \<and> (\<forall>b. writeResult fd r b = t @ (if b then nl else '','' @ nl))"
    if "r \<in> set (mResults s)" for r
    using that assms by (intro result_laid) (metis prod.collapse)
  obtain g where g: "\<And>r. r \<in> set (mResults s) \<Longrightarrow> lays_items [result_doc fd r] (g r) \<and> (\<forall>b. writeResult fd r b = g r @ (if b then nl else '','' @ nl))"
    using each by metis
  have same: "each_with_last (writeResult fd) rs = each_with_last (\<lambda>r b. g r @ (if b then nl else '','' @ nl)) rs"
    if "set rs \<subseteq> set (mResults s)" for rs
    using that by (induction rs) (auto simp: g)
  have "lays (DArray (map (result_doc fd) (mResults s))) (''['' @ nl @ each_with_last (writeResult fd) (mResults s) @ indent_by 3 @ '']'')"
    unfolding same [OF subset_refl] by (rule lays_each [where g = g]) (use g in auto)
  from field_rule [of "indent_by 3" nl, OF _ _ this]
  have results: "lays_fields [(''results'', DArray (map (result_doc fd) (mResults s)))] (writeResults fd s)"
    by (simp add: writeResults_def)
  obtain t i a p where parts:
    "lays_fields [(''tool'', tool_doc s)] t" "writeToolDriver s = t @ '','' @ nl"
    "lays_fields [(''invocations'', DArray [invocation_doc endedUtc s])] i" "writeInvocations endedUtc s = i @ '','' @ nl"
    "lays_fields [(''automationDetails'', automation_doc s)] a" "writeAutomationDetails s = a @ '','' @ nl"
    "lays_fields [(''properties'', DObject (run_fields (sarif_info s) endedUtc @ [(''allPassed'', DBool allPassed)]))] p"
    "writeRunProperties endedUtc allPassed s = p @ '','' @ nl"
    using tool_laid invocations_laid automation_laid properties_laid by metis
  have lead: "lays_fields fs u \<Longrightarrow> lays_fields fs (nl @ u)" for fs u using lays_fields_pad [of fs u nl] by simp
  from lays_fields_append [OF parts(1) lead [OF lays_fields_append [OF parts(3) lead [OF lays_fields_append [OF parts(5)
      lead [OF lays_fields_append [OF parts(7) lead [OF results]]]]]]]]
  have run: "lays_fields [(''tool'', tool_doc s), (''invocations'', DArray [invocation_doc endedUtc s]), (''automationDetails'', automation_doc s),
      (''properties'', DObject (run_fields (sarif_info s) endedUtc @ [(''allPassed'', DBool allPassed)])),
      (''results'', DArray (map (result_doc fd) (mResults s)))]
      (writeToolDriver s @ writeInvocations endedUtc s @ writeAutomationDetails s @ writeRunProperties endedUtc allPassed s @ writeResults fd s)"
    by (simp add: parts)
  let ?runs = "''['' @ (nl @ indent_by 2) @ (''{'' @ nl @ (writeToolDriver s @ writeInvocations endedUtc s @ writeAutomationDetails s @
      writeRunProperties endedUtc allPassed s @ writeResults fd s) @ indent_by 2 @ ''}'') @ (nl @ indent_by 1) @ '']''"
  have runs: "lays (DArray [DObject [(''tool'', tool_doc s), (''invocations'', DArray [invocation_doc endedUtc s]), (''automationDetails'', automation_doc s),
      (''properties'', DObject (run_fields (sarif_info s) endedUtc @ [(''allPassed'', DBool allPassed)])),
      (''results'', DArray (map (result_doc fd) (mResults s)))]]) ?runs"
    by (intro lays_brackets lays_single_item lays_braces run) (simp_all only: blank_simps simp_thms)
  have "lays (sarif_schema fd endedUtc allPassed s)
      (''{'' @ nl @ field_lines 1 [(''$schema'', jsonQuoted kSarifSchema), (''version'', jsonQuoted kSarifVersion), (''runs'', ?runs)] @ nl @ ''}'')"
    unfolding sarif_schema_def
    by (intro lays_braces lays_lines) (simp_all only: list_all2_Cons list_all2_Nil prod.case lays_text runs simp_thms list.distinct blank_simps)
  moreover have "sarif_document fd endedUtc allPassed s =
      (''{'' @ nl @ field_lines 1 [(''$schema'', jsonQuoted kSarifSchema), (''version'', jsonQuoted kSarifVersion), (''runs'', ?runs)] @ nl @ ''}'') @ nl"
    by (simp add: sarif_document_def)
  ultimately show ?thesis by blast
qed


section \<open>The log of a run\<close>

fun is_end :: "SinkCall \<Rightarrow> bool" where
  "is_end (OnRunEnd b) \<longleftrightarrow> True"
| "is_end _ \<longleftrightarrow> False"

fun event_told :: "SinkCall \<Rightarrow> JournalEvent list" where
  "event_told (OnEvent event) = [event]"
| "event_told _ = []"

definition logged_events :: "SarifSink \<Rightarrow> JournalEvent list" where
  "logged_events s = map snd (filter (\<lambda>r. fst r = EventEntry) (mResults s))"

lemma results_simps [simp]:
  "mResults (add_rule r d s) = mResults s" "mResults (noteRule event s) = mResults s"
  "mResults (noteBoundary what subject title enclosing millis s) =
     mResults s @ [(what, boundary_event subject title enclosing millis)]"
  by (simp_all add: add_rule_def noteRule_def noteBoundary_def Let_def)

lemma call_events: "\<not> is_end call \<Longrightarrow> logged_events (snd (sarif_call world millis call s)) = logged_events s @ event_told call"
  by (cases call) (simp_all add: logged_events_def)

lemma run_events:
  "list_all (\<lambda>c. \<not> is_end (snd c)) calls \<Longrightarrow>
     logged_events (sarif_run world calls s) = logged_events s @ concat (map (event_told \<circ> snd) calls)"
proof (induction calls arbitrary: s)
  case (Cons c calls)
  then show ?case
    using Cons.IH [of "snd (sarif_call world (fst c) (snd c) s)"] by (simp add: sarif_run_def call_events split_beta)
qed (simp add: sarif_run_def)

lemma logged_event: "(EventEntry, event) \<in> set (mResults s) \<longleftrightarrow> event \<in> set (logged_events s)"
  by (auto simp: logged_events_def intro!: image_eqI [of _ snd])

text \<open>
  C25: When a run ends, and the file can be written, the file is JSON that is read as the SARIF document of
  the run, with a result for every event the sink was told, in order, whatever their texts hold;
  provided every number of an event was printed as a number.
\<close>

theorem machine_log_reads_back:
  assumes "list_all (\<lambda>c. \<not> is_end (snd c)) calls"
    and "\<forall>event \<in> set (concat (map (event_told \<circ> snd) calls)). printable (sarif_digits world) event"
    and "can_open world" and "write_fails world = None"
  shows "\<exists>log text. sarif_run world calls (new_sarif info) = log \<and>
    sarif_file (sarif_run world (calls @ [(millis, OnRunEnd passed)]) (new_sarif info)) = Some text \<and>
    json_parse text = Some (meaning (sarif_schema (sarif_digits world) (isoUtcFromUnixMillis millis) passed log)) \<and>
    logged_events log = concat (map (event_told \<circ> snd) calls)"
proof -
  let ?log = "sarif_run world calls (new_sarif info)" and ?ended = "isoUtcFromUnixMillis millis"
  let ?text = "sarif_document (sarif_digits world) ?ended passed ?log"
  have events: "logged_events ?log = concat (map (event_told \<circ> snd) calls)"
    using run_events [OF assms(1), of world "new_sarif info"] by (simp add: logged_events_def new_sarif_def)
  from document_laid [of ?log "sarif_digits world" ?ended passed] assms(2) obtain t where
    t: "lays (sarif_schema (sarif_digits world) ?ended passed ?log) t" "?text = t @ nl"
    unfolding logged_event events by blast
  have "no_number_follows nl" using no_number_blank [of nl "[]"] by simp
  from parsesI parses_laid(1) [OF t(1) this] t(2) have "parses ?text (meaning (sarif_schema (sarif_digits world) ?ended passed ?log)) nl"
    by simp
  moreover have "skipSpace nl = []" using skipSpace_blank [of nl "[]"] by (simp add: skipSpace_def)
  ultimately have "json_parse ?text = Some (meaning (sarif_schema (sarif_digits world) ?ended passed ?log))"
    by (rule parses_json_parse)
  moreover have "sarif_file (sarif_run world (calls @ [(millis, OnRunEnd passed)]) (new_sarif info)) = Some ?text"
    using assms(3,4) by (simp add: sarif_run_def writeLog_def Let_def)
  ultimately show ?thesis using events by blast
qed

definition rules_resolve :: "SarifSink \<Rightarrow> bool" where
  "rules_resolve s \<longleftrightarrow> distinct (map fst (mRules s)) \<and> (\<forall>r \<in> set (mResults s). result_rule (fst r) (snd r) \<in> fst ` set (mRules s))"

lemma add_rule_ids:
  "fst ` set (mRules (add_rule r d s)) = insert r (fst ` set (mRules s))"
  "distinct (map fst (mRules s)) \<Longrightarrow> distinct (map fst (mRules (add_rule r d s)))"
  by (auto simp: add_rule_def list_ex_iff)

lemma call_resolves: "rules_resolve s \<Longrightarrow> rules_resolve (snd (sarif_call world millis call s))"
  by (cases call)
    (simp_all add: rules_resolve_def noteRule_def noteBoundary_def writeLog_def add_rule_ids Let_def split: option.split,
     simp_all add: result_rule_def)

text \<open>
  C26: Every result of the log names a rule the log declares, and no rule is declared twice, at any time of a run.
\<close>

theorem every_result_has_its_rule: "rules_resolve (sarif_run world calls (new_sarif info))"
proof -
  have "rules_resolve s \<Longrightarrow> rules_resolve (sarif_run world calls s)" for s
  proof (induction calls arbitrary: s)
    case (Cons c calls)
    then show ?case using call_resolves [of s world "fst c" "snd c"] by (simp add: sarif_run_def split_beta)
  qed (simp add: sarif_run_def)
  then show ?thesis by (simp add: rules_resolve_def new_sarif_def)
qed

definition small_world :: SarifWorld where
  "small_world = \<lparr>sarif_digits = (\<lambda>_ _. ''5''), mPath = ''run.sarif'', can_open = True, write_fails = None\<rparr>"

definition one_reading :: JournalEvent where
  "one_reading = JournalRecord.extend (blank_record\<lparr>Method := Measure, Subject := ''Out'', Value := ''5 V'', Numeric := Some (Fin 5)\<rparr>)
     (JournalEvent.fields 0 0 [] [] [] [])"

theorem machine_log_reads_back_witness:
  "\<exists>text. sarif_file (sarif_run small_world [(0, OnTestStart ''T'' []), (1, OnEvent one_reading), (2, OnRunEnd True)] (new_sarif blank_info)) = Some text \<and>
     (\<exists>j. json_parse text = Some j)"
  using machine_log_reads_back [of "[(0, OnTestStart ''T'' []), (1, OnEvent one_reading)]" small_world blank_info 2 True]
  by (auto simp: printable_def small_world_def one_reading_def formatNumber_def number_text_def number_char_def is_digit_def JournalRecord.defs JournalEvent.defs)

end
