(* ===== verification/Console.thy ===== *)
theory Console
  imports ConsoleEvents
begin

text \<open>
  What the console makes of a suite it did not build: webui/src/protocol/options.cpp, command.cpp and
  suite.cpp. A path is its text, with the POSIX meaning std::filesystem gives its parts; the walk of
  a directory tree, what a file holds and the relation of two paths are what the file system answers,
  and parameters.
\<close>

section \<open>The options a suite describes\<close>

datatype OptionKind = KindSwitch | KindText | KindNumber | KindList | KindUnheard

record ConsoleOption =
  OptSpellings :: "string list"
  OptHelp :: string
  OptPlaceholder :: string
  OptNoun :: string
  OptKind :: OptionKind
  OptClears :: bool
  OptRepeatable :: bool
  OptPositive :: bool
  OptQuery :: bool

definition optionKindFrom :: "string \<Rightarrow> OptionKind" where
  "optionKindFrom name =
     (if name = ''switch'' then KindSwitch else if name = ''text'' then KindText
      else if name = ''number'' then KindNumber else if name = ''list'' then KindList else KindUnheard)"

definition option_entry :: "json \<Rightarrow> ConsoleOption option" where
  "option_entry entry =
     (case json_at entry ''flags'' of
        None \<Rightarrow> None
      | Some flags \<Rightarrow>
          if json_items flags = [] then None
          else Some \<lparr>OptSpellings = map (\<lambda>spelling. json_text spelling []) (json_items flags),
                 OptHelp = json_textAt entry ''help'' [], OptPlaceholder = json_textAt entry ''placeholder'' [],
                 OptNoun = json_textAt entry ''noun'' [], OptKind = optionKindFrom (json_textAt entry ''kind'' []),
                 OptClears = json_boolAt entry ''clears'' False, OptRepeatable = json_boolAt entry ''repeatable'' False,
                 OptPositive = json_boolAt entry ''positive'' False, OptQuery = json_boolAt entry ''query'' False\<rparr>)"

fun option_entries :: "json list \<Rightarrow> ConsoleOption list option" where
  "option_entries [] = Some []"
| "option_entries (entry # entries) =
     (case option_entry entry of
        None \<Rightarrow> None
      | Some info \<Rightarrow> map_option ((#) info) (option_entries entries))"

definition parseOptionModel :: "string \<Rightarrow> ConsoleOption list option" where
  "parseOptionModel text =
     (case json_parse text of
        None \<Rightarrow> None
      | Some document \<Rightarrow>
          (case json_at document ''options'' of
             None \<Rightarrow> None
           | Some options \<Rightarrow> option_entries (json_items options)))"

definition option_flag :: "ConsoleOption \<Rightarrow> string" where
  "option_flag info = hd (OptSpellings info)"

section \<open>Suites\<close>

record TestEntry =
  EntryGroup :: string
  EntryId :: string
  EntryDescription :: string

record Suite =
  BinaryPath :: string
  ManifestPath :: string
  SuiteTests :: "TestEntry list"
  CriteriaVariants :: "string list"
  DefaultCriteria :: string
  MasterCriteria :: string
  RootPath :: string

definition kManifestName :: string where "kManifestName = ''manifest.json''"

text \<open>The last part of a path, the path above it, and a path below another.\<close>

definition slash :: char where "slash = CHR ''/''"

definition path_filename :: "string \<Rightarrow> string" where
  "path_filename p = rev (takeWhile (\<lambda>c. c \<noteq> slash) (rev p))"

definition path_parent :: "string \<Rightarrow> string" where
  "path_parent p =
     (if list_all (\<lambda>c. c = slash) p then p
      else (let above = rev (dropWhile (\<lambda>c. c = slash) (dropWhile (\<lambda>c. c \<noteq> slash) (rev p)))
            in if above = [] \<and> hd p = slash then [slash] else above))"

definition path_append :: "string \<Rightarrow> string \<Rightarrow> string" where
  "path_append base name =
     (if name \<noteq> [] \<and> hd name = slash then name
      else if path_filename base = [] then base @ name
      else base @ [slash] @ name)"

text \<open>std::filesystem::relative asks the file system about links: None is its error.\<close>

definition suite_label :: "(string \<Rightarrow> string \<Rightarrow> string option) \<Rightarrow> Suite \<Rightarrow> string" where
  "suite_label relative suite =
     (let directory = path_parent (ManifestPath suite);
          directory = (if path_filename directory = ''bin'' then path_parent directory else directory)
      in case relative directory (RootPath suite) of
           Some r \<Rightarrow>
             if r \<noteq> [] \<and> r \<noteq> ''.'' then r
             else if path_filename directory \<noteq> [] then path_filename directory else BinaryPath suite
         | None \<Rightarrow> if path_filename directory \<noteq> [] then path_filename directory else BinaryPath suite)"

definition test_entry :: "string \<Rightarrow> TestEntry list" where
  "test_entry line =
     (case split_first (CHR ''|'') line of
        None \<Rightarrow> []
      | Some (grp, rest) \<Rightarrow>
          (case split_first (CHR ''|'') rest of
             None \<Rightarrow> []
           | Some (name, description) \<Rightarrow>
               [\<lparr>EntryGroup = grp, EntryId = name, EntryDescription = description\<rparr>]))"

definition parseTestList :: "string \<Rightarrow> TestEntry list" where
  "parseTestList text = concat (map (\<lambda>line. test_entry (without_cr line)) (split_on (CHR 0x0A) text))"

definition manifest_test :: "json \<Rightarrow> TestEntry" where
  "manifest_test test =
     \<lparr>EntryGroup = json_textAt test ''group'' [], EntryId = json_textAt test ''id'' [],
      EntryDescription = json_textAt test ''description'' []\<rparr>"

definition items_at :: "json \<Rightarrow> string \<Rightarrow> json list" where
  "items_at document key = (case json_at document key of None \<Rightarrow> [] | Some v \<Rightarrow> json_items v)"

definition parseManifest :: "string \<Rightarrow> string \<Rightarrow> string \<Rightarrow> Suite option" where
  "parseManifest text manifestPath prefix =
     (case json_parse text of
        None \<Rightarrow> None
      | Some document \<Rightarrow>
          (let binary = json_textAt document ''binary'' []
           in if binary = [] then None
              else Some \<lparr>BinaryPath = path_append (path_parent manifestPath) binary, ManifestPath = manifestPath,
                     SuiteTests = map manifest_test (items_at document ''tests''),
                     CriteriaVariants = map (\<lambda>v. json_text v []) (items_at document ''criteriaVariants''),
                     DefaultCriteria = json_textAt document ''defaultCriteriaVariant'' [],
                     MasterCriteria = json_textAt document ''masterCriteriaVariant'' [], RootPath = prefix\<rparr>))"

text \<open>
  The walk of a prefix: the entries it reaches, each with what the file holds or None when it cannot
  be opened, and the error of a step that failed. A step is the iterator's increment in the range for,
  which throws; only the start of the walk has an error code.
\<close>

datatype walk = WalkRefused | Walk "(string \<times> string option) list" "string option"

fun suites_among :: "string \<Rightarrow> (string \<times> string option) list \<Rightarrow> Suite list" where
  "suites_among prefix [] = []"
| "suites_among prefix ((path, content) # entries) =
     (if path_filename path \<noteq> kManifestName then []
      else (case content of
              None \<Rightarrow> []
            | Some text \<Rightarrow> (case parseManifest text path prefix of None \<Rightarrow> [] | Some suite \<Rightarrow> [suite])))
     @ suites_among prefix entries"

definition discoverSuites :: "string \<Rightarrow> walk \<Rightarrow> string + Suite list" where
  "discoverSuites prefix walk =
     (case walk of
        WalkRefused \<Rightarrow> Inr []
      | Walk entries None \<Rightarrow> Inr (suites_among prefix entries)
      | Walk entries (Some failure) \<Rightarrow> Inl failure)"

section \<open>The commands\<close>

record OptionSetting =
  SettingFlag :: string
  SettingValue :: string
  Present :: bool

record RunRequest =
  RequestSelection :: "string list"
  Settings :: "OptionSetting list"
  Extra :: "string list"

definition streamFlags :: "string list" where
  "streamFlags = [''--quiet'', ''--no-color'', ''--events=-'', ''--stop-on-stdin'']"

definition joined_with :: "char \<Rightarrow> string list \<Rightarrow> string" where
  "joined_with separator values =
     foldl (\<lambda>text v. (if text \<noteq> [] then text @ [separator] else text) @ v) [] values"

definition setting_args :: "OptionSetting \<Rightarrow> string list" where
  "setting_args setting =
     (if \<not> Present setting then []
      else [if SettingValue setting = [] then SettingFlag setting
            else SettingFlag setting @ ''='' @ SettingValue setting])"

definition buildRunCommand :: "Suite \<Rightarrow> RunRequest \<Rightarrow> string list" where
  "buildRunCommand suite request =
     [BinaryPath suite] @ streamFlags
     @ (if RequestSelection request \<noteq> [] then [''--select='' @ joined_with (CHR '','') (RequestSelection request)] else [])
     @ concat (map setting_args (Settings request)) @ Extra request"

definition buildSafeCommand :: "Suite \<Rightarrow> string list" where
  "buildSafeCommand suite = [BinaryPath suite, ''--safe'']"

definition buildListTestsCommand :: "Suite \<Rightarrow> string list" where
  "buildListTestsCommand suite = [BinaryPath suite, ''--list-tests'']"

definition buildDescribeCommand :: "Suite \<Rightarrow> string list" where
  "buildDescribeCommand suite = [BinaryPath suite, ''--describe-options'']"

definition buildDescribeCriteriaCommand :: "Suite \<Rightarrow> string list" where
  "buildDescribeCriteriaCommand suite = [BinaryPath suite, ''--describe-criteria'']"

end
