(* ===== verification/ConsoleServer.thy ===== *)
theory ConsoleServer
  imports Console
begin

text \<open>
  The console's server: webui/src/child_stream.cpp (the POSIX half), run_session.cpp and the handlers of
  webui/src/main.cpp. The child process, the file system and the HTTP library are not the program's own:
  what a child writes and how it ends are events, and what the system answers to a request's calls is
  an oracle of that request. Everything done under the session's lock is one step. The lock is
  released while an emergency waits for the process to die, and the requests are served by threads of
  their own, so an emergency is several steps with anything between them: the kill is sent, the wait ends,
  --safe is started, its exit answers the request. The other requests that run the binary touch nothing
  the server keeps but the list of what was started, and are one step.
\<close>

section \<open>Lines of a child\<close>

text \<open>
  What a reader thread makes of a read: the whole lines, each handed on, and the text after the last
  of them. A line that has not ended when its pipe closes is never handed on.
\<close>

definition whole_lines :: "string \<Rightarrow> string list" where
  "whole_lines text = butlast (split_on newline text)"

definition partial_line :: "string \<Rightarrow> string" where
  "partial_line text = last (split_on newline text)"

datatype ChildEvent = StdoutChunk string | StdoutEnds | StderrChunk string | StderrEnds | Exits int

record ChildStream =
  mPartialLine :: string
  mPartialStderrLine :: string
  StdoutOpen :: bool
  StderrOpen :: bool
  StdinOpen :: bool
  Reaped :: bool

definition new_child :: ChildStream where
  "new_child = \<lparr>mPartialLine = [], mPartialStderrLine = [], StdoutOpen = True, StderrOpen = True, StdinOpen = True, Reaped = False\<rparr>"

text \<open>
  requestStop and kill: nothing after the pipe is closed, and nothing after the child has been reaped.
  The last argument is whether the write, or the signal, succeeds.
\<close>

definition child_requestStop :: "ChildStream \<Rightarrow> bool \<Rightarrow> bool" where
  "child_requestStop child write_ok \<longleftrightarrow> StdinOpen child \<and> write_ok"

definition child_kill :: "ChildStream \<Rightarrow> bool \<Rightarrow> bool" where
  "child_kill child kill_ok \<longleftrightarrow> \<not> Reaped child \<and> kill_ok"

section \<open>The session\<close>

record RunSession =
  mLines :: "string list"
  mActive :: bool
  mChild :: "ChildStream option"

definition new_session :: RunSession where
  "new_session = \<lparr>mLines = [], mActive = False, mChild = None\<rparr>"

definition stderr_char :: "char \<Rightarrow> string" where
  "stderr_char c =
     (if c = dq then [bs, dq] else if c = bs then [bs, bs]
      else if (of_char c :: nat) < 0x20 then control_escape c else [c])"

definition quoted_pair :: "string \<Rightarrow> string \<Rightarrow> string" where
  "quoted_pair key v = [dq] @ key @ [dq] @ '':'' @ v"

definition stderrEnvelope :: "string \<Rightarrow> string" where
  "stderrEnvelope line =
     ''{'' @ quoted_pair ''kind'' ([dq] @ ''stderr'' @ [dq]) @ '','' @ quoted_pair ''text'' ([dq] @ concat (map stderr_char line) @ [dq]) @ ''}''"

text \<open>
  One event of the child, as its two threads take it. The reader closes stdin when stdout ends,
  then waits for the stderr thread, reaps the child and reports the exit, in that order; an event that
  its thread is not waiting for does not happen.
\<close>

definition child_event :: "ChildEvent \<Rightarrow> RunSession \<Rightarrow> RunSession" where
  "child_event event s =
     (case mChild s of
        None \<Rightarrow> s
      | Some child \<Rightarrow>
          (case event of
             StdoutChunk text \<Rightarrow>
               if StdoutOpen child
               then s\<lparr>mLines := mLines s @ whole_lines (mPartialLine child @ text),
                      mChild := Some (child\<lparr>mPartialLine := partial_line (mPartialLine child @ text)\<rparr>)\<rparr>
               else s
           | StdoutEnds \<Rightarrow> s\<lparr>mChild := Some (child\<lparr>StdoutOpen := False, StdinOpen := False\<rparr>)\<rparr>
           | StderrChunk text \<Rightarrow>
               if StderrOpen child
               then s\<lparr>mLines := mLines s @ map stderrEnvelope (whole_lines (mPartialStderrLine child @ text)),
                      mChild := Some (child\<lparr>mPartialStderrLine := partial_line (mPartialStderrLine child @ text)\<rparr>)\<rparr>
               else s
           | StderrEnds \<Rightarrow> s\<lparr>mChild := Some (child\<lparr>StderrOpen := False\<rparr>)\<rparr>
           | Exits code \<Rightarrow>
               if \<not> StdoutOpen child \<and> \<not> StderrOpen child \<and> \<not> Reaped child
               then s\<lparr>mActive := False, mChild := Some (child\<lparr>Reaped := True\<rparr>)\<rparr>
               else s))"

definition session_start :: "bool \<Rightarrow> RunSession \<Rightarrow> bool \<times> RunSession" where
  "session_start spawn_ok s =
     (if mActive s then (False, s)
      else if spawn_ok then (True, s\<lparr>mLines := [], mActive := True, mChild := Some new_child\<rparr>)
      else (False, s\<lparr>mLines := [], mActive := False, mChild := None\<rparr>))"

definition session_stop :: "bool \<Rightarrow> RunSession \<Rightarrow> bool" where
  "session_stop write_ok s \<longleftrightarrow>
     mActive s \<and> (case mChild s of None \<Rightarrow> False | Some child \<Rightarrow> child_requestStop child write_ok)"

text \<open>
  kill: whether there was a process the signal was sent to; only then it waits for the exit, at most five
  seconds, and its answer is whether no run is active when the wait ends, woken or out of time.
\<close>

definition session_kill :: "bool \<Rightarrow> RunSession \<Rightarrow> bool" where
  "session_kill kill_ok s \<longleftrightarrow>
     mActive s \<and> (case mChild s of None \<Rightarrow> False | Some child \<Rightarrow> child_kill child kill_ok)"

definition session_killed :: "RunSession \<Rightarrow> bool" where
  "session_killed s \<longleftrightarrow> \<not> mActive s"

record Update =
  UpdateLines :: "string list"
  UpdateNext :: nat
  StillRunning :: bool

definition lines_since :: "nat \<Rightarrow> RunSession \<Rightarrow> Update" where
  "lines_since from_line s =
     \<lparr>UpdateLines = drop from_line (mLines s), UpdateNext = length (mLines s), StillRunning = mActive s\<rparr>"

section \<open>Asking the binary\<close>

text \<open>
  runBlocking: a process that could not be started, or what it wrote, read by read, and its exit
  code. The answer is put together line by line.
\<close>

datatype Blocking = NotStarted | Ran "string list" int

record BlockingResult =
  ExitCode :: int
  Output :: string
  Started :: bool

definition runBlocking :: "Blocking \<Rightarrow> BlockingResult" where
  "runBlocking outcome =
     (case outcome of
        NotStarted \<Rightarrow> \<lparr>ExitCode = - 1, Output = [], Started = False\<rparr>
      | Ran chunks code \<Rightarrow>
          \<lparr>ExitCode = code, Output = concat (map (\<lambda>line. line @ [newline]) (whole_lines (concat chunks))), Started = True\<rparr>)"

section \<open>The request to run\<close>

definition setting_of :: "json \<Rightarrow> OptionSetting" where
  "setting_of item =
     \<lparr>SettingFlag = json_textAt item ''flag'' [], SettingValue = json_textAt item ''value'' [],
      Present = json_boolAt item ''present'' True\<rparr>"

definition buildRunRequest :: "json \<Rightarrow> RunRequest" where
  "buildRunRequest body =
     \<lparr>RequestSelection = map (\<lambda>item. json_text item []) (items_at body ''selection''),
      Settings = map setting_of (items_at body ''settings''),
      Extra = map (\<lambda>item. json_text item []) (items_at body ''extra'')\<rparr>"

definition empty_request :: RunRequest where
  "empty_request = \<lparr>RequestSelection = [], Settings = [], Extra = []\<rparr>"

definition requested_run :: "string \<Rightarrow> RunRequest" where
  "requested_run body = (case json_parse body of Some document \<Rightarrow> buildRunRequest document | None \<Rightarrow> empty_request)"

definition sseFrame :: "string \<Rightarrow> string" where
  "sseFrame line = ''data: '' @ line @ [newline, newline]"

section \<open>The handlers\<close>

datatype Request =
    GetOptions | GetTests | GetCriteria | PostSafe | PostStop | PostRun string
  | GetLog bool | GetStatus | GetFile string

record Reply =
  Status :: nat
  Body :: string
  ContentType :: string

text \<open>What the system answers while a request is served. An emergency is served in steps of its own, below.\<close>

record Oracle =
  o_blocking :: Blocking
  o_spawn :: bool
  o_write :: bool
  o_file :: "string \<Rightarrow> string option"

text \<open>
  The server's state: the session, the pages open, the event streams open, each with its cursor and
  what it has sent, every command line the system was asked to start, in order, and the emergencies
  being served, each as far as it has come. Three parts are kept for the theorems alone: \<open>runs\<close> counts how
  often the lines of the session were cleared, and a stream and an emergency know the count they began at;
  \<open>said\<close> is what the child of the session has done so far; an emergency knows whether a run was active when
  it was asked for.
\<close>

datatype EmergencyStage = Waiting | Returned bool | SafeStarted bool | Replied bool Blocking

record Emergency =
  Stage :: EmergencyStage
  PressedIn :: nat
  PressedActive :: bool

record Stream =
  Cursor :: nat
  Sent :: "string list"
  StreamOpen :: bool
  OpenedIn :: nat

record ConsoleState =
  session :: RunSession
  viewers :: int
  streams :: "Stream list"
  commands :: "string list list"
  emergencies :: "Emergency list"
  runs :: nat
  said :: "ChildEvent list"

definition new_console :: ConsoleState where
  "new_console = \<lparr>session = new_session, viewers = 0, streams = [], commands = [], emergencies = [],
     runs = 0, said = []\<rparr>"

definition suite_of :: "string \<Rightarrow> Suite" where
  "suite_of run_scripts =
     \<lparr>BinaryPath = run_scripts, ManifestPath = [], SuiteTests = [], CriteriaVariants = [], DefaultCriteria = [],
      MasterCriteria = [], RootPath = []\<rparr>"

definition ran :: "string list \<Rightarrow> ConsoleState \<Rightarrow> ConsoleState" where
  "ran argv c = c\<lparr>commands := commands c @ [argv]\<rparr>"

definition plain_reply :: "nat \<Rightarrow> string \<Rightarrow> string \<Rightarrow> Reply" where
  "plain_reply status body type = \<lparr>Status = status, Body = body, ContentType = type\<rparr>"

definition json_type :: string where "json_type = ''application/json''"

definition one_field :: "string \<Rightarrow> string \<Rightarrow> string" where
  "one_field key v = ''{'' @ quoted_pair key v @ ''}''"

definition quoted_text :: "string \<Rightarrow> string" where
  "quoted_text s = [dq] @ s @ [dq]"

definition bool_json :: "bool \<Rightarrow> string" where
  "bool_json b = (if b then ''true'' else ''false'')"

definition log_path :: "bool \<Rightarrow> string list \<Rightarrow> string" where
  "log_path rtf ls =
     (case find (\<lambda>line. case parseEvent line of Some event \<Rightarrow> Which event = KindRunStart | None \<Rightarrow> False) ls of
        None \<Rightarrow> []
      | Some line \<Rightarrow>
          (case parseEvent line of
             None \<Rightarrow> []
           | Some event \<Rightarrow> if rtf then EvRtfLog event else EvSarifLog event))"

definition serve_log :: "bool \<Rightarrow> (string \<Rightarrow> string option) \<Rightarrow> RunSession \<Rightarrow> Reply" where
  "serve_log rtf file s =
     (if mActive s then plain_reply 409 (one_field ''error'' (quoted_text ''the run is still in progress'')) json_type
      else (let path = log_path rtf (mLines s)
            in case (if path = [] then None else file path) of
                 None \<Rightarrow> plain_reply 404 (one_field ''error'' (quoted_text ''the last run wrote no such log'')) json_type
               | Some text \<Rightarrow> plain_reply 200 text (if rtf then ''application/rtf'' else ''application/sarif+json'')))"

definition serve_file :: "(string \<times> string \<times> string) list \<Rightarrow> string \<Rightarrow> Reply" where
  "serve_file static_files path =
     (let path = (if path = ''/'' then ''/index.html'' else path)
      in case find (\<lambda>(p, _). p = path) static_files of
           Some (_, body, type) \<Rightarrow> plain_reply 200 body type
         | None \<Rightarrow> plain_reply 404 (''not found'' @ [newline]) ''text/plain'')"

fun handle :: "Suite \<Rightarrow> (string \<times> string \<times> string) list \<Rightarrow> Oracle \<Rightarrow> Request \<Rightarrow> ConsoleState \<Rightarrow> Reply \<times> ConsoleState" where
  "handle suite static_files oracle GetOptions c =
     (let result = runBlocking (o_blocking oracle)
      in (plain_reply (if Started result then 200 else 500) (Output result) json_type, ran (buildDescribeCommand suite) c))"
| "handle suite static_files oracle GetTests c =
     (let result = runBlocking (o_blocking oracle)
      in (plain_reply (if Started result then 200 else 500) (Output result) ''text/plain'', ran (buildListTestsCommand suite) c))"
| "handle suite static_files oracle GetCriteria c =
     (let result = runBlocking (o_blocking oracle)
      in (plain_reply (if Started result \<and> ExitCode result = 0 then 200 else 500) (Output result) json_type,
          ran (buildDescribeCriteriaCommand suite) c))"
| "handle suite static_files oracle PostSafe c =
     (let result = runBlocking (o_blocking oracle)
      in (plain_reply (if Started result then 200 else 500) (one_field ''ok'' (bool_json (Started result))) json_type,
          ran (buildSafeCommand suite) c))"
| "handle suite static_files oracle PostStop c =
     (let delivered = session_stop (o_write oracle) (session c)
      in (plain_reply (if delivered then 200 else 409)
            (if delivered then one_field ''ok'' ''true'' else one_field ''error'' (quoted_text ''no run to stop'')) json_type, c))"
| "handle suite static_files oracle (PostRun body) c =
     (let argv = buildRunCommand suite (requested_run body);
          (started, s) = session_start (o_spawn oracle) (session c)
      in if started
         then (plain_reply 200 (one_field ''ok'' ''true'') json_type, ran argv (c\<lparr>session := s, runs := runs c + 1, said := []\<rparr>))
         else (plain_reply 409 (one_field ''error'' (quoted_text ''a run is already active'')) json_type,
               if mActive (session c) then c else c\<lparr>session := s, runs := runs c + 1, said := []\<rparr>))"
| "handle suite static_files oracle (GetLog rtf) c = (serve_log rtf (o_file oracle) (session c), c)"
| "handle suite static_files oracle GetStatus c =
     (plain_reply 200
        (''{'' @ quoted_pair ''viewers'' (show_int (viewers c)) @ '','' @ quoted_pair ''running'' (bool_json (mActive (session c))) @ ''}'')
        json_type, c)"
| "handle suite static_files oracle (GetFile path) c = (serve_file static_files path, c)"

text \<open>The check before every route: the request must name this loopback address and port.\<close>

definition forbidden :: "nat \<Rightarrow> string \<Rightarrow> bool" where
  "forbidden port_number host_header \<longleftrightarrow>
     host_header \<noteq> ''127.0.0.1:'' @ show_nat port_number \<and> host_header \<noteq> ''localhost:'' @ show_nat port_number"

definition serve :: "nat \<Rightarrow> Suite \<Rightarrow> (string \<times> string \<times> string) list \<Rightarrow> Oracle \<Rightarrow> string \<Rightarrow> Request \<Rightarrow> ConsoleState \<Rightarrow> Reply \<times> ConsoleState" where
  "serve port_number suite static_files oracle host_header request c =
     (if forbidden port_number host_header
      then (plain_reply 403 (''forbidden'' @ [newline]) ''text/plain'', c)
      else handle suite static_files oracle request c)"

section \<open>Emergencies\<close>

text \<open>
  /api/emergency: the kill, the end of the wait, --safe, and the reply. An emergency with nothing to
  kill does not wait. The wait may end at any moment, woken or out of time.
\<close>

definition emergency_pressed :: "nat \<Rightarrow> bool \<Rightarrow> string \<Rightarrow> ConsoleState \<Rightarrow> ConsoleState" where
  "emergency_pressed port_number kill_ok host_header c =
     (if forbidden port_number host_header then c
      else c\<lparr>emergencies := emergencies c @
             [\<lparr>Stage = (if session_kill kill_ok (session c) then Waiting else Returned False),
               PressedIn = runs c, PressedActive = mActive (session c)\<rparr>]\<rparr>)"

definition put_stage :: "nat \<Rightarrow> EmergencyStage \<Rightarrow> ConsoleState \<Rightarrow> ConsoleState" where
  "put_stage i stage c = c\<lparr>emergencies := (emergencies c)[i := (emergencies c ! i)\<lparr>Stage := stage\<rparr>]\<rparr>"

definition emergency_wakes :: "nat \<Rightarrow> ConsoleState \<Rightarrow> ConsoleState" where
  "emergency_wakes i c =
     (case Stage (emergencies c ! i) of
        Waiting \<Rightarrow> put_stage i (Returned (session_killed (session c))) c
      | _ \<Rightarrow> c)"

definition emergency_safes :: "Suite \<Rightarrow> nat \<Rightarrow> ConsoleState \<Rightarrow> ConsoleState" where
  "emergency_safes suite i c =
     (case Stage (emergencies c ! i) of
        Returned killed \<Rightarrow> ran (buildSafeCommand suite) (put_stage i (SafeStarted killed) c)
      | _ \<Rightarrow> c)"

definition emergency_replies :: "Blocking \<Rightarrow> nat \<Rightarrow> ConsoleState \<Rightarrow> ConsoleState" where
  "emergency_replies outcome i c =
     (case Stage (emergencies c ! i) of
        SafeStarted killed \<Rightarrow> put_stage i (Replied killed outcome) c
      | _ \<Rightarrow> c)"

definition emergency_reply :: "bool \<Rightarrow> Blocking \<Rightarrow> Reply" where
  "emergency_reply killed outcome =
     (let safed = runBlocking outcome;
          ok = (Started safed \<and> ExitCode safed = 0)
      in plain_reply (if Started safed then 200 else 500)
           (''{'' @ quoted_pair ''killed'' (bool_json killed) @ '','' @ quoted_pair ''safed'' (bool_json ok) @ ''}'') json_type)"

section \<open>The streams\<close>

text \<open>
  One turn of the content provider of /api/events: the lines since the cursor, or a keep-alive. The
  stream closes when the run is over, or when a write fails.
\<close>

definition keep_alive :: string where
  "keep_alive = '': keep-alive'' @ [newline, newline]"

definition stream_turn :: "bool \<Rightarrow> RunSession \<Rightarrow> Stream \<Rightarrow> Stream" where
  "stream_turn write_ok s stream =
     (let update = lines_since (Cursor stream) s;
          frames = (if UpdateLines update = [] then [keep_alive] else map sseFrame (UpdateLines update))
      in if \<not> StreamOpen stream then stream
         else if \<not> write_ok then stream\<lparr>Cursor := UpdateNext update, StreamOpen := False\<rparr>
         else stream\<lparr>Cursor := UpdateNext update, Sent := Sent stream @ frames, StreamOpen := StillRunning update\<rparr>)"

definition open_stream :: "ConsoleState \<Rightarrow> ConsoleState" where
  "open_stream c = c\<lparr>streams := streams c @ [\<lparr>Cursor = 0, Sent = [], StreamOpen = True, OpenedIn = runs c\<rparr>]\<rparr>"

definition turn_stream :: "nat \<Rightarrow> bool \<Rightarrow> ConsoleState \<Rightarrow> ConsoleState" where
  "turn_stream i write_ok c = c\<lparr>streams := (streams c)[i := stream_turn write_ok (session c) (streams c ! i)]\<rparr>"

text \<open>/api/presence: one more page while its connection is open, one fewer when it closes.\<close>

definition page_opens :: "ConsoleState \<Rightarrow> ConsoleState" where
  "page_opens c = c\<lparr>viewers := viewers c + 1\<rparr>"

definition page_closes :: "ConsoleState \<Rightarrow> ConsoleState" where
  "page_closes c = c\<lparr>viewers := viewers c - 1\<rparr>"

section \<open>What can happen\<close>

text \<open>
  The steps of the server, in any order: requests, the steps of emergencies, events of the child there
  is, turns of the streams.
\<close>

definition child_does :: "ChildEvent \<Rightarrow> ConsoleState \<Rightarrow> ConsoleState" where
  "child_does event c =
     (if mChild (session c) = None then c
      else c\<lparr>session := child_event event (session c), said := said c @ [event]\<rparr>)"

inductive console_step :: "nat \<Rightarrow> Suite \<Rightarrow> (string \<times> string \<times> string) list \<Rightarrow> ConsoleState \<Rightarrow> ConsoleState \<Rightarrow> bool"
  for port_number suite static_files where
  serves: "console_step port_number suite static_files c (snd (serve port_number suite static_files oracle host_header request c))"
| emergency_begins: "console_step port_number suite static_files c (emergency_pressed port_number kill_ok host_header c)"
| wait_ends: "i < length (emergencies c) \<Longrightarrow> console_step port_number suite static_files c (emergency_wakes i c)"
| safe_starts: "i < length (emergencies c) \<Longrightarrow> console_step port_number suite static_files c (emergency_safes suite i c)"
| safe_ends: "i < length (emergencies c) \<Longrightarrow> console_step port_number suite static_files c (emergency_replies outcome i c)"
| child_acts: "console_step port_number suite static_files c (child_does event c)"
| stream_opens: "console_step port_number suite static_files c (open_stream c)"
| stream_turns: "i < length (streams c) \<Longrightarrow> console_step port_number suite static_files c (turn_stream i write_ok c)"
| page_arrives: "console_step port_number suite static_files c (page_opens c)"
| page_leaves: "console_step port_number suite static_files c (page_closes c)"

inductive console_reaches :: "nat \<Rightarrow> Suite \<Rightarrow> (string \<times> string \<times> string) list \<Rightarrow> ConsoleState \<Rightarrow> bool"
  for port_number suite static_files where
  started: "console_reaches port_number suite static_files new_console"
| steps: "console_reaches port_number suite static_files c \<Longrightarrow> console_step port_number suite static_files c c' \<Longrightarrow>
    console_reaches port_number suite static_files c'"

section \<open>The command line\<close>

record Config =
  RunScripts :: string
  Port :: int

text \<open>std::atoi, within the range of an int.\<close>

definition c_atoi :: "string \<Rightarrow> int" where
  "c_atoi s =
     (let t = dropWhile c_space s;
          (neg, u) = (case t of [] \<Rightarrow> (False, [])
                       | c # v \<Rightarrow> if c = CHR ''-'' then (True, v) else if c = CHR ''+'' then (False, v) else (False, t));
          n = int (read_nat (takeWhile is_digit u))
      in if neg then - n else n)"

definition startsWith :: "string \<Rightarrow> string \<Rightarrow> bool" where
  "startsWith value_text prefix_text \<longleftrightarrow> take (length prefix_text) value_text = prefix_text"

fun parse_console_args :: "string list \<Rightarrow> Config \<Rightarrow> string + Config" where
  "parse_console_args [] config =
     (if RunScripts config = [] then Inl ''--run-scripts=<path to run_scripts> is required'' else Inr config)"
| "parse_console_args (arg # args) config =
     (if startsWith arg ''--run-scripts='' then parse_console_args args (config\<lparr>RunScripts := drop 14 arg\<rparr>)
      else if startsWith arg ''--port='' then parse_console_args args (config\<lparr>Port := c_atoi (drop 7 arg)\<rparr>)
      else Inl (''Unrecognised argument: '' @ arg))"

definition parseConsoleArgs :: "string list \<Rightarrow> string + Config" where
  "parseConsoleArgs argv = parse_console_args (drop 1 argv) \<lparr>RunScripts = [], Port = 8420\<rparr>"

end
