(* ===== verification/Cli.thy ===== *)
theory Cli
  imports Runner Json
begin

text \<open>
  The command line: framework/runner/src/cli.hpp, which generates the parser, the --help text and the
  option model from the annotations of a struct, and the options of run_scripts in main.cpp.

  A struct is the list of its members in declaration order. A member is its annotations and its
  type, and a type carries how the generated code assigns to the member: the update of that field.
  What reflection does at compile time is then a function of the list of members.
\<close>

section \<open>The vocabulary\<close>

datatype 'o MemberType =
    BoolMember "(bool \<Rightarrow> bool) \<Rightarrow> 'o \<Rightarrow> 'o"
  | NumberMember "(64 word option \<Rightarrow> 64 word option) \<Rightarrow> 'o \<Rightarrow> 'o"
  | ListMember "(string list \<Rightarrow> string list) \<Rightarrow> 'o \<Rightarrow> 'o"
  | OptTextMember "(string option \<Rightarrow> string option) \<Rightarrow> 'o \<Rightarrow> 'o"
  | TextMember "(string \<Rightarrow> string) \<Rightarrow> 'o \<Rightarrow> 'o"

record 'o Member =
  FlagNotes :: "string list"
  DocNote :: "string option"
  MetaNote :: "string option"
  ClearsNote :: bool
  RepeatableNote :: bool
  PositiveNote :: "string option"
  QueryNote :: bool
  TypeOf :: "'o MemberType"

definition TextCapacity :: nat where "TextCapacity = 128"

text \<open>A literal fits when its characters and the closing zero do.\<close>

definition text_fits :: "string \<Rightarrow> bool" where
  "text_fits t \<longleftrightarrow> length t + 1 \<le> TextCapacity"

definition noted :: "string option \<Rightarrow> string" where
  "noted note = (case note of None \<Rightarrow> [] | Some t \<Rightarrow> t)"

definition spellingsOf :: "'o Member \<Rightarrow> string list" where
  "spellingsOf m = FlagNotes m"

definition docOf :: "'o Member \<Rightarrow> string" where
  "docOf m = noted (DocNote m)"

definition metaOf :: "'o Member \<Rightarrow> string" where
  "metaOf m = noted (MetaNote m)"

definition nounOf :: "'o Member \<Rightarrow> string" where
  "nounOf m = noted (PositiveNote m)"

definition isBool :: "'o Member \<Rightarrow> bool" where
  "isBool m = (case TypeOf m of BoolMember _ \<Rightarrow> True | _ \<Rightarrow> False)"

definition displayOf :: "'o Member \<Rightarrow> string" where
  "displayOf m =
     (let display = foldl (\<lambda>display spelling. (if display = [] then display else display @ '', '') @ spelling) [] (spellingsOf m)
      in if isBool m then display
         else display @ ''='' @ (if metaOf m = [] then ''VALUE'' else metaOf m))"

fun vocabularyIsSane :: "'o Member list \<Rightarrow> bool" where
  "vocabularyIsSane [] = True"
| "vocabularyIsSane (m # ms) =
     (let isFlag = spellingsOf m \<noteq> []
      in if ClearsNote m \<and> \<not> isBool m then False
         else if PositiveNote m \<noteq> None \<and> isBool m then False
         else if MetaNote m \<noteq> None \<and> isBool m then False
         else if QueryNote m \<and> \<not> isBool m then False
         else if QueryNote m \<and> \<not> isFlag then False
         else if isFlag \<and> docOf m = [] then False
         else if \<not> isFlag \<and> docOf m \<noteq> [] then False
         else vocabularyIsSane ms)"

section \<open>The help text\<close>

definition widest_display :: "'o Member list \<Rightarrow> nat" where
  "widest_display ms = foldl (\<lambda>widest m. if spellingsOf m \<noteq> [] then max widest (length (displayOf m)) else widest) 0 ms"

definition usage_line :: "nat \<Rightarrow> 'o Member \<Rightarrow> string" where
  "usage_line widest m =
     (if spellingsOf m = [] then []
      else ''  '' @ displayOf m @ replicate (widest - length (displayOf m)) (CHR '' '') @ ''  '' @ docOf m @ [CHR 0x0A])"

definition usageText :: "'o Member list \<Rightarrow> string" where
  "usageText ms = concat (map (usage_line (widest_display ms)) ms)"

section \<open>The option model\<close>

datatype Kind = SwitchKind | TextKind | NumberKind | ListKind

fun to_string_option_kind :: "Kind \<Rightarrow> string" where
  "to_string_option_kind SwitchKind = ''switch''"
| "to_string_option_kind TextKind = ''text''"
| "to_string_option_kind NumberKind = ''number''"
| "to_string_option_kind ListKind = ''list''"

record OptionInfo =
  Spellings :: "string list"
  HelpText :: string
  PlaceholderText :: string
  NounText :: string
  ValueKind :: Kind
  Clears :: bool
  Repeatable :: bool
  Positive :: bool
  Query :: bool

definition kindOf_member :: "'o Member \<Rightarrow> Kind" where
  "kindOf_member m = (case TypeOf m of
       BoolMember _ \<Rightarrow> SwitchKind
     | NumberMember _ \<Rightarrow> NumberKind
     | ListMember _ \<Rightarrow> ListKind
     | _ \<Rightarrow> TextKind)"

definition optionInfo :: "'o Member \<Rightarrow> OptionInfo" where
  "optionInfo m =
     \<lparr>Spellings = spellingsOf m, HelpText = docOf m, PlaceholderText = metaOf m, NounText = nounOf m, ValueKind = kindOf_member m,
      Clears = ClearsNote m, Repeatable = RepeatableNote m, Positive = (PositiveNote m \<noteq> None), Query = QueryNote m\<rparr>"

definition optionsModel :: "'o Member list \<Rightarrow> OptionInfo list" where
  "optionsModel ms = map optionInfo (filter (\<lambda>m. spellingsOf m \<noteq> []) ms)"

definition new_line :: string where "new_line = [CHR 0x0A]"

fun quoted_list :: "bool \<Rightarrow> string list \<Rightarrow> string" where
  "quoted_list isFirst [] = []"
| "quoted_list isFirst (s # ss) = (if isFirst then [] else '', '') @ jsonQuoted s @ quoted_list False ss"

definition json_key :: "string \<Rightarrow> string" where
  "json_key key = [dq] @ key @ [dq] @ '': ''"

definition json_bool :: "bool \<Rightarrow> string" where
  "json_bool b = (if b then ''true'' else ''false'')"

definition option_json :: "OptionInfo \<Rightarrow> string" where
  "option_json info =
     ''    {'' @ new_line
     @ ''      '' @ json_key ''flags'' @ ''['' @ quoted_list True (Spellings info) @ ''],'' @ new_line
     @ ''      '' @ json_key ''kind'' @ jsonQuoted (to_string_option_kind (ValueKind info)) @ '','' @ new_line
     @ ''      '' @ json_key ''help'' @ jsonQuoted (HelpText info) @ '','' @ new_line
     @ ''      '' @ json_key ''clears'' @ json_bool (Clears info) @ '','' @ new_line
     @ ''      '' @ json_key ''repeatable'' @ json_bool (Repeatable info) @ '','' @ new_line
     @ ''      '' @ json_key ''positive'' @ json_bool (Positive info) @ '','' @ new_line
     @ ''      '' @ json_key ''query'' @ json_bool (Query info)
     @ (if PlaceholderText info = [] then [] else '','' @ new_line @ ''      '' @ json_key ''placeholder'' @ jsonQuoted (PlaceholderText info))
     @ (if NounText info = [] then [] else '','' @ new_line @ ''      '' @ json_key ''noun'' @ jsonQuoted (NounText info))
     @ new_line @ ''    }''"

fun options_json :: "bool \<Rightarrow> OptionInfo list \<Rightarrow> string" where
  "options_json firstOption [] = []"
| "options_json firstOption (info # model) =
     (if firstOption then new_line else '','' @ new_line) @ option_json info @ options_json False model"

definition writeOptionsJson :: "OptionInfo list \<Rightarrow> string" where
  "writeOptionsJson model =
     ''{'' @ new_line @ ''  '' @ json_key ''options'' @ ''['' @ options_json True model @ new_line @ ''  ]'' @ new_line @ ''}'' @ new_line"

section \<open>Parsing\<close>

text \<open>The fields between the commas, less the empty ones.\<close>

definition splitCommaList :: "string \<Rightarrow> string list" where
  "splitCommaList csv = filter (\<lambda>part. part \<noteq> []) (split_on (CHR '','') csv)"

text \<open>What follows the equals sign of an argument of the form name=value.\<close>

definition value_after :: "string \<Rightarrow> string \<Rightarrow> string option" where
  "value_after name arg =
     (if length name < length arg \<and> take (length name) arg = name \<and> arg ! length name = CHR ''=''
      then Some (drop (length name + 1) arg) else None)"

text \<open>One argument against the members: it fits none, it is applied, or it is refused with a message.\<close>

datatype 'o matching = Unmatched | Matched 'o | Failed string

definition number_error :: "'o Member \<Rightarrow> string \<Rightarrow> string \<Rightarrow> string" where
  "number_error m name v =
     name @ ''= needs a positive whole number'' @ (if nounOf m = [] then [] else '' of '' @ nounOf m) @ '', got: '' @ v @ new_line"

definition assign :: "'o Member \<Rightarrow> string \<Rightarrow> string \<Rightarrow> 'o \<Rightarrow> 'o matching" where
  "assign m name v opts =
     (case TypeOf m of
        BoolMember upd \<Rightarrow> Unmatched
      | ListMember upd \<Rightarrow> Matched (upd (\<lambda>vs. if RepeatableNote m then vs @ [v] else splitCommaList v) opts)
      | NumberMember upd \<Rightarrow>
          (case from_chars_u64 v of
             None \<Rightarrow> Failed (number_error m name v)
           | Some number \<Rightarrow>
               if PositiveNote m = None \<or> number \<noteq> 0 then Matched (upd (\<lambda>_. Some number) opts)
               else Failed (number_error m name v))
      | OptTextMember upd \<Rightarrow> Matched (upd (\<lambda>_. Some v) opts)
      | TextMember upd \<Rightarrow> Matched (upd (\<lambda>_. v) opts))"

fun match_spellings :: "'o Member \<Rightarrow> string list \<Rightarrow> string \<Rightarrow> 'o \<Rightarrow> 'o matching" where
  "match_spellings m [] arg opts = Unmatched"
| "match_spellings m (name # names) arg opts =
     (case TypeOf m of
        BoolMember upd \<Rightarrow>
          if arg = name then Matched (upd (\<lambda>_. \<not> ClearsNote m) opts) else match_spellings m names arg opts
      | _ \<Rightarrow>
          (case value_after name arg of
             Some v \<Rightarrow> assign m name v opts
           | None \<Rightarrow> match_spellings m names arg opts))"

fun match_members :: "'o Member list \<Rightarrow> string \<Rightarrow> 'o \<Rightarrow> 'o matching" where
  "match_members [] arg opts = Unmatched"
| "match_members (m # ms) arg opts =
     (case match_spellings m (spellingsOf m) arg opts of
        Unmatched \<Rightarrow> match_members ms arg opts
      | r \<Rightarrow> r)"

text \<open>\<open>Inl\<close> is the refusal, with what was written to the error stream.\<close>

fun parse_args :: "'o Member list \<Rightarrow> string list \<Rightarrow> 'o \<Rightarrow> string + 'o" where
  "parse_args ms [] opts = Inr opts"
| "parse_args ms (arg # args) opts =
     (case match_members ms arg opts of
        Failed message \<Rightarrow> Inl message
      | Unmatched \<Rightarrow> Inl (''Unknown argument: '' @ arg @ new_line)
      | Matched opts' \<Rightarrow> parse_args ms args opts')"

definition cli_parse :: "'o Member list \<Rightarrow> 'o \<Rightarrow> string list \<Rightarrow> string + 'o" where
  "cli_parse ms defaults argv = parse_args ms (drop 1 argv) defaults"

section \<open>The options of run_scripts\<close>

definition plain_flag :: "string list \<Rightarrow> string \<Rightarrow> 'o MemberType \<Rightarrow> 'o Member" where
  "plain_flag names doc type =
     \<lparr>FlagNotes = names, DocNote = Some doc, MetaNote = None, ClearsNote = False, RepeatableNote = False, PositiveNote = None,
      QueryNote = False, TypeOf = type\<rparr>"

definition Options_members :: "Options Member list" where
  "Options_members =
     [
      (plain_flag [''--select''] (''run only the named test ids, in catalog order'') (ListMember SelectedIds_update))\<lparr>MetaNote := Some ''ID[,ID...]''\<rparr>,
      (plain_flag [''--list-tests''] (''print '' @ [dq] @ ''group|id|description'' @ [dq] @ '' per test and exit'') (BoolMember ListOnly_update))\<lparr>QueryNote := True\<rparr>,
      plain_flag [''--safe''] (''drop the rig to a known idle state and exit'') (BoolMember SafeOnly_update),
      (plain_flag [''--help''] (''print this list and exit'') (BoolMember ShowHelp_update))\<lparr>QueryNote := True\<rparr>,
      (plain_flag [''--describe-options''] (''print every flag as JSON and exit'') (BoolMember DescribeOptions_update))\<lparr>QueryNote := True\<rparr>,
      (plain_flag [''--describe-criteria''] (''print the criteria variants as JSON and exit'') (BoolMember DescribeCriteria_update))\<lparr>QueryNote := True\<rparr>,
      (plain_flag [''--criteria''] (''run against that tolerance variant'') (OptTextMember OptCriteria_update))\<lparr>MetaNote := Some ''NAME''\<rparr>,
      (plain_flag [''--repeat''] (''run the selection N times over'') (NumberMember Repeat_update))\<lparr>MetaNote := Some ''N'', PositiveNote := Some ''passes''\<rparr>,
      plain_flag [''--until-failure''] (''stop as soon as a pass fails'') (BoolMember UntilFailure_update),
      plain_flag [''--stop-on-stdin''] (''end the run after the current test when stdin says '' @ [dq] @ ''stop'' @ [dq] @ '' or is closed'') (BoolMember StopOnStdin_update),
      (plain_flag [''--record''] (''write the reading stream to PATH'') (OptTextMember RecordPath_update))\<lparr>MetaNote := Some ''PATH''\<rparr>,
      (plain_flag [''--replay''] (''read readings from PATH instead of the rig'') (OptTextMember ReplayPath_update))\<lparr>MetaNote := Some ''PATH''\<rparr>,
      (plain_flag [''--skeleton''] (''write a replay file of every reading the scripts ask for'') (OptTextMember SkeletonPath_update))\<lparr>MetaNote := Some ''PATH''\<rparr>,
      (plain_flag [''--inject''] (''take readings from a stimulus file (see docs)'') (OptTextMember InjectPath_update))\<lparr>MetaNote := Some ''PATH''\<rparr>,
      (plain_flag [''--log-dir''] (''where both run logs are written (default: logs)'') (TextMember LogDir_update))\<lparr>MetaNote := Some ''DIR''\<rparr>,
      (plain_flag [''--sarif''] (''SARIF log path (default: derived from --log-dir)'') (OptTextMember SarifPath_update))\<lparr>MetaNote := Some ''PATH''\<rparr>,
      (plain_flag [''--rtf''] (''RTF log path (default: derived from --log-dir)'') (OptTextMember RtfPath_update))\<lparr>MetaNote := Some ''PATH''\<rparr>,
      (plain_flag [''--no-logs''] (''write no run log at all'') (BoolMember WriteLogs_update))\<lparr>ClearsNote := True\<rparr>,
      (plain_flag [''--events''] (''stream the run as JSON lines to PATH, or - for stdout'') (OptTextMember EventsPath_update))\<lparr>MetaNote := Some ''PATH''\<rparr>,
      (plain_flag [''--no-color'', ''--no-colour''] (''no ANSI colour in the console view'') (BoolMember Colour_update))\<lparr>ClearsNote := True\<rparr>,
      plain_flag [''--quiet''] (''no live console view'') (BoolMember Quiet_update),
      (plain_flag [''--dut-serial''] (''DUT serial, recorded in both logs' header'') (TextMember OptDutSerial_update))\<lparr>MetaNote := Some ''SERIAL''\<rparr>,
      (plain_flag [''--operator''] (''operator name, recorded in both logs' header'') (TextMember OperatorName_update))\<lparr>MetaNote := Some ''NAME''\<rparr>,
      (plain_flag [''--address''] (''bind one box to a given address, or ROW=sim to simulate one face (repeatable)'') (ListMember Addresses_update))\<lparr>MetaNote := Some ''BOX=KIND:VALUE'', RepeatableNote := True\<rparr>,
      (plain_flag [''--site''] (''which bench of an identical fleet this is'') (TextMember OptSite_update))\<lparr>MetaNote := Some ''NAME''\<rparr>]"

text \<open>Checked when the program is compiled: every literal fits, and every annotation is where it may be.\<close>

definition member_texts :: "'o Member \<Rightarrow> string list" where
  "member_texts m = spellingsOf m @ [docOf m, metaOf m, nounOf m]"

lemma options_compile:
  "vocabularyIsSane Options_members" "list_all (\<lambda>m. list_all text_fits (member_texts m)) Options_members"
  by code_simp+

definition printUsage :: string where
  "printUsage =
     ''usage: run_scripts [options]'' @ new_line @ new_line @ usageText Options_members
     @ new_line @ ''With no options, every test in the catalog is run.'' @ new_line"

text \<open>
  What comes of the command line: the options, a refusal with what was written to stderr, or the
  exception of a variant selected too late, which leaves the program.
\<close>

datatype accepted = Accepted Options | RefusedOptions string | OptionsThrow string

definition record_and_replay :: string where
  "record_and_replay = ''--record= and --replay= are exclusive: recording a replay would just copy its input.'' @ new_line"

definition skeleton_and_another :: string where
  "skeleton_and_another =
     ''--skeleton= is exclusive with --record= and --replay=: it touches no instrument and every reading it writes is a placeholder.'' @ new_line"

definition inject_and_a_writer :: string where
  "inject_and_a_writer =
     ''--inject= is exclusive with --record= and --skeleton=: both write a file, and injected readings would be written into it as if they had been observed.'' @ new_line"

definition events_without_quiet :: string where
  "events_without_quiet =
     ''--events=- writes the event stream to stdout, where the console view also writes: pass --quiet as well, or send the stream to a file.'' @ new_line"

definition unknown_variant :: "criteria_build \<Rightarrow> string \<Rightarrow> string" where
  "unknown_variant b name =
     ''Unknown criteria variant: '' @ name @ new_line @ ''Known variants:'' @ concat (map (\<lambda>n. '' '' @ n) (Names b))
     @ '' (default: '' @ defaultCriteriaVariantName b @ '')'' @ new_line"

definition parseOptions :: "criteria_build \<Rightarrow> string list \<Rightarrow> Selection \<Rightarrow> accepted \<times> Selection" where
  "parseOptions b argv sel =
     (case cli_parse Options_members default_options argv of
        Inl message \<Rightarrow> (RefusedOptions message, sel)
      | Inr options \<Rightarrow>
          if RecordPath options \<noteq> None \<and> ReplayPath options \<noteq> None then (RefusedOptions record_and_replay, sel)
          else if SkeletonPath options \<noteq> None \<and> (RecordPath options \<noteq> None \<or> ReplayPath options \<noteq> None)
               then (RefusedOptions skeleton_and_another, sel)
          else if InjectPath options \<noteq> None \<and> (RecordPath options \<noteq> None \<or> SkeletonPath options \<noteq> None)
               then (RefusedOptions inject_and_a_writer, sel)
          else if EventsPath options = Some ''-'' \<and> \<not> Quiet options then (RefusedOptions events_without_quiet, sel)
          else (case OptCriteria options of
                  None \<Rightarrow> (Accepted options, sel)
                | Some name \<Rightarrow>
                    (case selectCriteriaVariant b name sel of
                       (Inl e, sel') \<Rightarrow> (OptionsThrow e, sel')
                     | (Inr known, sel') \<Rightarrow>
                         (if known then Accepted options else RefusedOptions (unknown_variant b name), sel'))))"

section \<open>What the program says of itself\<close>

definition test_line :: "'b TestGroup \<Rightarrow> 'b TestCase \<Rightarrow> string" where
  "test_line g t = group_name g @ ''|'' @ test_id t @ ''|'' @ test_description t @ new_line"

definition listTests :: "'b Catalog \<Rightarrow> string" where
  "listTests cat = concat (map (\<lambda>g. concat (map (test_line g) (tests g))) (Catalog_groups cat))"

definition describeCriteria :: "criteria_build \<Rightarrow> string" where
  "describeCriteria b =
     ''{'' @ new_line @ ''  '' @ json_key ''criteriaVariants'' @ ''['' @ quoted_list True (Names b) @ ''],'' @ new_line
     @ ''  '' @ json_key ''defaultCriteriaVariant'' @ jsonQuoted (defaultCriteriaVariantName b) @ '','' @ new_line
     @ ''  '' @ json_key ''masterCriteriaVariant'' @ jsonQuoted (masterCriteriaVariantName b) @ new_line
     @ ''}'' @ new_line"

fun commandLineOf :: "string list \<Rightarrow> string" where
  "commandLineOf [] = []"
| "commandLineOf [arg] = arg"
| "commandLineOf (arg # args) = arg @ '' '' @ commandLineOf args"

end
