(* ===== verification/ConsoleFacts.thy ===== *)
theory ConsoleFacts
  imports Cli Console Layout
begin

text \<open>
  The two ends of the console's command line: what a suite says of its options is what the console
  reads, the options the console offers are the arguments the suite's parser accepts, and a command
  the console builds is accepted and means the request.
\<close>

section \<open>The option model arrives\<close>

fun console_kind :: "Kind \<Rightarrow> OptionKind" where
  "console_kind SwitchKind = KindSwitch"
| "console_kind TextKind = KindText"
| "console_kind NumberKind = KindNumber"
| "console_kind ListKind = KindList"

definition console_option :: "OptionInfo \<Rightarrow> ConsoleOption" where
  "console_option info =
     \<lparr>OptSpellings = Spellings info, OptHelp = HelpText info, OptPlaceholder = PlaceholderText info, OptNoun = NounText info,
      OptKind = console_kind (ValueKind info), OptClears = Clears info, OptRepeatable = Repeatable info,
      OptPositive = Positive info, OptQuery = Query info\<rparr>"

lemma option_kind_from [simp]: "optionKindFrom (to_string_option_kind k) = console_kind k"
  by (cases k) (simp_all add: optionKindFrom_def)

lemma new_line_nl [simp]: "new_line = nl"
  by (simp add: new_line_def nl_def)

lemma quoted_list_values [simp]: "quoted_list b vs = listed_values b vs"
  by (induction b vs rule: quoted_list.induct) simp_all

lemma json_keys [simp]:
  "json_key ''flags'' = key_text ''flags''" "json_key ''kind'' = key_text ''kind''" "json_key ''help'' = key_text ''help''"
  "json_key ''clears'' = key_text ''clears''" "json_key ''repeatable'' = key_text ''repeatable''"
  "json_key ''positive'' = key_text ''positive''" "json_key ''query'' = key_text ''query''"
  "json_key ''placeholder'' = key_text ''placeholder''" "json_key ''noun'' = key_text ''noun''" "json_key ''options'' = key_text ''options''"
  by (simp_all add: json_key_def key_text_def jsonQuoted_def jsonEscape_def json_escape_char_def dq_def bs_def)

definition flags_doc :: "string list \<Rightarrow> doc" where
  "flags_doc names = DArray (map DText names)"

definition option_fields :: "OptionInfo \<Rightarrow> (string \<times> doc) list" where
  "option_fields info =
     [(''flags'', flags_doc (Spellings info)), (''kind'', DText (to_string_option_kind (ValueKind info))),
      (''help'', DText (HelpText info)), (''clears'', DBool (Clears info)), (''repeatable'', DBool (Repeatable info)),
      (''positive'', DBool (Positive info)), (''query'', DBool (Query info))]"

definition option_doc :: "OptionInfo \<Rightarrow> doc" where
  "option_doc info = DObject (option_fields info
     @ (if PlaceholderText info = [] then [] else [(''placeholder'', DText (PlaceholderText info))])
     @ (if NounText info = [] then [] else [(''noun'', DText (NounText info))]))"

definition model_doc :: "OptionInfo list \<Rightarrow> doc" where
  "model_doc model = DObject [(''options'', DArray (map option_doc model))]"

lemma lays_flags: "lays (flags_doc names) (''['' @ listed_values True names @ '']'')"
proof (cases "names = []")
  case True
  then show ?thesis using lays_no_items [of "[]"] by (simp add: flags_doc_def)
next
  case False
  from lays_array [OF lays_listed [OF this]] show ?thesis by (simp add: flags_doc_def)
qed

lemma lays_json_bool: "lays (DBool b) (json_bool b)"
  using lays_bool [of b] by (simp add: json_bool_def)

lemma blank_line: "blank (nl @ ''      '')"
  by (simp add: blank_def nl_def json_space_def)

lemma lays_option_fields:
  "lays_fields (option_fields info)
     (key_text ''flags'' @ ''['' @ listed_values True (Spellings info) @ ''],'' @ nl
     @ ''      '' @ key_text ''kind'' @ jsonQuoted (to_string_option_kind (ValueKind info)) @ '','' @ nl
     @ ''      '' @ key_text ''help'' @ jsonQuoted (HelpText info) @ '','' @ nl
     @ ''      '' @ key_text ''clears'' @ json_bool (Clears info) @ '','' @ nl
     @ ''      '' @ key_text ''repeatable'' @ json_bool (Repeatable info) @ '','' @ nl
     @ ''      '' @ key_text ''positive'' @ json_bool (Positive info) @ '','' @ nl
     @ ''      '' @ key_text ''query'' @ json_bool (Query info))"
proof -
  note [simp] = option_fields_def
  note field = lays_next [OF _ _ blank_line]
  note texts = field [OF field [OF lays_one [OF lays_flags] lays_text] lays_text]
  from field [OF field [OF field [OF field [OF texts lays_json_bool] lays_json_bool] lays_json_bool] lays_json_bool]
  show ?thesis by simp
qed

definition option_text :: "OptionInfo \<Rightarrow> string" where
  "option_text info = drop 4 (option_json info)"

lemma option_json_text: "option_json info = ''    '' @ option_text info"
  by (simp add: option_text_def option_json_def)

lemma lays_option: "lays (option_doc info) (option_text info)"
proof -
  have add: "lays_fields (fs @ (if v = [] then [] else [(k, DText v)]))
      (t @ (if v = [] then [] else '','' @ nl @ ''      '' @ key_text k @ jsonQuoted v))"
    if "lays_fields fs t" for fs t k v
    using that lays_next [OF that lays_text blank_line, of k v] by simp
  have blanks: "blank (nl @ ''      '')" "blank (nl @ ''    '')" by (simp_all add: blank_def nl_def json_space_def)
  note body = add [OF add [OF lays_option_fields [of info], of "PlaceholderText info" "''placeholder''"], of "NounText info" "''noun''"]
  from lays_braces [OF body blanks] show ?thesis
    by (cases "PlaceholderText info = []"; cases "NounText info = []") (simp_all add: option_doc_def option_text_def option_json_def)
qed

lemma options_json_more: "options_json False model = concat (map (\<lambda>info. '','' @ nl @ ''    '' @ option_text info) model)"
  by (induction model) (simp_all add: option_json_text)

lemma lays_model: "lays (model_doc model) (butlast (writeOptionsJson model))"
proof -
  have blanks: "blank nl" "blank ''    ''" "blank (nl @ ''  '')" by (simp_all add: blank_def nl_def json_space_def)
  have "lays (DArray (map option_doc model)) (''['' @ options_json True model @ nl @ ''  ]'')"
  proof (cases model)
    case Nil
    then show ?thesis using lays_no_items [OF blanks(3)] by simp
  next
    case (Cons info rest)
    have "lays_items (map option_doc model) (options_json True model)"
      using lays_separated [of option_doc option_text nl "''    ''" info rest, OF lays_option blanks(1,2)] Cons
      by (simp add: options_json_more option_json_text)
    from lays_brackets [OF this, of "[]" "nl @ ''  ''"] blanks show ?thesis by simp
  qed
  from lays_braces [OF lays_one [OF this, of "''options''"], of "nl @ ''  ''" nl] blanks
  show ?thesis by (simp add: model_doc_def writeOptionsJson_def butlast_append nl_def)
qed

lemma option_entry_meaning: "Spellings info \<noteq> [] \<Longrightarrow> option_entry (meaning (option_doc info)) = Some (console_option info)"
  by (simp add: option_entry_def option_doc_def option_fields_def flags_doc_def console_option_def json_textAt_def
      json_boolAt_def comp_def)

lemma option_entries_meaning:
  "\<forall>info \<in> set model. Spellings info \<noteq> [] \<Longrightarrow>
     option_entries (map (meaning \<circ> option_doc) model) = Some (map console_option model)"
  by (induction model) (simp_all add: option_entry_meaning)

lemma options_json_parses: "json_parse (writeOptionsJson model) = Some (meaning (model_doc model))"
proof -
  have "writeOptionsJson model = butlast (writeOptionsJson model) @ nl"
    by (simp add: writeOptionsJson_def butlast_append nl_def)
  with parses_laid(1) [OF lays_model, of nl model] show ?thesis
    by (intro parses_json_parse [of _ _ nl]) (simp_all add: no_number_follows_def nl_def number_char_def is_digit_def skipSpace_def json_space_def)
qed

lemma model_arrives:
  "\<forall>info \<in> set model. Spellings info \<noteq> [] \<Longrightarrow> parseOptionModel (writeOptionsJson model) = Some (map console_option model)"
  by (simp add: parseOptionModel_def options_json_parses model_doc_def option_entries_meaning)

theorem option_model_arrives:
  "parseOptionModel (writeOptionsJson (optionsModel ms)) = Some (map console_option (optionsModel ms))"
  by (rule model_arrives) (auto simp: optionsModel_def optionInfo_def)

section \<open>The options offered are the arguments accepted\<close>

text \<open>What a form built from the model can produce: an argument for one spelling of one option.\<close>

definition fits_option :: "ConsoleOption \<Rightarrow> string \<Rightarrow> string \<Rightarrow> bool" where
  "fits_option info name arg \<longleftrightarrow>
     (if OptKind info = KindSwitch then arg = name
      else (case value_after name arg of
              None \<Rightarrow> False
            | Some v \<Rightarrow>
                OptKind info = KindNumber \<longrightarrow>
                  (case from_chars_u64 v of None \<Rightarrow> False | Some n \<Rightarrow> OptPositive info \<longrightarrow> n \<noteq> 0)))"

definition offered :: "ConsoleOption list \<Rightarrow> string \<Rightarrow> bool" where
  "offered model arg \<longleftrightarrow> list_ex (\<lambda>info. list_ex (\<lambda>name. fits_option info name arg) (OptSpellings info)) model"

definition fits :: "'o Member \<Rightarrow> string \<Rightarrow> string \<Rightarrow> bool" where
  "fits m name arg \<longleftrightarrow> fits_option (console_option (optionInfo m)) name arg"

definition named :: "'o Member \<Rightarrow> string \<Rightarrow> string \<Rightarrow> bool" where
  "named m name arg \<longleftrightarrow> (if isBool m then arg = name else value_after name arg \<noteq> None)"

definition arg_name :: "string \<Rightarrow> string" where
  "arg_name arg = takeWhile (\<lambda>c. c \<noteq> CHR ''='') arg"

definition plain_names :: "'o Member list \<Rightarrow> bool" where
  "plain_names ms \<longleftrightarrow>
     distinct (concat (map spellingsOf ms)) \<and> list_all (\<lambda>name. CHR ''='' \<notin> set name) (concat (map spellingsOf ms))"

lemma value_after_Some: "value_after name arg = Some v \<longleftrightarrow> arg = name @ ''='' @ v"
proof
  assume "value_after name arg = Some v"
  then have *: "length name < length arg" "take (length name) arg = name" "arg ! length name = CHR ''=''"
    "v = drop (Suc (length name)) arg" by (auto simp: value_after_def split: if_splits)
  have "arg = take (length name) arg @ arg ! length name # drop (Suc (length name)) arg"
    using id_take_nth_drop [OF *(1)] .
  with * show "arg = name @ ''='' @ v" by simp
qed (simp add: value_after_def)

lemma arg_name_value [simp]: "CHR ''='' \<notin> set name \<Longrightarrow> arg_name (name @ CHR ''='' # v) = name"
  by (simp add: arg_name_def takeWhile_append)

lemma arg_name_switch [simp]: "CHR ''='' \<notin> set name \<Longrightarrow> arg_name name = name"
  by (auto simp: arg_name_def intro!: takeWhile_eq_all_conv [THEN iffD2])

lemma named_arg_name: "named m name arg \<Longrightarrow> CHR ''='' \<notin> set name \<Longrightarrow> arg_name arg = name"
  by (auto simp: named_def value_after_Some split: if_splits)

lemma kind_switch: "OptKind (console_option (optionInfo m)) = KindSwitch \<longleftrightarrow> isBool m"
  by (cases "TypeOf m") (simp_all add: console_option_def optionInfo_def kindOf_member_def isBool_def)

lemma fits_named: "fits m name arg \<Longrightarrow> named m name arg"
  by (auto simp: fits_def fits_option_def named_def kind_switch split: if_splits option.splits)

lemma assign_fits:
  "\<not> isBool m \<Longrightarrow> value_after name arg = Some v \<Longrightarrow>
     (case assign m name v opts of Unmatched \<Rightarrow> False | Matched _ \<Rightarrow> fits m name arg | Failed _ \<Rightarrow> \<not> fits m name arg)"
  by (cases "TypeOf m")
     (auto simp: assign_def isBool_def fits_def fits_option_def console_option_def optionInfo_def kindOf_member_def split: option.splits)

lemma spellings_outcome:
  "case match_spellings m names arg opts of
     Unmatched \<Rightarrow> \<forall>name \<in> set names. \<not> named m name arg
   | Matched _ \<Rightarrow> \<exists>name \<in> set names. fits m name arg
   | Failed _ \<Rightarrow> \<exists>name \<in> set names. named m name arg \<and> \<not> fits m name arg"
proof (induction names)
  case (Cons name names)
  show ?case
  proof (cases "isBool m")
    case True
    then show ?thesis using Cons
      by (auto simp: isBool_def named_def fits_def fits_option_def console_option_def optionInfo_def kindOf_member_def
          split: MemberType.splits matching.splits)
  next
    case False
    show ?thesis
    proof (cases "value_after name arg")
      case None
      with False Cons show ?thesis by (auto simp: isBool_def named_def split: MemberType.splits matching.splits)
    next
      case (Some v)
      with False have "match_spellings m (name # names) arg opts = assign m name v opts"
        by (auto simp: isBool_def split: MemberType.splits)
      with False Some assign_fits [OF False Some, of opts] show ?thesis
        by (auto simp: named_def split: matching.splits)
    qed
  qed
qed simp

lemma members_accept:
  "plain_names ms \<Longrightarrow>
     (\<exists>opts'. match_members ms arg opts = Matched opts') \<longleftrightarrow> (\<exists>m \<in> set ms. \<exists>name \<in> set (spellingsOf m). fits m name arg)"
proof (induction ms)
  case (Cons m ms)
  then have ih: "(\<exists>opts'. match_members ms arg opts = Matched opts') \<longleftrightarrow> (\<exists>m \<in> set ms. \<exists>name \<in> set (spellingsOf m). fits m name arg)"
    by (simp add: plain_names_def)
  note outcome = spellings_outcome [where m = m and names = "spellingsOf m" and arg = arg and opts = opts]
  show ?case
  proof (cases "match_spellings m (spellingsOf m) arg opts")
    case Unmatched
    with outcome have "\<not> (\<exists>name \<in> set (spellingsOf m). fits m name arg)" by (auto dest: fits_named)
    with Unmatched ih show ?thesis by simp
  next
    case (Matched opts')
    with outcome show ?thesis by simp
  next
    case (Failed message)
    with outcome obtain name where n: "name \<in> set (spellingsOf m)" "named m name arg" "\<not> fits m name arg" by auto
    have plain: "CHR ''='' \<notin> set x" if "x \<in> set (spellingsOf m')" "m' \<in> set (m # ms)" for x m'
      using Cons.prems that by (auto simp: plain_names_def list_all_iff)
    have "\<not> fits m' name' arg" if m': "m' \<in> set (m # ms)" "name' \<in> set (spellingsOf m')" for m' name'
    proof
      assume f: "fits m' name' arg"
      then have "name' = name"
        using named_arg_name [OF fits_named [OF f] plain [OF m'(2,1)]] named_arg_name [OF n(2) plain [OF n(1)]] by simp
      with n f m' Cons.prems show False by (auto simp: plain_names_def)
    qed
    with Failed show ?thesis by auto
  qed
qed simp

lemma accepted_one: "(\<exists>opts'. parse_args ms [arg] opts = Inr opts') \<longleftrightarrow> (\<exists>opts'. match_members ms arg opts = Matched opts')"
  by (auto split: matching.splits)

lemma offered_members:
  "offered (map console_option (optionsModel ms)) arg \<longleftrightarrow> (\<exists>m \<in> set ms. \<exists>name \<in> set (spellingsOf m). fits m name arg)"
  by (fastforce simp: offered_def list_ex_iff optionsModel_def fits_def console_option_def optionInfo_def)

lemma Options_plain: "plain_names Options_members"
  by (simp add: plain_names_def Options_members_def plain_flag_def spellingsOf_def)

text \<open>
  C36: The parser of the command line takes an argument, whatever came before it, exactly when the option
  model run_scripts prints, as the console reads it, offers that argument. Which options go together, and
  whether a criteria variant is known, main checks afterwards and of the whole line.
\<close>

theorem offered_options_are_accepted:
  "(\<exists>opts'. parse_args Options_members [arg] opts = Inr opts') \<longleftrightarrow>
     (\<exists>model. parseOptionModel (writeOptionsJson (optionsModel Options_members)) = Some model \<and> offered model arg)"
proof -
  have "parseOptionModel (writeOptionsJson (optionsModel Options_members)) = Some (map console_option (optionsModel Options_members))"
    by (rule model_arrives) (auto simp: optionsModel_def optionInfo_def)
  moreover have "(\<exists>opts'. parse_args Options_members [arg] opts = Inr opts') \<longleftrightarrow> offered (map console_option (optionsModel Options_members)) arg"
    unfolding accepted_one members_accept [OF Options_plain] offered_members by (rule refl)
  ultimately show ?thesis by (simp del: parse_args.simps)
qed

section \<open>A command means its request\<close>

text \<open>How an argument of a member changes the options, and the fields it leaves alone.\<close>

definition updates :: "'o Member \<Rightarrow> 'o \<Rightarrow> 'o \<Rightarrow> bool" where
  "updates m opts opts' \<longleftrightarrow>
     (case TypeOf m of
        BoolMember upd \<Rightarrow> opts' = upd (\<lambda>_. \<not> ClearsNote m) opts
      | NumberMember upd \<Rightarrow> \<exists>f. opts' = upd f opts
      | ListMember upd \<Rightarrow> \<exists>f. opts' = upd f opts
      | OptTextMember upd \<Rightarrow> \<exists>f. opts' = upd f opts
      | TextMember upd \<Rightarrow> \<exists>f. opts' = upd f opts)"

lemma spellings_update:
  "match_spellings m names arg opts = Matched opts' \<Longrightarrow> updates m opts opts' \<and> (\<exists>name \<in> set names. named m name arg)"
  by (induction names)
     (fastforce simp: updates_def assign_def named_def isBool_def split: MemberType.splits option.splits if_splits)+

lemma members_update:
  "match_members ms arg opts = Matched opts' \<Longrightarrow>
     \<exists>m \<in> set ms. updates m opts opts' \<and> (\<exists>name \<in> set (spellingsOf m). named m name arg)"
  by (induction ms) (auto split: matching.splits dest: spellings_update)

definition member_keeps :: "'o Member \<Rightarrow> ('o \<Rightarrow> bool) \<Rightarrow> bool" where
  "member_keeps m P \<longleftrightarrow>
     (case TypeOf m of
        BoolMember upd \<Rightarrow> \<forall>opts. P opts \<longrightarrow> P (upd (\<lambda>_. \<not> ClearsNote m) opts)
      | NumberMember upd \<Rightarrow> \<forall>f opts. P opts \<longrightarrow> P (upd f opts)
      | ListMember upd \<Rightarrow> \<forall>f opts. P opts \<longrightarrow> P (upd f opts)
      | OptTextMember upd \<Rightarrow> \<forall>f opts. P opts \<longrightarrow> P (upd f opts)
      | TextMember upd \<Rightarrow> \<forall>f opts. P opts \<longrightarrow> P (upd f opts))"

definition keeps :: "'o Member list \<Rightarrow> ('o \<Rightarrow> bool) \<Rightarrow> string list \<Rightarrow> bool" where
  "keeps ms P barred \<longleftrightarrow> list_all (\<lambda>m. list_all (\<lambda>name. name \<in> set barred) (spellingsOf m) \<or> member_keeps m P) ms"

lemma keepsD: "keeps ms P barred \<Longrightarrow> m \<in> set ms \<Longrightarrow> name \<in> set (spellingsOf m) \<Longrightarrow> name \<notin> set barred \<Longrightarrow>
    updates m opts opts' \<Longrightarrow> P opts \<Longrightarrow> P opts'"
  by (fastforce simp: keeps_def list_all_iff member_keeps_def updates_def split: MemberType.splits)

lemma parse_args_keeps_or:
  assumes "plain_names ms" and "keeps ms P barred"
  shows "parse_args ms args opts = Inr opts' \<Longrightarrow>
    \<forall>arg \<in> set args. arg_name arg \<in> set barred \<longrightarrow> (\<forall>o1 o2. match_members ms arg o1 = Matched o2 \<longrightarrow> P o2) \<Longrightarrow>
    P opts \<Longrightarrow> P opts'"
proof (induction args arbitrary: opts)
  case (Cons arg args)
  then obtain next_opts where m: "match_members ms arg opts = Matched next_opts" and p: "parse_args ms args next_opts = Inr opts'"
    by (auto split: matching.splits)
  from members_update [OF m] obtain mem name where mem: "mem \<in> set ms" "updates mem opts next_opts"
      "name \<in> set (spellingsOf mem)" "named mem name arg" by blast
  then have "arg_name arg = name"
    using assms(1) by (intro named_arg_name) (auto simp: plain_names_def list_all_iff)
  with Cons.prems(2) m have "name \<in> set barred \<Longrightarrow> P next_opts" by auto
  with keepsD [OF assms(2) mem(1,3) _ mem(2)] Cons.prems(3) have "P next_opts" by blast
  with Cons.IH [OF p] Cons.prems(2) show ?case by simp
qed simp

lemma parse_args_keeps:
  assumes "plain_names ms" and "keeps ms P barred"
  shows "parse_args ms args opts = Inr opts' \<Longrightarrow> \<forall>arg \<in> set args. arg_name arg \<notin> set barred \<Longrightarrow> P opts \<Longrightarrow> P opts'"
  using parse_args_keeps_or [OF assms] by blast

lemma parse_args_append:
  "parse_args ms (xs @ ys) opts = (case parse_args ms xs opts of Inl message \<Rightarrow> Inl message | Inr opts' \<Rightarrow> parse_args ms ys opts')"
  by (induction xs arbitrary: opts) (auto split: matching.splits)

lemma offered_parse:
  assumes "plain_names ms" and "\<forall>arg \<in> set args. offered (map console_option (optionsModel ms)) arg"
  shows "\<exists>opts'. parse_args ms args opts = Inr opts'"
  using assms(2)
proof (induction args arbitrary: opts)
  case (Cons arg args)
  then obtain opts' where "match_members ms arg opts = Matched opts'"
    using members_accept [OF assms(1), of arg opts] by (auto simp: offered_members)
  with Cons show ?case by simp
qed simp

text \<open>What the flags of run_scripts do to the fields a console run depends on.\<close>

lemma keeps_Nil: "keeps [] P barred"
  by (simp add: keeps_def)

lemma keeps_Cons:
  "list_all (\<lambda>name. name \<in> set barred) (spellingsOf m) \<or> member_keeps m P \<Longrightarrow> keeps ms P barred \<Longrightarrow> keeps (m # ms) P barred"
  by (simp add: keeps_def)

lemma keeps_Options:
  "keeps Options_members
     (\<lambda>opts. SelectedIds opts = ids \<and> EventsPath opts = path \<and> Quiet opts \<and> StopOnStdin opts \<and> \<not> Colour opts)
     [''--select'', ''--events'']"
  unfolding Options_members_def
  by (rule keeps_Cons, simp add: member_keeps_def plain_flag_def spellingsOf_def)+ (rule keeps_Nil)

text \<open>The same of the switches that run no test, of each path, and of the criteria variant.\<close>

definition runs_scripts :: "Options \<Rightarrow> bool" where
  "runs_scripts opts \<longleftrightarrow> \<not> ListOnly opts \<and> \<not> SafeOnly opts \<and> \<not> ShowHelp opts \<and> \<not> DescribeOptions opts \<and> \<not> DescribeCriteria opts"

abbreviation query_flags :: "string list" where
  "query_flags \<equiv> [''--list-tests'', ''--safe'', ''--help'', ''--describe-options'', ''--describe-criteria'']"

lemma keeps_runs: "keeps Options_members runs_scripts query_flags"
  unfolding Options_members_def
  by (rule keeps_Cons, simp add: member_keeps_def plain_flag_def spellingsOf_def runs_scripts_def)+ (rule keeps_Nil)

lemma keeps_paths:
  "keeps Options_members (\<lambda>opts. RecordPath opts = None) [''--record'']"
  "keeps Options_members (\<lambda>opts. ReplayPath opts = None) [''--replay'']"
  "keeps Options_members (\<lambda>opts. SkeletonPath opts = None) [''--skeleton'']"
  "keeps Options_members (\<lambda>opts. InjectPath opts = None) [''--inject'']"
  unfolding Options_members_def
  by ((rule keeps_Cons, simp add: member_keeps_def plain_flag_def spellingsOf_def)+, rule keeps_Nil)+

definition criteria_known :: "criteria_build \<Rightarrow> Options \<Rightarrow> bool" where
  "criteria_known b opts \<longleftrightarrow> (case OptCriteria opts of None \<Rightarrow> True | Some name \<Rightarrow> name \<in> set (Names b))"

lemma keeps_criteria: "keeps Options_members (criteria_known b) [''--criteria'']"
  unfolding Options_members_def
  by (rule keeps_Cons, simp add: member_keeps_def plain_flag_def spellingsOf_def criteria_known_def)+ (rule keeps_Nil)

lemma criteria_parses:
  "match_members Options_members (''--criteria='' @ name) opts = Matched (opts\<lparr>OptCriteria := Some name\<rparr>)"
  by (simp add: Options_members_def plain_flag_def spellingsOf_def value_after_def assign_def)

lemma criteria_alone: "match_members Options_members ''--criteria'' opts \<noteq> Matched opts'"
  by (simp add: Options_members_def plain_flag_def spellingsOf_def value_after_def assign_def)

text \<open>A setting of the form: one of the options offered, with a value of its kind.\<close>

definition fitting :: "ConsoleOption list \<Rightarrow> OptionSetting \<Rightarrow> bool" where
  "fitting model setting \<longleftrightarrow>
     (Present setting \<longrightarrow>
       list_ex (\<lambda>info. SettingFlag setting \<in> set (OptSpellings info) \<and>
          (if OptKind info = KindSwitch then SettingValue setting = []
           else SettingValue setting \<noteq> [] \<and>
             (OptKind info = KindNumber \<longrightarrow>
                (case from_chars_u64 (SettingValue setting) of None \<Rightarrow> False | Some n \<Rightarrow> OptPositive info \<longrightarrow> n \<noteq> 0)))) model)"

lemma fitting_offered:
  assumes "fitting model setting" and "arg \<in> set (setting_args setting)"
  shows "offered model arg"
proof -
  let ?v = "SettingValue setting"
  from assms(2) have present: "Present setting"
    and arg: "arg = (if ?v = [] then SettingFlag setting else SettingFlag setting @ ''='' @ ?v)"
    by (auto simp: setting_args_def split: if_splits)
  with assms(1) obtain info where info: "info \<in> set model" "SettingFlag setting \<in> set (OptSpellings info)"
      "if OptKind info = KindSwitch then ?v = []
       else ?v \<noteq> [] \<and> (OptKind info = KindNumber \<longrightarrow>
              (case from_chars_u64 ?v of None \<Rightarrow> False | Some n \<Rightarrow> OptPositive info \<longrightarrow> n \<noteq> 0))"
    by (auto simp: fitting_def list_ex_iff)
  then have "fits_option info (SettingFlag setting) arg"
    using value_after_Some [of "SettingFlag setting" arg ?v] by (auto simp: fits_option_def arg split: if_splits)
  with info show ?thesis by (auto simp: offered_def list_ex_iff)
qed

text \<open>A selection is a list of test ids: none is empty, and none has a comma.\<close>

definition selectable :: "string list \<Rightarrow> bool" where
  "selectable ids \<longleftrightarrow> list_all (\<lambda>i. i \<noteq> [] \<and> CHR '','' \<notin> set i) ids"

lemma joined_from: "t \<noteq> [] \<Longrightarrow> list_all (\<lambda>i. i \<noteq> []) ids \<Longrightarrow>
    foldl (\<lambda>text v. (if text \<noteq> [] then text @ [c] else text) @ v) t ids = t @ concat (map (\<lambda>i. c # i) ids)"
  by (induction ids arbitrary: t) simp_all

lemma split_joined: "i \<noteq> [] \<Longrightarrow> CHR '','' \<notin> set i \<Longrightarrow> selectable ids \<Longrightarrow>
    splitCommaList (i @ concat (map (\<lambda>i. CHR '','' # i) ids)) = i # ids"
proof (induction ids arbitrary: i)
  case Nil
  then show ?case by (simp add: splitCommaList_def split_on_plain)
next
  case (Cons j ids)
  then show ?case by (simp add: splitCommaList_def split_on_append selectable_def)
qed

lemma split_selection: "selectable ids \<Longrightarrow> splitCommaList (joined_with (CHR '','') ids) = ids"
proof (cases ids)
  case (Cons i js)
  assume s: "selectable ids"
  with Cons have "joined_with (CHR '','') ids = i @ concat (map (\<lambda>i. CHR '','' # i) js)"
    using joined_from [of i js "CHR '',''"] by (simp add: joined_with_def selectable_def list_all_iff)
  with s Cons split_joined [of i js] show ?thesis by (simp add: selectable_def)
qed (simp add: joined_with_def splitCommaList_def)

definition selection_args :: "RunRequest \<Rightarrow> string list" where
  "selection_args request =
     (if RequestSelection request \<noteq> [] then [''--select='' @ joined_with (CHR '','') (RequestSelection request)] else [])"

definition setting_arguments :: "RunRequest \<Rightarrow> string list" where
  "setting_arguments request = concat (map setting_args (Settings request))"

definition run_model :: "ConsoleOption list" where
  "run_model = map console_option (optionsModel Options_members)"

lemma run_model_arrives: "parseOptionModel (writeOptionsJson (optionsModel Options_members)) = Some run_model"
  unfolding run_model_def by (rule model_arrives) (auto simp: optionsModel_def optionInfo_def)

text \<open>The flags of the stream and the selection, over the defaults.\<close>

lemma stream_flags_parse:
  "parse_args Options_members streamFlags default_options =
     Inr (default_options\<lparr>Quiet := True, Colour := False, EventsPath := Some ''-'', StopOnStdin := True\<rparr>)"
  by (simp add: streamFlags_def Options_members_def plain_flag_def spellingsOf_def value_after_def assign_def)

lemma selection_parses:
  "parse_args Options_members [''--select='' @ text] opts = Inr (opts\<lparr>SelectedIds := splitCommaList text\<rparr>)"
  by (simp add: Options_members_def plain_flag_def spellingsOf_def value_after_def assign_def)

lemma selection_args_parse:
  "selectable (RequestSelection request) \<Longrightarrow> SelectedIds opts = [] \<Longrightarrow>
     parse_args Options_members (selection_args request) opts = Inr (opts\<lparr>SelectedIds := RequestSelection request\<rparr>)"
  using selection_parses [of "joined_with (CHR '','') (RequestSelection request)" opts]
  by (auto simp: selection_args_def split_selection simp del: parse_args.simps(2))

lemma setting_arg_name:
  assumes "fitting run_model setting" and "arg \<in> set (setting_args setting)"
  shows "arg_name arg = SettingFlag setting"
proof -
  from assms obtain m where "m \<in> set Options_members" "SettingFlag setting \<in> set (spellingsOf m)"
    by (auto simp: fitting_def setting_args_def run_model_def list_ex_iff optionsModel_def console_option_def optionInfo_def
        split: if_splits)
  with Options_plain have "CHR ''='' \<notin> set (SettingFlag setting)" by (auto simp: plain_names_def list_all_iff)
  with assms(2) show ?thesis by (auto simp: setting_args_def split: if_splits)
qed

text \<open>The settings of a request name an option when one of those that are present does.\<close>

definition sets :: "RunRequest \<Rightarrow> string \<Rightarrow> bool" where
  "sets request flag \<longleftrightarrow> (\<exists>s \<in> set (Settings request). Present s \<and> SettingFlag s = flag)"

text \<open>
  The settings go together: a run is not recorded and replayed, a skeleton is neither, what is injected
  is not written; a criteria variant named is one the build has.
\<close>

definition compatible :: "criteria_build \<Rightarrow> RunRequest \<Rightarrow> bool" where
  "compatible b request \<longleftrightarrow>
     \<not> (sets request ''--record'' \<and> sets request ''--replay'')
     \<and> \<not> (sets request ''--skeleton'' \<and> (sets request ''--record'' \<or> sets request ''--replay''))
     \<and> \<not> (sets request ''--inject'' \<and> (sets request ''--record'' \<or> sets request ''--skeleton''))
     \<and> list_all (\<lambda>s. Present s \<and> SettingFlag s = ''--criteria'' \<longrightarrow> SettingValue s \<in> set (Names b)) (Settings request)"

lemma setting_argument:
  assumes "list_all (fitting run_model) (Settings request)" and "arg \<in> set (setting_arguments request)"
  obtains s where "s \<in> set (Settings request)" and "Present s" and "arg_name arg = SettingFlag s"
    and "arg = (if SettingValue s = [] then SettingFlag s else SettingFlag s @ ''='' @ SettingValue s)"
proof -
  from assms(2) obtain s where s: "s \<in> set (Settings request)" "arg \<in> set (setting_args s)"
    by (auto simp: setting_arguments_def)
  with assms(1) have "arg_name arg = SettingFlag s" by (auto simp: list_all_iff intro: setting_arg_name)
  with s that show thesis by (auto simp: setting_args_def split: if_splits)
qed

lemma unset_path:
  assumes "list_all (fitting run_model) (Settings request)" and "\<not> sets request flag"
    and "keeps Options_members P [flag]" and "parse_args Options_members (setting_arguments request) opts = Inr opts'" and "P opts"
  shows "P opts'"
proof (rule parse_args_keeps [OF Options_plain assms(3,4) _ assms(5)], intro ballI)
  fix arg assume "arg \<in> set (setting_arguments request)"
  then show "arg_name arg \<notin> set [flag]"
    using assms(2) by (auto simp: sets_def elim!: setting_argument [OF assms(1)])
qed

text \<open>
  C35: A request made of the options the console was told of, with settings that go together and name
  neither an option of the console's own nor a query, and with no arguments of its own, becomes a command line
  run_scripts accepts, while the criteria variant is not yet locked: it runs the selected tests, streams its
  events to stdout, quietly and without colour, and can be stopped over stdin.
\<close>

theorem console_command_means_its_request:
  assumes "parseOptionModel (writeOptionsJson (optionsModel Options_members)) = Some model"
    and settings: "list_all (fitting model) (Settings request)" and extra: "Extra request = []"
    and selection: "selectable (RequestSelection request)"
    and own: "list_all (\<lambda>s. SettingFlag s \<notin> set ([''--select'', ''--events''] @ query_flags)) (Settings request)"
    and together: "compatible b request" and unlocked: "\<not> Locked sel"
  shows "\<exists>opts sel'. parseOptions b (buildRunCommand suite request) sel = (Accepted opts, sel')
    \<and> SelectedIds opts = RequestSelection request \<and> EventsPath opts = Some ''-''
    \<and> Quiet opts \<and> StopOnStdin opts \<and> \<not> Colour opts
    \<and> \<not> ListOnly opts \<and> \<not> SafeOnly opts \<and> \<not> ShowHelp opts \<and> \<not> DescribeOptions opts \<and> \<not> DescribeCriteria opts"
proof -
  have model: "model = run_model" using assms(1) run_model_arrives by simp
  let ?base = "default_options\<lparr>Quiet := True, Colour := False, EventsPath := Some ''-'', StopOnStdin := True,
    SelectedIds := RequestSelection request\<rparr>"
  have "SelectedIds (default_options\<lparr>Quiet := True, Colour := False, EventsPath := Some ''-'', StopOnStdin := True\<rparr>) = []"
    by (simp add: default_options_def)
  note start = parse_args_append [of Options_members streamFlags "selection_args request" default_options,
    unfolded stream_flags_parse sum.case selection_args_parse [OF selection this]]
  have fits: "list_all (fitting run_model) (Settings request)" using settings model by simp
  have offered: "\<forall>arg \<in> set (setting_arguments request). offered (map console_option (optionsModel Options_members)) arg"
    using settings model by (auto simp: setting_arguments_def list_all_iff run_model_def intro: fitting_offered)
  from offered_parse [OF Options_plain offered, of ?base] obtain opts
    where opts: "parse_args Options_members (setting_arguments request) ?base = Inr opts" ..
  have names: "arg_name arg \<notin> set ([''--select'', ''--events''] @ query_flags)" if "arg \<in> set (setting_arguments request)" for arg
    using that own by (auto simp: list_all_iff elim!: setting_argument [OF fits])
  have fields: "SelectedIds opts = RequestSelection request \<and> EventsPath opts = Some ''-'' \<and> Quiet opts \<and> StopOnStdin opts \<and> \<not> Colour opts"
    by (rule parse_args_keeps [OF Options_plain keeps_Options opts]) (use names in auto)
  have runs: "runs_scripts opts"
    by (rule parse_args_keeps [OF Options_plain keeps_runs opts])
      (use names in \<open>auto simp: runs_scripts_def default_options_def\<close>)
  have paths: "\<not> sets request ''--record'' \<Longrightarrow> RecordPath opts = None" "\<not> sets request ''--replay'' \<Longrightarrow> ReplayPath opts = None"
    "\<not> sets request ''--skeleton'' \<Longrightarrow> SkeletonPath opts = None" "\<not> sets request ''--inject'' \<Longrightarrow> InjectPath opts = None"
    by (rule unset_path [OF fits _ keeps_paths(1) opts] unset_path [OF fits _ keeps_paths(2) opts]
        unset_path [OF fits _ keeps_paths(3) opts] unset_path [OF fits _ keeps_paths(4) opts];
        simp add: default_options_def)+
  have criteria: "criteria_known b opts"
  proof (rule parse_args_keeps_or [OF Options_plain keeps_criteria opts], intro ballI impI allI)
    fix arg o1 o2
    assume arg: "arg \<in> set (setting_arguments request)" "arg_name arg \<in> set [''--criteria'']"
      and m: "match_members Options_members arg o1 = Matched o2"
    from setting_argument [OF fits arg(1)] obtain s where s: "s \<in> set (Settings request)" "Present s" "arg_name arg = SettingFlag s"
      "arg = (if SettingValue s = [] then SettingFlag s else SettingFlag s @ ''='' @ SettingValue s)" .
    with arg(2) have flag: "SettingFlag s = ''--criteria''" by simp
    with s(1,2) together have known: "SettingValue s \<in> set (Names b)" by (auto simp: compatible_def list_all_iff)
    have "SettingValue s \<noteq> []"
    proof
      assume "SettingValue s = []"
      with s(4) flag m show False by (simp add: criteria_alone)
    qed
    with s(4) flag have "arg = ''--criteria='' @ SettingValue s" by simp
    with m criteria_parses [of "SettingValue s" o1] have "OptCriteria o2 = Some (SettingValue s)"
      by (auto simp del: match_members.simps)
    with known show "criteria_known b o2" by (simp add: criteria_known_def)
  qed (simp add: criteria_known_def default_options_def)
  have cli: "cli_parse Options_members default_options (buildRunCommand suite request) = Inr opts"
    using parse_args_append [of Options_members "streamFlags @ selection_args request" "setting_arguments request" default_options]
      start opts extra
    by (simp add: cli_parse_def buildRunCommand_def selection_args_def [symmetric] setting_arguments_def del: parse_args.simps)
  have one: "\<not> (RecordPath opts \<noteq> None \<and> ReplayPath opts \<noteq> None)"
    "\<not> (SkeletonPath opts \<noteq> None \<and> (RecordPath opts \<noteq> None \<or> ReplayPath opts \<noteq> None))"
    "\<not> (InjectPath opts \<noteq> None \<and> (RecordPath opts \<noteq> None \<or> SkeletonPath opts \<noteq> None))"
    using together paths by (auto simp: compatible_def)
  have chosen: "\<exists>sel'. (case OptCriteria opts of
                  None \<Rightarrow> (Accepted opts, sel)
                | Some name \<Rightarrow>
                    (case selectCriteriaVariant b name sel of
                       (Inl e, sel') \<Rightarrow> (OptionsThrow e, sel')
                     | (Inr known, sel') \<Rightarrow>
                         (if known then Accepted opts else RefusedOptions (unknown_variant b name), sel'))) = (Accepted opts, sel')"
  proof (cases "OptCriteria opts")
    case (Some name)
    with criteria obtain i where "index_of name (Names b) = Some i"
      by (cases "index_of name (Names b)") (auto simp: criteria_known_def index_of_None)
    with Some unlocked show ?thesis by (simp add: selectCriteriaVariant_def)
  qed simp
  with one fields have "\<exists>sel'. parseOptions b (buildRunCommand suite request) sel = (Accepted opts, sel')"
    by (simp add: parseOptions_def cli)
  with fields runs show ?thesis unfolding runs_scripts_def by blast
qed

definition sample_request :: RunRequest where
  "sample_request = \<lparr>RequestSelection = [''Rail5'', ''Rail3''],
     Settings = [\<lparr>SettingFlag = ''--repeat'', SettingValue = ''3'', Present = True\<rparr>,
       \<lparr>SettingFlag = ''--no-logs'', SettingValue = [], Present = True\<rparr>,
       \<lparr>SettingFlag = ''--criteria'', SettingValue = ''Tight'', Present = True\<rparr>,
       \<lparr>SettingFlag = ''--dut-serial'', SettingValue = ''A-7'', Present = True\<rparr>],
     Extra = []\<rparr>"

lemma one_pass_more: "from_chars_u64 ''3'' = Some 3"
  by (simp add: from_chars_u64_def is_digit_def read_nat_def digit_val_def)

definition sample_suite :: Suite where
  "sample_suite = \<lparr>BinaryPath = ''/opt/rail/bin/run_scripts'', ManifestPath = ''/opt/rail/bin/manifest.json'', SuiteTests = [],
     CriteriaVariants = [], DefaultCriteria = [], MasterCriteria = [], RootPath = ''/opt''\<rparr>"

definition two_variants :: criteria_build where
  "two_variants = \<lparr>Names = [''Standard'', ''Tight''], DefaultVariant = ''Standard'', MasterVariant = ''Standard''\<rparr>"

theorem console_command_means_its_request_witness:
  "\<exists>opts sel'. parseOptions two_variants (buildRunCommand sample_suite sample_request) \<lparr>Index = 0, Locked = False\<rparr> = (Accepted opts, sel')
    \<and> SelectedIds opts = RequestSelection sample_request \<and> EventsPath opts = Some ''-''
    \<and> Quiet opts \<and> StopOnStdin opts \<and> \<not> Colour opts
    \<and> \<not> ListOnly opts \<and> \<not> SafeOnly opts \<and> \<not> ShowHelp opts \<and> \<not> DescribeOptions opts \<and> \<not> DescribeCriteria opts"
proof (rule console_command_means_its_request [OF run_model_arrives])
  show "list_all (fitting run_model) (Settings sample_request)"
    by (simp add: sample_request_def fitting_def run_model_def optionsModel_def optionInfo_def console_option_def
        Options_members_def plain_flag_def spellingsOf_def kindOf_member_def one_pass_more)
qed (simp_all add: sample_request_def selectable_def compatible_def sets_def two_variants_def)

section \<open>The list of tests\<close>

definition plain_line :: "string \<Rightarrow> bool" where
  "plain_line s \<longleftrightarrow> CHR ''|'' \<notin> set s \<and> CHR 0x0A \<notin> set s"

definition listable :: "'b Catalog \<Rightarrow> bool" where
  "listable cat \<longleftrightarrow>
     list_all (\<lambda>g. plain_line (group_name g) \<and>
       list_all (\<lambda>t. plain_line (test_id t) \<and> CHR 0x0A \<notin> set (test_description t)
         \<and> (test_description t = [] \<or> last (test_description t) \<noteq> CHR 0x0D)) (tests g)) (Catalog_groups cat)"

definition entry_of :: "'b TestGroup \<Rightarrow> 'b TestCase \<Rightarrow> TestEntry" where
  "entry_of g t = \<lparr>EntryGroup = group_name g, EntryId = test_id t, EntryDescription = test_description t\<rparr>"

lemma parse_list_line:
  "CHR 0x0A \<notin> set line \<Longrightarrow> parseTestList (line @ CHR 0x0A # rest) = test_entry (without_cr line) @ parseTestList rest"
  by (simp add: parseTestList_def split_on_append)

lemma parse_test_line:
  assumes "plain_line (group_name g)" and "plain_line (test_id t)" and "CHR 0x0A \<notin> set (test_description t)"
    and "test_description t = [] \<or> last (test_description t) \<noteq> CHR 0x0D"
  shows "parseTestList (test_line g t @ rest) = entry_of g t # parseTestList rest"
proof -
  let ?line = "group_name g @ ''|'' @ test_id t @ ''|'' @ test_description t"
  from assms have "CHR 0x0A \<notin> set ?line" by (simp add: plain_line_def)
  from parse_list_line [OF this, of rest]
  have "parseTestList (test_line g t @ rest) = test_entry (without_cr ?line) @ parseTestList rest"
    by (simp add: test_line_def nl_def)
  moreover have "without_cr ?line = ?line" using assms(4) by (auto simp: without_cr_def)
  ultimately show ?thesis using assms(1,2) by (simp add: test_entry_def plain_line_def entry_of_def)
qed

lemma parse_test_lines:
  "plain_line (group_name g) \<Longrightarrow>
   list_all (\<lambda>t. plain_line (test_id t) \<and> CHR 0x0A \<notin> set (test_description t)
      \<and> (test_description t = [] \<or> last (test_description t) \<noteq> CHR 0x0D)) ts \<Longrightarrow>
     parseTestList (concat (map (test_line g) ts) @ rest) = map (entry_of g) ts @ parseTestList rest"
  by (induction ts) (simp_all add: parse_test_line)

text \<open>
  C12: The list run_scripts prints is read by the console as the tests of the catalog, in their order, when
  no name of a group or a test has a bar or a newline in it, and no description has a newline or ends in a carriage
  return; a description may have bars.
\<close>

theorem listed_tests_are_read:
  "listable cat \<Longrightarrow>
     parseTestList (listTests cat) = concat (map (\<lambda>g. map (entry_of g) (tests g)) (Catalog_groups cat))"
proof -
  have "list_all (\<lambda>g. plain_line (group_name g) \<and>
       list_all (\<lambda>t. plain_line (test_id t) \<and> CHR 0x0A \<notin> set (test_description t)
         \<and> (test_description t = [] \<or> last (test_description t) \<noteq> CHR 0x0D)) (tests g)) gs \<Longrightarrow>
     parseTestList (concat (map (\<lambda>g. concat (map (test_line g) (tests g))) gs)) = concat (map (\<lambda>g. map (entry_of g) (tests g)) gs)" for gs
  proof (induction gs)
    case Nil
    then show ?case by (simp add: parseTestList_def without_cr_def test_entry_def)
  qed (simp add: parse_test_lines)
  then show "listable cat \<Longrightarrow> ?thesis" by (simp add: listable_def listTests_def)
qed

definition quiet_bracket :: "unit Bracket" where
  "quiet_bracket = \<lparr>hook = None, hook_description = []\<rparr>"

definition listed_test :: "string \<Rightarrow> string \<Rightarrow> unit TestCase" where
  "listed_test name descr = \<lparr>test_id = name, test_description = descr, test_script = (\<lambda>_. ([], Inr ()))\<rparr>"

definition listed_catalog :: "unit Catalog" where
  "listed_catalog = \<lparr>Catalog_groups =
       [\<lparr>group_name = ''Power'', group_description = [],
         tests = [listed_test ''Rail5'' ''the 5 V rail | loaded'', listed_test ''Rail3'' []],
         group_setup = quiet_bracket, group_teardown = quiet_bracket\<rparr>],
     Catalog_Setup = quiet_bracket, Catalog_Teardown = quiet_bracket\<rparr>"

theorem listed_tests_are_read_witness:
  "parseTestList (listTests listed_catalog) =
     concat (map (\<lambda>g. map (entry_of g) (tests g)) (Catalog_groups listed_catalog))"
  by (rule listed_tests_are_read) (simp add: listable_def listed_catalog_def listed_test_def plain_line_def)

section \<open>A selection of nothing\<close>

lemma split_commas: "splitCommaList (replicate n (CHR '','')) = []"
  by (simp add: splitCommaList_def) (induction n; auto)

theorem empty_selection_runs_everything:
  "\<exists>opts. cli_parse Options_members default_options [program, ''--select='' @ replicate n (CHR '','')] = Inr opts
    \<and> isSelected name (SelectedIds opts)"
  using selection_parses [of "replicate n (CHR '','')" default_options]
  by (simp add: cli_parse_def split_commas isSelected_def del: parse_args.simps)

end
