(* ===== verification/ConsoleServerFacts.thy ===== *)
theory ConsoleServerFacts
  imports ConsoleServer ConsoleFacts
begin

text \<open>
  What holds of the console's server in every order of requests, child output and page traffic: one run
  at a time, nothing of an ended run reaches the next, every page is sent every line, and only the
  suite's own binary is ever started.
\<close>

section \<open>Runs do not overlap\<close>

definition closed_child :: "ChildStream \<Rightarrow> bool" where
  "closed_child child \<longleftrightarrow> \<not> StdoutOpen child \<and> \<not> StderrOpen child \<and> \<not> StdinOpen child"

text \<open>
  The session is active exactly while its child has not been reaped, stdin is open exactly as long as
  stdout, and a reaped child has closed everything.
\<close>

definition session_ok :: "RunSession \<Rightarrow> bool" where
  "session_ok s \<longleftrightarrow>
     (case mChild s of
        None \<Rightarrow> \<not> mActive s
      | Some child \<Rightarrow> mActive s = (\<not> Reaped child) \<and> StdinOpen child = StdoutOpen child \<and> (Reaped child \<longrightarrow> closed_child child))"

lemma session_ok_child: "session_ok s \<Longrightarrow> session_ok (child_event event s)"
  by (auto simp: session_ok_def child_event_def closed_child_def split: option.splits ChildEvent.splits)

lemma session_ok_start: "session_ok s \<Longrightarrow> session_ok (snd (session_start spawn_ok s))"
  by (auto simp: session_start_def session_ok_def new_child_def closed_child_def split: option.splits)

lemma session_handle:
  "session (snd (handle suite static_files oracle request c)) =
     (case request of
        PostRun body \<Rightarrow> snd (session_start (o_spawn oracle) (session c))
      | _ \<Rightarrow> session c)"
  by (cases request) (auto simp: Let_def ran_def session_start_def split: prod.splits if_splits)

lemma emergency_frame [simp]:
  "session (emergency_pressed port_number kill_ok host_header c) = session c" "session (emergency_wakes i c) = session c"
  "session (emergency_safes suite i c) = session c" "session (emergency_replies outcome i c) = session c"
  "streams (emergency_pressed port_number kill_ok host_header c) = streams c" "streams (emergency_wakes i c) = streams c"
  "streams (emergency_safes suite i c) = streams c" "streams (emergency_replies outcome i c) = streams c"
  "runs (emergency_pressed port_number kill_ok host_header c) = runs c" "runs (emergency_wakes i c) = runs c"
  "runs (emergency_safes suite i c) = runs c" "runs (emergency_replies outcome i c) = runs c"
  "said (emergency_pressed port_number kill_ok host_header c) = said c" "said (emergency_wakes i c) = said c"
  "said (emergency_safes suite i c) = said c" "said (emergency_replies outcome i c) = said c"
  by (simp_all add: emergency_pressed_def emergency_wakes_def emergency_safes_def emergency_replies_def put_stage_def ran_def
      split: EmergencyStage.split)

lemma child_does_frame [simp]:
  "streams (child_does event c) = streams c" "runs (child_does event c) = runs c" "commands (child_does event c) = commands c"
  "emergencies (child_does event c) = emergencies c" "session (child_does event c) = child_event event (session c)"
  by (simp_all add: child_does_def child_event_def)

lemma session_ok_serve:
  "session_ok (session c) \<Longrightarrow> session_ok (session (snd (serve port_number suite static_files oracle host_header request c)))"
  by (auto simp: serve_def session_handle session_ok_start split: Request.split)

lemma session_ok_step: "console_step port_number suite static_files c c' \<Longrightarrow> session_ok (session c) \<Longrightarrow> session_ok (session c')"
  by (induction rule: console_step.induct)
     (simp_all add: session_ok_serve session_ok_child open_stream_def turn_stream_def page_opens_def page_closes_def)

lemma session_ok_reaches: "console_reaches port_number suite static_files c \<Longrightarrow> session_ok (session c)"
proof (induction rule: console_reaches.induct)
  case started
  then show ?case by (simp add: new_console_def new_session_def session_ok_def)
next
  case (steps c c')
  then show ?case by (auto intro: session_ok_step)
qed

lemma ended_session_still: "session_ok s \<Longrightarrow> \<not> mActive s \<Longrightarrow> child_event event s = s"
  by (cases event) (auto simp: session_ok_def child_event_def closed_child_def split: option.splits)

theorem ended_run_is_over:
  "console_reaches port_number suite static_files c \<Longrightarrow> \<not> mActive (session c) \<Longrightarrow>
     child_event event (session c) = session c
     \<and> session_start True (session c) = (True, \<lparr>mLines = [], mActive = True, mChild = Some new_child\<rparr>)"
  using session_ok_reaches [of port_number suite static_files c]
  by (simp add: ended_session_still session_start_def)

theorem ended_run_is_over_witness:
  "child_event (StdoutChunk ''late'') (session new_console) = session new_console
     \<and> session_start True (session new_console) = (True, \<lparr>mLines = [], mActive = True, mChild = Some new_child\<rparr>)"
  by (rule ended_run_is_over [OF started]) (simp add: new_console_def new_session_def)

section \<open>Every page is sent every line\<close>

lemma child_event_grows: "\<exists>tail_lines. mLines (child_event event s) = mLines s @ tail_lines"
  by (auto simp: child_event_def split: option.splits ChildEvent.splits)

definition stream_ok :: "ConsoleState \<Rightarrow> Stream \<Rightarrow> bool" where
  "stream_ok c stream \<longleftrightarrow> OpenedIn stream \<le> runs c \<and>
     (OpenedIn stream = runs c \<longrightarrow> Cursor stream \<le> length (mLines (session c)) \<and>
       (StreamOpen stream \<longrightarrow> filter (\<lambda>frame. frame \<noteq> keep_alive) (Sent stream) = map sseFrame (take (Cursor stream) (mLines (session c)))))"

lemma stream_ok_frame [simp]:
  "stream_ok (c\<lparr>streams := ss\<rparr>) = stream_ok c" "stream_ok (c\<lparr>viewers := v\<rparr>) = stream_ok c"
  "stream_ok (emergency_pressed port_number kill_ok host_header c) = stream_ok c"
  "stream_ok (emergency_wakes i c) = stream_ok c" "stream_ok (emergency_safes suite i c) = stream_ok c"
  "stream_ok (emergency_replies outcome i c) = stream_ok c"
  by (simp_all add: stream_ok_def fun_eq_iff)

definition streams_ok :: "ConsoleState \<Rightarrow> bool" where
  "streams_ok c \<longleftrightarrow> list_all (stream_ok c) (streams c)"

lemma frame_not_keep_alive [simp]: "sseFrame line \<noteq> keep_alive"
  by (simp add: sseFrame_def keep_alive_def)

lemma filter_frames [simp]: "filter (\<lambda>frame. frame \<noteq> keep_alive) (map sseFrame ls) = map sseFrame ls"
  by (induction ls) simp_all

lemma stream_ok_later:
  assumes "stream_ok c stream" and "mLines (session c') = mLines (session c) @ tail_lines" and "runs c' = runs c"
  shows "stream_ok c' stream"
  using assms by (auto simp: stream_ok_def)

lemma stream_ok_newer: "stream_ok c stream \<Longrightarrow> runs c < runs c' \<Longrightarrow> stream_ok c' stream"
  by (auto simp: stream_ok_def)

lemma stream_ok_turn: "stream_ok c stream \<Longrightarrow> stream_ok c (stream_turn write_ok (session c) stream)"
proof -
  have drop_take: "map sseFrame (take k ls) @ map sseFrame (drop k ls) = map sseFrame ls" for k ls
    by (metis append_take_drop_id map_append)
  show "stream_ok c stream \<Longrightarrow> ?thesis"
    using drop_take [of "Cursor stream" "mLines (session c)"]
    by (auto simp: stream_ok_def stream_turn_def lines_since_def Let_def)
qed

lemma handle_grows:
  "(\<exists>tail_lines. mLines (session (snd (handle suite static_files oracle request c))) = mLines (session c) @ tail_lines)
     \<and> runs (snd (handle suite static_files oracle request c)) = runs c
   \<or> runs c < runs (snd (handle suite static_files oracle request c))"
  by (cases request) (auto simp: Let_def ran_def session_start_def split: prod.splits if_splits)

lemma streams_handle: "streams (snd (handle suite static_files oracle request c)) = streams c"
  by (cases request) (auto simp: Let_def ran_def split: prod.splits)

lemma streams_ok_later:
  assumes "streams_ok c" and "streams c' = streams c"
    and "(\<exists>tail_lines. mLines (session c') = mLines (session c) @ tail_lines) \<and> runs c' = runs c \<or> runs c < runs c'"
  shows "streams_ok c'"
  using assms stream_ok_later [of c _ c'] stream_ok_newer [of c _ c'] by (auto simp: streams_ok_def list_all_iff)

lemma streams_ok_step: "console_step port_number suite static_files c c' \<Longrightarrow> streams_ok c \<Longrightarrow> streams_ok c'"
proof (induction rule: console_step.induct)
  case (serves c answered host_header request)
  then show ?case
    by (auto simp: serve_def intro: streams_ok_later [OF _ streams_handle handle_grows])
next
  case (child_acts c event)
  then show ?case using child_event_grows [of event "session c"] by (auto intro: streams_ok_later)
next
  case (stream_opens c)
  then show ?case by (auto simp: streams_ok_def stream_ok_def open_stream_def list_all_iff)
next
  case (stream_turns i c write_ok)
  then have "stream_ok c (stream_turn write_ok (session c) (streams c ! i))"
    by (auto simp: streams_ok_def list_all_iff intro: stream_ok_turn)
  with stream_turns have "list_all (stream_ok c) ((streams c)[i := stream_turn write_ok (session c) (streams c ! i)])"
    by (auto simp: streams_ok_def list_all_iff dest!: set_update_subset_insert [THEN subsetD])
  then show ?case by (simp add: streams_ok_def turn_stream_def)
qed (auto simp: streams_ok_def page_opens_def page_closes_def)

lemma streams_ok_reaches: "console_reaches port_number suite static_files c \<Longrightarrow> streams_ok c"
  by (induction rule: console_reaches.induct) (auto simp: streams_ok_def new_console_def list_all_iff dest: streams_ok_step)

lemma lines_of_split: "concat (map (\<lambda>line. line @ [c]) (butlast (split_on c s))) @ last (split_on c s) = s"
proof (induction s)
  case (Cons x s)
  obtain f fs where "split_on c s = f # fs" by (cases "split_on c s") auto
  with Cons show ?case by (cases fs) (auto split: if_splits)
qed simp

lemma last_split_plain: "c \<notin> set (last (split_on c s))"
proof (induction s)
  case (Cons x s)
  obtain f fs where "split_on c s = f # fs" by (cases "split_on c s") auto
  with Cons show ?case by (cases fs) auto
qed simp

subsection \<open>What the child wrote\<close>

text \<open>What went down each of the child's pipes until it was closed.\<close>

fun out_written :: "ChildEvent list \<Rightarrow> string" where
  "out_written [] = []"
| "out_written (StdoutChunk text # events) = text @ out_written events"
| "out_written (StdoutEnds # events) = []"
| "out_written (_ # events) = out_written events"

fun err_written :: "ChildEvent list \<Rightarrow> string" where
  "err_written [] = []"
| "err_written (StderrChunk text # events) = text @ err_written events"
| "err_written (StderrEnds # events) = []"
| "err_written (_ # events) = err_written events"

lemma out_written_snoc:
  "out_written (events @ [event]) =
     out_written events @ (if StdoutEnds \<in> set events then [] else case event of StdoutChunk text \<Rightarrow> text | _ \<Rightarrow> [])"
  by (induction events rule: out_written.induct) (auto split: ChildEvent.splits)

lemma err_written_snoc:
  "err_written (events @ [event]) =
     err_written events @ (if StderrEnds \<in> set events then [] else case event of StderrChunk text \<Rightarrow> text | _ \<Rightarrow> [])"
  by (induction events rule: err_written.induct) (auto split: ChildEvent.splits)

text \<open>The lines of a text: each ended in it, and in this order; what follows the last of them is no line yet.\<close>

definition lines_written :: "string list \<Rightarrow> string \<Rightarrow> bool" where
  "lines_written ls text \<longleftrightarrow> (\<forall>l \<in> set ls. newline \<notin> set l) \<and>
     (\<exists>rest. newline \<notin> set rest \<and> text = concat (map (\<lambda>l. l @ [newline]) ls) @ rest)"

text \<open>A line with the pipe it came down, and what the page is sent of it.\<close>

type_synonym heard_line = "bool \<times> string"

definition line_sent :: "heard_line \<Rightarrow> string" where
  "line_sent tagged = (if fst tagged then stderrEnvelope (snd tagged) else snd tagged)"

definition from_pipe :: "bool \<Rightarrow> heard_line list \<Rightarrow> string list" where
  "from_pipe err tagged = map snd (filter (\<lambda>h. fst h = err) tagged)"

lemma from_pipe_simps [simp]:
  "from_pipe err [] = []" "from_pipe err (xs @ ys) = from_pipe err xs @ from_pipe err ys"
  "from_pipe err (map (Pair err') ls) = (if err' = err then ls else [])"
  by (induction ls) (simp_all add: from_pipe_def comp_def)

definition heard_so_far :: "string list \<Rightarrow> ChildEvent list \<Rightarrow> string \<Rightarrow> string \<Rightarrow> bool" where
  "heard_so_far ls events part err_part \<longleftrightarrow>
     (\<exists>tagged. ls = map line_sent tagged \<and> (\<forall>h \<in> set tagged. newline \<notin> set (snd h))
        \<and> out_written events = concat (map (\<lambda>l. l @ [newline]) (from_pipe False tagged)) @ part
        \<and> err_written events = concat (map (\<lambda>l. l @ [newline]) (from_pipe True tagged)) @ err_part)"

definition said_ok :: "ConsoleState \<Rightarrow> bool" where
  "said_ok c \<longleftrightarrow>
     (case mChild (session c) of
        None \<Rightarrow> mLines (session c) = [] \<and> said c = []
      | Some child \<Rightarrow>
          StdoutOpen child = (StdoutEnds \<notin> set (said c)) \<and> StderrOpen child = (StderrEnds \<notin> set (said c))
          \<and> newline \<notin> set (mPartialLine child) \<and> newline \<notin> set (mPartialStderrLine child)
          \<and> heard_so_far (mLines (session c)) (said c) (mPartialLine child) (mPartialStderrLine child))"

lemma chunk_lines:
  "concat (map (\<lambda>l. l @ [newline]) (whole_lines s)) @ partial_line s = s" "newline \<notin> set (partial_line s)"
  "l \<in> set (whole_lines s) \<Longrightarrow> newline \<notin> set l"
proof -
  have pieces: "l \<in> set (split_on c s) \<Longrightarrow> c \<notin> set l" for c
  proof (induction s arbitrary: l)
    case (Cons x s)
    then show ?case by (cases "split_on c s") (auto split: if_splits)
  qed simp
  show "concat (map (\<lambda>l. l @ [newline]) (whole_lines s)) @ partial_line s = s" "newline \<notin> set (partial_line s)"
    by (simp_all add: whole_lines_def partial_line_def lines_of_split last_split_plain)
  show "l \<in> set (whole_lines s) \<Longrightarrow> newline \<notin> set l"
    using pieces [of newline] by (auto simp: whole_lines_def dest: in_set_butlastD)
qed

lemma heard_chunk:
  assumes "heard_so_far ls events part err_part"
  shows "StdoutEnds \<notin> set events \<Longrightarrow>
      heard_so_far (ls @ whole_lines (part @ text)) (events @ [StdoutChunk text]) (partial_line (part @ text)) err_part"
    and "StderrEnds \<notin> set events \<Longrightarrow>
      heard_so_far (ls @ map stderrEnvelope (whole_lines (err_part @ text))) (events @ [StderrChunk text]) part
        (partial_line (err_part @ text))"
    and "(\<And>t. event = StdoutChunk t \<Longrightarrow> StdoutEnds \<in> set events) \<Longrightarrow> (\<And>t. event = StderrChunk t \<Longrightarrow> StderrEnds \<in> set events) \<Longrightarrow>
      heard_so_far ls (events @ [event]) part err_part"
proof -
  obtain tagged where h: "ls = map line_sent tagged" "\<forall>h \<in> set tagged. newline \<notin> set (snd h)"
    "out_written events = concat (map (\<lambda>l. l @ [newline]) (from_pipe False tagged)) @ part"
    "err_written events = concat (map (\<lambda>l. l @ [newline]) (from_pipe True tagged)) @ err_part"
    using assms by (auto simp: heard_so_far_def)
  have sent: "map line_sent (map (Pair False) xs) = xs" "map line_sent (map (Pair True) xs) = map stderrEnvelope xs" for xs
    by (simp_all add: line_sent_def comp_def)
  show "StdoutEnds \<notin> set events \<Longrightarrow>
      heard_so_far (ls @ whole_lines (part @ text)) (events @ [StdoutChunk text]) (partial_line (part @ text)) err_part"
    unfolding heard_so_far_def using h sent(1) [of "whole_lines (part @ text)"] chunk_lines(1,2) [of "part @ text"]
    by (intro exI [of _ "tagged @ map (Pair False) (whole_lines (part @ text))"])
      (auto simp: out_written_snoc err_written_snoc simp del: map_map dest: chunk_lines(3))
  show "StderrEnds \<notin> set events \<Longrightarrow>
      heard_so_far (ls @ map stderrEnvelope (whole_lines (err_part @ text))) (events @ [StderrChunk text]) part
        (partial_line (err_part @ text))"
    unfolding heard_so_far_def using h sent(2) [of "whole_lines (err_part @ text)"] chunk_lines(1,2) [of "err_part @ text"]
    by (intro exI [of _ "tagged @ map (Pair True) (whole_lines (err_part @ text))"])
      (auto simp: out_written_snoc err_written_snoc simp del: map_map dest: chunk_lines(3))
  show "(\<And>t. event = StdoutChunk t \<Longrightarrow> StdoutEnds \<in> set events) \<Longrightarrow> (\<And>t. event = StderrChunk t \<Longrightarrow> StderrEnds \<in> set events) \<Longrightarrow>
      heard_so_far ls (events @ [event]) part err_part"
    unfolding heard_so_far_def using h
    by (intro exI [of _ tagged]) (auto simp: out_written_snoc err_written_snoc split: ChildEvent.splits)
qed

lemma said_ok_child: "said_ok c \<Longrightarrow> said_ok (child_does event c)"
proof (cases "mChild (session c)")
  case None
  then show "said_ok c \<Longrightarrow> ?thesis" by (simp add: child_does_def)
next
  case (Some child)
  assume ok: "said_ok c"
  note h = heard_chunk [of "mLines (session c)" "said c" "mPartialLine child" "mPartialStderrLine child"]
  show ?thesis
  proof (cases event)
    case (StdoutChunk chunk)
    with Some ok h(1) [of chunk] h(3) [of event] chunk_lines(2) show ?thesis
      by (auto simp: said_ok_def child_does_def child_event_def)
  next
    case StdoutEnds
    with Some ok h(3) [of event] show ?thesis by (auto simp: said_ok_def child_does_def child_event_def)
  next
    case (StderrChunk chunk)
    with Some ok h(2) [of chunk] h(3) [of event] chunk_lines(2) show ?thesis
      by (auto simp: said_ok_def child_does_def child_event_def)
  next
    case StderrEnds
    with Some ok h(3) [of event] show ?thesis by (auto simp: said_ok_def child_does_def child_event_def)
  next
    case (Exits code)
    with Some ok h(3) [of event] show ?thesis by (auto simp: said_ok_def child_does_def child_event_def)
  qed
qed

lemma said_ok_cong: "said_ok c \<Longrightarrow> session c' = session c \<Longrightarrow> said c' = said c \<Longrightarrow> said_ok c'"
  by (simp add: said_ok_def split: option.splits)

lemma heard_nothing: "heard_so_far [] [] [] []"
  unfolding heard_so_far_def by (intro exI [of _ "[]"]) simp

lemma said_ok_handle: "said_ok c \<Longrightarrow> said_ok (snd (handle suite static_files answered request c))"
proof (cases request)
  case (PostRun body)
  then show "said_ok c \<Longrightarrow> ?thesis"
    using heard_nothing
    by (auto simp: said_ok_def session_start_def ran_def new_child_def Let_def split: option.splits)
qed (auto simp: Let_def ran_def elim: said_ok_cong)

lemma said_ok_step: "console_step port_number suite static_files c c' \<Longrightarrow> said_ok c \<Longrightarrow> said_ok c'"
proof (induction rule: console_step.induct)
  case (serves c answered host_header request)
  then show ?case by (auto simp: serve_def said_ok_handle)
qed (auto simp: said_ok_child open_stream_def turn_stream_def page_opens_def page_closes_def elim!: said_ok_cong)

lemma said_ok_reaches: "console_reaches port_number suite static_files c \<Longrightarrow> said_ok c"
  by (induction rule: console_reaches.induct)
    (auto simp: said_ok_def new_console_def new_session_def dest: said_ok_step)

text \<open>
  C37: In every state the console can reach, a page whose stream was opened during this run has been sent,
  with its next turn, every line the child wrote so far, once: those of its stdout in their order
  and as they are, those of its stderr in theirs, each as an object of kind stderr, however the pipes cut
  them into reads. What follows the last newline in a pipe has not been sent, and is not when it closes.
\<close>

theorem every_page_is_sent_every_line:
  assumes "console_reaches port_number suite static_files c" and "stream \<in> set (streams c)"
    and "StreamOpen stream" and "OpenedIn stream = runs c"
  shows "\<exists>tagged. filter (\<lambda>frame. frame \<noteq> keep_alive) (Sent (stream_turn True (session c) stream)) =
        map (\<lambda>h. sseFrame (if fst h then stderrEnvelope (snd h) else snd h)) tagged
    \<and> lines_written (from_pipe False tagged) (out_written (said c))
    \<and> lines_written (from_pipe True tagged) (err_written (said c))"
proof -
  have "stream_ok c stream" using streams_ok_reaches [OF assms(1)] assms(2) by (simp add: streams_ok_def list_all_iff)
  with assms(3,4) have "Cursor stream \<le> length (mLines (session c))"
      "filter (\<lambda>frame. frame \<noteq> keep_alive) (Sent stream) = map sseFrame (take (Cursor stream) (mLines (session c)))"
    by (auto simp: stream_ok_def)
  with assms(3) have sent: "filter (\<lambda>frame. frame \<noteq> keep_alive) (Sent (stream_turn True (session c) stream)) =
      map sseFrame (mLines (session c))"
    using map_append [of sseFrame "take (Cursor stream) (mLines (session c))" "drop (Cursor stream) (mLines (session c))"]
    by (auto simp: stream_turn_def lines_since_def Let_def)
  have "\<exists>part err_part. newline \<notin> set part \<and> newline \<notin> set err_part \<and> heard_so_far (mLines (session c)) (said c) part err_part"
  proof (cases "mChild (session c)")
    case None
    then show ?thesis using said_ok_reaches [OF assms(1)] heard_nothing by (intro exI [of _ "[]"]) (simp add: said_ok_def)
  next
    case (Some child)
    then show ?thesis using said_ok_reaches [OF assms(1)]
      by (intro exI [of _ "mPartialLine child"] exI [of _ "mPartialStderrLine child"]) (simp add: said_ok_def)
  qed
  then obtain part err_part tagged where plain: "newline \<notin> set part" "newline \<notin> set err_part"
    and h: "mLines (session c) = map line_sent tagged" "\<forall>h \<in> set tagged. newline \<notin> set (snd h)"
    "out_written (said c) = concat (map (\<lambda>l. l @ [newline]) (from_pipe False tagged)) @ part"
    "err_written (said c) = concat (map (\<lambda>l. l @ [newline]) (from_pipe True tagged)) @ err_part"
    by (auto simp: heard_so_far_def)
  have "lines_written (from_pipe False tagged) (out_written (said c))" "lines_written (from_pipe True tagged) (err_written (said c))"
    using plain h(2-4) by (auto simp: lines_written_def from_pipe_def)
  with sent h(1) show ?thesis by (intro exI [of _ tagged]) (simp add: line_sent_def)
qed

text \<open>A run that says one line while a page watches, and then another.\<close>

definition idle_oracle :: Oracle where
  "idle_oracle = \<lparr>o_blocking = NotStarted, o_spawn = True, o_write = True, o_file = (\<lambda>_. None)\<rparr>"

definition local_host :: string where
  "local_host = ''127.0.0.1:'' @ show_nat 8420"

definition asks :: "Request \<Rightarrow> ConsoleState \<Rightarrow> ConsoleState" where
  "asks request c = snd (serve 8420 (suite_of ''run_scripts'') [] idle_oracle local_host request c)"

definition says :: "string \<Rightarrow> ConsoleState \<Rightarrow> ConsoleState" where
  "says line c = child_does (StdoutChunk (line @ [newline])) c"

definition exits :: "ConsoleState \<Rightarrow> ConsoleState" where
  "exits c = child_does (Exits 0) (child_does StderrEnds (child_does StdoutEnds c))"

lemma reaches_asks: "console_reaches 8420 (suite_of ''run_scripts'') [] c \<Longrightarrow>
    console_reaches 8420 (suite_of ''run_scripts'') [] (asks request c)"
  unfolding asks_def by (rule steps [OF _ serves])

lemma reaches_says: "console_reaches p suite fs c \<Longrightarrow> console_reaches p suite fs (says line c)"
  unfolding says_def by (rule steps [OF _ child_acts])

lemma reaches_open: "console_reaches p suite fs c \<Longrightarrow> console_reaches p suite fs (open_stream c)"
  by (rule steps [OF _ stream_opens])

lemma reaches_turn: "console_reaches p suite fs c \<Longrightarrow> i < length (streams c) \<Longrightarrow> console_reaches p suite fs (turn_stream i write_ok c)"
  by (rule steps [OF _ stream_turns])

lemma reaches_exits: "console_reaches p suite fs c \<Longrightarrow> console_reaches p suite fs (exits c)"
  unfolding exits_def by (intro steps [OF _ child_acts])

definition watched :: ConsoleState where
  "watched = says ''two'' (turn_stream 0 True (open_stream (says ''one'' (asks (PostRun []) new_console))))"

lemma buildRunCommand_nonempty: "buildRunCommand suite request = BinaryPath suite # tl (buildRunCommand suite request)"
  by (simp add: buildRunCommand_def)

lemma asks_run: "\<not> mActive (session c) \<Longrightarrow>
    asks (PostRun body) c = c\<lparr>session := \<lparr>mLines = [], mActive = True, mChild = Some new_child\<rparr>, runs := runs c + 1,
      said := [], commands := commands c @ [buildRunCommand (suite_of ''run_scripts'') (requested_run body)]\<rparr>"
  by (simp add: asks_def serve_def forbidden_def local_host_def session_start_def idle_oracle_def ran_def)

lemma says_line: "mChild (session c) = Some child \<Longrightarrow> StdoutOpen child \<Longrightarrow> mPartialLine child = [] \<Longrightarrow> newline \<notin> set line \<Longrightarrow>
    says line c = c\<lparr>session := (session c)\<lparr>mLines := mLines (session c) @ [line], mChild := Some child\<rparr>,
      said := said c @ [StdoutChunk (line @ [newline])]\<rparr>"
  by (cases child) (simp add: says_def child_does_def child_event_def whole_lines_def partial_line_def split_on_append)

lemma watched_streams:
  "streams watched = [\<lparr>Cursor = 1, Sent = [sseFrame ''one''], StreamOpen = True, OpenedIn = 1\<rparr>]" "runs watched = 1"
  by (simp_all add: watched_def says_line asks_run new_console_def new_session_def open_stream_def turn_stream_def stream_turn_def
      lines_since_def new_child_def newline_def)

lemma watched_session: "session watched = \<lparr>mLines = [''one'', ''two''], mActive = True, mChild = Some new_child\<rparr>"
  by (simp add: watched_def says_line asks_run new_console_def new_session_def open_stream_def turn_stream_def new_child_def newline_def)

lemma watched_reached: "console_reaches 8420 (suite_of ''run_scripts'') [] watched"
  unfolding watched_def
  by (intro reaches_says reaches_turn reaches_open reaches_asks started)
     (simp add: open_stream_def)

lemma watched_said: "out_written (said watched) = ''one'' @ newline # ''two'' @ [newline]"
  by (simp add: watched_def says_line asks_run new_console_def new_session_def open_stream_def turn_stream_def new_child_def newline_def)

theorem every_page_is_sent_every_line_witness:
  "\<exists>tagged. filter (\<lambda>frame. frame \<noteq> keep_alive)
       (Sent (stream_turn True (session watched) \<lparr>Cursor = 1, Sent = [sseFrame ''one''], StreamOpen = True, OpenedIn = 1\<rparr>)) =
        map (\<lambda>h. sseFrame (if fst h then stderrEnvelope (snd h) else snd h)) tagged
    \<and> lines_written (from_pipe False tagged) (''one'' @ newline # ''two'' @ [newline])
    \<and> lines_written (from_pipe True tagged) (err_written (said watched))"
  unfolding watched_said [symmetric]
  by (rule every_page_is_sent_every_line [OF watched_reached]) (simp_all add: watched_streams)

text \<open>
  Only for the run it was opened in: a page that has not yet noticed the end of one run keeps its
  cursor into the next, and misses the lines before it.
\<close>

definition between_runs :: ConsoleState where
  "between_runs = turn_stream 0 True (says ''a'' (asks (PostRun []) (exits watched)))"

lemma exits_session: "session (exits c) = child_event (Exits 0) (child_event StderrEnds (child_event StdoutEnds (session c)))"
  by (simp add: exits_def)

lemma between_reached: "console_reaches 8420 (suite_of ''run_scripts'') [] between_runs"
  unfolding between_runs_def
  by (intro reaches_turn reaches_says reaches_asks reaches_exits watched_reached)
     (simp add: says_line asks_run exits_def watched_streams child_event_def watched_session new_child_def newline_def)

theorem restart_loses_a_line:
  "console_reaches 8420 (suite_of ''run_scripts'') [] between_runs
   \<and> mLines (session between_runs) = [''a''] \<and> StreamOpen (streams between_runs ! 0)
   \<and> Cursor (streams between_runs ! 0) = 1 \<and> sseFrame ''a'' \<notin> set (Sent (streams between_runs ! 0))"
  using between_reached
  by (simp add: between_runs_def says_line asks_run exits_def watched_streams child_event_def watched_session new_child_def newline_def
      turn_stream_def stream_turn_def lines_since_def sseFrame_def keep_alive_def)

section \<open>Only the suite's binary is started\<close>

definition of_suite :: "Suite \<Rightarrow> string list \<Rightarrow> bool" where
  "of_suite suite argv \<longleftrightarrow>
     argv \<in> {buildSafeCommand suite, buildListTestsCommand suite, buildDescribeCommand suite, buildDescribeCriteriaCommand suite}
     \<or> take 5 argv = BinaryPath suite # streamFlags"

lemma of_suite_handle:
  "list_all (of_suite suite) (commands c) \<Longrightarrow>
     list_all (of_suite suite) (commands (snd (handle suite static_files oracle request c)))"
  by (cases request) (auto simp: Let_def ran_def of_suite_def buildRunCommand_def streamFlags_def split: prod.splits)

lemma of_suite_step:
  "console_step port_number suite static_files c c' \<Longrightarrow> list_all (of_suite suite) (commands c) \<Longrightarrow> list_all (of_suite suite) (commands c')"
  by (induction rule: console_step.induct)
     (auto simp: serve_def of_suite_handle open_stream_def turn_stream_def page_opens_def page_closes_def
        emergency_pressed_def emergency_wakes_def emergency_safes_def emergency_replies_def put_stage_def ran_def of_suite_def
        split: EmergencyStage.splits)

theorem only_the_suite_is_started:
  "console_reaches port_number suite static_files c \<Longrightarrow> argv \<in> set (commands c) \<Longrightarrow>
     hd argv = BinaryPath suite \<and> (tl argv \<in> {[''--safe''], [''--list-tests''], [''--describe-options''], [''--describe-criteria'']}
       \<or> take 4 (tl argv) = [''--quiet'', ''--no-color'', ''--events=-'', ''--stop-on-stdin''])"
proof -
  have "console_reaches port_number suite static_files c \<Longrightarrow> list_all (of_suite suite) (commands c)"
    by (induction rule: console_reaches.induct) (auto simp: new_console_def intro: of_suite_step)
  moreover have "of_suite suite argv \<Longrightarrow> ?thesis"
    by (cases argv) (auto simp: of_suite_def buildSafeCommand_def buildListTestsCommand_def buildDescribeCommand_def
        buildDescribeCriteriaCommand_def streamFlags_def)
  ultimately show "console_reaches port_number suite static_files c \<Longrightarrow> argv \<in> set (commands c) \<Longrightarrow> ?thesis"
    by (simp add: list_all_iff)
qed

theorem only_the_suite_is_started_witness:
  "hd (buildSafeCommand (suite_of ''run_scripts'')) = BinaryPath (suite_of ''run_scripts'')
   \<and> (tl (buildSafeCommand (suite_of ''run_scripts'')) \<in> {[''--safe''], [''--list-tests''], [''--describe-options''], [''--describe-criteria'']}
     \<or> take 4 (tl (buildSafeCommand (suite_of ''run_scripts''))) = [''--quiet'', ''--no-color'', ''--events=-'', ''--stop-on-stdin''])"
  by (rule only_the_suite_is_started [OF reaches_asks [OF started, of PostSafe]])
     (simp add: asks_def serve_def forbidden_def local_host_def ran_def new_console_def Let_def)

section \<open>Emergencies\<close>

text \<open>Whether an emergency has answered killed, or will, and whether it has started --safe.\<close>

fun says_killed :: "EmergencyStage \<Rightarrow> bool" where
  "says_killed Waiting = False"
| "says_killed (Returned killed) = killed"
| "says_killed (SafeStarted killed) = killed"
| "says_killed (Replied killed outcome) = killed"

fun safe_started :: "EmergencyStage \<Rightarrow> bool" where
  "safe_started Waiting = False"
| "safe_started (Returned killed) = False"
| "safe_started (SafeStarted killed) = True"
| "safe_started (Replied killed outcome) = True"

text \<open>The run an emergency was asked for in is over: none is active, or another has been started since.\<close>

definition pressed_over :: "ConsoleState \<Rightarrow> Emergency \<Rightarrow> bool" where
  "pressed_over c e \<longleftrightarrow> PressedIn e < runs c \<or> \<not> mActive (session c)"

definition emergency_ok :: "ConsoleState \<Rightarrow> Emergency \<Rightarrow> bool" where
  "emergency_ok c e \<longleftrightarrow> PressedIn e \<le> runs c \<and> (Stage e = Waiting \<or> says_killed (Stage e) \<longrightarrow> PressedActive e)
     \<and> (says_killed (Stage e) \<longrightarrow> pressed_over c e)"

definition safes_started :: "ConsoleState \<Rightarrow> nat" where
  "safes_started c = length (filter (\<lambda>e. safe_started (Stage e)) (emergencies c))"

definition emergencies_ok :: "Suite \<Rightarrow> ConsoleState \<Rightarrow> bool" where
  "emergencies_ok suite c \<longleftrightarrow> list_all (emergency_ok c) (emergencies c)
     \<and> safes_started c \<le> count_list (commands c) (buildSafeCommand suite)"

lemma emergency_ok_later:
  assumes "emergency_ok c e" and "runs c < runs c' \<or> runs c' = runs c \<and> (mActive (session c') \<longrightarrow> mActive (session c))"
  shows "emergency_ok c' e"
  using assms by (auto simp: emergency_ok_def pressed_over_def)

lemma emergencies_ok_later:
  assumes "emergencies_ok suite c" and "emergencies c' = emergencies c"
    and "runs c < runs c' \<or> runs c' = runs c \<and> (mActive (session c') \<longrightarrow> mActive (session c))"
    and "count_list (commands c) (buildSafeCommand suite) \<le> count_list (commands c') (buildSafeCommand suite)"
  shows "emergencies_ok suite c'"
  using assms emergency_ok_later [of c _ c']
  by (auto simp: emergencies_ok_def safes_started_def list_all_iff)

lemma emergencies_handle:
  "emergencies (snd (handle suite static_files oracle request c)) = emergencies c"
  "runs c < runs (snd (handle suite static_files oracle request c)) \<or>
   runs (snd (handle suite static_files oracle request c)) = runs c \<and>
     session (snd (handle suite static_files oracle request c)) = session c"
  "count_list (commands c) argv \<le> count_list (commands (snd (handle suite static_files oracle request c))) argv"
  by (cases request; auto simp: Let_def ran_def session_start_def split: prod.splits if_splits)+

lemma child_event_active: "mActive (child_event event s) \<Longrightarrow> mActive s"
  by (auto simp: child_event_def split: option.splits ChildEvent.splits if_splits)

lemma list_all_update: "list_all P xs \<Longrightarrow> P x \<Longrightarrow> list_all P (xs[i := x])"
  by (auto simp: list_all_iff dest!: set_update_subset_insert [THEN subsetD])

lemma length_filter_update:
  "i < length xs \<Longrightarrow> length (filter P (xs[i := x])) + (if P (xs ! i) then 1 else 0) = length (filter P xs) + (if P x then 1 else 0)"
proof (induction xs arbitrary: i)
  case (Cons y xs)
  then show ?case by (cases i) auto
qed simp

lemma stage_change:
  assumes "emergencies_ok suite c" and "i < length (emergencies c)"
    and "says_killed stage \<Longrightarrow> PressedActive (emergencies c ! i) \<and> pressed_over c (emergencies c ! i)" and "stage \<noteq> Waiting"
    and "c' = put_stage i stage c \<and> (safe_started stage \<longrightarrow> safe_started (Stage (emergencies c ! i)))
       \<or> c' = ran (buildSafeCommand suite) (put_stage i stage c)"
  shows "emergencies_ok suite c'"
proof -
  let ?e = "emergencies c ! i"
  have es: "emergencies c' = (emergencies c)[i := ?e\<lparr>Stage := stage\<rparr>]" and same: "runs c' = runs c" "session c' = session c"
    using assms(5) by (auto simp: put_stage_def ran_def)
  then have ok: "emergency_ok c' = emergency_ok c" by (simp add: emergency_ok_def pressed_over_def fun_eq_iff)
  have all: "list_all (emergency_ok c) (emergencies c)" using assms(1) by (simp add: emergencies_ok_def)
  then have "emergency_ok c ?e" using assms(2) by (simp add: list_all_length)
  then have "emergency_ok c (?e\<lparr>Stage := stage\<rparr>)" using assms(3,4) by (auto simp: emergency_ok_def pressed_over_def)
  with all have "list_all (emergency_ok c') (emergencies c')" unfolding ok es by (rule list_all_update)
  moreover have "safes_started c' \<le> count_list (commands c') (buildSafeCommand suite)"
    using length_filter_update [OF assms(2), of "\<lambda>e. safe_started (Stage e)" "?e\<lparr>Stage := stage\<rparr>"] assms(1,5)
    by (auto simp: emergencies_ok_def safes_started_def es put_stage_def ran_def split: if_splits)
  ultimately show ?thesis by (simp add: emergencies_ok_def)
qed

lemma emergencies_ok_step: "console_step port_number suite static_files c c' \<Longrightarrow> emergencies_ok suite c \<Longrightarrow> emergencies_ok suite c'"
proof (induction rule: console_step.induct)
  case (serves c answered host_header request)
  show ?case
    using emergencies_handle(2) [of c suite static_files answered request] serves
    by (auto simp: serve_def intro!: emergencies_ok_later [OF serves] emergencies_handle(1,3))
next
  case (emergency_begins c kill_ok host_header)
  then show ?case
    by (auto simp: emergency_pressed_def emergencies_ok_def safes_started_def emergency_ok_def pressed_over_def session_kill_def
        list_all_iff)
next
  case (wait_ends i c)
  show ?case
  proof (cases "Stage (emergencies c ! i)")
    case Waiting
    then have "PressedActive (emergencies c ! i)"
      using wait_ends by (auto simp: emergencies_ok_def emergency_ok_def list_all_length)
    with Waiting show ?thesis
      by (intro stage_change [OF wait_ends(2,1), of "Returned (session_killed (session c))"])
        (auto simp: emergency_wakes_def pressed_over_def session_killed_def)
  qed (use wait_ends in \<open>simp_all add: emergency_wakes_def\<close>)
next
  case (safe_starts i c)
  show ?case
  proof (cases "Stage (emergencies c ! i)")
    case (Returned killed)
    then have "killed \<Longrightarrow> PressedActive (emergencies c ! i) \<and> pressed_over c (emergencies c ! i)"
      using safe_starts by (auto simp: emergencies_ok_def emergency_ok_def list_all_length)
    with Returned show ?thesis
      by (intro stage_change [OF safe_starts(2,1), of "SafeStarted killed"]) (auto simp: emergency_safes_def)
  qed (use safe_starts in \<open>simp_all add: emergency_safes_def\<close>)
next
  case (safe_ends i c outcome)
  show ?case
  proof (cases "Stage (emergencies c ! i)")
    case (SafeStarted killed)
    then have "killed \<Longrightarrow> PressedActive (emergencies c ! i) \<and> pressed_over c (emergencies c ! i)"
      using safe_ends by (auto simp: emergencies_ok_def emergency_ok_def list_all_length)
    with SafeStarted show ?thesis
      by (intro stage_change [OF safe_ends(2,1), of "Replied killed outcome"]) (auto simp: emergency_replies_def)
  qed (use safe_ends in \<open>simp_all add: emergency_replies_def\<close>)
next
  case (child_acts c event)
  then show ?case by (auto intro!: emergencies_ok_later [OF child_acts] dest: child_event_active)
qed (auto simp: emergencies_ok_def safes_started_def emergency_ok_def pressed_over_def list_all_iff
       open_stream_def turn_stream_def page_opens_def page_closes_def)

lemma emergencies_ok_reaches: "console_reaches port_number suite static_files c \<Longrightarrow> emergencies_ok suite c"
  by (induction rule: console_reaches.induct)
    (auto simp: emergencies_ok_def safes_started_def new_console_def dest: emergencies_ok_step)

lemma emergency_finishes:
  assumes "i < length (emergencies c)"
  shows "case Stage (emergencies c ! i) of
          Replied killed answer \<Rightarrow>
            Stage (emergencies (emergency_replies outcome i (emergency_safes suite i (emergency_wakes i c))) ! i) = Replied killed answer
        | _ \<Rightarrow> Stage (emergencies (emergency_replies outcome i (emergency_safes suite i (emergency_wakes i c))) ! i) =
            Replied (says_killed (Stage (emergencies (emergency_wakes i c) ! i))) outcome"
  using assms
  by (cases "Stage (emergencies c ! i)")
    (simp_all add: emergency_wakes_def emergency_safes_def emergency_replies_def put_stage_def ran_def)

text \<open>
  C38: In every state the console can reach, whatever else goes on, an emergency runs a --safe of its own
  and is answered with what came of that: nothing but its own wait and its own --safe stands before the answer. It says
  the run was killed only when one was active as it was asked for and that run is over; when its wait ends with
  no run active it does say so. It says the rig was safed exactly when --safe ran and exited with zero.
\<close>

theorem emergency_always_safes:
  assumes "console_reaches port_number suite static_files c" and "i < length (emergencies c)"
  shows "(says_killed (Stage (emergencies c ! i)) \<longrightarrow> PressedActive (emergencies c ! i) \<and> pressed_over c (emergencies c ! i))
    \<and> (Stage (emergencies c ! i) = Waiting \<longrightarrow> PressedActive (emergencies c ! i)
        \<and> (\<not> mActive (session c) \<longrightarrow> Stage (emergencies (emergency_wakes i c) ! i) = Returned True))
    \<and> length (filter (\<lambda>e. safe_started (Stage e)) (emergencies c)) \<le> count_list (commands c) [BinaryPath suite, ''--safe'']
    \<and> (case Stage (emergencies c ! i) of
          Replied killed answer \<Rightarrow>
            Stage (emergencies (emergency_replies outcome i (emergency_safes suite i (emergency_wakes i c))) ! i) = Replied killed answer
        | _ \<Rightarrow> Stage (emergencies (emergency_replies outcome i (emergency_safes suite i (emergency_wakes i c))) ! i) =
            Replied (says_killed (Stage (emergencies (emergency_wakes i c) ! i))) outcome)
    \<and> (\<exists>safed. Body (emergency_reply killed outcome) =
          ''{'' @ quoted_pair ''killed'' (bool_json killed) @ '','' @ quoted_pair ''safed'' (bool_json safed) @ ''}''
          \<and> (safed \<longleftrightarrow> (\<exists>chunks. outcome = Ran chunks 0)))"
proof -
  have ok: "emergencies_ok suite c" by (rule emergencies_ok_reaches [OF assms(1)])
  then have one: "emergency_ok c (emergencies c ! i)" using assms(2) by (simp add: emergencies_ok_def list_all_length)
  have wakes: "Stage (emergencies c ! i) = Waiting \<Longrightarrow> \<not> mActive (session c) \<Longrightarrow>
      Stage (emergencies (emergency_wakes i c) ! i) = Returned True"
    using assms(2) by (simp add: emergency_wakes_def put_stage_def session_killed_def)
  have safed: "Started (runBlocking outcome) \<and> ExitCode (runBlocking outcome) = 0 \<longleftrightarrow> (\<exists>chunks. outcome = Ran chunks 0)"
    by (cases outcome) (simp_all add: runBlocking_def)
  have reply: "\<exists>safed. Body (emergency_reply killed outcome) =
          ''{'' @ quoted_pair ''killed'' (bool_json killed) @ '','' @ quoted_pair ''safed'' (bool_json safed) @ ''}''
          \<and> (safed \<longleftrightarrow> (\<exists>chunks. outcome = Ran chunks 0))"
    unfolding safed [symmetric] by (simp add: emergency_reply_def plain_reply_def Let_def)
  have claims: "(says_killed (Stage (emergencies c ! i)) \<longrightarrow> PressedActive (emergencies c ! i) \<and> pressed_over c (emergencies c ! i))"
    "(Stage (emergencies c ! i) = Waiting \<longrightarrow> PressedActive (emergencies c ! i)
        \<and> (\<not> mActive (session c) \<longrightarrow> Stage (emergencies (emergency_wakes i c) ! i) = Returned True))"
    using one wakes by (auto simp: emergency_ok_def)
  have counted: "length (filter (\<lambda>e. safe_started (Stage e)) (emergencies c)) \<le> count_list (commands c) [BinaryPath suite, ''--safe'']"
    using ok by (simp add: emergencies_ok_def safes_started_def buildSafeCommand_def)
  show ?thesis by (rule conjI [OF claims(1) conjI [OF claims(2) conjI [OF counted
    conjI [OF emergency_finishes [OF assms(2), of outcome suite] reply]]]])
qed

definition presses :: "ConsoleState \<Rightarrow> ConsoleState" where
  "presses c = emergency_pressed 8420 True local_host c"

lemma reaches_presses: "console_reaches 8420 suite fs c \<Longrightarrow> console_reaches 8420 suite fs (presses c)"
  unfolding presses_def by (rule steps [OF _ emergency_begins])

lemma presses_active:
  assumes "session c = \<lparr>mLines = ls, mActive = True, mChild = Some new_child\<rparr>"
  shows "presses c = c\<lparr>emergencies := emergencies c @ [\<lparr>Stage = Waiting, PressedIn = runs c, PressedActive = True\<rparr>]\<rparr>"
  using assms by (simp add: presses_def emergency_pressed_def forbidden_def local_host_def session_kill_def child_kill_def new_child_def)

lemma exits_active:
  assumes "session c = \<lparr>mLines = ls, mActive = True, mChild = Some new_child\<rparr>"
  shows "\<not> mActive (session (exits c)) \<and> emergencies (exits c) = emergencies c \<and> runs (exits c) = runs c"
  using assms by (simp add: exits_def child_event_def new_child_def)

lemma watched_emergencies: "emergencies watched = []"
  by (simp add: watched_def says_def asks_run new_console_def new_session_def open_stream_def turn_stream_def)

theorem emergency_always_safes_witness:
  "Stage (emergencies (emergency_wakes 0 (exits (presses watched))) ! 0) = Returned True
   \<and> Body (emergency_reply True (Ran [] 0)) = ''{'' @ quoted_pair ''killed'' ''true'' @ '','' @ quoted_pair ''safed'' ''true'' @ ''}''"
proof -
  note pressed = presses_active [OF watched_session, unfolded watched_emergencies append_Nil]
  have "session (presses watched) = \<lparr>mLines = [''one'', ''two''], mActive = True, mChild = Some new_child\<rparr>"
    by (simp add: pressed watched_session)
  from exits_active [OF this] have dead: "\<not> mActive (session (exits (presses watched)))"
    and es: "emergencies (exits (presses watched)) = [\<lparr>Stage = Waiting, PressedIn = runs watched, PressedActive = True\<rparr>]"
    by (simp_all add: pressed)
  have reached: "console_reaches 8420 (suite_of ''run_scripts'') [] (exits (presses watched))"
    by (intro reaches_exits reaches_presses watched_reached)
  have "0 < length (emergencies (exits (presses watched)))" by (simp add: es)
  from emergency_always_safes [OF reached this, where killed = True and outcome = "Ran [] 0"] dead show ?thesis
    by (auto simp: es bool_json_def)
qed

text \<open>
  When another run is started between the death of the process and the end of the wait, the emergency
  answers that the run was not killed, though it was.
\<close>

lemma new_run_hides_kill:
  defines "c \<equiv> asks (PostRun []) (exits (presses watched))"
  shows "console_reaches 8420 (suite_of ''run_scripts'') [] (emergency_wakes 0 c)
    \<and> emergencies (emergency_wakes 0 c) = [\<lparr>Stage = Returned False, PressedIn = runs watched, PressedActive = True\<rparr>]
    \<and> runs watched < runs (emergency_wakes 0 c)"
proof -
  note pressed = presses_active [OF watched_session, unfolded watched_emergencies append_Nil]
  have "session (presses watched) = \<lparr>mLines = [''one'', ''two''], mActive = True, mChild = Some new_child\<rparr>"
    by (simp add: pressed watched_session)
  note dead = exits_active [OF this]
  then have c: "c = (exits (presses watched))\<lparr>session := \<lparr>mLines = [], mActive = True, mChild = Some new_child\<rparr>,
      runs := runs watched + 1, said := [],
      commands := commands (exits (presses watched)) @ [buildRunCommand (suite_of ''run_scripts'') (requested_run [])]\<rparr>"
    by (simp add: c_def asks_run pressed)
  have es: "emergencies c = [\<lparr>Stage = Waiting, PressedIn = runs watched, PressedActive = True\<rparr>]"
    using dead by (simp add: c pressed)
  have "console_reaches 8420 (suite_of ''run_scripts'') [] c"
    unfolding c_def by (intro reaches_asks reaches_exits reaches_presses watched_reached)
  from steps [OF this wait_ends, of 0] es show ?thesis
    by (simp add: emergency_wakes_def put_stage_def session_killed_def c)
qed

section \<open>What stderr says arrives\<close>

lemma stderr_char_body: "string_body acc (stderr_char c @ rest) = string_body (acc @ [c]) rest"
proof (cases "c = dq \<or> c = bs")
  case True
  then show ?thesis by (auto simp: stderr_char_def string_body_escape)
next
  case False
  note rest = this
  show ?thesis
  proof (cases "(of_char c :: nat) < 32")
    case True
    then have "hex_escape (CHR ''0'' # CHR ''0'' # low_hex ((of_char c :: nat) div 16) # low_hex (of_char c mod 16) # rest) = Some c"
      using hex_escape_control [of "of_char c" rest] by simp
    with True rest show ?thesis by (simp add: stderr_char_def control_escape_def Let_def string_body_escape)
  next
    case False
    with rest show ?thesis by (simp add: stderr_char_def string_body_plain)
  qed
qed

lemma stderr_body: "string_body acc (concat (map stderr_char line) @ dq # rest) = Some (acc @ line, rest)"
  by (induction line arbitrary: acc) (simp_all add: stderr_char_body)

lemma parseString_stderr: "parseString (dq # concat (map stderr_char line) @ dq # rest) = Some (line, rest)"
  by (simp add: parseString_def stderr_body)

lemma envelope_words:
  "stderrEnvelope line = CHR ''{'' # jsonQuoted ''kind'' @ CHR '':'' # jsonQuoted ''stderr'' @ CHR '','' #
     jsonQuoted ''text'' @ CHR '':'' # (dq # concat (map stderr_char line) @ [dq]) @ ''}''"
  by (simp add: stderrEnvelope_def quoted_pair_def jsonQuoted_def jsonEscape_def json_escape_char_def dq_def bs_def)

lemma dq_opens_string: "dq \<noteq> CHR ''{''" "dq \<noteq> CHR ''[''" "dq \<noteq> CHR ''t''" "dq \<noteq> CHR ''f''" "dq \<noteq> CHR ''n''"
  by (simp_all add: dq_def)

lemma value_string: "parseString (dq # s) = Some (v, r) \<Longrightarrow> json_parseValue (Suc n) (dq # s) = Parsed (JString v) r"
  by (simp add: dq_opens_string)

lemma value_quoted: "json_parseValue (Suc n) (jsonQuoted s @ r) = Parsed (JString s) r"
  using value_string [of "jsonEscape s @ dq # r" s r n] parseString_quoted [of s r] by (simp add: jsonQuoted_def)

lemma take_quoted: "json_take (CHR ''}'') (jsonQuoted k @ s) = None"
  by (simp add: json_take_def) (simp add: jsonQuoted_def dq_def)

lemma envelope_reads:
  "json_parse (stderrEnvelope line) = Some (JObject [(''kind'', JString ''stderr''), (''text'', JString line)])"
proof -
  let ?text = "dq # concat (map stderr_char line) @ [dq]"
  have said: "json_parseValue (Suc 0) (?text @ ''}'') = Parsed (JString line) ''}''"
    using value_string [OF parseString_stderr [of line "''}''"]] by simp
  then have "parse_fields (Suc (Suc 0)) [(''kind'', JString ''stderr'')] (jsonQuoted ''text'' @ CHR '':'' # ?text @ ''}'') =
      Parsed (JObject [(''kind'', JString ''stderr''), (''text'', JString line)]) []"
    by (simp del: json_parseValue.simps)
  then have "parse_fields (Suc (Suc (Suc 0))) []
        (jsonQuoted ''kind'' @ CHR '':'' # jsonQuoted ''stderr'' @ CHR '','' # jsonQuoted ''text'' @ CHR '':'' # ?text @ ''}'') =
      Parsed (JObject [(''kind'', JString ''stderr''), (''text'', JString line)]) []"
    by (subst parse_fields.simps) (simp add: value_quoted del: json_parseValue.simps parse_fields.simps)
  then have "json_parseValue (Suc (Suc (Suc (Suc 0)))) (stderrEnvelope line) =
      Parsed (JObject [(''kind'', JString ''stderr''), (''text'', JString line)]) []"
    by (simp add: envelope_words skip_here take_quoted del: parse_fields.simps)
  from parses_json_parse [OF parsesI [OF this]] show ?thesis by (simp add: skipSpace_def)
qed

theorem stderr_line_arrives:
  "json_parse (stderrEnvelope line) = Some (JObject [(''kind'', JString ''stderr''), (''text'', JString line)])
   \<and> parseEvent (stderrEnvelope line) = Some default_event"
  by (simp add: envelope_reads parseEvent_def kindFrom_def json_textAt_def optionalBool_def optionalNumber_def default_event_def)

section \<open>What a query answers\<close>

text \<open>The answer is what the binary wrote, less a last line that was not ended.\<close>

lemma blocking_output:
  "runBlocking (Ran chunks code) = \<lparr>ExitCode = code, Output = out, Started = True\<rparr> \<Longrightarrow>
     concat chunks = out @ partial_line (concat chunks) \<and> newline \<notin> set (partial_line (concat chunks))"
  using lines_of_split [of newline "concat chunks"] last_split_plain [of newline "concat chunks"]
  by (auto simp: runBlocking_def whole_lines_def partial_line_def)

lemma blocking_whole: "concat chunks = written @ [newline] \<Longrightarrow> Output (runBlocking (Ran chunks code)) = written @ [newline]"
proof -
  assume "concat chunks = written @ [newline]"
  moreover have "split_on c (s @ [c]) = split_on c s @ [[]]" for c s
    by (induction s) (auto split: list.splits)
  ultimately show ?thesis
    using lines_of_split [of newline "concat chunks"] by (simp add: runBlocking_def whole_lines_def)
qed

theorem options_page_describes_the_suite:
  "concat chunks = writeOptionsJson (optionsModel ms) \<Longrightarrow>
     (case fst (handle suite static_files (oracle\<lparr>o_blocking := Ran chunks 0\<rparr>) GetOptions c) of
        reply \<Rightarrow> Status reply = 200 \<and> parseOptionModel (Body reply) = Some (map console_option (optionsModel ms)))"
proof -
  assume "concat chunks = writeOptionsJson (optionsModel ms)"
  moreover have "writeOptionsJson (optionsModel ms) = butlast (writeOptionsJson (optionsModel ms)) @ [newline]"
    by (simp add: writeOptionsJson_def butlast_append nl_def newline_def)
  ultimately have "Output (runBlocking (Ran chunks 0)) = writeOptionsJson (optionsModel ms)"
    using blocking_whole [of chunks "butlast (writeOptionsJson (optionsModel ms))" 0] by simp
  moreover have "parseOptionModel (writeOptionsJson (optionsModel ms)) = Some (map console_option (optionsModel ms))"
    by (rule model_arrives) (auto simp: optionsModel_def optionInfo_def)
  ultimately show ?thesis by (simp add: plain_reply_def Let_def) (simp add: runBlocking_def)
qed

section \<open>What is answered that is not so\<close>

text \<open>
  /safe answers ok when the process was forked, whatever became of it; execvp failing in the child is
  the exit code 127.
\<close>

theorem safe_answers_ok_unsafed:
  "(case fst (handle suite static_files (oracle\<lparr>o_blocking := Ran [] 127\<rparr>) PostSafe c) of
      reply \<Rightarrow> Status reply = 200 \<and> Body reply = one_field ''ok'' ''true'')"
  by (simp add: plain_reply_def runBlocking_def bool_json_def)

text \<open>A body that is not JSON is a request to run every test.\<close>

theorem malformed_body_runs_everything:
  "json_parse body = None \<Longrightarrow> \<not> mActive (session c) \<Longrightarrow>
     commands (snd (handle suite static_files (oracle\<lparr>o_spawn := True\<rparr>) (PostRun body) c)) = commands c @ [BinaryPath suite # streamFlags]"
  by (simp add: requested_run_def empty_request_def buildRunCommand_def session_start_def ran_def)

end
