(* ===== verification/StopSources.thy ===== *)
theory StopSources
  imports ConsoleServer
begin

text \<open>
  Where a stop comes from: framework/runner/src/stop_sources.hpp, a signal or a line on stdin, and what
  the console writes to that stdin (webui/src/child_stream.cpp).
\<close>

section \<open>Signals\<close>

definition kNotice :: string where
  "kNotice =
     [newline] @ ''Stopping after the current test. Press Ctrl-C again to abort now ''
     @ ''(the rig is then left as it is: run --safe).'' @ [newline]"

text \<open>The first signal asks for a stop and says so; the second is raised again with its default action.\<close>

datatype signalled = Asked StopState string | DefaultAction

definition onStopSignal :: "StopState \<Rightarrow> signalled" where
  "onStopSignal s = (if gStopRequested s then DefaultAction else Asked (requestStop Operator s) kNotice)"

section \<open>Stdin\<close>

text \<open>
  What std::getline reads of a pipe that has carried a text so far: the ended lines, and when the pipe
  is closed also what stands after the last newline, unless nothing does.
\<close>

definition getlines :: "bool \<Rightarrow> string \<Rightarrow> string list" where
  "getlines hung_up text =
     whole_lines text @ (if hung_up \<and> partial_line text \<noteq> [] then [partial_line text] else [])"

definition stdin_line :: "string \<Rightarrow> StopState \<Rightarrow> StopState" where
  "stdin_line line s = (if line = ''stop'' \<or> line = ''stop'' @ [CHR 0x0D] then requestStop Operator s else s)"

definition watchStdinForStop :: "bool \<Rightarrow> string \<Rightarrow> StopState \<Rightarrow> StopState" where
  "watchStdinForStop hung_up text s =
     (let s = fold stdin_line (getlines hung_up text) s in if hung_up then requestStop ConsoleGone s else s)"

text \<open>What ChildStream::requestStop writes, on both platforms.\<close>

definition kStop :: string where "kStop = ''stop'' @ [newline]"

section \<open>The stop button\<close>

lemma newline_neq [simp]: "CHR ''s'' \<noteq> newline" "CHR ''t'' \<noteq> newline" "CHR ''o'' \<noteq> newline" "CHR ''p'' \<noteq> newline"
  by (simp_all add: newline_def)

lemma stop_lines: "split_on newline (concat (replicate n kStop)) = replicate n ''stop'' @ [[]]"
  by (induction n) (simp_all add: kStop_def)

lemma getlines_stops: "getlines hung_up (concat (replicate n kStop)) = replicate n ''stop''"
  by (simp add: getlines_def whole_lines_def partial_line_def stop_lines)

lemma repeated_stops:
  "(stdin_line ''stop'' ^^ n) s = (if n = 0 then s else requestStop Operator s)"
  by (induction n) (auto simp: stdin_line_def requestStop_def)

theorem stop_button_asks_for_a_stop:
  "(let s' = watchStdinForStop hung_up (concat (replicate n kStop)) s
    in (gStopRequested s' \<longleftrightarrow> gStopRequested s \<or> 0 < n \<or> hung_up)
     \<and> gStopReason s' =
         (if gStopReason s \<noteq> NoStop then gStopReason s
          else if 0 < n then Operator else if hung_up then ConsoleGone else NoStop)
     \<and> gStopHonoured s' = gStopHonoured s \<and> gStopArmed s' = gStopArmed s)"
  by (simp add: watchStdinForStop_def getlines_stops repeated_stops) (simp add: requestStop_def)

text \<open>Any other line is ignored, and a stop is never taken back.\<close>

lemma stops_stay: "gStopRequested s \<Longrightarrow> gStopRequested (watchStdinForStop hung_up text s)"
proof -
  have "gStopRequested s \<Longrightarrow> gStopRequested (fold stdin_line ls s)" for ls
    by (induction ls arbitrary: s) (simp_all add: stdin_line_def)
  then show "gStopRequested s \<Longrightarrow> ?thesis" by (simp add: watchStdinForStop_def Let_def)
qed

lemma other_lines_ignored:
  "list_all (\<lambda>line. line \<noteq> ''stop'' \<and> line \<noteq> ''stop'' @ [CHR 0x0D]) (getlines False text) \<Longrightarrow> watchStdinForStop False text s = s"
proof -
  have "list_all (\<lambda>line. line \<noteq> ''stop'' \<and> line \<noteq> ''stop'' @ [CHR 0x0D]) ls \<Longrightarrow> fold stdin_line ls s = s" for ls
    by (induction ls) (simp_all add: stdin_line_def)
  then show "list_all (\<lambda>line. line \<noteq> ''stop'' \<and> line \<noteq> ''stop'' @ [CHR 0x0D]) (getlines False text) \<Longrightarrow> ?thesis"
    by (simp add: watchStdinForStop_def)
qed

text \<open>A second signal ends the process where it stands, also when the first stop came over stdin.\<close>

lemma second_signal_aborts:
  "onStopSignal s = Asked s' notice \<Longrightarrow> onStopSignal s' = DefaultAction"
  "onStopSignal (watchStdinForStop True text s) = DefaultAction"
  by (auto simp: onStopSignal_def watchStdinForStop_def Let_def split: if_splits)

end
