(* ===== verification/Program.thy ===== *)
theory Program
  imports Cli Console PreflightBench Stimulus
begin

text \<open>
  main of framework/runner/src/main.cpp from its first line to journal().begin(): the modes that answer and
  exit, the decision whether a bench is attached, the address plan and preflight, the run's header, and
  the logs, the reading stream and the source of the readings that are opened before anything runs.
  What follows is \<open>run_suite\<close> of the theory Runner. The environment, the clock and the file
  system are parameters.
\<close>

section \<open>The process\<close>

record ('h, 'e) Program =
  prog_build :: build_stamp
  prog_env :: environment
  prog_started :: int
  prog_localTime :: "int \<Rightarrow> string"
  prog_rig :: "('h, 'e) PreflightRig"
  prog_members :: "('h, 'e) RigInstrument list"
  prog_catalog :: "SessionBank \<Rightarrow> 'h SwitchFabric Catalog"
  prog_error_text :: "'e \<Rightarrow> string"

text \<open>
  The file system: the exception create_directories ends with, whether a file opens for writing, the
  absolute form of a path, the texts and blobs there are to read, and how strtod stores a number.
\<close>

record FileSystem =
  fs_create :: "string \<Rightarrow> string option"
  fs_opens :: "string \<Rightarrow> bool"
  fs_absolute :: "string \<Rightarrow> string"
  fs_texts :: texts
  fs_disk :: Disk
  fs_bits :: stored_as

text \<open>
  The state: the world of a run, the bank its readings come from, what is written to stdout, and the
  files that are there when the process ends because it made them.
\<close>

record 'h Process =
  p_world :: "'h SwitchFabric World"
  p_bank :: SessionBank
  p_stdout :: string
  p_files :: "string list"

definition p_cerr :: "string \<Rightarrow> 'h Process \<Rightarrow> 'h Process" where
  "p_cerr text p = p\<lparr>p_world := w_cerr text (p_world p)\<rparr>"

definition p_cout :: "string \<Rightarrow> 'h Process \<Rightarrow> 'h Process" where
  "p_cout text p = p\<lparr>p_stdout := p_stdout p @ text\<rparr>"

section \<open>The logs\<close>

text \<open>Sinks are numbered in the journal by what they are.\<close>

definition console_sink_id :: nat where "console_sink_id = 0"
definition sarif_sink_id :: nat where "sarif_sink_id = 1"
definition rtf_sink_id :: nat where "rtf_sink_id = 2"
definition event_sink_id :: nat where "event_sink_id = 3"

record RunLogs =
  ConsoleLog :: "bool option"
  SarifLog :: "string option"
  RtfLog :: "string option"
  EventsLog :: "string option"
  StreamFiles :: LogFiles

definition no_logs :: RunLogs where
  "no_logs = \<lparr>ConsoleLog = None, SarifLog = None, RtfLog = None, EventsLog = None, StreamFiles = \<lparr>Sarif = [], Rtf = []\<rparr>\<rparr>"

definition ensureParentDirectory :: "FileSystem \<Rightarrow> string \<Rightarrow> string option" where
  "ensureParentDirectory fs path =
     (let above = path_parent path in if above \<noteq> [] then fs_create fs above else None)"

definition or_derived :: "string option \<Rightarrow> string \<Rightarrow> string" where
  "or_derived given derived = (case given of Some path \<Rightarrow> path | None \<Rightarrow> derived)"

definition sarif_path :: "Options \<Rightarrow> RunInfo \<Rightarrow> string" where
  "sarif_path options info =
     or_derived (SarifPath options) (path_append (LogDir options) (''thorium-'' @ fileStamp (StartedUtc info) @ ''.sarif''))"

definition rtf_path :: "Options \<Rightarrow> RunInfo \<Rightarrow> string" where
  "rtf_path options info =
     or_derived (RtfPath options) (path_append (LogDir options) (''thorium-'' @ fileStamp (StartedUtc info) @ ''.rtf''))"

text \<open>
  The two report logs: the exception that opening them ended with, and the sinks there are then. The
  SARIF sink writes its file when it is destroyed, if not before; the RTF sink opens its own at once.
\<close>

definition open_reports :: "FileSystem \<Rightarrow> Options \<Rightarrow> RunInfo \<Rightarrow> RunLogs \<Rightarrow> string option \<times> RunLogs" where
  "open_reports fs options info logs =
     (let sarif = sarif_path options info; rtf = rtf_path options info
      in case ensureParentDirectory fs sarif of
           Some e \<Rightarrow> (Some e, logs)
         | None \<Rightarrow>
             (case ensureParentDirectory fs rtf of
                Some e \<Rightarrow> (Some e, logs)
              | None \<Rightarrow>
                  (let logs = logs\<lparr>SarifLog := Some sarif\<rparr>
                   in if \<not> fs_opens fs rtf then (Some (''RtfSink: could not open '' @ sq rtf @ '' for writing''), logs)
                      else (None, logs\<lparr>RtfLog := Some rtf,
                                    StreamFiles := \<lparr>Sarif = fs_absolute fs sarif, Rtf = fs_absolute fs rtf\<rparr>\<rparr>))))"

definition open_events :: "FileSystem \<Rightarrow> string \<Rightarrow> string option" where
  "open_events fs path =
     (case ensureParentDirectory fs path of
        Some e \<Rightarrow> Some e
      | None \<Rightarrow> if fs_opens fs path then None else Some (''could not open '' @ path))"

text \<open>openLogs: what it reports when it fails, the sinks there are, and those the journal was given.\<close>

definition openLogs :: "FileSystem \<Rightarrow> Options \<Rightarrow> RunInfo \<Rightarrow> string option \<times> RunLogs \<times> nat list" where
  "openLogs fs options info =
     (let writingSkeleton = (SkeletonPath options \<noteq> None);
          (console, sinks) = (if \<not> Quiet options \<and> \<not> writingSkeleton then (Some (Colour options), [console_sink_id]) else (None, []));
          logs = no_logs\<lparr>ConsoleLog := console\<rparr>;
          (failed, logs) = (if WriteLogs options \<and> \<not> writingSkeleton then open_reports fs options info logs else (None, logs))
      in case failed of
           Some e \<Rightarrow> (Some (''Could not open run logs: '' @ e), logs, sinks)
         | None \<Rightarrow>
             (let sinks = sinks @ (if RtfLog logs \<noteq> None then [sarif_sink_id, rtf_sink_id] else [])
              in case EventsPath options of
                   None \<Rightarrow> (None, logs, sinks)
                 | Some path \<Rightarrow>
                     (case (if path = ''-'' then None else open_events fs path) of
                        Some e \<Rightarrow> (Some (''Could not open the event stream: '' @ e), logs, sinks)
                      | None \<Rightarrow> (None, logs\<lparr>EventsLog := Some path\<rparr>, sinks @ [event_sink_id]))))"

text \<open>The files the logs leave behind, whichever way the process ends.\<close>

definition left_by :: "RunLogs \<Rightarrow> string list" where
  "left_by logs =
     (case SarifLog logs of Some path \<Rightarrow> [path] | None \<Rightarrow> []) @ (case RtfLog logs of Some path \<Rightarrow> [path] | None \<Rightarrow> [])
     @ (case EventsLog logs of Some path \<Rightarrow> if path = ''-'' then [] else [path] | None \<Rightarrow> [])"

section \<open>The readings\<close>

definition skeleton_prose :: string where
  "skeleton_prose =
     ''# Skeleton written by run_scripts --skeleton. This is a valid --replay file.'' @ new_line
     @ ''# Every value below is a PLACEHOLDER -- no instrument was touched. Readings are'' @ new_line
     @ ''# zero, captures completed, payloads and traces are empty. Edit the value column.'' @ new_line
     @ ''#'' @ new_line
     @ ''# The keys and their order are what the scripts actually asked for, which is the'' @ new_line
     @ ''# part that cannot be written down by hand. A script whose control flow depends'' @ new_line
     @ ''# on what it read has more than one path through it, and this is the one these'' @ new_line
     @ ''# placeholders produce -- complete for the straight-line case, a first draft'' @ new_line
     @ ''# otherwise.'' @ new_line
     @ ''#'' @ new_line
     @ ''# sequence  wallClockMillis  test  point  instrument  kind  value'' @ new_line"

definition openReadingStream :: "FileSystem \<Rightarrow> Options \<Rightarrow> string \<Rightarrow> SessionBank \<Rightarrow> string + SessionBank" where
  "openReadingStream fs options path held =
     (case ensureParentDirectory fs path of
        Some e \<Rightarrow> Inl (''Could not open the recording: '' @ e)
      | None \<Rightarrow>
          if \<not> fs_opens fs path then Inl (''Could not open the recording: could not open '' @ sq path @ '' for writing'')
          else (let writer = \<lparr>mOut = selectionHeader (SelectedIds options)
                                @ (if SkeletonPath options \<noteq> None then skeleton_prose else []),
                              mSidecarDirectory = sidecarDirectoryFor path, mDirectoryReady = False, disk = fs_disk fs\<rparr>;
                    held = (if SkeletonPath options \<noteq> None then usePlaceholders held else held)
                in Inr (startRecordingTo writer held)))"

definition armReadings :: "FileSystem \<Rightarrow> Options \<Rightarrow> SessionBank \<Rightarrow> string option \<times> SessionBank" where
  "armReadings fs options held =
     (case (case ReplayPath options of
              None \<Rightarrow> (None, held)
            | Some path \<Rightarrow> bank_load path (fs_texts fs path) (fs_disk fs) (SelectedIds options) held) of
        (Some e, held) \<Rightarrow> (Some (''Could not load the recording to replay: '' @ e), held)
      | (None, held) \<Rightarrow>
          (case InjectPath options of
             None \<Rightarrow> (None, held)
           | Some path \<Rightarrow>
               (case injectStimulusFromFile (fs_bits fs) (fs_texts fs) path held of
                  (Some e, held) \<Rightarrow> (Some (''Could not read the stimulus file: '' @ e), held)
                | (None, held) \<Rightarrow> (None, held))))"

section \<open>The plan\<close>

fun plan_addresses :: "BoxRow list \<Rightarrow> string list \<Rightarrow> AddressPlan \<Rightarrow> address_error + AddressPlan" where
  "plan_addresses rows [] plan = Inr plan"
| "plan_addresses rows (text # texts) plan =
     (case parseFaceSimulation rows text of
        Some face \<Rightarrow> plan_addresses rows texts (plan\<lparr>SimulatedFaces := SimulatedFaces plan @ [face]\<rparr>)
      | None \<Rightarrow>
          (case parseOverride rows text of
             Inl e \<Rightarrow> Inl e
           | Inr override \<Rightarrow> plan_addresses rows texts (plan\<lparr>Overrides := Overrides plan @ [override]\<rparr>)))"

definition addressPlan :: "BoxRow list \<Rightarrow> environment \<Rightarrow> Options \<Rightarrow> address_error + AddressPlan" where
  "addressPlan rows env options =
     (case plan_addresses rows (Addresses options)
             \<lparr>Overrides = [], SimulatedFaces = [],
              PlanSite = (if OptSite options = [] then environmentSite env else OptSite options)\<rparr> of
        Inl e \<Rightarrow> Inl e
      | Inr plan \<Rightarrow>
          (case environmentOverrides rows env of
             Inl e \<Rightarrow> Inl e
           | Inr fromEnvironment \<Rightarrow> Inr (plan\<lparr>Overrides := Overrides plan @ fromEnvironment\<rparr>)))"

fun address_what :: "address_error \<Rightarrow> string" where
  "address_what (AddressSyntaxError s) = s"
| "address_what (AddressKindMismatch s) = s"

fun preflight_what :: "('e \<Rightarrow> string) \<Rightarrow> 'e preflight_error \<Rightarrow> string" where
  "preflight_what text (Driver e) = text e"
| "preflight_what text (Exhausted s) = s"
| "preflight_what text (RigFault s) = s"
| "preflight_what text (Logic s) = s"

definition preflight ::
    "('h, 'e) Program \<Rightarrow> AddressPlan \<Rightarrow> 'h SwitchFabric World \<Rightarrow> (string + Binding list) \<times> 'h SwitchFabric World" where
  "preflight prog plan w =
     (let with_hardware = (\<lambda>h. w\<lparr>w_rig := (w_rig w)\<lparr>hardware := h\<rparr>\<rparr>)
      in case bindAddresses (prog_rig prog) plan (hardware (w_rig w)) of
           (Inl e, h) \<Rightarrow> (Inl (address_what e), with_hardware h)
         | (Inr bindings, h) \<Rightarrow>
             (case contactInstruments (prog_rig prog) (mAttached (w_bench w)) bindings h of
                (Some e, _, h) \<Rightarrow> (Inl (preflight_what (prog_error_text prog) e), with_hardware h)
              | (None, bindings, h) \<Rightarrow> (Inr bindings, with_hardware h)))"

section \<open>The modes\<close>

text \<open>Whether this run's readings are fiction: from a file, a description or placeholders.\<close>

definition fiction :: "Options \<Rightarrow> bool" where
  "fiction options \<longleftrightarrow> ReplayPath options \<noteq> None \<or> InjectPath options \<noteq> None \<or> SkeletonPath options \<noteq> None"

definition detach_for :: "Options \<Rightarrow> 'b World \<Rightarrow> 'b World" where
  "detach_for options w = (if fiction options then w\<lparr>w_bench := bench_detach (w_bench w)\<rparr> else w)"

definition run_header :: "('h, 'e) Program \<Rightarrow> string list \<Rightarrow> Options \<Rightarrow> Binding list \<Rightarrow> 'b World \<Rightarrow> RunInfo" where
  "run_header prog argv options bindings w =
     (let info = defaultRunInfo (prog_build prog) (prog_env prog) (prog_localTime prog) (prog_started prog) (w_selection w) (w_bench w);
          info = info\<lparr>Instruments := bannerLines (rig_rows (prog_rig prog)) bindings, CommandLine := commandLineOf argv,
                      DutSerial := OptDutSerial options\<rparr>
      in if OperatorName options \<noteq> [] then info\<lparr>RunOperator := OperatorName options\<rparr> else info)"

text \<open>How main ends before a run, or the run it is about to begin.\<close>

datatype 'h outset = Ended int "'h Process" | Terminated "'h Process" | Begins RunInfo RunLogs "'h Process"

definition start_stream :: "FileSystem \<Rightarrow> Options \<Rightarrow> SessionBank \<Rightarrow> string + SessionBank \<times> string list" where
  "start_stream fs options held =
     (case streamPath options of
        None \<Rightarrow> Inr (held, [])
      | Some path \<Rightarrow> map_sum id (\<lambda>held. (held, [path])) (openReadingStream fs options path held))"

definition open_readings :: "FileSystem \<Rightarrow> Options \<Rightarrow> RunInfo \<Rightarrow> RunLogs \<Rightarrow> 'h Process \<Rightarrow> 'h outset" where
  "open_readings fs options info logs p =
     (case start_stream fs options (p_bank p) of
        Inl e \<Rightarrow> Ended 1 (p_cerr e p)
      | Inr (held, made) \<Rightarrow>
          (case armReadings fs options held of
             (Some e, held) \<Rightarrow> Ended 1 (p_cerr e (p\<lparr>p_bank := held, p_files := p_files p @ made\<rparr>))
           | (None, held) \<Rightarrow> Begins info logs (p\<lparr>p_bank := held, p_files := p_files p @ made\<rparr>)))"

definition open_run :: "FileSystem \<Rightarrow> Options \<Rightarrow> RunInfo \<Rightarrow> 'h Process \<Rightarrow> 'h outset" where
  "open_run fs options info p =
     (case openLogs fs options info of
        (Some e, logs, sinks) \<Rightarrow> Ended 1 (p_cerr e (p\<lparr>p_files := p_files p @ left_by logs\<rparr>))
      | (None, logs, sinks) \<Rightarrow>
          open_readings fs options info logs
            (p\<lparr>p_world := (p_world p)\<lparr>w_journal := fold journal_add sinks (w_journal (p_world p))\<rparr>,
               p_files := p_files p @ left_by logs\<rparr>))"

definition set_out :: "('h, 'e) Program \<Rightarrow> FileSystem \<Rightarrow> string list \<Rightarrow> Options \<Rightarrow> 'h Process \<Rightarrow> 'h outset" where
  "set_out prog fs argv options p =
     (let p = p\<lparr>p_world := detach_for options (p_world p)\<rparr>
      in case addressPlan (rig_rows (prog_rig prog)) (prog_env prog) options of
           Inl e \<Rightarrow> Ended 1 (p_cerr (''Bad address: '' @ address_what e) p)
         | Inr plan \<Rightarrow>
             (case preflight prog plan (p_world p) of
                (Inl e, w) \<Rightarrow> Ended 1 (p_cerr (''Preflight failed: '' @ e) (p\<lparr>p_world := w\<rparr>))
              | (Inr bindings, w) \<Rightarrow> open_run fs options (run_header prog argv options bindings w) (p\<lparr>p_world := w\<rparr>)))"

definition safe_only :: "('h, 'e) Program \<Rightarrow> 'h Process \<Rightarrow> 'h outset" where
  "safe_only prog p =
     (let w = p_world p
      in case safeRig (prog_members prog) (w_bench w) (w_journal w, w_rig w) of
           (e, j, f) \<Rightarrow>
             (let p = p\<lparr>p_world := w\<lparr>w_journal := j, w_rig := f\<rparr>\<rparr>
              in if e \<noteq> None then Terminated p
                 else Ended 0 (p_cout (''Rig safed: all outputs off, all relays open.'' @ new_line) p)))"

definition main_outset :: "('h, 'e) Program \<Rightarrow> FileSystem \<Rightarrow> string list \<Rightarrow> 'h Process \<Rightarrow> 'h outset \<times> Options option" where
  "main_outset prog fs argv p =
     (case parseOptions (stamp_criteria (prog_build prog)) argv (w_selection (p_world p)) of
        (OptionsThrow e, sel) \<Rightarrow> (Terminated (p\<lparr>p_world := (p_world p)\<lparr>w_selection := sel\<rparr>\<rparr>), None)
      | (RefusedOptions e, sel) \<Rightarrow> (Ended 1 (p_cerr e (p\<lparr>p_world := (p_world p)\<lparr>w_selection := sel\<rparr>\<rparr>)), None)
      | (Accepted options, sel) \<Rightarrow>
          (let p = p\<lparr>p_world := (p_world p)\<lparr>w_selection := sel\<rparr>\<rparr>
           in (if ShowHelp options then Ended 0 (p_cout printUsage p)
               else if DescribeOptions options then Ended 0 (p_cout (writeOptionsJson (optionsModel Options_members)) p)
               else if DescribeCriteria options then Ended 0 (p_cout (describeCriteria (stamp_criteria (prog_build prog))) p)
               else if SafeOnly options then safe_only prog p
               else if ListOnly options then Ended 0 (p_cout (listTests (prog_catalog prog (p_bank p))) p)
               else set_out prog fs argv options p, Some options)))"

text \<open>reportSkeleton says how many reads the run recorded and where.\<close>

definition reportSkeleton :: "bool \<Rightarrow> string \<Rightarrow> string \<Rightarrow> string" where
  "reportSkeleton stream_ok reads path =
     (if \<not> stream_ok then []
      else ''Wrote '' @ reads @ '' reads to '' @ path @ ''.'' @ new_line
        @ ''Every value is a placeholder; edit the last column and replay it.'' @ new_line)"

text \<open>
  The whole of main: the exit code, None when an exception ends the process, and the process as it is
  then. \<open>stream_ok\<close> and \<open>reads\<close> are what became of the recording.
\<close>

definition program_main ::
    "('h, 'e) Program \<Rightarrow> FileSystem \<Rightarrow> bool \<Rightarrow> string \<Rightarrow> string list \<Rightarrow> 'h Process \<Rightarrow> int option \<times> 'h Process" where
  "program_main prog fs stream_ok reads argv p =
     (case main_outset prog fs argv p of
        (Ended code p', _) \<Rightarrow> (Some code, p')
      | (Terminated p', _) \<Rightarrow> (None, p')
      | (Begins info logs p', options) \<Rightarrow>
          (case options of
             None \<Rightarrow> (None, p')
           | Some options \<Rightarrow>
               (case run_suite (prog_members prog) (prog_catalog prog (p_bank p')) options info stream_ok (p_world p') of
                  (code, w) \<Rightarrow>
                    (let p' = p'\<lparr>p_world := w\<rparr>
                     in (code, (case SkeletonPath options of
                                  Some path \<Rightarrow> if code = None then p' else p_cout (reportSkeleton stream_ok reads path) p'
                                | None \<Rightarrow> p'))))))"

end
