(* ===== verification/ProgramFacts.thy ===== *)
theory ProgramFacts
  imports Program RunnerProperties
begin

text \<open>
  What holds of the whole program: where a run's readings come from and that its files say so, that a
  refused start tells no sink anything, and what an exit status of zero means from the command line on.
\<close>

section \<open>What the command line admits\<close>

lemma accepted_options:
  assumes "parseOptions b argv sel = (Accepted options, sel')"
  shows "RecordPath options = None \<or> ReplayPath options = None"
    and "SkeletonPath options = None \<or> RecordPath options = None \<and> ReplayPath options = None"
    and "InjectPath options = None \<or> RecordPath options = None \<and> SkeletonPath options = None"
    and "EventsPath options = Some ''-'' \<longrightarrow> Quiet options"
  using assms by (auto simp: parseOptions_def split: sum.splits if_splits option.splits prod.splits)

section \<open>Where readings come from\<close>

lemma arm_current [simp]: "mCurrent (arm f b) = Scripted" "mRecording (arm f b) = mRecording b"
  by (simp_all add: arm_def)

definition bank_next :: "SessionBank \<Rightarrow> SessionBank \<Rightarrow> bool" where
  "bank_next b b' \<longleftrightarrow> mRecording b' = mRecording b \<and> mCurrent b' \<in> {mCurrent b, Scripted}"

lemma bank_next_trans: "bank_next a b \<Longrightarrow> bank_next b c \<Longrightarrow> bank_next a c"
  by (auto simp: bank_next_def)

lemma bank_next_refl: "bank_next b b"
  by (simp add: bank_next_def)

lemma bank_next_injects: "bank_next b (inject_kind key k src b)" "bank_next b (inject key v b)" "bank_next b (injectData key d b)"
  "bank_next b (injectFlag key f b)" "bank_next b (injectTrace key w b)"
  by (simp_all add: bank_next_def inject_kind_def inject_def injectData_def injectFlag_def injectTrace_def)

lemma bank_next_as: "(\<And>src b. bank_next b (f src b)) \<Longrightarrow> bank_next b (programAs f vs b)"
  by (simp add: programAs_def split: list.split)

lemma bank_next_of_kind: "bank_next b (inject_of_kind key vs k b)"
  by (simp add: inject_of_kind_def bank_next_injects split: list.split)

lemma bank_next_fold: "(\<And>x b. bank_next b (f x b)) \<Longrightarrow> bank_next b (fold f xs b)"
  by (induction xs arbitrary: b) (auto intro: bank_next_refl bank_next_trans)

lemma bank_next_key: "bank_next b (snd (program_key key vs b))"
  by (simp add: program_key_def programReadings_def bank_next_refl bank_next_as bank_next_injects bank_next_fold bank_next_of_kind)

lemma bank_next_keys: "bank_next b (snd (program_keys parsed b))"
proof (induction parsed b rule: program_keys.induct)
  case (1 b)
  then show ?case by (simp add: bank_next_def)
next
  case (2 key vs parsed b)
  then show ?case using bank_next_key [of b key vs] bank_next_trans
    by (fastforce split: prod.splits option.splits)
qed

lemma bank_next_inject: "injectStimulusFromFile bits fs path b = (e, b') \<Longrightarrow> bank_next b b'"
  using bank_next_keys [of b] by (auto simp: injectStimulusFromFile_def injectStimulus_def bank_next_refl split: option.splits sum.splits)
    (metis snd_conv)

lemma bank_next_load: "bank_load path content d selection b = (e, b') \<Longrightarrow> bank_next b b'"
  by (auto simp: bank_load_def bank_next_def split: sum.splits)

lemma armed_bank:
  assumes "armReadings fs options b = (None, b')"
  shows "bank_next b b'" and "ReplayPath options = None \<Longrightarrow> InjectPath options = None \<Longrightarrow> b' = b"
    and "ReplayPath options \<noteq> None \<Longrightarrow> mCurrent b' = Scripted"
proof -
  obtain e1 b1 where one: "(case ReplayPath options of None \<Rightarrow> (None, b)
      | Some path \<Rightarrow> bank_load path (fs_texts fs path) (fs_disk fs) (SelectedIds options) b) = (e1, b1)" by force
  with assms have e1: "e1 = None" by (auto simp: armReadings_def split: option.splits)
  have n1: "bank_next b b1"
    using one by (auto simp: bank_next_refl split: option.splits intro: bank_next_load)
  have s1: "ReplayPath options \<noteq> None \<Longrightarrow> mCurrent b1 = Scripted"
    using one e1 by (auto simp: bank_load_def split: sum.splits)
  have n2: "bank_next b1 b'"
    using assms one e1 by (auto simp: armReadings_def bank_next_refl split: option.splits prod.splits intro: bank_next_inject)
  show "bank_next b b'" by (rule bank_next_trans [OF n1 n2])
  show "ReplayPath options = None \<Longrightarrow> InjectPath options = None \<Longrightarrow> b' = b"
    using assms by (simp add: armReadings_def)
  show "ReplayPath options \<noteq> None \<Longrightarrow> mCurrent b' = Scripted"
    using s1 n2 by (auto simp: bank_next_def)
qed

section \<open>The stages before a run\<close>

text \<open>Everything that has happened when a run begins.\<close>

lemma begins_stages:
  assumes "main_outset prog fs argv p = (Begins info logs p', Some options)"
  obtains sel plan bindings w sinks b made where
    "parseOptions (stamp_criteria (prog_build prog)) argv (w_selection (p_world p)) = (Accepted options, sel)"
    "\<not> ShowHelp options" "\<not> DescribeOptions options" "\<not> DescribeCriteria options" "\<not> SafeOnly options" "\<not> ListOnly options"
    "addressPlan (rig_rows (prog_rig prog)) (prog_env prog) options = Inr plan"
    "preflight prog plan (detach_for options ((p_world p)\<lparr>w_selection := sel\<rparr>)) = (Inr bindings, w)"
    "info = run_header prog argv options bindings w"
    "openLogs fs options info = (None, logs, sinks)"
    "start_stream fs options (p_bank p) = Inr (b, made)"
    "armReadings fs options b = (None, p_bank p')"
    "p_world p' = w\<lparr>w_journal := fold journal_add sinks (w_journal w)\<rparr>"
proof -
  obtain acc sel where a: "parseOptions (stamp_criteria (prog_build prog)) argv (w_selection (p_world p)) = (acc, sel)" by force
  with assms have acc: "acc = Accepted options" by (auto simp: main_outset_def Let_def split: accepted.splits)
  let ?p = "p\<lparr>p_world := (p_world p)\<lparr>w_selection := sel\<rparr>\<rparr>"
  from assms a acc have modes: "\<not> ShowHelp options" "\<not> DescribeOptions options" "\<not> DescribeCriteria options" "\<not> SafeOnly options"
      "\<not> ListOnly options" and s: "set_out prog fs argv options ?p = Begins info logs p'"
    by (auto simp: main_outset_def safe_only_def Let_def split: if_splits prod.splits)
  from s obtain plan where plan: "addressPlan (rig_rows (prog_rig prog)) (prog_env prog) options = Inr plan"
    by (auto simp: set_out_def Let_def split: sum.splits)
  obtain r w where f: "preflight prog plan (detach_for options ((p_world p)\<lparr>w_selection := sel\<rparr>)) = (r, w)" by force
  with s plan obtain bindings where r: "r = Inr bindings"
    and o: "open_run fs options (run_header prog argv options bindings w) (p\<lparr>p_world := w\<rparr>) = Begins info logs p'"
    by (cases r) (auto simp: set_out_def Let_def)
  obtain e logs' sinks where l: "openLogs fs options (run_header prog argv options bindings w) = (e, logs', sinks)"
    by (cases "openLogs fs options (run_header prog argv options bindings w)") auto
  with o have "e = None" and d: "open_readings fs options (run_header prog argv options bindings w) logs'
      (p\<lparr>p_world := w\<lparr>w_journal := fold journal_add sinks (w_journal w)\<rparr>, p_files := p_files p @ left_by logs'\<rparr>) = Begins info logs p'"
    by (auto simp: open_run_def split: option.splits)
  obtain b made where st: "start_stream fs options (p_bank p) = Inr (b, made)"
    using d by (cases "start_stream fs options (p_bank p)") (auto simp: open_readings_def)
  obtain e' b' where arm: "armReadings fs options b = (e', b')" by force
  with d st have "e' = None" "info = run_header prog argv options bindings w" "logs = logs'" "p_bank p' = b'"
      "p_world p' = w\<lparr>w_journal := fold journal_add sinks (w_journal w)\<rparr>"
    by (auto simp: open_readings_def split: option.splits)
  with that [OF _ modes plan _ _ _ st _] a acc f r l \<open>e = None\<close> arm show thesis by simp
qed

lemma preflight_keeps:
  "preflight prog plan w = (r, w') \<Longrightarrow> w_bench w' = w_bench w \<and> w_journal w' = w_journal w \<and> w_selection w' = w_selection w"
  by (auto simp: preflight_def Let_def split: prod.splits sum.splits option.splits)

lemma detach_keeps [simp]:
  "mAttached (w_bench (detach_for options w)) = (mAttached (w_bench w) \<and> \<not> fiction options)"
  "w_journal (detach_for options w) = w_journal w" "w_selection (detach_for options w) = w_selection w"
  by (simp_all add: detach_for_def bench_detach_def)

lemma started_bank:
  assumes "start_stream fs options b = Inr (b', made)"
  shows "mCurrent b' = (if SkeletonPath options \<noteq> None then PlaceholderSession else mCurrent b)"
    and "mRecording b' = (mRecording b \<or> RecordPath options \<noteq> None \<or> SkeletonPath options \<noteq> None)"
  using assms
  by (auto simp: start_stream_def streamPath_def openReadingStream_def startRecordingTo_def usePlaceholders_def Let_def
      split: option.splits if_splits)

lemma run_header_bench: "BenchAttached (run_header prog argv options bindings w) = mAttached (w_bench w)"
  by (simp add: run_header_def defaultRunInfo_def Let_def)

lemma run_header_banner: "Instruments (run_header prog argv options bindings w) = bannerLines (rig_rows (prog_rig prog)) bindings"
  by (simp add: run_header_def defaultRunInfo_def Let_def)

lemma detach_rig [simp]: "w_rig (detach_for options w) = w_rig w"
  by (simp add: detach_for_def)

text \<open>What preflight did to the instruments: with no bench it binds addresses and contacts none of them.\<close>

lemma preflight_contacts:
  assumes "preflight prog plan w = (Inr bindings, w')"
  shows "if mAttached (w_bench w)
    then (\<exists>bound h. bindAddresses (prog_rig prog) plan (hardware (w_rig w)) = (Inr bound, h)
           \<and> contactInstruments (prog_rig prog) True bound h = (None, bindings, hardware (w_rig w')))
    else bindAddresses (prog_rig prog) plan (hardware (w_rig w)) = (Inr bindings, hardware (w_rig w'))"
proof (cases "mAttached (w_bench w)")
  case True
  with assms show ?thesis by (auto simp: preflight_def Let_def split: prod.splits sum.splits option.splits)
next
  case False
  then have "contactInstruments (prog_rig prog) (mAttached (w_bench w)) bound h = (None, bound, h)" for bound h
    by (simp add: contactInstruments_def)
  with assms False show ?thesis by (auto simp: preflight_def Let_def split: prod.splits sum.splits)
qed


section \<open>A refused start\<close>

lemma told_added [simp]: "told (fold journal_add sinks j) = told j"
  by (induction sinks arbitrary: j) (simp_all add: journal_add_def)

lemma p_cerr_told [simp]: "told (w_journal (p_world (p_cerr text p))) = told (w_journal (p_world p))"
  by (simp add: p_cerr_def w_cerr_def)

lemma open_readings_ended: "open_readings fs options info logs p = Ended code p' \<Longrightarrow>
    code = 1 \<and> told (w_journal (p_world p')) = told (w_journal (p_world p)) \<and> w_bench (p_world p') = w_bench (p_world p)"
  by (auto simp: open_readings_def p_cerr_def w_cerr_def split: sum.splits option.splits prod.splits)

lemma open_run_ended: "open_run fs options info p = Ended code p' \<Longrightarrow>
    code = 1 \<and> told (w_journal (p_world p')) = told (w_journal (p_world p)) \<and> w_bench (p_world p') = w_bench (p_world p)"
  by (auto simp: open_run_def p_cerr_def w_cerr_def split: option.splits prod.splits dest: open_readings_ended)

lemma open_run_not_terminated: "open_run fs options info p \<noteq> Terminated p'"
  by (auto simp: open_run_def open_readings_def split: option.splits prod.splits sum.splits)

lemma set_out_ended: "set_out prog fs argv options p = Ended code p' \<Longrightarrow>
    code = 1 \<and> told (w_journal (p_world p')) = told (w_journal (p_world p))"
  by (auto simp: set_out_def Let_def p_cerr_def w_cerr_def split: sum.splits prod.splits
      dest!: open_run_ended preflight_keeps)

lemma set_out_not_terminated: "set_out prog fs argv options p \<noteq> Terminated p'"
  by (auto simp: set_out_def Let_def open_run_not_terminated split: sum.splits prod.splits)

text \<open>
  A start that is refused, for whatever reason, exits with one, tells no sink anything, and so no log says
  a test was run.
\<close>

lemma refused_start_tells_nothing:
  "main_outset prog fs argv p = (Ended code p', options) \<Longrightarrow> code \<noteq> 0 \<Longrightarrow>
     code = 1 \<and> told (w_journal (p_world p')) = told (w_journal (p_world p))"
  by (auto simp: main_outset_def safe_only_def Let_def p_cerr_def w_cerr_def split: accepted.splits prod.splits if_splits
      dest!: set_out_ended)

section \<open>The exit status of the program\<close>

definition runs_tests :: "Options \<Rightarrow> bool" where
  "runs_tests options \<longleftrightarrow> \<not> ShowHelp options \<and> \<not> DescribeOptions options \<and> \<not> DescribeCriteria options \<and> \<not> SafeOnly options
     \<and> \<not> ListOnly options"

lemma main_sets_out:
  assumes "parseOptions (stamp_criteria (prog_build prog)) argv (w_selection (p_world p)) = (Accepted options, sel)"
    and "runs_tests options"
  shows "main_outset prog fs argv p = (set_out prog fs argv options (p\<lparr>p_world := (p_world p)\<lparr>w_selection := sel\<rparr>\<rparr>), Some options)"
  using assms by (simp add: main_outset_def runs_tests_def)

lemma begins_trace:
  assumes "main_outset prog fs argv p = (Begins info logs p', Some options)"
  shows "trace_of f (p_world p') = trace_of f (p_world p)"
proof -
  obtain sel plan bindings w sinks where
    pre: "preflight prog plan (detach_for options ((p_world p)\<lparr>w_selection := sel\<rparr>)) = (Inr bindings, w)"
    and w': "p_world p' = w\<lparr>w_journal := fold journal_add sinks (w_journal w)\<rparr>"
    by (rule begins_stages [OF assms])
  from preflight_keeps [OF pre] w' show ?thesis by (simp add: trace_of_def calls_def)
qed

text \<open>
  C1: An exit status of zero from a process that was started to run tests, and not to write a skeleton,
  means that every selected test of every pass passed, in the order of the catalog, that the run was
  told as a passing one, and that the recording, if one was asked for, was written.
\<close>

theorem exit_zero_means_passed:
  assumes "program_main prog fs stream_ok reads argv p = (Some 0, p')"
    and "parseOptions (stamp_criteria (prog_build prog)) argv (w_selection (p_world p)) = (Accepted options, sel)"
    and "runs_tests options" and "SkeletonPath options = None"
  shows "\<exists>held. trace_of verdict_of (p_world p') = trace_of verdict_of (p_world p)
        @ concat (replicate (unat (passCount options)) (pass_verdicts options (Catalog_groups (prog_catalog prog held))))
    \<and> last (calls (p_world p')) = OnRunEnd True
    \<and> (RecordPath options \<noteq> None \<longrightarrow> stream_ok)"
proof -
  note out = main_sets_out [OF assms(2,3)]
  obtain info logs p1 where b: "main_outset prog fs argv p = (Begins info logs p1, Some options)"
    using assms(1) set_out_ended [of prog fs argv options] set_out_not_terminated [of prog fs argv options]
    by (cases "set_out prog fs argv options (p\<lparr>p_world := (p_world p)\<lparr>w_selection := sel\<rparr>\<rparr>)")
       (fastforce simp: program_main_def out)+
  obtain code w where r: "run_suite (prog_members prog) (prog_catalog prog (p_bank p1)) options info stream_ok (p_world p1) = (code, w)"
    by force
  with assms(1,4) b have code: "code = Some 0" and p': "p' = p1\<lparr>p_world := w\<rparr>" by (simp_all add: program_main_def)
  from suite_exit_zero [OF r [unfolded code] assms(4)] begins_trace [OF b, of verdict_of] show ?thesis
    by (intro exI [of _ "p_bank p1"]) (simp add: p')
qed

text \<open>A program on the shelf of four instruments, started with no logs and no console view, and as a skeleton.\<close>

definition shelf_program :: "(address list, unit) Program" where
  "shelf_program =
     \<lparr>prog_build = \<lparr>stamp_criteria = \<lparr>Names = [''Standard''], DefaultVariant = ''Standard'', MasterVariant = ''Standard''\<rparr>,
         stamp_framework = (''1'', ''r''), stamp_names = (''Dut'', ''Shelf''), stamp_versions = ([], [], [])\<rparr>,
      prog_env = (\<lambda>_. None), prog_started = 0, prog_localTime = (\<lambda>_. []), prog_rig = shelf_rig, prog_members = [],
      prog_catalog = (\<lambda>_. sample_catalog True), prog_error_text = (\<lambda>_. [])\<rparr>"

definition open_files :: FileSystem where
  "open_files = \<lparr>fs_create = (\<lambda>_. None), fs_opens = (\<lambda>_. True), fs_absolute = (\<lambda>p. p), fs_texts = (\<lambda>_. None),
     fs_disk = \<lparr>files = (\<lambda>_. None), refuses = (\<lambda>_. False), cut_short = (\<lambda>_. None), denies_directory = (\<lambda>_. None)\<rparr>, fs_bits = (\<lambda>_. 0)\<rparr>"

definition shelf_process :: "address list Process" where
  "shelf_process = \<lparr>p_world = sample_world \<lparr>mUseCount = (\<lambda>_. None), hardware = shelf_start\<rparr>, p_bank = new_bank, p_stdout = [],
     p_files = []\<rparr>"

definition quiet_options :: Options where
  "quiet_options = default_options\<lparr>WriteLogs := False, Quiet := True\<rparr>"

abbreviation quiet_args :: "string list" where
  "quiet_args \<equiv> [''run_scripts'', ''--no-logs'', ''--quiet'']"

lemma quiet_accepted:
  "parseOptions (stamp_criteria (prog_build shelf_program)) quiet_args (w_selection (p_world shelf_process)) =
     (Accepted quiet_options, w_selection (p_world shelf_process))"
  by (simp add: parseOptions_def cli_parse_def Options_members_def plain_flag_def spellingsOf_def value_after_def quiet_options_def
      default_options_def)

lemma shelf_plan: "environmentOverrides (rig_rows shelf_rig) (\<lambda>_. None) = Inr []"
  by code_simp

lemma shelf_preflight:
  "preflight shelf_program no_plan (p_world shelf_process) =
     (Inr shelf_contacted, (p_world shelf_process)\<lparr>w_rig := \<lparr>mUseCount = (\<lambda>_. None), hardware = [Usb ''A'', Usb ''A'', Usb ''B'', Simulated]\<rparr>\<rparr>)"
  using shelf_binds shelf_contacts
  by (simp add: preflight_def shelf_program_def shelf_process_def sample_world_def)

lemma quiet_sets_out:
  "main_outset shelf_program open_files quiet_args shelf_process =
     (open_run open_files quiet_options (run_header shelf_program quiet_args quiet_options shelf_contacted
          ((p_world shelf_process)\<lparr>w_rig := \<lparr>mUseCount = (\<lambda>_. None), hardware = [Usb ''A'', Usb ''A'', Usb ''B'', Simulated]\<rparr>\<rparr>))
        (shelf_process\<lparr>p_world := (p_world shelf_process)\<lparr>w_rig := \<lparr>mUseCount = (\<lambda>_. None),
           hardware = [Usb ''A'', Usb ''A'', Usb ''B'', Simulated]\<rparr>\<rparr>\<rparr>), Some quiet_options)"
proof -
  have r: "runs_tests quiet_options" by (simp add: runs_tests_def quiet_options_def default_options_def)
  have f: "\<not> fiction quiet_options" by (simp add: fiction_def quiet_options_def default_options_def)
  have "addressPlan (rig_rows (prog_rig shelf_program)) (prog_env shelf_program) quiet_options = Inr no_plan"
    using shelf_plan by (simp add: addressPlan_def shelf_program_def quiet_options_def default_options_def no_plan_def environmentSite_def)
  with f shelf_preflight have "set_out shelf_program open_files quiet_args quiet_options shelf_process =
      open_run open_files quiet_options (run_header shelf_program quiet_args quiet_options shelf_contacted
          ((p_world shelf_process)\<lparr>w_rig := \<lparr>mUseCount = (\<lambda>_. None), hardware = [Usb ''A'', Usb ''A'', Usb ''B'', Simulated]\<rparr>\<rparr>))
        (shelf_process\<lparr>p_world := (p_world shelf_process)\<lparr>w_rig := \<lparr>mUseCount = (\<lambda>_. None),
           hardware = [Usb ''A'', Usb ''A'', Usb ''B'', Simulated]\<rparr>\<rparr>\<rparr>)"
    by (simp add: set_out_def detach_for_def)
  with main_sets_out [OF quiet_accepted r, of open_files] show ?thesis by simp
qed

lemma quiet_opens:
  "open_run open_files quiet_options info p = Begins info no_logs p"
  by (simp add: open_run_def openLogs_def quiet_options_def default_options_def open_readings_def start_stream_def streamPath_def
      armReadings_def no_logs_def left_by_def)

lemma quiet_skeleton: "SkeletonPath quiet_options = None"
  by (simp add: quiet_options_def default_options_def)

lemma quiet_program_passes:
  "program_main shelf_program open_files True [] quiet_args shelf_process =
     (Some 0, snd (program_main shelf_program open_files True [] quiet_args shelf_process))"
proof -
  let ?w = "(p_world shelf_process)\<lparr>w_rig := \<lparr>mUseCount = (\<lambda>_. None), hardware = [Usb ''A'', Usb ''A'', Usb ''B'', Simulated]\<rparr>\<rparr>"
  let ?info = "run_header shelf_program quiet_args quiet_options shelf_contacted ?w"
  have "unstopped ?w" by (simp add: unstopped_def shelf_process_def sample_world_def)
  then have "fst (run_suite (prog_members shelf_program) (prog_catalog shelf_program b) quiet_options ?info True ?w) = Some 0" for b
    using clean_suite_exit [OF sample_clean, of ?w quiet_options ?info]
    by (simp add: shelf_program_def quiet_options_def default_options_def unmatchedSelection_def)
  then have "fst (program_main shelf_program open_files True [] quiet_args shelf_process) = Some 0"
    by (simp add: program_main_def quiet_sets_out quiet_opens quiet_skeleton case_prod_beta Let_def)
  then show ?thesis by (metis prod.collapse)
qed

theorem exit_zero_means_passed_witness:
  "\<exists>held. trace_of verdict_of (p_world (snd (program_main shelf_program open_files True [] quiet_args shelf_process))) =
      trace_of verdict_of (p_world shelf_process)
        @ concat (replicate (unat (passCount quiet_options)) (pass_verdicts quiet_options (Catalog_groups (prog_catalog shelf_program held))))
    \<and> last (calls (p_world (snd (program_main shelf_program open_files True [] quiet_args shelf_process)))) = OnRunEnd True"
proof -
  have "runs_tests quiet_options" "SkeletonPath quiet_options = None"
    by (simp_all add: runs_tests_def quiet_options_def default_options_def)
  from exit_zero_means_passed [OF quiet_program_passes quiet_accepted this] show ?thesis by blast
qed

definition quiet_start :: "address list Process" where
  "quiet_start = shelf_process\<lparr>p_world := (p_world shelf_process)\<lparr>w_rig := \<lparr>mUseCount = (\<lambda>_. None),
     hardware = [Usb ''A'', Usb ''A'', Usb ''B'', Simulated]\<rparr>\<rparr>\<rparr>"

definition quiet_info :: RunInfo where
  "quiet_info = run_header shelf_program quiet_args quiet_options shelf_contacted (p_world quiet_start)"

lemma quiet_begins:
  "main_outset shelf_program open_files quiet_args shelf_process = (Begins quiet_info no_logs quiet_start, Some quiet_options)"
  by (simp add: quiet_sets_out quiet_opens quiet_start_def quiet_info_def)


section \<open>A refused replay leaves logs\<close>

text \<open>
  A recording that cannot be loaded refuses the run after the logs were opened: the SARIF sink writes its
  file when main returns, and the RTF file is already there.
\<close>

lemma refused_replay_leaves_logs:
  assumes "openLogs fs options info = (None, logs, sinks)" and "WriteLogs options" and "SkeletonPath options = None"
    and "start_stream fs options (p_bank p) = Inr (held, made)" and "armReadings fs options held = (Some e, held')"
  shows "\<exists>p'. open_run fs options info p = Ended 1 p' \<and> sarif_path options info \<in> set (p_files p')
    \<and> rtf_path options info \<in> set (p_files p')"
proof -
  have "SarifLog logs = Some (sarif_path options info) \<and> RtfLog logs = Some (rtf_path options info)"
    using assms(1-3) by (auto simp: openLogs_def open_reports_def Let_def no_logs_def split: option.splits if_splits prod.splits)
  then show ?thesis using assms(1,4,5) by (simp add: open_run_def open_readings_def p_cerr_def left_by_def)
qed

end
