(* ===== verification/Spec2Isabelle.thy ===== *)
theory Spec2Isabelle
  imports RunnerProperties Replay VerifyEngine PreflightBench ConsoleEvents DcFacts MeterFacts GeneratorFacts ScopeFacts VerbFacts ReportFacts SarifFacts
    ConsoleServerFacts StopSources ProgramFacts
begin

text \<open>
  Thorium (github.com/Rambrant/thorium): a test framework for electronic hardware, in C++. This is
  a library of executable models of its core, translated from the sources, with the theorems that
  make each part correct. Paths below are relative to the repository.

  A suite is a table of test scripts. The runner (framework/runner) runs the selected ones; a script
  applies sources, connects them through a switching fabric to the device under test, measures, and
  verifies readings against criteria. Every such event goes through the journal (framework/core),
  which decides each test's verdict. The rig (framework/hal) is the instruments, the switching
  cards, and the fabric that counts who needs which relay; when a run ends, safing turns every
  output off and opens every relay. The instruments' drivers talk SCPI over a transport, and
  instruments that are faces of one box share its session.

  How the theories follow the code, from the bottom up:

  \<^item> Prelude: lists, maps and texts that the components share, and the lemma collections.
  \<^item> Double: the double values the program reads and compares; std::from_chars and strtod.
  \<^item> SwitchDevice: hal/fabric/switch_device.hpp, the address types, both rigs' device tables. Card
    models, channel numbers and their composite spellings, on 16 and 32 bit words as in the code.
  \<^item> SwitchFabric: hal/fabric/switch_fabric.hpp. The map of use counts and the hardware behind a
    driver that may throw. The abstract view of a fabric is the function \<open>uses\<close>.
  \<^item> Scpi: hal/io/scpi.cpp over a transport that is a parameter, every operation on every branch.
  \<^item> BoxConnection: hal/driver/box_connection.{hpp,cpp} and the box table. shared_ptr and weak_ptr
    are an explicit store of links; reachability is an inductive step relation.
  \<^item> SwitchUnit: instruments/keysight_34980a/src/switch_unit.cpp, the driver of the switching
    mainframe, simulated and on the wire. It refines a set of closed channels with cycle counts.
  \<^item> RigSwitching: hal/src/fabric/rig_switching.cpp. The locales state what the fabric asks of a
    driver, and of the instrument that switches cards; both are interpreted on the dev/ rig.
  \<^item> CoreState: criteria variants, stop request, whether a bench is attached.
  \<^item> Journal: core/src/journal/journal.cpp. What the sinks are told is a list; a reader of that list
    states that the log is consistent.
  \<^item> Safing: hal/src/verbs/safing.cpp, and a record of whom it tells what, which changes nothing of it.
  \<^item> Runner: framework/runner/src/main.cpp from journal().begin() on, and core::Delay.
    A script is a parameter: a function of the state of the bench giving the actions it takes and
    how it ends. Exceptions are values. Destructors are applied on every way out but one: what is no
    std::exception is caught nowhere and ends the process, and then none of them is taken to run.
  \<^item> RunnerFacts, RunnerProperties: invariants of every run (a locale of what an invariant of the
    world has to survive, interpreted three times), the trace of a run, and its properties.

  \<^item> Bytes: core/quantities/bytes.{hpp,cpp}, octet strings and how the log shows them.
  \<^item> Quantity: core/quantities/quantity_kind.{hpp,cpp} and waveform.{hpp,cpp}. A reading of a unit
    is its kind and a double; a trace is its spacing and its samples.
  \<^item> Recording: core/src/session/recording.cpp. Files are a map from paths to texts; the writer
    spills payloads and traces to a sidecar directory, and the reader finds them there. A disk may refuse
    a file, cut a write short or deny the directory.
  \<^item> Session, Replay: core/src/session/session.cpp. Queues of programmed readings per key and the
    bank that arms them. The locale \<open>slot_queues\<close> of Replay states what a replay asks of them.
  \<^item> Stimulus: core/src/session/stimulus.cpp, from the text of a stimulus file to the keys it arms.
  \<^item> Rounding: the nearest double, ties to even, for the sums and differences predicates take.
  \<^item> Criteria: core/criteria/predicates.hpp. A predicate is a datatype; which predicate compiles for
    which type is \<open>callable\<close>, and a call that does not compile is None of \<open>holds\<close>.
  \<^item> Format: core/src/quantities/format.cpp and core/criteria/predicate_text.hpp. The digits that
    std::format prints of a number are a parameter.
  \<^item> AddressPlan: hal/topology/address_plan.cpp and address_tables.cpp, the spellings of --address, the
    environment, and the pool and site tables.
  \<^item> Preflight: hal/src/verbs/preflight.cpp, binding every instrument to an address and asking it who
    it is. The instruments are a list of records of operations over a hardware state.
  \<^item> PreflightBench: the laws a driver's address obeys as the locale \<open>addressed_bench\<close>, interpreted on
    the drivers of dev/rig/instrument.inc over the box connections.
  \<^item> VerifyEngine: core/verbs/verify.hpp, every form of Verify and Fail over the journal.
  \<^item> Json: core/src/journal/json.cpp and webui/src/protocol/json.cpp, the escaper of the program that
    writes and the parser of the program that reads. The parser has fuel, and an outcome for running out.
  \<^item> EventSink: core/src/journal/event_sink.cpp, the run as lines of JSON.
  \<^item> ConsoleEvents: webui/src/protocol/events.cpp, the console's end of that stream.

  \<^item> Wiring: hal/topology/wiring.{hpp,cpp} and both rigs' wiring.inc, which relays stand between which
    endpoints, and the compile-time check that an endpoint's own relay is in no other path.
  \<^item> Verbs: core/verbs/measure.hpp, route.hpp, source.hpp, acquire.hpp, transfer.hpp, trace.hpp and the
    electrical interlock, over the fabric, the journal and the session bank. What a driver does is a
    field of the builder or of the port.
  \<^item> VerbFacts: what every verb keeps, and the step relation of scripts that connect and disconnect.

  \<^item> BoxSession: what the SCPI drivers share, and a transport that keeps the commands it was told.
  \<^item> DcSource, DcFacts: instruments/keysight_edu36311a and hal/verbs/snapshot.hpp, the bench supply.
  \<^item> Meters, MeterFacts: instruments/keysight_edu34450a and the meter of instruments/keysight_34980a.
  \<^item> Generator, GeneratorFacts: instruments/keysight_33522b, the waveform generator.
  \<^item> Scope, ScopeFacts: instruments/keysight_dsox1202g, the oscilloscope: how a capture is armed and
    awaited, what is read from a channel, and the block its samples come in. The polls have the number of
    looks the clock allows as fuel, and time out when it is used up.

  \<^item> Reports, ReportFacts: core/src/journal/report.cpp, human_sink.cpp, console_sink.cpp and rtf_sink.cpp,
    the log as the terminal shows it and as the RTF file keeps it, and a reader of RTF.

  \<^item> Layout: what a reader of JSON makes of a text with white space between its tokens.
  \<^item> Sarif, SarifFacts: core/src/journal/sarif_sink.cpp, the machine log.

  \<^item> Cli: framework/runner/src/cli.hpp, the parser, help text and option model that are generated from
    the annotations of a struct, and the options of run_scripts. A struct is the list of its members.
  \<^item> Program, ProgramFacts: main of framework/runner/src/main.cpp from its first line to its exit
    status: the modes that answer and exit, preflight, the logs and the readings, and then the run.
  \<^item> Console: webui/src/protocol/suite.cpp, options.cpp and command.cpp.
  \<^item> ConsoleFacts: the two ends of the command line against each other: the option model, the commands
    the console builds of it, the list of tests.
  \<^item> ConsoleServer, ConsoleServerFacts: webui/src/child_stream.cpp, run_session.cpp and main.cpp. The
    console is one state, and a step is a request, an event of the child or a turn of a stream, in
    any order. An emergency takes several steps (it kills, its wait ends, it starts --safe, it replies), and
    anything else may happen between them.
  \<^item> StopSources: framework/runner/src/stop_sources.hpp, a stop from a signal or over stdin, and what the
    console writes there.

  What the lemmas show. A run exits with zero only when every selected test of every pass got a
  passing verdict, a clean run does exit with zero, and hooks, teardowns and safing run when they
  should, exceptions included. The journal's verdicts and numbering are right for every sequence of
  events. The fabric is all or nothing on connect, releases everything on disconnect, and with the
  simulated mainframe behind it its books are exactly the relays that are closed. The remaining
  theorems make the parts exact: error queues, shared sessions, channel numbering, box tables. A run that
  ends leaves every instrument told to be safe and then every relay told to open, in that order.
  A recording reads back as the samples that were written and replays as the run it was taken from.
  A stimulus file arms exactly the keys it names, and what the log shows of a payload can be pasted
  into one. Every predicate gives a verdict on every value it compiles for, a reading that is not a
  number passes none but the negated ones, and a test passes exactly when its checks do.
  Preflight binds the faces of a box together, reaches one unit per box and one box per unit, and
  leaves every driver at the address the banner prints.
  However the pipe cuts the event stream of a run, the console is given exactly what the journal was
  told, but for events whose number is not finite, whose lines are not JSON.
  A measurement leaves every relay as it was, throwing included, and is refused before any relay moves
  when it would load a live rail (as the drivers remember it: a Remove that failed is remembered as done); after any sequence of verbs the closed relays are those of the
  instruments that were connected and not disconnected (an instrument at a fixed place, disconnected only while it is held). The log file is a whole document after every
  call and reads as the terminal does; the machine log is JSON that reads as the run, every result with
  its rule. A recorded reading and its log line agree. An Await of the
  oscilloscope answers for its own Arm, and a block of samples that was cut short is refused.

  Bounds. Every function is total; loops with a counter in the code (the error queue is drained at
  most 21 times, the passes of a run) recurse on that counter. Pass counts and sequence numbers are
  64 bit words. The fuel of the JSON parser
  is twice the length of its text and one, and more changes nothing. The reader of a quoted payload terminates because every step moves on in its text. Use counts and tallies are unbounded integers where the code has int or size_t.

  A request made in the console, of settings that go together, becomes a command line run_scripts takes to
  mean it. A page is sent every line the run it was opened in wrote to either pipe, and an emergency always
  runs --safe. Whatever the options, main leaves a bench alone whose readings come from elsewhere: it
  binds addresses, contacts no instrument and safes none, and says so in the header; such readings are
  not recorded as if they had been observed.

  Not modelled: the depth of the native stack (the JSON parser of the console recurses once for each level
  of nesting, with no limit of its own), what unwinding does for an exception nothing catches, operating
  system I/O (sockets, VISA, files, pipes, fork and exec) beyond whether it succeeds, formatting of numbers by std::format, compile-time reflection beyond the tables it
  produces, the drivers of the PicoScope and of the generator inside the oscilloscope, the Windows half of the console's processes and the routing
  of its HTTP library, the launcher, and the test suites themselves, which are the users of the
  framework.
\<close>

end
